(* ===== verification/Go_Prelude.thy ===== *)
theory Go_Prelude
  imports Complex_Main "HOL-Library.Word" "HOL-Library.Char_ord" "HOL-Library.List_Lexorder"
    "HOL-Library.Multiset" "HOL-Library.AList" "HOL-Library.While_Combinator"
begin

text \<open>
  The part of the Go language and of its standard library that the modelled packages use,
  with the lemmas every component shares.

  Strings are byte strings (\<^typ>\<open>string\<close>), ordered byte by byte as Go's \<open><\<close> orders them.
  \<open>strings.ToLower\<close>, \<open>ToUpper\<close>, \<open>TrimSpace\<close> and \<open>EqualFold\<close> are given for ASCII text, the
  alphabet of host names, identifiers, statuses and source names: a byte of 128 or more is
  left as it is, where Go would also fold non-ASCII letters and trim non-ASCII blanks.

  \<open>sort.Strings\<close> is \<^const>\<open>sort\<close> (the order on strings is total, so stability does not matter).
  \<open>sort.SliceStable\<close> is \<open>SliceStable\<close> below; the locale \<open>strict_weak_order\<close> shows that its
  result is the only stable sorted rearrangement, so it is what any correct stable sort returns.

  A \<open>time.Time\<close> is its instant, in nanoseconds since Go's zero time, so that \<open>IsZero\<close> is
  \<open>= 0\<close> and \<open>Equal\<close>, \<open>Before\<close> and \<open>After\<close> are \<open>=\<close>, \<open><\<close> and \<open>>\<close>.

  A \<open>float64\<close> confidence is the rational number it denotes. The program only compares and
  copies confidences, so no rounding takes place; NaN is excluded (every confidence is a
  constant or comes out of a JSON document, which cannot hold one).
\<close>

named_theorems go_str \<open>normalisation of strings\<close>
named_theorems go_frame \<open>fields an operation leaves alone\<close>

type_synonym gotime = int
type_synonym float64 = rat

section \<open>Strings\<close>

definition is_space :: "char \<Rightarrow> bool" where
  "is_space c \<longleftrightarrow> (of_char c :: nat) \<in> {9, 10, 11, 12, 13, 32}"

definition lower_char :: "char \<Rightarrow> char" where
  "lower_char c = (let n = (of_char c :: nat) in if 65 \<le> n \<and> n \<le> 90 then char_of (n + 32) else c)"

definition upper_char :: "char \<Rightarrow> char" where
  "upper_char c = (let n = (of_char c :: nat) in if 97 \<le> n \<and> n \<le> 122 then char_of (n - 32) else c)"

definition ToLower :: "string \<Rightarrow> string" where
  "ToLower s = map lower_char s"

definition ToUpper :: "string \<Rightarrow> string" where
  "ToUpper s = map upper_char s"

definition TrimLeft :: "string \<Rightarrow> string" where
  "TrimLeft s = dropWhile is_space s"

definition TrimSpace :: "string \<Rightarrow> string" where
  "TrimSpace s = rev (TrimLeft (rev (TrimLeft s)))"

definition EqualFold :: "string \<Rightarrow> string \<Rightarrow> bool" where
  "EqualFold s t \<longleftrightarrow> ToLower s = ToLower t"

definition HasPrefix :: "string \<Rightarrow> string \<Rightarrow> bool" where
  "HasPrefix s p \<longleftrightarrow> take (length p) s = p"

definition HasSuffix :: "string \<Rightarrow> string \<Rightarrow> bool" where
  "HasSuffix s p \<longleftrightarrow> length p \<le> length s \<and> drop (length s - length p) s = p"

definition TrimPrefix :: "string \<Rightarrow> string \<Rightarrow> string" where
  "TrimPrefix s p = (if HasPrefix s p then drop (length p) s else s)"

definition TrimSuffix :: "string \<Rightarrow> string \<Rightarrow> string" where
  "TrimSuffix s p = (if HasSuffix s p then take (length s - length p) s else s)"

fun Contains :: "string \<Rightarrow> string \<Rightarrow> bool" where
  "Contains [] p = (p = [])"
| "Contains (c # s) p = (HasPrefix (c # s) p \<or> Contains s p)"

text \<open>\<open>strings.Split\<close> for a separator of one byte: never empty, \<open>n\<close> separators give \<open>n + 1\<close> parts.\<close>

fun Split :: "string \<Rightarrow> char \<Rightarrow> string list" where
  "Split [] sep = [[]]"
| "Split (c # s) sep =
     (if c = sep then [] # Split s sep
      else case Split s sep of [] \<Rightarrow> [[c]] | p # ps \<Rightarrow> (c # p) # ps)"

fun Join :: "string list \<Rightarrow> string \<Rightarrow> string" where
  "Join [] sep = []"
| "Join [p] sep = p"
| "Join (p # q # ps) sep = p @ sep @ Join (q # ps) sep"

text \<open>\<open>strings.ReplaceAll\<close> for one byte by one byte.\<close>

definition ReplaceChar :: "char \<Rightarrow> char \<Rightarrow> string \<Rightarrow> string" where
  "ReplaceChar a b s = map (\<lambda>c. if c = a then b else c) s"

text \<open>\<open>strings.ToLower(strings.TrimSpace(s))\<close> and its mirror image, the program's commonest idiom.\<close>

definition norm_str :: "string \<Rightarrow> string" where
  "norm_str s = ToLower (TrimSpace s)"

text \<open>\<open>%q\<close>, \<open>strconv.Quote\<close>, of ASCII text; a byte of 128 or more is left as it is.\<close>

definition hexDigit :: "nat \<Rightarrow> char" where
  "hexDigit n = char_of (if n < 10 then 48 + n else 87 + n)"

definition quoteChar :: "char \<Rightarrow> string" where
  "quoteChar c =
     (let n = (of_char c :: nat)
      in if n = 34 \<or> n = 92 then [CHR 0x5C, c]
         else if n = 7 then [CHR 0x5C, CHR ''a''] else if n = 8 then [CHR 0x5C, CHR ''b'']
         else if n = 9 then [CHR 0x5C, CHR ''t''] else if n = 10 then [CHR 0x5C, CHR ''n'']
         else if n = 11 then [CHR 0x5C, CHR ''v''] else if n = 12 then [CHR 0x5C, CHR ''f'']
         else if n = 13 then [CHR 0x5C, CHR ''r'']
         else if n < 32 \<or> n = 127 then [CHR 0x5C, CHR ''x'', hexDigit (n div 16), hexDigit (n mod 16)]
         else [c])"

definition Quote :: "string \<Rightarrow> string" where
  "Quote s = [CHR 0x22] @ concat (map quoteChar s) @ [CHR 0x22]"

text \<open>\<open>%d\<close>.\<close>

fun show_nat :: "nat \<Rightarrow> string" where
  "show_nat n = (if n < 10 then [char_of (48 + n)] else show_nat (n div 10) @ [char_of (48 + n mod 10)])"

declare show_nat.simps [simp del]

definition show_int :: "int \<Rightarrow> string" where
  "show_int i = (if i < 0 then CHR ''-'' # show_nat (nat (- i)) else show_nat (nat i))"

subsection \<open>Lemmas on strings\<close>

lemma lower_char_idem [simp]: "lower_char (lower_char c) = lower_char c"
  by (auto simp: lower_char_def Let_def)

lemma lower_char_comma: "lower_char c = CHR '','' \<longleftrightarrow> c = CHR '',''"
proof -
  have "lower_char c \<noteq> CHR '',''" if c: "(65::nat) \<le> of_char c" "(of_char c :: nat) \<le> 90"
  proof -
    have "(of_char (lower_char c) :: nat) = of_char c + 32" using c by (simp add: lower_char_def Let_def)
    then have "(of_char (lower_char c) :: nat) \<noteq> of_char CHR '',''" using c by simp
    then show ?thesis by metis
  qed
  then show ?thesis by (auto simp: lower_char_def Let_def)
qed

lemma is_space_lower_char [simp]: "is_space (lower_char c) = is_space c"
  by (auto simp: is_space_def lower_char_def Let_def)

lemma ToLower_Nil [simp]: "ToLower [] = []"
  by (simp add: ToLower_def)

lemma ToLower_eq_Nil_iff [simp]: "ToLower s = [] \<longleftrightarrow> s = []"
  by (simp add: ToLower_def)

lemma length_ToLower [simp]: "length (ToLower s) = length s"
  by (simp add: ToLower_def)

lemma ToLower_idem [simp, go_str]: "ToLower (ToLower s) = ToLower s"
  by (simp add: ToLower_def comp_def)

lemma ToLower_append: "ToLower (s @ t) = ToLower s @ ToLower t"
  by (simp add: ToLower_def)

lemma TrimLeft_ToLower: "TrimLeft (ToLower s) = ToLower (TrimLeft s)"
  by (simp add: TrimLeft_def ToLower_def dropWhile_map comp_def)

lemma ToLower_rev: "ToLower (rev s) = rev (ToLower s)"
  by (simp add: ToLower_def rev_map)

lemma TrimSpace_Nil [simp]: "TrimSpace [] = []"
  by (simp add: TrimSpace_def TrimLeft_def)

lemma TrimSpace_ToLower [go_str]: "TrimSpace (ToLower s) = ToLower (TrimSpace s)"
  by (simp add: TrimSpace_def TrimLeft_ToLower flip: ToLower_rev)

lemma TrimLeft_idem [simp]: "TrimLeft (TrimLeft s) = TrimLeft s"
  by (simp add: TrimLeft_def)

lemma TrimLeft_fixed_iff: "TrimLeft s = s \<longleftrightarrow> (s = [] \<or> \<not> is_space (hd s))"
  by (cases s) (auto simp: TrimLeft_def dest: arg_cong [where f = length],
      metis Suc_n_not_le_n length_Cons length_dropWhile_le)

lemma TrimLeft_suffix: "\<exists>p. s = p @ TrimLeft s \<and> (\<forall>c \<in> set p. is_space c)"
  using set_takeWhileD [of _ is_space s]
  by (metis TrimLeft_def takeWhile_dropWhile_id)

lemma TrimSpace_hd: "TrimSpace s \<noteq> [] \<Longrightarrow> hd (TrimSpace s) = hd (TrimLeft s)"
proof -
  assume ne: "TrimSpace s \<noteq> []"
  obtain p where "rev (TrimLeft s) = p @ TrimLeft (rev (TrimLeft s))"
    using TrimLeft_suffix by blast
  then have "TrimLeft s = TrimSpace s @ rev p"
    by (metis TrimSpace_def rev_append rev_rev_ident)
  with ne show ?thesis by (metis hd_append2)
qed

lemma TrimSpace_idem [simp, go_str]: "TrimSpace (TrimSpace s) = TrimSpace s"
proof (cases "TrimSpace s = []")
  case True
  then show ?thesis by simp
next
  case False
  have "TrimLeft s = [] \<or> \<not> is_space (hd (TrimLeft s))"
    using TrimLeft_fixed_iff [of "TrimLeft s"] by simp
  with False have "\<not> is_space (hd (TrimSpace s))"
    by (metis TrimSpace_hd TrimLeft_idem TrimSpace_Nil TrimSpace_def)
  then have "TrimLeft (TrimSpace s) = TrimSpace s"
    by (simp add: TrimLeft_fixed_iff)
  then show ?thesis
    by (metis TrimLeft_idem TrimSpace_def rev_rev_ident)
qed

lemma norm_str_Nil [simp]: "norm_str [] = []"
  by (simp add: norm_str_def)

lemma norm_str_idem [simp, go_str]: "norm_str (norm_str s) = norm_str s"
  by (simp add: norm_str_def TrimSpace_ToLower)

lemma norm_str_TrimSpace [simp, go_str]: "norm_str (TrimSpace s) = norm_str s"
  by (simp add: norm_str_def)

lemma norm_str_ToLower [simp, go_str]: "norm_str (ToLower s) = norm_str s"
  by (simp add: norm_str_def TrimSpace_ToLower)

lemma TrimSpace_norm_str [simp, go_str]: "TrimSpace (norm_str s) = norm_str s"
  by (simp add: norm_str_def TrimSpace_ToLower)

lemma ToLower_norm_str [simp, go_str]: "ToLower (norm_str s) = norm_str s"
  by (simp add: norm_str_def)

lemma HasPrefix_append [simp]: "HasPrefix (p @ s) p"
  by (simp add: HasPrefix_def)

lemma HasPrefix_iff: "HasPrefix s p \<longleftrightarrow> (\<exists>t. s = p @ t)"
  by (metis HasPrefix_append HasPrefix_def append_take_drop_id)

lemma HasSuffix_append [simp]: "HasSuffix (s @ p) p"
  by (simp add: HasSuffix_def)

lemma Split_nonempty [simp]: "Split s sep \<noteq> []"
  by (induction s) (auto split: list.splits)

lemma Split_no_sep: "p \<in> set (Split s sep) \<Longrightarrow> sep \<notin> set p"
proof (induction s arbitrary: p)
  case Nil
  then show ?case by simp
next
  case (Cons c s)
  show ?case
  proof (cases "Split s sep")
    case Nil
    then show ?thesis by simp
  next
    case (Cons q qs)
    with Cons.IH Cons.prems show ?thesis by (auto split: if_splits)
  qed
qed

lemma Split_fresh: "sep \<notin> set p \<Longrightarrow> Split p sep = [p]"
  by (induction p) auto

lemma Split_append_sep: "sep \<notin> set p \<Longrightarrow> Split (p @ sep # s) sep = p # Split s sep"
  by (induction p) auto

text \<open>Splitting what was joined gives the parts back, when no part holds the separator.\<close>

lemma Split_Join:
  assumes "ps \<noteq> []" and "\<forall>p \<in> set ps. sep \<notin> set p"
  shows "Split (Join ps [sep]) sep = ps"
  using assms
  by (induction ps "[sep]" rule: Join.induct) (auto simp: Split_fresh Split_append_sep)

lemma Join_inject:
  assumes "\<forall>p \<in> set ps. sep \<notin> set p" and "\<forall>p \<in> set qs. sep \<notin> set p"
    and "ps \<noteq> []" and "qs \<noteq> []" and "Join ps [sep] = Join qs [sep]"
  shows "ps = qs"
  using assms Split_Join by metis

lemma Join_eq_Nil_iff: "\<forall>p \<in> set ps. p \<noteq> [] \<Longrightarrow> Join ps sep = [] \<longleftrightarrow> ps = []"
  by (cases "(ps, sep)" rule: Join.cases) auto

section \<open>Decimal numbers\<close>

lemma show_nat_nonempty [simp]: "show_nat n \<noteq> []"
  by (subst show_nat.simps) simp

definition is_digit :: "char \<Rightarrow> bool" where
  "is_digit c \<longleftrightarrow> 48 \<le> (of_char c :: nat) \<and> (of_char c :: nat) \<le> 57"

lemma show_nat_digits: "c \<in> set (show_nat n) \<Longrightarrow> is_digit c"
proof (induction n rule: show_nat.induct)
  case (1 n)
  show ?case
  proof (cases "n < 10")
    case True
    with "1.prems" show ?thesis by (auto simp: is_digit_def show_nat.simps [of n])
  next
    case False
    have "(48 + n mod 10) mod 256 = 48 + n mod 10" by simp
    with False "1.prems" "1.IH" show ?thesis
      by (auto simp: show_nat.simps [of n] is_digit_def)
  qed
qed

fun read_nat :: "nat \<Rightarrow> string \<Rightarrow> nat" where
  "read_nat acc [] = acc"
| "read_nat acc (c # s) = read_nat (10 * acc + (of_char c - 48)) s"

lemma read_nat_append: "read_nat acc (s @ t) = read_nat (read_nat acc s) t"
  by (induction s arbitrary: acc) auto

lemma read_show_nat: "read_nat 0 (show_nat n) = n"
proof (induction n rule: show_nat.induct)
  case (1 n)
  show ?case
  proof (cases "n < 10")
    case True
    then show ?thesis by (simp add: show_nat.simps [of n])
  next
    case False
    with "1.IH" show ?thesis by (simp add: show_nat.simps [of n] read_nat_append)
  qed
qed

lemma show_nat_inject [simp]: "show_nat m = show_nat n \<longleftrightarrow> m = n"
  by (metis read_show_nat)

lemma show_nat_no_dash: "CHR ''-'' \<notin> set (show_nat n)"
  using show_nat_digits by (fastforce simp: is_digit_def)

end
