(* ===== verification/Go_Sort.thy ===== *)
theory Go_Sort
  imports Go_Prelude
begin

text \<open>
  Sorting and de-duplication as the Go code does them: \<open>sort.SliceStable\<close> over a \<open>less\<close>
  closure, and the loop that keeps an element when its key is not yet in a \<open>seen\<close> map.
\<close>

section \<open>sort.SliceStable\<close>

fun insert_stable :: "('a \<Rightarrow> 'a \<Rightarrow> bool) \<Rightarrow> 'a \<Rightarrow> 'a list \<Rightarrow> 'a list" where
  "insert_stable lt x [] = [x]"
| "insert_stable lt x (y # ys) =
     (if lt y x then y # insert_stable lt x ys else x # y # ys)"

definition SliceStable :: "('a \<Rightarrow> 'a \<Rightarrow> bool) \<Rightarrow> 'a list \<Rightarrow> 'a list" where
  "SliceStable lt xs = foldr (insert_stable lt) xs []"

lemma SliceStable_Nil [simp]: "SliceStable lt [] = []"
  by (simp add: SliceStable_def)

lemma SliceStable_Cons [simp]:
  "SliceStable lt (x # xs) = insert_stable lt x (SliceStable lt xs)"
  by (simp add: SliceStable_def)

lemma mset_insert_stable [simp]: "mset (insert_stable lt x ys) = add_mset x (mset ys)"
  by (induction ys) auto

lemma mset_SliceStable [simp]: "mset (SliceStable lt xs) = mset xs"
  by (induction xs) auto

lemma set_SliceStable [simp]: "set (SliceStable lt xs) = set xs"
  by (metis mset_SliceStable set_mset_mset)

lemma length_SliceStable [simp]: "length (SliceStable lt xs) = length xs"
  by (metis mset_SliceStable size_mset)

lemma SliceStable_eq_Nil_iff [simp]: "SliceStable lt xs = [] \<longleftrightarrow> xs = []"
  by (metis length_0_conv length_SliceStable)

lemma distinct_map_SliceStable [simp]:
  "distinct (map f (SliceStable lt xs)) \<longleftrightarrow> distinct (map f xs)"
  by (metis mset_SliceStable mset_eq_imp_distinct_iff mset_map)

text \<open>
  The contract a \<open>less\<close> closure owes to \<open>sort\<close>: a strict weak ordering. Under it the sort
  is determined: its result is sorted, keeps the order of equivalent elements, and is the only
  such rearrangement of the input.
\<close>

locale strict_weak_order =
  fixes lt :: "'a \<Rightarrow> 'a \<Rightarrow> bool"
  assumes irrefl: "\<not> lt x x"
    and lt_trans: "lt x y \<Longrightarrow> lt y z \<Longrightarrow> lt x z"
    and neg_trans: "\<not> lt x y \<Longrightarrow> \<not> lt y z \<Longrightarrow> \<not> lt x z"
begin

lemma asym: "lt x y \<Longrightarrow> \<not> lt y x"
  using irrefl lt_trans by blast

lemma sorted_insert_stable:
  "sorted_wrt (\<lambda>a b. \<not> lt b a) ys \<Longrightarrow> sorted_wrt (\<lambda>a b. \<not> lt b a) (insert_stable lt x ys)"
proof (induction ys)
  case Nil
  then show ?case by simp
next
  case (Cons y ys)
  have sub: "set (insert_stable lt x ys) = insert x (set ys)"
    by (metis mset_insert_stable set_mset_add_mset_insert set_mset_mset)
  show ?case
  proof (cases "lt y x")
    case True
    with Cons sub show ?thesis by (auto dest: asym)
  next
    case False
    with Cons.prems show ?thesis using neg_trans by fastforce
  qed
qed

lemma sorted_SliceStable: "sorted_wrt (\<lambda>a b. \<not> lt b a) (SliceStable lt xs)"
  by (induction xs) (auto simp: sorted_insert_stable)

definition tied :: "'a \<Rightarrow> 'a \<Rightarrow> bool" where
  "tied x y \<longleftrightarrow> \<not> lt x y \<and> \<not> lt y x"

lemma tied_refl [simp]: "tied x x"
  by (simp add: tied_def irrefl)

lemma filter_insert_stable:
  "filter (tied z) (insert_stable lt x ys) = filter (tied z) (x # ys)"
proof (induction ys)
  case (Cons y ys)
  have "lt y x \<Longrightarrow> \<not> (tied z x \<and> tied z y)"
    using neg_trans [of y z x] by (auto simp: tied_def)
  with Cons show ?case by auto
qed simp

lemma stable_SliceStable: "filter (tied z) (SliceStable lt xs) = filter (tied z) xs"
  by (induction xs) (auto simp: filter_insert_stable)

lemma sorted_tied_unique:
  assumes "sorted_wrt (\<lambda>a b. \<not> lt b a) xs" and "sorted_wrt (\<lambda>a b. \<not> lt b a) ys"
    and "mset xs = mset ys" and "\<And>z. filter (tied z) xs = filter (tied z) ys"
  shows "xs = ys"
  using assms
proof (induction xs arbitrary: ys)
  case Nil
  then show ?case by simp
next
  case (Cons x xs)
  then obtain y ys' where ys: "ys = y # ys'"
    by (metis list.exhaust mset_zero_iff_right mset.simps(1) list.distinct(1))
  have "x \<in> set ys" and "y \<in> set (x # xs)"
    using Cons.prems(3) ys by (metis list.set_intros(1) set_mset_mset)+
  then have "tied x y"
    using Cons.prems(1,2) ys by (auto simp: tied_def irrefl)
  then have "x = y"
    using Cons.prems(4) [of x] ys by simp
  moreover have "xs = ys'"
  proof (rule Cons.IH)
    show "filter (tied z) xs = filter (tied z) ys'" for z
      using Cons.prems(4) [of z] ys \<open>x = y\<close> by (simp split: if_splits)
    show "sorted_wrt (\<lambda>a b. \<not> lt b a) xs" using Cons.prems(1) by simp
    show "sorted_wrt (\<lambda>a b. \<not> lt b a) ys'" using Cons.prems(2) ys by simp
    show "mset xs = mset ys'" using Cons.prems(3) ys \<open>x = y\<close> by simp
  qed
  ultimately show ?case using ys by simp
qed

lemma SliceStable_unique:
  assumes "sorted_wrt (\<lambda>a b. \<not> lt b a) ys" and "mset ys = mset xs"
    and "\<And>z. filter (tied z) ys = filter (tied z) xs"
  shows "ys = SliceStable lt xs"
proof (rule sorted_tied_unique)
  show "mset ys = mset (SliceStable lt xs)" using assms(2) by simp
  show "filter (tied z) ys = filter (tied z) (SliceStable lt xs)" for z
    by (simp only: assms(3) stable_SliceStable)
qed (rule assms(1), rule sorted_SliceStable)

lemma SliceStable_idem: "SliceStable lt (SliceStable lt xs) = SliceStable lt xs"
  by (rule SliceStable_unique [symmetric])
    (simp_all only: sorted_SliceStable mset_SliceStable stable_SliceStable)

end

text \<open>A closure that compares keys of a linear order meets the contract, and sorts as \<^const>\<open>sort_key\<close>.\<close>

lemma strict_weak_order_key:
  fixes f :: "'a \<Rightarrow> 'b::linorder"
  assumes "\<And>x y. lt x y \<longleftrightarrow> f x < f y"
  shows "strict_weak_order lt"
  by unfold_locales (auto simp: assms)

lemma SliceStable_sort_key:
  fixes f :: "'a \<Rightarrow> 'b::linorder"
  assumes "\<And>x y. lt x y \<longleftrightarrow> f x < f y"
  shows "SliceStable lt xs = sort_key f xs"
proof (induction xs)
  case (Cons x xs)
  have "insert_stable lt x ys = insort_key f x ys" for ys
    by (induction ys) (auto simp: assms)
  with Cons show ?case by simp
qed simp

section \<open>The seen-map loop\<close>

fun uniqueBy :: "('a \<Rightarrow> 'k) \<Rightarrow> 'k set \<Rightarrow> 'a list \<Rightarrow> 'a list" where
  "uniqueBy f seen [] = []"
| "uniqueBy f seen (x # xs) =
     (if f x \<in> seen then uniqueBy f seen xs else x # uniqueBy f (insert (f x) seen) xs)"

lemma set_uniqueBy_subset: "set (uniqueBy f seen xs) \<subseteq> set xs"
  by (induction xs arbitrary: seen) auto

lemma keys_uniqueBy: "f ` set (uniqueBy f seen xs) = f ` set xs - seen"
  by (induction xs arbitrary: seen) auto

lemma uniqueBy_not_seen: "x \<in> set (uniqueBy f seen xs) \<Longrightarrow> f x \<notin> seen"
  using keys_uniqueBy [of f seen xs] by auto

lemma distinct_uniqueBy: "distinct (map f (uniqueBy f seen xs))"
proof (induction xs arbitrary: seen)
  case (Cons x xs)
  then show ?case using uniqueBy_not_seen by fastforce
qed simp

lemma uniqueBy_fixed:
  "distinct (map f xs) \<Longrightarrow> f ` set xs \<inter> seen = {} \<Longrightarrow> uniqueBy f seen xs = xs"
  by (induction xs arbitrary: seen) auto

lemma uniqueBy_append:
  "uniqueBy f seen (xs @ ys) = uniqueBy f seen xs @ uniqueBy f (seen \<union> f ` set xs) ys"
  by (induction xs arbitrary: seen) (auto simp: insert_absorb)

definition sortUnique :: "'a::linorder list \<Rightarrow> 'a list" where
  "sortUnique xs = sort (uniqueBy (\<lambda>x. x) {} xs)"

lemma set_sortUnique [simp]: "set (sortUnique xs) = set xs"
  using keys_uniqueBy [of "\<lambda>x. x" "{}" xs] by (simp add: sortUnique_def)

lemma distinct_sortUnique [simp]: "distinct (sortUnique xs)"
  using distinct_uniqueBy [of "\<lambda>x. x" "{}" xs] by (simp add: sortUnique_def)

lemma sorted_sortUnique [simp]: "sorted (sortUnique xs)"
  by (simp add: sortUnique_def)

lemma sortUnique_cong: "set xs = set ys \<Longrightarrow> sortUnique xs = sortUnique ys"
  by (rule sorted_distinct_set_unique) auto

lemma sortUnique_idem [simp]: "sortUnique (sortUnique xs) = sortUnique xs"
  by (rule sortUnique_cong) simp

lemma sortUnique_eq_Nil_iff [simp]: "sortUnique xs = [] \<longleftrightarrow> xs = []"
  by (metis set_empty set_sortUnique)

lemma sortUnique_Nil [simp]: "sortUnique [] = []"
  by simp

lemma sortUnique_sorted: "sorted xs \<Longrightarrow> distinct xs \<Longrightarrow> sortUnique xs = xs"
  by (rule sorted_distinct_set_unique) auto

section \<open>Index maps\<close>

text \<open>The loop \<open>for i, x := range xs { m[f(x)] = i }\<close>: a later element overwrites an earlier one.\<close>

fun indexBy :: "('a \<Rightarrow> 'k) \<Rightarrow> nat \<Rightarrow> 'a list \<Rightarrow> ('k \<rightharpoonup> nat) \<Rightarrow> ('k \<rightharpoonup> nat)" where
  "indexBy f i [] m = m"
| "indexBy f i (x # xs) m = indexBy f (Suc i) xs (m(f x \<mapsto> i))"

text \<open>\<open>m\<close> is exactly the position of each key: this forces the keys to be distinct.\<close>

definition is_index :: "('a \<Rightarrow> 'k) \<Rightarrow> 'a list \<Rightarrow> ('k \<rightharpoonup> nat) \<Rightarrow> bool" where
  "is_index f xs m \<longleftrightarrow> (\<forall>k i. m k = Some i \<longleftrightarrow> i < length xs \<and> f (xs ! i) = k)"

lemma is_indexD: "is_index f xs m \<Longrightarrow> m k = Some i \<Longrightarrow> i < length xs \<and> f (xs ! i) = k"
  by (simp add: is_index_def)

lemma is_index_Some: "is_index f xs m \<Longrightarrow> i < length xs \<Longrightarrow> m (f (xs ! i)) = Some i"
  by (simp add: is_index_def)

lemma is_index_None_iff:
  assumes "is_index f xs m"
  shows "m k = None \<longleftrightarrow> k \<notin> f ` set xs"
proof
  assume "m k = None"
  then show "k \<notin> f ` set xs"
    using is_index_Some [OF assms] by (force simp: in_set_conv_nth)
next
  assume *: "k \<notin> f ` set xs"
  show "m k = None"
  proof (cases "m k")
    case (Some i)
    from is_indexD [OF assms Some] * show ?thesis by (auto dest: nth_mem)
  qed
qed

lemma is_index_distinct:
  assumes "is_index f xs m"
  shows "distinct (map f xs)"
proof (simp add: distinct_conv_nth, intro allI impI)
  fix i j
  assume "i < length xs" "j < length xs" "i \<noteq> j"
  then show "f (xs ! i) \<noteq> f (xs ! j)"
    using is_index_Some [OF assms, of i] is_index_Some [OF assms, of j] by auto
qed

lemma is_index_empty [simp]: "is_index f [] Map.empty"
  by (simp add: is_index_def)

lemma is_index_snoc:
  assumes "is_index f xs m" and "f x \<notin> f ` set xs"
  shows "is_index f (xs @ [x]) (m(f x \<mapsto> length xs))"
  unfolding is_index_def
proof (intro allI)
  fix k i
  have new: "i < length xs \<Longrightarrow> f (xs ! i) \<noteq> f x" for i
    using assms(2) by (metis image_eqI nth_mem)
  have old: "m k = Some i \<longleftrightarrow> i < length xs \<and> f (xs ! i) = k"
    using assms(1) by (simp add: is_index_def)
  show "(m(f x \<mapsto> length xs)) k = Some i \<longleftrightarrow> i < length (xs @ [x]) \<and> f ((xs @ [x]) ! i) = k"
    using old new [of i] by (cases "i < length xs"; cases "i = length xs") (auto simp: nth_append)
qed

lemma is_index_update:
  assumes "is_index f xs m" and "i < length xs \<Longrightarrow> f y = f (xs ! i)"
  shows "is_index f (xs[i := y]) m"
proof -
  have "f (xs[i := y] ! j) = f (xs ! j)" if "j < length xs" for j
    using assms(2) that by (cases "j = i") auto
  then show ?thesis
    using assms(1) unfolding is_index_def by (simp cong: conj_cong)
qed

lemma indexBy_other: "k \<notin> f ` set xs \<Longrightarrow> indexBy f i xs m k = m k"
  by (induction xs arbitrary: i m) auto

lemma indexBy_nth:
  "distinct (map f xs) \<Longrightarrow> j < length xs \<Longrightarrow> indexBy f i xs m (f (xs ! j)) = Some (i + j)"
proof (induction xs arbitrary: i j m)
  case (Cons x xs)
  then show ?case by (cases j) (auto simp: indexBy_other)
qed simp

lemma is_index_indexBy:
  assumes "distinct (map f xs)"
  shows "is_index f xs (indexBy f 0 xs Map.empty)"
  unfolding is_index_def
proof (intro allI iffI)
  fix k i
  assume *: "indexBy f 0 xs Map.empty k = Some i"
  then have "k \<in> f ` set xs" using indexBy_other [of k f xs 0 Map.empty] by force
  then obtain j where "j < length xs" "f (xs ! j) = k" by (auto simp: in_set_conv_nth)
  with * indexBy_nth [OF assms, of j 0 Map.empty] show "i < length xs \<and> f (xs ! i) = k" by auto
next
  fix k i
  assume "i < length xs \<and> f (xs ! i) = k"
  with indexBy_nth [OF assms, of i 0 Map.empty] show "indexBy f 0 xs Map.empty k = Some i" by auto
qed

lemma indexBy_snoc: "indexBy f i (xs @ [x]) m = (indexBy f i xs m)(f x \<mapsto> i + length xs)"
  by (induction xs arbitrary: i m) auto

lemma indexBy_bound: "indexBy f 0 xs Map.empty k = Some i \<Longrightarrow> i < length xs \<and> f (xs ! i) = k"
proof (induction xs rule: rev_induct)
  case (snoc x xs)
  then show ?case by (auto simp: indexBy_snoc nth_append split: if_splits)
qed simp

lemma indexBy_dom: "indexBy f 0 xs Map.empty k = None \<longleftrightarrow> k \<notin> f ` set xs"
  by (induction xs rule: rev_induct) (auto simp: indexBy_snoc)

end
