(* ===== verification/Go_Time.thy ===== *)
theory Go_Time
  imports Go_Prelude
begin

text \<open>
  The calendar behind \<open>time.Time.Format\<close>: days since 1 January of year 1 to a civil date, and the
  layouts the program formats with. A layout that prints in the value's own zone takes the
  zone's offset (seconds east of UTC at that instant) as the parameter \<open>zone\<close>.
\<close>

record civil =
  cYear :: int
  cMonth :: int
  cDay :: int

text \<open>Years are counted from 1 March, in eras of 400 years (146097 days).\<close>

definition civil_from_days :: "int \<Rightarrow> civil" where
  "civil_from_days days =
     (let z = days + 306;
          era = z div 146097;
          doe = z mod 146097;
          yoe = (doe - doe div 1460 + doe div 36524 - doe div 146096) div 365;
          doy = doe - (365 * yoe + yoe div 4 - yoe div 100);
          mp = (5 * doy + 2) div 153;
          d = doy - (153 * mp + 2) div 5 + 1;
          m = (if mp < 10 then mp + 3 else mp - 9);
          y = yoe + era * 400 + (if m \<le> 2 then 1 else 0)
      in \<lparr>cYear = y, cMonth = m, cDay = d\<rparr>)"

definition pad :: "nat \<Rightarrow> string \<Rightarrow> string" where
  "pad n s = replicate (n - length s) (CHR ''0'') @ s"

definition nanos_per_sec :: int where
  "nanos_per_sec = 1000000000"

definition nanos_per_day :: int where
  "nanos_per_day = 86400 * nanos_per_sec"

definition fmt_date :: "gotime \<Rightarrow> string" where
  "fmt_date t =
     (let c = civil_from_days (t div nanos_per_day)
      in pad 4 (show_int (cYear c)) @ ''-'' @ pad 2 (show_int (cMonth c)) @ ''-''
         @ pad 2 (show_int (cDay c)))"

definition fmt_clock :: "gotime \<Rightarrow> string" where
  "fmt_clock t =
     (let s = (t mod nanos_per_day) div nanos_per_sec
      in pad 2 (show_int (s div 3600)) @ '':'' @ pad 2 (show_int (s mod 3600 div 60)) @ '':''
         @ pad 2 (show_int (s mod 60)))"

text \<open>\<open>.999999999\<close>: nine digits without their trailing zeros, and no point when all are zero.\<close>

definition fmt_nanos :: "gotime \<Rightarrow> string" where
  "fmt_nanos t =
     (let n = t mod nanos_per_sec
      in if n = 0 then []
         else CHR ''.'' # rev (dropWhile (\<lambda>c. c = CHR ''0'') (rev (pad 9 (show_int n)))))"

text \<open>\<open>t.UTC().Format(time.RFC3339Nano)\<close>\<close>

definition FormatRFC3339NanoUTC :: "gotime \<Rightarrow> string" where
  "FormatRFC3339NanoUTC t = fmt_date t @ ''T'' @ fmt_clock t @ fmt_nanos t @ ''Z''"

definition in_zone :: "(gotime \<Rightarrow> int) \<Rightarrow> gotime \<Rightarrow> gotime" where
  "in_zone zone t = t + zone t * nanos_per_sec"

text \<open>\<open>t.Format("2006-01-02")\<close> and \<open>t.Format("2006-01-02 15:04:05")\<close>\<close>

definition FormatDay :: "(gotime \<Rightarrow> int) \<Rightarrow> gotime \<Rightarrow> string" where
  "FormatDay zone t = fmt_date (in_zone zone t)"

definition FormatDaySeconds :: "(gotime \<Rightarrow> int) \<Rightarrow> gotime \<Rightarrow> string" where
  "FormatDaySeconds zone t = fmt_date (in_zone zone t) @ '' '' @ fmt_clock (in_zone zone t)"

text \<open>The calendar is checked against known dates, one of them a leap day.\<close>

lemma civil_epochs:
  "civil_from_days 0 = \<lparr>cYear = 1, cMonth = 1, cDay = 1\<rparr>"
  "civil_from_days 719162 = \<lparr>cYear = 1970, cMonth = 1, cDay = 1\<rparr>"
  "civil_from_days 738944 = \<lparr>cYear = 2024, cMonth = 2, cDay = 29\<rparr>"
  "civil_from_days 738945 = \<lparr>cYear = 2024, cMonth = 3, cDay = 1\<rparr>"
  by code_simp+

end
