(* ===== verification/Models.thy ===== *)
theory Models
  imports Go_Sort Go_Time
begin

text \<open>
  The data of \<open>internal/models\<close>: seeds, judge evaluations, canonical assets, raw observations,
  relations, and the pipeline context that carries them between stages. Every Go struct is a
  record with the struct's fields (prefixed by the struct, since record fields share one name
  space). A string-typed enumeration (\<open>AssetType\<close>, \<open>OwnershipState\<close>, ...) stays a string, as in
  the code, where values outside the named constants do occur; the constants are abbreviations.
  A pointer that may be nil is an \<open>option\<close>; a map that is iterated over is an association list,
  a map that is only looked up is a partial function, and a \<open>map[string]struct{}\<close> is a set.
\<close>

section \<open>Seeds\<close>

record seedEvidence =
  ev_Source :: string
  ev_Kind :: string
  ev_Value :: string
  ev_Confidence :: float64
  ev_Reasoned :: bool

record seed =
  seed_ID :: string
  seed_CompanyName :: string
  seed_Domains :: "string list"
  seed_Address :: string
  seed_Industry :: string
  seed_Confidence :: float64
  seed_Evidence :: "seedEvidence list"
  seed_ASN :: "int list"
  seed_CIDR :: "string list"
  seed_Tags :: "string list"

definition zeroSeed :: seed where
  "zeroSeed = \<lparr>seed_ID = [], seed_CompanyName = [], seed_Domains = [], seed_Address = [],
     seed_Industry = [], seed_Confidence = 0, seed_Evidence = [], seed_ASN = [],
     seed_CIDR = [], seed_Tags = []\<rparr>"

record seedCandidate =
  cand_seed :: seed
  cand_evidence :: "seedEvidence list"
  cand_signalKeys :: "string list"
  cand_maxConfidence :: float64
  cand_reasoned :: bool

section \<open>Judge evaluations\<close>

record judgeCandidateOutcome =
  out_Root :: string
  out_Collect :: bool
  out_Confidence :: float64
  out_Kind :: string
  out_Reason :: string
  out_Explicit :: bool
  out_Support :: "string list"

record judgeEvaluation =
  eval_Collector :: string
  eval_SeedID :: string
  eval_SeedLabel :: string
  eval_SeedDomains :: "string list"
  eval_Scenario :: string
  eval_Outcomes :: "judgeCandidateOutcome list"

section \<open>Candidate promotion\<close>

type_synonym candidatePromotionDecision = string

abbreviation CandidatePromotionAccepted :: candidatePromotionDecision where
  "CandidatePromotionAccepted \<equiv> ''accepted''"
abbreviation CandidatePromotionPendingReview :: candidatePromotionDecision where
  "CandidatePromotionPendingReview \<equiv> ''pending_review''"
abbreviation CandidatePromotionRejected :: candidatePromotionDecision where
  "CandidatePromotionRejected \<equiv> ''rejected''"

record candidatePromotionRequest =
  req_Key :: string
  req_Seed :: seed
  req_Evidence :: "seedEvidence list"
  req_Confidence :: float64
  req_Reasoned :: bool

record candidatePromotionResult =
  res_Decision :: candidatePromotionDecision
  res_Scheduled :: bool

definition noPromotion :: candidatePromotionResult where
  "noPromotion = \<lparr>res_Decision = [], res_Scheduled = False\<rparr>"

record enumeration =
  enum_ID :: string
  enum_SeedID :: string
  enum_Status :: string
  enum_CreatedAt :: gotime
  enum_UpdatedAt :: gotime
  enum_StartedAt :: gotime
  enum_EndedAt :: gotime

section \<open>Assets\<close>

record dnsRecord =
  rec_Type :: string
  rec_Value :: string

record rdapData =
  rdap_RegistrarName :: string
  rdap_RegistrarIANAID :: string
  rdap_RegistrarURL :: string
  rdap_CreationDate :: gotime
  rdap_ExpirationDate :: gotime
  rdap_UpdatedDate :: gotime
  rdap_RegistrantName :: string
  rdap_RegistrantEmail :: string
  rdap_RegistrantOrg :: string
  rdap_Statuses :: "string list"
  rdap_NameServers :: "string list"

record domainDetails =
  dd_Records :: "dnsRecord list"
  dd_IsCatchAll :: bool
  dd_RDAP :: "rdapData option"

record ipDetails =
  ip_ASN :: int
  ip_Organization :: string
  ip_PTR :: string

type_synonym assetType = string
type_synonym ownershipState = string
type_synonym observationKind = string

abbreviation AssetTypeDomain :: assetType where "AssetTypeDomain \<equiv> ''domain''"
abbreviation AssetTypeIP :: assetType where "AssetTypeIP \<equiv> ''ip''"

abbreviation OwnershipStateOwned :: ownershipState where
  "OwnershipStateOwned \<equiv> ''owned''"
abbreviation OwnershipStateAssociatedInfrastructure :: ownershipState where
  "OwnershipStateAssociatedInfrastructure \<equiv> ''associated_infrastructure''"
abbreviation OwnershipStateUncertain :: ownershipState where
  "OwnershipStateUncertain \<equiv> ''uncertain''"

abbreviation ObservationKindDiscovery :: observationKind where
  "ObservationKindDiscovery \<equiv> ''discovery''"
abbreviation ObservationKindEnrichment :: observationKind where
  "ObservationKindEnrichment \<equiv> ''enrichment''"

abbreviation DomainResolutionStatusResolved :: string where
  "DomainResolutionStatusResolved \<equiv> ''resolved''"
abbreviation DomainResolutionStatusUnresolved :: string where
  "DomainResolutionStatusUnresolved \<equiv> ''unresolved''"
abbreviation DomainResolutionStatusLookupFailed :: string where
  "DomainResolutionStatusLookupFailed \<equiv> ''lookup_failed''"
abbreviation DomainResolutionStatusNotChecked :: string where
  "DomainResolutionStatusNotChecked \<equiv> ''not_checked''"

record assetProvenance =
  prov_AssetID :: string
  prov_EnumerationID :: string
  prov_Source :: string
  prov_DiscoveryDate :: gotime

record enrichmentState =
  es_Status :: string
  es_Cached :: bool
  es_UpdatedAt :: gotime
  es_Error :: string

text \<open>The values the stages store under \<open>map[string]interface{}\<close>.\<close>

datatype enrichmentValue =
    EVString string | EVStrings "string list" | EVBool bool | EVInt int | EVJSON string

record asset =
  asset_ID :: string
  asset_EnumerationID :: string
  asset_Type :: assetType
  asset_Identifier :: string
  asset_Source :: string
  asset_DiscoveryDate :: gotime
  asset_Provenance :: "assetProvenance list"
  asset_OwnershipState :: ownershipState
  asset_InclusionReason :: string
  asset_EnrichmentStates :: "(string \<times> enrichmentState) list"
  asset_DomainDetails :: "domainDetails option"
  asset_IPDetails :: "ipDetails option"
  asset_EnrichmentData :: "(string \<times> enrichmentValue) list"

record assetObservation =
  obs_Kind :: observationKind
  obs_ID :: string
  obs_AssetID :: string
  obs_EnumerationID :: string
  obs_Type :: assetType
  obs_Identifier :: string
  obs_Source :: string
  obs_DiscoveryDate :: gotime
  obs_OwnershipState :: ownershipState
  obs_InclusionReason :: string
  obs_DomainDetails :: "domainDetails option"
  obs_IPDetails :: "ipDetails option"
  obs_EnrichmentData :: "(string \<times> enrichmentValue) list"
  obs_EnrichmentStates :: "(string \<times> enrichmentState) list"

record assetRelation =
  rel_ID :: string
  rel_FromAssetID :: string
  rel_FromAssetType :: assetType
  rel_FromIdentifier :: string
  rel_ToAssetID :: string
  rel_ToAssetType :: assetType
  rel_ToIdentifier :: string
  rel_ObservationID :: string
  rel_EnumerationID :: string
  rel_Source :: string
  rel_Kind :: string
  rel_Label :: string
  rel_Reason :: string
  rel_DiscoveryDate :: gotime

record executionEvent =
  event_Kind :: string
  event_Message :: string
  event_Metadata :: "(string \<times> enrichmentValue) list"

section \<open>The pipeline context\<close>

text \<open>
  A call of the installed \<open>MutationListener\<close> is one entry of the log \<open>mutationLog\<close>;
  \<open>mutationListener\<close> says whether a listener is installed. \<open>nodeIDCounter\<close> is the process-wide
  atomic counter of \<open>id.go\<close>, carried here because every operation that allocates an ID runs on a
  context; \<open>nodeClock\<close> is the environment: the wall clock \<open>NewID\<close> reads when the counter
  has the given value. The mutex is left out: each operation below runs under it and is one
  atomic step.
\<close>

datatype mutationEvent =
    OnAssetUpsert asset
  | OnObservationAdded assetObservation
  | OnRelationAdded assetRelation
  | OnJudgeEvaluationRecorded judgeEvaluation
  | OnExecutionEvent executionEvent

record pipelineContext =
  Seeds :: "seed list"
  Enumerations :: "enumeration list"
  Assets :: "asset list"
  Observations :: "assetObservation list"
  Relations :: "assetRelation list"
  Errors :: "string list"
  JudgeEvaluations :: "judgeEvaluation list"
  DNSVariantSweepLabels :: "string list"
  AISearchExecutedRoots :: "string list"
  collectionSeeds :: "seed list"
  pendingSeeds :: "seed list"
  knownSeedKeys :: "string set"
  candidateSeeds :: "string \<rightharpoonup> seedCandidate"
  collectionDepth :: int
  maxCollectionDepth :: int
  extraCollectionWaveReserved :: bool
  extraCollectionWaveInProgress :: bool
  assetStateInitialized :: bool
  assetIndexByKey :: "string \<rightharpoonup> nat"
  observationIndexByID :: "string \<rightharpoonup> nat"
  relationIndexByKey :: "string \<rightharpoonup> nat"
  mutationListener :: bool
  mutationLog :: "mutationEvent list"
  candidatePromotionThreshold :: float64
  candidatePromotionPolicySet :: bool
  nodeIDCounter :: "64 word"
  nodeClock :: "64 word \<Rightarrow> int"

record schedulerState =
  ss_CollectionSeeds :: "seed list"
  ss_PendingSeeds :: "seed list"
  ss_CollectionDepth :: int
  ss_MaxCollectionDepth :: int
  ss_ExtraCollectionWaveReserved :: bool
  ss_ExtraCollectionWaveInProgress :: bool
  ss_AISearchExecutedRoots :: "string list"

text \<open>\<open>&PipelineContext{Seeds: seeds}\<close>, the context a run starts from.\<close>

definition newContext :: "(64 word \<Rightarrow> int) \<Rightarrow> seed list \<Rightarrow> pipelineContext" where
  "newContext clock seeds = \<lparr>Seeds = seeds, Enumerations = [], Assets = [], Observations = [],
     Relations = [], Errors = [], JudgeEvaluations = [], DNSVariantSweepLabels = [],
     AISearchExecutedRoots = [], collectionSeeds = [], pendingSeeds = [], knownSeedKeys = {},
     candidateSeeds = Map.empty, collectionDepth = 0, maxCollectionDepth = 0,
     extraCollectionWaveReserved = False, extraCollectionWaveInProgress = False,
     assetStateInitialized = False, assetIndexByKey = Map.empty,
     observationIndexByID = Map.empty, relationIndexByKey = Map.empty,
     mutationListener = False, mutationLog = [], candidatePromotionThreshold = 0,
     candidatePromotionPolicySet = False, nodeIDCounter = 0, nodeClock = clock\<rparr>"

section \<open>Node identifiers\<close>

text \<open>
  \<open>NewID\<close>: prefix, wall clock and the incremented counter. The counter is a \<open>uint64\<close> and
  wraps; the value returned by \<open>Add(1)\<close> is the new one.
\<close>

definition NewID :: "string \<Rightarrow> pipelineContext \<Rightarrow> string \<times> pipelineContext" where
  "NewID prefix p =
     (let n = nodeIDCounter p + 1
      in (prefix @ ''-'' @ show_int (nodeClock p (nodeIDCounter p)) @ ''-'' @ show_nat (unat n),
          p\<lparr>nodeIDCounter := n\<rparr>))"

lemma NewID_nonempty: "fst (NewID prefix p) \<noteq> []"
  by (simp add: NewID_def Let_def)

lemma NewID_context: "snd (NewID prefix p) = p\<lparr>nodeIDCounter := nodeIDCounter p + 1\<rparr>"
  by (simp add: NewID_def Let_def)

lemma takeWhile_not_dash: "CHR ''-'' \<notin> set s \<Longrightarrow> takeWhile (\<lambda>c. c \<noteq> CHR ''-'') (s @ CHR ''-'' # t) = s"
  by (induction s) auto

text \<open>The decimal counter is the text behind the last dash, so two equal IDs have equal counters.\<close>

lemma NewID_counter:
  assumes "fst (NewID a p) = fst (NewID b q)"
  shows "nodeIDCounter p = nodeIDCounter q"
proof -
  have tail: "takeWhile (\<lambda>c. c \<noteq> CHR ''-'') (rev (fst (NewID a p)))
                = rev (show_nat (unat (nodeIDCounter p + 1)))" for a p
    using show_nat_no_dash [of "unat (nodeIDCounter p + 1)"]
    by (simp add: NewID_def Let_def takeWhile_not_dash)
  from tail [of a p] tail [of b q] assms
  have "unat (nodeIDCounter p + 1) = unat (nodeIDCounter q + 1)" by simp
  then show ?thesis by (simp add: word_unat_eq_iff [symmetric])
qed

end
