(* ===== verification/Seed_Helpers.thy ===== *)
theory Seed_Helpers
  imports Models
begin

text \<open>
  \<open>internal/models/seed_helpers.go\<close>: the key that identifies a seed, its normal form, and the
  merging of equivalent seeds and of their evidence. A slice is a value here: the code only
  shares backing arrays between copies of a seed that receive the same merges.
\<close>

section \<open>Unique sorted lists\<close>

definition uniqueNormalizedStrings :: "string list \<Rightarrow> string list" where
  "uniqueNormalizedStrings values =
     (if values = [] then []
      else sortUnique (filter (\<lambda>v. v \<noteq> []) (map norm_str values)))"

definition uniqueInts :: "int list \<Rightarrow> int list" where
  "uniqueInts values = (if values = [] then [] else sortUnique values)"

text \<open>Keeps the first spelling of each value, compared without case.\<close>

definition uniqueJudgeSupport :: "string list \<Rightarrow> string list" where
  "uniqueJudgeSupport values =
     (if values = [] then []
      else sort (uniqueBy ToLower {} (filter (\<lambda>v. v \<noteq> []) (map TrimSpace values))))"

section \<open>Keys and normal forms\<close>

definition seedKey :: "seed \<Rightarrow> string" where
  "seedKey seed =
     (let company = ToLower (TrimSpace (seed_CompanyName seed));
          domains = sort (filter (\<lambda>d. d \<noteq> []) (map (\<lambda>d. ToLower (TrimSpace d)) (seed_Domains seed)))
      in if length domains > 0 then Join domains '',''
         else if company \<noteq> [] then company
         else TrimSpace (seed_ID seed))"

definition normalizeSeedEvidence :: "seedEvidence \<Rightarrow> seedEvidence" where
  "normalizeSeedEvidence evidence = evidence\<lparr>
     ev_Source := TrimSpace (ToLower (ev_Source evidence)),
     ev_Kind := TrimSpace (ToLower (ev_Kind evidence)),
     ev_Value := TrimSpace (ToLower (ev_Value evidence))\<rparr>"

definition seedEvidenceKey :: "seedEvidence \<Rightarrow> string" where
  "seedEvidenceKey evidence =
     Join [ToLower (TrimSpace (ev_Source evidence)),
           ToLower (TrimSpace (ev_Kind evidence)),
           ToLower (TrimSpace (ev_Value evidence))] ''|''"

definition hasReasonedSeedEvidence :: "seedEvidence list \<Rightarrow> bool" where
  "hasReasonedSeedEvidence evidence = list_ex ev_Reasoned evidence"

definition blankEvidence :: "seedEvidence \<Rightarrow> bool" where
  "blankEvidence e \<longleftrightarrow> ev_Source e = [] \<and> ev_Kind e = [] \<and> ev_Value e = []"

text \<open>The update of \<open>existing[idx]\<close> when an incoming item has the same key.\<close>

definition absorbEvidence :: "seedEvidence \<Rightarrow> seedEvidence \<Rightarrow> seedEvidence" where
  "absorbEvidence old new =
     (let e1 = (if ev_Confidence new > ev_Confidence old
                then old\<lparr>ev_Confidence := ev_Confidence new\<rparr> else old);
          e2 = (if ev_Reasoned new then e1\<lparr>ev_Reasoned := True\<rparr> else e1)
      in if ev_Value e2 = [] then e2\<lparr>ev_Value := ev_Value new\<rparr> else e2)"

fun mergeSeedEvidence_loop ::
  "(string \<rightharpoonup> nat) \<Rightarrow> seedEvidence list \<Rightarrow> seedEvidence list \<Rightarrow> seedEvidence list" where
  "mergeSeedEvidence_loop index existing [] = existing"
| "mergeSeedEvidence_loop index existing (item # rest) =
     (let evidence = normalizeSeedEvidence item;
          key = seedEvidenceKey evidence
      in if blankEvidence evidence then mergeSeedEvidence_loop index existing rest
         else case index key of
           Some idx \<Rightarrow> mergeSeedEvidence_loop index
                         (existing[idx := absorbEvidence (existing ! idx) evidence]) rest
         | None \<Rightarrow> mergeSeedEvidence_loop (index(key \<mapsto> length existing)) (existing @ [evidence]) rest)"

definition mergeSeedEvidence :: "seedEvidence list \<Rightarrow> seedEvidence list \<Rightarrow> seedEvidence list" where
  "mergeSeedEvidence existing incoming =
     (if incoming = [] then existing
      else mergeSeedEvidence_loop (indexBy seedEvidenceKey 0 existing Map.empty) existing incoming)"

definition normalizeSeedEvidenceSlice :: "seedEvidence list \<Rightarrow> seedEvidence list" where
  "normalizeSeedEvidenceSlice evidence =
     (if evidence = [] then []
      else mergeSeedEvidence []
             (filter (\<lambda>e. \<not> blankEvidence e) (map normalizeSeedEvidence evidence)))"

definition normalizeSeed :: "seed \<Rightarrow> seed" where
  "normalizeSeed seed = seed\<lparr>
     seed_ID := TrimSpace (seed_ID seed),
     seed_CompanyName := TrimSpace (seed_CompanyName seed),
     seed_Address := TrimSpace (seed_Address seed),
     seed_Industry := TrimSpace (seed_Industry seed),
     seed_Domains := uniqueNormalizedStrings (seed_Domains seed),
     seed_ASN := uniqueInts (seed_ASN seed),
     seed_CIDR := uniqueNormalizedStrings (seed_CIDR seed),
     seed_Tags := uniqueNormalizedStrings (seed_Tags seed),
     seed_Evidence := normalizeSeedEvidenceSlice (seed_Evidence seed)\<rparr>"

section \<open>Merging two seeds\<close>

definition companyConflict :: "seed \<Rightarrow> seedEvidence" where
  "companyConflict incoming =
     \<lparr>ev_Source = ''seed_merge'', ev_Kind = ''company_name'',
      ev_Value = ToLower (TrimSpace (seed_CompanyName incoming)),
      ev_Confidence = 0, ev_Reasoned = False\<rparr>"

definition mergeSeeds :: "seed \<Rightarrow> seed \<Rightarrow> seed" where
  "mergeSeeds existing incoming =
     (let company = (if seed_CompanyName existing = [] then seed_CompanyName incoming
                     else seed_CompanyName existing);
          evidence0 = (if seed_CompanyName existing \<noteq> [] \<and> seed_CompanyName incoming \<noteq> []
                          \<and> \<not> EqualFold (seed_CompanyName existing) (seed_CompanyName incoming)
                       then seed_Evidence existing @ [companyConflict incoming]
                       else seed_Evidence existing)
      in \<lparr>seed_ID = (if seed_ID existing = [] then seed_ID incoming else seed_ID existing),
          seed_CompanyName = company,
          seed_Domains = uniqueNormalizedStrings (seed_Domains existing @ seed_Domains incoming),
          seed_Address = (if seed_Address existing = [] then seed_Address incoming
                          else seed_Address existing),
          seed_Industry = (if seed_Industry existing = [] then seed_Industry incoming
                           else seed_Industry existing),
          seed_Confidence = (if seed_Confidence incoming > seed_Confidence existing
                             then seed_Confidence incoming else seed_Confidence existing),
          seed_Evidence = mergeSeedEvidence evidence0 (seed_Evidence incoming),
          seed_ASN = uniqueInts (seed_ASN existing @ seed_ASN incoming),
          seed_CIDR = uniqueNormalizedStrings (seed_CIDR existing @ seed_CIDR incoming),
          seed_Tags = uniqueNormalizedStrings (seed_Tags existing @ seed_Tags incoming)\<rparr>)"

section \<open>Lemmas: unique lists\<close>

lemma uniqueNormalizedStrings_eq:
  "uniqueNormalizedStrings xs = sortUnique (filter (\<lambda>v. v \<noteq> []) (map norm_str xs))"
  by (simp add: uniqueNormalizedStrings_def)

lemma set_uniqueNormalizedStrings:
  "set (uniqueNormalizedStrings xs) = norm_str ` set xs - {[]}"
  by (auto simp: uniqueNormalizedStrings_eq)

lemma sorted_uniqueNormalizedStrings [simp]: "sorted (uniqueNormalizedStrings xs)"
  by (simp add: uniqueNormalizedStrings_eq)

lemma distinct_uniqueNormalizedStrings [simp]: "distinct (uniqueNormalizedStrings xs)"
  by (simp add: uniqueNormalizedStrings_eq)

lemma uniqueNormalizedStrings_cong:
  "norm_str ` set xs - {[]} = norm_str ` set ys - {[]} \<Longrightarrow>
   uniqueNormalizedStrings xs = uniqueNormalizedStrings ys"
  by (rule sorted_distinct_set_unique) (simp_all add: set_uniqueNormalizedStrings)

lemma norm_str_in_uniqueNormalizedStrings:
  "x \<in> set (uniqueNormalizedStrings xs) \<Longrightarrow> norm_str x = x \<and> x \<noteq> []"
  by (auto simp: set_uniqueNormalizedStrings)

lemma uniqueNormalizedStrings_idem [simp]:
  "uniqueNormalizedStrings (uniqueNormalizedStrings xs) = uniqueNormalizedStrings xs"
proof -
  have "map norm_str (uniqueNormalizedStrings xs) = uniqueNormalizedStrings xs"
    by (rule map_idI) (simp add: norm_str_in_uniqueNormalizedStrings)
  moreover have "filter (\<lambda>v. v \<noteq> []) (uniqueNormalizedStrings xs) = uniqueNormalizedStrings xs"
    by (simp add: filter_id_conv norm_str_in_uniqueNormalizedStrings)
  ultimately show ?thesis
    by (simp add: uniqueNormalizedStrings_eq [of "uniqueNormalizedStrings xs"] sortUnique_sorted)
qed

lemma uniqueNormalizedStrings_Nil [simp]: "uniqueNormalizedStrings [] = []"
  by (simp add: uniqueNormalizedStrings_def)

lemma uniqueInts_eq: "uniqueInts xs = sortUnique xs"
  by (simp add: uniqueInts_def)

section \<open>Lemmas: evidence\<close>

definition normalEvidence :: "seedEvidence \<Rightarrow> bool" where
  "normalEvidence e \<longleftrightarrow> normalizeSeedEvidence e = e \<and> \<not> blankEvidence e"

lemma normalizeSeedEvidence_idem [simp]:
  "normalizeSeedEvidence (normalizeSeedEvidence e) = normalizeSeedEvidence e"
  by (simp add: normalizeSeedEvidence_def TrimSpace_ToLower)

lemma seedEvidenceKey_normalize [simp]:
  "seedEvidenceKey (normalizeSeedEvidence e) = seedEvidenceKey e"
  by (simp add: seedEvidenceKey_def normalizeSeedEvidence_def TrimSpace_ToLower)

lemma absorbEvidence_fields [simp]:
  "ev_Source (absorbEvidence a b) = ev_Source a"
  "ev_Kind (absorbEvidence a b) = ev_Kind a"
  "ev_Confidence (absorbEvidence a b) = max (ev_Confidence a) (ev_Confidence b)"
  "ev_Reasoned (absorbEvidence a b) = (ev_Reasoned a \<or> ev_Reasoned b)"
  "ev_Value (absorbEvidence a b) = (if ev_Value a = [] then ev_Value b else ev_Value a)"
  by (auto simp: absorbEvidence_def Let_def max_def)


text \<open>
  Keys join source, kind and value with a bar, so they identify an item only when source and kind
  hold no bar. No source or kind of the program does.
\<close>

definition cleanEvidence :: "seedEvidence \<Rightarrow> bool" where
  "cleanEvidence e \<longleftrightarrow>
     normalizeSeedEvidence e = e \<and> CHR ''|'' \<notin> set (ev_Source e) \<and> CHR ''|'' \<notin> set (ev_Kind e)"

lemma append_sep_inject:
  "c \<notin> set a \<Longrightarrow> c \<notin> set b \<Longrightarrow> a @ c # x = b @ c # y \<longleftrightarrow> a = b \<and> x = y"
proof (induction a arbitrary: b)
  case Nil
  then show ?case by (cases b) auto
next
  case (Cons d a)
  then show ?case by (cases b) auto
qed

lemma normalizeSeedEvidence_fixed_iff:
  "normalizeSeedEvidence e = e \<longleftrightarrow> TrimSpace (ToLower (ev_Source e)) = ev_Source e
     \<and> TrimSpace (ToLower (ev_Kind e)) = ev_Kind e \<and> TrimSpace (ToLower (ev_Value e)) = ev_Value e"
  by (cases e) (simp add: normalizeSeedEvidence_def)

lemma seedEvidenceKey_clean:
  assumes "normalizeSeedEvidence e = e"
  shows "seedEvidenceKey e = ev_Source e @ CHR ''|'' # ev_Kind e @ CHR ''|'' # ev_Value e"
proof -
  from assms have "ToLower (TrimSpace (ev_Source e)) = ev_Source e"
    "ToLower (TrimSpace (ev_Kind e)) = ev_Kind e" "ToLower (TrimSpace (ev_Value e)) = ev_Value e"
    by (cases e; simp add: normalizeSeedEvidence_def TrimSpace_ToLower)+
  then show ?thesis by (simp add: seedEvidenceKey_def)
qed

lemma cleanEvidence_key_inject:
  assumes "cleanEvidence a" and "cleanEvidence b" and "seedEvidenceKey a = seedEvidenceKey b"
  shows "ev_Source a = ev_Source b \<and> ev_Kind a = ev_Kind b \<and> ev_Value a = ev_Value b"
  using assms by (simp add: cleanEvidence_def seedEvidenceKey_clean append_sep_inject)

lemma cleanEvidence_absorb:
  assumes "cleanEvidence a" and "cleanEvidence b" and "seedEvidenceKey a = seedEvidenceKey b"
  shows "cleanEvidence (absorbEvidence a b) \<and> seedEvidenceKey (absorbEvidence a b) = seedEvidenceKey a"
proof -
  have same: "ev_Source (absorbEvidence a b) = ev_Source a" "ev_Kind (absorbEvidence a b) = ev_Kind a"
    "ev_Value (absorbEvidence a b) = ev_Value a"
    using cleanEvidence_key_inject [OF assms] by auto
  then have "seedEvidenceKey (absorbEvidence a b) = seedEvidenceKey a"
    by (simp add: seedEvidenceKey_def)
  moreover have "normalizeSeedEvidence (absorbEvidence a b) = absorbEvidence a b"
    using assms(1) unfolding cleanEvidence_def normalizeSeedEvidence_fixed_iff same by blast
  ultimately show ?thesis
    using assms(1) same by (simp add: cleanEvidence_def)
qed

subsection \<open>What a list of evidence says\<close>

text \<open>
  The abstract value of an evidence list: for each key the strongest confidence and whether some
  item was reasoned.
\<close>

fun joinStrength :: "(float64 \<times> bool) option \<Rightarrow> (float64 \<times> bool) option \<Rightarrow> (float64 \<times> bool) option" where
  "joinStrength None y = y"
| "joinStrength x None = x"
| "joinStrength (Some (c, r)) (Some (d, s)) = Some (max c d, r \<or> s)"

definition itemStrength :: "string \<Rightarrow> seedEvidence \<Rightarrow> (float64 \<times> bool) option" where
  "itemStrength k e = (if seedEvidenceKey e = k then Some (ev_Confidence e, ev_Reasoned e) else None)"

fun evidenceStrength :: "seedEvidence list \<Rightarrow> string \<Rightarrow> (float64 \<times> bool) option" where
  "evidenceStrength [] k = None"
| "evidenceStrength (e # es) k = joinStrength (itemStrength k e) (evidenceStrength es k)"

lemma joinStrength_None [simp]: "joinStrength x None = x"
  by (cases x) auto

lemma joinStrength_assoc: "joinStrength (joinStrength x y) z = joinStrength x (joinStrength y z)"
  by (cases x; cases y; cases z) (auto simp: max.assoc)

lemma joinStrength_comm: "joinStrength x y = joinStrength y x"
  by (cases x; cases y) (auto simp: max.commute)

lemma joinStrength_left_comm: "joinStrength x (joinStrength y z) = joinStrength y (joinStrength x z)"
  by (metis joinStrength_assoc joinStrength_comm)

lemmas joinStrength_ac = joinStrength_assoc joinStrength_comm joinStrength_left_comm

lemma evidenceStrength_append:
  "evidenceStrength (xs @ ys) k = joinStrength (evidenceStrength xs k) (evidenceStrength ys k)"
  by (induction xs) (simp_all add: joinStrength_assoc)

lemma evidenceStrength_None_iff: "evidenceStrength xs k = None \<longleftrightarrow> k \<notin> seedEvidenceKey ` set xs"
proof (induction xs)
  case (Cons x xs)
  then show ?case by (cases "evidenceStrength xs k") (auto simp: itemStrength_def)
qed simp

lemma itemStrength_absorb:
  assumes "cleanEvidence a" and "cleanEvidence b" and "seedEvidenceKey a = seedEvidenceKey b"
  shows "itemStrength k (absorbEvidence a b) = joinStrength (itemStrength k a) (itemStrength k b)"
  using cleanEvidence_absorb [OF assms] assms(3) by (simp add: itemStrength_def)

lemma evidenceStrength_absorb:
  assumes "i < length xs" and "cleanEvidence (xs ! i)" and "cleanEvidence e"
    and "seedEvidenceKey (xs ! i) = seedEvidenceKey e"
  shows "evidenceStrength (xs[i := absorbEvidence (xs ! i) e]) k
           = joinStrength (evidenceStrength xs k) (itemStrength k e)"
  using assms
proof (induction xs arbitrary: i)
  case (Cons x xs)
  then show ?case
    by (cases i) (auto simp: itemStrength_absorb joinStrength_ac)
qed simp


subsection \<open>Merging evidence\<close>

text \<open>The bars of an incoming item are judged before it is normalized.\<close>

definition barFree :: "seedEvidence \<Rightarrow> bool" where
  "barFree e \<longleftrightarrow> CHR ''|'' \<notin> set (ev_Source e) \<and> CHR ''|'' \<notin> set (ev_Kind e)"

lemma set_TrimSpace: "c \<in> set (TrimSpace s) \<Longrightarrow> c \<in> set s"
proof -
  assume "c \<in> set (TrimSpace s)"
  then have "c \<in> set (rev (dropWhile is_space s))"
    using set_dropWhileD by (fastforce simp: TrimSpace_def TrimLeft_def)
  then show "c \<in> set s" by (auto dest: set_dropWhileD)
qed

lemma lower_char_bar: "lower_char c = CHR ''|'' \<longleftrightarrow> c = CHR ''|''"
proof
  assume *: "lower_char c = CHR ''|''"
  show "c = CHR ''|''"
  proof (cases "65 \<le> (of_char c :: nat) \<and> (of_char c :: nat) \<le> 90")
    case True
    with * have "(of_char (char_of (of_char c + 32 :: nat) :: char) :: nat) = 124"
      by (simp add: lower_char_def Let_def)
    with True show ?thesis by simp
  next
    case False
    with * show ?thesis by (auto simp: lower_char_def Let_def)
  qed
next
  assume "c = CHR ''|''"
  then show "lower_char c = CHR ''|''" by (simp add: lower_char_def)
qed

lemma bar_norm: "CHR ''|'' \<notin> set s \<Longrightarrow> CHR ''|'' \<notin> set (TrimSpace (ToLower s))"
proof
  assume "CHR ''|'' \<notin> set s" and "CHR ''|'' \<in> set (TrimSpace (ToLower s))"
  then have "CHR ''|'' \<in> lower_char ` set s" by (auto simp: ToLower_def dest: set_TrimSpace)
  then obtain c where "c \<in> set s" "lower_char c = CHR ''|''" by fastforce
  with \<open>CHR ''|'' \<notin> set s\<close> show False by (simp add: lower_char_bar)
qed

lemma cleanEvidence_normalize: "barFree e \<Longrightarrow> cleanEvidence (normalizeSeedEvidence e)"
  unfolding cleanEvidence_def barFree_def
  by (simp only: normalizeSeedEvidence_idem) (simp add: normalizeSeedEvidence_def bar_norm)

lemma barFree_normalize: "cleanEvidence e \<Longrightarrow> barFree e"
  by (simp add: cleanEvidence_def barFree_def)

definition incomingItems :: "seedEvidence list \<Rightarrow> seedEvidence list" where
  "incomingItems xs = filter (\<lambda>e. \<not> blankEvidence e) (map normalizeSeedEvidence xs)"

definition last_index :: "('a \<Rightarrow> 'k) \<Rightarrow> 'a list \<Rightarrow> ('k \<rightharpoonup> nat) \<Rightarrow> bool" where
  "last_index f xs m \<longleftrightarrow> (\<forall>k i. m k = Some i \<longrightarrow> i < length xs \<and> f (xs ! i) = k)
     \<and> (\<forall>k. m k = None \<longleftrightarrow> k \<notin> f ` set xs)"

lemma last_index_indexBy: "last_index f xs (indexBy f 0 xs Map.empty)"
  unfolding last_index_def by (metis indexBy_bound indexBy_dom)

lemma last_index_snoc: "last_index f xs m \<Longrightarrow> last_index f (xs @ [x]) (m(f x \<mapsto> length xs))"
  unfolding last_index_def by (auto simp: nth_append less_Suc_eq)

lemma keys_update_same:
  assumes "f y = f (xs ! i)"
  shows "map f (xs[i := y]) = map f xs"
  by (metis assms list_update_beyond list_update_id map_update not_le nth_map)

lemma last_index_update:
  assumes "last_index f xs m" and "f y = f (xs ! i)"
  shows "last_index f (xs[i := y]) m"
proof -
  have "map f (xs[i := y]) = map f xs" by (rule keys_update_same [where f = f, OF assms(2)])
  then have "f ` set (xs[i := y]) = f ` set xs"
    and "\<And>j. j < length xs \<Longrightarrow> f (xs[i := y] ! j) = f (xs ! j)"
    by (metis list.set_map, metis length_list_update nth_map)
  with assms(1) show ?thesis by (simp add: last_index_def)
qed

lemma mergeSeedEvidence_loop_spec:
  assumes "last_index seedEvidenceKey xs m"
    and "\<forall>e \<in> set xs. cleanEvidence e" and "\<forall>e \<in> set ys. barFree e"
  shows "evidenceStrength (mergeSeedEvidence_loop m xs ys) k
           = joinStrength (evidenceStrength xs k) (evidenceStrength (incomingItems ys) k)
       \<and> (\<forall>e \<in> set (mergeSeedEvidence_loop m xs ys). cleanEvidence e)"
  using assms
proof (induction ys arbitrary: m xs)
  case Nil
  then show ?case by (simp add: incomingItems_def)
next
  case (Cons y ys)
  let ?e = "normalizeSeedEvidence y"
  have clean: "cleanEvidence ?e" using Cons.prems by (simp add: cleanEvidence_normalize)
  show ?case
  proof (cases "blankEvidence ?e")
    case True
    with Cons show ?thesis by (simp add: incomingItems_def)
  next
    case nb: False
    show ?thesis
    proof (cases "m (seedEvidenceKey ?e)")
      case None
      then have "evidenceStrength (mergeSeedEvidence_loop m xs (y # ys)) k
          = joinStrength (evidenceStrength (xs @ [?e]) k) (evidenceStrength (incomingItems ys) k)
        \<and> (\<forall>e \<in> set (mergeSeedEvidence_loop m xs (y # ys)). cleanEvidence e)"
        using Cons.IH [OF last_index_snoc [OF Cons.prems(1), of ?e]] Cons.prems nb clean
        by (simp del: fun_upd_apply)
      with nb show ?thesis
        by (simp add: incomingItems_def evidenceStrength_append joinStrength_assoc)
    next
      case (Some i)
      with Cons.prems(1) have i: "i < length xs" "seedEvidenceKey (xs ! i) = seedEvidenceKey ?e"
        by (auto simp: last_index_def)
      let ?xs = "xs[i := absorbEvidence (xs ! i) ?e]"
      have old: "cleanEvidence (xs ! i)" using Cons.prems(2) i by simp
      note abs = cleanEvidence_absorb [OF old clean i(2)]
      have "\<forall>e \<in> set ?xs. cleanEvidence e"
        using Cons.prems(2) abs set_update_subset_insert [of xs i "absorbEvidence (xs ! i) ?e"] by auto
      then have "evidenceStrength (mergeSeedEvidence_loop m xs (y # ys)) k
          = joinStrength (evidenceStrength ?xs k) (evidenceStrength (incomingItems ys) k)
        \<and> (\<forall>e \<in> set (mergeSeedEvidence_loop m xs (y # ys)). cleanEvidence e)"
        using Cons.IH [of ?xs m] last_index_update [OF Cons.prems(1)] abs Cons.prems(3) nb Some by simp
      with nb show ?thesis
        by (simp add: incomingItems_def evidenceStrength_absorb [OF i(1) old clean i(2)] joinStrength_assoc)
    qed
  qed
qed

lemma mergeSeedEvidence_strength:
  assumes "\<forall>e \<in> set xs. cleanEvidence e" and "\<forall>e \<in> set ys. barFree e"
  shows "evidenceStrength (mergeSeedEvidence xs ys) k
           = joinStrength (evidenceStrength xs k) (evidenceStrength (incomingItems ys) k)"
  using mergeSeedEvidence_loop_spec [OF last_index_indexBy assms]
  by (auto simp: mergeSeedEvidence_def incomingItems_def)

lemma mergeSeedEvidence_clean:
  assumes "\<forall>e \<in> set xs. cleanEvidence e" and "\<forall>e \<in> set ys. barFree e"
  shows "\<forall>e \<in> set (mergeSeedEvidence xs ys). cleanEvidence e"
  using mergeSeedEvidence_loop_spec [OF last_index_indexBy assms] assms
  by (auto simp: mergeSeedEvidence_def)


text \<open>Items with distinct keys are kept as they are, so normalizing twice changes nothing.\<close>

lemma keys_mergeSeedEvidence_loop:
  assumes "last_index seedEvidenceKey xs m" and "distinct (map seedEvidenceKey xs)"
    and "\<forall>e \<in> set xs. cleanEvidence e" and "\<forall>e \<in> set ys. barFree e"
  shows "distinct (map seedEvidenceKey (mergeSeedEvidence_loop m xs ys))"
  using assms
proof (induction ys arbitrary: m xs)
  case Nil
  then show ?case by simp
next
  case (Cons y ys)
  let ?e = "normalizeSeedEvidence y"
  have clean: "cleanEvidence ?e" using Cons.prems by (simp add: cleanEvidence_normalize)
  show ?case
  proof (cases "blankEvidence ?e")
    case True
    with Cons show ?thesis by simp
  next
    case nb: False
    show ?thesis
    proof (cases "m (seedEvidenceKey ?e)")
      case None
      then have "seedEvidenceKey ?e \<notin> seedEvidenceKey ` set xs"
        using Cons.prems(1) by (simp add: last_index_def)
      then show ?thesis
        using Cons.IH [OF last_index_snoc [OF Cons.prems(1), of ?e]] Cons.prems nb clean None
        by (simp del: fun_upd_apply)
    next
      case (Some i)
      with Cons.prems(1) have i: "i < length xs" "seedEvidenceKey (xs ! i) = seedEvidenceKey ?e"
        by (auto simp: last_index_def)
      let ?xs = "xs[i := absorbEvidence (xs ! i) ?e]"
      have old: "cleanEvidence (xs ! i)" using Cons.prems(3) i by simp
      note abs = cleanEvidence_absorb [OF old clean i(2)]
      have keys: "map seedEvidenceKey ?xs = map seedEvidenceKey xs"
        by (rule keys_update_same) (simp add: abs)
      have "\<forall>e \<in> set ?xs. cleanEvidence e"
        using Cons.prems(3) abs set_update_subset_insert [of xs i "absorbEvidence (xs ! i) ?e"] by auto
      then have "distinct (map seedEvidenceKey (mergeSeedEvidence_loop m ?xs ys))"
        using Cons.IH [of ?xs m] last_index_update [OF Cons.prems(1)] abs Cons.prems(2,4) keys by auto
      with nb Some show ?thesis by simp
    qed
  qed
qed

lemma mergeSeedEvidence_loop_fresh:
  assumes "last_index seedEvidenceKey xs m" and "distinct (map seedEvidenceKey (xs @ ys))"
    and "\<forall>e \<in> set ys. normalizeSeedEvidence e = e \<and> \<not> blankEvidence e"
  shows "mergeSeedEvidence_loop m xs ys = xs @ ys"
  using assms
proof (induction ys arbitrary: m xs)
  case (Cons y ys)
  then have "m (seedEvidenceKey y) = None" by (auto simp: last_index_def)
  with Cons.IH [OF last_index_snoc [OF Cons.prems(1), of y]] Cons.prems
  show ?case by (simp del: fun_upd_apply)
qed simp

lemma loop_not_blank:
  assumes "\<forall>e \<in> set xs. \<not> blankEvidence e"
  shows "\<forall>e \<in> set (mergeSeedEvidence_loop m xs ys). \<not> blankEvidence e"
  using assms
proof (induction ys arbitrary: m xs)
  case (Cons y ys)
  have "\<forall>e \<in> set (xs[i := absorbEvidence (xs ! i) (normalizeSeedEvidence y)]). \<not> blankEvidence e" for i
  proof (cases "i < length xs")
    case True
    with Cons.prems have "\<not> blankEvidence (xs ! i)" by simp
    then have "\<not> blankEvidence (absorbEvidence (xs ! i) (normalizeSeedEvidence y))"
      by (simp add: blankEvidence_def)
    then show ?thesis
      using Cons.prems
        set_update_subset_insert [of xs i "absorbEvidence (xs ! i) (normalizeSeedEvidence y)"] by auto
  next
    case False
    then have "xs[i := e] = xs" for e by (simp add: list_update_beyond)
    with Cons.prems show ?thesis by simp
  qed
  then have upd: "\<forall>e \<in> set (mergeSeedEvidence_loop m
      (xs[i := absorbEvidence (xs ! i) (normalizeSeedEvidence y)]) ys). \<not> blankEvidence e" for i
    by (rule Cons.IH)
  have new: "\<forall>e \<in> set (mergeSeedEvidence_loop m' (xs @ [normalizeSeedEvidence y]) ys). \<not> blankEvidence e"
    if "\<not> blankEvidence (normalizeSeedEvidence y)" for m'
    by (rule Cons.IH) (use Cons.prems that in auto)
  show ?case
    using upd new Cons.IH [OF Cons.prems] by (simp add: Let_def split: option.split del: fun_upd_apply)
qed simp

lemma barFree_incomingItems: "\<forall>e \<in> set xs. barFree e \<Longrightarrow> \<forall>e \<in> set (incomingItems xs). barFree e"
  by (auto simp: incomingItems_def intro: barFree_normalize cleanEvidence_normalize)

lemma normalizeSeedEvidenceSlice_eq:
  "normalizeSeedEvidenceSlice xs = mergeSeedEvidence [] (incomingItems xs)"
  by (cases xs) (simp_all add: normalizeSeedEvidenceSlice_def incomingItems_def mergeSeedEvidence_def)

lemma mergeSeedEvidence_Nil_eq:
  "mergeSeedEvidence [] ys = mergeSeedEvidence_loop Map.empty [] ys"
  by (cases ys) (simp_all add: mergeSeedEvidence_def del: mergeSeedEvidence_loop.simps(2))

lemma last_index_empty: "last_index f [] Map.empty"
  by (simp add: last_index_def)

lemma normalizeSeedEvidenceSlice_props:
  assumes "\<forall>e \<in> set xs. barFree e"
  shows "\<forall>e \<in> set (normalizeSeedEvidenceSlice xs). cleanEvidence e \<and> \<not> blankEvidence e"
    and "distinct (map seedEvidenceKey (normalizeSeedEvidenceSlice xs))"
  using mergeSeedEvidence_loop_spec [OF last_index_empty, of "incomingItems xs"]
    keys_mergeSeedEvidence_loop [OF last_index_empty, of "incomingItems xs"]
    loop_not_blank [of "[]" Map.empty "incomingItems xs"] barFree_incomingItems [OF assms]
  by (auto simp: normalizeSeedEvidenceSlice_eq mergeSeedEvidence_Nil_eq)

lemma normalizeSeedEvidenceSlice_idem:
  assumes "\<forall>e \<in> set xs. barFree e"
  shows "normalizeSeedEvidenceSlice (normalizeSeedEvidenceSlice xs) = normalizeSeedEvidenceSlice xs"
proof -
  let ?n = "normalizeSeedEvidenceSlice xs"
  have n: "\<forall>e \<in> set ?n. normalizeSeedEvidence e = e \<and> \<not> blankEvidence e"
    using normalizeSeedEvidenceSlice_props(1) [OF assms] by (simp add: cleanEvidence_def)
  then have "incomingItems ?n = ?n"
    by (simp add: incomingItems_def map_idI filter_id_conv)
  then show ?thesis
    using mergeSeedEvidence_loop_fresh [OF last_index_empty, of ?n] n
      normalizeSeedEvidenceSlice_props(2) [OF assms]
    by (simp add: normalizeSeedEvidenceSlice_eq [of ?n] mergeSeedEvidence_Nil_eq)
qed

lemma normalizeSeed_idem:
  assumes "\<forall>e \<in> set (seed_Evidence s). barFree e"
  shows "normalizeSeed (normalizeSeed s) = normalizeSeed s"
  by (simp add: normalizeSeed_def normalizeSeedEvidenceSlice_idem [OF assms] uniqueInts_eq)

subsection \<open>The key of a merged seed\<close>

text \<open>A key joins domains with commas; no domain holds one.\<close>

definition normalDomains :: "seed \<Rightarrow> bool" where
  "normalDomains s \<longleftrightarrow> uniqueNormalizedStrings (seed_Domains s) = seed_Domains s
     \<and> (\<forall>d \<in> set (seed_Domains s). CHR '','' \<notin> set d)"

lemma seedKey_domains:
  assumes "uniqueNormalizedStrings (seed_Domains s) = seed_Domains s"
  shows "seedKey s = (if seed_Domains s \<noteq> [] then Join (seed_Domains s) '',''
     else if norm_str (seed_CompanyName s) \<noteq> [] then norm_str (seed_CompanyName s)
     else TrimSpace (seed_ID s))"
proof -
  have n: "norm_str d = d \<and> d \<noteq> []" if "d \<in> set (seed_Domains s)" for d
    using assms that norm_str_in_uniqueNormalizedStrings by metis
  have "map (\<lambda>d. ToLower (TrimSpace d)) (seed_Domains s) = seed_Domains s"
    by (rule map_idI) (simp add: n flip: norm_str_def)
  moreover have "filter (\<lambda>d. d \<noteq> []) (seed_Domains s) = seed_Domains s"
    by (simp add: filter_id_conv n)
  moreover have "sort (seed_Domains s) = seed_Domains s"
    using sorted_uniqueNormalizedStrings [of "seed_Domains s"] by (simp add: assms sort_key_id_if_sorted)
  ultimately show ?thesis
    by (simp add: seedKey_def Let_def norm_str_def)
qed

lemma uniqueNormalizedStrings_append_self:
  "uniqueNormalizedStrings xs = xs \<Longrightarrow> uniqueNormalizedStrings (xs @ xs) = xs"
  by (metis Un_absorb set_append uniqueNormalizedStrings_cong)

lemma normalDomains_mergeSeeds:
  assumes "normalDomains a" and "normalDomains b"
  shows "normalDomains (mergeSeeds a b)"
proof -
  have "norm_str d = d" if "d \<in> set (seed_Domains a) \<union> set (seed_Domains b)" for d
    using assms that norm_str_in_uniqueNormalizedStrings unfolding normalDomains_def by (metis UnE)
  with assms show ?thesis
    by (auto simp: normalDomains_def mergeSeeds_def Let_def set_uniqueNormalizedStrings)
qed

lemma seedKey_mergeSeeds:
  assumes "normalDomains a" and "normalDomains b" and "seedKey a = seedKey b"
  shows "seedKey (mergeSeeds a b) = seedKey a"
proof -
  note keys = assms(1,2) [unfolded normalDomains_def] seedKey_domains [of a] seedKey_domains [of b]
  have m: "uniqueNormalizedStrings (seed_Domains (mergeSeeds a b)) = seed_Domains (mergeSeeds a b)"
    using normalDomains_mergeSeeds [OF assms(1,2)] by (simp add: normalDomains_def)
  note km = seedKey_domains [OF m]
  consider "seed_Domains a \<noteq> []" "seed_Domains b \<noteq> []" | "seed_Domains a = []" "seed_Domains b \<noteq> []"
    | "seed_Domains b = []" by blast
  then show ?thesis
  proof cases
    case 1
    then have "seed_Domains a = seed_Domains b"
      using keys assms(3) Join_inject [of "seed_Domains a" "CHR '',''" "seed_Domains b"] by simp
    with 1 km keys show ?thesis
      by (simp add: mergeSeeds_def Let_def uniqueNormalizedStrings_append_self)
  next
    case 2
    with km keys assms(3) show ?thesis by (simp add: mergeSeeds_def Let_def)
  next
    case 3
    with km keys assms(3) show ?thesis
      by (auto simp: mergeSeeds_def Let_def split: if_splits)
  qed
qed

end
