(* ===== verification/Asset_Merge.thy ===== *)
theory Asset_Merge
  imports Seed_Helpers "HOL-Library.Product_Lexorder"
begin

text \<open>
  \<open>internal/models/asset_normalization.go\<close>, \<open>asset_clone.go\<close> and \<open>asset_merge.go\<close>: the normal form
  of assets, observations and relations, their keys, and the merge of an incoming asset into the
  canonical one. A pointer receiver the code updates in place is an argument returned updated.
\<close>

section \<open>Clones\<close>

text \<open>A deep copy; in a model by values it is the value itself (lemma \<open>clone_id\<close>).\<close>

definition cloneRDAPData :: "rdapData option \<Rightarrow> rdapData option" where
  "cloneRDAPData data =
     (case data of None \<Rightarrow> None
      | Some d \<Rightarrow> Some (d\<lparr>rdap_Statuses := [] @ rdap_Statuses d,
                         rdap_NameServers := [] @ rdap_NameServers d\<rparr>))"

definition cloneDomainDetails :: "domainDetails option \<Rightarrow> domainDetails option" where
  "cloneDomainDetails details =
     (case details of None \<Rightarrow> None
      | Some d \<Rightarrow> Some (d\<lparr>dd_Records := [] @ dd_Records d, dd_RDAP := cloneRDAPData (dd_RDAP d)\<rparr>))"

definition cloneIPDetails :: "ipDetails option \<Rightarrow> ipDetails option" where
  "cloneIPDetails details = (case details of None \<Rightarrow> None | Some d \<Rightarrow> Some d)"

definition cloneEnrichmentData :: "(string \<times> enrichmentValue) list \<Rightarrow> (string \<times> enrichmentValue) list" where
  "cloneEnrichmentData values = (if values = [] then [] else values)"

definition cloneEnrichmentStates :: "(string \<times> enrichmentState) list \<Rightarrow> (string \<times> enrichmentState) list" where
  "cloneEnrichmentStates values = (if values = [] then [] else values)"

definition cloneAsset :: "asset \<Rightarrow> asset" where
  "cloneAsset a = a\<lparr>
     asset_Provenance := [] @ asset_Provenance a,
     asset_DomainDetails := cloneDomainDetails (asset_DomainDetails a),
     asset_IPDetails := cloneIPDetails (asset_IPDetails a),
     asset_EnrichmentData := cloneEnrichmentData (asset_EnrichmentData a),
     asset_EnrichmentStates := cloneEnrichmentStates (asset_EnrichmentStates a)\<rparr>"

lemma clone_id [simp]:
  "cloneRDAPData r = r" "cloneDomainDetails d = d" "cloneIPDetails i = i"
  "cloneEnrichmentData e = e" "cloneEnrichmentStates s = s" "cloneAsset a = a"
proof -
  show *: "cloneRDAPData r = r" for r
    by (cases r) (auto simp: cloneRDAPData_def)
  then show **: "cloneDomainDetails d = d" for d
    by (cases d) (auto simp: cloneDomainDetails_def)
  show "cloneIPDetails i = i" "cloneEnrichmentData e = e" "cloneEnrichmentStates s = s" for i e s
    by (simp_all add: cloneIPDetails_def cloneEnrichmentData_def cloneEnrichmentStates_def split: option.split)
  then show "cloneAsset a = a" by (simp add: cloneAsset_def **)
qed

section \<open>DNS records\<close>

definition domainRecordKey :: "dnsRecord \<Rightarrow> string" where
  "domainRecordKey record =
     TrimSpace (ToUpper (rec_Type record)) @ ''|'' @ TrimSpace (ToLower (rec_Value record))"

definition normalRecord :: "dnsRecord \<Rightarrow> dnsRecord" where
  "normalRecord record = record\<lparr>rec_Type := TrimSpace (ToUpper (rec_Type record)),
                                rec_Value := TrimSpace (rec_Value record)\<rparr>"

definition domainRecordLess :: "dnsRecord \<Rightarrow> dnsRecord \<Rightarrow> bool" where
  "domainRecordLess a b =
     (if rec_Type a = rec_Type b then ToLower (rec_Value a) < ToLower (rec_Value b)
      else rec_Type a < rec_Type b)"

definition uniqueDomainRecords :: "dnsRecord list \<Rightarrow> dnsRecord list" where
  "uniqueDomainRecords records =
     (if records = [] then []
      else SliceStable domainRecordLess
             (uniqueBy domainRecordKey {}
                (filter (\<lambda>r. \<not> (rec_Type r = [] \<or> rec_Value r = [])) (map normalRecord records))))"

definition mergeDomainRecords :: "dnsRecord list \<Rightarrow> dnsRecord list \<Rightarrow> dnsRecord list" where
  "mergeDomainRecords existing incoming =
     (if existing = [] \<and> incoming = [] then []
      else uniqueDomainRecords
             (existing @ uniqueBy domainRecordKey (domainRecordKey ` set existing) incoming))"

section \<open>RDAP data\<close>

definition orElse :: "'a \<Rightarrow> 'a \<Rightarrow> 'a \<Rightarrow> 'a" where
  "orElse zero existing incoming = (if existing = zero then incoming else existing)"

definition mergeRDAPData :: "rdapData \<Rightarrow> rdapData \<Rightarrow> rdapData" where
  "mergeRDAPData existing incoming =
     \<lparr>rdap_RegistrarName = orElse [] (rdap_RegistrarName existing) (rdap_RegistrarName incoming),
      rdap_RegistrarIANAID = orElse [] (rdap_RegistrarIANAID existing) (rdap_RegistrarIANAID incoming),
      rdap_RegistrarURL = orElse [] (rdap_RegistrarURL existing) (rdap_RegistrarURL incoming),
      rdap_CreationDate = orElse 0 (rdap_CreationDate existing) (rdap_CreationDate incoming),
      rdap_ExpirationDate = orElse 0 (rdap_ExpirationDate existing) (rdap_ExpirationDate incoming),
      rdap_UpdatedDate = orElse 0 (rdap_UpdatedDate existing) (rdap_UpdatedDate incoming),
      rdap_RegistrantName = orElse [] (rdap_RegistrantName existing) (rdap_RegistrantName incoming),
      rdap_RegistrantEmail = orElse [] (rdap_RegistrantEmail existing) (rdap_RegistrantEmail incoming),
      rdap_RegistrantOrg = orElse [] (rdap_RegistrantOrg existing) (rdap_RegistrantOrg incoming),
      rdap_Statuses = uniqueNormalizedStrings (rdap_Statuses existing @ rdap_Statuses incoming),
      rdap_NameServers = uniqueNormalizedStrings (rdap_NameServers existing @ rdap_NameServers incoming)\<rparr>"

section \<open>Normal forms and keys\<close>

definition canonicalAssetKey :: "assetType \<Rightarrow> string \<Rightarrow> string" where
  "canonicalAssetKey ty identifier = ty @ ''|'' @ TrimSpace (ToLower identifier)"

definition normalizeAsset :: "asset \<Rightarrow> asset" where
  "normalizeAsset a =
     (let a1 = a\<lparr>asset_ID := TrimSpace (asset_ID a),
                 asset_EnumerationID := TrimSpace (asset_EnumerationID a),
                 asset_Identifier := TrimSpace (asset_Identifier a),
                 asset_Source := TrimSpace (asset_Source a),
                 asset_InclusionReason := TrimSpace (asset_InclusionReason a),
                 asset_OwnershipState := TrimSpace (ToLower (asset_OwnershipState a)),
                 asset_DomainDetails := cloneDomainDetails (asset_DomainDetails a),
                 asset_IPDetails := cloneIPDetails (asset_IPDetails a),
                 asset_EnrichmentData := cloneEnrichmentData (asset_EnrichmentData a),
                 asset_EnrichmentStates := cloneEnrichmentStates (asset_EnrichmentStates a)\<rparr>;
          a2 = (if asset_Type a1 = AssetTypeDomain
                then a1\<lparr>asset_Identifier := ToLower (asset_Identifier a1),
                        asset_DomainDetails :=
                          map_option (\<lambda>d. d\<lparr>dd_Records := uniqueDomainRecords (dd_Records d)\<rparr>)
                            (asset_DomainDetails a1)\<rparr>
                else a1)
      in if asset_Type a2 = AssetTypeIP
         then a2\<lparr>asset_Identifier := ToLower (asset_Identifier a2)\<rparr> else a2)"

definition normalizeAssetRelation :: "assetRelation \<Rightarrow> assetRelation" where
  "normalizeAssetRelation r = r\<lparr>
     rel_ID := TrimSpace (rel_ID r),
     rel_FromAssetID := TrimSpace (rel_FromAssetID r),
     rel_FromIdentifier := TrimSpace (ToLower (rel_FromIdentifier r)),
     rel_ToAssetID := TrimSpace (rel_ToAssetID r),
     rel_ToIdentifier := TrimSpace (ToLower (rel_ToIdentifier r)),
     rel_ObservationID := TrimSpace (rel_ObservationID r),
     rel_EnumerationID := TrimSpace (rel_EnumerationID r),
     rel_Source := TrimSpace (ToLower (rel_Source r)),
     rel_Kind := TrimSpace (ToLower (rel_Kind r)),
     rel_Label := TrimSpace (rel_Label r),
     rel_Reason := TrimSpace (rel_Reason r)\<rparr>"

definition assetObservationFromAsset :: "asset \<Rightarrow> assetObservation" where
  "assetObservationFromAsset a =
     \<lparr>obs_Kind = ObservationKindDiscovery, obs_ID = asset_ID a, obs_AssetID = [],
      obs_EnumerationID = asset_EnumerationID a, obs_Type = asset_Type a,
      obs_Identifier = asset_Identifier a, obs_Source = asset_Source a,
      obs_DiscoveryDate = asset_DiscoveryDate a, obs_OwnershipState = asset_OwnershipState a,
      obs_InclusionReason = asset_InclusionReason a,
      obs_DomainDetails = cloneDomainDetails (asset_DomainDetails a),
      obs_IPDetails = cloneIPDetails (asset_IPDetails a),
      obs_EnrichmentData = cloneEnrichmentData (asset_EnrichmentData a),
      obs_EnrichmentStates = cloneEnrichmentStates (asset_EnrichmentStates a)\<rparr>"

definition normalizeObservationKind :: "observationKind \<Rightarrow> observationKind" where
  "normalizeObservationKind kind =
     (if TrimSpace (ToLower kind) = ObservationKindEnrichment then ObservationKindEnrichment
      else ObservationKindDiscovery)"

definition normalizeAssetObservation :: "assetObservation \<Rightarrow> assetObservation" where
  "normalizeAssetObservation o0 =
     (let o1 = o0\<lparr>obs_Kind := normalizeObservationKind (obs_Kind o0),
                  obs_ID := TrimSpace (obs_ID o0),
                  obs_AssetID := TrimSpace (obs_AssetID o0),
                  obs_EnumerationID := TrimSpace (obs_EnumerationID o0),
                  obs_Identifier := TrimSpace (obs_Identifier o0),
                  obs_Source := TrimSpace (ToLower (obs_Source o0)),
                  obs_InclusionReason := TrimSpace (obs_InclusionReason o0),
                  obs_OwnershipState := TrimSpace (ToLower (obs_OwnershipState o0)),
                  obs_DomainDetails := cloneDomainDetails (obs_DomainDetails o0),
                  obs_IPDetails := cloneIPDetails (obs_IPDetails o0),
                  obs_EnrichmentData := cloneEnrichmentData (obs_EnrichmentData o0),
                  obs_EnrichmentStates := cloneEnrichmentStates (obs_EnrichmentStates o0)\<rparr>;
          o2 = (if obs_Type o1 = AssetTypeDomain
                then o1\<lparr>obs_Identifier := ToLower (obs_Identifier o1),
                        obs_DomainDetails :=
                          map_option (\<lambda>d. d\<lparr>dd_Records := uniqueDomainRecords (dd_Records d)\<rparr>)
                            (obs_DomainDetails o1)\<rparr>
                else o1)
      in if obs_Type o2 = AssetTypeIP
         then o2\<lparr>obs_Identifier := ToLower (obs_Identifier o2)\<rparr> else o2)"

definition assetFromObservation :: "assetObservation \<Rightarrow> asset" where
  "assetFromObservation ob =
     \<lparr>asset_ID = TrimSpace (obs_AssetID ob), asset_EnumerationID = obs_EnumerationID ob,
      asset_Type = obs_Type ob, asset_Identifier = obs_Identifier ob, asset_Source = obs_Source ob,
      asset_DiscoveryDate = obs_DiscoveryDate ob, asset_Provenance = [],
      asset_OwnershipState = obs_OwnershipState ob,
      asset_InclusionReason = obs_InclusionReason ob,
      asset_EnrichmentStates = cloneEnrichmentStates (obs_EnrichmentStates ob),
      asset_DomainDetails = cloneDomainDetails (obs_DomainDetails ob),
      asset_IPDetails = cloneIPDetails (obs_IPDetails ob),
      asset_EnrichmentData = cloneEnrichmentData (obs_EnrichmentData ob)\<rparr>"

definition assetRelationKey :: "assetRelation \<Rightarrow> string" where
  "assetRelationKey r =
     Join [rel_FromAssetID r, rel_FromAssetType r, rel_FromIdentifier r, rel_ToAssetID r,
           rel_ToAssetType r, rel_ToIdentifier r, rel_ObservationID r, rel_EnumerationID r,
           rel_Source r, rel_Kind r, rel_Label r, rel_Reason r,
           FormatRFC3339NanoUTC (rel_DiscoveryDate r)] ''|''"

section \<open>Provenance\<close>

definition assetProvenanceKey :: "assetProvenance \<Rightarrow> string" where
  "assetProvenanceKey item =
     prov_AssetID item @ ''|'' @ prov_EnumerationID item @ ''|'' @ prov_Source item @ ''|''
       @ FormatRFC3339NanoUTC (prov_DiscoveryDate item)"

definition assetProvenanceFromAsset :: "asset \<Rightarrow> assetProvenance" where
  "assetProvenanceFromAsset a =
     \<lparr>prov_AssetID = TrimSpace (asset_ID a), prov_EnumerationID = TrimSpace (asset_EnumerationID a),
      prov_Source = TrimSpace (ToLower (asset_Source a)), prov_DiscoveryDate = asset_DiscoveryDate a\<rparr>"

definition assetProvenanceFromObservation :: "assetObservation \<Rightarrow> assetProvenance" where
  "assetProvenanceFromObservation ob =
     \<lparr>prov_AssetID = TrimSpace (obs_ID ob), prov_EnumerationID = TrimSpace (obs_EnumerationID ob),
      prov_Source = TrimSpace (ToLower (obs_Source ob)), prov_DiscoveryDate = obs_DiscoveryDate ob\<rparr>"

definition blankProvenance :: "assetProvenance \<Rightarrow> bool" where
  "blankProvenance item \<longleftrightarrow> prov_AssetID item = [] \<and> prov_EnumerationID item = []
     \<and> prov_Source item = [] \<and> prov_DiscoveryDate item = 0"

definition provenanceLess :: "assetProvenance \<Rightarrow> assetProvenance \<Rightarrow> bool" where
  "provenanceLess a b =
     (if prov_DiscoveryDate a = prov_DiscoveryDate b then assetProvenanceKey a < assetProvenanceKey b
      else if prov_DiscoveryDate a = 0 then False
      else if prov_DiscoveryDate b = 0 then True
      else prov_DiscoveryDate a < prov_DiscoveryDate b)"

definition mergeAssetProvenance :: "assetProvenance list \<Rightarrow> assetProvenance list \<Rightarrow> assetProvenance list" where
  "mergeAssetProvenance existing incoming =
     SliceStable provenanceLess
       (existing @ uniqueBy assetProvenanceKey (assetProvenanceKey ` set existing)
                     (filter (\<lambda>p. \<not> blankProvenance p) incoming))"

section \<open>Sources and inclusion reasons\<close>

definition splitSourceValues :: "string \<Rightarrow> string list" where
  "splitSourceValues value =
     filter (\<lambda>p. p \<noteq> []) (map (\<lambda>p. TrimSpace (ToLower p)) (Split value CHR '',''))"

definition mergeSources :: "string \<Rightarrow> string \<Rightarrow> string" where
  "mergeSources existing incoming =
     Join (uniqueNormalizedStrings (splitSourceValues existing @ splitSourceValues incoming)) '', ''"

datatype inclusionReasonKind = inclusionReasonEmpty | inclusionReasonGeneric | inclusionReasonExplicit

definition classifyInclusionReason :: "string \<Rightarrow> inclusionReasonKind" where
  "classifyInclusionReason reason0 =
     (let reason = TrimSpace reason0
      in if reason = [] then inclusionReasonEmpty
         else if HasPrefix reason ''Discovered via '' then inclusionReasonGeneric
         else if HasPrefix reason ''Supported by '' \<and> Contains reason '' discovery observations''
         then inclusionReasonGeneric
         else inclusionReasonExplicit)"

definition summarizeDiscoveryInclusionReason :: "assetProvenance list \<Rightarrow> string \<Rightarrow> string" where
  "summarizeDiscoveryInclusionReason provenance fallbackSource =
     (let items = filter (\<lambda>p. \<not> blankProvenance p) provenance;
          sources0 = sort (uniqueBy (\<lambda>s. s) {}
            (filter (\<lambda>s. s \<noteq> []) (map (\<lambda>p. TrimSpace (ToLower (prov_Source p))) items)));
          sourceValues = (if length sources0 = 0 then splitSourceValues fallbackSource else sources0);
          observationCount = (if length items = 0 then length sourceValues else length items)
      in if observationCount = 0 then []
         else if observationCount = 1 \<and> length sourceValues > 0
         then ''Discovered via '' @ sourceValues ! 0
         else if length sourceValues = 0
         then ''Supported by '' @ show_nat observationCount @ '' discovery observations''
         else ''Supported by '' @ show_nat observationCount @ '' discovery observations from ''
                @ Join sourceValues '', '')"

definition mergeInclusionReason ::
  "string \<Rightarrow> string \<Rightarrow> bool \<Rightarrow> observationKind \<Rightarrow> assetProvenance list \<Rightarrow> string \<Rightarrow> string" where
  "mergeInclusionReason existing0 incoming0 incomingWins kind discoveryProvenance fallbackSource =
     (let existing = TrimSpace existing0; incoming = TrimSpace incoming0;
          existingKind = classifyInclusionReason existing;
          incomingKind = classifyInclusionReason incoming;
          derived = summarizeDiscoveryInclusionReason discoveryProvenance fallbackSource
      in if kind = ObservationKindEnrichment
         then (if existing \<noteq> [] then existing
               else if derived \<noteq> [] then derived
               else incoming)
         else if incomingKind = inclusionReasonExplicit
                 \<and> (existingKind \<noteq> inclusionReasonExplicit \<or> incomingWins) then incoming
         else if existingKind = inclusionReasonExplicit then existing
         else if derived \<noteq> [] then derived
         else if existing \<noteq> [] then existing
         else incoming)"

definition defaultInclusionReason :: "asset \<Rightarrow> string" where
  "defaultInclusionReason a =
     (let source = TrimSpace (asset_Source a)
      in if source = [] then [] else ''Discovered via '' @ source)"

section \<open>Ownership and status\<close>

definition mergeOwnershipState :: "ownershipState \<Rightarrow> ownershipState \<Rightarrow> ownershipState \<times> bool" where
  "mergeOwnershipState existing incoming =
     (if existing = OwnershipStateOwned \<or> incoming = OwnershipStateOwned
      then (OwnershipStateOwned, incoming = OwnershipStateOwned \<and> existing \<noteq> OwnershipStateOwned)
      else if existing = OwnershipStateUncertain \<or> incoming = OwnershipStateUncertain
      then (OwnershipStateUncertain, incoming = OwnershipStateUncertain \<and> existing \<noteq> OwnershipStateUncertain)
      else if existing = OwnershipStateAssociatedInfrastructure
      then (OwnershipStateAssociatedInfrastructure, False)
      else if incoming = OwnershipStateAssociatedInfrastructure
      then (OwnershipStateAssociatedInfrastructure, existing = [])
      else (existing, False))"

definition defaultOwnershipState :: "asset \<Rightarrow> ownershipState" where
  "defaultOwnershipState a =
     (if asset_Type a = AssetTypeIP then OwnershipStateAssociatedInfrastructure else OwnershipStateOwned)"

definition enrichmentStatePriority :: "enrichmentState \<Rightarrow> int" where
  "enrichmentStatePriority state =
     (let status = TrimSpace (ToLower (es_Status state))
      in if status = ''completed'' then 4
         else if status = ''cached'' then 3
         else if status = ''retryable'' then 2
         else if status = ''failed'' then 1
         else 0)"

definition DomainResolutionStatusForAsset :: "asset \<Rightarrow> string" where
  "DomainResolutionStatusForAsset a =
     (if asset_Type a \<noteq> AssetTypeDomain then []
      else if (case asset_DomainDetails a of None \<Rightarrow> False | Some d \<Rightarrow> length (dd_Records d) > 0)
      then DomainResolutionStatusResolved
      else case map_of (asset_EnrichmentStates a) ''domain_enricher'' of
             None \<Rightarrow> DomainResolutionStatusNotChecked
           | Some state \<Rightarrow>
               (let status = TrimSpace (ToLower (es_Status state))
                in if status = ''completed'' \<or> status = ''cached'' then DomainResolutionStatusUnresolved
                   else if status = ''failed'' \<or> status = ''retryable'' then DomainResolutionStatusLookupFailed
                   else DomainResolutionStatusNotChecked))"

section \<open>Merging into the canonical asset\<close>

definition mergeDomainDetails :: "domainDetails option \<Rightarrow> domainDetails option \<Rightarrow> domainDetails option" where
  "mergeDomainDetails existing incoming =
     (case incoming of
        None \<Rightarrow> existing
      | Some i \<Rightarrow>
          (let e = (case existing of None \<Rightarrow> \<lparr>dd_Records = [], dd_IsCatchAll = False, dd_RDAP = None\<rparr>
                    | Some e \<Rightarrow> e)
           in Some \<lparr>dd_Records = mergeDomainRecords (dd_Records e) (dd_Records i),
                    dd_IsCatchAll = (dd_IsCatchAll e \<or> dd_IsCatchAll i),
                    dd_RDAP = (case dd_RDAP i of
                        None \<Rightarrow> dd_RDAP e
                      | Some ri \<Rightarrow> (case dd_RDAP e of
                            None \<Rightarrow> cloneRDAPData (Some ri)
                          | Some re \<Rightarrow> Some (mergeRDAPData re ri)))\<rparr>))"

definition mergeIPDetails :: "ipDetails option \<Rightarrow> ipDetails option \<Rightarrow> ipDetails option" where
  "mergeIPDetails existing incoming =
     (case incoming of
        None \<Rightarrow> existing
      | Some i \<Rightarrow>
          (let e = (case existing of None \<Rightarrow> \<lparr>ip_ASN = 0, ip_Organization = [], ip_PTR = []\<rparr> | Some e \<Rightarrow> e)
           in Some \<lparr>ip_ASN = (if ip_ASN e = 0 \<and> ip_ASN i \<noteq> 0 then ip_ASN i else ip_ASN e),
                    ip_Organization = (if ip_Organization e = [] \<and> ip_Organization i \<noteq> []
                                       then ip_Organization i else ip_Organization e),
                    ip_PTR = (if ip_PTR e = [] \<and> ip_PTR i \<noteq> [] then ip_PTR i else ip_PTR e)\<rparr>))"

fun mergeEnrichmentData ::
  "(string \<times> enrichmentValue) list \<Rightarrow> (string \<times> enrichmentValue) list \<Rightarrow> (string \<times> enrichmentValue) list" where
  "mergeEnrichmentData existing [] = existing"
| "mergeEnrichmentData existing ((key, v) # rest) = mergeEnrichmentData (AList.update key v existing) rest"

fun mergeEnrichmentStates ::
  "(string \<times> enrichmentState) list \<Rightarrow> (string \<times> enrichmentState) list \<Rightarrow> (string \<times> enrichmentState) list" where
  "mergeEnrichmentStates existing [] = existing"
| "mergeEnrichmentStates existing ((key, state) # rest) =
     mergeEnrichmentStates
       (if (case map_of existing key of None \<Rightarrow> True
            | Some old \<Rightarrow> enrichmentStatePriority state \<ge> enrichmentStatePriority old)
        then AList.update key state existing else existing) rest"

definition mergeDiscoveryDate :: "gotime \<Rightarrow> gotime \<Rightarrow> gotime" where
  "mergeDiscoveryDate existing incoming =
     (if existing = 0 \<or> (incoming \<noteq> 0 \<and> incoming < existing) then incoming else existing)"

definition mergeAssetIntoCanonical :: "asset \<Rightarrow> asset \<Rightarrow> observationKind \<Rightarrow> asset" where
  "mergeAssetIntoCanonical existing incoming kind =
     (let e1 = existing\<lparr>
            asset_ID := orElse [] (asset_ID existing) (asset_ID incoming),
            asset_EnumerationID := orElse [] (asset_EnumerationID existing) (asset_EnumerationID incoming),
            asset_Identifier := orElse [] (asset_Identifier existing) (asset_Identifier incoming),
            asset_Type := orElse [] (asset_Type existing) (asset_Type incoming),
            asset_DiscoveryDate := mergeDiscoveryDate (asset_DiscoveryDate existing)
                                     (asset_DiscoveryDate incoming)\<rparr>;
          e2 = (if kind = ObservationKindDiscovery
                then e1\<lparr>asset_Source := mergeSources (asset_Source e1) (asset_Source incoming),
                        asset_Provenance := mergeAssetProvenance (asset_Provenance e1)
                                              [assetProvenanceFromAsset incoming]\<rparr>
                else e1);
          (mergedOwnership, incomingWins) =
            mergeOwnershipState (asset_OwnershipState e2) (asset_OwnershipState incoming);
          reason = mergeInclusionReason (asset_InclusionReason e2) (asset_InclusionReason incoming)
                     incomingWins kind (asset_Provenance e2) (asset_Source e2);
          e3 = e2\<lparr>asset_InclusionReason := (if reason = [] then defaultInclusionReason incoming else reason),
                  asset_OwnershipState := (if mergedOwnership = [] then defaultOwnershipState e2
                                           else mergedOwnership)\<rparr>
      in e3\<lparr>asset_DomainDetails := mergeDomainDetails (asset_DomainDetails e3) (asset_DomainDetails incoming),
            asset_IPDetails := mergeIPDetails (asset_IPDetails e3) (asset_IPDetails incoming),
            asset_EnrichmentData := mergeEnrichmentData (asset_EnrichmentData e3) (asset_EnrichmentData incoming),
            asset_EnrichmentStates := mergeEnrichmentStates (asset_EnrichmentStates e3)
                                        (asset_EnrichmentStates incoming)\<rparr>)"

end
