(* ===== verification/Asset_Merge_Facts.thy ===== *)
theory Asset_Merge_Facts
  imports Asset_Merge
begin

text \<open>
  What the merges of \<open>Asset_Merge\<close> guarantee: their sort closures are strict weak orders, the
  merged lists are sorted, without duplicates and stable under a second merge, ownership and
  enrichment states are joins of a ranking, sources are a set.
\<close>

section \<open>DNS records\<close>

lemma domainRecordLess_key:
  "domainRecordLess a b \<longleftrightarrow> (rec_Type a, ToLower (rec_Value a)) < (rec_Type b, ToLower (rec_Value b))"
  by (auto simp: domainRecordLess_def)

interpretation record_order: strict_weak_order domainRecordLess
  by (rule strict_weak_order_key [OF domainRecordLess_key])

lemma upper_char_idem [simp]: "upper_char (upper_char c) = upper_char c"
  by (auto simp: upper_char_def Let_def)

lemma is_space_upper_char [simp]: "is_space (upper_char c) = is_space c"
  by (auto simp: is_space_def upper_char_def Let_def)

lemma ToUpper_idem [simp]: "ToUpper (ToUpper s) = ToUpper s"
  by (simp add: ToUpper_def comp_def)

lemma TrimSpace_ToUpper: "TrimSpace (ToUpper s) = ToUpper (TrimSpace s)"
  by (simp add: TrimSpace_def TrimLeft_def ToUpper_def dropWhile_map comp_def rev_map)

lemma normalRecord_idem [simp]: "normalRecord (normalRecord r) = normalRecord r"
  by (simp add: normalRecord_def TrimSpace_ToUpper)

lemma domainRecordKey_normalRecord [simp]: "domainRecordKey (normalRecord r) = domainRecordKey r"
  by (simp add: normalRecord_def domainRecordKey_def TrimSpace_ToUpper TrimSpace_ToLower)

definition keptRecord :: "dnsRecord \<Rightarrow> bool" where
  "keptRecord r \<longleftrightarrow> TrimSpace (rec_Type r) \<noteq> [] \<and> TrimSpace (rec_Value r) \<noteq> []"

lemma ToUpper_eq_Nil_iff [simp]: "ToUpper s = [] \<longleftrightarrow> s = []"
  by (simp add: ToUpper_def)

lemma keptRecord_normalRecord:
  "\<not> (rec_Type (normalRecord r) = [] \<or> rec_Value (normalRecord r) = []) \<longleftrightarrow> keptRecord r"
  by (simp add: normalRecord_def keptRecord_def TrimSpace_ToUpper)

lemma uniqueDomainRecords_eq:
  "uniqueDomainRecords rs =
     SliceStable domainRecordLess
       (uniqueBy domainRecordKey {} (map normalRecord (filter keptRecord rs)))"
  by (simp add: uniqueDomainRecords_def filter_map comp_def keptRecord_normalRecord [simplified])

lemma keys_uniqueDomainRecords:
  "domainRecordKey ` set (uniqueDomainRecords rs) = domainRecordKey ` set (filter keptRecord rs)"
  using keys_uniqueBy [of domainRecordKey "{}" "map normalRecord (filter keptRecord rs)"]
  by (simp add: uniqueDomainRecords_eq image_image)

lemma distinct_uniqueDomainRecords: "distinct (map domainRecordKey (uniqueDomainRecords rs))"
  by (simp add: uniqueDomainRecords_eq distinct_uniqueBy)

lemma uniqueDomainRecords_normal:
  "r \<in> set (uniqueDomainRecords rs) \<Longrightarrow> normalRecord r = r \<and> keptRecord r"
  using set_uniqueBy_subset [of domainRecordKey "{}" "map normalRecord (filter keptRecord rs)"]
  by (auto simp: uniqueDomainRecords_eq keptRecord_def normalRecord_def TrimSpace_ToUpper)

lemma uniqueDomainRecords_sorted:
  "sorted_wrt (\<lambda>a b. \<not> domainRecordLess b a) (uniqueDomainRecords rs)"
  unfolding uniqueDomainRecords_eq by (rule record_order.sorted_SliceStable)

lemma uniqueDomainRecords_idem: "uniqueDomainRecords (uniqueDomainRecords rs) = uniqueDomainRecords rs"
proof -
  let ?u = "uniqueDomainRecords rs"
  have "filter keptRecord ?u = ?u" and "map normalRecord ?u = ?u"
    by (simp_all add: filter_id_conv map_idI uniqueDomainRecords_normal)
  then have "uniqueDomainRecords ?u = SliceStable domainRecordLess ?u"
    using uniqueBy_fixed [OF distinct_uniqueDomainRecords [of rs], of "{}"]
    by (simp add: uniqueDomainRecords_eq [of ?u])
  also have "\<dots> = ?u" unfolding uniqueDomainRecords_eq [of rs] by (rule record_order.SliceStable_idem)
  finally show ?thesis .
qed

text \<open>The seen map of the merge loop changes nothing: the records are unique afterwards anyway.\<close>

lemma domainRecordKey_kept: "keptRecord r \<Longrightarrow> keptRecord (normalRecord r)"
  by (simp add: keptRecord_def normalRecord_def TrimSpace_ToUpper)

lemma uniqueBy_map_normal:
  "uniqueBy domainRecordKey seen (map normalRecord rs) = map normalRecord (uniqueBy domainRecordKey seen rs)"
  by (induction rs arbitrary: seen) auto

lemma keptRecord_key:
  "domainRecordKey a = domainRecordKey b \<Longrightarrow> CHR ''|'' \<notin> set (rec_Type a) \<Longrightarrow>
   CHR ''|'' \<notin> set (rec_Type b) \<Longrightarrow> keptRecord a \<longleftrightarrow> keptRecord b"
proof -
  assume key: "domainRecordKey a = domainRecordKey b"
    and bars: "CHR ''|'' \<notin> set (rec_Type a)" "CHR ''|'' \<notin> set (rec_Type b)"
  have upper: "CHR ''|'' \<notin> set (TrimSpace (ToUpper s))" if "CHR ''|'' \<notin> set s" for s
  proof
    assume "CHR ''|'' \<in> set (TrimSpace (ToUpper s))"
    from set_TrimSpace [OF this] have "CHR ''|'' \<in> upper_char ` set s" by (simp add: ToUpper_def)
    then obtain c where c: "c \<in> set s" "upper_char c = CHR ''|''" by (metis imageE)
    have "c = CHR ''|''"
    proof (cases "97 \<le> (of_char c :: nat) \<and> (of_char c :: nat) \<le> 122")
      case True
      with c(2) have "(of_char (char_of (of_char c - 32 :: nat) :: char) :: nat) = 124"
        by (simp add: upper_char_def Let_def)
      moreover from True have "(of_char c - 32 :: nat) < 256" by linarith
      ultimately have "of_char c - 32 = (124 :: nat)" by simp
      with True show ?thesis by linarith
    next
      case False
      with c(2) show ?thesis by (auto simp: upper_char_def Let_def)
    qed
    with c that show False by simp
  qed
  have "TrimSpace (ToUpper (rec_Type a)) = TrimSpace (ToUpper (rec_Type b))
      \<and> TrimSpace (ToLower (rec_Value a)) = TrimSpace (ToLower (rec_Value b))"
    using key append_sep_inject [OF upper upper, OF bars] by (simp add: domainRecordKey_def)
  then have "TrimSpace (rec_Type a) = [] \<longleftrightarrow> TrimSpace (rec_Type b) = []"
    and "TrimSpace (rec_Value a) = [] \<longleftrightarrow> TrimSpace (rec_Value b) = []"
    by (metis TrimSpace_ToUpper ToUpper_eq_Nil_iff, metis TrimSpace_ToLower ToLower_eq_Nil_iff)
  then show ?thesis by (simp add: keptRecord_def)
qed

lemma uniqueBy_filter_uniqueBy:
  assumes "\<forall>x \<in> set ys. \<forall>y \<in> set ys. f x = f y \<longrightarrow> P x = P y"
    and "\<forall>y \<in> set ys. P y \<longrightarrow> f y \<in> T \<longrightarrow> f y \<in> S"
  shows "uniqueBy f S (filter P (uniqueBy f T ys)) = uniqueBy f S (filter P ys)"
  using assms
proof (induction ys arbitrary: S T)
  case (Cons y ys)
  have same: "\<forall>x \<in> set ys. \<forall>y \<in> set ys. f x = f y \<longrightarrow> P x = P y"
    using Cons.prems(1) by (meson list.set_intros(2))
  let ?S = "if P y then insert (f y) S else S"
  let ?T = "if f y \<in> T then T else insert (f y) T"
  have "\<forall>z \<in> set ys. P z \<longrightarrow> f z \<in> ?T \<longrightarrow> f z \<in> ?S"
  proof (intro ballI impI)
    fix z assume z: "z \<in> set ys" "P z" "f z \<in> ?T"
    show "f z \<in> ?S"
    proof (cases "f z = f y")
      case True
      then have "P z = P y" using Cons.prems(1) z(1) by (meson list.set_intros)
      with z(2) True show ?thesis by simp
    next
      case False
      with z(3) have "f z \<in> T" by (simp split: if_splits)
      then have "f z \<in> S" using Cons.prems(2) z(1,2) by (meson list.set_intros(2))
      then show ?thesis by simp
    qed
  qed
  note IH = Cons.IH [OF same this]
  have "P y \<Longrightarrow> f y \<in> T \<Longrightarrow> f y \<in> S" using Cons.prems(2) by (meson list.set_intros(1))
  with IH show ?case
    by (cases "P y"; cases "f y \<in> T"; cases "f y \<in> S") (simp_all add: insert_absorb)
qed simp

lemma mergeDomainRecords_eq:
  assumes "\<forall>r \<in> set (xs @ ys). CHR ''|'' \<notin> set (rec_Type r)"
  shows "mergeDomainRecords xs ys = uniqueDomainRecords (xs @ ys)"
proof -
  have same: "\<forall>x \<in> set ys. \<forall>y \<in> set ys. domainRecordKey x = domainRecordKey y \<longrightarrow> keptRecord x = keptRecord y"
    using assms keptRecord_key by (metis UnCI set_append)
  let ?S = "domainRecordKey ` set (filter keptRecord xs)"
  have "\<forall>y \<in> set ys. keptRecord y \<longrightarrow> domainRecordKey y \<in> domainRecordKey ` set xs \<longrightarrow> domainRecordKey y \<in> ?S"
  proof (intro ballI impI)
    fix y assume y: "y \<in> set ys" "keptRecord y" "domainRecordKey y \<in> domainRecordKey ` set xs"
    then obtain x where x: "x \<in> set xs" "domainRecordKey y = domainRecordKey x" by blast
    have "keptRecord y = keptRecord x"
      by (rule keptRecord_key [OF x(2)]) (use assms x(1) y(1) in auto)
    with x y(2) show "domainRecordKey y \<in> ?S" by simp
  qed
  from uniqueBy_filter_uniqueBy [OF same this]
  have "uniqueBy domainRecordKey {} (map normalRecord (filter keptRecord
          (xs @ uniqueBy domainRecordKey (domainRecordKey ` set xs) ys)))
      = uniqueBy domainRecordKey {} (map normalRecord (filter keptRecord (xs @ ys)))"
    by (simp only: uniqueBy_map_normal filter_append uniqueBy_append) simp
  then show ?thesis
    by (simp add: mergeDomainRecords_def uniqueDomainRecords_eq)
qed

section \<open>Provenance\<close>

lemma provenanceLess_key:
  "provenanceLess a b \<longleftrightarrow>
     (prov_DiscoveryDate a = 0, prov_DiscoveryDate a, assetProvenanceKey a)
       < (prov_DiscoveryDate b = 0, prov_DiscoveryDate b, assetProvenanceKey b)"
  by (auto simp: provenanceLess_def)

interpretation provenance_order: strict_weak_order provenanceLess
  by (rule strict_weak_order_key [OF provenanceLess_key])

lemma mergeAssetProvenance_sorted:
  "sorted_wrt (\<lambda>a b. \<not> provenanceLess b a) (mergeAssetProvenance xs ys)"
  unfolding mergeAssetProvenance_def by (rule provenance_order.sorted_SliceStable)

lemma keys_mergeAssetProvenance:
  "assetProvenanceKey ` set (mergeAssetProvenance xs ys) =
     assetProvenanceKey ` set xs \<union> assetProvenanceKey ` set (filter (\<lambda>p. \<not> blankProvenance p) ys)"
  using keys_uniqueBy [of assetProvenanceKey "assetProvenanceKey ` set xs"
      "filter (\<lambda>p. \<not> blankProvenance p) ys"]
  by (auto simp: mergeAssetProvenance_def image_Un)

lemma mergeAssetProvenance_keeps: "set xs \<subseteq> set (mergeAssetProvenance xs ys)"
  by (simp add: mergeAssetProvenance_def)

lemma distinct_mergeAssetProvenance:
  assumes "distinct (map assetProvenanceKey xs)"
  shows "distinct (map assetProvenanceKey (mergeAssetProvenance xs ys))"
proof -
  let ?new = "uniqueBy assetProvenanceKey (assetProvenanceKey ` set xs) (filter (\<lambda>p. \<not> blankProvenance p) ys)"
  have "assetProvenanceKey ` set ?new \<inter> assetProvenanceKey ` set xs = {}"
    unfolding keys_uniqueBy by blast
  with assms distinct_uniqueBy [of assetProvenanceKey "assetProvenanceKey ` set xs"
      "filter (\<lambda>p. \<not> blankProvenance p) ys"] show ?thesis
    by (auto simp: mergeAssetProvenance_def)
qed

lemma uniqueBy_all_seen: "f ` set xs \<subseteq> seen \<Longrightarrow> uniqueBy f seen xs = []"
  by (induction xs) auto

lemma mergeAssetProvenance_absorb:
  assumes "assetProvenanceKey ` set (filter (\<lambda>p. \<not> blankProvenance p) ys) \<subseteq> assetProvenanceKey ` set xs"
  shows "mergeAssetProvenance xs ys = SliceStable provenanceLess xs"
  by (simp add: mergeAssetProvenance_def uniqueBy_all_seen [OF assms])

lemma mergeAssetProvenance_idem:
  "mergeAssetProvenance (mergeAssetProvenance xs ys) ys = mergeAssetProvenance xs ys"
proof -
  have "mergeAssetProvenance (mergeAssetProvenance xs ys) ys
          = SliceStable provenanceLess (mergeAssetProvenance xs ys)"
    by (rule mergeAssetProvenance_absorb) (simp only: keys_mergeAssetProvenance Un_upper2)
  also have "\<dots> = mergeAssetProvenance xs ys"
    unfolding mergeAssetProvenance_def by (rule provenance_order.SliceStable_idem)
  finally show ?thesis .
qed

section \<open>Ownership\<close>

definition ownershipRank :: "ownershipState \<Rightarrow> nat" where
  "ownershipRank s =
     (if s = OwnershipStateOwned then 3 else if s = OwnershipStateUncertain then 2
      else if s = OwnershipStateAssociatedInfrastructure then 1 else 0)"

lemma mergeOwnershipState_rank:
  "ownershipRank (fst (mergeOwnershipState a b)) = max (ownershipRank a) (ownershipRank b)"
  by (simp add: mergeOwnershipState_def ownershipRank_def)

lemma mergeOwnershipState_wins:
  assumes "ownershipRank a = 0 \<Longrightarrow> a = []"
  shows "snd (mergeOwnershipState a b) \<longleftrightarrow> ownershipRank b > ownershipRank a"
  using assms by (auto simp: mergeOwnershipState_def ownershipRank_def split: if_splits)

lemma ownershipRank_inject: "ownershipRank a = ownershipRank b \<Longrightarrow> ownershipRank a \<noteq> 0 \<Longrightarrow> a = b"
  by (auto simp: ownershipRank_def split: if_splits)

lemma mergeOwnershipState_nonempty:
  "fst (mergeOwnershipState a b) = [] \<Longrightarrow> a = [] \<and> ownershipRank b = 0"
  by (auto simp: mergeOwnershipState_def ownershipRank_def split: if_splits)

section \<open>Discovery dates\<close>

lemma mergeDiscoveryDate_zero [simp]: "mergeDiscoveryDate 0 d = d" "mergeDiscoveryDate d 0 = d"
  by (simp_all add: mergeDiscoveryDate_def)

lemma mergeDiscoveryDate_min: "a \<noteq> 0 \<Longrightarrow> b \<noteq> 0 \<Longrightarrow> mergeDiscoveryDate a b = min a b"
  by (simp add: mergeDiscoveryDate_def)

lemma mergeDiscoveryDate_assoc:
  "mergeDiscoveryDate (mergeDiscoveryDate a b) c = mergeDiscoveryDate a (mergeDiscoveryDate b c)"
  by (auto simp: mergeDiscoveryDate_def)

lemma mergeDiscoveryDate_comm: "mergeDiscoveryDate a b = mergeDiscoveryDate b a"
  by (auto simp: mergeDiscoveryDate_def)

section \<open>Sources\<close>

lemma Split_snoc_space:
  "Split (CHR '' '' # s) CHR '','' = (case Split s CHR '','' of [] \<Rightarrow> [] | p # ps \<Rightarrow> (CHR '' '' # p) # ps)"
  by (simp split: list.split) 

lemma TrimSpace_space [simp]: "TrimSpace (CHR '' '' # s) = TrimSpace s"
  by (simp add: TrimSpace_def TrimLeft_def is_space_def)

lemma splitSourceValues_Join:
  assumes "\<forall>v \<in> set vs. CHR '','' \<notin> set v \<and> norm_str v = v \<and> v \<noteq> []"
  shows "splitSourceValues (Join vs '', '') = vs"
proof -
  have map: "filter (\<lambda>p. p \<noteq> []) (map (\<lambda>p. TrimSpace (ToLower p)) (Split (Join vs '', '') CHR '','')) = vs
     \<and> (vs \<noteq> [] \<longrightarrow> filter (\<lambda>p. p \<noteq> []) (map (\<lambda>p. TrimSpace (ToLower p))
          (Split (CHR '' '' # Join vs '', '') CHR '','')) = vs)"
    using assms
  proof (induction vs)
    case Nil
    then show ?case by simp
  next
    case (Cons v vs)
    have v: "CHR '','' \<notin> set v" "TrimSpace (ToLower v) = v" "v \<noteq> []"
      using Cons.prems by (auto simp: norm_str_def TrimSpace_ToLower)
    have sp: "TrimSpace (ToLower (CHR '' '' # v)) = v"
      using v(2) by (simp add: TrimSpace_ToLower)
    show ?case
    proof (cases vs)
      case Nil
      with v sp show ?thesis by (simp add: Split_fresh)
    next
      case (Cons w ws)
      then have join: "Join (v # vs) '', '' = v @ CHR '','' # CHR '' '' # Join vs '', ''" by simp
      have fresh: "CHR '','' \<notin> set (CHR '' '' # v)" using v by simp
      show ?thesis
        using Cons.IH Cons.prems v sp Cons Split_append_sep [OF v(1), of "CHR '' '' # Join vs '', ''"]
          Split_append_sep [OF fresh, of "CHR '' '' # Join vs '', ''"]
        unfolding join append_Cons by simp
    qed
  qed
  then show ?thesis by (simp add: splitSourceValues_def)
qed

definition letter :: "char \<Rightarrow> bool" where
  "letter c \<longleftrightarrow> (let n = (of_char c :: nat) in 65 \<le> n \<and> n \<le> 90 \<or> 97 \<le> n \<and> n \<le> 122)"

lemma lower_char_nonletter: "\<not> letter d \<Longrightarrow> lower_char c = d \<Longrightarrow> c = d"
proof (cases "65 \<le> (of_char c :: nat) \<and> (of_char c :: nat) \<le> 90")
  case True
  assume "\<not> letter d" "lower_char c = d"
  with True have "(of_char d :: nat) = of_char c + 32" by (auto simp: lower_char_def Let_def)
  with True \<open>\<not> letter d\<close> show ?thesis by (simp add: letter_def Let_def)
next
  case False
  assume "lower_char c = d"
  with False show ?thesis by (simp add: lower_char_def Let_def split: if_splits)
qed

lemma nonletter_norm_str: "\<not> letter d \<Longrightarrow> d \<notin> set s \<Longrightarrow> d \<notin> set (norm_str s)"
proof
  assume "\<not> letter d" "d \<notin> set s" "d \<in> set (norm_str s)"
  then have "d \<in> lower_char ` set (TrimSpace s)" by (simp add: norm_str_def ToLower_def)
  then obtain c where "c \<in> set (TrimSpace s)" "lower_char c = d" by (metis imageE)
  with lower_char_nonletter [OF \<open>\<not> letter d\<close>] set_TrimSpace \<open>d \<notin> set s\<close> show False by metis
qed

lemma comma_nonletter [simp]: "\<not> letter CHR '',''"
  by (simp add: letter_def)

lemma splitSourceValues_normal:
  assumes "v \<in> set (splitSourceValues s)"
  shows "CHR '','' \<notin> set v \<and> norm_str v = v \<and> v \<noteq> []"
proof -
  from assms obtain p where p: "p \<in> set (Split s CHR '','')" "v = norm_str p" "v \<noteq> []"
    by (auto simp: splitSourceValues_def TrimSpace_ToLower norm_str_def)
  from nonletter_norm_str [OF comma_nonletter Split_no_sep [OF p(1)]] p(2,3) show ?thesis by simp
qed

definition sourceSet :: "string \<Rightarrow> string set" where
  "sourceSet s = set (splitSourceValues s)"

lemma sourceSet_norm: "norm_str ` sourceSet s - {[]} = sourceSet s"
  using splitSourceValues_normal unfolding sourceSet_def by force

lemma sources_normal:
  "\<forall>v \<in> set (uniqueNormalizedStrings (splitSourceValues a @ splitSourceValues b)).
     CHR '','' \<notin> set v \<and> norm_str v = v \<and> v \<noteq> []"
  using splitSourceValues_normal by (fastforce simp: set_uniqueNormalizedStrings)

lemma sourceSet_mergeSources: "sourceSet (mergeSources a b) = sourceSet a \<union> sourceSet b"
proof -
  have "sourceSet (mergeSources a b) = set (uniqueNormalizedStrings (splitSourceValues a @ splitSourceValues b))"
    by (simp add: sourceSet_def mergeSources_def splitSourceValues_Join [OF sources_normal])
  also have "\<dots> = norm_str ` (sourceSet a \<union> sourceSet b) - {[]}"
    by (simp add: set_uniqueNormalizedStrings sourceSet_def)
  also have "\<dots> = sourceSet a \<union> sourceSet b"
    using sourceSet_norm [of a] sourceSet_norm [of b] by (simp add: image_Un Un_Diff)
  finally show ?thesis .
qed

lemma mergeSources_cong: "sourceSet a \<union> sourceSet b = sourceSet c \<union> sourceSet d \<Longrightarrow> mergeSources a b = mergeSources c d"
  unfolding mergeSources_def sourceSet_def
  by (metis set_append uniqueNormalizedStrings_cong)

lemma mergeSources_comm: "mergeSources a b = mergeSources b a"
  by (rule mergeSources_cong) auto

lemma mergeSources_assoc: "mergeSources (mergeSources a b) c = mergeSources a (mergeSources b c)"
  by (rule mergeSources_cong) (simp add: sourceSet_mergeSources Un_assoc)

lemma mergeSources_idem: "mergeSources (mergeSources a b) b = mergeSources a b"
  by (rule mergeSources_cong) (auto simp: sourceSet_mergeSources)

section \<open>Enrichment states\<close>

definition betterState :: "enrichmentState option \<Rightarrow> enrichmentState option \<Rightarrow> enrichmentState option" where
  "betterState old new =
     (case (old, new) of
        (None, y) \<Rightarrow> y
      | (x, None) \<Rightarrow> x
      | (Some x, Some y) \<Rightarrow> Some (if enrichmentStatePriority y \<ge> enrichmentStatePriority x then y else x))"

lemma distinct_mergeEnrichmentStates:
  "distinct (map fst xs) \<Longrightarrow> distinct (map fst (mergeEnrichmentStates xs ys))"
  by (induction xs ys rule: mergeEnrichmentStates.induct) (auto simp: distinct_update)

lemma map_of_mergeEnrichmentStates:
  assumes "distinct (map fst ys)"
  shows "map_of (mergeEnrichmentStates xs ys) k = betterState (map_of xs k) (map_of ys k)"
  using assms
proof (induction xs ys rule: mergeEnrichmentStates.induct)
  case (1 xs)
  then show ?case by (simp add: betterState_def split: option.split)
next
  case (2 xs key state rest)
  have "map_of rest key = None" using 2 by (simp add: map_of_eq_None_iff)
  with 2 show ?case
    by (cases "k = key") (auto simp: betterState_def update_conv' split: option.splits)
qed

lemma map_of_mergeEnrichmentData:
  assumes "distinct (map fst ys)"
  shows "map_of (mergeEnrichmentData xs ys) k = (case map_of ys k of None \<Rightarrow> map_of xs k | Some v \<Rightarrow> Some v)"
  using assms
proof (induction xs ys rule: mergeEnrichmentData.induct)
  case (2 xs key v rest)
  have "map_of rest key = None" using 2 by (simp add: map_of_eq_None_iff)
  with 2 show ?case by (cases "k = key") (auto simp: update_conv' split: option.splits)
qed simp

section \<open>Inclusion reasons\<close>

lemma mergeInclusionReason_explicit_stays:
  assumes "classifyInclusionReason existing = inclusionReasonExplicit" and "\<not> wins"
  shows "mergeInclusionReason existing incoming wins kind prov src = TrimSpace existing"
proof -
  have "classifyInclusionReason (TrimSpace existing) = inclusionReasonExplicit"
    using assms(1) by (simp add: classifyInclusionReason_def)
  moreover from this have "TrimSpace existing \<noteq> []"
    by (auto simp: classifyInclusionReason_def)
  ultimately show ?thesis using assms(2) by (simp add: mergeInclusionReason_def Let_def)
qed

lemma mergeInclusionReason_enrichment_stays:
  "TrimSpace existing \<noteq> [] \<Longrightarrow>
   mergeInclusionReason existing incoming wins ObservationKindEnrichment prov src = TrimSpace existing"
  by (simp add: mergeInclusionReason_def Let_def)

section \<open>The merged asset\<close>

lemma mergeAsset_fields:
  "asset_ID (mergeAssetIntoCanonical e i k) = orElse [] (asset_ID e) (asset_ID i)"
  "asset_Type (mergeAssetIntoCanonical e i k) = orElse [] (asset_Type e) (asset_Type i)"
  "asset_Identifier (mergeAssetIntoCanonical e i k) = orElse [] (asset_Identifier e) (asset_Identifier i)"
  "asset_EnumerationID (mergeAssetIntoCanonical e i k) = orElse [] (asset_EnumerationID e) (asset_EnumerationID i)"
  "asset_DiscoveryDate (mergeAssetIntoCanonical e i k) = mergeDiscoveryDate (asset_DiscoveryDate e) (asset_DiscoveryDate i)"
  "asset_Source (mergeAssetIntoCanonical e i k)
     = (if k = ObservationKindDiscovery then mergeSources (asset_Source e) (asset_Source i) else asset_Source e)"
  "asset_Provenance (mergeAssetIntoCanonical e i k)
     = (if k = ObservationKindDiscovery
        then mergeAssetProvenance (asset_Provenance e) [assetProvenanceFromAsset i] else asset_Provenance e)"
  "asset_EnrichmentStates (mergeAssetIntoCanonical e i k)
     = mergeEnrichmentStates (asset_EnrichmentStates e) (asset_EnrichmentStates i)"
  "asset_DomainDetails (mergeAssetIntoCanonical e i k)
     = mergeDomainDetails (asset_DomainDetails e) (asset_DomainDetails i)"
  "asset_IPDetails (mergeAssetIntoCanonical e i k) = mergeIPDetails (asset_IPDetails e) (asset_IPDetails i)"
  by (simp_all add: mergeAssetIntoCanonical_def Let_def split_def)

lemma mergeAsset_ownership:
  "asset_OwnershipState (mergeAssetIntoCanonical e i k) =
     (let m = fst (mergeOwnershipState (asset_OwnershipState e) (asset_OwnershipState i))
      in if m = [] then (if orElse [] (asset_Type e) (asset_Type i) = AssetTypeIP
                         then OwnershipStateAssociatedInfrastructure else OwnershipStateOwned)
         else m)"
  by (simp add: mergeAssetIntoCanonical_def defaultOwnershipState_def Let_def split_def)

text \<open>Once a record was seen for a domain, no later merge makes it unresolved again.\<close>

lemma resolved_stays:
  assumes "asset_Type e = AssetTypeDomain"
    and "DomainResolutionStatusForAsset e = DomainResolutionStatusResolved"
    and "\<forall>d. asset_DomainDetails e = Some d \<longrightarrow> (\<forall>r \<in> set (dd_Records d). keptRecord r)"
  shows "DomainResolutionStatusForAsset (mergeAssetIntoCanonical e i k) = DomainResolutionStatusResolved"
proof -
  obtain d where d: "asset_DomainDetails e = Some d" "dd_Records d \<noteq> []"
    using assms(1,2) by (auto simp: DomainResolutionStatusForAsset_def Let_def split: option.splits if_splits)
  obtain d' where d': "mergeDomainDetails (asset_DomainDetails e) (asset_DomainDetails i) = Some d'"
    "dd_Records d' = dd_Records d \<or> (\<exists>rs. dd_Records d' = mergeDomainRecords (dd_Records d) rs)"
    using d(1) by (cases "asset_DomainDetails i") (auto simp: mergeDomainDetails_def Let_def)
  have "mergeDomainRecords (dd_Records d) rs \<noteq> []" for rs
  proof -
    obtain r where r: "r \<in> set (dd_Records d)" "keptRecord r" using d assms(3) by (cases "dd_Records d") auto
    let ?all = "dd_Records d @ uniqueBy domainRecordKey (domainRecordKey ` set (dd_Records d)) rs"
    have "domainRecordKey r \<in> domainRecordKey ` set (uniqueDomainRecords ?all)"
      unfolding keys_uniqueDomainRecords using r by auto
    then show ?thesis using d(2) by (auto simp: mergeDomainRecords_def)
  qed
  with d' d(2) have "dd_Records d' \<noteq> []" by metis
  with assms(1) d' show ?thesis
    by (simp add: DomainResolutionStatusForAsset_def mergeAsset_fields orElse_def)
qed

end
