(* ===== verification/Discovery.thy ===== *)
theory Discovery
  imports Models Asset_Merge_Facts
begin

text \<open>
  \<open>internal/discovery/helpers.go\<close> and \<open>dns_helpers.go\<close>: domain names, registrable roots, and the
  extraction of domains from raw text. The public-suffix list, URL parsing and IP parsing are
  library code: they are the fields of \<open>netLibrary\<close>, a parameter of what uses them. The two
  regular expressions are written out on labels, for ASCII text.
\<close>

record netLibrary =
  EffectiveTLDPlusOne :: "string \<Rightarrow> string option"   \<comment> \<open>\<open>None\<close> is an error\<close>
  PublicSuffix :: "string \<Rightarrow> string"
  ParseIP :: "string \<Rightarrow> bool"
  ParseHostname :: "string \<Rightarrow> string option"

section \<open>Names\<close>

definition NormalizeDomainIdentifier :: "string \<Rightarrow> string" where
  "NormalizeDomainIdentifier identifier = ToLower (TrimSuffix (TrimSpace identifier) ''.'')"

definition RegistrableDomain :: "netLibrary \<Rightarrow> string \<Rightarrow> string" where
  "RegistrableDomain net identifier =
     (let normalized = NormalizeDomainIdentifier identifier
      in if normalized = [] then []
         else case EffectiveTLDPlusOne net normalized of None \<Rightarrow> normalized | Some r \<Rightarrow> r)"

fun FirstNonEmpty :: "string list \<Rightarrow> string" where
  "FirstNonEmpty [] = []"
| "FirstNonEmpty (v # rest) = (if TrimSpace v \<noteq> [] then TrimSpace v else FirstNonEmpty rest)"

definition UniqueLowerStrings :: "string list \<Rightarrow> string list" where
  "UniqueLowerStrings values =
     (if length values = 0 then []
      else sort (uniqueBy (\<lambda>v. v) {} (filter (\<lambda>v. v \<noteq> []) (map (\<lambda>v. ToLower (TrimSpace v)) values))))"

definition BuildDiscoveredSeed :: "netLibrary \<Rightarrow> seed \<Rightarrow> string \<Rightarrow> string \<Rightarrow> seed" where
  "BuildDiscoveredSeed net parent domain tag =
     (let root0 = RegistrableDomain net domain;
          root1 = (if root0 = [] then NormalizeDomainIdentifier domain else root0);
          tags = (if tag \<noteq> [] then seed_Tags parent @ [tag] else seed_Tags parent)
      in zeroSeed\<lparr>seed_ID := seed_ID parent @ '':'' @ root1,
                  seed_CompanyName := FirstNonEmpty [seed_CompanyName parent, seed_ID parent],
                  seed_Domains := [root1],
                  seed_Address := seed_Address parent,
                  seed_Industry := seed_Industry parent,
                  seed_Tags := UniqueLowerStrings tags\<rparr>)"

definition knownRoots :: "netLibrary \<Rightarrow> string list \<Rightarrow> string set" where
  "knownRoots net ds = set (filter (\<lambda>r. r \<noteq> []) (map (RegistrableDomain net) ds))"

definition RootsOverlap :: "netLibrary \<Rightarrow> string list \<Rightarrow> string list \<Rightarrow> bool" where
  "RootsOverlap net left right =
     (if length left = 0 \<or> length right = 0 then False
      else list_ex (\<lambda>c. RegistrableDomain net c \<noteq> [] \<and> RegistrableDomain net c \<in> knownRoots net left) right)"

definition RegistrableLabel :: "netLibrary \<Rightarrow> string \<Rightarrow> string" where
  "RegistrableLabel net domain =
     (let r = RegistrableDomain net domain
      in if r = [] then []
         else (let suffix = NormalizeDomainIdentifier (PublicSuffix net r)
               in if suffix = [] \<or> suffix = r then []
                  else (let label = TrimSuffix r (''.'' @ suffix)
                        in if label = [] \<or> CHR ''.'' \<in> set label then [] else label)))"

definition LastLabel :: "string \<Rightarrow> string" where
  "LastLabel domain0 =
     (let domain = NormalizeDomainIdentifier domain0
      in if domain = [] then [] else last (Split domain CHR ''.''))"

section \<open>Organization names\<close>

definition alnum :: "char \<Rightarrow> bool" where
  "alnum c \<longleftrightarrow> letter c \<or> is_digit c"

fun organizationLoop :: "bool \<Rightarrow> string \<Rightarrow> string" where
  "organizationLoop lastSpace [] = []"
| "organizationLoop lastSpace (c # s) =
     (if alnum c then c # organizationLoop False s
      else if \<not> lastSpace then CHR '' '' # organizationLoop True s
      else organizationLoop lastSpace s)"

definition NormalizeOrganization :: "string \<Rightarrow> string" where
  "NormalizeOrganization raw0 =
     (let raw = ToLower (TrimSpace raw0)
      in if raw = [] then [] else TrimSpace (organizationLoop True raw))"

section \<open>Domain candidates\<close>

text \<open>One label of \<open>domainPattern\<close>: 1 to 63 characters, alphanumeric at both ends.\<close>

definition labelOK :: "(char \<Rightarrow> bool) \<Rightarrow> string \<Rightarrow> bool" where
  "labelOK edge l \<longleftrightarrow> l \<noteq> [] \<and> length l \<le> 63 \<and> edge (hd l) \<and> edge (last l)
     \<and> list_all (\<lambda>c. edge c \<or> c = CHR ''-'') l"

definition domainPattern :: "string \<Rightarrow> bool" where
  "domainPattern s \<longleftrightarrow> (let ls = Split s CHR ''.'' in length ls \<ge> 2 \<and> list_all (labelOK alnum) ls)"

definition dnsDomainPattern :: "string \<Rightarrow> bool" where
  "dnsDomainPattern s \<longleftrightarrow>
     (let ls = Split s CHR ''.''
      in length ls \<ge> 2 \<and> list_all (labelOK (\<lambda>c. alnum c \<or> c = CHR ''_'')) ls)"

definition likely :: "(string \<Rightarrow> bool) \<Rightarrow> netLibrary \<Rightarrow> string \<Rightarrow> bool" where
  "likely pat net candidate0 =
     (let candidate = NormalizeDomainIdentifier candidate0
      in if candidate = [] \<or> ParseIP net candidate then False else pat candidate)"

definition isLikelyDomain :: "netLibrary \<Rightarrow> string \<Rightarrow> bool" where
  "isLikelyDomain = likely domainPattern"

definition isLikelyDNSDomain :: "netLibrary \<Rightarrow> string \<Rightarrow> bool" where
  "isLikelyDNSDomain = likely dnsDomainPattern"

definition emailDomain :: "string \<Rightarrow> string" where
  "emailDomain raw0 =
     (let raw = TrimPrefix (TrimSpace (ToLower raw0)) ''mailto:'';
          parts = Split raw CHR ''@''
      in if length parts \<noteq> 2 then [] else NormalizeDomainIdentifier (parts ! 1))"

definition hostFromURLLike :: "netLibrary \<Rightarrow> string \<Rightarrow> string" where
  "hostFromURLLike net raw0 =
     (let raw = TrimSpace raw0
      in if raw = [] then []
         else (let url = (if \<not> Contains raw ''://'' then ''https://'' @ TrimPrefix raw ''//'' else raw)
               in case ParseHostname net url of
                    None \<Rightarrow> [] | Some h \<Rightarrow> NormalizeDomainIdentifier h))"

definition candidatesOf :: "netLibrary \<Rightarrow> string \<Rightarrow> string list" where
  "candidatesOf net raw =
     filter (\<lambda>c. c \<noteq> []) [emailDomain raw, hostFromURLLike net raw, NormalizeDomainIdentifier raw]"

definition extractCandidates :: "(netLibrary \<Rightarrow> string \<Rightarrow> bool) \<Rightarrow> netLibrary \<Rightarrow> string \<Rightarrow> string list" where
  "extractCandidates ok net raw0 =
     (let raw = TrimPrefix (TrimSpace raw0) ''*.''
      in if raw = [] then []
         else uniqueBy (\<lambda>c. c) {} (filter (ok net) (candidatesOf net raw)))"

definition ExtractDomainCandidates :: "netLibrary \<Rightarrow> string \<Rightarrow> string list" where
  "ExtractDomainCandidates = extractCandidates isLikelyDomain"

definition ExtractDNSDomainCandidates :: "netLibrary \<Rightarrow> string \<Rightarrow> string list" where
  "ExtractDNSDomainCandidates = extractCandidates isLikelyDNSDomain"

section \<open>Structured TXT records\<close>

text \<open>\<open>strings.FieldsFunc\<close>: the maximal runs of characters that are no separators.\<close>

fun FieldsFunc :: "(char \<Rightarrow> bool) \<Rightarrow> string \<Rightarrow> string \<Rightarrow> string list" where
  "FieldsFunc sep cur [] = (if cur = [] then [] else [cur])"
| "FieldsFunc sep cur (c # s) =
     (if sep c then (if cur = [] then FieldsFunc sep [] s else cur # FieldsFunc sep [] s)
      else FieldsFunc sep (cur @ [c]) s)"

definition TrimSet :: "char set \<Rightarrow> string \<Rightarrow> string" where
  "TrimSet cs s = rev (dropWhile (\<lambda>c. c \<in> cs) (rev (dropWhile (\<lambda>c. c \<in> cs) s)))"

definition txtSeparator :: "char \<Rightarrow> bool" where
  "txtSeparator c \<longleftrightarrow> c \<in> {CHR '' '', CHR 0x09, CHR 0x0A, CHR 0x0D, CHR '';''}"

definition quoteChars :: "char set" where
  "quoteChars = {CHR 0x22, CHR 0x27, CHR ''('', CHR '')'', CHR '',''}"

definition txtTokenCandidates :: "netLibrary \<Rightarrow> string \<Rightarrow> string list" where
  "txtTokenCandidates net token0 =
     (let token = TrimSet quoteChars token0; lw = ToLower token
      in if token = [] then []
         else if HasPrefix lw ''include:'' then ExtractDNSDomainCandidates net (drop 8 token)
         else if HasPrefix lw ''exists:'' then ExtractDNSDomainCandidates net (drop 7 token)
         else if HasPrefix lw ''redirect='' then ExtractDNSDomainCandidates net (drop 9 token)
         else if HasPrefix lw ''exp='' then ExtractDNSDomainCandidates net (drop 4 token)
         else if HasPrefix lw ''rua='' \<or> HasPrefix lw ''ruf=''
         then concat (map (\<lambda>item. ExtractDNSDomainCandidates net (TrimSpace item))
                (Split (drop 1 (dropWhile (\<lambda>c. c \<noteq> CHR ''='') token)) CHR '',''))
         else [])"

definition ExtractStructuredTXTDomainCandidates :: "netLibrary \<Rightarrow> string list \<Rightarrow> string list" where
  "ExtractStructuredTXTDomainCandidates net values =
     UniqueLowerStrings (concat (map (\<lambda>value.
       (let trimmed = TrimSpace value
        in if trimmed = [] then []
           else ExtractDNSDomainCandidates net trimmed
                @ concat (map (txtTokenCandidates net) (FieldsFunc txtSeparator [] trimmed)))) values))"

section \<open>Lemmas\<close>

lemma UniqueLowerStrings_eq: "UniqueLowerStrings = uniqueNormalizedStrings"
  by (rule ext) (simp add: UniqueLowerStrings_def uniqueNormalizedStrings_eq sortUnique_def flip: norm_str_def)

lemma RootsOverlap_iff: "RootsOverlap net xs ys \<longleftrightarrow> knownRoots net xs \<inter> knownRoots net ys \<noteq> {}"
  unfolding RootsOverlap_def knownRoots_def list_ex_iff
  by (cases "xs = []"; cases "ys = []") (auto simp: image_iff, metis)

lemma RootsOverlap_sym: "RootsOverlap net xs ys = RootsOverlap net ys xs"
  by (auto simp: RootsOverlap_iff)

lemma extractCandidates_sound:
  "c \<in> set (extractCandidates ok net raw) \<Longrightarrow> ok net c"
  using set_uniqueBy_subset [of "\<lambda>c. c" "{}" "filter (ok net) (candidatesOf net (TrimPrefix (TrimSpace raw) ''*.''))"]
  by (auto simp: extractCandidates_def Let_def split: if_splits)

lemma extractCandidates_distinct: "distinct (extractCandidates ok net raw)"
  using distinct_uniqueBy [of "\<lambda>c. c" "{}" "filter (ok net) (candidatesOf net (TrimPrefix (TrimSpace raw) ''*.''))"]
  by (simp add: extractCandidates_def Let_def)

subsection \<open>Organizations\<close>

text \<open>Lower-case words separated by single blanks, the first not preceded by one.\<close>

fun organizationForm :: "bool \<Rightarrow> string \<Rightarrow> bool" where
  "organizationForm lastSpace [] = True"
| "organizationForm lastSpace (c # s) =
     (if alnum c then lower_char c = c \<and> organizationForm False s
      else c = CHR '' '' \<and> \<not> lastSpace \<and> organizationForm True s)"

lemma organizationLoop_form:
  "\<forall>c \<in> set s. lower_char c = c \<Longrightarrow> organizationForm b (organizationLoop b s)"
proof (induction b s rule: organizationLoop.induct)
  case (2 b c s)
  have "\<not> alnum CHR '' ''" by (simp add: alnum_def letter_def is_digit_def)
  with 2 show ?case by auto
qed simp

lemma organizationLoop_fixed: "organizationForm b s \<Longrightarrow> organizationLoop b s = s"
  by (induction b s rule: organizationForm.induct) (auto split: if_splits)

lemma organizationForm_prefix: "organizationForm b (s @ t) \<Longrightarrow> organizationForm b s"
  by (induction s arbitrary: b) (auto split: if_splits)

lemma alnum_not_space: "alnum c \<Longrightarrow> \<not> is_space c"
  by (auto simp: alnum_def letter_def is_digit_def is_space_def Let_def)

lemma organizationForm_lower: "organizationForm b s \<Longrightarrow> ToLower s = s"
proof (induction b s rule: organizationForm.induct)
  case (2 b c s)
  have "lower_char CHR '' '' = CHR '' ''" by (simp add: lower_char_def)
  with 2 show ?case by (auto simp: ToLower_def split: if_splits)
qed simp

lemma organizationForm_TrimSpace:
  assumes "organizationForm True s"
  shows "organizationForm True (TrimSpace s)"
proof -
  have "TrimLeft s = s"
    using assms by (cases s) (auto simp: TrimLeft_def alnum_not_space split: if_splits)
  then have trim: "TrimSpace s = rev (TrimLeft (rev s))" by (simp add: TrimSpace_def)
  obtain p where "rev s = p @ TrimLeft (rev s)" using TrimLeft_suffix by blast
  then have "s = TrimSpace s @ rev p" unfolding trim by (metis rev_append rev_rev_ident)
  with assms show ?thesis by (metis organizationForm_prefix)
qed

lemma NormalizeOrganization_form: "organizationForm True (NormalizeOrganization raw)"
proof -
  have "\<forall>c \<in> set (ToLower (TrimSpace raw)). lower_char c = c" by (auto simp: ToLower_def)
  from organizationForm_TrimSpace [OF organizationLoop_form [OF this]] show ?thesis
    by (simp add: NormalizeOrganization_def Let_def)
qed

lemma NormalizeOrganization_idem: "NormalizeOrganization (NormalizeOrganization raw) = NormalizeOrganization raw"
proof -
  let ?n = "NormalizeOrganization raw"
  have trim: "TrimSpace ?n = ?n" by (simp add: NormalizeOrganization_def Let_def)
  have low: "ToLower ?n = ?n" by (rule organizationForm_lower [OF NormalizeOrganization_form])
  have loop: "organizationLoop True ?n = ?n" by (rule organizationLoop_fixed [OF NormalizeOrganization_form])
  show ?thesis
    unfolding NormalizeOrganization_def [of ?n] Let_def trim low loop by simp
qed

text \<open>Names that differ in case or punctuation only have the same form.\<close>

lemma organizationLoop_punctuation:
  "\<not> alnum c \<Longrightarrow> organizationLoop b (c # d # s) = organizationLoop b (CHR '' '' # d # s)"
proof -
  have "\<not> alnum CHR '' ''" by (simp add: alnum_def letter_def is_digit_def)
  then show "\<not> alnum c \<Longrightarrow> organizationLoop b (c # d # s) = organizationLoop b (CHR '' '' # d # s)"
    by (simp only: organizationLoop.simps if_False)
qed

subsection \<open>Labels\<close>

lemma RegistrableLabel_no_dot: "CHR ''.'' \<notin> set (RegistrableLabel net d)"
  by (simp add: RegistrableLabel_def Let_def)

lemma LastLabel_no_dot: "CHR ''.'' \<notin> set (LastLabel d)"
  using Split_no_sep [of "last (Split (NormalizeDomainIdentifier d) CHR ''.'')" "NormalizeDomainIdentifier d" "CHR ''.''"]
  by (simp add: LastLabel_def Let_def)

text \<open>A name with two trailing dots is passed on with one of them left.\<close>

lemma ExtractDomainCandidates_dots:
  assumes "\<not> ParseIP net ''a.com''" and "ParseHostname net ''https://a.com..'' = None"
  shows "ExtractDomainCandidates net ''a.com..'' = [''a.com.'']"
proof -
  have n: "NormalizeDomainIdentifier ''a.com..'' = ''a.com.''" "NormalizeDomainIdentifier ''a.com.'' = ''a.com''"
    "TrimPrefix (TrimSpace ''a.com..'') ''*.'' = ''a.com..''" "emailDomain ''a.com..'' = []" "domainPattern ''a.com''"
    by code_simp+
  have h: "hostFromURLLike net ''a.com..'' = []"
  proof -
    have "\<not> Contains ''a.com..'' ''://''" "TrimSpace ''a.com..'' = ''a.com..''"
      "''https://'' @ TrimPrefix ''a.com..'' ''//'' = ''https://a.com..''" by code_simp+
    then show ?thesis unfolding hostFromURLLike_def Let_def using assms(2) by simp
  qed
  have ok: "isLikelyDomain net ''a.com.''" using assms(1) n by (simp add: isLikelyDomain_def likely_def)
  show ?thesis
    unfolding ExtractDomainCandidates_def extractCandidates_def n candidatesOf_def h Let_def
    using ok by simp
qed

end
