(* ===== verification/Seed_Frontier.thy ===== *)
theory Seed_Frontier
  imports Seed_Helpers
begin

text \<open>
  \<open>internal/models/seed_frontier.go\<close> and the context methods of \<open>seed_helpers.go\<close>: the
  scheduler of collection waves. It keeps the seeds of the running wave (\<open>collectionSeeds\<close>), the
  seeds found for the next one (\<open>pendingSeeds\<close>), the keys of every seed ever accepted
  (\<open>knownSeedKeys\<close>) and the candidates that still lack evidence (\<open>candidateSeeds\<close>).

  The installed \<open>CandidatePromotionHandler\<close> is an argument: \<open>None\<close> when no handler is
  installed, otherwise a function of the request and of the handler's own state.
\<close>

type_synonym 'b promotionHandler =
  "(candidatePromotionRequest \<Rightarrow> 'b \<Rightarrow> candidatePromotionDecision \<times> 'b) option"

section \<open>Scheduling mode\<close>

datatype seedSchedulingMode = seedSchedulingReject | seedSchedulingNextWave | seedSchedulingRegisterOnly

definition seedSchedulingModeLocked :: "pipelineContext \<Rightarrow> seedSchedulingMode" where
  "seedSchedulingModeLocked p =
     (if extraCollectionWaveInProgress p then seedSchedulingRegisterOnly
      else if extraCollectionWaveReserved p then seedSchedulingNextWave
      else if collectionDepth p < maxCollectionDepth p then seedSchedulingNextWave
      else seedSchedulingReject)"

text \<open>The threshold is the double nearest to 0.9.\<close>

definition strongConfidence :: float64 where
  "strongConfidence = 8106479329266893 / 9007199254740992"

definition shouldPromoteSeedCandidate :: "seedCandidate option \<Rightarrow> bool" where
  "shouldPromoteSeedCandidate candidate =
     (case candidate of
        None \<Rightarrow> False
      | Some c \<Rightarrow>
          if cand_reasoned c then True
          else if cand_maxConfidence c \<ge> strongConfidence then True
          else length (cand_signalKeys c) \<ge> 2)"

section \<open>Merging into the slices\<close>

definition mergeSeedIntoSlice ::
  "seed list \<Rightarrow> string \<Rightarrow> seed \<Rightarrow> seedEvidence list \<Rightarrow> seed list" where
  "mergeSeedIntoSlice seeds key incoming evidence =
     map (\<lambda>s. if seedKey s = key
              then (let m = mergeSeeds s incoming
                    in m\<lparr>seed_Evidence := mergeSeedEvidence (seed_Evidence m) evidence\<rparr>)
              else s) seeds"

definition absorbIntoCandidate :: "seedCandidate \<Rightarrow> seed \<Rightarrow> seedEvidence list \<Rightarrow> seedCandidate" where
  "absorbIntoCandidate c seed evidence =
     \<lparr>cand_seed = mergeSeeds (cand_seed c) seed,
      cand_evidence = mergeSeedEvidence (mergeSeedEvidence (cand_evidence c) (seed_Evidence seed)) evidence,
      cand_signalKeys = cand_signalKeys c,
      cand_maxConfidence = (if seed_Confidence seed > cand_maxConfidence c
                            then seed_Confidence seed else cand_maxConfidence c),
      cand_reasoned = (if hasReasonedSeedEvidence (seed_Evidence seed) then True
                       else if hasReasonedSeedEvidence evidence then True
                       else cand_reasoned c)\<rparr>"

definition mergeSeedAcrossSlicesLocked ::
  "seed \<Rightarrow> seedEvidence list \<Rightarrow> pipelineContext \<Rightarrow> pipelineContext" where
  "mergeSeedAcrossSlicesLocked seed evidence p =
     (let key = seedKey seed
      in p\<lparr>Seeds := mergeSeedIntoSlice (Seeds p) key seed evidence,
           collectionSeeds := mergeSeedIntoSlice (collectionSeeds p) key seed evidence,
           pendingSeeds := mergeSeedIntoSlice (pendingSeeds p) key seed evidence,
           candidateSeeds :=
             (case candidateSeeds p key of
                Some c \<Rightarrow> (candidateSeeds p)(key \<mapsto> absorbIntoCandidate c seed evidence)
              | None \<Rightarrow> candidateSeeds p)\<rparr>)"

definition materializeSeedCandidateLocked ::
  "string \<Rightarrow> seedCandidate option \<Rightarrow> bool \<Rightarrow> pipelineContext \<Rightarrow> bool \<times> pipelineContext" where
  "materializeSeedCandidateLocked key candidate schedule p =
     (case candidate of
        None \<Rightarrow> (False, p)
      | Some c \<Rightarrow>
          (let promoted = (cand_seed c)\<lparr>seed_Confidence := cand_maxConfidence c,
                                        seed_Evidence := cand_evidence c\<rparr>;
               p1 = p\<lparr>candidateSeeds := (candidateSeeds p)(key := None),
                      knownSeedKeys := insert key (knownSeedKeys p),
                      Seeds := Seeds p @ [promoted]\<rparr>
           in if schedule then (True, p1\<lparr>pendingSeeds := pendingSeeds p1 @ [promoted]\<rparr>)
              else (False, p1)))"

section \<open>Operations\<close>

fun mergeSubmittedSeeds ::
  "seed list \<Rightarrow> (string \<rightharpoonup> seed) \<Rightarrow> string list \<Rightarrow> (string \<rightharpoonup> seed) \<times> string list" where
  "mergeSubmittedSeeds [] mergedSeeds seedOrder = (mergedSeeds, seedOrder)"
| "mergeSubmittedSeeds (s # rest) mergedSeeds seedOrder =
     (let seed = normalizeSeed s; key = seedKey seed
      in case mergedSeeds key of
           Some existing \<Rightarrow> mergeSubmittedSeeds rest (mergedSeeds(key \<mapsto> mergeSeeds existing seed)) seedOrder
         | None \<Rightarrow> mergeSubmittedSeeds rest (mergedSeeds(key \<mapsto> seed)) (seedOrder @ [key]))"

definition InitializeSeedFrontier :: "int \<Rightarrow> pipelineContext \<Rightarrow> pipelineContext" where
  "InitializeSeedFrontier maxDepth p =
     (let maxDepth = (if maxDepth < 0 then 0 else maxDepth);
          (mergedSeeds, seedOrder) = mergeSubmittedSeeds (Seeds p) Map.empty [];
          seeds = map (\<lambda>key. case mergedSeeds key of Some s \<Rightarrow> s | None \<Rightarrow> zeroSeed) seedOrder
      in p\<lparr>maxCollectionDepth := maxDepth,
           collectionDepth := 0,
           pendingSeeds := [],
           extraCollectionWaveReserved := False,
           extraCollectionWaveInProgress := False,
           knownSeedKeys := set seedOrder,
           candidateSeeds := Map.empty,
           Seeds := seeds,
           collectionSeeds := seeds\<rparr>)"

definition CollectionSeeds :: "pipelineContext \<Rightarrow> seed list" where
  "CollectionSeeds p = collectionSeeds p"

definition ReserveExtraCollectionWave :: "pipelineContext \<Rightarrow> bool \<times> pipelineContext" where
  "ReserveExtraCollectionWave p =
     (if extraCollectionWaveReserved p \<or> extraCollectionWaveInProgress p then (False, p)
      else (True, p\<lparr>extraCollectionWaveReserved := True\<rparr>))"

definition EnqueueSeed :: "seed \<Rightarrow> pipelineContext \<Rightarrow> bool \<times> pipelineContext" where
  "EnqueueSeed s p =
     (let mode = seedSchedulingModeLocked p
      in if mode = seedSchedulingReject then (False, p)
         else
           (let seed = normalizeSeed s; key = seedKey seed
            in if key \<in> knownSeedKeys p then (False, mergeSeedAcrossSlicesLocked seed [] p)
               else
                 (let p1 = p\<lparr>candidateSeeds := (candidateSeeds p)(key := None),
                             knownSeedKeys := insert key (knownSeedKeys p),
                             Seeds := Seeds p @ [seed]\<rparr>
                  in if mode = seedSchedulingNextWave
                     then (True, p1\<lparr>pendingSeeds := pendingSeeds p1 @ [seed]\<rparr>)
                     else (False, p1))))"

text \<open>The candidate before and after the evidence of the call is added.\<close>

definition openCandidate :: "seedCandidate option \<Rightarrow> seed \<Rightarrow> seedCandidate" where
  "openCandidate known seed =
     (case known of
        None \<Rightarrow> \<lparr>cand_seed = seed, cand_evidence = seed_Evidence seed, cand_signalKeys = [],
                cand_maxConfidence = seed_Confidence seed,
                cand_reasoned = hasReasonedSeedEvidence (seed_Evidence seed)\<rparr>
      | Some c \<Rightarrow> \<lparr>cand_seed = mergeSeeds (cand_seed c) seed,
                  cand_evidence = mergeSeedEvidence (cand_evidence c) (seed_Evidence seed),
                  cand_signalKeys = cand_signalKeys c,
                  cand_maxConfidence = (if seed_Confidence seed > cand_maxConfidence c
                                        then seed_Confidence seed else cand_maxConfidence c),
                  cand_reasoned = (if hasReasonedSeedEvidence (seed_Evidence seed) then True
                                   else cand_reasoned c)\<rparr>)"

definition recordSignal :: "seedCandidate \<Rightarrow> seedEvidence \<Rightarrow> seedCandidate" where
  "recordSignal c evidence =
     (let c1 = c\<lparr>cand_evidence := mergeSeedEvidence (cand_evidence c) [evidence]\<rparr>;
          signalKey = ev_Source evidence @ ''|'' @ ev_Kind evidence;
          c2 = (if ev_Source evidence \<noteq> [] \<and> ev_Kind evidence \<noteq> []
                then c1\<lparr>cand_signalKeys := (if signalKey \<in> set (cand_signalKeys c1)
                                            then cand_signalKeys c1
                                            else cand_signalKeys c1 @ [signalKey]),
                        cand_maxConfidence := (if ev_Confidence evidence > cand_maxConfidence c1
                                               then ev_Confidence evidence else cand_maxConfidence c1)\<rparr>
                else c1)
      in if ev_Reasoned evidence then c2\<lparr>cand_reasoned := True\<rparr> else c2)"

definition promotionRequest :: "string \<Rightarrow> seedCandidate \<Rightarrow> candidatePromotionRequest" where
  "promotionRequest key c =
     \<lparr>req_Key = key, req_Seed = normalizeSeed (cand_seed c), req_Evidence = cand_evidence c,
      req_Confidence = cand_maxConfidence c, req_Reasoned = cand_reasoned c\<rparr>"

definition acceptCandidate ::
  "string \<Rightarrow> seedCandidate \<Rightarrow> bool \<Rightarrow> pipelineContext \<Rightarrow> candidatePromotionResult \<times> pipelineContext" where
  "acceptCandidate key c schedule p =
     (let (scheduled, p') = materializeSeedCandidateLocked key (Some c) schedule p
      in (\<lparr>res_Decision = CandidatePromotionAccepted, res_Scheduled = scheduled\<rparr>, p'))"

definition PromoteSeedCandidate ::
  "'b promotionHandler \<Rightarrow> seed \<Rightarrow> seedEvidence \<Rightarrow> pipelineContext \<Rightarrow> 'b
     \<Rightarrow> candidatePromotionResult \<times> pipelineContext \<times> 'b" where
  "PromoteSeedCandidate candidateHandler s ev p b =
     (let mode = seedSchedulingModeLocked p
      in if mode = seedSchedulingReject then (noPromotion, p, b)
         else
           (let seed = normalizeSeed s; evidence = normalizeSeedEvidence ev; key = seedKey seed
            in if key \<in> knownSeedKeys p
               then (noPromotion, mergeSeedAcrossSlicesLocked seed [evidence] p, b)
               else
                 (let c = recordSignal (openCandidate (candidateSeeds p key) seed) evidence;
                      p1 = p\<lparr>candidateSeeds := (candidateSeeds p)(key \<mapsto> c)\<rparr>;
                      schedule = (mode = seedSchedulingNextWave)
                  in if mode = seedSchedulingRegisterOnly \<and> \<not> shouldPromoteSeedCandidate (Some c)
                     then (noPromotion, snd (materializeSeedCandidateLocked key (Some c) False p1), b)
                     else if \<not> shouldPromoteSeedCandidate (Some c) then (noPromotion, p1, b)
                     else
                       (case candidateHandler of
                          None \<Rightarrow> (let (r, p2) = acceptCandidate key c schedule p1 in (r, p2, b))
                        | Some h \<Rightarrow>
                            (let (decision, b') = h (promotionRequest key c) b
                             in if decision = CandidatePromotionAccepted
                                then (let (r, p2) = acceptCandidate key c schedule p1 in (r, p2, b'))
                                else if decision = CandidatePromotionPendingReview
                                        \<or> decision = CandidatePromotionRejected
                                then (\<lparr>res_Decision = decision, res_Scheduled = False\<rparr>,
                                      p1\<lparr>candidateSeeds := (candidateSeeds p1)(key := None)\<rparr>, b')
                                else (let (r, p2) = acceptCandidate key c schedule p1 in (r, p2, b'))))))) "

definition EnqueueSeedCandidate ::
  "'b promotionHandler \<Rightarrow> seed \<Rightarrow> seedEvidence \<Rightarrow> pipelineContext \<Rightarrow> 'b
     \<Rightarrow> bool \<times> pipelineContext \<times> 'b" where
  "EnqueueSeedCandidate candidateHandler seed evidence p b =
     (let (r, p', b') = PromoteSeedCandidate candidateHandler seed evidence p b
      in (res_Scheduled r, p', b'))"

definition AdvanceSeedFrontier :: "pipelineContext \<Rightarrow> bool \<times> pipelineContext" where
  "AdvanceSeedFrontier p =
     (if pendingSeeds p = [] then
        (let p1 = (if extraCollectionWaveReserved p \<and> \<not> extraCollectionWaveInProgress p
                   then p\<lparr>extraCollectionWaveReserved := False\<rparr> else p)
         in (False, p1\<lparr>collectionSeeds := []\<rparr>))
      else if extraCollectionWaveReserved p \<and> \<not> extraCollectionWaveInProgress p then
        (True, p\<lparr>extraCollectionWaveReserved := False, extraCollectionWaveInProgress := True,
                 collectionSeeds := pendingSeeds p, pendingSeeds := []\<rparr>)
      else if extraCollectionWaveInProgress p then
        (False, p\<lparr>pendingSeeds := [], collectionSeeds := []\<rparr>)
      else
        (True, p\<lparr>collectionDepth := collectionDepth p + 1,
                 collectionSeeds := pendingSeeds p, pendingSeeds := []\<rparr>))"

end
