(* ===== verification/Frontier_Invariant.thy ===== *)
theory Frontier_Invariant
  imports Seed_Frontier
begin

text \<open>
  The invariant of the seed frontier and its preservation by every operation of
  \<open>Seed_Frontier\<close>. \<open>done\<close> is a ghost: the keys of the seeds that earlier waves collected.
\<close>

section \<open>The invariant\<close>

definition commaFree :: "seed \<Rightarrow> bool" where
  "commaFree s \<longleftrightarrow> (\<forall>d \<in> set (seed_Domains s). CHR '','' \<notin> set d)"

definition keysOf :: "seed list \<Rightarrow> string set" where
  "keysOf ss = seedKey ` set ss"

definition slices_ok :: "string set \<Rightarrow> pipelineContext \<Rightarrow> bool" where
  "slices_ok done p \<longleftrightarrow>
     distinct (map seedKey (Seeds p)) \<and> knownSeedKeys p = keysOf (Seeds p)
   \<and> distinct (map seedKey (collectionSeeds p @ pendingSeeds p))
   \<and> keysOf (collectionSeeds p @ pendingSeeds p) \<subseteq> knownSeedKeys p
   \<and> done \<subseteq> knownSeedKeys p \<and> done \<inter> keysOf (collectionSeeds p @ pendingSeeds p) = {}
   \<and> (\<forall>s \<in> set (Seeds p @ collectionSeeds p @ pendingSeeds p). normalDomains s)"

definition candidates_ok :: "pipelineContext \<Rightarrow> bool" where
  "candidates_ok p \<longleftrightarrow>
     (\<forall>k c. candidateSeeds p k = Some c \<longrightarrow>
        k \<notin> knownSeedKeys p \<and> seedKey (cand_seed c) = k \<and> normalDomains (cand_seed c))"

definition budget_ok :: "pipelineContext \<Rightarrow> bool" where
  "budget_ok p \<longleftrightarrow>
     0 \<le> collectionDepth p \<and> collectionDepth p \<le> maxCollectionDepth p
   \<and> \<not> (extraCollectionWaveReserved p \<and> extraCollectionWaveInProgress p)
   \<and> (pendingSeeds p \<noteq> [] \<longrightarrow> \<not> extraCollectionWaveInProgress p
        \<and> (extraCollectionWaveReserved p \<or> collectionDepth p < maxCollectionDepth p))"

definition sched_inv :: "string set \<Rightarrow> pipelineContext \<Rightarrow> bool" where
  "sched_inv done p \<longleftrightarrow> slices_ok done p \<and> candidates_ok p \<and> budget_ok p"

section \<open>Keys\<close>

lemma normalDomains_normalizeSeed: "commaFree s \<Longrightarrow> normalDomains (normalizeSeed s)"
proof -
  have comma: "CHR '','' \<notin> set (norm_str d)" if "CHR '','' \<notin> set d" for d
  proof
    assume "CHR '','' \<in> set (norm_str d)"
    then obtain c where c: "c \<in> set d" "lower_char c = CHR '',''"
      by (auto simp: norm_str_def ToLower_def dest: set_TrimSpace)
    then have "c = CHR '',''" by (simp add: lower_char_comma)
    with c(1) that show False by simp
  qed
  assume "commaFree s"
  then show ?thesis
    by (auto simp: normalDomains_def normalizeSeed_def commaFree_def set_uniqueNormalizedStrings comma)
qed

lemma seedKey_updates [simp]:
  "seedKey (s\<lparr>seed_Evidence := e\<rparr>) = seedKey s"
  "seedKey (s\<lparr>seed_Confidence := c\<rparr>) = seedKey s"
  by (simp_all add: seedKey_def cong del: if_weak_cong let_weak_cong)

lemma normalDomains_updates [simp]:
  "normalDomains (s\<lparr>seed_Evidence := e\<rparr>) = normalDomains s"
  "normalDomains (s\<lparr>seed_Confidence := c\<rparr>) = normalDomains s"
  by (simp_all add: normalDomains_def)

lemma mergeSeedIntoSlice_keys:
  assumes "normalDomains inc" and "seedKey inc = k" and "\<forall>s \<in> set ss. normalDomains s"
  shows "map seedKey (mergeSeedIntoSlice ss k inc ev) = map seedKey ss"
    and "\<forall>s \<in> set (mergeSeedIntoSlice ss k inc ev). normalDomains s"
  using assms
  by (auto simp: mergeSeedIntoSlice_def Let_def seedKey_mergeSeeds normalDomains_mergeSeeds)

lemma mergeSeedIntoSlice_eq_Nil_iff [simp]: "mergeSeedIntoSlice ss k inc ev = [] \<longleftrightarrow> ss = []"
  by (simp add: mergeSeedIntoSlice_def)

lemma keysOf_append [simp]: "keysOf (xs @ ys) = keysOf xs \<union> keysOf ys"
  by (simp add: keysOf_def image_Un)

lemma keysOf_simps [simp]: "keysOf [] = {}" "keysOf (x # xs) = insert (seedKey x) (keysOf xs)"
  by (simp_all add: keysOf_def)

lemma keysOf_map_cong: "map seedKey xs = map seedKey ys \<Longrightarrow> keysOf xs = keysOf ys"
  by (metis keysOf_def list.set_map)

section \<open>Preservation\<close>

lemma mergeAcross_fields [simp]:
  "Seeds (mergeSeedAcrossSlicesLocked s ev p) = mergeSeedIntoSlice (Seeds p) (seedKey s) s ev"
  "collectionSeeds (mergeSeedAcrossSlicesLocked s ev p)
     = mergeSeedIntoSlice (collectionSeeds p) (seedKey s) s ev"
  "pendingSeeds (mergeSeedAcrossSlicesLocked s ev p)
     = mergeSeedIntoSlice (pendingSeeds p) (seedKey s) s ev"
  by (simp_all add: mergeSeedAcrossSlicesLocked_def Let_def)

lemma sched_inv_mergeAcross:
  assumes "sched_inv done p" and "normalDomains s"
  shows "sched_inv done (mergeSeedAcrossSlicesLocked s ev p)"
proof -
  let ?q = "mergeSeedAcrossSlicesLocked s ev p"
  note inv = assms(1) [unfolded sched_inv_def slices_ok_def]
  from inv have n: "\<forall>x \<in> set (Seeds p). normalDomains x"
    "\<forall>x \<in> set (collectionSeeds p). normalDomains x" "\<forall>x \<in> set (pendingSeeds p). normalDomains x"
    by simp_all
  note keep = mergeSeedIntoSlice_keys [OF assms(2) refl]
  have keys: "map seedKey (Seeds ?q) = map seedKey (Seeds p)"
    "map seedKey (collectionSeeds ?q) = map seedKey (collectionSeeds p)"
    "map seedKey (pendingSeeds ?q) = map seedKey (pendingSeeds p)"
    using keep(1) [OF n(1)] keep(1) [OF n(2)] keep(1) [OF n(3)] by simp_all
  have norm: "\<forall>x \<in> set (Seeds ?q @ collectionSeeds ?q @ pendingSeeds ?q). normalDomains x"
    using keep(2) [OF n(1), of ev] keep(2) [OF n(2), of ev] keep(2) [OF n(3), of ev]
    by (simp only: mergeAcross_fields set_append ball_Un)
  have known: "knownSeedKeys ?q = knownSeedKeys p"
    by (simp add: mergeSeedAcrossSlicesLocked_def Let_def)
  have "slices_ok done ?q"
    using inv norm unfolding slices_ok_def known map_append keys keysOf_append
      keysOf_map_cong [OF keys(1)] keysOf_map_cong [OF keys(2)] keysOf_map_cong [OF keys(3)] by blast
  moreover have "candidates_ok ?q"
    using assms unfolding sched_inv_def candidates_ok_def
    by (auto simp: mergeSeedAcrossSlicesLocked_def Let_def absorbIntoCandidate_def
        seedKey_mergeSeeds normalDomains_mergeSeeds split: option.splits if_splits)
  moreover have "budget_ok ?q"
    using assms unfolding sched_inv_def budget_ok_def
    by (simp add: mergeSeedAcrossSlicesLocked_def Let_def)
  ultimately show ?thesis by (simp add: sched_inv_def)
qed

text \<open>Adding one seed with a fresh key, scheduled or not.\<close>

definition registerSeed :: "seed \<Rightarrow> bool \<Rightarrow> pipelineContext \<Rightarrow> pipelineContext" where
  "registerSeed s schedule p =
     p\<lparr>candidateSeeds := (candidateSeeds p)(seedKey s := None),
       knownSeedKeys := insert (seedKey s) (knownSeedKeys p),
       Seeds := Seeds p @ [s],
       pendingSeeds := (if schedule then pendingSeeds p @ [s] else pendingSeeds p)\<rparr>"

lemma sched_inv_registerSeed:
  assumes "sched_inv done p" and "normalDomains s" and "seedKey s \<notin> knownSeedKeys p"
    and "schedule \<Longrightarrow> seedSchedulingModeLocked p = seedSchedulingNextWave"
  shows "sched_inv done (registerSeed s schedule p)"
proof -
  note inv = assms(1) [unfolded sched_inv_def slices_ok_def]
  have "slices_ok done (registerSeed s schedule p)"
    using inv assms(2,3) unfolding slices_ok_def registerSeed_def
    by (auto simp: keysOf_def)
  moreover have "candidates_ok (registerSeed s schedule p)"
    using inv by (auto simp: candidates_ok_def registerSeed_def)
  moreover have "budget_ok (registerSeed s schedule p)"
    using inv assms(4)
    by (auto simp: budget_ok_def registerSeed_def seedSchedulingModeLocked_def split: if_splits)
  ultimately show ?thesis by (simp add: sched_inv_def)
qed

lemma sched_inv_ReserveExtraCollectionWave:
  "sched_inv done p \<Longrightarrow> sched_inv done (snd (ReserveExtraCollectionWave p))"
  unfolding sched_inv_def slices_ok_def candidates_ok_def budget_ok_def ReserveExtraCollectionWave_def
  by (simp split: if_split) blast

lemma EnqueueSeed_eq:
  "EnqueueSeed s p =
     (let mode = seedSchedulingModeLocked p; seed = normalizeSeed s
      in if mode = seedSchedulingReject then (False, p)
         else if seedKey seed \<in> knownSeedKeys p then (False, mergeSeedAcrossSlicesLocked seed [] p)
         else (mode = seedSchedulingNextWave, registerSeed seed (mode = seedSchedulingNextWave) p))"
  by (simp add: EnqueueSeed_def registerSeed_def Let_def)

lemma sched_inv_EnqueueSeed:
  assumes "sched_inv done p" and "commaFree s"
  shows "sched_inv done (snd (EnqueueSeed s p))"
  using assms normalDomains_normalizeSeed [of s]
  by (simp add: EnqueueSeed_eq Let_def sched_inv_mergeAcross sched_inv_registerSeed)

lemma materialize_eq:
  assumes "seedKey (cand_seed c) = key"
  shows "materializeSeedCandidateLocked key (Some c) schedule p =
     (schedule, registerSeed ((cand_seed c)\<lparr>seed_Confidence := cand_maxConfidence c,
                                            seed_Evidence := cand_evidence c\<rparr>) schedule p)"
  using assms by (simp add: materializeSeedCandidateLocked_def registerSeed_def Let_def)

lemma recordSignal_seed [simp]: "cand_seed (recordSignal c e) = cand_seed c"
  by (simp add: recordSignal_def Let_def)

lemma openCandidate_key:
  assumes "candidates_ok p" and "normalDomains s"
  shows "seedKey (cand_seed (openCandidate (candidateSeeds p (seedKey s)) s)) = seedKey s
       \<and> normalDomains (cand_seed (openCandidate (candidateSeeds p (seedKey s)) s))"
  using assms
  by (auto simp: openCandidate_def candidates_ok_def seedKey_mergeSeeds normalDomains_mergeSeeds
      split: option.splits)

lemma candidates_only:
  "slices_ok done (p\<lparr>candidateSeeds := m\<rparr>) = slices_ok done p"
  "budget_ok (p\<lparr>candidateSeeds := m\<rparr>) = budget_ok p"
  "seedSchedulingModeLocked (p\<lparr>candidateSeeds := m\<rparr>) = seedSchedulingModeLocked p"
  by (simp_all add: slices_ok_def budget_ok_def seedSchedulingModeLocked_def)

text \<open>The five ways a call of \<open>PromoteSeedCandidate\<close> can leave the context.\<close>

definition promotedCandidate :: "seed \<Rightarrow> seedEvidence \<Rightarrow> pipelineContext \<Rightarrow> seedCandidate" where
  "promotedCandidate s ev p =
     recordSignal (openCandidate (candidateSeeds p (seedKey (normalizeSeed s))) (normalizeSeed s))
       (normalizeSeedEvidence ev)"

definition withCandidate :: "seed \<Rightarrow> seedCandidate option \<Rightarrow> pipelineContext \<Rightarrow> pipelineContext" where
  "withCandidate s c p = p\<lparr>candidateSeeds := (candidateSeeds p)(seedKey (normalizeSeed s) := c)\<rparr>"

lemma PromoteSeedCandidate_cases:
  assumes "PromoteSeedCandidate h s ev p b = (r, p', b')"
  obtains (reject) "seedSchedulingModeLocked p = seedSchedulingReject" "r = noPromotion" "p' = p" "b' = b"
  | (known) "seedKey (normalizeSeed s) \<in> knownSeedKeys p" "r = noPromotion" "b' = b"
      "p' = mergeSeedAcrossSlicesLocked (normalizeSeed s) [normalizeSeedEvidence ev] p"
  | (materialized) schedule where "seedKey (normalizeSeed s) \<notin> knownSeedKeys p"
      "schedule \<longrightarrow> seedSchedulingModeLocked p = seedSchedulingNextWave"
      "res_Scheduled r = schedule"
      "p' = snd (materializeSeedCandidateLocked (seedKey (normalizeSeed s))
              (Some (promotedCandidate s ev p)) schedule
              (withCandidate s (Some (promotedCandidate s ev p)) p))"
  | (collected) "seedKey (normalizeSeed s) \<notin> knownSeedKeys p" "r = noPromotion" "b' = b"
      "p' = withCandidate s (Some (promotedCandidate s ev p)) p"
  | (dropped) "seedKey (normalizeSeed s) \<notin> knownSeedKeys p" "\<not> res_Scheduled r"
      "p' = withCandidate s None p"
proof -
  have sched: "res_Scheduled (fst (acceptCandidate k c schedule q)) \<longleftrightarrow> schedule"
    and snd: "snd (acceptCandidate k c schedule q) = snd (materializeSeedCandidateLocked k (Some c) schedule q)"
    for k c schedule q
    by (simp_all add: acceptCandidate_def materializeSeedCandidateLocked_def Let_def)
  show thesis
  proof (cases "seedSchedulingModeLocked p = seedSchedulingReject \<or> seedKey (normalizeSeed s) \<in> knownSeedKeys p")
    case True
    then show thesis
      using assms by (auto simp: PromoteSeedCandidate_def Let_def split: if_splits intro: reject known)
  next
    case False
    let ?c = "promotedCandidate s ev p"
    let ?p1 = "withCandidate s (Some ?c) p"
    let ?k = "seedKey (normalizeSeed s)"
    let ?schedule = "seedSchedulingModeLocked p = seedSchedulingNextWave"
    let ?acc = "acceptCandidate ?k ?c ?schedule ?p1"
    have act: "(seedSchedulingModeLocked p = seedSchedulingReject) = False"
      "(?k \<in> knownSeedKeys p) = False" using False by auto
    have call: "PromoteSeedCandidate h s ev p b =
      (if seedSchedulingModeLocked p = seedSchedulingRegisterOnly \<and> \<not> shouldPromoteSeedCandidate (Some ?c)
       then (noPromotion, snd (materializeSeedCandidateLocked ?k (Some ?c) False ?p1), b)
       else if \<not> shouldPromoteSeedCandidate (Some ?c) then (noPromotion, ?p1, b)
       else case h of None \<Rightarrow> (fst ?acc, snd ?acc, b)
         | Some f \<Rightarrow>
             (let (decision, b'') = f (promotionRequest ?k ?c) b
              in if decision = CandidatePromotionAccepted then (fst ?acc, snd ?acc, b'')
                 else if decision = CandidatePromotionPendingReview \<or> decision = CandidatePromotionRejected
                 then (\<lparr>res_Decision = decision, res_Scheduled = False\<rparr>,
                       ?p1\<lparr>candidateSeeds := (candidateSeeds ?p1)(?k := None)\<rparr>, b'')
                 else (fst ?acc, snd ?acc, b'')))"
      unfolding PromoteSeedCandidate_def Let_def promotedCandidate_def withCandidate_def
      by (simp only: act if_False split_def)
    have drop: "?p1\<lparr>candidateSeeds := (candidateSeeds ?p1)(?k := None)\<rparr> = withCandidate s None p"
      by (simp add: withCandidate_def)
    have shape: "(r, p') = (noPromotion, snd (materializeSeedCandidateLocked ?k (Some ?c) False ?p1))
      \<or> (r, p', b') = (noPromotion, ?p1, b) \<or> (r, p') = ?acc
      \<or> (\<not> res_Scheduled r \<and> p' = withCandidate s None p)"
    proof -
      have P: "P (if c1 then x1 else if c2 then x2 else x3)"
        if "P x1" "P x2" "P x3" for P c1 c2 x1 x2 x3 using that by simp
      let ?ok = "\<lambda>(r, p', b'). (r, p') = (noPromotion, snd (materializeSeedCandidateLocked ?k (Some ?c) False ?p1))
        \<or> (r, p', b') = (noPromotion, ?p1, b) \<or> (r, p') = ?acc
        \<or> (\<not> res_Scheduled r \<and> p' = withCandidate s None p)"
      have "?ok (PromoteSeedCandidate h s ev p b)"
        unfolding call drop
      proof (rule P, goal_cases)
        case 3
        show ?case
        proof (cases h)
          case (Some f)
          obtain d b'' where "f (promotionRequest ?k ?c) b = (d, b'')" by fastforce
          with Some show ?thesis by simp
        qed simp
      qed simp_all
      with assms show ?thesis by simp
    qed
    then consider "r = noPromotion" "p' = snd (materializeSeedCandidateLocked ?k (Some ?c) False ?p1)"
      | "r = noPromotion" "p' = ?p1" "b' = b" | "r = fst ?acc" "p' = snd ?acc"
      | "\<not> res_Scheduled r" "p' = withCandidate s None p"
      by (metis fst_conv prod.inject snd_conv)
    then show thesis
    proof cases
      case 1
      then show thesis using False by (intro materialized [of False]) (auto simp: noPromotion_def)
    next
      case 2
      then show thesis using False by (intro collected) auto
    next
      case 3
      then show thesis using False by (intro materialized [of ?schedule]) (auto simp: sched snd)
    next
      case 4
      then show thesis using False by (intro dropped) auto
    qed
  qed
qed

lemma sched_inv_PromoteSeedCandidate:
  assumes "sched_inv done p" and "commaFree s" and call: "PromoteSeedCandidate h s ev p b = (r, p', b')"
  shows "sched_inv done p'"
proof -
  let ?s = "normalizeSeed s"
  have norm: "normalDomains ?s" using assms(2) by (rule normalDomains_normalizeSeed)
  have cand: "seedKey (cand_seed (promotedCandidate s ev p)) = seedKey ?s
      \<and> normalDomains (cand_seed (promotedCandidate s ev p))"
    using openCandidate_key [OF _ norm] assms(1) by (simp add: promotedCandidate_def sched_inv_def)
  have kept: "sched_inv done (withCandidate s (Some (promotedCandidate s ev p)) p)"
    if "seedKey ?s \<notin> knownSeedKeys p"
    using assms(1) cand that
    by (auto simp: sched_inv_def withCandidate_def candidates_only candidates_ok_def)
  from call show ?thesis
  proof (cases rule: PromoteSeedCandidate_cases)
    case reject
    with assms(1) show ?thesis by simp
  next
    case known
    with sched_inv_mergeAcross [OF assms(1) norm] show ?thesis by simp
  next
    case (materialized schedule)
    then show ?thesis
      using sched_inv_registerSeed [OF kept [OF materialized(1)],
          of "(cand_seed (promotedCandidate s ev p))\<lparr>seed_Confidence := cand_maxConfidence (promotedCandidate s ev p),
              seed_Evidence := cand_evidence (promotedCandidate s ev p)\<rparr>" schedule] cand
      by (simp add: materialize_eq withCandidate_def candidates_only)
  next
    case collected
    with kept show ?thesis by simp
  next
    case dropped
    with assms(1) show ?thesis
      by (auto simp: sched_inv_def withCandidate_def candidates_only candidates_ok_def)
  qed
qed

text \<open>Advancing retires the keys of the wave that ran.\<close>

lemma AdvanceSeedFrontier_eq:
  "AdvanceSeedFrontier p =
     (let moved = pendingSeeds p \<noteq> [] \<and> \<not> extraCollectionWaveInProgress p;
          extra = moved \<and> extraCollectionWaveReserved p
      in (moved, p\<lparr>
           collectionSeeds := (if moved then pendingSeeds p else []),
           pendingSeeds := [],
           collectionDepth := (if moved \<and> \<not> extra then collectionDepth p + 1 else collectionDepth p),
           extraCollectionWaveReserved :=
             (extraCollectionWaveReserved p \<and> extraCollectionWaveInProgress p),
           extraCollectionWaveInProgress := (extraCollectionWaveInProgress p \<or> extra)\<rparr>))"
  by (cases "pendingSeeds p"; cases "extraCollectionWaveReserved p"; cases "extraCollectionWaveInProgress p")
    (simp_all add: AdvanceSeedFrontier_def)

lemma sched_inv_AdvanceSeedFrontier:
  assumes "sched_inv done p"
  shows "sched_inv (done \<union> keysOf (collectionSeeds p)) (snd (AdvanceSeedFrontier p))"
proof -
  let ?q = "snd (AdvanceSeedFrontier p)"
  note inv = assms [unfolded sched_inv_def slices_ok_def]
  have apart: "keysOf (collectionSeeds p) \<inter> keysOf (pendingSeeds p) = {}"
    using inv by (simp add: keysOf_def)
  have "slices_ok (done \<union> keysOf (collectionSeeds p)) ?q"
  proof (cases "pendingSeeds p \<noteq> [] \<and> \<not> extraCollectionWaveInProgress p")
    case True
    with inv apart show ?thesis
      unfolding slices_ok_def AdvanceSeedFrontier_eq Let_def by (simp add: ball_Un) blast
  next
    case False
    with inv apart show ?thesis
      unfolding slices_ok_def AdvanceSeedFrontier_eq Let_def by (simp add: ball_Un) auto
  qed
  moreover have "candidates_ok ?q"
    using assms [unfolded sched_inv_def] by (simp add: candidates_ok_def AdvanceSeedFrontier_eq Let_def)
  moreover have "budget_ok ?q"
    using inv by (auto simp: budget_ok_def AdvanceSeedFrontier_eq Let_def)
  ultimately show ?thesis by (simp add: sched_inv_def)
qed

section \<open>Initialization\<close>

definition submitted_ok :: "(string \<rightharpoonup> seed) \<Rightarrow> string list \<Rightarrow> bool" where
  "submitted_ok m order \<longleftrightarrow> dom m = set order \<and> distinct order
     \<and> (\<forall>k s. m k = Some s \<longrightarrow> seedKey s = k \<and> normalDomains s)"

lemma mergeSubmittedSeeds_spec:
  assumes "submitted_ok m order" and "\<forall>s \<in> set ss. commaFree s"
    and "mergeSubmittedSeeds ss m order = (m', order')"
  shows "submitted_ok m' order'
       \<and> order' = order @ uniqueBy (\<lambda>k. k) (set order) (map (\<lambda>s. seedKey (normalizeSeed s)) ss)"
  using assms
proof (induction ss arbitrary: m order)
  case Nil
  then show ?case by simp
next
  case (Cons s ss)
  let ?s = "normalizeSeed s"
  have norm: "normalDomains ?s" using Cons.prems by (simp add: normalDomains_normalizeSeed)
  have rest: "\<forall>s \<in> set ss. commaFree s" using Cons.prems by simp
  show ?case
  proof (cases "m (seedKey ?s)")
    case None
    then have ok: "submitted_ok (m(seedKey ?s \<mapsto> ?s)) (order @ [seedKey ?s])"
      using Cons.prems(1) norm by (auto simp: submitted_ok_def)
    have "seedKey ?s \<notin> set order" using None Cons.prems(1) by (auto simp: submitted_ok_def)
    with Cons.IH [OF ok rest] Cons.prems(3) None show ?thesis
      by (auto simp: Let_def simp del: fun_upd_apply)
  next
    case (Some old)
    then have "seedKey old = seedKey ?s \<and> normalDomains old"
      using Cons.prems(1) by (simp add: submitted_ok_def)
    then have ok: "submitted_ok (m(seedKey ?s \<mapsto> mergeSeeds old ?s)) order"
      using Cons.prems(1) norm Some
      by (auto simp: submitted_ok_def seedKey_mergeSeeds normalDomains_mergeSeeds)
    have "seedKey ?s \<in> set order" using Some Cons.prems(1) by (auto simp: submitted_ok_def)
    with Cons.IH [OF ok rest] Cons.prems(3) Some show ?thesis
      by (auto simp: Let_def simp del: fun_upd_apply)
  qed
qed

lemma submitted_seeds:
  assumes "submitted_ok m order"
  shows "map seedKey (map (\<lambda>k. case m k of Some s \<Rightarrow> s | None \<Rightarrow> zeroSeed) order) = order"
    and "\<forall>s \<in> set (map (\<lambda>k. case m k of Some s \<Rightarrow> s | None \<Rightarrow> zeroSeed) order). normalDomains s"
proof -
  have "\<exists>s. m k = Some s \<and> seedKey s = k \<and> normalDomains s" if "k \<in> set order" for k
    using assms that unfolding submitted_ok_def by (metis domD)
  then show "map seedKey (map (\<lambda>k. case m k of Some s \<Rightarrow> s | None \<Rightarrow> zeroSeed) order) = order"
    and "\<forall>s \<in> set (map (\<lambda>k. case m k of Some s \<Rightarrow> s | None \<Rightarrow> zeroSeed) order). normalDomains s"
    by (force intro!: map_idI, force)
qed

lemma InitializeSeedFrontier_fields:
  assumes "\<forall>s \<in> set (Seeds p). commaFree s"
  shows "sched_inv {} (InitializeSeedFrontier d p)"
    and "map seedKey (Seeds (InitializeSeedFrontier d p))
           = uniqueBy (\<lambda>k. k) {} (map (\<lambda>s. seedKey (normalizeSeed s)) (Seeds p))"
    and "collectionSeeds (InitializeSeedFrontier d p) = Seeds (InitializeSeedFrontier d p)"
    and "maxCollectionDepth (InitializeSeedFrontier d p) = max 0 d"
proof -
  obtain m order where run: "mergeSubmittedSeeds (Seeds p) Map.empty [] = (m, order)" by fastforce
  have spec: "submitted_ok m order"
    "order = uniqueBy (\<lambda>k. k) {} (map (\<lambda>s. seedKey (normalizeSeed s)) (Seeds p))"
    using mergeSubmittedSeeds_spec [OF _ assms run] by (auto simp: submitted_ok_def)
  note seeds = submitted_seeds [OF spec(1)]
  let ?ss = "map (\<lambda>k. case m k of Some s \<Rightarrow> s | None \<Rightarrow> zeroSeed) order"
  let ?q = "InitializeSeedFrontier d p"
  have fields: "Seeds ?q = ?ss" "collectionSeeds ?q = ?ss" "pendingSeeds ?q = []"
    "knownSeedKeys ?q = set order" "candidateSeeds ?q = Map.empty" "collectionDepth ?q = 0"
    "maxCollectionDepth ?q = max 0 d" "\<not> extraCollectionWaveReserved ?q"
    by (simp_all add: InitializeSeedFrontier_def run Let_def)
  have keys: "keysOf ?ss = set order" by (metis keysOf_def list.set_map seeds(1))
  have "distinct order" using spec(1) by (simp add: submitted_ok_def)
  then show "sched_inv {} ?q"
    unfolding sched_inv_def slices_ok_def candidates_ok_def budget_ok_def fields append_Nil2 seeds(1) keys
    using seeds(2) fields by auto
  show "map seedKey (Seeds ?q) = uniqueBy (\<lambda>k. k) {} (map (\<lambda>s. seedKey (normalizeSeed s)) (Seeds p))"
    unfolding fields seeds(1) by (rule spec(2))
  show "collectionSeeds ?q = Seeds ?q" and "maxCollectionDepth ?q = max 0 d"
    unfolding fields by simp_all
qed

section \<open>Steps of a running wave\<close>

text \<open>
  What the stages may do to the frontier while a wave runs, in any order; the handler's state is
  threaded through. Collectors call \<open>EnqueueSeed\<close> and \<open>PromoteSeedCandidate\<close>, the reconsideration
  stage also reserves the extra wave.
\<close>

inductive frontier_step ::
  "'b promotionHandler \<Rightarrow> pipelineContext \<times> 'b \<Rightarrow> pipelineContext \<times> 'b \<Rightarrow> bool"
  for h :: "'b promotionHandler" where
  enqueue: "commaFree s \<Longrightarrow> frontier_step h (p, b) (snd (EnqueueSeed s p), b)"
| promote: "commaFree s \<Longrightarrow> PromoteSeedCandidate h s ev p b = (r, p', b') \<Longrightarrow> frontier_step h (p, b) (p', b')"
| reserve: "frontier_step h (p, b) (snd (ReserveExtraCollectionWave p), b)"

inductive_cases frontier_stepE: "frontier_step h (p, b) (p', b')"

lemma sched_inv_frontier_step:
  "frontier_step h (p, b) (p', b') \<Longrightarrow> sched_inv done p \<Longrightarrow> sched_inv done p'"
  by (erule frontier_stepE)
    (simp_all add: sched_inv_EnqueueSeed sched_inv_PromoteSeedCandidate sched_inv_ReserveExtraCollectionWave)

lemma sched_inv_frontier_steps:
  assumes "(frontier_step h)\<^sup>*\<^sup>* (p, b) (p', b')" and "sched_inv done p"
  shows "sched_inv done p'"
  using assms
proof (induction "(p', b')" arbitrary: p' b' rule: rtranclp_induct)
  case (step y)
  obtain q c where y: "y = (q, c)" by (cases y)
  show ?case
    by (rule sched_inv_frontier_step [OF step.hyps(2) [unfolded y]], rule step.hyps(3) [OF y step.prems])
qed simp

text \<open>Steps keep the collected wave, the depth and the budget; known seeds only grow.\<close>

definition grows :: "pipelineContext \<Rightarrow> pipelineContext \<Rightarrow> bool" where
  "grows p q \<longleftrightarrow> knownSeedKeys p \<subseteq> knownSeedKeys q \<and> length (Seeds p) \<le> length (Seeds q)
     \<and> map seedKey (collectionSeeds p) = map seedKey (collectionSeeds q)
     \<and> collectionDepth p = collectionDepth q \<and> maxCollectionDepth p = maxCollectionDepth q
     \<and> extraCollectionWaveInProgress p = extraCollectionWaveInProgress q
     \<and> (extraCollectionWaveReserved p \<longrightarrow> extraCollectionWaveReserved q)"

lemma grows_refl [simp]: "grows p p"
  by (simp add: grows_def)

lemma grows_trans: "grows p q \<Longrightarrow> grows q r \<Longrightarrow> grows p r"
  unfolding grows_def by (metis order_trans)

lemma length_mergeSeedIntoSlice [simp]: "length (mergeSeedIntoSlice ss k s ev) = length ss"
  by (simp add: mergeSeedIntoSlice_def)

lemma grows_mergeAcross:
  assumes "sched_inv done p" and "normalDomains s"
  shows "grows p (mergeSeedAcrossSlicesLocked s ev p)"
proof -
  have "\<forall>s \<in> set (collectionSeeds p). normalDomains s"
    using assms(1) by (simp add: sched_inv_def slices_ok_def)
  then show ?thesis
    using mergeSeedIntoSlice_keys(1) [OF assms(2) refl, of "collectionSeeds p" ev]
    unfolding grows_def by (simp add: mergeSeedAcrossSlicesLocked_def Let_def)
qed

lemma grows_registerSeed: "grows p (registerSeed s schedule p)"
  by (auto simp: grows_def registerSeed_def)

lemma grows_frontier_step:
  assumes "frontier_step h (p, b) (p', b')" and "sched_inv done p"
  shows "grows p p'"
  using assms(1)
proof (cases rule: frontier_step.cases)
  case (enqueue s)
  then show ?thesis
    using grows_mergeAcross [OF assms(2) normalDomains_normalizeSeed] grows_registerSeed
    by (auto simp: EnqueueSeed_eq Let_def)
next
  case (promote s ev r)
  have base: "grows p (withCandidate s c p)" for c by (simp add: grows_def withCandidate_def)
  from promote(2) show ?thesis
  proof (cases rule: PromoteSeedCandidate_cases)
    case known
    with grows_mergeAcross [OF assms(2) normalDomains_normalizeSeed [OF promote(1)]] show ?thesis by simp
  next
    case (materialized schedule)
    have "grows q (snd (materializeSeedCandidateLocked k c schedule q))" for q k c
      by (auto simp: grows_def materializeSeedCandidateLocked_def Let_def split: option.split)
    with materialized base grows_trans show ?thesis by blast
  qed (auto simp: base)
next
  case reserve
  then show ?thesis by (simp add: grows_def ReserveExtraCollectionWave_def)
qed

lemma grows_frontier_steps:
  assumes "(frontier_step h)\<^sup>*\<^sup>* (p, b) (p', b')" and "sched_inv done p"
  shows "grows p p'"
  using assms
proof (induction "(p', b')" arbitrary: p' b' rule: rtranclp_induct)
  case (step y)
  obtain q c where y: "y = (q, c)" by (cases y)
  have "grows q p'"
    using grows_frontier_step [OF step.hyps(2) [unfolded y]]
      sched_inv_frontier_steps [OF step.hyps(1) [unfolded y] step.prems] by blast
  with step.hyps(3) [OF y step.prems] show ?case by (rule grows_trans)
qed simp

section \<open>When a seed is scheduled\<close>

text \<open>The handler's decisions that keep a strong candidate out.\<close>

definition declined :: "'b promotionHandler \<Rightarrow> candidatePromotionRequest \<Rightarrow> 'b \<Rightarrow> bool" where
  "declined h request b = (case h of None \<Rightarrow> False
     | Some f \<Rightarrow> fst (f request b) = CandidatePromotionPendingReview \<or> fst (f request b) = CandidatePromotionRejected)"

lemma acceptCandidate_fields:
  "res_Scheduled (fst (acceptCandidate k c schedule q)) = schedule"
  "snd (acceptCandidate k c schedule q) = snd (materializeSeedCandidateLocked k (Some c) schedule q)"
  by (simp_all add: acceptCandidate_def materializeSeedCandidateLocked_def Let_def)

lemma PromoteSeedCandidate_scheduled:
  fixes s ev p
  defines "c \<equiv> promotedCandidate s ev p" and "k \<equiv> seedKey (normalizeSeed s)"
  shows "res_Scheduled (fst (PromoteSeedCandidate h s ev p b)) \<longleftrightarrow>
       seedSchedulingModeLocked p = seedSchedulingNextWave \<and> k \<notin> knownSeedKeys p
     \<and> shouldPromoteSeedCandidate (Some c) \<and> \<not> declined h (promotionRequest k c) b"
proof -
  note shapes = noPromotion_def acceptCandidate_fields declined_def
  show ?thesis
  proof (cases h)
    case None
    then show ?thesis
      by (cases "seedSchedulingModeLocked p")
        (simp_all add: PromoteSeedCandidate_def Let_def split_def shapes promotedCandidate_def c_def k_def)
  next
    case (Some f)
    then show ?thesis
      by (cases "seedSchedulingModeLocked p")
        (simp_all add: PromoteSeedCandidate_def Let_def split_def shapes promotedCandidate_def c_def k_def)
  qed
qed

lemma materialize_pending:
  assumes "\<And>c. cnd = Some c \<Longrightarrow> seedKey (cand_seed c) = k" and "cnd \<noteq> None"
  shows "map seedKey (pendingSeeds (snd (materializeSeedCandidateLocked k cnd schedule p)))
     = map seedKey (pendingSeeds p) @ (if schedule then [k] else [])"
  using assms by (cases cnd) (simp_all add: materializeSeedCandidateLocked_def Let_def)

lemma promotedCandidate_key:
  assumes "sched_inv D p" and "commaFree s"
  shows "seedKey (cand_seed (promotedCandidate s ev p)) = seedKey (normalizeSeed s)"
proof -
  have "normalDomains (normalizeSeed s)" using assms(2) by (rule normalDomains_normalizeSeed)
  then show ?thesis
    unfolding promotedCandidate_def recordSignal_seed
    using assms(1) openCandidate_key by (auto simp: sched_inv_def candidates_ok_def)
qed

lemma PromoteSeedCandidate_pending:
  assumes "sched_inv D p" and "commaFree s" and "PromoteSeedCandidate h s ev p b = (r, p', b')"
  shows "map seedKey (pendingSeeds p')
     = map seedKey (pendingSeeds p) @ (if res_Scheduled r then [seedKey (normalizeSeed s)] else [])"
  using assms(3)
proof (cases rule: PromoteSeedCandidate_cases)
  case known
  have "normalDomains (normalizeSeed s)" and "\<forall>s \<in> set (pendingSeeds p). normalDomains s"
    using assms(1,2) normalDomains_normalizeSeed by (auto simp: sched_inv_def slices_ok_def)
  from known mergeSeedIntoSlice_keys(1) [OF this(1) refl this(2)] show ?thesis
    by (simp add: mergeSeedAcrossSlicesLocked_def noPromotion_def Let_def)
next
  case (materialized schedule)
  have "pendingSeeds (withCandidate s c p) = pendingSeeds p" for c by (simp add: withCandidate_def)
  with materialized materialize_pending [of "Some (promotedCandidate s ev p)"]
    promotedCandidate_key [OF assms(1,2)] show ?thesis by simp
qed (auto simp: noPromotion_def withCandidate_def)

lemma recordSignal_keys:
  "ev_Source e \<noteq> [] \<Longrightarrow> ev_Kind e \<noteq> [] \<Longrightarrow>
   set (cand_signalKeys (recordSignal c e)) = insert (ev_Source e @ ''|'' @ ev_Kind e) (set (cand_signalKeys c))"
  by (auto simp: recordSignal_def Let_def)

lemma recordSignal_distinct:
  "distinct (cand_signalKeys c) \<Longrightarrow> distinct (cand_signalKeys (recordSignal c e))"
  by (auto simp: recordSignal_def Let_def)

lemma PromoteSeedCandidate_collects:
  assumes "seedSchedulingModeLocked p = seedSchedulingNextWave" and "seedKey (normalizeSeed s) \<notin> knownSeedKeys p"
    and "\<not> shouldPromoteSeedCandidate (Some (promotedCandidate s ev p))"
  shows "PromoteSeedCandidate h s ev p b = (noPromotion, withCandidate s (Some (promotedCandidate s ev p)) p, b)"
  using assms by (simp add: PromoteSeedCandidate_def Let_def promotedCandidate_def withCandidate_def)

text \<open>Two different signals are enough, whatever their confidence.\<close>

definition signalOf :: "seedEvidence \<Rightarrow> string" where
  "signalOf ev = ev_Source (normalizeSeedEvidence ev) @ ''|'' @ ev_Kind (normalizeSeedEvidence ev)"

definition isSignal :: "seedEvidence \<Rightarrow> bool" where
  "isSignal ev \<longleftrightarrow> ev_Source (normalizeSeedEvidence ev) \<noteq> [] \<and> ev_Kind (normalizeSeedEvidence ev) \<noteq> []"

lemma promotedCandidate_signal:
  assumes "isSignal ev"
  shows "set (cand_signalKeys (promotedCandidate s ev p)) =
    insert (signalOf ev) (case candidateSeeds p (seedKey (normalizeSeed s)) of
       None \<Rightarrow> {} | Some c \<Rightarrow> set (cand_signalKeys c))"
  using assms recordSignal_keys [of "normalizeSeedEvidence ev"]
  by (simp add: promotedCandidate_def signalOf_def isSignal_def openCandidate_def split: option.split)

lemma second_signal_schedules:
  assumes "seedSchedulingModeLocked p = seedSchedulingNextWave" and "seedKey (normalizeSeed s) \<notin> knownSeedKeys p"
    and "isSignal ev" and "isSignal ev'" and "signalOf ev \<noteq> signalOf ev'"
    and same: "seedKey (normalizeSeed s') = seedKey (normalizeSeed s)"
    and first: "PromoteSeedCandidate None s ev p b = (r, p', b')"
  shows "res_Scheduled r \<or> res_Scheduled (fst (PromoteSeedCandidate None s' ev' p' b'))"
proof (cases "shouldPromoteSeedCandidate (Some (promotedCandidate s ev p))")
  case True
  then have "res_Scheduled (fst (PromoteSeedCandidate None s ev p b))"
    unfolding PromoteSeedCandidate_scheduled using assms(1,2) by (simp add: declined_def)
  with first show ?thesis by simp
next
  case False
  let ?c = "promotedCandidate s ev p"
  have p': "p' = withCandidate s (Some ?c) p" using PromoteSeedCandidate_collects [OF assms(1,2) False, of None b] first by simp
  have "{signalOf ev, signalOf ev'} \<subseteq> set (cand_signalKeys (promotedCandidate s' ev' p'))"
    unfolding promotedCandidate_signal [OF assms(4)] using promotedCandidate_signal [OF assms(3), of s p]
    by (simp add: p' withCandidate_def same)
  then have "card {signalOf ev, signalOf ev'} \<le> length (cand_signalKeys (promotedCandidate s' ev' p'))"
    by (meson List.finite_set card_length card_mono order_trans)
  with assms(5) have "shouldPromoteSeedCandidate (Some (promotedCandidate s' ev' p'))"
    by (simp add: shouldPromoteSeedCandidate_def)
  moreover have "seedSchedulingModeLocked p' = seedSchedulingNextWave" and "knownSeedKeys p' = knownSeedKeys p"
    using assms(1) by (simp_all add: p' withCandidate_def candidates_only)
  ultimately show ?thesis
    unfolding PromoteSeedCandidate_scheduled same using assms(2) by (simp add: declined_def)
qed

end
