(* ===== verification/Asset_State.thy ===== *)
theory Asset_State
  imports Asset_Merge_Facts
begin

text \<open>
  \<open>internal/models/asset_state.go\<close> and \<open>assets.go\<close>: the canonical asset table of a run. Every
  asset that a stage appends becomes an observation and is merged into the one canonical asset of
  its key; three maps index the slices. Each exported operation first brings the state into
  shape (\<open>ensureAssetStateLocked\<close>) and ends by telling the mutation listener.
\<close>

section \<open>Operations\<close>

definition assetKeyOf :: "asset \<Rightarrow> string" where
  "assetKeyOf a = canonicalAssetKey (asset_Type a) (asset_Identifier a)"

definition rebuildAssetIndexLocked :: "pipelineContext \<Rightarrow> pipelineContext" where
  "rebuildAssetIndexLocked p =
     p\<lparr>assetIndexByKey := indexBy assetKeyOf 0 (Assets p) Map.empty\<rparr>"

text \<open>The tail shared by both ingests: give the observation its asset and record it once.\<close>

definition recordObservation ::
  "nat \<Rightarrow> assetObservation \<Rightarrow> pipelineContext \<Rightarrow> (asset \<times> assetObservation \<times> bool) \<times> pipelineContext" where
  "recordObservation index ob p =
     (let ob1 = (if obs_AssetID ob = [] then ob\<lparr>obs_AssetID := asset_ID (Assets p ! index)\<rparr> else ob)
      in case observationIndexByID p (obs_ID ob1) of
           None \<Rightarrow>
             ((cloneAsset (Assets p ! index), ob1, True),
              p\<lparr>Observations := Observations p @ [ob1],
                observationIndexByID := (observationIndexByID p)(obs_ID ob1 \<mapsto> length (Observations p))\<rparr>)
         | Some _ \<Rightarrow> ((cloneAsset (Assets p ! index), ob1, False), p))"

definition withDefaults :: "asset \<Rightarrow> asset" where
  "withDefaults c0 =
     (let c1 = (if asset_OwnershipState c0 = []
                then c0\<lparr>asset_OwnershipState := defaultOwnershipState c0\<rparr> else c0)
      in if asset_InclusionReason c1 = []
         then c1\<lparr>asset_InclusionReason := defaultInclusionReason c1\<rparr> else c1)"

definition addCanonical :: "string \<Rightarrow> asset \<Rightarrow> pipelineContext \<Rightarrow> nat \<times> pipelineContext" where
  "addCanonical key c p =
     (length (Assets p),
      p\<lparr>Assets := Assets p @ [c],
        assetIndexByKey := (assetIndexByKey p)(key \<mapsto> length (Assets p))\<rparr>)"

definition ingestAssetLocked ::
  "asset \<Rightarrow> pipelineContext \<Rightarrow> (asset \<times> assetObservation \<times> bool) \<times> pipelineContext" where
  "ingestAssetLocked a0 p0 =
     (let a1 = normalizeAsset a0;
          (a, p) = (if asset_ID a1 = []
                    then (let (i, p1) = NewID ''asset'' p0 in (a1\<lparr>asset_ID := i\<rparr>, p1))
                    else (a1, p0));
          ob = assetObservationFromAsset a;
          key = canonicalAssetKey (asset_Type a) (asset_Identifier a)
      in case assetIndexByKey p key of
           None \<Rightarrow>
             (let c = a\<lparr>asset_Provenance := mergeAssetProvenance [] [assetProvenanceFromAsset a],
                       asset_DomainDetails := cloneDomainDetails (asset_DomainDetails a),
                       asset_IPDetails := cloneIPDetails (asset_IPDetails a),
                       asset_EnrichmentData := cloneEnrichmentData (asset_EnrichmentData a),
                       asset_EnrichmentStates := cloneEnrichmentStates (asset_EnrichmentStates a)\<rparr>;
                  (index, p2) = addCanonical key (withDefaults c) p
              in recordObservation index ob p2)
         | Some index \<Rightarrow>
             (let merged = mergeAssetIntoCanonical (Assets p ! index) a ObservationKindDiscovery;
                  p2 = p\<lparr>Assets := (Assets p)[index := merged]\<rparr>
              in recordObservation index (ob\<lparr>obs_AssetID := asset_ID merged\<rparr>) p2))"

definition ingestObservationLocked ::
  "assetObservation \<Rightarrow> pipelineContext \<Rightarrow> (asset \<times> assetObservation \<times> bool) \<times> pipelineContext" where
  "ingestObservationLocked o0 p0 =
     (let o1 = normalizeAssetObservation o0;
          (ob, p) = (if obs_ID o1 = []
                     then (let (i, p1) = NewID ''obs'' p0 in (o1\<lparr>obs_ID := i\<rparr>, p1))
                     else (o1, p0));
          c0 = assetFromObservation ob;
          key = canonicalAssetKey (obs_Type ob) (obs_Identifier ob)
      in case assetIndexByKey p key of
           None \<Rightarrow>
             (let (c1, p1) = (if asset_ID c0 = []
                              then (let (i, p') = NewID ''asset'' p in (c0\<lparr>asset_ID := i\<rparr>, p'))
                              else (c0, p));
                  c2 = (if obs_Kind ob = ObservationKindDiscovery
                        then c1\<lparr>asset_Provenance := mergeAssetProvenance [] [assetProvenanceFromObservation ob]\<rparr>
                        else c1);
                  (index, p2) = addCanonical key (withDefaults c2) p1
              in recordObservation index ob p2)
         | Some index \<Rightarrow>
             (let merged = mergeAssetIntoCanonical (Assets p ! index) c0 (obs_Kind ob);
                  p2 = p\<lparr>Assets := (Assets p)[index := merged]\<rparr>
              in recordObservation index (ob\<lparr>obs_AssetID := asset_ID merged\<rparr>) p2))"

definition ingestAssets :: "asset list \<Rightarrow> pipelineContext \<Rightarrow> pipelineContext" where
  "ingestAssets assets p = fold (\<lambda>a q. snd (ingestAssetLocked a q)) assets p"

text \<open>An asset with an ID that no observation has was put into the slice directly.\<close>

definition isPendingRaw :: "pipelineContext \<Rightarrow> asset \<Rightarrow> bool" where
  "isPendingRaw p a \<longleftrightarrow> asset_ID a \<noteq> [] \<and> observationIndexByID p (asset_ID a) = None"

definition reconcilePendingRawAssetsLocked :: "pipelineContext \<Rightarrow> pipelineContext" where
  "reconcilePendingRawAssetsLocked p =
     (if length (Assets p) = 0 then p
      else (let pending = filter (isPendingRaw p) (Assets p);
                canonical = filter (\<lambda>a. \<not> isPendingRaw p a) (Assets p);
                p1 = rebuildAssetIndexLocked (p\<lparr>Assets := canonical\<rparr>)
            in if length pending = 0 then p1 else ingestAssets pending p1))"

definition ensureAssetStateLocked :: "pipelineContext \<Rightarrow> pipelineContext" where
  "ensureAssetStateLocked p =
     (if assetStateInitialized p then reconcilePendingRawAssetsLocked (rebuildAssetIndexLocked p)
      else (let rawAssets = Assets p;
                p1 = p\<lparr>Assets := [], Observations := [], Relations := [],
                       assetIndexByKey := Map.empty, observationIndexByID := Map.empty,
                       relationIndexByKey := Map.empty\<rparr>
            in (ingestAssets rawAssets p1)\<lparr>assetStateInitialized := True\<rparr>))"

definition EnsureAssetState :: "pipelineContext \<Rightarrow> pipelineContext" where
  "EnsureAssetState p = ensureAssetStateLocked p"

definition resolveCanonicalAssetIDLocked :: "assetType \<Rightarrow> string \<Rightarrow> pipelineContext \<Rightarrow> string" where
  "resolveCanonicalAssetIDLocked ty identifier p =
     (case assetIndexByKey p (canonicalAssetKey ty identifier) of
        None \<Rightarrow> []
      | Some index \<Rightarrow> if index \<ge> length (Assets p) then [] else asset_ID (Assets p ! index))"

definition resolveRelation :: "pipelineContext \<Rightarrow> assetRelation \<Rightarrow> assetRelation" where
  "resolveRelation p r =
     (let from = resolveCanonicalAssetIDLocked (rel_FromAssetType r) (rel_FromIdentifier r) p;
          to = resolveCanonicalAssetIDLocked (rel_ToAssetType r) (rel_ToIdentifier r) p
      in r\<lparr>rel_FromAssetID := (if rel_FromIdentifier r \<noteq> [] \<and> from \<noteq> [] then from else rel_FromAssetID r),
           rel_ToAssetID := (if rel_ToIdentifier r \<noteq> [] \<and> to \<noteq> [] then to else rel_ToAssetID r)\<rparr>)"

definition addAssetRelationLocked ::
  "assetRelation \<Rightarrow> pipelineContext \<Rightarrow> assetRelation option \<times> pipelineContext" where
  "addAssetRelationLocked r0 p0 =
     (let r1 = normalizeAssetRelation r0;
          (r2, p) = (if rel_ID r1 = []
                     then (let (i, p1) = NewID ''rel'' p0 in (r1\<lparr>rel_ID := i\<rparr>, p1))
                     else (r1, p0));
          r = resolveRelation p r2;
          key = assetRelationKey r
      in case relationIndexByKey p key of
           Some _ \<Rightarrow> (None, p)
         | None \<Rightarrow> (Some r, p\<lparr>Relations := Relations p @ [r],
                            relationIndexByKey := (relationIndexByKey p)(key \<mapsto> length (Relations p))\<rparr>))"

definition emitMutationEvents ::
  "asset list \<Rightarrow> assetObservation list \<Rightarrow> assetRelation list \<Rightarrow> pipelineContext \<Rightarrow> pipelineContext" where
  "emitMutationEvents assets observations relations p =
     (if mutationListener p
      then p\<lparr>mutationLog := mutationLog p @ map OnAssetUpsert assets
              @ map OnObservationAdded observations @ map OnRelationAdded relations\<rparr>
      else p)"

text \<open>The loops of the three append operations, with the events they collect.\<close>

fun ingestAll ::
  "('a \<Rightarrow> pipelineContext \<Rightarrow> (asset \<times> assetObservation \<times> bool) \<times> pipelineContext) \<Rightarrow> 'a list
     \<Rightarrow> pipelineContext \<Rightarrow> asset list \<times> assetObservation list \<times> pipelineContext" where
  "ingestAll ingest [] p = ([], [], p)"
| "ingestAll ingest (x # xs) p =
     (let ((a, ob, added), p1) = ingest x p;
          (as, obs, p2) = ingestAll ingest xs p1
      in (a # as, if added then ob # obs else obs, p2))"

fun addRelations :: "assetRelation list \<Rightarrow> pipelineContext \<Rightarrow> assetRelation list \<times> pipelineContext" where
  "addRelations [] p = ([], p)"
| "addRelations (r # rs) p =
     (let (added, p1) = addAssetRelationLocked r p;
          (events, p2) = addRelations rs p1
      in (case added of Some e \<Rightarrow> e # events | None \<Rightarrow> events, p2))"

definition AppendAssets :: "asset list \<Rightarrow> pipelineContext \<Rightarrow> pipelineContext" where
  "AppendAssets assets p =
     (if length assets = 0 then p
      else (let (as, obs, p1) = ingestAll ingestAssetLocked assets (ensureAssetStateLocked p)
            in emitMutationEvents as obs [] p1))"

definition AppendAssetObservations :: "assetObservation list \<Rightarrow> pipelineContext \<Rightarrow> pipelineContext" where
  "AppendAssetObservations observations p =
     (if length observations = 0 then p
      else (let (as, obs, p1) = ingestAll ingestObservationLocked observations (ensureAssetStateLocked p)
            in emitMutationEvents as obs [] p1))"

definition AppendAssetRelations :: "assetRelation list \<Rightarrow> pipelineContext \<Rightarrow> pipelineContext" where
  "AppendAssetRelations relations p =
     (if length relations = 0 then p
      else (let (rels, p1) = addRelations relations (ensureAssetStateLocked p)
            in emitMutationEvents [] [] rels p1))"

end
