(* ===== verification/Asset_Invariant.thy ===== *)
theory Asset_Invariant
  imports Asset_State
begin

text \<open>
  The invariant of the canonical asset table: the three indexes are exact, so no two canonical
  assets share a key and no two observations an ID, and every observation points to a canonical
  asset. Every operation preserves it and keeps the identity of the assets there were.
\<close>

section \<open>The invariant\<close>

text \<open>What keys and seeds made from an asset rely on: the type holds no bar, the PTR name no comma.\<close>

definition plainPTR :: "ipDetails option \<Rightarrow> bool" where
  "plainPTR d \<longleftrightarrow> (case d of None \<Rightarrow> True | Some i \<Rightarrow> CHR '','' \<notin> set (ip_PTR i))"

definition cleanAsset :: "asset \<Rightarrow> bool" where
  "cleanAsset a \<longleftrightarrow> CHR ''|'' \<notin> set (asset_Type a) \<and> plainPTR (asset_IPDetails a)"

definition cleanObservation :: "assetObservation \<Rightarrow> bool" where
  "cleanObservation ob \<longleftrightarrow> CHR ''|'' \<notin> set (obs_Type ob) \<and> plainPTR (obs_IPDetails ob)"

definition goodAsset :: "asset \<Rightarrow> bool" where
  "goodAsset a \<longleftrightarrow> asset_ID a \<noteq> [] \<and> TrimSpace (asset_ID a) = asset_ID a \<and> cleanAsset a"

lemma plainPTR_None [simp]: "plainPTR None"
  by (simp add: plainPTR_def)

lemma plainPTR_merge: "plainPTR d \<Longrightarrow> plainPTR i \<Longrightarrow> plainPTR (mergeIPDetails d i)"
  by (auto simp: plainPTR_def mergeIPDetails_def Let_def split: option.splits)

lemma cleanAsset_type [simp]: "cleanAsset a \<Longrightarrow> CHR ''|'' \<notin> set (asset_Type a)"
  by (simp add: cleanAsset_def)

lemma goodAsset_clean [simp]: "goodAsset a \<Longrightarrow> cleanAsset a"
  by (simp add: goodAsset_def)

definition assetIDs :: "pipelineContext \<Rightarrow> string set" where
  "assetIDs p = asset_ID ` set (Assets p)"

text \<open>\<open>X\<close> holds the IDs an observation may name although no canonical asset has them (yet).\<close>

definition asset_inv :: "string set \<Rightarrow> pipelineContext \<Rightarrow> bool" where
  "asset_inv X p \<longleftrightarrow>
     is_index assetKeyOf (Assets p) (assetIndexByKey p)
   \<and> is_index obs_ID (Observations p) (observationIndexByID p)
   \<and> is_index assetRelationKey (Relations p) (relationIndexByKey p)
   \<and> (\<forall>ob \<in> set (Observations p). obs_AssetID ob \<in> assetIDs p \<union> X)
   \<and> (\<forall>a \<in> set (Assets p). goodAsset a)"

definition assetKeys :: "pipelineContext \<Rightarrow> string set" where
  "assetKeys p = assetKeyOf ` set (Assets p)"

definition survive :: "pipelineContext \<Rightarrow> pipelineContext \<Rightarrow> bool" where
  "survive p q \<longleftrightarrow> (\<forall>a \<in> set (Assets p). \<exists>b \<in> set (Assets q).
      assetKeyOf b = assetKeyOf a \<and> asset_ID b = asset_ID a)"

lemma survive_refl [simp]: "survive p p"
  by (auto simp: survive_def)

lemma survive_trans: "survive p q \<Longrightarrow> survive q r \<Longrightarrow> survive p r"
  unfolding survive_def by metis

lemma survive_IDs: "survive p q \<Longrightarrow> assetIDs p \<subseteq> assetIDs q"
  unfolding survive_def assetIDs_def by (auto simp: image_iff) metis

lemma asset_inv_shrink: "asset_inv X p \<Longrightarrow> X \<subseteq> assetIDs p \<union> Y \<Longrightarrow> asset_inv Y p"
  unfolding asset_inv_def by blast

section \<open>Identifiers and keys\<close>

lemma TrimSpace_no_space: "\<forall>c \<in> set s. \<not> is_space c \<Longrightarrow> TrimSpace s = s"
proof -
  assume *: "\<forall>c \<in> set s. \<not> is_space c"
  have "TrimLeft t = t" if "\<forall>c \<in> set t. \<not> is_space c" for t
    using that by (cases t) (auto simp: TrimLeft_def)
  with * show ?thesis by (simp add: TrimSpace_def)
qed

lemma digit_not_space: "is_digit c \<Longrightarrow> \<not> is_space c"
  by (auto simp: is_digit_def is_space_def)

lemma show_nat_no_space: "c \<in> set (show_nat n) \<Longrightarrow> \<not> is_space c"
  using show_nat_digits digit_not_space by blast

lemma show_int_no_space: "c \<in> set (show_int i) \<Longrightarrow> \<not> is_space c"
  using show_nat_no_space by (auto simp: show_int_def is_space_def split: if_splits)

lemma TrimSpace_NewID:
  assumes "\<forall>c \<in> set prefix. \<not> is_space c"
  shows "TrimSpace (fst (NewID prefix p)) = fst (NewID prefix p)"
proof (rule TrimSpace_no_space)
  have "\<not> is_space CHR ''-''" by (simp add: is_space_def)
  with assms show_nat_no_space show_int_no_space
  show "\<forall>c \<in> set (fst (NewID prefix p)). \<not> is_space c"
    by (auto simp: NewID_def Let_def)
qed

lemma NewID_state [simp]:
  "Assets (snd (NewID s p)) = Assets p" "Observations (snd (NewID s p)) = Observations p"
  "Relations (snd (NewID s p)) = Relations p" "assetIndexByKey (snd (NewID s p)) = assetIndexByKey p"
  "observationIndexByID (snd (NewID s p)) = observationIndexByID p"
  "relationIndexByKey (snd (NewID s p)) = relationIndexByKey p"
  "assetStateInitialized (snd (NewID s p)) = assetStateInitialized p"
  by (simp_all add: NewID_context)

lemma same_state:
  assumes "Assets q = Assets p" "Observations q = Observations p" "Relations q = Relations p"
    "assetIndexByKey q = assetIndexByKey p" "observationIndexByID q = observationIndexByID p"
    "relationIndexByKey q = relationIndexByKey p"
  shows "asset_inv X q = asset_inv X p" and "survive p q" and "assetIDs q = assetIDs p"
  using assms by (auto simp: asset_inv_def assetIDs_def survive_def)

lemma normalizeAsset_fields [simp]:
  "asset_ID (normalizeAsset a) = TrimSpace (asset_ID a)"
  "asset_Type (normalizeAsset a) = asset_Type a"
  "assetKeyOf (normalizeAsset a) = assetKeyOf a"
  by (simp_all add: normalizeAsset_def Let_def assetKeyOf_def canonicalAssetKey_def TrimSpace_ToLower)

lemma normalizeAsset_clean [simp]: "cleanAsset (normalizeAsset a) = cleanAsset a"
proof -
  have "asset_IPDetails (normalizeAsset a) = asset_IPDetails a"
    unfolding normalizeAsset_def Let_def by simp
  then show ?thesis by (simp add: cleanAsset_def)
qed

lemma normalizeAssetObservation_fields [simp]:
  "obs_ID (normalizeAssetObservation a) = TrimSpace (obs_ID a)"
  "obs_AssetID (normalizeAssetObservation a) = TrimSpace (obs_AssetID a)"
  "obs_Type (normalizeAssetObservation a) = obs_Type a"
  "cleanObservation (normalizeAssetObservation a) = cleanObservation a"
  by (simp_all add: normalizeAssetObservation_def Let_def cleanObservation_def)

lemma canonicalAssetKey_inject:
  assumes "CHR ''|'' \<notin> set s" and "CHR ''|'' \<notin> set t" and "canonicalAssetKey s i = canonicalAssetKey t j"
  shows "s = t \<and> norm_str i = norm_str j"
  using assms by (simp add: canonicalAssetKey_def norm_str_def TrimSpace_ToLower append_sep_inject)

lemma mergeAsset_key:
  assumes "CHR ''|'' \<notin> set (asset_Type e)" and "CHR ''|'' \<notin> set (asset_Type i)"
    and "assetKeyOf e = assetKeyOf i"
  shows "assetKeyOf (mergeAssetIntoCanonical e i k) = assetKeyOf e"
  using canonicalAssetKey_inject [OF assms(1,2) assms(3) [unfolded assetKeyOf_def]]
  by (simp add: assetKeyOf_def canonicalAssetKey_def mergeAsset_fields orElse_def TrimSpace_ToLower
      flip: norm_str_def)

lemma mergeAsset_good:
  assumes "goodAsset e" and "cleanAsset i"
  shows "goodAsset (mergeAssetIntoCanonical e i k)"
  using assms plainPTR_merge by (simp add: goodAsset_def cleanAsset_def mergeAsset_fields orElse_def)

lemma withDefaults_fields [simp]:
  "asset_ID (withDefaults a) = asset_ID a" "asset_Type (withDefaults a) = asset_Type a"
  "asset_Identifier (withDefaults a) = asset_Identifier a" "asset_IPDetails (withDefaults a) = asset_IPDetails a"
  "assetKeyOf (withDefaults a) = assetKeyOf a" "goodAsset (withDefaults a) = goodAsset a"
  by (simp_all add: withDefaults_def Let_def assetKeyOf_def goodAsset_def cleanAsset_def)

section \<open>Placing one observation\<close>

text \<open>What both ingests do once the key is known.\<close>

definition placeObservation ::
  "string \<Rightarrow> asset \<Rightarrow> (asset \<Rightarrow> asset) \<Rightarrow> assetObservation \<Rightarrow> pipelineContext
     \<Rightarrow> (asset \<times> assetObservation \<times> bool) \<times> pipelineContext" where
  "placeObservation key c m ob p =
     (case assetIndexByKey p key of
        None \<Rightarrow> (let (index, p2) = addCanonical key c p in recordObservation index ob p2)
      | Some index \<Rightarrow>
          (let merged = m (Assets p ! index); p2 = p\<lparr>Assets := (Assets p)[index := merged]\<rparr>
           in recordObservation index (ob\<lparr>obs_AssetID := asset_ID merged\<rparr>) p2))"

lemma recordObservation_inv:
  assumes "asset_inv X p" and "index < length (Assets p)"
    and "obs_AssetID ob = [] \<or> obs_AssetID ob \<in> assetIDs p"
  shows "asset_inv X (snd (recordObservation index ob p))"
    and "Assets (snd (recordObservation index ob p)) = Assets p"
proof -
  let ?ob = "if obs_AssetID ob = [] then ob\<lparr>obs_AssetID := asset_ID (Assets p ! index)\<rparr> else ob"
  have id: "obs_AssetID ?ob \<in> assetIDs p"
    using assms(2,3) by (auto simp: assetIDs_def)
  show "Assets (snd (recordObservation index ob p)) = Assets p"
    by (simp add: recordObservation_def Let_def split: option.split)
  show "asset_inv X (snd (recordObservation index ob p))"
  proof (cases "observationIndexByID p (obs_ID ?ob)")
    case None
    have obs: "is_index obs_ID (Observations p) (observationIndexByID p)"
      using assms(1) by (simp add: asset_inv_def)
    with None have "obs_ID ?ob \<notin> obs_ID ` set (Observations p)"
      using is_index_None_iff by metis
    from is_index_snoc [OF obs this] None id assms(1) show ?thesis
      by (simp add: recordObservation_def asset_inv_def assetIDs_def Let_def del: fun_upd_apply)
  next
    case (Some i)
    with assms(1) show ?thesis by (simp add: recordObservation_def Let_def)
  qed
qed

lemma addCanonical_inv:
  assumes "asset_inv X p" and "assetIndexByKey p key = None" and "assetKeyOf c = key" and "goodAsset c"
  shows "asset_inv X (snd (addCanonical key c p))"
    and "Assets (snd (addCanonical key c p)) = Assets p @ [c]"
    and "fst (addCanonical key c p) = length (Assets p)"
proof -
  have idx: "is_index assetKeyOf (Assets p) (assetIndexByKey p)"
    using assms(1) by (simp add: asset_inv_def)
  with assms(2,3) have "assetKeyOf c \<notin> assetKeyOf ` set (Assets p)"
    using is_index_None_iff by metis
  from is_index_snoc [OF idx this] assms show "asset_inv X (snd (addCanonical key c p))"
    by (auto simp: addCanonical_def asset_inv_def assetIDs_def simp del: fun_upd_apply)
qed (simp_all add: addCanonical_def)

lemma updateCanonical_inv:
  assumes "asset_inv X p" and "i < length (Assets p)"
    and "assetKeyOf m = assetKeyOf (Assets p ! i)" and "asset_ID m = asset_ID (Assets p ! i)" and "goodAsset m"
  shows "asset_inv X (p\<lparr>Assets := (Assets p)[i := m]\<rparr>)"
    and "survive p (p\<lparr>Assets := (Assets p)[i := m]\<rparr>)"
    and "assetIDs (p\<lparr>Assets := (Assets p)[i := m]\<rparr>) = assetIDs p"
proof -
  have ids: "map asset_ID ((Assets p)[i := m]) = map asset_ID (Assets p)"
    by (rule keys_update_same) (rule assms(4))
  then show IDs: "assetIDs (p\<lparr>Assets := (Assets p)[i := m]\<rparr>) = assetIDs p"
    by (simp add: assetIDs_def) (metis list.set_map)
  have idx: "is_index assetKeyOf ((Assets p)[i := m]) (assetIndexByKey p)"
    using assms(1,3) by (intro is_index_update) (auto simp: asset_inv_def)
  have good: "\<forall>a \<in> set ((Assets p)[i := m]). goodAsset a"
    using assms(1,5) set_update_subset_insert [of "Assets p" i m] by (auto simp: asset_inv_def)
  show "asset_inv X (p\<lparr>Assets := (Assets p)[i := m]\<rparr>)"
    using assms(1) idx good IDs by (simp add: asset_inv_def)
  show "survive p (p\<lparr>Assets := (Assets p)[i := m]\<rparr>)"
    unfolding survive_def
  proof
    fix a assume "a \<in> set (Assets p)"
    then obtain j where j: "j < length (Assets p)" "a = Assets p ! j" by (auto simp: in_set_conv_nth)
    then have "(Assets p)[i := m] ! j \<in> set ((Assets p)[i := m])" by (simp add: nth_mem)
    moreover have "assetKeyOf ((Assets p)[i := m] ! j) = assetKeyOf a
        \<and> asset_ID ((Assets p)[i := m] ! j) = asset_ID a"
      using j assms(3,4) by (cases "i = j") auto
    ultimately show "\<exists>b \<in> set (Assets (p\<lparr>Assets := (Assets p)[i := m]\<rparr>)).
        assetKeyOf b = assetKeyOf a \<and> asset_ID b = asset_ID a" by auto
  qed
qed

lemma placeObservation_inv:
  assumes inv: "asset_inv X p" and c: "assetKeyOf c = key" "goodAsset c"
    and ob: "obs_AssetID ob = [] \<or> obs_AssetID ob = asset_ID c"
    and m: "\<And>e. goodAsset e \<Longrightarrow> assetKeyOf e = key \<Longrightarrow>
          goodAsset (m e) \<and> assetKeyOf (m e) = key \<and> asset_ID (m e) = asset_ID e"
  defines "q \<equiv> snd (placeObservation key c m ob p)"
  shows "asset_inv X q \<and> survive p q \<and> assetKeys q = insert key (assetKeys p)
     \<and> (assetIndexByKey p key = None \<longrightarrow> c \<in> set (Assets q))"
proof (cases "assetIndexByKey p key")
  case None
  note add = addCanonical_inv [OF inv None c]
  let ?p2 = "snd (addCanonical key c p)"
  have "obs_AssetID ob = [] \<or> obs_AssetID ob \<in> assetIDs ?p2"
    using ob by (auto simp: assetIDs_def add(2))
  note rec = recordObservation_inv [OF add(1) _ this, of "length (Assets p)"]
  have q: "q = snd (recordObservation (length (Assets p)) ob ?p2)"
    using None add(3) by (simp add: q_def placeObservation_def split_def)
  have "asset_inv X q" and A: "Assets q = Assets p @ [c]"
    using rec add(2) by (simp_all add: q)
  moreover have "survive p q" by (auto simp: survive_def A)
  ultimately show ?thesis using c(1) by (auto simp: assetKeys_def)
next
  case (Some i)
  have i: "i < length (Assets p)" "assetKeyOf (Assets p ! i) = key"
    using is_index_Some is_indexD [of assetKeyOf "Assets p" "assetIndexByKey p", OF _ Some] inv
    by (auto simp: asset_inv_def)
  then have good: "goodAsset (Assets p ! i)" using inv by (simp add: asset_inv_def)
  let ?m = "m (Assets p ! i)"
  let ?p2 = "p\<lparr>Assets := (Assets p)[i := ?m]\<rparr>"
  have m': "goodAsset ?m" "assetKeyOf ?m = assetKeyOf (Assets p ! i)" "asset_ID ?m = asset_ID (Assets p ! i)"
    using m [OF good i(2)] i(2) by auto
  note upd = updateCanonical_inv [OF inv i(1) m'(2) m'(3) m'(1)]
  have "obs_AssetID (ob\<lparr>obs_AssetID := asset_ID ?m\<rparr>) \<in> assetIDs ?p2"
    using m'(3) i(1) upd(3) by (simp add: assetIDs_def)
  then have ob2: "obs_AssetID (ob\<lparr>obs_AssetID := asset_ID ?m\<rparr>) = []
      \<or> obs_AssetID (ob\<lparr>obs_AssetID := asset_ID ?m\<rparr>) \<in> assetIDs ?p2" by blast
  note rec = recordObservation_inv [OF upd(1) _ ob2, of i]
  have q: "q = snd (recordObservation i (ob\<lparr>obs_AssetID := asset_ID ?m\<rparr>) ?p2)"
    using Some by (simp add: q_def placeObservation_def Let_def)
  have inv': "asset_inv X q" and A: "Assets q = (Assets p)[i := ?m]"
    using rec i(1) by (simp_all add: q)
  have "survive p q" using upd(2) by (simp add: survive_def A)
  moreover have "assetKeys q = assetKeys p"
    unfolding assetKeys_def A using keys_update_same [of assetKeyOf ?m "Assets p" i, OF m'(2)]
    by (metis list.set_map)
  moreover have "key \<in> assetKeys p" using i by (auto simp: assetKeys_def)
  ultimately show ?thesis using inv' Some by auto
qed

section \<open>The two ingests\<close>

text \<open>The allocation of an identifier when none was given.\<close>

definition assetNewID :: "string \<Rightarrow> string \<Rightarrow> pipelineContext \<Rightarrow> string \<times> pipelineContext" where
  "assetNewID prefix i p = (if i = [] then NewID prefix p else (i, p))"

lemma assetNewID_state:
  "asset_inv X (snd (assetNewID s i p)) = asset_inv X p"
  "survive p (snd (assetNewID s i p))"
  "assetIndexByKey (snd (assetNewID s i p)) = assetIndexByKey p"
  "Assets (snd (assetNewID s i p)) = Assets p"
  "assetStateInitialized (snd (assetNewID s i p)) = assetStateInitialized p"
  using same_state [of "snd (NewID s p)" p] by (auto simp: assetNewID_def)

lemma assetNewID_good:
  assumes "\<forall>c \<in> set s. \<not> is_space c" and "TrimSpace i = i"
  shows "fst (assetNewID s i p) \<noteq> []" "TrimSpace (fst (assetNewID s i p)) = fst (assetNewID s i p)"
  using assms TrimSpace_NewID NewID_nonempty by (auto simp: assetNewID_def)

definition ingestedAsset :: "asset \<Rightarrow> pipelineContext \<Rightarrow> asset" where
  "ingestedAsset a p =
     (normalizeAsset a)\<lparr>asset_ID := fst (assetNewID ''asset'' (TrimSpace (asset_ID a)) p)\<rparr>"

lemma ingestAssetLocked_eq:
  "ingestAssetLocked a p =
     (let b = ingestedAsset a p; p1 = snd (assetNewID ''asset'' (TrimSpace (asset_ID a)) p)
      in placeObservation (assetKeyOf a)
           (withDefaults (b\<lparr>asset_Provenance := mergeAssetProvenance [] [assetProvenanceFromAsset b]\<rparr>))
           (\<lambda>e. mergeAssetIntoCanonical e b ObservationKindDiscovery)
           (assetObservationFromAsset b) p1)"
proof -
  let ?alloc = "if asset_ID (normalizeAsset a) = []
       then (let (i, p1) = NewID ''asset'' p in ((normalizeAsset a)\<lparr>asset_ID := i\<rparr>, p1))
       else (normalizeAsset a, p)"
  let ?b = "ingestedAsset a p"
  have alloc: "?alloc = (?b, snd (assetNewID ''asset'' (TrimSpace (asset_ID a)) p))"
  proof (cases "TrimSpace (asset_ID a) = []")
    case False
    have "(normalizeAsset a)\<lparr>asset_ID := asset_ID (normalizeAsset a)\<rparr> = normalizeAsset a" by simp
    with False show ?thesis by (simp add: ingestedAsset_def assetNewID_def)
  qed (simp add: ingestedAsset_def assetNewID_def split_def Let_def)
  have key: "canonicalAssetKey (asset_Type ?b) (asset_Identifier ?b) = assetKeyOf a"
    using normalizeAsset_fields(3) [of a] by (simp add: ingestedAsset_def assetKeyOf_def)
  have noclone: "a\<lparr>asset_Provenance := pv, asset_DomainDetails := asset_DomainDetails a,
      asset_IPDetails := asset_IPDetails a, asset_EnrichmentData := asset_EnrichmentData a,
      asset_EnrichmentStates := asset_EnrichmentStates a\<rparr> = a\<lparr>asset_Provenance := pv\<rparr>" for a :: asset and pv
    by simp
  show ?thesis
    unfolding ingestAssetLocked_def placeObservation_def Let_def alloc [unfolded Let_def] split_conv key clone_id noclone
    by (rule refl)
qed

lemma not_space_asset: "\<forall>c \<in> set ''asset''. \<not> is_space c" "\<forall>c \<in> set ''obs''. \<not> is_space c"
  by (simp_all add: is_space_def)

lemma ingestedAsset_good:
  assumes "cleanAsset a"
  shows "goodAsset (ingestedAsset a p)" and "assetKeyOf (ingestedAsset a p) = assetKeyOf a"
  using assetNewID_good [OF not_space_asset(1), of "TrimSpace (asset_ID a)" p] assms
    normalizeAsset_fields(3) [of a] normalizeAsset_clean [of a]
  by (simp_all add: ingestedAsset_def goodAsset_def cleanAsset_def assetKeyOf_def)

lemma ingestAssetLocked_inv:
  assumes "asset_inv X p" and bars: "cleanAsset a"
  defines "q \<equiv> snd (ingestAssetLocked a p)"
  shows "asset_inv X q \<and> survive p q \<and> assetKeys q = insert (assetKeyOf a) (assetKeys p)
     \<and> (assetKeyOf a \<notin> assetKeyOf ` set (Assets p) \<longrightarrow> TrimSpace (asset_ID a) \<noteq> [] \<longrightarrow>
          (\<exists>b \<in> set (Assets q). assetKeyOf b = assetKeyOf a \<and> asset_ID b = TrimSpace (asset_ID a)))"
proof -
  let ?b = "ingestedAsset a p"
  let ?p1 = "snd (assetNewID ''asset'' (TrimSpace (asset_ID a)) p)"
  let ?c = "withDefaults (?b\<lparr>asset_Provenance := mergeAssetProvenance [] [assetProvenanceFromAsset ?b]\<rparr>)"
  note b = ingestedAsset_good [OF bars, of p]
  have bT: "cleanAsset ?b" using b(1) by simp
  have c: "assetKeyOf ?c = assetKeyOf a" "goodAsset ?c" "asset_ID ?c = asset_ID ?b"
    using b by (simp_all add: goodAsset_def cleanAsset_def assetKeyOf_def)
  have m: "goodAsset (mergeAssetIntoCanonical e ?b ObservationKindDiscovery)
      \<and> assetKeyOf (mergeAssetIntoCanonical e ?b ObservationKindDiscovery) = assetKeyOf a
      \<and> asset_ID (mergeAssetIntoCanonical e ?b ObservationKindDiscovery) = asset_ID e"
    if "goodAsset e" "assetKeyOf e = assetKeyOf a" for e
    using mergeAsset_good [OF that(1) bT] mergeAsset_key [of e ?b] that b(2) bT
    by (simp add: mergeAsset_fields(1) orElse_def) (simp add: goodAsset_def)
  have q: "q = snd (placeObservation (assetKeyOf a) ?c
      (\<lambda>e. mergeAssetIntoCanonical e ?b ObservationKindDiscovery) (assetObservationFromAsset ?b) ?p1)"
    by (simp add: q_def ingestAssetLocked_eq Let_def)
  have inv1: "asset_inv X ?p1" using assms(1) by (simp add: assetNewID_state)
  have ob: "obs_AssetID (assetObservationFromAsset ?b) = [] \<or>
      obs_AssetID (assetObservationFromAsset ?b) = asset_ID ?c"
    by (simp add: assetObservationFromAsset_def)
  have main: "asset_inv X q \<and> survive ?p1 q \<and> assetKeys q = insert (assetKeyOf a) (assetKeys ?p1)
      \<and> (assetIndexByKey ?p1 (assetKeyOf a) = None \<longrightarrow> ?c \<in> set (Assets q))"
    unfolding q by (rule placeObservation_inv [OF inv1 c(1,2) ob m])
  have "assetIndexByKey ?p1 (assetKeyOf a) = None" if "assetKeyOf a \<notin> assetKeyOf ` set (Assets p)"
    using that assms(1) is_index_None_iff unfolding asset_inv_def assetNewID_state by metis
  moreover have "asset_ID ?c = TrimSpace (asset_ID a)" if "TrimSpace (asset_ID a) \<noteq> []"
    unfolding c(3) using that by (simp add: ingestedAsset_def assetNewID_def)
  moreover have "assetKeys ?p1 = assetKeys p" by (simp add: assetKeys_def assetNewID_state)
  moreover have "survive p ?p1" by (rule assetNewID_state)
  moreover have "survive p q" using main survive_trans [of p ?p1 q] calculation by blast
  ultimately show ?thesis using main c(1) by (metis (no_types, lifting))
qed

text \<open>The observation side.\<close>

definition ingestedObs :: "assetObservation \<Rightarrow> pipelineContext \<Rightarrow> assetObservation" where
  "ingestedObs ob p =
     (normalizeAssetObservation ob)\<lparr>obs_ID := fst (assetNewID ''obs'' (TrimSpace (obs_ID ob)) p)\<rparr>"

definition obsKeyOf :: "assetObservation \<Rightarrow> string" where
  "obsKeyOf ob = canonicalAssetKey (obs_Type ob) (obs_Identifier ob)"

lemma obsKeyOf_ingestedObs [simp]: "obsKeyOf (ingestedObs ob p) = obsKeyOf ob"
  by (simp add: obsKeyOf_def ingestedObs_def normalizeAssetObservation_def Let_def
      canonicalAssetKey_def TrimSpace_ToLower)

text \<open>An identifier for the new canonical asset is only allocated when the key is new.\<close>

definition obsCanonical :: "assetObservation \<Rightarrow> pipelineContext \<Rightarrow> asset" where
  "obsCanonical o1 p1 =
     (let c1 = (assetFromObservation o1)\<lparr>asset_ID := fst (assetNewID ''asset'' (asset_ID (assetFromObservation o1)) p1)\<rparr>;
          c2 = (if obs_Kind o1 = ObservationKindDiscovery
                then c1\<lparr>asset_Provenance := mergeAssetProvenance [] [assetProvenanceFromObservation o1]\<rparr>
                else c1)
      in withDefaults c2)"

lemma ingestObservationLocked_eq:
  "ingestObservationLocked ob p =
     (let o1 = ingestedObs ob p; p1 = snd (assetNewID ''obs'' (TrimSpace (obs_ID ob)) p);
          p2 = (if assetIndexByKey p1 (obsKeyOf ob) = None
                then snd (assetNewID ''asset'' (asset_ID (assetFromObservation o1)) p1) else p1)
      in placeObservation (obsKeyOf ob) (obsCanonical o1 p1)
           (\<lambda>e. mergeAssetIntoCanonical e (assetFromObservation o1) (obs_Kind o1)) o1 p2)"
proof -
  let ?alloc = "if obs_ID (normalizeAssetObservation ob) = []
       then (let (i, p1) = NewID ''obs'' p in ((normalizeAssetObservation ob)\<lparr>obs_ID := i\<rparr>, p1))
       else (normalizeAssetObservation ob, p)"
  have alloc: "?alloc = (ingestedObs ob p, snd (assetNewID ''obs'' (TrimSpace (obs_ID ob)) p))"
  proof (cases "TrimSpace (obs_ID ob) = []")
    case False
    have "(normalizeAssetObservation ob)\<lparr>obs_ID := obs_ID (normalizeAssetObservation ob)\<rparr>
            = normalizeAssetObservation ob" by simp
    with False show ?thesis by (simp add: ingestedObs_def assetNewID_def)
  qed (simp add: ingestedObs_def assetNewID_def split_def Let_def)
  let ?o = "ingestedObs ob p"
  let ?p1 = "snd (assetNewID ''obs'' (TrimSpace (obs_ID ob)) p)"
  have key: "canonicalAssetKey (obs_Type ?o) (obs_Identifier ?o) = obsKeyOf ob"
    using obsKeyOf_ingestedObs [of ob p] by (simp add: obsKeyOf_def)
  have canon: "(if asset_ID c = [] then (let (i, p') = NewID ''asset'' q in (c\<lparr>asset_ID := i\<rparr>, p')) else (c, q))
      = (c\<lparr>asset_ID := fst (assetNewID ''asset'' (asset_ID c) q)\<rparr>, snd (assetNewID ''asset'' (asset_ID c) q))"
    for c q by (simp add: assetNewID_def split_def Let_def)
  have same: "assetIndexByKey (snd (assetNewID s i q)) = assetIndexByKey q" for s i q
    by (rule assetNewID_state)
  show ?thesis
  proof (cases "assetIndexByKey ?p1 (obsKeyOf ob)")
    case None
    then show ?thesis
      unfolding ingestObservationLocked_def placeObservation_def obsCanonical_def Let_def alloc [unfolded Let_def]
      by (simp only: split_conv key canon [unfolded Let_def] same option.case if_True simp_thms)
  next
    case (Some i)
    then show ?thesis
      unfolding ingestObservationLocked_def placeObservation_def obsCanonical_def Let_def alloc [unfolded Let_def]
      by (simp only: split_conv key same option.case if_False option.distinct not_Some_eq)
  qed
qed

lemma assetFromObservation_fields [simp]:
  "asset_ID (assetFromObservation ob) = TrimSpace (obs_AssetID ob)"
  "asset_Type (assetFromObservation ob) = obs_Type ob"
  "assetKeyOf (assetFromObservation ob) = obsKeyOf ob"
  "cleanAsset (assetFromObservation ob) = cleanObservation ob"
  by (simp_all add: assetFromObservation_def assetKeyOf_def obsKeyOf_def cleanAsset_def cleanObservation_def)

lemma ingestObservationLocked_inv:
  assumes "asset_inv X p" and bars: "cleanObservation ob"
  defines "q \<equiv> snd (ingestObservationLocked ob p)"
  shows "asset_inv X q \<and> survive p q \<and> assetKeys q = insert (obsKeyOf ob) (assetKeys p)"
proof -
  let ?o = "ingestedObs ob p"
  let ?p1 = "snd (assetNewID ''obs'' (TrimSpace (obs_ID ob)) p)"
  let ?p2 = "if assetIndexByKey ?p1 (obsKeyOf ob) = None
     then snd (assetNewID ''asset'' (asset_ID (assetFromObservation ?o)) ?p1) else ?p1"
  let ?c = "obsCanonical ?o ?p1"
  let ?m = "\<lambda>e. mergeAssetIntoCanonical e (assetFromObservation ?o) (obs_Kind ?o)"
  have oT: "cleanAsset (assetFromObservation ?o)"
    using bars normalizeAssetObservation_fields(4) [of ob] by (simp add: ingestedObs_def cleanObservation_def)
  have oA: "TrimSpace (obs_AssetID ?o) = obs_AssetID ?o" by (simp add: ingestedObs_def)
  note new = assetNewID_good [OF not_space_asset(1), of "obs_AssetID ?o" ?p1, OF oA]
  have c: "assetKeyOf ?c = obsKeyOf ob" "goodAsset ?c"
    "asset_ID ?c = fst (assetNewID ''asset'' (obs_AssetID ?o) ?p1)"
    using new oT oA assetFromObservation_fields(3) [of ?o]
    by (simp_all add: obsCanonical_def Let_def goodAsset_def cleanAsset_def assetKeyOf_def)
  have m: "goodAsset (?m e) \<and> assetKeyOf (?m e) = obsKeyOf ob \<and> asset_ID (?m e) = asset_ID e"
    if "goodAsset e" "assetKeyOf e = obsKeyOf ob" for e
    using mergeAsset_good [OF that(1) oT] mergeAsset_key [of e "assetFromObservation ?o"] that oT
      cleanAsset_type [OF oT]
    by (simp add: mergeAsset_fields(1) orElse_def) (simp add: goodAsset_def)
  have q: "q = snd (placeObservation (obsKeyOf ob) ?c ?m ?o ?p2)"
    by (simp add: q_def ingestObservationLocked_eq Let_def)
  have inv2: "asset_inv X ?p2" using assms(1) by (simp add: assetNewID_state(1))
  have s1: "survive p ?p1" by (rule assetNewID_state)
  have surv: "survive p ?p2" using s1 survive_trans [OF s1 assetNewID_state(2)] by simp
  have ob: "obs_AssetID ?o = [] \<or> obs_AssetID ?o = asset_ID ?c"
    unfolding c(3) by (simp add: assetNewID_def)
  have "asset_inv X q \<and> survive ?p2 q \<and> assetKeys q = insert (obsKeyOf ob) (assetKeys ?p2)
      \<and> (assetIndexByKey ?p2 (obsKeyOf ob) = None \<longrightarrow> ?c \<in> set (Assets q))"
    unfolding q by (rule placeObservation_inv [OF inv2 c(1,2) ob m])
  moreover have "assetKeys ?p2 = assetKeys p" by (simp add: assetKeys_def assetNewID_state)
  ultimately show ?thesis using survive_trans [OF surv, of q] by simp
qed

section \<open>Bringing the state into shape\<close>

text \<open>
  The contexts a run produces: an initialized one meets the invariant, one that is not yet
  initialized holds raw assets of a proper type.
\<close>

definition assets_ok :: "pipelineContext \<Rightarrow> bool" where
  "assets_ok p \<longleftrightarrow>
     (if assetStateInitialized p then asset_inv {} p else \<forall>a \<in> set (Assets p). cleanAsset a)"

lemma rebuild_same:
  assumes "distinct (map assetKeyOf (Assets p))"
    and "is_index obs_ID (Observations p) (observationIndexByID p)"
    and "is_index assetRelationKey (Relations p) (relationIndexByKey p)"
    and "\<forall>ob \<in> set (Observations p). obs_AssetID ob \<in> assetIDs p \<union> X"
    and "\<forall>a \<in> set (Assets p). goodAsset a"
  shows "asset_inv X (rebuildAssetIndexLocked p)"
  using assms is_index_indexBy [OF assms(1)]
  by (simp add: asset_inv_def rebuildAssetIndexLocked_def assetIDs_def)

lemma ingestAssets_flag: "assetStateInitialized (ingestAssets as p) = assetStateInitialized p"
proof (induction as arbitrary: p)
  case (Cons a as)
  have rec: "assetStateInitialized (snd (recordObservation i ob q)) = assetStateInitialized q" for i ob q
    by (simp add: recordObservation_def Let_def split: option.split)
  have "assetStateInitialized (snd (ingestAssetLocked a p)) = assetStateInitialized p"
    by (simp add: ingestAssetLocked_eq placeObservation_def rec addCanonical_def assetNewID_state
        Let_def split: option.split)
  with Cons show ?case by (simp add: ingestAssets_def)
qed (simp add: ingestAssets_def)

lemma ingestAssets_inv:
  assumes "asset_inv X p" and "\<forall>a \<in> set as. cleanAsset a"
  shows "asset_inv X (ingestAssets as p) \<and> survive p (ingestAssets as p)
     \<and> assetKeys (ingestAssets as p) = assetKeyOf ` set as \<union> assetKeys p"
  using assms
proof (induction as arbitrary: p)
  case Nil
  then show ?case by (simp add: ingestAssets_def)
next
  case (Cons a as)
  let ?q = "snd (ingestAssetLocked a p)"
  have a: "cleanAsset a" using Cons.prems by simp
  note step = ingestAssetLocked_inv [OF Cons.prems(1) a]
  have IH: "asset_inv X (ingestAssets as ?q) \<and> survive ?q (ingestAssets as ?q)
      \<and> assetKeys (ingestAssets as ?q) = assetKeyOf ` set as \<union> assetKeys ?q"
    using Cons.IH step Cons.prems(2) by simp
  have eq: "ingestAssets (a # as) p = ingestAssets as ?q" by (simp add: ingestAssets_def)
  show ?case unfolding eq using IH step survive_trans by auto
qed

text \<open>Pending assets have new keys, so each comes back under its own ID.\<close>

lemma ingestAssets_restore:
  assumes "asset_inv X p" and "\<forall>a \<in> set as. goodAsset a"
    and "distinct (map assetKeyOf as)" and "assetKeyOf ` set as \<inter> assetKeys p = {}"
  shows "\<forall>a \<in> set as. \<exists>b \<in> set (Assets (ingestAssets as p)).
           assetKeyOf b = assetKeyOf a \<and> asset_ID b = asset_ID a"
  using assms
proof (induction as arbitrary: p)
  case (Cons a as)
  let ?q = "snd (ingestAssetLocked a p)"
  have a: "cleanAsset a" "TrimSpace (asset_ID a) = asset_ID a" "asset_ID a \<noteq> []"
    using Cons.prems(2) by (auto simp: goodAsset_def)
  note step = ingestAssetLocked_inv [OF Cons.prems(1) a(1)]
  have eq: "ingestAssets (a # as) p = ingestAssets as ?q" by (simp add: ingestAssets_def)
  have IH: "\<forall>a \<in> set as. \<exists>b \<in> set (Assets (ingestAssets as ?q)).
           assetKeyOf b = assetKeyOf a \<and> asset_ID b = asset_ID a"
    by (rule Cons.IH) (use step Cons.prems in auto)
  have "assetKeyOf a \<notin> assetKeyOf ` set (Assets p)" using Cons.prems(4) by (auto simp: assetKeys_def)
  with step a obtain b where b: "b \<in> set (Assets ?q)" "assetKeyOf b = assetKeyOf a" "asset_ID b = asset_ID a"
    by auto
  have "survive ?q (ingestAssets as ?q)"
    using ingestAssets_inv [of X ?q as] step Cons.prems(2) by (simp add: goodAsset_def)
  with b have "\<exists>b \<in> set (Assets (ingestAssets as ?q)). assetKeyOf b = assetKeyOf a \<and> asset_ID b = asset_ID a"
    unfolding survive_def by metis
  with IH show ?case unfolding eq by simp
qed simp

lemma filter_partition_keys:
  "distinct (map f xs) \<Longrightarrow> f ` set (filter P xs) \<inter> f ` set (filter (\<lambda>x. \<not> P x) xs) = {}"
  by (auto simp: distinct_map inj_on_def)

lemma reconcile_inv:
  assumes inv: "asset_inv {} p"
  defines "q \<equiv> reconcilePendingRawAssetsLocked p"
  shows "asset_inv {} q \<and> survive p q \<and> assetKeys q = assetKeys p"
proof (cases "Assets p = []")
  case True
  with inv show ?thesis by (simp add: q_def reconcilePendingRawAssetsLocked_def)
next
  case False
  let ?pending = "filter (isPendingRaw p) (Assets p)"
  let ?canonical = "filter (\<lambda>a. \<not> isPendingRaw p a) (Assets p)"
  let ?p1 = "rebuildAssetIndexLocked (p\<lparr>Assets := ?canonical\<rparr>)"
  let ?X = "asset_ID ` set ?pending"
  have idx: "is_index assetKeyOf (Assets p) (assetIndexByKey p)"
    and good: "\<forall>a \<in> set (Assets p). goodAsset a"
    using inv by (auto simp: asset_inv_def)
  have dist: "distinct (map assetKeyOf (Assets p))" by (rule is_index_distinct [OF idx])
  have A1: "Assets ?p1 = ?canonical" by (simp add: rebuildAssetIndexLocked_def)
  have inv1: "asset_inv ?X ?p1"
  proof (rule rebuild_same)
    have sub: "assetIDs p \<subseteq> asset_ID ` set ?canonical \<union> ?X"
      by (auto simp: assetIDs_def)
    have "\<forall>ob \<in> set (Observations p). obs_AssetID ob \<in> assetIDs p"
      using inv by (simp add: asset_inv_def)
    with sub show "\<forall>ob \<in> set (Observations (p\<lparr>Assets := ?canonical\<rparr>)).
        obs_AssetID ob \<in> assetIDs (p\<lparr>Assets := ?canonical\<rparr>) \<union> ?X"
      unfolding assetIDs_def by simp blast
    show "distinct (map assetKeyOf (Assets (p\<lparr>Assets := ?canonical\<rparr>)))"
      using dist by (simp add: distinct_map_filter)
  qed (use inv good in \<open>simp_all add: asset_inv_def\<close>)
  have q: "q = ingestAssets ?pending ?p1"
  proof (cases "?pending = []")
    case True
    then show ?thesis
      using False by (simp add: q_def reconcilePendingRawAssetsLocked_def ingestAssets_def Let_def)
  next
    case False
    then show ?thesis
      using \<open>Assets p \<noteq> []\<close> by (simp add: q_def reconcilePendingRawAssetsLocked_def Let_def)
  qed
  have free: "\<forall>a \<in> set ?pending. cleanAsset a" and gp: "\<forall>a \<in> set ?pending. goodAsset a"
    using good by (auto simp: goodAsset_def)
  note run = ingestAssets_inv [OF inv1 free, folded q]
  have restored: "\<forall>a \<in> set ?pending. \<exists>b \<in> set (Assets q). assetKeyOf b = assetKeyOf a \<and> asset_ID b = asset_ID a"
    unfolding q
    by (rule ingestAssets_restore [OF inv1 gp])
      (use dist filter_partition_keys [OF dist] in \<open>simp_all add: distinct_map_filter assetKeys_def A1\<close>)
  have "survive p q"
    unfolding survive_def
  proof
    fix a assume a: "a \<in> set (Assets p)"
    show "\<exists>b \<in> set (Assets q). assetKeyOf b = assetKeyOf a \<and> asset_ID b = asset_ID a"
    proof (cases "isPendingRaw p a")
      case True
      with a restored show ?thesis by simp
    next
      case False
      with a have "a \<in> set (Assets ?p1)" by (simp add: A1)
      with run show ?thesis unfolding survive_def by blast
    qed
  qed
  moreover have "?X \<subseteq> assetIDs q \<union> {}"
    using restored unfolding assetIDs_def by (auto simp: image_iff) metis
  then have "asset_inv {} q" using run asset_inv_shrink by blast
  moreover have "assetKeys q = assetKeys p"
    using run by (auto simp: assetKeys_def A1)
  ultimately show ?thesis by blast
qed

lemma rebuild_id:
  assumes "asset_inv {} p"
  shows "asset_inv {} (rebuildAssetIndexLocked p)" and "Assets (rebuildAssetIndexLocked p) = Assets p"
proof -
  have "distinct (map assetKeyOf (Assets p))"
    using assms is_index_distinct by (auto simp: asset_inv_def)
  from rebuild_same [OF this, of "{}"] assms show "asset_inv {} (rebuildAssetIndexLocked p)"
    by (simp add: asset_inv_def)
qed (simp add: rebuildAssetIndexLocked_def)

lemma asset_inv_empty:
  "Assets q = [] \<Longrightarrow> Observations q = [] \<Longrightarrow> Relations q = [] \<Longrightarrow> assetIndexByKey q = Map.empty \<Longrightarrow>
   observationIndexByID q = Map.empty \<Longrightarrow> relationIndexByKey q = Map.empty \<Longrightarrow> asset_inv X q"
  by (simp add: asset_inv_def)

lemma reconcile_flag: "assetStateInitialized (reconcilePendingRawAssetsLocked p) = assetStateInitialized p"
  by (simp add: reconcilePendingRawAssetsLocked_def rebuildAssetIndexLocked_def ingestAssets_flag Let_def)

lemma ensure_inv:
  assumes "assets_ok p"
  defines "q \<equiv> ensureAssetStateLocked p"
  shows "asset_inv {} q" and "assetStateInitialized q" and "assetKeys q = assetKeys p"
    and "assetStateInitialized p \<Longrightarrow> survive p q"
proof -
  have "asset_inv {} q \<and> assetStateInitialized q \<and> assetKeys q = assetKeys p
      \<and> (assetStateInitialized p \<longrightarrow> survive p q)"
  proof (cases "assetStateInitialized p")
    case True
    with assms have inv: "asset_inv {} p" by (simp add: assets_ok_def)
    note r = reconcile_inv [OF rebuild_id(1) [OF inv]]
    have "q = reconcilePendingRawAssetsLocked (rebuildAssetIndexLocked p)"
      using True by (simp add: q_def ensureAssetStateLocked_def)
    moreover have "assetStateInitialized (rebuildAssetIndexLocked p)"
      using True by (simp add: rebuildAssetIndexLocked_def)
    ultimately show ?thesis
      using r True reconcile_flag rebuild_id(2) [OF inv]
      by (simp add: survive_def assetKeys_def)
  next
    case False
    let ?p1 = "p\<lparr>Assets := [], Observations := [], Relations := [], assetIndexByKey := Map.empty,
      observationIndexByID := Map.empty, relationIndexByKey := Map.empty\<rparr>"
    have inv1: "asset_inv {} ?p1" by (rule asset_inv_empty) simp_all
    have free: "\<forall>a \<in> set (Assets p). cleanAsset a" using assms(1) False by (simp add: assets_ok_def)
    have q: "q = (ingestAssets (Assets p) ?p1)\<lparr>assetStateInitialized := True\<rparr>"
      using False by (simp add: q_def ensureAssetStateLocked_def Let_def)
    have "asset_inv {} q = asset_inv {} (ingestAssets (Assets p) ?p1)"
      by (rule same_state(1)) (simp_all add: q)
    moreover have "assetKeys ?p1 = {}" by (simp add: assetKeys_def)
    moreover have "assetKeys q = assetKeys (ingestAssets (Assets p) ?p1)" by (simp add: q assetKeys_def)
    ultimately show ?thesis
      using ingestAssets_inv [OF inv1 free] False by (simp add: q assetKeys_def)
  qed
  then show "asset_inv {} q" "assetStateInitialized q" "assetKeys q = assetKeys p"
    "assetStateInitialized p \<Longrightarrow> survive p q" by auto
qed

section \<open>The exported operations\<close>

text \<open>The contract the three append operations share.\<close>

definition appended :: "string set \<Rightarrow> pipelineContext \<Rightarrow> pipelineContext \<Rightarrow> bool" where
  "appended new p q \<longleftrightarrow> asset_inv {} q \<and> assetStateInitialized q
     \<and> assetKeys q = new \<union> assetKeys p \<and> (assetStateInitialized p \<longrightarrow> survive p q)"

lemma emit_same:
  "asset_inv X (emitMutationEvents a ob r p) = asset_inv X p"
  "Assets (emitMutationEvents a ob r p) = Assets p"
  "assetStateInitialized (emitMutationEvents a ob r p) = assetStateInitialized p"
  "assetKeys (emitMutationEvents a ob r p) = assetKeys p"
  "survive p' (emitMutationEvents a ob r p) = survive p' p"
  using same_state(1) [of "emitMutationEvents a ob r p" p] by (auto simp: emitMutationEvents_def assetKeys_def survive_def)

lemma ingest_flags:
  "assetStateInitialized (snd (ingestAssetLocked a p)) = assetStateInitialized p"
  "assetStateInitialized (snd (ingestObservationLocked ob p)) = assetStateInitialized p"
proof -
  have rec: "assetStateInitialized (snd (recordObservation i ob q)) = assetStateInitialized q" for i ob q
    by (simp add: recordObservation_def Let_def split: option.split)
  show "assetStateInitialized (snd (ingestAssetLocked a p)) = assetStateInitialized p"
    "assetStateInitialized (snd (ingestObservationLocked ob p)) = assetStateInitialized p"
    by (simp_all add: ingestAssetLocked_eq ingestObservationLocked_eq placeObservation_def rec
        addCanonical_def assetNewID_state Let_def split: option.split)
qed

lemma ingestAll_inv:
  assumes step: "\<And>x p. asset_inv {} p \<Longrightarrow> ok x \<Longrightarrow> asset_inv {} (snd (ingest x p)) \<and>
        survive p (snd (ingest x p)) \<and> assetKeys (snd (ingest x p)) = insert (key x) (assetKeys p)"
    and flag: "\<And>x p. assetStateInitialized (snd (ingest x p)) = assetStateInitialized p"
    and "asset_inv {} p" and "\<forall>x \<in> set xs. ok x" and "ingestAll ingest xs p = (as, obs, q)"
  shows "asset_inv {} q \<and> survive p q \<and> assetKeys q = key ` set xs \<union> assetKeys p
     \<and> assetStateInitialized q = assetStateInitialized p"
  using assms(3-5)
proof (induction xs arbitrary: p as obs)
  case (Cons x xs)
  obtain a ob added p1 where x: "ingest x p = ((a, ob, added), p1)" by (metis surj_pair)
  obtain as' obs' q' where xs': "ingestAll ingest xs p1 = (as', obs', q')" by (metis prod_cases3)
  with Cons.prems(3) x have xs: "ingestAll ingest xs p1 = (as', obs', q)" by simp
  have s: "asset_inv {} p1 \<and> survive p p1 \<and> assetKeys p1 = insert (key x) (assetKeys p)"
    and f: "assetStateInitialized p1 = assetStateInitialized p"
    using step [OF Cons.prems(1), of x] flag [of x p] Cons.prems(2) x by auto
  have "asset_inv {} q \<and> survive p1 q \<and> assetKeys q = key ` set xs \<union> assetKeys p1
     \<and> assetStateInitialized q = assetStateInitialized p1"
    by (rule Cons.IH [OF _ _ xs]) (use s Cons.prems(2) in auto)
  with s f survive_trans [of p p1 q] show ?case by simp
qed simp

lemma AppendAssets_spec:
  assumes "assets_ok p" and "\<forall>a \<in> set as. cleanAsset a" and "as \<noteq> []"
  shows "appended (assetKeyOf ` set as) p (AppendAssets as p)"
proof -
  obtain es os q where run: "ingestAll ingestAssetLocked as (ensureAssetStateLocked p) = (es, os, q)"
    by (metis prod_cases3)
  note e = ensure_inv [OF assms(1)]
  have "asset_inv {} q \<and> survive (ensureAssetStateLocked p) q
      \<and> assetKeys q = assetKeyOf ` set as \<union> assetKeys (ensureAssetStateLocked p)
      \<and> assetStateInitialized q = assetStateInitialized (ensureAssetStateLocked p)"
    by (rule ingestAll_inv [OF _ _ e(1) assms(2) run])
      (use ingestAssetLocked_inv ingest_flags in auto)
  moreover have "AppendAssets as p = emitMutationEvents es os [] q"
    using assms(3) by (simp add: AppendAssets_def run)
  ultimately show ?thesis
    using e survive_trans [of p "ensureAssetStateLocked p" q]
    by (simp add: appended_def emit_same)
qed

lemma AppendAssetObservations_spec:
  assumes "assets_ok p" and "\<forall>ob \<in> set obs. cleanObservation ob" and "obs \<noteq> []"
  shows "appended (obsKeyOf ` set obs) p (AppendAssetObservations obs p)"
proof -
  obtain es os q where run: "ingestAll ingestObservationLocked obs (ensureAssetStateLocked p) = (es, os, q)"
    by (metis prod_cases3)
  note e = ensure_inv [OF assms(1)]
  have "asset_inv {} q \<and> survive (ensureAssetStateLocked p) q
      \<and> assetKeys q = obsKeyOf ` set obs \<union> assetKeys (ensureAssetStateLocked p)
      \<and> assetStateInitialized q = assetStateInitialized (ensureAssetStateLocked p)"
    by (rule ingestAll_inv [OF _ _ e(1) assms(2) run])
      (use ingestObservationLocked_inv ingest_flags in auto)
  moreover have "AppendAssetObservations obs p = emitMutationEvents es os [] q"
    using assms(3) by (simp add: AppendAssetObservations_def run)
  ultimately show ?thesis
    using e survive_trans [of p "ensureAssetStateLocked p" q]
    by (simp add: appended_def emit_same)
qed

text \<open>Relations leave assets and observations alone.\<close>

lemma addAssetRelationLocked_inv:
  assumes "asset_inv X p"
  shows "asset_inv X (snd (addAssetRelationLocked r p))"
    and "Assets (snd (addAssetRelationLocked r p)) = Assets p"
    and "assetStateInitialized (snd (addAssetRelationLocked r p)) = assetStateInitialized p"
proof -
  define r1 where "r1 = normalizeAssetRelation r"
  define p1 where "p1 = snd (assetNewID ''rel'' (rel_ID r1) p)"
  define r2 where "r2 = r1\<lparr>rel_ID := fst (assetNewID ''rel'' (rel_ID r1) p)\<rparr>"
  define r3 where "r3 = resolveRelation p1 r2"
  have alloc: "(if rel_ID r1 = [] then (let (i, p1) = NewID ''rel'' p in (r1\<lparr>rel_ID := i\<rparr>, p1)) else (r1, p))
      = (r2, p1)"
  proof (cases "rel_ID r1 = []")
    case False
    have "r1\<lparr>rel_ID := rel_ID r1\<rparr> = r1" by simp
    with False show ?thesis by (simp add: r2_def p1_def assetNewID_def)
  qed (simp add: r2_def p1_def assetNewID_def split_def Let_def)
  have eq: "addAssetRelationLocked r p = (case relationIndexByKey p1 (assetRelationKey r3) of
       Some _ \<Rightarrow> (None, p1)
     | None \<Rightarrow> (Some r3, p1\<lparr>Relations := Relations p1 @ [r3],
         relationIndexByKey := (relationIndexByKey p1)(assetRelationKey r3 \<mapsto> length (Relations p1))\<rparr>))"
    unfolding addAssetRelationLocked_def Let_def
    by (simp only: r1_def [symmetric] alloc [unfolded Let_def] split_conv r3_def)
  have inv1: "asset_inv X p1" using assms by (simp add: p1_def assetNewID_state)
  show "Assets (snd (addAssetRelationLocked r p)) = Assets p"
    and "assetStateInitialized (snd (addAssetRelationLocked r p)) = assetStateInitialized p"
    by (simp_all add: eq p1_def assetNewID_state split: option.split)
  show "asset_inv X (snd (addAssetRelationLocked r p))"
  proof (cases "relationIndexByKey p1 (assetRelationKey r3)")
    case None
    have idx: "is_index assetRelationKey (Relations p1) (relationIndexByKey p1)"
      using inv1 by (simp add: asset_inv_def)
    with None have "assetRelationKey r3 \<notin> assetRelationKey ` set (Relations p1)"
      using is_index_None_iff by metis
    from is_index_snoc [OF idx this] None inv1 show ?thesis
      by (simp add: eq asset_inv_def assetIDs_def del: fun_upd_apply)
  next
    case (Some i)
    with inv1 show ?thesis by (simp add: eq)
  qed
qed

lemma addRelations_inv:
  assumes "asset_inv {} p" and "addRelations rs p = (es, q)"
  shows "asset_inv {} q \<and> Assets q = Assets p \<and> assetStateInitialized q = assetStateInitialized p"
  using assms
proof (induction rs arbitrary: p es)
  case (Cons r rs)
  obtain added p1 where r: "addAssetRelationLocked r p = (added, p1)" by fastforce
  obtain es' q' where rs': "addRelations rs p1 = (es', q')" by fastforce
  with Cons.prems(2) r have rs: "addRelations rs p1 = (es', q)" by simp
  from addAssetRelationLocked_inv [OF Cons.prems(1), of r] r
  have "asset_inv {} p1" "Assets p1 = Assets p" "assetStateInitialized p1 = assetStateInitialized p" by auto
  with Cons.IH [OF _ rs] show ?case by simp
qed simp

lemma AppendAssetRelations_spec:
  assumes "assets_ok p" and "rs \<noteq> []"
  shows "appended {} p (AppendAssetRelations rs p)"
proof -
  obtain es q where run: "addRelations rs (ensureAssetStateLocked p) = (es, q)" by fastforce
  note e = ensure_inv [OF assms(1)]
  note a = addRelations_inv [OF e(1) run]
  have "AppendAssetRelations rs p = emitMutationEvents [] [] es q"
    using assms(2) by (simp add: AppendAssetRelations_def run)
  moreover have "assetKeys q = assetKeys (ensureAssetStateLocked p)"
    and "survive p (ensureAssetStateLocked p) \<Longrightarrow> survive p q"
    using a by (simp_all add: assetKeys_def survive_def)
  ultimately show ?thesis using a e by (simp add: appended_def emit_same)
qed

lemma appended_ok: "appended new p q \<Longrightarrow> assets_ok q"
  by (simp add: appended_def assets_ok_def)

text \<open>Under the invariant no two canonical assets share a key, nor two observations an ID.\<close>

lemma asset_inv_distinct:
  assumes "asset_inv X p"
  shows "distinct (map assetKeyOf (Assets p))" and "distinct (map obs_ID (Observations p))"
    and "distinct (map assetRelationKey (Relations p))"
  using assms is_index_distinct by (auto simp: asset_inv_def)

end
