(* ===== verification/Context_Hooks.thy ===== *)
theory Context_Hooks
  imports Frontier_Invariant Asset_Invariant
begin

text \<open>
  \<open>pipeline_context_hooks.go\<close>, \<open>snapshot.go\<close>, \<open>judge_evaluations.go\<close>, \<open>variant_cache.go\<close> and
  \<open>ai_search_cache.go\<close>: events, the promotion threshold, scheduler snapshots for checkpoints, the
  read model, recorded judge evaluations and the two caches of what already ran.
\<close>

section \<open>Listener, events and threshold\<close>

definition SetMutationListener :: "bool \<Rightarrow> pipelineContext \<Rightarrow> pipelineContext" where
  "SetMutationListener listener p = p\<lparr>mutationListener := listener\<rparr>"

definition EmitExecutionEvent :: "executionEvent \<Rightarrow> pipelineContext \<Rightarrow> pipelineContext" where
  "EmitExecutionEvent event0 p =
     (let event = event0\<lparr>event_Kind := TrimSpace (event_Kind event0),
                         event_Message := TrimSpace (event_Message event0)\<rparr>
      in if event_Kind event = [] \<or> event_Message event = [] then p
         else if mutationListener p then p\<lparr>mutationLog := mutationLog p @ [OnExecutionEvent event]\<rparr>
         else p)"

definition SetCandidatePromotionConfidenceThreshold :: "float64 \<Rightarrow> pipelineContext \<Rightarrow> pipelineContext" where
  "SetCandidatePromotionConfidenceThreshold threshold p =
     p\<lparr>candidatePromotionThreshold :=
         (if threshold < 0 then 0 else if threshold > 1 then 1 else threshold),
       candidatePromotionPolicySet := True\<rparr>"

definition defaultCandidatePromotionConfidenceThreshold :: float64 where
  "defaultCandidatePromotionConfidenceThreshold = 1 / 2"

definition CandidatePromotionConfidenceThreshold :: "pipelineContext \<Rightarrow> float64" where
  "CandidatePromotionConfidenceThreshold p =
     (if \<not> candidatePromotionPolicySet p then defaultCandidatePromotionConfidenceThreshold
      else candidatePromotionThreshold p)"

section \<open>Scheduler snapshots\<close>

definition SnapshotSchedulerState :: "pipelineContext \<Rightarrow> schedulerState" where
  "SnapshotSchedulerState p =
     \<lparr>ss_CollectionSeeds = collectionSeeds p, ss_PendingSeeds = pendingSeeds p,
      ss_CollectionDepth = collectionDepth p, ss_MaxCollectionDepth = maxCollectionDepth p,
      ss_ExtraCollectionWaveReserved = extraCollectionWaveReserved p,
      ss_ExtraCollectionWaveInProgress = extraCollectionWaveInProgress p,
      ss_AISearchExecutedRoots = AISearchExecutedRoots p\<rparr>"

definition RestoreSchedulerState :: "schedulerState \<Rightarrow> pipelineContext \<Rightarrow> pipelineContext" where
  "RestoreSchedulerState state p =
     p\<lparr>collectionSeeds := ss_CollectionSeeds state, pendingSeeds := ss_PendingSeeds state,
       collectionDepth := ss_CollectionDepth state, maxCollectionDepth := ss_MaxCollectionDepth state,
       extraCollectionWaveReserved := ss_ExtraCollectionWaveReserved state,
       extraCollectionWaveInProgress := ss_ExtraCollectionWaveInProgress state,
       AISearchExecutedRoots := ss_AISearchExecutedRoots state,
       knownSeedKeys := set (map seedKey (Seeds p)),
       candidateSeeds := Map.empty\<rparr>"

section \<open>The read model\<close>

definition cloneSeeds :: "seed list \<Rightarrow> seed list" where
  "cloneSeeds values =
     (if values = [] then []
      else map (\<lambda>v. v\<lparr>seed_Domains := [] @ seed_Domains v, seed_Evidence := [] @ seed_Evidence v,
                      seed_ASN := [] @ seed_ASN v, seed_CIDR := [] @ seed_CIDR v,
                      seed_Tags := [] @ seed_Tags v\<rparr>) values)"

definition cloneObservations :: "assetObservation list \<Rightarrow> assetObservation list" where
  "cloneObservations values =
     (if values = [] then []
      else map (\<lambda>v. v\<lparr>obs_DomainDetails := cloneDomainDetails (obs_DomainDetails v),
                      obs_IPDetails := cloneIPDetails (obs_IPDetails v),
                      obs_EnrichmentData := cloneEnrichmentData (obs_EnrichmentData v),
                      obs_EnrichmentStates := cloneEnrichmentStates (obs_EnrichmentStates v)\<rparr>) values)"

definition cloneJudgeEvaluations :: "judgeEvaluation list \<Rightarrow> judgeEvaluation list" where
  "cloneJudgeEvaluations values =
     (if values = [] then []
      else map (\<lambda>v. v\<lparr>eval_SeedDomains := [] @ eval_SeedDomains v,
                      eval_Outcomes := map (\<lambda>o'. o'\<lparr>out_Support := [] @ out_Support o'\<rparr>) (eval_Outcomes v)\<rparr>)
             values)"

definition SnapshotReadModel :: "pipelineContext \<Rightarrow> pipelineContext" where
  "SnapshotReadModel p = (newContext (nodeClock p) (cloneSeeds (Seeds p)))\<lparr>
     Enumerations := [] @ Enumerations p,
     Assets := map cloneAsset (Assets p),
     Observations := cloneObservations (Observations p),
     Relations := [] @ Relations p,
     JudgeEvaluations := cloneJudgeEvaluations (JudgeEvaluations p),
     DNSVariantSweepLabels := [] @ DNSVariantSweepLabels p,
     AISearchExecutedRoots := [] @ AISearchExecutedRoots p,
     nodeIDCounter := nodeIDCounter p\<rparr>"

section \<open>Judge evaluations\<close>

definition normalizeOutcome :: "judgeCandidateOutcome \<Rightarrow> judgeCandidateOutcome" where
  "normalizeOutcome o0 = o0\<lparr>
     out_Root := TrimSpace (ToLower (out_Root o0)),
     out_Kind := TrimSpace (ToLower (out_Kind o0)),
     out_Reason := TrimSpace (out_Reason o0),
     out_Support := uniqueJudgeSupport (out_Support o0)\<rparr>"

definition RecordJudgeEvaluation :: "judgeEvaluation \<Rightarrow> pipelineContext \<Rightarrow> pipelineContext" where
  "RecordJudgeEvaluation e0 p =
     (if length (eval_Outcomes e0) = 0 then p
      else (let outcomes = filter (\<lambda>x. out_Root x \<noteq> []) (map normalizeOutcome (eval_Outcomes e0));
                e = \<lparr>eval_Collector = TrimSpace (ToLower (eval_Collector e0)),
                     eval_SeedID = TrimSpace (eval_SeedID e0),
                     eval_SeedLabel = TrimSpace (eval_SeedLabel e0),
                     eval_SeedDomains = uniqueNormalizedStrings (eval_SeedDomains e0),
                     eval_Scenario = TrimSpace (eval_Scenario e0),
                     eval_Outcomes = outcomes\<rparr>
            in if length outcomes = 0 then p
               else (let p1 = p\<lparr>JudgeEvaluations := JudgeEvaluations p @ [e]\<rparr>
                     in if mutationListener p1
                        then p1\<lparr>mutationLog := mutationLog p1 @ [OnJudgeEvaluationRecorded e]\<rparr>
                        else p1)))"

section \<open>What already ran\<close>

definition normalizeDNSVariantSweepLabel :: "string \<Rightarrow> string" where
  "normalizeDNSVariantSweepLabel label = ToLower (TrimSpace label)"

definition HasDNSVariantSweepLabel :: "string \<Rightarrow> pipelineContext \<Rightarrow> bool" where
  "HasDNSVariantSweepLabel label0 p =
     (let label = normalizeDNSVariantSweepLabel label0
      in if label = [] then False else list_ex (\<lambda>existing. existing = label) (DNSVariantSweepLabels p))"

definition MarkDNSVariantSweepLabel :: "string \<Rightarrow> pipelineContext \<Rightarrow> pipelineContext" where
  "MarkDNSVariantSweepLabel label0 p =
     (let label = normalizeDNSVariantSweepLabel label0
      in if label = [] then p
         else if list_ex (\<lambda>existing. existing = label) (DNSVariantSweepLabels p) then p
         else p\<lparr>DNSVariantSweepLabels := DNSVariantSweepLabels p @ [label]\<rparr>)"

definition normalizeAISearchExecutedRoot :: "string \<Rightarrow> string" where
  "normalizeAISearchExecutedRoot root0 = ToLower (TrimSpace root0)"

definition HasAISearchExecutedRoot :: "string \<Rightarrow> pipelineContext \<Rightarrow> bool" where
  "HasAISearchExecutedRoot root0 p =
     (let r = normalizeAISearchExecutedRoot root0
      in if r = [] then False else list_ex (\<lambda>existing. existing = r) (AISearchExecutedRoots p))"

definition MarkAISearchExecutedRoot :: "string \<Rightarrow> pipelineContext \<Rightarrow> pipelineContext" where
  "MarkAISearchExecutedRoot root0 p =
     (let r = normalizeAISearchExecutedRoot root0
      in if r = [] then p
         else if list_ex (\<lambda>existing. existing = r) (AISearchExecutedRoots p) then p
         else p\<lparr>AISearchExecutedRoots := AISearchExecutedRoots p @ [r]\<rparr>)"

section \<open>A cache of marks\<close>

text \<open>
  The interface both caches offer: a mark is found exactly when it was made before, up to case
  and surrounding blanks; marking twice is marking once.
\<close>

locale mark_cache =
  fixes has :: "string \<Rightarrow> 's \<Rightarrow> bool"
    and mark :: "string \<Rightarrow> 's \<Rightarrow> 's"
  assumes has_mark: "has x (mark y s) \<longleftrightarrow> has x s \<or> (norm_str x = norm_str y \<and> norm_str x \<noteq> [])"
    and mark_known: "has x s \<Longrightarrow> mark x s = s"
    and has_norm: "norm_str x = norm_str y \<Longrightarrow> has x s = has y s"
    and mark_blank: "norm_str x = [] \<Longrightarrow> mark x s = s"
begin

lemma mark_idem: "mark x (mark x s) = mark x s"
  by (cases "norm_str x = []") (simp_all add: mark_blank mark_known has_mark)

lemma mark_stays: "has x s \<Longrightarrow> has x (mark y s)"
  by (simp add: has_mark)

lemma has_fold_mark: "has x (fold mark ys s) \<longleftrightarrow> has x s \<or> (norm_str x \<noteq> [] \<and> norm_str x \<in> norm_str ` set ys)"
  by (induction ys arbitrary: s) (auto simp: has_mark)

end

interpretation variant_cache: mark_cache HasDNSVariantSweepLabel MarkDNSVariantSweepLabel
  by unfold_locales
    (auto simp: HasDNSVariantSweepLabel_def MarkDNSVariantSweepLabel_def
      normalizeDNSVariantSweepLabel_def list_ex_iff Let_def simp flip: norm_str_def)

interpretation ai_search_cache: mark_cache HasAISearchExecutedRoot MarkAISearchExecutedRoot
  by unfold_locales
    (auto simp: HasAISearchExecutedRoot_def MarkAISearchExecutedRoot_def
      normalizeAISearchExecutedRoot_def list_ex_iff Let_def simp flip: norm_str_def)

section \<open>Lemmas\<close>

lemma threshold_bounds:
  "0 \<le> CandidatePromotionConfidenceThreshold (SetCandidatePromotionConfidenceThreshold t p)
   \<and> CandidatePromotionConfidenceThreshold (SetCandidatePromotionConfidenceThreshold t p) \<le> 1"
  by (simp add: CandidatePromotionConfidenceThreshold_def SetCandidatePromotionConfidenceThreshold_def)

lemma clones_id [simp]:
  "cloneSeeds ss = ss" "cloneObservations obs = obs" "cloneJudgeEvaluations es = es"
  by (simp_all add: cloneSeeds_def cloneObservations_def cloneJudgeEvaluations_def)

text \<open>A resumed scheduler is the one that was saved, but for the candidates, which are forgotten.\<close>

lemma restore_snapshot:
  assumes "sched_inv done p" and "Seeds q = Seeds p"
  shows "sched_inv done (RestoreSchedulerState (SnapshotSchedulerState p) q)"
  using assms unfolding sched_inv_def
  by (clarsimp simp: RestoreSchedulerState_def SnapshotSchedulerState_def slices_ok_def
      candidates_ok_def budget_ok_def keysOf_def)

lemma snapshot_restore:
  "SnapshotSchedulerState (RestoreSchedulerState s q) = s"
  by (simp add: RestoreSchedulerState_def SnapshotSchedulerState_def)

text \<open>Frontier and asset table are separate parts of the context.\<close>

definition same_frontier :: "pipelineContext \<Rightarrow> pipelineContext \<Rightarrow> bool" where
  "same_frontier p q \<longleftrightarrow> Seeds q = Seeds p \<and> collectionSeeds q = collectionSeeds p
     \<and> pendingSeeds q = pendingSeeds p \<and> knownSeedKeys q = knownSeedKeys p
     \<and> candidateSeeds q = candidateSeeds p \<and> collectionDepth q = collectionDepth p
     \<and> maxCollectionDepth q = maxCollectionDepth p
     \<and> extraCollectionWaveReserved q = extraCollectionWaveReserved p
     \<and> extraCollectionWaveInProgress q = extraCollectionWaveInProgress p
     \<and> JudgeEvaluations q = JudgeEvaluations p"

lemma same_frontier_refl [simp]: "same_frontier p p"
  by (simp add: same_frontier_def)

lemma same_frontier_trans: "same_frontier p q \<Longrightarrow> same_frontier q r \<Longrightarrow> same_frontier p r"
  by (simp add: same_frontier_def)

lemma same_frontier_inv: "same_frontier p q \<Longrightarrow> sched_inv done q = sched_inv done p"
  by (simp add: same_frontier_def sched_inv_def slices_ok_def candidates_ok_def budget_ok_def)

lemma same_frontier_grows: "same_frontier p q \<Longrightarrow> grows p q"
  by (simp add: same_frontier_def grows_def)

definition same_assets :: "pipelineContext \<Rightarrow> pipelineContext \<Rightarrow> bool" where
  "same_assets p q \<longleftrightarrow> Assets q = Assets p \<and> Observations q = Observations p \<and> Relations q = Relations p
     \<and> assetIndexByKey q = assetIndexByKey p \<and> observationIndexByID q = observationIndexByID p
     \<and> relationIndexByKey q = relationIndexByKey p \<and> assetStateInitialized q = assetStateInitialized p
     \<and> JudgeEvaluations q = JudgeEvaluations p"

lemma same_assets_refl [simp]: "same_assets p p"
  by (simp add: same_assets_def)

lemma same_assets_trans: "same_assets p q \<Longrightarrow> same_assets q r \<Longrightarrow> same_assets p r"
  by (simp add: same_assets_def)

lemma same_assets_ok: "same_assets p q \<Longrightarrow> assets_ok q = assets_ok p"
  using same_state(1) [of q p] by (simp add: same_assets_def assets_ok_def)

lemma hooks_frame [go_frame]:
  "same_frontier p (EmitExecutionEvent e p)" "same_assets p (EmitExecutionEvent e p)"
  "same_frontier p (RecordJudgeEvaluation j p\<lparr>JudgeEvaluations := JudgeEvaluations p\<rparr>)"
  "same_assets p (RecordJudgeEvaluation j p\<lparr>JudgeEvaluations := JudgeEvaluations p\<rparr>)"
  "same_frontier p (MarkDNSVariantSweepLabel l p)" "same_assets p (MarkDNSVariantSweepLabel l p)"
  "same_frontier p (MarkAISearchExecutedRoot l p)" "same_assets p (MarkAISearchExecutedRoot l p)"
  by (simp_all add: EmitExecutionEvent_def RecordJudgeEvaluation_def MarkDNSVariantSweepLabel_def
      MarkAISearchExecutedRoot_def same_frontier_def same_assets_def Let_def)

lemma frontier_frame_assets [go_frame]:
  "same_assets p (snd (EnqueueSeed s p))" "same_assets p (snd (ReserveExtraCollectionWave p))"
  "same_assets p (snd (AdvanceSeedFrontier p))" "same_assets p (InitializeSeedFrontier d p)"
  by (simp_all add: EnqueueSeed_eq registerSeed_def mergeSeedAcrossSlicesLocked_def
      ReserveExtraCollectionWave_def AdvanceSeedFrontier_eq InitializeSeedFrontier_def split_def
      same_assets_def Let_def)

lemma promote_frame_assets [go_frame]:
  assumes "PromoteSeedCandidate h s ev p b = (r, p', b')"
  shows "same_assets p p'"
  using assms
  by (cases rule: PromoteSeedCandidate_cases)
    (auto simp: same_assets_def mergeSeedAcrossSlicesLocked_def materializeSeedCandidateLocked_def
      withCandidate_def Let_def)

section \<open>The invariant of the context\<close>

text \<open>The roots the judges were asked about become domains of seeds: they hold no comma, as the keys of
  seeds require.\<close>

definition commaFreeEvaluation :: "judgeEvaluation \<Rightarrow> bool" where
  "commaFreeEvaluation e \<longleftrightarrow> (\<forall>out \<in> set (eval_Outcomes e). CHR '','' \<notin> set (out_Root out))"

definition judges_ok :: "pipelineContext \<Rightarrow> bool" where
  "judges_ok p \<longleftrightarrow> (\<forall>e \<in> set (JudgeEvaluations p). commaFreeEvaluation e)"

definition context_ok :: "string set \<Rightarrow> pipelineContext \<Rightarrow> bool" where
  "context_ok done p \<longleftrightarrow> sched_inv done p \<and> assets_ok p \<and> judges_ok p"

lemma context_okD:
  "context_ok done p \<Longrightarrow> sched_inv done p" "context_ok done p \<Longrightarrow> assets_ok p" "context_ok done p \<Longrightarrow> judges_ok p"
  by (simp_all add: context_ok_def)

lemma same_judges:
  "same_frontier p q \<Longrightarrow> judges_ok q = judges_ok p" "same_assets p q \<Longrightarrow> judges_ok q = judges_ok p"
  by (simp_all add: same_frontier_def same_assets_def judges_ok_def)

lemma comma_norm:
  assumes "CHR '','' \<notin> set s" shows "CHR '','' \<notin> set (TrimSpace (ToLower s))"
proof
  assume "CHR '','' \<in> set (TrimSpace (ToLower s))"
  from set_TrimSpace [OF this] obtain c where c: "c \<in> set s" "lower_char c = CHR '',''" by (auto simp: ToLower_def)
  then have "c = CHR '',''" by (simp add: lower_char_comma)
  with c(1) assms show False by simp
qed

lemma judges_ok_RecordJudgeEvaluation:
  assumes "judges_ok p" and "commaFreeEvaluation e"
  shows "judges_ok (RecordJudgeEvaluation e p)"
  using assms comma_norm
  by (auto simp: RecordJudgeEvaluation_def judges_ok_def commaFreeEvaluation_def normalizeOutcome_def Let_def)

end
