(* ===== verification/Judges.thy ===== *)
theory Judges
  imports Discovery Context_Hooks
begin

text \<open>
  The judges: what \<open>internal/ownership/judge.go\<close> and \<open>internal/webhint/judge.go\<close> make of a model's
  decisions, how \<open>internal/tracing/lineage/judges.go\<close> records an evaluation, and how
  \<open>BuildJudgeSummary\<close> of \<open>lineage/build.go\<close> folds all recorded evaluations of a run into groups.
  The HTTP exchange with the model and JSON decoding are not modelled: the decoded decisions are
  an argument. The order in which Go iterates over the map of groups is the parameter
  \<open>mapOrder\<close>; it also covers that \<open>sort.Slice\<close> is not stable.
\<close>

section \<open>Requests and decisions\<close>

record ownershipEvidenceItem =
  item_Kind :: string
  item_Summary :: string

record ownershipCandidate =
  oc_Root :: string
  oc_Evidence :: "ownershipEvidenceItem list"

record ownershipRequest =
  or_Scenario :: string
  or_Seed :: seed
  or_Candidates :: "ownershipCandidate list"

record judgeDecision =
  jd_Root :: string
  jd_Collect :: bool
  jd_Kind :: string
  jd_Confidence :: float64
  jd_Reason :: string
  jd_Explicit :: bool

definition zeroDecision :: judgeDecision where
  "zeroDecision = \<lparr>jd_Root = [], jd_Collect = False, jd_Kind = [], jd_Confidence = 0,
     jd_Reason = [], jd_Explicit = False\<rparr>"

record linkSample =
  ls_Href :: string
  ls_Text :: string

record webHintCandidate =
  wh_Root :: string
  wh_Samples :: "linkSample list"

record llmDecision =
  llm_Root :: string
  llm_Collect :: bool
  llm_Confidence :: float64
  llm_Kind :: string
  llm_Reason :: string

definition zeroLLMDecision :: llmDecision where
  "zeroLLMDecision = \<lparr>llm_Root = [], llm_Collect = False, llm_Confidence = 0, llm_Kind = [], llm_Reason = []\<rparr>"

definition clampUnitFloat :: "float64 \<Rightarrow> float64" where
  "clampUnitFloat value = (if value < 0 then 0 else if value > 1 then 1 else value)"

definition IsConfidenceAtLeast :: "float64 \<Rightarrow> float64 \<Rightarrow> bool" where
  "IsConfidenceAtLeast confidence threshold = (confidence \<ge> threshold)"

definition DefaultHighConfidenceThreshold :: float64 where
  "DefaultHighConfidenceThreshold = 1 / 2"

text \<open>The double nearest to 0.2.\<close>

definition ManualReviewConfidenceThreshold :: float64 where
  "ManualReviewConfidenceThreshold = 3602879701896397 / 18014398509481984"

definition IsHighConfidence :: "float64 \<Rightarrow> bool" where
  "IsHighConfidence confidence = IsConfidenceAtLeast confidence DefaultHighConfidenceThreshold"

text \<open>The decoded decisions by registrable root: a later decision for a root replaces an earlier one.\<close>

fun decisionsByRoot :: "netLibrary \<Rightarrow> llmDecision list \<Rightarrow> (string \<rightharpoonup> llmDecision) \<Rightarrow> (string \<rightharpoonup> llmDecision)" where
  "decisionsByRoot net [] m = m"
| "decisionsByRoot net (d # rest) m =
     (let r = RegistrableDomain net (llm_Root d)
      in if r = [] then decisionsByRoot net rest m
         else decisionsByRoot net rest
                (m(r \<mapsto> d\<lparr>llm_Root := r, llm_Confidence := clampUnitFloat (llm_Confidence d)\<rparr>)))"

definition decideCandidate :: "string \<Rightarrow> (string \<rightharpoonup> llmDecision) \<Rightarrow> string \<Rightarrow> judgeDecision" where
  "decideCandidate defaultKind byRoot candidateRoot =
     (let d = (case byRoot candidateRoot of Some d \<Rightarrow> d | None \<Rightarrow> zeroLLMDecision);
          known = (byRoot candidateRoot \<noteq> None);
          kind = TrimSpace (ToLower (llm_Kind d))
      in \<lparr>jd_Root = candidateRoot,
          jd_Collect = (known \<and> llm_Collect d),
          jd_Kind = (if llm_Collect d \<and> kind = [] then defaultKind else kind),
          jd_Confidence = clampUnitFloat (llm_Confidence d),
          jd_Reason = TrimSpace (llm_Reason d),
          jd_Explicit = known\<rparr>)"

definition ownershipDecisions :: "netLibrary \<Rightarrow> ownershipRequest \<Rightarrow> llmDecision list \<Rightarrow> judgeDecision list" where
  "ownershipDecisions net request raw =
     (if length (or_Candidates request) = 0 then []
      else map (\<lambda>c. decideCandidate ''ownership_judged'' (decisionsByRoot net raw Map.empty) (oc_Root c))
             (or_Candidates request))"

definition webHintDecisions :: "netLibrary \<Rightarrow> webHintCandidate list \<Rightarrow> llmDecision list \<Rightarrow> judgeDecision list" where
  "webHintDecisions net candidates raw =
     map (\<lambda>c. decideCandidate ''llm_link'' (decisionsByRoot net raw Map.empty) (wh_Root c)) candidates"

section \<open>Recording an evaluation\<close>

definition uniqueJudgeSupportStrings :: "string list \<Rightarrow> string list" where
  "uniqueJudgeSupportStrings values =
     (if length values = 0 then []
      else uniqueBy ToLower {} (filter (\<lambda>v. v \<noteq> []) (map TrimSpace values)))"

definition ownershipJudgeSupport :: "ownershipCandidate \<Rightarrow> string list" where
  "ownershipJudgeSupport candidate =
     uniqueJudgeSupportStrings (filter (\<lambda>v. v \<noteq> [])
       (map (\<lambda>item. let summary = TrimSpace (item_Summary item)
                    in if summary = [] then ReplaceChar CHR ''_'' CHR '' '' (TrimSpace (item_Kind item))
                       else summary) (oc_Evidence candidate)))"

definition webHintJudgeSupport :: "webHintCandidate \<Rightarrow> string list" where
  "webHintJudgeSupport candidate =
     uniqueJudgeSupportStrings (concat
       (map (\<lambda>s. let href = TrimSpace (ls_Href s); text = TrimSpace (ls_Text s)
                 in if href \<noteq> [] \<and> text \<noteq> [] then [href @ '' ['' @ text @ '']'']
                    else if href \<noteq> [] then [href]
                    else if text \<noteq> [] then [text]
                    else []) (wh_Samples candidate)))"

fun firstDomain :: "string list \<Rightarrow> string option" where
  "firstDomain [] = None"
| "firstDomain (d # ds) =
     (if NormalizeDomainIdentifier d \<noteq> [] then Some (NormalizeDomainIdentifier d) else firstDomain ds)"

definition judgeSeedLabel :: "seed \<Rightarrow> string" where
  "judgeSeedLabel s =
     (if TrimSpace (seed_CompanyName s) \<noteq> [] then TrimSpace (seed_CompanyName s)
      else case firstDomain (seed_Domains s) of Some d \<Rightarrow> d | None \<Rightarrow> TrimSpace (seed_ID s))"

fun indexDecisions :: "netLibrary \<Rightarrow> judgeDecision list \<Rightarrow> (string \<rightharpoonup> judgeDecision) \<Rightarrow> (string \<rightharpoonup> judgeDecision)" where
  "indexDecisions net [] m = m"
| "indexDecisions net (d # rest) m =
     (let r = RegistrableDomain net (jd_Root d)
      in if r = [] then indexDecisions net rest m else indexDecisions net rest (m(r \<mapsto> d\<lparr>jd_Root := r\<rparr>)))"

text \<open>One outcome per registrable root of the candidates, in their order; no decision is the zero decision.\<close>

definition judgeOutcomes ::
  "netLibrary \<Rightarrow> ('c \<Rightarrow> string) \<Rightarrow> ('c \<Rightarrow> string list) \<Rightarrow> 'c list \<Rightarrow> judgeDecision list
     \<Rightarrow> judgeCandidateOutcome list" where
  "judgeOutcomes net rootOf support candidates decisions =
     map (\<lambda>c. let r = RegistrableDomain net (rootOf c);
                  d = (case indexDecisions net decisions Map.empty r of Some d \<Rightarrow> d | None \<Rightarrow> zeroDecision)
              in \<lparr>out_Root = r, out_Collect = jd_Collect d, out_Confidence = jd_Confidence d,
                  out_Kind = jd_Kind d, out_Reason = jd_Reason d, out_Explicit = jd_Explicit d,
                  out_Support = support c\<rparr>)
       (uniqueBy (\<lambda>c. RegistrableDomain net (rootOf c)) {}
          (filter (\<lambda>c. RegistrableDomain net (rootOf c) \<noteq> []) candidates))"

definition RecordOwnershipJudgeEvaluation ::
  "netLibrary \<Rightarrow> string \<Rightarrow> ownershipRequest \<Rightarrow> judgeDecision list \<Rightarrow> pipelineContext \<Rightarrow> pipelineContext" where
  "RecordOwnershipJudgeEvaluation net collector request decisions p =
     (if length (or_Candidates request) = 0 then p
      else RecordJudgeEvaluation
        \<lparr>eval_Collector = collector,
         eval_SeedID = TrimSpace (seed_ID (or_Seed request)),
         eval_SeedLabel = judgeSeedLabel (or_Seed request),
         eval_SeedDomains = seed_Domains (or_Seed request),
         eval_Scenario = TrimSpace (or_Scenario request),
         eval_Outcomes = judgeOutcomes net oc_Root ownershipJudgeSupport (or_Candidates request) decisions\<rparr> p)"

definition RecordWebHintJudgeEvaluation ::
  "netLibrary \<Rightarrow> string \<Rightarrow> seed \<Rightarrow> string \<Rightarrow> webHintCandidate list \<Rightarrow> judgeDecision list
     \<Rightarrow> pipelineContext \<Rightarrow> pipelineContext" where
  "RecordWebHintJudgeEvaluation net collector s baseDomain candidates decisions p =
     (if length candidates = 0 then p
      else RecordJudgeEvaluation
        \<lparr>eval_Collector = collector,
         eval_SeedID = TrimSpace (seed_ID s),
         eval_SeedLabel = judgeSeedLabel s,
         eval_SeedDomains = seed_Domains s,
         eval_Scenario =
           (if NormalizeDomainIdentifier baseDomain \<noteq> []
            then ''web ownership hints from '' @ NormalizeDomainIdentifier baseDomain
            else ''web ownership hints''),
         eval_Outcomes = judgeOutcomes net wh_Root webHintJudgeSupport candidates decisions\<rparr> p)"

section \<open>The summary of a run\<close>

record judgeCandidate =
  jc_Root :: string
  jc_Confidence :: float64
  jc_Kind :: string
  jc_Reason :: string
  jc_Explicit :: bool
  jc_Support :: "string list"

record judgeGroup =
  jg_Collector :: string
  jg_SeedID :: string
  jg_SeedLabel :: string
  jg_SeedDomains :: "string list"
  jg_Scenario :: string
  jg_Accepted :: "judgeCandidate list"
  jg_Discarded :: "judgeCandidate list"

record judgeSummary =
  js_EvaluationCount :: nat
  js_AcceptedCount :: nat
  js_DiscardedCount :: nat
  js_Groups :: "judgeGroup list"

record judgeGroupAggregate =
  ga_collector :: string
  ga_seedID :: string
  ga_seedLabel :: string
  ga_seedDomains :: "string list"
  ga_scenario :: string
  ga_outcomes :: "(string \<times> judgeCandidateOutcome) list"

definition mergeJudgeSupport :: "string list \<Rightarrow> string list \<Rightarrow> string list" where
  "mergeJudgeSupport left right =
     (if length left = 0 \<and> length right = 0 then []
      else sort (uniqueBy ToLower {} (filter (\<lambda>v. v \<noteq> []) (map TrimSpace (left @ right)))))"

definition mergeJudgeOutcome :: "judgeCandidateOutcome \<Rightarrow> judgeCandidateOutcome \<Rightarrow> judgeCandidateOutcome" where
  "mergeJudgeOutcome existing new =
     \<lparr>out_Root = out_Root existing,
      out_Collect = (if out_Collect new then True else out_Collect existing),
      out_Confidence = (if out_Confidence new > out_Confidence existing then out_Confidence new
                        else out_Confidence existing),
      out_Kind = (if out_Kind new \<noteq> [] \<and> (out_Kind existing = [] \<or> out_Collect new)
                  then out_Kind new else out_Kind existing),
      out_Reason = (if out_Reason new \<noteq> [] \<and> (out_Reason existing = [] \<or> out_Collect new)
                    then out_Reason new else out_Reason existing),
      out_Explicit = (out_Explicit existing \<or> out_Explicit new),
      out_Support = mergeJudgeSupport (out_Support existing) (out_Support new)\<rparr>"

definition groupKey :: "string \<Rightarrow> string \<Rightarrow> string \<Rightarrow> string list \<Rightarrow> string \<Rightarrow> string" where
  "groupKey collector seedID seedLabel seedDomains scenario =
     Join [collector, seedID, seedLabel, Join seedDomains '','', scenario] [CHR 0x00]"

definition evaluationKey :: "judgeEvaluation \<Rightarrow> string" where
  "evaluationKey e = groupKey (eval_Collector e) (eval_SeedID e) (eval_SeedLabel e)
     (eval_SeedDomains e) (eval_Scenario e)"

definition addOutcome ::
  "judgeCandidateOutcome \<Rightarrow> (string \<times> judgeCandidateOutcome) list \<Rightarrow> (string \<times> judgeCandidateOutcome) list" where
  "addOutcome x outcomes =
     (if out_Root x = [] then outcomes
      else case map_of outcomes (out_Root x) of
        Some existing \<Rightarrow> AList.update (out_Root x) (mergeJudgeOutcome existing x) outcomes
      | None \<Rightarrow> AList.update (out_Root x) x outcomes)"

definition newGroup :: "judgeEvaluation \<Rightarrow> judgeGroupAggregate" where
  "newGroup e = \<lparr>ga_collector = eval_Collector e, ga_seedID = eval_SeedID e, ga_seedLabel = eval_SeedLabel e,
     ga_seedDomains = eval_SeedDomains e, ga_scenario = eval_Scenario e, ga_outcomes = []\<rparr>"

definition addEvaluation ::
  "judgeEvaluation \<Rightarrow> (string \<times> judgeGroupAggregate) list \<Rightarrow> (string \<times> judgeGroupAggregate) list" where
  "addEvaluation e groups =
     (if length (eval_Outcomes e) = 0 then groups
      else (let key = evaluationKey e;
                g = (case map_of groups key of Some g \<Rightarrow> g | None \<Rightarrow> newGroup e)
            in AList.update key (g\<lparr>ga_outcomes := fold addOutcome (eval_Outcomes e) (ga_outcomes g)\<rparr>) groups))"

definition groupLess :: "judgeGroupAggregate \<Rightarrow> judgeGroupAggregate \<Rightarrow> bool" where
  "groupLess left right =
     (if ga_collector left \<noteq> ga_collector right then ga_collector left < ga_collector right
      else if ga_seedLabel left \<noteq> ga_seedLabel right then ga_seedLabel left < ga_seedLabel right
      else if ga_seedID left \<noteq> ga_seedID right then ga_seedID left < ga_seedID right
      else ga_scenario left < ga_scenario right)"

definition toCandidate :: "judgeCandidateOutcome \<Rightarrow> judgeCandidate" where
  "toCandidate x = \<lparr>jc_Root = out_Root x, jc_Confidence = out_Confidence x, jc_Kind = out_Kind x,
     jc_Reason = out_Reason x, jc_Explicit = out_Explicit x, jc_Support = out_Support x\<rparr>"

definition toGroup :: "judgeGroupAggregate \<Rightarrow> judgeGroup" where
  "toGroup g =
     (let outcomes = map (\<lambda>r. the (map_of (ga_outcomes g) r)) (sort (map fst (ga_outcomes g)))
      in \<lparr>jg_Collector = ga_collector g, jg_SeedID = ga_seedID g, jg_SeedLabel = ga_seedLabel g,
          jg_SeedDomains = ga_seedDomains g, jg_Scenario = ga_scenario g,
          jg_Accepted = map toCandidate (filter out_Collect outcomes),
          jg_Discarded = map toCandidate (filter (\<lambda>x. \<not> out_Collect x) outcomes)\<rparr>)"

definition BuildJudgeSummary ::
  "(string list \<Rightarrow> string list) \<Rightarrow> judgeEvaluation list \<Rightarrow> judgeSummary option" where
  "BuildJudgeSummary mapOrder evaluations =
     (if length evaluations = 0 then None
      else (let groupsByKey = fold addEvaluation evaluations []
            in if length groupsByKey = 0 then None
               else (let keys = SliceStable (\<lambda>a b. groupLess (the (map_of groupsByKey a)) (the (map_of groupsByKey b)))
                                  (mapOrder (map fst groupsByKey));
                         groups = map (\<lambda>key. toGroup (the (map_of groupsByKey key))) keys
                     in Some \<lparr>js_EvaluationCount = length (filter (\<lambda>e. length (eval_Outcomes e) > 0) evaluations),
                              js_AcceptedCount = sum_list (map (\<lambda>g. length (jg_Accepted g)) groups),
                              js_DiscardedCount = sum_list (map (\<lambda>g. length (jg_Discarded g)) groups),
                              js_Groups = groups\<rparr>)))"

end
