(* ===== verification/Engine.thy ===== *)
theory Engine
  imports Context_Hooks
begin

text \<open>
  \<open>internal/dag/engine.go\<close>: the orchestrator. It runs waves (collectors in parallel, then
  enrichers and expanders in order), advances the seed frontier, reconsiders discarded
  candidates, runs at most one extra wave, filters and exports, and can be paused after a
  checkpoint and resumed.

  The state is the pipeline context together with whatever lies outside it (\<open>'b\<close>: the promotion
  handler, caches, the network). The mutex of the context makes each call a stage performs one
  atomic step, so a stage is a thread of such steps: what it does next may depend on all it saw.
  The collectors of a wave are interleaved by a scheduler that is a parameter. Tracing spans and
  the Go context are left out: they do not touch the pipeline context.
\<close>

section \<open>Threads\<close>

text \<open>
  \<open>Done e\<close> is a return with the error \<open>e\<close> (\<open>None\<close> for nil), \<open>Panicked m\<close> a panic, \<open>Step act next\<close>
  an atomic action followed by what the state before it decides.
\<close>

datatype 's thread =
    Done "string option"
  | Panicked string
  | Step "'s \<Rightarrow> 's" "'s \<Rightarrow> 's thread"

primrec finish ::
  "'s thread \<Rightarrow> (string option \<Rightarrow> 's thread) \<Rightarrow> (string \<Rightarrow> 's thread) \<Rightarrow> 's thread" where
  "finish (Done e) onReturn onPanic = onReturn e"
| "finish (Panicked m) onReturn onPanic = onPanic m"
| "finish (Step act rest) onReturn onPanic = Step act (\<lambda>s. finish (rest s) onReturn onPanic)"

type_synonym stageResult = "string + string option"

primrec run_thread :: "'s thread \<Rightarrow> 's \<Rightarrow> stageResult \<times> 's" where
  "run_thread (Done e) = (\<lambda>s. (Inr e, s))"
| "run_thread (Panicked m) = (\<lambda>s. (Inl m, s))"
| "run_thread (Step act rest) = (\<lambda>s. run_thread (rest s) (act s))"

text \<open>A stage that does one thing after the other and returns nil.\<close>

primrec doSteps :: "('s \<Rightarrow> 's) list \<Rightarrow> 's thread" where
  "doSteps [] = Done None"
| "doSteps (f # fs) = Step f (\<lambda>_. doSteps fs)"

section \<open>The engine\<close>

type_synonym 'b engineState = "pipelineContext \<times> 'b"

record 'b engineNode =
  node_Name :: string
  node_Process :: "'b engineState thread"

record 'b engine =
  Collectors :: "'b engineNode list"
  Enrichers :: "'b engineNode list"
  Expanders :: "'b engineNode list"
  Reconsiderers :: "'b engineNode list"
  Filters :: "'b engineNode list"
  Exporters :: "'b engineNode list"

datatype runPhase =
    RunPhaseCollectionWave | RunPhaseAdvanceFrontier | RunPhaseReconsideration
  | RunPhaseAdvanceExtraWave | RunPhaseExtraWave | RunPhaseFiltering | RunPhaseExporting
  | RunPhaseCompleted | RunPhaseUnknown string

datatype checkpoint =
    CheckpointAfterCollectionWave | CheckpointAfterReconsider | CheckpointAfterExtraWave

record runProgress =
  Initialized :: bool
  Wave :: int
  Phase :: runPhase

text \<open>\<open>AfterCheckpoint\<close>: pause or not, an error, and what it did to the state.\<close>

type_synonym 'b resumeCallbacks =
  "(checkpoint \<Rightarrow> runProgress \<Rightarrow> 'b engineState \<Rightarrow> (bool \<times> string option) \<times> 'b engineState) option"

definition ErrExecutionPaused :: string where
  "ErrExecutionPaused = ''dag execution paused''"

definition maxSeedExpansionDepth :: int where
  "maxSeedExpansionDepth = 3"

definition onContext :: "(pipelineContext \<Rightarrow> pipelineContext) \<Rightarrow> 'b engineState \<Rightarrow> 'b engineState" where
  "onContext f s = (f (fst s), snd s)"

definition appendError :: "string \<Rightarrow> pipelineContext \<Rightarrow> pipelineContext" where
  "appendError err p = p\<lparr>Errors := Errors p @ [err]\<rparr>"

definition stageMetadata :: "string \<Rightarrow> string \<Rightarrow> int \<Rightarrow> (string \<times> enrichmentValue) list" where
  "stageMetadata stage nodeName wave =
     [(''stage'', EVString stage), (''node'', EVString nodeName), (''wave'', EVInt wave)]"

definition stageStarted :: "string \<Rightarrow> int \<Rightarrow> string \<Rightarrow> executionEvent" where
  "stageStarted stage wave nodeName =
     \<lparr>event_Kind = ''stage_started'',
      event_Message = ''Started '' @ stage @ '' stage '' @ nodeName @ '' in wave '' @ show_int wave @ ''.'',
      event_Metadata = stageMetadata stage nodeName wave\<rparr>"

definition stageEnded :: "string \<Rightarrow> int \<Rightarrow> string \<Rightarrow> string option \<Rightarrow> executionEvent" where
  "stageEnded stage wave nodeName err =
     (case err of
        None \<Rightarrow>
          \<lparr>event_Kind = ''stage_completed'',
           event_Message = ''Completed '' @ stage @ '' stage '' @ nodeName @ '' in wave '' @ show_int wave @ ''.'',
           event_Metadata = stageMetadata stage nodeName wave\<rparr>
      | Some e \<Rightarrow>
          \<lparr>event_Kind = ''stage_failed'',
           event_Message = ''Failed '' @ stage @ '' stage '' @ nodeName @ '' in wave '' @ show_int wave
             @ '': '' @ e @ ''.'',
           event_Metadata = stageMetadata stage nodeName wave @ [(''error'', EVString e)]\<rparr>)"

definition processNode :: "string \<Rightarrow> int \<Rightarrow> 'b engineNode \<Rightarrow> 'b engineState thread" where
  "processNode stage wave node =
     Step (onContext (EmitExecutionEvent (stageStarted stage wave (node_Name node))))
       (\<lambda>_. finish (node_Process node)
          (\<lambda>err. Step (onContext (EmitExecutionEvent (stageEnded stage wave (node_Name node) err)))
             (\<lambda>_. Done err))
          Panicked)"

text \<open>The goroutine of a collector: an error or a recovered panic becomes an entry of \<open>Errors\<close>.\<close>

definition collectorThread :: "int \<Rightarrow> 'b engineNode \<Rightarrow> 'b engineState thread" where
  "collectorThread wave col =
     finish (processNode ''collect'' wave col)
       (\<lambda>err. case err of None \<Rightarrow> Done None
          | Some e \<Rightarrow> Step (onContext (appendError e)) (\<lambda>_. Done None))
       (\<lambda>m. Step (onContext (appendError (''collector '' @ node_Name col @ '' panicked: '' @ m)))
          (\<lambda>_. Done None))"

section \<open>Parallel collectors\<close>

definition runnable :: "'s thread \<Rightarrow> bool" where
  "runnable t = (case t of Step _ _ \<Rightarrow> True | _ \<Rightarrow> False)"

definition runnableIndexes :: "'s thread list \<Rightarrow> nat list" where
  "runnableIndexes ts = filter (\<lambda>i. runnable (ts ! i)) [0..<length ts]"

type_synonym 's scheduler = "'s thread list \<Rightarrow> 's \<Rightarrow> nat"

definition subthread :: "('s thread \<times> 's thread) set" where
  "subthread = {(rest s, Step act rest) | act rest s. True}"

lemma wf_subthread: "wf subthread"
proof (rule wfUNIVI)
  fix P :: "'s thread \<Rightarrow> bool" and t
  assume step: "\<forall>t. (\<forall>u. (u, t) \<in> subthread \<longrightarrow> P u) \<longrightarrow> P t"
  show "P t"
  proof (induction t)
    case (Step act rest)
    show ?case by (rule step [rule_format]) (auto simp: subthread_def Step)
  qed (rule step [rule_format], simp add: subthread_def)+
qed

text \<open>Runs the threads until none can step; the scheduler picks among the runnable ones.\<close>

function runPool :: "'s scheduler \<Rightarrow> 's thread list \<Rightarrow> 's \<Rightarrow> 's" where
  "runPool pick ts s =
     (let active = runnableIndexes ts
      in if active = [] then s
         else (let i = active ! (pick ts s mod length active)
               in case ts ! i of
                    Step act rest \<Rightarrow> runPool pick (ts[i := rest s]) (act s)
                  | _ \<Rightarrow> s))"
  by pat_completeness auto

lemma picked_index:
  assumes "runnableIndexes ts \<noteq> []"
  shows "runnableIndexes ts ! (k mod length (runnableIndexes ts)) < length ts"
proof -
  have "runnableIndexes ts ! (k mod length (runnableIndexes ts)) \<in> set (runnableIndexes ts)"
    using assms by (intro nth_mem) simp
  then show ?thesis by (auto simp: runnableIndexes_def)
qed

lemma pool_decreases:
  assumes "i < length ts" and "ts ! i = Step act rest"
  shows "(mset (ts[i := rest s]), mset ts) \<in> mult subthread"
proof -
  have eq: "mset ts = add_mset (ts ! i) (mset ts - {#ts ! i#})"
    using assms(1) by (metis insert_DiffM nth_mem_mset)
  have "mset (ts[i := rest s]) = add_mset (rest s) (mset ts - {#ts ! i#})"
    using assms(1) by (simp add: mset_update)
  moreover have "(add_mset (rest s) (mset ts - {#ts ! i#}), add_mset (ts ! i) (mset ts - {#ts ! i#}))
      \<in> mult subthread"
    unfolding mult_def
    by (rule r_into_trancl, rule mult1I [where K = "{#rest s#}"]) (auto simp: assms(2) subthread_def)
  ultimately show ?thesis using eq by metis
qed

termination runPool
proof (relation "inv_image (mult subthread) (\<lambda>(pick, ts, s). mset ts)")
  show "wf (inv_image (mult subthread) (\<lambda>(pick :: 's scheduler, ts, s). mset ts))"
    by (intro wf_inv_image wf_mult wf_subthread)
qed (auto intro!: pool_decreases picked_index)

declare runPool.simps [simp del]

section \<open>Waves and phases\<close>

fun runStages :: "string \<Rightarrow> int \<Rightarrow> 'b engineNode list \<Rightarrow> 'b engineState \<Rightarrow> stageResult \<times> 'b engineState" where
  "runStages stage wave [] s = (Inr None, s)"
| "runStages stage wave (node # rest) s =
     (case run_thread (processNode stage wave node) s of
        (Inr None, s') \<Rightarrow> runStages stage wave rest s'
      | (r, s') \<Rightarrow> (r, s'))"

definition runWave ::
  "'b engineState scheduler \<Rightarrow> 'b engine \<Rightarrow> int \<Rightarrow> 'b engineState \<Rightarrow> stageResult \<times> 'b engineState" where
  "runWave pick e wave s =
     (let s1 = (if length (CollectionSeeds (fst s)) > 0
                then runPool pick (map (collectorThread wave) (Collectors e)) s else s)
      in case runStages ''enrich'' wave (Enrichers e) s1 of
           (Inr None, s2) \<Rightarrow> runStages ''expand'' wave (Expanders e) s2
         | (r, s2) \<Rightarrow> (r, s2))"

definition runCheckpointCallback ::
  "'b resumeCallbacks \<Rightarrow> checkpoint \<Rightarrow> runProgress \<Rightarrow> 'b engineState
     \<Rightarrow> (bool \<times> string option) \<times> 'b engineState" where
  "runCheckpointCallback callbacks cp progress s =
     (case callbacks of None \<Rightarrow> ((False, None), s) | Some f \<Rightarrow> f cp progress s)"

text \<open>One turn of the loop of \<open>Resume\<close>: \<open>Inl\<close> goes on, \<open>Inr\<close> returns.\<close>

type_synonym 'b turn =
  "(runProgress \<times> 'b engineState) + (stageResult \<times> runProgress \<times> 'b engineState)"

definition afterCheckpoint ::
  "'b resumeCallbacks \<Rightarrow> checkpoint \<Rightarrow> runProgress \<Rightarrow> 'b engineState \<Rightarrow> 'b turn" where
  "afterCheckpoint callbacks cp progress s =
     (case runCheckpointCallback callbacks cp progress s of
        ((paused, Some err), s') \<Rightarrow> Inr (Inr (Some err), progress, s')
      | ((paused, None), s') \<Rightarrow>
          if paused then Inr (Inr (Some ErrExecutionPaused), progress, s') else Inl (progress, s'))"

definition waveOrSkip ::
  "'b engineState scheduler \<Rightarrow> 'b engine \<Rightarrow> int \<Rightarrow> 'b engineState \<Rightarrow> stageResult \<times> 'b engineState" where
  "waveOrSkip pick e wave s =
     (if length (CollectionSeeds (fst s)) > 0 then runWave pick e wave s else (Inr None, s))"

definition resumeTurn ::
  "'b engineState scheduler \<Rightarrow> 'b engine \<Rightarrow> 'b resumeCallbacks \<Rightarrow> runProgress \<Rightarrow> 'b engineState \<Rightarrow> 'b turn" where
  "resumeTurn pick e callbacks progress s =
     (case Phase progress of
        RunPhaseCollectionWave \<Rightarrow>
          (case waveOrSkip pick e (Wave progress) s of
             (Inr None, s1) \<Rightarrow>
               afterCheckpoint callbacks CheckpointAfterCollectionWave
                 (progress\<lparr>Phase := RunPhaseAdvanceFrontier\<rparr>) s1
           | (r, s1) \<Rightarrow> Inr (r, progress, s1))
      | RunPhaseAdvanceFrontier \<Rightarrow>
          (let (moved, p) = AdvanceSeedFrontier (fst s)
           in if moved
              then Inl (progress\<lparr>Wave := Wave progress + 1, Phase := RunPhaseCollectionWave\<rparr>, (p, snd s))
              else Inl (progress\<lparr>Phase := RunPhaseReconsideration\<rparr>, (p, snd s)))
      | RunPhaseReconsideration \<Rightarrow>
          (case (if length (Reconsiderers e) > 0
                 then runStages ''reconsider'' (Wave progress) (Reconsiderers e)
                        (onContext (\<lambda>p. snd (ReserveExtraCollectionWave p)) s)
                 else (Inr None, s)) of
             (Inr None, s1) \<Rightarrow>
               afterCheckpoint callbacks CheckpointAfterReconsider
                 (progress\<lparr>Phase := RunPhaseAdvanceExtraWave\<rparr>) s1
           | (r, s1) \<Rightarrow> Inr (r, progress, s1))
      | RunPhaseAdvanceExtraWave \<Rightarrow>
          (let (moved, p) = AdvanceSeedFrontier (fst s)
           in if moved
              then Inl (progress\<lparr>Wave := Wave progress + 1, Phase := RunPhaseExtraWave\<rparr>, (p, snd s))
              else Inl (progress\<lparr>Phase := RunPhaseFiltering\<rparr>, (p, snd s)))
      | RunPhaseExtraWave \<Rightarrow>
          (case waveOrSkip pick e (Wave progress) s of
             (Inr None, s1) \<Rightarrow>
               afterCheckpoint callbacks CheckpointAfterExtraWave
                 (progress\<lparr>Phase := RunPhaseFiltering\<rparr>) s1
           | (r, s1) \<Rightarrow> Inr (r, progress, s1))
      | RunPhaseFiltering \<Rightarrow>
          (case runStages ''filter'' (Wave progress) (Filters e) s of
             (Inr None, s1) \<Rightarrow> Inl (progress\<lparr>Phase := RunPhaseExporting\<rparr>, s1)
           | (r, s1) \<Rightarrow> Inr (r, progress, s1))
      | RunPhaseExporting \<Rightarrow>
          (case runStages ''export'' (Wave progress) (Exporters e) s of
             (Inr None, s1) \<Rightarrow> Inl (progress\<lparr>Phase := RunPhaseCompleted\<rparr>, s1)
           | (r, s1) \<Rightarrow> Inr (r, progress, s1))
      | RunPhaseCompleted \<Rightarrow> Inr (Inr None, progress, s)
      | RunPhaseUnknown _ \<Rightarrow> Inr (Inr None, progress\<lparr>Phase := RunPhaseCompleted\<rparr>, s))"

text \<open>The loop; \<open>None\<close> would be a run that never returns.\<close>

partial_function (option) resumeLoop ::
  "'b engineState scheduler \<Rightarrow> 'b engine \<Rightarrow> 'b resumeCallbacks \<Rightarrow> runProgress \<Rightarrow> 'b engineState
     \<Rightarrow> (stageResult \<times> runProgress \<times> 'b engineState) option" where
  [code]: "resumeLoop pick e callbacks progress s =
     (case resumeTurn pick e callbacks progress s of
        Inr result \<Rightarrow> Some result
      | Inl next \<Rightarrow> resumeLoop pick e callbacks (fst next) (snd next))"

definition initialProgress :: "runProgress \<Rightarrow> 'b engineState \<Rightarrow> runProgress \<times> 'b engineState" where
  "initialProgress progress s =
     (if \<not> Initialized progress
      then (\<lparr>Initialized = True, Wave = 0, Phase = RunPhaseCollectionWave\<rparr>,
            onContext (InitializeSeedFrontier maxSeedExpansionDepth) s)
      else (progress, s))"

definition Resume ::
  "'b engineState scheduler \<Rightarrow> 'b engine \<Rightarrow> 'b resumeCallbacks \<Rightarrow> runProgress \<Rightarrow> 'b engineState
     \<Rightarrow> (stageResult \<times> runProgress \<times> 'b engineState) option" where
  "Resume pick e callbacks progress s =
     (let (progress', s') = initialProgress progress s in resumeLoop pick e callbacks progress' s')"

definition zeroProgress :: runProgress where
  "zeroProgress = \<lparr>Initialized = False, Wave = 0, Phase = RunPhaseUnknown []\<rparr>"

definition Run ::
  "'b engineState scheduler \<Rightarrow> 'b engine \<Rightarrow> 'b engineState
     \<Rightarrow> (stageResult \<times> runProgress \<times> 'b engineState) option" where
  "Run pick e s = Resume pick e None zeroProgress s"

end
