(* ===== verification/Run_Records.thy ===== *)
theory Run_Records
  imports Judges Engine
begin

text \<open>
  The records of the live run service (\<open>internal/runservice/types.go\<close>): what is stored about a
  run, its seeds, pivots and events, the snapshot a run is resumed from, and the counters
  derived from it (\<open>projection_helpers.go\<close>, \<open>service_process_run.go\<close>). The clock and the ID
  generator of the service are read through an environment that counts the readings.
\<close>

section \<open>Clock and identifiers\<close>

record environment =
  env_tick :: nat
  env_clock :: "nat \<Rightarrow> gotime"
  env_id :: "string \<Rightarrow> nat \<Rightarrow> string"

definition readClock :: "environment \<Rightarrow> gotime \<times> environment" where
  "readClock env = (env_clock env (env_tick env), env\<lparr>env_tick := env_tick env + 1\<rparr>)"

definition freshID :: "string \<Rightarrow> environment \<Rightarrow> string \<times> environment" where
  "freshID prefix env = (env_id env prefix (env_tick env), env\<lparr>env_tick := env_tick env + 1\<rparr>)"

section \<open>Runs\<close>

type_synonym runMode = string
type_synonym runStatus = string
type_synonym pivotDecisionStatus = string
type_synonym pivotDecisionInput = string

abbreviation RunModeAutonomous :: runMode where "RunModeAutonomous \<equiv> ''autonomous''"
abbreviation RunModeManual :: runMode where "RunModeManual \<equiv> ''manual''"

abbreviation RunStatusQueued :: runStatus where "RunStatusQueued \<equiv> ''queued''"
abbreviation RunStatusRunning :: runStatus where "RunStatusRunning \<equiv> ''running''"
abbreviation RunStatusAwaitingReview :: runStatus where "RunStatusAwaitingReview \<equiv> ''awaiting_review''"
abbreviation RunStatusCompleted :: runStatus where "RunStatusCompleted \<equiv> ''completed''"
abbreviation RunStatusFailed :: runStatus where "RunStatusFailed \<equiv> ''failed''"

abbreviation PivotDecisionPendingReview :: pivotDecisionStatus where
  "PivotDecisionPendingReview \<equiv> ''pending_review''"
abbreviation PivotDecisionAccepted :: pivotDecisionStatus where
  "PivotDecisionAccepted \<equiv> ''accepted''"
abbreviation PivotDecisionRejected :: pivotDecisionStatus where
  "PivotDecisionRejected \<equiv> ''rejected''"
abbreviation PivotDecisionAutoAccepted :: pivotDecisionStatus where
  "PivotDecisionAutoAccepted \<equiv> ''auto_accepted''"
abbreviation PivotDecisionAutoRejected :: pivotDecisionStatus where
  "PivotDecisionAutoRejected \<equiv> ''auto_rejected''"

abbreviation PivotDecisionInputAccepted :: pivotDecisionInput where
  "PivotDecisionInputAccepted \<equiv> ''accepted''"
abbreviation PivotDecisionInputRejected :: pivotDecisionInput where
  "PivotDecisionInputRejected \<equiv> ''rejected''"

record authenticatedUser =
  user_UID :: string
  user_Email :: string
  user_EmailVerified :: bool
  user_Name :: string

record createRunRequest =
  cr_Mode :: runMode
  cr_Seeds :: "seed list"

record downloads =
  dl_JSON :: string
  dl_CSV :: string
  dl_XLSX :: string

definition noDownloads :: downloads where
  "noDownloads = \<lparr>dl_JSON = [], dl_CSV = [], dl_XLSX = []\<rparr>"

record runRecord =
  run_ID :: string
  run_OwnerUID :: string
  run_OwnerEmail :: string
  run_Mode :: runMode
  run_Status :: runStatus
  run_CurrentWave :: int
  run_SeedCount :: nat
  run_EnumerationCount :: nat
  run_AssetCount :: nat
  run_PendingPivotCount :: nat
  run_JudgeEvaluationCount :: nat
  run_JudgeAcceptedCount :: nat
  run_JudgeDiscardedCount :: nat
  run_LastError :: string
  run_Downloads :: downloads
  run_CreatedAt :: gotime
  run_UpdatedAt :: gotime
  run_StartedAt :: "gotime option"
  run_CompletedAt :: "gotime option"
  run_ExecutionLeaseID :: string
  run_ExecutionHeartbeatAt :: "gotime option"
  run_ExecutionLeaseUntil :: "gotime option"

record seedRecord =
  sr_ID :: string
  sr_Source :: string
  sr_PivotID :: string
  sr_SubmittedAt :: gotime
  sr_Seed :: seed

record pivotRecord =
  pr_ID :: string
  pr_Root :: string
  pr_Status :: pivotDecisionStatus
  pr_Collector :: string
  pr_Scenario :: string
  pr_SeedID :: string
  pr_SeedLabel :: string
  pr_SeedDomains :: "string list"
  pr_RecommendationKind :: string
  pr_RecommendationReason :: string
  pr_RecommendationScore :: float64
  pr_RecommendationNotes :: "string list"
  pr_Candidate :: seed
  pr_Evidence :: "seedEvidence list"
  pr_CreatedAt :: gotime
  pr_UpdatedAt :: gotime
  pr_DecisionAt :: "gotime option"
  pr_DecisionByUID :: string
  pr_DecisionByEmail :: string

record eventRecord =
  er_ID :: string
  er_Kind :: string
  er_Message :: string
  er_Metadata :: "(string \<times> enrichmentValue) list"
  er_CreatedAt :: gotime

record pendingPivotState =
  pp_ID :: string
  pp_Candidate :: candidatePromotionRequest
  pp_Status :: pivotDecisionStatus
  pp_Collector :: string
  pp_Scenario :: string
  pp_SeedID :: string
  pp_SeedLabel :: string
  pp_SeedDomains :: "string list"
  pp_Kind :: string
  pp_Reason :: string
  pp_Support :: "string list"
  pp_CreatedAt :: gotime
  pp_UpdatedAt :: gotime
  pp_DecisionAt :: "gotime option"
  pp_DecisionByUID :: string
  pp_DecisionByEmail :: string

text \<open>A literal of \<open>PendingPivotState\<close> that names four fields; the others are zero.\<close>

definition newPivotState ::
  "string \<Rightarrow> candidatePromotionRequest \<Rightarrow> pivotDecisionStatus \<Rightarrow> gotime \<Rightarrow> gotime \<Rightarrow> pendingPivotState" where
  "newPivotState i candidate status created updated =
     \<lparr>pp_ID = i, pp_Candidate = candidate, pp_Status = status, pp_Collector = [], pp_Scenario = [],
      pp_SeedID = [], pp_SeedLabel = [], pp_SeedDomains = [], pp_Kind = [], pp_Reason = [],
      pp_Support = [], pp_CreatedAt = created, pp_UpdatedAt = updated, pp_DecisionAt = None,
      pp_DecisionByUID = [], pp_DecisionByEmail = []\<rparr>"

text \<open>The pivots by root. The stores replace a missing context on load, so it is always there.\<close>

type_synonym pivotTable = "(string \<times> pendingPivotState) list"

record snapshot =
  snap_Run :: runRecord
  snap_Context :: pipelineContext
  snap_SchedulerState :: schedulerState
  snap_Progress :: runProgress
  snap_Pivots :: pivotTable

section \<open>Users\<close>

definition normalizeEmail :: "string \<Rightarrow> string" where
  "normalizeEmail email = TrimSpace (ToLower email)"

definition userOwnsRun :: "authenticatedUser \<Rightarrow> runRecord \<Rightarrow> bool" where
  "userOwnsRun user run =
     (let ownerUID = TrimSpace (run_OwnerUID run); userUID = TrimSpace (user_UID user)
      in if ownerUID \<noteq> [] \<and> userUID \<noteq> [] then ownerUID = userUID
         else normalizeEmail (run_OwnerEmail run) \<noteq> []
              \<and> normalizeEmail (run_OwnerEmail run) = normalizeEmail (user_Email user))"

section \<open>Counters\<close>

definition buildProjectedJudgeSummary ::
  "(string list \<Rightarrow> string list) \<Rightarrow> pipelineContext \<Rightarrow> judgeSummary" where
  "buildProjectedJudgeSummary mapOrder pCtx =
     (case BuildJudgeSummary mapOrder (JudgeEvaluations pCtx) of
        None \<Rightarrow> \<lparr>js_EvaluationCount = 0, js_AcceptedCount = 0, js_DiscardedCount = 0, js_Groups = []\<rparr>
      | Some summary \<Rightarrow> summary)"

definition applyProjectedRunMetrics ::
  "pipelineContext \<Rightarrow> nat \<Rightarrow> judgeSummary \<Rightarrow> runRecord \<Rightarrow> runRecord" where
  "applyProjectedRunMetrics pCtx pendingPivotCount summary run =
     run\<lparr>run_AssetCount := length (Assets pCtx),
         run_EnumerationCount := length (Enumerations pCtx),
         run_SeedCount := length (Seeds pCtx),
         run_PendingPivotCount := pendingPivotCount,
         run_JudgeEvaluationCount := js_EvaluationCount summary,
         run_JudgeAcceptedCount := js_AcceptedCount summary,
         run_JudgeDiscardedCount := js_DiscardedCount summary\<rparr>"

definition countPendingPivots :: "pivotTable \<Rightarrow> nat" where
  "countPendingPivots pivots = length (filter (\<lambda>(root, p). pp_Status p = PivotDecisionPendingReview) pivots)"

definition hasPendingReview :: "pivotTable \<Rightarrow> bool" where
  "hasPendingReview pivots \<longleftrightarrow> countPendingPivots pivots > 0"

definition updateRunCounters :: "(string list \<Rightarrow> string list) \<Rightarrow> snapshot \<Rightarrow> snapshot" where
  "updateRunCounters mapOrder s =
     s\<lparr>snap_Run := (applyProjectedRunMetrics (snap_Context s) (countPendingPivots (snap_Pivots s))
                     (buildProjectedJudgeSummary mapOrder (snap_Context s)) (snap_Run s))
                     \<lparr>run_CurrentWave := Wave (snap_Progress s)\<rparr>\<rparr>"

lemma hasPendingReview_iff:
  "hasPendingReview pivots \<longleftrightarrow> (\<exists>(root, p) \<in> set pivots. pp_Status p = PivotDecisionPendingReview)"
  by (auto simp: hasPendingReview_def countPendingPivots_def filter_empty_conv)

lemma updateRunCounters_fields [simp]:
  "snap_Context (updateRunCounters mo s) = snap_Context s"
  "snap_SchedulerState (updateRunCounters mo s) = snap_SchedulerState s"
  "snap_Progress (updateRunCounters mo s) = snap_Progress s"
  "snap_Pivots (updateRunCounters mo s) = snap_Pivots s"
  "run_Status (snap_Run (updateRunCounters mo s)) = run_Status (snap_Run s)"
  "run_Mode (snap_Run (updateRunCounters mo s)) = run_Mode (snap_Run s)"
  "run_ID (snap_Run (updateRunCounters mo s)) = run_ID (snap_Run s)"
  by (simp_all add: updateRunCounters_def applyProjectedRunMetrics_def)

lemma userOwnsRun_norm:
  assumes "TrimSpace (run_OwnerUID run) = [] \<or> TrimSpace (user_UID user) = []" and "userOwnsRun user run"
  shows "normalizeEmail (user_Email user) = normalizeEmail (run_OwnerEmail run) \<and> normalizeEmail (user_Email user) \<noteq> []"
  using assms by (auto simp: userOwnsRun_def Let_def)

end
