(* ===== verification/Pivot_Broker.thy ===== *)
theory Pivot_Broker
  imports Run_Records Frontier_Invariant
begin

text \<open>
  The pivots of a run (\<open>internal/runservice/service_pivots.go\<close>): the broker that decides whether
  a strong candidate becomes a seed, the pivots recovered from what the judges discarded, and the
  record shown for each pivot. The broker is the \<open>CandidatePromotionHandler\<close> of the frontier.
\<close>

section \<open>Pivots\<close>

definition promotionRoot :: "netLibrary \<Rightarrow> candidatePromotionRequest \<Rightarrow> string" where
  "promotionRoot net candidate =
     (let root = RegistrableDomain net (req_Key candidate)
      in if root \<noteq> [] then root
         else case find (\<lambda>r. r \<noteq> []) (map (RegistrableDomain net) (seed_Domains (req_Seed candidate))) of
           Some r \<Rightarrow> r
         | None \<Rightarrow> TrimSpace (ToLower (seed_ID (req_Seed candidate))))"

definition Root :: "netLibrary \<Rightarrow> pendingPivotState \<Rightarrow> string" where
  "Root net p =
     (let r = promotionRoot net (pp_Candidate p)
      in if r \<noteq> [] then r else TrimSpace (ToLower (pp_SeedLabel p)))"

definition findPivotByID :: "pivotTable \<Rightarrow> string \<Rightarrow> (string \<times> pendingPivotState) option" where
  "findPivotByID pivots pivotID = find (\<lambda>(root, p). pp_ID p = pivotID) pivots"

definition pivotLess :: "pendingPivotState \<Rightarrow> pendingPivotState \<Rightarrow> bool" where
  "pivotLess a b =
     (if pp_CreatedAt a = pp_CreatedAt b then pp_ID a < pp_ID b else pp_CreatedAt a < pp_CreatedAt b)"

definition sortedPivotStates :: "pivotTable \<Rightarrow> pendingPivotState list" where
  "sortedPivotStates pivots = SliceStable pivotLess (map snd pivots)"

definition buildPivotRecord :: "netLibrary \<Rightarrow> pendingPivotState \<Rightarrow> pivotRecord" where
  "buildPivotRecord net p =
     \<lparr>pr_ID = pp_ID p, pr_Root = Root net p, pr_Status = pp_Status p, pr_Collector = pp_Collector p,
      pr_Scenario = pp_Scenario p, pr_SeedID = pp_SeedID p, pr_SeedLabel = pp_SeedLabel p,
      pr_SeedDomains = pp_SeedDomains p, pr_RecommendationKind = pp_Kind p,
      pr_RecommendationReason = pp_Reason p, pr_RecommendationScore = req_Confidence (pp_Candidate p),
      pr_RecommendationNotes = pp_Support p, pr_Candidate = req_Seed (pp_Candidate p),
      pr_Evidence = req_Evidence (pp_Candidate p), pr_CreatedAt = pp_CreatedAt p,
      pr_UpdatedAt = pp_UpdatedAt p, pr_DecisionAt = pp_DecisionAt p,
      pr_DecisionByUID = pp_DecisionByUID p, pr_DecisionByEmail = pp_DecisionByEmail p\<rparr>"

section \<open>The broker\<close>

record pivotBroker =
  broker_mode :: runMode
  broker_pivots :: pivotTable

definition newPivotBroker :: "runMode \<Rightarrow> pivotTable \<Rightarrow> pivotBroker" where
  "newPivotBroker mode existing = \<lparr>broker_mode = mode, broker_pivots = existing\<rparr>"

definition decisionOfStatus :: "pivotDecisionStatus \<Rightarrow> candidatePromotionDecision" where
  "decisionOfStatus status =
     (if status = PivotDecisionAccepted \<or> status = PivotDecisionAutoAccepted then CandidatePromotionAccepted
      else if status = PivotDecisionRejected \<or> status = PivotDecisionAutoRejected then CandidatePromotionRejected
      else CandidatePromotionPendingReview)"

type_synonym brokerState = "pivotBroker \<times> environment"

definition HandleCandidatePromotion ::
  "netLibrary \<Rightarrow> candidatePromotionRequest \<Rightarrow> brokerState \<Rightarrow> candidatePromotionDecision \<times> brokerState" where
  "HandleCandidatePromotion net candidate st =
     (let (b, env0) = st;
          root = promotionRoot net candidate;
          (now, env1) = readClock env0
      in case map_of (broker_pivots b) root of
           Some existing \<Rightarrow>
             (let e = existing\<lparr>pp_Candidate := candidate, pp_UpdatedAt := now\<rparr>
              in (decisionOfStatus (pp_Status e),
                  b\<lparr>broker_pivots := AList.update root e (broker_pivots b)\<rparr>, env1))
         | None \<Rightarrow>
             (let (i, env2) = freshID ''pivot'' env1;
                  status = (if broker_mode b = RunModeManual then PivotDecisionPendingReview
                            else PivotDecisionAutoAccepted);
                  state = newPivotState i candidate status now now
              in (if broker_mode b = RunModeManual then CandidatePromotionPendingReview
                  else CandidatePromotionAccepted,
                  b\<lparr>broker_pivots := AList.update root state (broker_pivots b)\<rparr>, env2)))"

definition brokerSnapshot :: "pivotBroker \<Rightarrow> pivotTable" where
  "brokerSnapshot b = broker_pivots b"

definition candidatePromotionConfidenceThreshold :: "runMode \<Rightarrow> float64" where
  "candidatePromotionConfidenceThreshold mode =
     (if mode = RunModeManual then ManualReviewConfidenceThreshold else DefaultHighConfidenceThreshold)"

text \<open>The double nearest to 0.80.\<close>

definition manualAutoRejectionConfidenceThreshold :: float64 where
  "manualAutoRejectionConfidenceThreshold = 3602879701896397 / 4503599627370496"

definition autoRejectedDiscardStatus :: "runMode \<Rightarrow> float64 \<Rightarrow> pivotDecisionStatus" where
  "autoRejectedDiscardStatus mode confidence =
     (if mode = RunModeManual \<and> \<not> IsConfidenceAtLeast confidence manualAutoRejectionConfidenceThreshold
      then PivotDecisionPendingReview else PivotDecisionAutoRejected)"

section \<open>Pivots from the judges\<close>

definition judgePivot :: "string \<Rightarrow> runMode \<Rightarrow> judgeCandidateOutcome \<Rightarrow> string \<Rightarrow> gotime \<Rightarrow> pendingPivotState" where
  "judgePivot key mode outcome i now =
     newPivotState i
       \<lparr>req_Key = key,
        req_Seed = zeroSeed\<lparr>seed_ID := key, seed_CompanyName := key, seed_Domains := [key]\<rparr>,
        req_Evidence = [], req_Confidence = out_Confidence outcome, req_Reasoned = True\<rparr>
       (autoRejectedDiscardStatus mode (out_Confidence outcome)) now 0"

definition withJudgement :: "judgeEvaluation \<Rightarrow> judgeCandidateOutcome \<Rightarrow> gotime \<Rightarrow> pendingPivotState \<Rightarrow> pendingPivotState" where
  "withJudgement e outcome now p =
     p\<lparr>pp_UpdatedAt := now, pp_Collector := eval_Collector e, pp_Scenario := eval_Scenario e,
       pp_SeedID := eval_SeedID e, pp_SeedLabel := eval_SeedLabel e, pp_SeedDomains := eval_SeedDomains e,
       pp_Kind := out_Kind outcome, pp_Reason := out_Reason outcome, pp_Support := out_Support outcome\<rparr>"

definition hydrateOutcome ::
  "netLibrary \<Rightarrow> runMode \<Rightarrow> gotime \<Rightarrow> judgeEvaluation \<Rightarrow> judgeCandidateOutcome
     \<Rightarrow> pivotTable \<times> environment \<Rightarrow> pivotTable \<times> environment" where
  "hydrateOutcome net mode now e outcome st =
     (let (pivots, env) = st; root = RegistrableDomain net (out_Root outcome)
      in if root = [] then (pivots, env)
         else case map_of pivots root of
           Some p \<Rightarrow> (AList.update root (withJudgement e outcome now p) pivots, env)
         | None \<Rightarrow>
             if out_Collect outcome then (pivots, env)
             else (let (i, env') = freshID ''pivot'' env
                   in (AList.update root (withJudgement e outcome now (judgePivot root mode outcome i now)) pivots, env')))"

definition hydratePivotsFromJudges ::
  "netLibrary \<Rightarrow> gotime \<Rightarrow> pipelineContext \<Rightarrow> snapshot \<times> environment \<Rightarrow> snapshot \<times> environment" where
  "hydratePivotsFromJudges net now pCtx st =
     (let (s, env) = st;
          (pivots, env') =
            fold (\<lambda>e. fold (\<lambda>x. hydrateOutcome net (run_Mode (snap_Run s)) now e x) (eval_Outcomes e))
              (JudgeEvaluations pCtx) (snap_Pivots s, env)
      in (s\<lparr>snap_Pivots := pivots\<rparr>, env'))"

end
