(* ===== verification/Pivot_Facts.thy ===== *)
theory Pivot_Facts
  imports Pivot_Broker
begin

text \<open>
  What the broker promises: a decision for a root is final, no call decides another root, and a
  manual run schedules nothing a reviewer did not accept. Reading the judges never changes a
  decision, and only a manual run gets pivots to review from it.
\<close>

section \<open>Handlers whose decisions are final\<close>

locale promotion_policy =
  fixes rootOf :: "candidatePromotionRequest \<Rightarrow> string"
    and verdict :: "'b \<Rightarrow> string \<Rightarrow> candidatePromotionDecision option"
    and handle :: "candidatePromotionRequest \<Rightarrow> 'b \<Rightarrow> candidatePromotionDecision \<times> 'b"
  assumes handle_known: "verdict b (rootOf c) = Some d \<Longrightarrow> fst (handle c b) = d"
    and handle_verdict: "verdict (snd (handle c b)) = (verdict b)(rootOf c \<mapsto> fst (handle c b))"
begin

lemma verdict_stays: "verdict b r = Some d \<Longrightarrow> verdict (snd (handle c b)) r = Some d"
  using handle_known by (auto simp: handle_verdict)

lemma verdict_stays_fold: "verdict b r = Some d \<Longrightarrow> verdict (fold (\<lambda>c b. snd (handle c b)) cs b) r = Some d"
  by (induction cs arbitrary: b) (simp_all add: verdict_stays)

lemma same_root_same_decision:
  assumes "rootOf c' = rootOf c"
  shows "fst (handle c' (fold (\<lambda>c b. snd (handle c b)) cs (snd (handle c b)))) = fst (handle c b)"
  by (rule handle_known, unfold assms, rule verdict_stays_fold) (simp add: handle_verdict)

lemma undecided_before: "verdict (snd (handle c b)) r = None \<Longrightarrow> verdict b r = None"
  using verdict_stays by (metis not_None_eq)

end

definition verdictOf :: "brokerState \<Rightarrow> string \<Rightarrow> candidatePromotionDecision option" where
  "verdictOf st r = map_option (decisionOfStatus \<circ> pp_Status) (map_of (broker_pivots (fst st)) r)"

lemma newPivotState_fields [simp]:
  "pp_Status (newPivotState i c st cr up) = st" "pp_ID (newPivotState i c st cr up) = i"
  "pp_Candidate (newPivotState i c st cr up) = c"
  by (simp_all add: newPivotState_def)

lemma decisionOfStatus_simps [simp]:
  "decisionOfStatus PivotDecisionAutoAccepted = CandidatePromotionAccepted"
  "decisionOfStatus PivotDecisionPendingReview = CandidatePromotionPendingReview"
  by (simp_all add: decisionOfStatus_def)

interpretation broker: promotion_policy "promotionRoot net" verdictOf "HandleCandidatePromotion net"
  for net
proof unfold_locales
  fix b :: brokerState and c :: candidatePromotionRequest and d
  obtain br env where b: "b = (br, env)" by (cases b)
  show "fst (HandleCandidatePromotion net c b) = d" if "verdictOf b (promotionRoot net c) = Some d"
    using that by (auto simp: verdictOf_def b HandleCandidatePromotion_def split_def Let_def)
  show "verdictOf (snd (HandleCandidatePromotion net c b))
      = (verdictOf b)(promotionRoot net c \<mapsto> fst (HandleCandidatePromotion net c b))"
    by (rule ext) (auto simp: verdictOf_def b HandleCandidatePromotion_def split_def Let_def update_conv'
        split: option.split)
qed

lemma broker_mode_stays [simp]: "broker_mode (fst (snd (HandleCandidatePromotion net c st))) = broker_mode (fst st)"
  by (auto simp: HandleCandidatePromotion_def split_def Let_def split: option.split)

section \<open>Manual runs\<close>

lemma manual_decision:
  assumes "broker_mode (fst st) = RunModeManual"
  shows "fst (HandleCandidatePromotion net c st) =
    (case verdictOf st (promotionRoot net c) of None \<Rightarrow> CandidatePromotionPendingReview | Some d \<Rightarrow> d)"
  using assms by (auto simp: HandleCandidatePromotion_def verdictOf_def split_def Let_def split: option.split)

lemma accepted_iff: "decisionOfStatus s = CandidatePromotionAccepted \<longleftrightarrow>
    s = PivotDecisionAccepted \<or> s = PivotDecisionAutoAccepted"
  by (simp add: decisionOfStatus_def)

lemma decision_cases:
  "decisionOfStatus s = CandidatePromotionAccepted \<or> decisionOfStatus s = CandidatePromotionRejected
     \<or> decisionOfStatus s = CandidatePromotionPendingReview"
  by (simp add: decisionOfStatus_def)

lemma manual_scheduled_accepted:
  assumes "broker_mode (fst st) = RunModeManual"
    and "res_Scheduled (fst (PromoteSeedCandidate (Some (HandleCandidatePromotion net)) s ev p st))"
  shows "\<exists>pv. map_of (broker_pivots (fst st))
             (promotionRoot net (promotionRequest (seedKey (normalizeSeed s)) (promotedCandidate s ev p))) = Some pv
           \<and> (pp_Status pv = PivotDecisionAccepted \<or> pp_Status pv = PivotDecisionAutoAccepted)"
proof -
  let ?c = "promotionRequest (seedKey (normalizeSeed s)) (promotedCandidate s ev p)"
  have "\<not> declined (Some (HandleCandidatePromotion net)) ?c st"
    using assms(2) unfolding PromoteSeedCandidate_scheduled by blast
  then have no: "fst (HandleCandidatePromotion net ?c st) \<noteq> CandidatePromotionPendingReview"
    "fst (HandleCandidatePromotion net ?c st) \<noteq> CandidatePromotionRejected"
    by (simp_all add: declined_def)
  then obtain d where "verdictOf st (promotionRoot net ?c) = Some d"
    "d \<noteq> CandidatePromotionPendingReview" "d \<noteq> CandidatePromotionRejected"
    unfolding manual_decision [OF assms(1)] by (auto split: option.splits)
  then obtain pv where "map_of (broker_pivots (fst st)) (promotionRoot net ?c) = Some pv" "decisionOfStatus (pp_Status pv) = d"
    by (auto simp: verdictOf_def)
  with \<open>d \<noteq> CandidatePromotionPendingReview\<close> \<open>d \<noteq> CandidatePromotionRejected\<close> show ?thesis
    using decision_cases [of "pp_Status pv"] accepted_iff by blast
qed

section \<open>Pivots from the judges\<close>

text \<open>Identity, decision and candidate of every pivot stay.\<close>

definition samePivot :: "pendingPivotState \<Rightarrow> pendingPivotState \<Rightarrow> bool" where
  "samePivot p q \<longleftrightarrow> pp_ID q = pp_ID p \<and> pp_Status q = pp_Status p \<and> pp_Candidate q = pp_Candidate p
     \<and> pp_CreatedAt q = pp_CreatedAt p \<and> pp_DecisionAt q = pp_DecisionAt p"

definition pivotsStay :: "pivotTable \<Rightarrow> pivotTable \<Rightarrow> bool" where
  "pivotsStay old new \<longleftrightarrow> (\<forall>r p. map_of old r = Some p \<longrightarrow> (\<exists>q. map_of new r = Some q \<and> samePivot p q))"

lemma pivotsStay_refl: "pivotsStay ps ps"
  by (simp add: pivotsStay_def samePivot_def)

lemma pivotsStay_trans: "pivotsStay a b \<Longrightarrow> pivotsStay b c \<Longrightarrow> pivotsStay a c"
proof -
  assume ab: "pivotsStay a b" and bc: "pivotsStay b c"
  show ?thesis
    unfolding pivotsStay_def
  proof (intro allI impI)
    fix r p assume "map_of a r = Some p"
    with ab obtain q where q: "map_of b r = Some q" "samePivot p q" by (auto simp: pivotsStay_def)
    with bc obtain t where "map_of c r = Some t" "samePivot q t" by (auto simp: pivotsStay_def)
    with q(2) show "\<exists>q. map_of c r = Some q \<and> samePivot p q" by (simp add: samePivot_def)
  qed
qed

lemma withJudgement_fields [simp]:
  "pp_ID (withJudgement e x n p) = pp_ID p" "pp_Status (withJudgement e x n p) = pp_Status p"
  "pp_Candidate (withJudgement e x n p) = pp_Candidate p" "pp_CreatedAt (withJudgement e x n p) = pp_CreatedAt p"
  "pp_DecisionAt (withJudgement e x n p) = pp_DecisionAt p"
  by (simp_all add: withJudgement_def)

lemma pivotsStay_update:
  assumes "\<And>p. map_of old k = Some p \<Longrightarrow> samePivot p q"
  shows "pivotsStay old (AList.update k q old)"
  unfolding pivotsStay_def
proof (intro allI impI)
  fix r p assume p: "map_of old r = Some p"
  show "\<exists>q'. map_of (AList.update k q old) r = Some q' \<and> samePivot p q'"
    using p assms [of p] by (cases "r = k") (simp_all add: update_conv' samePivot_def)
qed

lemma hydrateOutcome_stays: "pivotsStay (fst st) (fst (hydrateOutcome net mode now e x st))"
proof -
  obtain pivots env where st: "st = (pivots, env)" by (cases st)
  let ?r = "RegistrableDomain net (out_Root x)"
  have old: "pivotsStay pivots (AList.update ?r (withJudgement e x now p) pivots)" if "map_of pivots ?r = Some p" for p
    by (rule pivotsStay_update) (use that in \<open>simp add: samePivot_def\<close>)
  have new: "pivotsStay pivots (AList.update ?r q pivots)" if "map_of pivots ?r = None" for q
    by (rule pivotsStay_update) (use that in simp)
  show ?thesis
    using old new
    by (cases "map_of pivots ?r") (simp_all add: st hydrateOutcome_def split_def Let_def pivotsStay_refl)
qed

lemma hydrate_outcomes_stay: "pivotsStay (fst st) (fst (fold (\<lambda>x. hydrateOutcome net mode now e x) xs st))"
proof (induction xs arbitrary: st)
  case (Cons x xs)
  show ?case unfolding fold_simps comp_apply by (rule pivotsStay_trans [OF hydrateOutcome_stays Cons.IH])
qed (simp add: pivotsStay_refl)

lemma hydrate_evaluations_stay:
  "pivotsStay (fst st) (fst (fold (\<lambda>e. fold (\<lambda>x. hydrateOutcome net mode now e x) (eval_Outcomes e)) es st))"
proof (induction es arbitrary: st)
  case (Cons e es)
  show ?case unfolding fold_simps comp_apply by (rule pivotsStay_trans [OF hydrate_outcomes_stay Cons.IH])
qed (simp add: pivotsStay_refl)

lemma hydrate_fields:
  "snap_Run (fst (hydratePivotsFromJudges net now pCtx st)) = snap_Run (fst st)"
  "snap_Context (fst (hydratePivotsFromJudges net now pCtx st)) = snap_Context (fst st)"
  "snap_SchedulerState (fst (hydratePivotsFromJudges net now pCtx st)) = snap_SchedulerState (fst st)"
  "snap_Progress (fst (hydratePivotsFromJudges net now pCtx st)) = snap_Progress (fst st)"
  by (simp_all add: hydratePivotsFromJudges_def split_def Let_def)

lemma hydrate_stays: "pivotsStay (snap_Pivots (fst st)) (snap_Pivots (fst (hydratePivotsFromJudges net now pCtx st)))"
  using hydrate_evaluations_stay by (auto simp: hydratePivotsFromJudges_def split_def Let_def)

text \<open>A pivot to review comes from a manual run whose judge was not sure of the discard.\<close>

definition pendingFrom :: "runMode \<Rightarrow> pivotTable \<Rightarrow> pivotTable \<Rightarrow> bool" where
  "pendingFrom mode old new \<longleftrightarrow> (\<forall>(r, p) \<in> set new. pp_Status p = PivotDecisionPendingReview \<longrightarrow>
     hasPendingReview old \<or> (mode = RunModeManual
       \<and> req_Confidence (pp_Candidate p) < manualAutoRejectionConfidenceThreshold))"

lemma set_update_subset: "set (AList.update k v xs) \<subseteq> insert (k, v) (set xs)"
  by (induction xs) auto

lemma judgePivot_fields [simp]:
  "pp_Status (judgePivot r mode x i now) = autoRejectedDiscardStatus mode (out_Confidence x)"
  "req_Confidence (pp_Candidate (judgePivot r mode x i now)) = out_Confidence x"
  by (simp_all add: judgePivot_def)

lemma hydrateOutcome_pending:
  assumes "pendingFrom mode old (fst st)"
  shows "pendingFrom mode old (fst (hydrateOutcome net mode now e x st))"
proof -
  obtain pivots env where st: "st = (pivots, env)" by (cases st)
  let ?r = "RegistrableDomain net (out_Root x)"
  have upd: "pendingFrom mode old (AList.update ?r q pivots)"
    if "pp_Status q = PivotDecisionPendingReview \<Longrightarrow> hasPendingReview old \<or> (mode = RunModeManual
       \<and> req_Confidence (pp_Candidate q) < manualAutoRejectionConfidenceThreshold)" for q
    using that assms set_update_subset [of ?r q pivots] unfolding st pendingFrom_def by fastforce
  show ?thesis
  proof (cases "map_of pivots ?r")
    case None
    have new: "pp_Status (judgePivot ?r mode x i now) = PivotDecisionPendingReview \<Longrightarrow>
        mode = RunModeManual \<and> out_Confidence x < manualAutoRejectionConfidenceThreshold" for i
      by (auto simp: autoRejectedDiscardStatus_def IsConfidenceAtLeast_def split: if_splits)
    have "pendingFrom mode old (AList.update ?r (withJudgement e x now (judgePivot ?r mode x i now)) pivots)" for i
      by (rule upd) (use new in simp)
    with None assms show ?thesis by (simp add: hydrateOutcome_def st split_def Let_def)
  next
    case (Some p)
    from map_of_SomeD [OF this] assms have "pp_Status p = PivotDecisionPendingReview \<Longrightarrow>
        hasPendingReview old \<or> (mode = RunModeManual
       \<and> req_Confidence (pp_Candidate p) < manualAutoRejectionConfidenceThreshold)"
      unfolding st pendingFrom_def by fastforce
    then have "pendingFrom mode old (AList.update ?r (withJudgement e x now p) pivots)"
      by (intro upd) simp
    with Some assms show ?thesis by (simp add: hydrateOutcome_def st split_def Let_def)
  qed
qed

lemma hydrate_pending:
  "pendingFrom (run_Mode (snap_Run (fst st))) (snap_Pivots (fst st))
     (snap_Pivots (fst (hydratePivotsFromJudges net now pCtx st)))"
proof -
  let ?mode = "run_Mode (snap_Run (fst st))" and ?old = "snap_Pivots (fst st)"
  have start: "pendingFrom ?mode ?old ?old"
    unfolding pendingFrom_def hasPendingReview_iff by blast
  have inner: "pendingFrom ?mode ?old (fst s) \<Longrightarrow>
      pendingFrom ?mode ?old (fst (fold (\<lambda>x. hydrateOutcome net ?mode now e x) xs s))" for e xs s
    by (induction xs arbitrary: s) (simp_all add: hydrateOutcome_pending)
  have outer: "pendingFrom ?mode ?old (fst s) \<Longrightarrow>
      pendingFrom ?mode ?old (fst (fold (\<lambda>e. fold (\<lambda>x. hydrateOutcome net ?mode now e x) (eval_Outcomes e)) es s))" for es s
    by (induction es arbitrary: s) (simp_all add: inner)
  show ?thesis
    using outer [of "(?old, snd st)" "JudgeEvaluations pCtx"] start
    by (simp add: hydratePivotsFromJudges_def split_def Let_def)
qed

end
