(* ===== verification/Trace_Text.thy ===== *)
theory Trace_Text
  imports Judges
begin

text \<open>
  The rows and traces of the live read model (\<open>tracing/lineage/types.go\<close>, \<open>asset_projection.go\<close>)
  and the texts they are made of (\<open>tracing/lineage/build.go\<close>): sources, contributors and the items
  for seeds, evidence, DNS, registration, network and enrichment. \<open>time.Time.Format\<close> prints in the
  zone of the value, which is the parameter \<open>zone\<close>.
\<close>

section \<open>Rows and traces\<close>

record evidenceGroup =
  eg_Title :: string
  eg_Items :: "string list"

record assetRow =
  row_AssetID :: string
  row_Identifier :: string
  row_AssetType :: string
  row_DomainKind :: string
  row_RegistrableDomain :: string
  row_ResolutionStatus :: string
  row_OwnershipState :: string
  row_InclusionReason :: string
  row_ASN :: int
  row_Organization :: string
  row_PTR :: string
  row_Source :: string
  row_DiscoveredBy :: string
  row_EnrichedBy :: string
  row_EnumerationID :: string
  row_SeedID :: string
  row_Status :: string
  row_DiscoveryDate :: gotime
  row_Details :: string
  row_EvidenceGroups :: "evidenceGroup list"
  row_TracePath :: string

record traceSection =
  ts_Title :: string
  ts_Items :: "string list"

record traceLink =
  tl_AssetID :: string
  tl_Identifier :: string
  tl_Label :: string
  tl_Description :: string
  tl_TracePath :: string

record traceContributor =
  tc_AssetID :: string
  tc_EnumerationID :: string
  tc_SeedID :: string
  tc_SeedLabel :: string
  tc_Source :: string
  tc_DiscoveryDate :: gotime

record traceNode =
  tn_ID :: string
  tn_ParentID :: string
  tn_Kind :: string
  tn_Label :: string
  tn_Subtitle :: string
  tn_Badges :: "string list"
  tn_LinkedAssetID :: string
  tn_LinkedObservationID :: string
  tn_LinkedRelationID :: string
  tn_Details :: "traceSection list"

record trace =
  tr_AssetID :: string
  tr_Identifier :: string
  tr_AssetType :: string
  tr_Source :: string
  tr_DiscoveredBy :: string
  tr_EnrichedBy :: string
  tr_EnumerationID :: string
  tr_SeedID :: string
  tr_DomainKind :: string
  tr_RegistrableDomain :: string
  tr_ResolutionStatus :: string
  tr_Contributors :: "traceContributor list"
  tr_RootNodeID :: string
  tr_Nodes :: "traceNode list"
  tr_Sections :: "traceSection list"
  tr_Related :: "traceLink list"

section \<open>Formats\<close>

definition itemIf :: "bool \<Rightarrow> string \<Rightarrow> string list" where
  "itemIf cond text = (if cond then [text] else [])"

definition labelled :: "string \<Rightarrow> string \<Rightarrow> string list" where
  "labelled label value = itemIf (value \<noteq> []) (label @ value)"

definition labelledList :: "string \<Rightarrow> string list \<Rightarrow> string list" where
  "labelledList label values = itemIf (length values > 0) (label @ Join values '', '')"

definition show_bool :: "bool \<Rightarrow> string" where
  "show_bool b = (if b then ''true'' else ''false'')"

text \<open>\<open>%.2f\<close> of a value that is not negative: the exact value, rounded to even at a tie.\<close>

definition roundHalfEven :: "rat \<Rightarrow> int" where
  "roundHalfEven x =
     (let n = \<lfloor>x\<rfloor>; r = x - of_int n
      in if r < 1 / 2 then n else if r > 1 / 2 then n + 1 else if even n then n else n + 1)"

definition show_fixed2 :: "float64 \<Rightarrow> string" where
  "show_fixed2 x = (let n = roundHalfEven (100 * x)
                    in show_int (n div 100) @ ''.'' @ pad 2 (show_int (n mod 100)))"

definition FormatDateTime :: "(gotime \<Rightarrow> int) \<Rightarrow> gotime \<Rightarrow> string" where
  "FormatDateTime zone value = (if value = 0 then [] else FormatDaySeconds zone value)"

definition formatTraceLabel :: "string \<Rightarrow> string" where
  "formatTraceLabel value = ReplaceChar CHR ''_'' CHR '' '' value"

definition compactTraceValues :: "string list \<Rightarrow> string list" where
  "compactTraceValues values = filter (\<lambda>v. v \<noteq> [] \<and> \<not> HasSuffix v '':'') (map TrimSpace values)"

definition appendTraceSection :: "traceSection list \<Rightarrow> string \<Rightarrow> string list \<Rightarrow> traceSection list" where
  "appendTraceSection sections title items =
     (if length items = 0 then sections
      else (let clean = filter (\<lambda>v. v \<noteq> []) (map TrimSpace items)
            in if length clean = 0 then sections
               else sections @ [\<lparr>ts_Title = title, ts_Items = clean\<rparr>]))"

definition formatSeedEvidence :: "seedEvidence list \<Rightarrow> string list" where
  "formatSeedEvidence evidence =
     concat (map (\<lambda>item.
       (let parts = labelled [] (ev_Source item) @ labelled [] (ev_Kind item) @ labelled [] (ev_Value item)
                    @ itemIf (ev_Confidence item > 0) (''confidence '' @ show_fixed2 (ev_Confidence item))
                    @ itemIf (ev_Reasoned item) ''reasoned''
        in if length parts = 0 then [] else [''Evidence: '' @ Join parts '' | ''])) evidence)"

section \<open>Lookups\<close>

definition zeroEnumeration :: enumeration where
  "zeroEnumeration = \<lparr>enum_ID = [], enum_SeedID = [], enum_Status = [], enum_CreatedAt = 0,
     enum_UpdatedAt = 0, enum_StartedAt = 0, enum_EndedAt = 0\<rparr>"

text \<open>A Go map read that is not checked gives the zero value for a missing key.\<close>

definition enumAt :: "(string \<rightharpoonup> enumeration) \<Rightarrow> string \<Rightarrow> enumeration" where
  "enumAt m k = (case m k of Some e \<Rightarrow> e | None \<Rightarrow> zeroEnumeration)"

definition seedAt :: "(string \<rightharpoonup> seed) \<Rightarrow> string \<Rightarrow> seed" where
  "seedAt m k = (case m k of Some s \<Rightarrow> s | None \<Rightarrow> zeroSeed)"

section \<open>Sources and contributors\<close>

definition summarizeObservationSourcesByKind :: "assetObservation list \<Rightarrow> observationKind \<Rightarrow> string" where
  "summarizeObservationSourcesByKind observations kind =
     Join (sort (uniqueBy (\<lambda>s. s) {} (filter (\<lambda>s. s \<noteq> [])
       (map (\<lambda>ob. TrimSpace (ToLower (obs_Source ob)))
         (filter (\<lambda>ob. \<not> (kind \<noteq> [] \<and> obs_Kind ob \<noteq> kind)) observations))))) '', ''"

definition SummarizeObservationSources :: "assetObservation list \<Rightarrow> string \<Rightarrow> string \<times> string \<times> string" where
  "SummarizeObservationSources observations fallback =
     (let all = summarizeObservationSourcesByKind observations [];
          discovery = summarizeObservationSourcesByKind observations ObservationKindDiscovery;
          enrichment = summarizeObservationSourcesByKind observations ObservationKindEnrichment
      in (if all = [] then TrimSpace fallback else all,
          if discovery = [] then TrimSpace fallback else discovery,
          enrichment))"

definition uniqueTraceContributorValues ::
  "traceContributor list \<Rightarrow> (traceContributor \<Rightarrow> string) \<Rightarrow> string list" where
  "uniqueTraceContributorValues contributors value =
     uniqueBy (\<lambda>s. s) {} (filter (\<lambda>s. s \<noteq> []) (map (\<lambda>c. TrimSpace (value c)) contributors))"

definition SummarizeContributorValues ::
  "traceContributor list \<Rightarrow> (traceContributor \<Rightarrow> string) \<Rightarrow> string" where
  "SummarizeContributorValues contributors value = Join (uniqueTraceContributorValues contributors value) '', ''"

definition SummarizeTraceStatus ::
  "asset \<Rightarrow> traceContributor list \<Rightarrow> (string \<rightharpoonup> enumeration) \<Rightarrow> string" where
  "SummarizeTraceStatus a contributors enumByID =
     (let statuses = uniqueBy (\<lambda>s. s) {} (filter (\<lambda>s. s \<noteq> [])
            (map (\<lambda>c. TrimSpace (enum_Status (enumAt enumByID (tc_EnumerationID c)))) contributors))
      in if length statuses = 0 then enum_Status (enumAt enumByID (asset_EnumerationID a))
         else Join statuses '', '')"

definition BuildTraceContributors ::
  "asset \<Rightarrow> (string \<rightharpoonup> enumeration) \<Rightarrow> (string \<rightharpoonup> seed) \<Rightarrow> traceContributor list" where
  "BuildTraceContributors a enumByID seedByID =
     (let provenance = (if length (asset_Provenance a) = 0
                        then [\<lparr>prov_AssetID = asset_ID a, prov_EnumerationID = asset_EnumerationID a,
                               prov_Source = asset_Source a, prov_DiscoveryDate = asset_DiscoveryDate a\<rparr>]
                        else asset_Provenance a)
      in map (\<lambda>item.
           (let enum = enumAt enumByID (prov_EnumerationID item);
                s = seedAt seedByID (enum_SeedID enum)
            in \<lparr>tc_AssetID = prov_AssetID item, tc_EnumerationID = prov_EnumerationID item,
                tc_SeedID = enum_SeedID enum,
                tc_SeedLabel = (if seed_CompanyName s = [] then enum_SeedID enum else seed_CompanyName s),
                tc_Source = prov_Source item,
                tc_DiscoveryDate = (if prov_DiscoveryDate item = 0 then asset_DiscoveryDate a
                                    else prov_DiscoveryDate item)\<rparr>)) provenance)"

fun timeBounds :: "gotime list \<Rightarrow> gotime \<Rightarrow> gotime \<Rightarrow> gotime \<times> gotime" where
  "timeBounds [] firstSeen lastSeen = (firstSeen, lastSeen)"
| "timeBounds (t # ts) firstSeen lastSeen =
     (if t = 0 then timeBounds ts firstSeen lastSeen
      else timeBounds ts (if firstSeen = 0 \<or> t < firstSeen then t else firstSeen)
                         (if lastSeen = 0 \<or> t > lastSeen then t else lastSeen))"

definition traceContributorTimeBounds :: "traceContributor list \<Rightarrow> gotime \<times> gotime" where
  "traceContributorTimeBounds contributors = timeBounds (map tc_DiscoveryDate contributors) 0 0"

definition buildContributorTraceItems :: "(gotime \<Rightarrow> int) \<Rightarrow> traceContributor list \<Rightarrow> string list" where
  "buildContributorTraceItems zone contributors =
     concat (map (\<lambda>c.
       (let seedText = tc_SeedID c @ (if tc_SeedLabel c \<noteq> [] \<and> tc_SeedLabel c \<noteq> tc_SeedID c
                                      then '' ('' @ tc_SeedLabel c @ '')'' else []);
            parts = labelled ''asset '' (tc_AssetID c) @ labelled ''source '' (tc_Source c)
                    @ labelled ''enumeration '' (tc_EnumerationID c)
                    @ itemIf (tc_SeedID c \<noteq> []) (''seed '' @ seedText)
                    @ itemIf (tc_DiscoveryDate c \<noteq> 0) (''discovered '' @ FormatDateTime zone (tc_DiscoveryDate c))
        in if length parts = 0 then [] else [Join parts '' | ''])) contributors)"

definition mergedSeedItems :: "(string \<rightharpoonup> seed) \<Rightarrow> string \<Rightarrow> string list" where
  "mergedSeedItems seedByID seedID =
     (let s = seedAt seedByID seedID;
          label = seedID @ (if seed_CompanyName s \<noteq> [] then '' ('' @ seed_CompanyName s @ '')'' else [])
      in [''Seed '' @ label]
         @ labelledList (''Seed '' @ label @ '' | domains '') (seed_Domains s)
         @ labelledList (''Seed '' @ label @ '' | tags '') (seed_Tags s)
         @ map (\<lambda>item. ''Seed '' @ label @ '' | '' @ item) (formatSeedEvidence (seed_Evidence s)))"

definition buildMergedSeedTraceItems :: "traceContributor list \<Rightarrow> (string \<rightharpoonup> seed) \<Rightarrow> string list" where
  "buildMergedSeedTraceItems contributors seedByID =
     concat (map (mergedSeedItems seedByID)
       (uniqueBy (\<lambda>s. s) {} (filter (\<lambda>s. s \<noteq> []) (map (\<lambda>c. TrimSpace (tc_SeedID c)) contributors))))"

section \<open>Assets\<close>

definition buildRDAPTraceItems :: "(gotime \<Rightarrow> int) \<Rightarrow> rdapData \<Rightarrow> string list" where
  "buildRDAPTraceItems zone rdap =
     labelled ''Registrar: '' (rdap_RegistrarName rdap) @ labelled ''Registrar URL: '' (rdap_RegistrarURL rdap)
     @ labelled ''Registrant name: '' (rdap_RegistrantName rdap) @ labelled ''Registrant org: '' (rdap_RegistrantOrg rdap)
     @ labelled ''Registrant email: '' (rdap_RegistrantEmail rdap)
     @ labelledList ''Nameservers: '' (rdap_NameServers rdap)
     @ itemIf (rdap_CreationDate rdap \<noteq> 0) (''Registration created: '' @ FormatDay zone (rdap_CreationDate rdap))
     @ itemIf (rdap_UpdatedDate rdap \<noteq> 0) (''Registration updated: '' @ FormatDay zone (rdap_UpdatedDate rdap))
     @ itemIf (rdap_ExpirationDate rdap \<noteq> 0) (''Registration expires: '' @ FormatDay zone (rdap_ExpirationDate rdap))
     @ labelledList ''Registration status: '' (rdap_Statuses rdap)"

definition buildDomainTraceItems :: "(gotime \<Rightarrow> int) \<Rightarrow> asset \<Rightarrow> string list" where
  "buildDomainTraceItems zone a =
     (let resolution = labelled ''DNS resolution: '' (formatTraceLabel (DomainResolutionStatusForAsset a))
      in case asset_DomainDetails a of
           None \<Rightarrow> resolution
         | Some d \<Rightarrow>
             resolution
             @ labelledList ''DNS records: '' (map (\<lambda>r. rec_Type r @ '' '' @ rec_Value r) (dd_Records d))
             @ itemIf (dd_IsCatchAll d) ''Catch-all detection: true''
             @ (case dd_RDAP d of None \<Rightarrow> [] | Some rdap \<Rightarrow> buildRDAPTraceItems zone rdap))"

definition buildIPTraceItems :: "asset \<Rightarrow> string list" where
  "buildIPTraceItems a =
     (case asset_IPDetails a of
        None \<Rightarrow> []
      | Some ip \<Rightarrow> itemIf (ip_ASN ip \<noteq> 0) (''ASN: '' @ show_int (ip_ASN ip))
          @ labelled ''Organization: '' (ip_Organization ip) @ labelled ''PTR: '' (ip_PTR ip))"

fun formatEnrichmentValue :: "enrichmentValue \<Rightarrow> string" where
  "formatEnrichmentValue (EVString s) = (if s = [] then ''-'' else s)"
| "formatEnrichmentValue (EVStrings ss) = Join ss '', ''"
| "formatEnrichmentValue (EVBool b) = show_bool b"
| "formatEnrichmentValue (EVInt i) = show_int i"
| "formatEnrichmentValue (EVJSON s) = s"

definition buildEnrichmentTraceItems :: "(string \<times> enrichmentValue) list \<Rightarrow> string list" where
  "buildEnrichmentTraceItems enrichment =
     map (\<lambda>key. key @ '': '' @ formatEnrichmentValue (the (map_of enrichment key))) (sort (map fst enrichment))"

end
