(* ===== verification/Projection_Store.thy ===== *)
theory Projection_Store
  imports Run_Records Trace_Text
begin

text \<open>
  \<open>internal/runservice/projection_memory.go\<close> and the lease rules of \<open>worker.go\<close>: the store of
  the live read model, and the execution leases that keep two workers off one run.
\<close>

section \<open>The store\<close>

record memoryProjection =
  mp_Runs :: "string \<rightharpoonup> runRecord"
  mp_Seeds :: "string \<rightharpoonup> (string \<rightharpoonup> seedRecord)"
  mp_Pivots :: "string \<rightharpoonup> (string \<rightharpoonup> pivotRecord)"
  mp_JudgeSummaries :: "string \<rightharpoonup> judgeSummary"
  mp_Events :: "string \<rightharpoonup> eventRecord list"
  mp_Assets :: "string \<rightharpoonup> (string \<rightharpoonup> assetRow)"
  mp_Traces :: "string \<rightharpoonup> (string \<rightharpoonup> trace)"

definition NewMemoryProjectionStore :: memoryProjection where
  "NewMemoryProjectionStore = \<lparr>mp_Runs = Map.empty, mp_Seeds = Map.empty, mp_Pivots = Map.empty,
     mp_JudgeSummaries = Map.empty, mp_Events = Map.empty, mp_Assets = Map.empty, mp_Traces = Map.empty\<rparr>"

definition preserveExecutionLease :: "runRecord \<Rightarrow> runRecord \<Rightarrow> runRecord" where
  "preserveExecutionLease existing incoming =
     (if run_ExecutionLeaseID incoming \<noteq> [] then incoming
      else if run_ExecutionLeaseID existing = [] then incoming
      else incoming\<lparr>run_ExecutionLeaseID := run_ExecutionLeaseID existing,
                    run_ExecutionHeartbeatAt := run_ExecutionHeartbeatAt existing,
                    run_ExecutionLeaseUntil := run_ExecutionLeaseUntil existing\<rparr>)"

definition leaseIsActive :: "runRecord \<Rightarrow> gotime \<Rightarrow> bool" where
  "leaseIsActive run now \<longleftrightarrow> run_ExecutionLeaseID run \<noteq> []
     \<and> (case run_ExecutionLeaseUntil run of None \<Rightarrow> False | Some until \<Rightarrow> until > now)"

definition UpsertRun :: "runRecord \<Rightarrow> memoryProjection \<Rightarrow> memoryProjection" where
  "UpsertRun run s =
     s\<lparr>mp_Runs := (mp_Runs s)(run_ID run \<mapsto>
         (case mp_Runs s (run_ID run) of Some existing \<Rightarrow> preserveExecutionLease existing run | None \<Rightarrow> run))\<rparr>"

text \<open>\<open>m[runID][key] = value\<close>, with the inner map made on first use.\<close>

definition putInner :: "(string \<rightharpoonup> (string \<rightharpoonup> 'v)) \<Rightarrow> string \<Rightarrow> string \<Rightarrow> 'v \<Rightarrow> (string \<rightharpoonup> (string \<rightharpoonup> 'v))" where
  "putInner m runID key v =
     m(runID \<mapsto> (case m runID of None \<Rightarrow> Map.empty | Some inner \<Rightarrow> inner)(key \<mapsto> v))"

definition UpsertSeed :: "string \<Rightarrow> seedRecord \<Rightarrow> memoryProjection \<Rightarrow> memoryProjection" where
  "UpsertSeed runID x s = s\<lparr>mp_Seeds := putInner (mp_Seeds s) runID (sr_ID x) x\<rparr>"

definition UpsertPivot :: "string \<Rightarrow> pivotRecord \<Rightarrow> memoryProjection \<Rightarrow> memoryProjection" where
  "UpsertPivot runID x s = s\<lparr>mp_Pivots := putInner (mp_Pivots s) runID (pr_ID x) x\<rparr>"

definition UpsertJudgeSummary :: "string \<Rightarrow> judgeSummary \<Rightarrow> memoryProjection \<Rightarrow> memoryProjection" where
  "UpsertJudgeSummary runID summary s = s\<lparr>mp_JudgeSummaries := (mp_JudgeSummaries s)(runID \<mapsto> summary)\<rparr>"

definition AppendEvent :: "string \<Rightarrow> eventRecord \<Rightarrow> memoryProjection \<Rightarrow> memoryProjection" where
  "AppendEvent runID e s =
     s\<lparr>mp_Events := (mp_Events s)(runID \<mapsto> (case mp_Events s runID of None \<Rightarrow> [] | Some es \<Rightarrow> es) @ [e])\<rparr>"

definition UpsertAsset :: "string \<Rightarrow> assetRow \<Rightarrow> memoryProjection \<Rightarrow> memoryProjection" where
  "UpsertAsset runID row s = s\<lparr>mp_Assets := putInner (mp_Assets s) runID (row_AssetID row) row\<rparr>"

definition SyncTraces :: "string \<Rightarrow> trace list \<Rightarrow> memoryProjection \<Rightarrow> memoryProjection" where
  "SyncTraces runID traces s =
     s\<lparr>mp_Traces := (mp_Traces s)(runID \<mapsto> fold (\<lambda>t m. m(tr_AssetID t \<mapsto> t)) traces Map.empty)\<rparr>"

section \<open>Leases\<close>

datatype leaseError = RunNotFound string | LeaseMismatch string

definition withLease :: "string \<Rightarrow> gotime \<Rightarrow> int \<Rightarrow> runRecord \<Rightarrow> runRecord" where
  "withLease leaseID now ttl run =
     run\<lparr>run_ExecutionLeaseID := leaseID, run_ExecutionHeartbeatAt := Some now,
         run_ExecutionLeaseUntil := Some (now + ttl)\<rparr>"

definition ClaimRunExecution ::
  "string \<Rightarrow> string \<Rightarrow> gotime \<Rightarrow> int \<Rightarrow> memoryProjection \<Rightarrow> (leaseError + runRecord \<times> bool) \<times> memoryProjection" where
  "ClaimRunExecution runID leaseID now ttl s =
     (case mp_Runs s runID of
        None \<Rightarrow> (Inl (RunNotFound runID), s)
      | Some run \<Rightarrow>
          if leaseIsActive run now \<and> run_ExecutionLeaseID run \<noteq> leaseID then (Inr (run, False), s)
          else (let run' = withLease leaseID now ttl run
                in (Inr (run', True), s\<lparr>mp_Runs := (mp_Runs s)(runID \<mapsto> run')\<rparr>)))"

definition HeartbeatRunExecution ::
  "string \<Rightarrow> string \<Rightarrow> gotime \<Rightarrow> int \<Rightarrow> memoryProjection \<Rightarrow> leaseError option \<times> memoryProjection" where
  "HeartbeatRunExecution runID leaseID now ttl s =
     (case mp_Runs s runID of
        None \<Rightarrow> (Some (RunNotFound runID), s)
      | Some run \<Rightarrow>
          if run_ExecutionLeaseID run \<noteq> leaseID then (Some (LeaseMismatch runID), s)
          else (None, s\<lparr>mp_Runs := (mp_Runs s)(runID \<mapsto> withLease (run_ExecutionLeaseID run) now ttl run)\<rparr>))"

definition ReleaseRunExecution ::
  "string \<Rightarrow> string \<Rightarrow> memoryProjection \<Rightarrow> leaseError option \<times> memoryProjection" where
  "ReleaseRunExecution runID leaseID s =
     (case mp_Runs s runID of
        None \<Rightarrow> (Some (RunNotFound runID), s)
      | Some run \<Rightarrow>
          if run_ExecutionLeaseID run \<noteq> [] \<and> run_ExecutionLeaseID run \<noteq> leaseID
          then (Some (LeaseMismatch runID), s)
          else (None, s\<lparr>mp_Runs := (mp_Runs s)(runID \<mapsto>
                  run\<lparr>run_ExecutionLeaseID := [], run_ExecutionHeartbeatAt := None,
                      run_ExecutionLeaseUntil := None\<rparr>)\<rparr>))"

section \<open>The contract of an execution store\<close>

text \<open>
  What \<open>Worker\<close> relies on. \<open>lease r s\<close> is the lease of the run \<open>r\<close> in \<open>s\<close>: the holder and the
  end, or \<open>None\<close> when the run is free. \<open>claim\<close> says whether the lease was granted.
\<close>

locale execution_store =
  fixes lease :: "string \<Rightarrow> 's \<Rightarrow> (string \<times> gotime) option"
    and claim :: "string \<Rightarrow> string \<Rightarrow> gotime \<Rightarrow> int \<Rightarrow> 's \<Rightarrow> bool \<times> 's"
    and heartbeat :: "string \<Rightarrow> string \<Rightarrow> gotime \<Rightarrow> int \<Rightarrow> 's \<Rightarrow> bool \<times> 's"
    and release :: "string \<Rightarrow> string \<Rightarrow> 's \<Rightarrow> bool \<times> 's"
  assumes claim_held: "lease r s = Some (l', until) \<Longrightarrow> now < until \<Longrightarrow> l \<noteq> l' \<Longrightarrow> claim r l now ttl s = (False, s)"
    and claim_granted: "claim r l now ttl s = (True, s') \<Longrightarrow> l \<noteq> [] \<Longrightarrow> lease r s' = Some (l, now + ttl)"
    and claim_refused: "claim r l now ttl s = (False, s') \<Longrightarrow> s' = s"
    and claim_other: "r' \<noteq> r \<Longrightarrow> lease r' (snd (claim r l now ttl s)) = lease r' s"
    and heartbeat_held: "lease r s = Some (l', until) \<Longrightarrow> l \<noteq> l' \<Longrightarrow> heartbeat r l now ttl s = (False, s)"
    and heartbeat_own: "lease r s = Some (l, until) \<Longrightarrow> lease r (snd (heartbeat r l now ttl s)) = Some (l, now + ttl)"
    and heartbeat_other: "r' \<noteq> r \<Longrightarrow> lease r' (snd (heartbeat r l now ttl s)) = lease r' s"
    and release_held: "lease r s = Some (l', until) \<Longrightarrow> l \<noteq> l' \<Longrightarrow> release r l s = (False, s)"
    and release_other: "r' \<noteq> r \<Longrightarrow> lease r' (snd (release r l s)) = lease r' s"
begin

text \<open>What a worker with the lease ID \<open>l\<close> can do at the time \<open>now\<close>.\<close>

inductive worker_step :: "string \<Rightarrow> gotime \<Rightarrow> 's \<Rightarrow> 's \<Rightarrow> bool" where
  claims: "worker_step l now s (snd (claim r l now ttl s))"
| beats: "worker_step l now s (snd (heartbeat r l now ttl s))"
| releases: "worker_step l now s (snd (release r l s))"

lemma other_worker_keeps:
  assumes "worker_step l now s s'" and "lease r s = Some (l', until)" and "now < until" and "l \<noteq> l'"
  shows "lease r s' = Some (l', until)"
  using assms(1)
proof cases
  case (claims r' ttl)
  then show ?thesis using assms claim_held claim_other by (cases "r' = r") simp_all
next
  case (beats r' ttl)
  then show ?thesis using assms heartbeat_held heartbeat_other by (cases "r' = r") simp_all
next
  case (releases r')
  then show ?thesis using assms release_held release_other by (cases "r' = r") simp_all
qed

inductive others_run :: "string \<Rightarrow> gotime \<Rightarrow> 's \<Rightarrow> 's \<Rightarrow> bool" for l' until where
  nothing: "others_run l' until s s"
| acts: "others_run l' until s t \<Longrightarrow> worker_step l now t u \<Longrightarrow> l \<noteq> l' \<Longrightarrow> now < until \<Longrightarrow> others_run l' until s u"

lemma lease_is_exclusive:
  assumes "others_run l' until s t" and "lease r s = Some (l', until)"
  shows "lease r t = Some (l', until)"
  using assms by (induction rule: others_run.induct) (auto intro: other_worker_keeps)

lemma second_claim_fails:
  assumes "claim r l' start ttl s = (True, s')" and "l' \<noteq> []" and "others_run l' (start + ttl) s' t"
    and "l \<noteq> l'" and "now < start + ttl"
  shows "claim r l now ttl' t = (False, t)"
  using claim_held [OF lease_is_exclusive [OF assms(3) claim_granted [OF assms(1,2)]] assms(5,4)] .

end

definition leaseOf :: "string \<Rightarrow> memoryProjection \<Rightarrow> (string \<times> gotime) option" where
  "leaseOf r s = (case mp_Runs s r of None \<Rightarrow> None
     | Some run \<Rightarrow> if run_ExecutionLeaseID run = [] then None
                    else map_option (Pair (run_ExecutionLeaseID run)) (run_ExecutionLeaseUntil run))"

definition claimed :: "(leaseError + runRecord \<times> bool) \<times> memoryProjection \<Rightarrow> bool \<times> memoryProjection" where
  "claimed x = ((case fst x of Inr (run, ok) \<Rightarrow> ok | Inl e \<Rightarrow> False), snd x)"

definition succeeded :: "leaseError option \<times> memoryProjection \<Rightarrow> bool \<times> memoryProjection" where
  "succeeded x = (fst x = None, snd x)"

lemma leaseOf_Some:
  "leaseOf r s = Some (l, u) \<longleftrightarrow> (\<exists>run. mp_Runs s r = Some run \<and> run_ExecutionLeaseID run = l \<and> l \<noteq> []
     \<and> run_ExecutionLeaseUntil run = Some u)"
  by (auto simp: leaseOf_def split: option.split)

lemma lease_other:
  assumes "r' \<noteq> r"
  shows "leaseOf r' (snd (ClaimRunExecution r l now ttl s)) = leaseOf r' s"
    and "leaseOf r' (snd (HeartbeatRunExecution r l now ttl s)) = leaseOf r' s"
    and "leaseOf r' (snd (ReleaseRunExecution r l s)) = leaseOf r' s"
  using assms by (cases "mp_Runs s r"; simp add: leaseOf_def ClaimRunExecution_def HeartbeatRunExecution_def
      ReleaseRunExecution_def Let_def)+

lemma claim_refused_state:
  "claimed (ClaimRunExecution r l now ttl s) = (False, s') \<Longrightarrow> s' = s"
  by (cases "mp_Runs s r") (auto simp: claimed_def ClaimRunExecution_def Let_def split: if_splits)

lemma claim_granted_lease:
  assumes "claimed (ClaimRunExecution r l now ttl s) = (True, s')" and "l \<noteq> []"
  shows "leaseOf r s' = Some (l, now + ttl)"
proof (cases "mp_Runs s r")
  case None
  with assms(1) show ?thesis by (simp add: claimed_def ClaimRunExecution_def)
next
  case (Some run)
  with assms(1) have "s' = s\<lparr>mp_Runs := (mp_Runs s)(r \<mapsto> withLease l now ttl run)\<rparr>"
    by (simp add: claimed_def ClaimRunExecution_def Let_def split: if_splits)
  then show ?thesis using assms(2) by (simp add: leaseOf_def withLease_def)
qed

lemma held_refuses:
  assumes "leaseOf r s = Some (l', until)" and "l \<noteq> l'"
  shows "now < until \<Longrightarrow> claimed (ClaimRunExecution r l now ttl s) = (False, s)"
    and "succeeded (HeartbeatRunExecution r l now ttl s) = (False, s)"
    and "succeeded (ReleaseRunExecution r l s) = (False, s)"
proof -
  obtain run where run: "mp_Runs s r = Some run" "run_ExecutionLeaseID run = l'" "l' \<noteq> []"
    "run_ExecutionLeaseUntil run = Some until"
    using assms(1) by (auto simp: leaseOf_Some)
  with assms(2) show "now < until \<Longrightarrow> claimed (ClaimRunExecution r l now ttl s) = (False, s)"
    and "succeeded (HeartbeatRunExecution r l now ttl s) = (False, s)"
    and "succeeded (ReleaseRunExecution r l s) = (False, s)"
    by (simp_all add: claimed_def succeeded_def ClaimRunExecution_def HeartbeatRunExecution_def
        ReleaseRunExecution_def leaseIsActive_def)
qed

lemma heartbeat_own_lease:
  assumes "leaseOf r s = Some (l, until)"
  shows "leaseOf r (snd (succeeded (HeartbeatRunExecution r l now ttl s))) = Some (l, now + ttl)"
proof -
  obtain run where "mp_Runs s r = Some run" "run_ExecutionLeaseID run = l" "l \<noteq> []"
    using assms by (auto simp: leaseOf_Some)
  then show ?thesis by (simp add: succeeded_def HeartbeatRunExecution_def leaseOf_def withLease_def)
qed

interpretation memory_leases: execution_store leaseOf
  "\<lambda>r l now ttl s. claimed (ClaimRunExecution r l now ttl s)"
  "\<lambda>r l now ttl s. succeeded (HeartbeatRunExecution r l now ttl s)"
  "\<lambda>r l s. succeeded (ReleaseRunExecution r l s)"
  by (unfold_locales; (simp add: claimed_def succeeded_def lease_other; fail)?;
      (rule held_refuses heartbeat_own_lease; assumption; fail)?;
      (rule claim_granted_lease claim_refused_state; assumption)?)

section \<open>Other laws of the store\<close>

text \<open>A run record written by the service carries no lease and leaves the worker's lease alone.\<close>

lemma UpsertRun_lease:
  assumes "run_ExecutionLeaseID run = []" and "run_ID run \<in> dom (mp_Runs s)" and "run_ExecutionLeaseUntil run = None"
  shows "leaseOf r (UpsertRun run s) = leaseOf r s"
  using assms by (auto simp: leaseOf_def UpsertRun_def preserveExecutionLease_def)

lemma putInner_get:
  "(case putInner m r k v r' of None \<Rightarrow> Map.empty | Some inner \<Rightarrow> inner) k' =
     (if r' = r \<and> k' = k then Some v else (case m r' of None \<Rightarrow> Map.empty | Some inner \<Rightarrow> inner) k')"
  by (auto simp: putInner_def)

lemma SyncTraces_lookup:
  assumes "distinct (map tr_AssetID traces)" and "t \<in> set traces"
  shows "(\<exists>m. mp_Traces (SyncTraces r traces s) r = Some m \<and> m (tr_AssetID t) = Some t)"
proof -
  have absent: "fold (\<lambda>t m. m(tr_AssetID t \<mapsto> t)) ts m k = m k" if "k \<notin> tr_AssetID ` set ts" for ts m k
    using that by (induction ts arbitrary: m) auto
  have "fold (\<lambda>t m. m(tr_AssetID t \<mapsto> t)) traces m (tr_AssetID t) = Some t" for m
    using assms by (induction traces arbitrary: m) (auto simp: absent)
  then show ?thesis by (simp add: SyncTraces_def)
qed

end
