(* ===== verification/Run_Service.thy ===== *)
theory Run_Service
  imports Pivot_Facts Projection_Store Context_Hooks
begin

text \<open>
  The run service: \<open>CreateRun\<close> (\<open>service_create_run.go\<close>), \<open>DecidePivot\<close> (\<open>service_pivots.go\<close>) and
  \<open>ProcessRun\<close> (\<open>service_process_run.go\<close>). The stores, the artifact store, the dispatcher and the
  pipeline factory are interfaces in the code; they are the fields of \<open>services\<close>, functions of a
  world \<open>'s\<close> that each may fail. A run context is carried by pointer in the code: the context and
  the progress the engine works on are those of the snapshot, so they are written back before
  each use of the snapshot.
\<close>

section \<open>The interfaces\<close>

record loadError =
  le_NotExist :: bool
  le_Message :: string

record ('s, 'b) services =
  sv_Load :: "string \<Rightarrow> 's \<Rightarrow> (loadError + snapshot) \<times> 's"
  sv_Save :: "string \<Rightarrow> snapshot \<Rightarrow> 's \<Rightarrow> string option \<times> 's"
  sv_UpsertRun :: "runRecord \<Rightarrow> 's \<Rightarrow> string option \<times> 's"
  sv_UpsertSeed :: "string \<Rightarrow> seedRecord \<Rightarrow> 's \<Rightarrow> string option \<times> 's"
  sv_UpsertPivot :: "string \<Rightarrow> pivotRecord \<Rightarrow> 's \<Rightarrow> string option \<times> 's"
  sv_UpsertJudgeSummary :: "string \<Rightarrow> judgeSummary \<Rightarrow> 's \<Rightarrow> string option \<times> 's"
  sv_AppendEvent :: "string \<Rightarrow> eventRecord \<Rightarrow> 's \<Rightarrow> string option \<times> 's"
  sv_UpsertAsset :: "string \<Rightarrow> assetRow \<Rightarrow> 's \<Rightarrow> string option \<times> 's"
  sv_SyncTraces :: "string \<Rightarrow> trace list \<Rightarrow> 's \<Rightarrow> string option \<times> 's"
  sv_Publish :: "string \<Rightarrow> downloads \<Rightarrow> 's \<Rightarrow> (string + downloads) \<times> 's"
  sv_Enqueue :: "(string \<Rightarrow> 's \<Rightarrow> string option \<times> 's) option"
  sv_pipelineFactory :: "string \<Rightarrow> string + ('b engine \<times> string list)"

datatype serviceError = ErrForbidden string | ErrNotFound string | ErrOther string

fun statusForError :: "serviceError \<Rightarrow> nat" where
  "statusForError (ErrForbidden m) = 403"
| "statusForError (ErrNotFound m) = 404"
| "statusForError (ErrOther m) = 400"

text \<open>
  A chain of calls, each followed by \<open>if err != nil { return fmt.Errorf(label + ": %w", err) }\<close>;
  the first error ends it.
\<close>

type_synonym 's world = "environment \<times> 's"

fun runEffects :: "(string \<times> ('w \<Rightarrow> string option \<times> 'w)) list \<Rightarrow> 'w \<Rightarrow> string option \<times> 'w" where
  "runEffects [] w = (None, w)"
| "runEffects ((label, f) # rest) w =
     (case f w of (None, w') \<Rightarrow> runEffects rest w' | (Some e, w') \<Rightarrow> (Some (label @ '': '' @ e), w'))"

definition onStore :: "('s \<Rightarrow> string option \<times> 's) \<Rightarrow> 's world \<Rightarrow> string option \<times> 's world" where
  "onStore f w = (let (e, s) = f (snd w) in (e, (fst w, s)))"

definition appendEvent ::
  "('s, 'b) services \<Rightarrow> string \<Rightarrow> string \<Rightarrow> string \<Rightarrow> (string \<times> enrichmentValue) list \<Rightarrow> gotime
     \<Rightarrow> 's world \<Rightarrow> string option \<times> 's world" where
  "appendEvent sv runID kind message metadata stamp w =
     (let (i, env) = freshID ''event'' (fst w)
      in onStore (sv_AppendEvent sv runID \<lparr>er_ID = i, er_Kind = kind, er_Message = message,
                    er_Metadata = metadata, er_CreatedAt = stamp\<rparr>) (env, snd w))"

section \<open>Deciding a pivot\<close>

definition acceptedSeedRecord :: "pendingPivotState \<Rightarrow> gotime \<Rightarrow> seedRecord" where
  "acceptedSeedRecord pivot now =
     \<lparr>sr_ID = seed_ID (req_Seed (pp_Candidate pivot)), sr_Source = ''pivot'', sr_PivotID = pp_ID pivot,
      sr_SubmittedAt = now, sr_Seed = req_Seed (pp_Candidate pivot)\<rparr>"

text \<open>The \<open>switch\<close> over the decision: the pivot with its new status and the context.\<close>

definition applyDecision ::
  "('s, 'b) services \<Rightarrow> string \<Rightarrow> pivotDecisionInput \<Rightarrow> gotime \<Rightarrow> pendingPivotState \<Rightarrow> pipelineContext
     \<Rightarrow> 's world \<Rightarrow> (serviceError + pendingPivotState \<times> pipelineContext) \<times> 's world" where
  "applyDecision sv runID decision now pivot ctx w =
     (if decision = PivotDecisionInputAccepted then
        (let pivot1 = pivot\<lparr>pp_Status := PivotDecisionAccepted\<rparr>;
             ctx1 = snd (EnqueueSeed (req_Seed (pp_Candidate pivot)) ctx)
         in case runEffects [(''project accepted seed'',
                   onStore (sv_UpsertSeed sv runID (acceptedSeedRecord pivot1 now)))] w of
              (Some e, w1) \<Rightarrow> (Inl (ErrOther e), w1)
            | (None, w1) \<Rightarrow> (Inr (pivot1, ctx1), w1))
      else if decision = PivotDecisionInputRejected then
        (Inr (pivot\<lparr>pp_Status := PivotDecisionRejected\<rparr>, ctx), w)
      else (Inl (ErrOther (''unsupported pivot decision '' @ Quote decision)), w))"

definition signedPivot :: "authenticatedUser \<Rightarrow> gotime \<Rightarrow> pendingPivotState \<Rightarrow> pendingPivotState" where
  "signedPivot user now pivot =
     pivot\<lparr>pp_UpdatedAt := now, pp_DecisionAt := Some now, pp_DecisionByUID := TrimSpace (user_UID user),
           pp_DecisionByEmail := normalizeEmail (user_Email user)\<rparr>"

definition decidedSnapshot ::
  "(string list \<Rightarrow> string list) \<Rightarrow> string \<Rightarrow> pendingPivotState \<Rightarrow> pipelineContext \<Rightarrow> gotime \<Rightarrow> snapshot \<Rightarrow> snapshot" where
  "decidedSnapshot mapOrder key pivot ctx now snap =
     (let s1 = updateRunCounters mapOrder
                 (snap\<lparr>snap_Context := ctx, snap_Pivots := AList.update key pivot (snap_Pivots snap),
                       snap_SchedulerState := SnapshotSchedulerState ctx\<rparr>);
          status = (if hasPendingReview (snap_Pivots s1) then RunStatusAwaitingReview
                    else if run_Status (snap_Run s1) = RunStatusAwaitingReview then RunStatusQueued
                    else run_Status (snap_Run s1))
      in s1\<lparr>snap_Run := (snap_Run s1)\<lparr>run_Status := status, run_UpdatedAt := now\<rparr>\<rparr>)"

definition publishDecision ::
  "('s, 'b) services \<Rightarrow> netLibrary \<Rightarrow> authenticatedUser \<Rightarrow> string \<Rightarrow> pendingPivotState \<Rightarrow> gotime \<Rightarrow> snapshot
     \<Rightarrow> 's world \<Rightarrow> string option \<times> 's world" where
  "publishDecision sv net user runID pivot now snap =
     runEffects
       ([(''save snapshot'', onStore (sv_Save sv runID snap)),
         (''project run'', onStore (sv_UpsertRun sv (snap_Run snap))),
         (''project pivot'', onStore (sv_UpsertPivot sv runID (buildPivotRecord net pivot))),
         (''project pivot event'', appendEvent sv runID ''pivot_decision''
            (''Pivot '' @ Root net pivot @ '' was '' @ pp_Status pivot @ '' by '' @ user_Email user @ ''.'')
            [(''pivot_id'', EVString (pp_ID pivot)), (''root'', EVString (Root net pivot)),
             (''status'', EVString (pp_Status pivot))] now)]
        @ (case sv_Enqueue sv of
             None \<Rightarrow> []
           | Some enqueue \<Rightarrow> if hasPendingReview (snap_Pivots snap) then []
                             else [(''enqueue resumed run'', onStore (enqueue runID))]))"

definition DecidePivot ::
  "('s, 'b) services \<Rightarrow> netLibrary \<Rightarrow> (string list \<Rightarrow> string list) \<Rightarrow> authenticatedUser \<Rightarrow> string \<Rightarrow> string
     \<Rightarrow> pivotDecisionInput \<Rightarrow> 's world \<Rightarrow> (serviceError + pivotRecord) \<times> 's world" where
  "DecidePivot sv net mapOrder user runID pivotID decision w0 =
     (case sv_Load sv runID (snd w0) of
        (Inl e, s) \<Rightarrow>
          (Inl (if le_NotExist e then ErrNotFound (''run '' @ Quote runID @ '' not found'')
                else ErrOther (''load snapshot: '' @ le_Message e)), (fst w0, s))
      | (Inr snap, s) \<Rightarrow>
          if \<not> userOwnsRun user (snap_Run snap) then (Inl (ErrForbidden ''run access is forbidden''), (fst w0, s))
          else (let ctx = RestoreSchedulerState (snap_SchedulerState snap) (snap_Context snap)
                in case findPivotByID (snap_Pivots snap) pivotID of
                     None \<Rightarrow> (Inl (ErrNotFound (''pivot '' @ Quote pivotID @ '' not found'')), (fst w0, s))
                   | Some (key, pivot) \<Rightarrow>
                       if pp_Status pivot \<noteq> PivotDecisionPendingReview
                       then (Inl (ErrOther (''pivot '' @ Quote pivotID @ '' is not pending review'')), (fst w0, s))
                       else (let (now, env) = readClock (fst w0)
                             in case applyDecision sv runID decision now pivot ctx (env, s) of
                                  (Inl e, w1) \<Rightarrow> (Inl e, w1)
                                | (Inr (pivot1, ctx1), w1) \<Rightarrow>
                                    (let pivot2 = signedPivot user now pivot1;
                                         snap2 = decidedSnapshot mapOrder key pivot2 ctx1 now snap
                                     in case publishDecision sv net user runID pivot2 now snap2 w1 of
                                          (Some e, w2) \<Rightarrow> (Inl (ErrOther e), w2)
                                        | (None, w2) \<Rightarrow> (Inr (buildPivotRecord net pivot2), w2)))))"

section \<open>Creating a run\<close>

definition zoneSuffix :: "int \<Rightarrow> string" where
  "zoneSuffix offset =
     (let m = \<bar>offset\<bar> div 60
      in (if offset < 0 then ''-'' else ''+'') @ pad 2 (show_int (m div 60)) @ pad 2 (show_int (m mod 60)))"

definition BuildRunID :: "(gotime \<Rightarrow> int) \<Rightarrow> gotime \<Rightarrow> string" where
  "BuildRunID zone now =
     (let t = in_zone zone now; c = civil_from_days (t div nanos_per_day);
          s = (t mod nanos_per_day) div nanos_per_sec
      in pad 4 (show_int (cYear c)) @ pad 2 (show_int (cMonth c)) @ pad 2 (show_int (cDay c)) @ ''T''
         @ pad 2 (show_int (s div 3600)) @ pad 2 (show_int (s mod 3600 div 60)) @ pad 2 (show_int (s mod 60))
         @ ''.'' @ pad 9 (show_int (t mod nanos_per_sec)) @ zoneSuffix (zone now))"

fun normalizeSeeds :: "seed list \<Rightarrow> environment \<Rightarrow> seed list \<times> environment" where
  "normalizeSeeds [] env = ([], env)"
| "normalizeSeeds (s # rest) env =
     (if length (seed_Domains s) = 0 \<and> TrimSpace (seed_CompanyName s) = [] then normalizeSeeds rest env
      else (let (s', env') = (if TrimSpace (seed_ID s) = []
                              then (let (i, e) = freshID ''seed'' env in (s\<lparr>seed_ID := i\<rparr>, e))
                              else (s, env));
                (out, env'') = normalizeSeeds rest env'
            in (s' # out, env'')))"

definition newRun :: "string \<Rightarrow> authenticatedUser \<Rightarrow> runMode \<Rightarrow> nat \<Rightarrow> gotime \<Rightarrow> runRecord" where
  "newRun runID user mode seeds now =
     \<lparr>run_ID = runID, run_OwnerUID = TrimSpace (user_UID user), run_OwnerEmail = normalizeEmail (user_Email user),
      run_Mode = mode, run_Status = RunStatusQueued, run_CurrentWave = 0, run_SeedCount = seeds,
      run_EnumerationCount = 0, run_AssetCount = 0, run_PendingPivotCount = 0, run_JudgeEvaluationCount = 0,
      run_JudgeAcceptedCount = 0, run_JudgeDiscardedCount = 0, run_LastError = [], run_Downloads = noDownloads,
      run_CreatedAt = now, run_UpdatedAt = now, run_StartedAt = None, run_CompletedAt = None,
      run_ExecutionLeaseID = [], run_ExecutionHeartbeatAt = None, run_ExecutionLeaseUntil = None\<rparr>"

definition newSnapshot :: "(64 word \<Rightarrow> int) \<Rightarrow> runRecord \<Rightarrow> seed list \<Rightarrow> snapshot" where
  "newSnapshot clock run seeds =
     \<lparr>snap_Run = run,
      snap_Context = SetCandidatePromotionConfidenceThreshold
                       (candidatePromotionConfidenceThreshold (run_Mode run)) (newContext clock seeds),
      snap_SchedulerState = \<lparr>ss_CollectionSeeds = [], ss_PendingSeeds = [], ss_CollectionDepth = 0,
        ss_MaxCollectionDepth = 0, ss_ExtraCollectionWaveReserved = False,
        ss_ExtraCollectionWaveInProgress = False, ss_AISearchExecutedRoots = []\<rparr>,
      snap_Progress = zeroProgress, snap_Pivots = []\<rparr>"

definition submittedSeedRecord :: "gotime \<Rightarrow> seed \<Rightarrow> seedRecord" where
  "submittedSeedRecord now s =
     \<lparr>sr_ID = seed_ID s, sr_Source = ''submitted'', sr_PivotID = [], sr_SubmittedAt = now, sr_Seed = s\<rparr>"

definition publishRun ::
  "('s, 'b) services \<Rightarrow> (string list \<Rightarrow> string list) \<Rightarrow> runMode \<Rightarrow> seed list \<Rightarrow> gotime \<Rightarrow> snapshot
     \<Rightarrow> 's world \<Rightarrow> string option \<times> 's world" where
  "publishRun sv mapOrder mode seeds now snap =
     (let run = snap_Run snap; runID = run_ID run
      in runEffects
       ([(''save snapshot'', onStore (sv_Save sv runID snap)),
         (''project run'', onStore (sv_UpsertRun sv run)),
         (''project judge summary'', onStore (sv_UpsertJudgeSummary sv runID
            (buildProjectedJudgeSummary mapOrder (snap_Context snap))))]
        @ map (\<lambda>s. (''project seed '' @ seed_ID s,
                    onStore (sv_UpsertSeed sv runID (submittedSeedRecord now s)))) seeds
        @ [(''project create event'', appendEvent sv runID ''run_created''
              (''Created '' @ mode @ '' run with '' @ show_nat (length seeds) @ '' seed(s).'') [] now)]
        @ (case sv_Enqueue sv of None \<Rightarrow> [] | Some enqueue \<Rightarrow> [(''enqueue run'', onStore (enqueue runID))])))"

definition CreateRun ::
  "('s, 'b) services \<Rightarrow> (string list \<Rightarrow> string list) \<Rightarrow> (64 word \<Rightarrow> int) \<Rightarrow> (gotime \<Rightarrow> int) \<Rightarrow> authenticatedUser
     \<Rightarrow> createRunRequest \<Rightarrow> 's world \<Rightarrow> (string + runRecord) \<times> 's world" where
  "CreateRun sv mapOrder clock zone user request w0 =
     (let mode = (if cr_Mode request = [] then RunModeAutonomous else cr_Mode request)
      in if mode \<noteq> RunModeAutonomous \<and> mode \<noteq> RunModeManual
         then (Inl (''unsupported run mode '' @ Quote (cr_Mode request)), w0)
         else (let (seeds, env1) = normalizeSeeds (cr_Seeds request) (fst w0)
               in if length seeds = 0 then (Inl ''at least one seed is required'', (env1, snd w0))
                  else (let (now, env2) = readClock env1; runID = BuildRunID zone now
                        in case sv_pipelineFactory sv runID of
                             Inl e \<Rightarrow> (Inl (''build pipeline: '' @ e), (env2, snd w0))
                           | Inr _ \<Rightarrow>
                               (let run = newRun runID user mode (length seeds) now
                                in case publishRun sv mapOrder mode seeds now (newSnapshot clock run seeds) (env2, snd w0) of
                                     (Some e, w1) \<Rightarrow> (Inl e, w1)
                                   | (None, w1) \<Rightarrow> (Inr run, w1)))))"

end
