(* ===== verification/Trace_Build.thy ===== *)
theory Trace_Build
  imports Trace_Text
begin

text \<open>
  The trace of an asset (\<open>tracing/lineage/build.go\<close>): its sections and the tree of nodes for
  the observations, the contributing seeds, the relations and the enrichment stages. The code
  sorts the observations and relations of the asset in place; nothing later depends on their order.
\<close>

section \<open>Details of a group\<close>

definition newSection :: "string \<Rightarrow> string list \<Rightarrow> traceSection" where
  "newSection title items = \<lparr>ts_Title = title, ts_Items = items\<rparr>"

definition distinctValues :: "string list \<Rightarrow> string list" where
  "distinctValues values = sort (uniqueBy (\<lambda>s. s) {} (filter (\<lambda>s. s \<noteq> []) values))"

definition buildObservationGroupTraceDetails ::
  "(gotime \<Rightarrow> int) \<Rightarrow> assetObservation list \<Rightarrow> traceSection list" where
  "buildObservationGroupTraceDetails zone observations =
     (if length observations = 0 then []
      else (let enrichmentCount = length (filter (\<lambda>ob. obs_Kind ob = ObservationKindEnrichment) observations);
                discoveryCount = length (filter (\<lambda>ob. obs_Kind ob \<noteq> ObservationKindEnrichment) observations);
                enumerations = distinctValues (map obs_EnumerationID observations);
                (firstSeen, lastSeen) = timeBounds (map obs_DiscoveryDate observations) 0 0
            in [newSection ''Observation Summary'' (compactTraceValues
                 [''Total observations: '' @ show_nat (length observations),
                  ''Discovery observations: '' @ show_nat discoveryCount,
                  ''Enrichment observations: '' @ show_nat enrichmentCount,
                  ''Sources: '' @ summarizeObservationSourcesByKind observations [],
                  ''Enumerations: '' @ Join enumerations '', '',
                  ''First seen: '' @ FormatDateTime zone firstSeen,
                  ''Last seen: '' @ FormatDateTime zone lastSeen])]))"

record traceSeedGroup =
  sg_Key :: string
  sg_SeedID :: string
  sg_SeedLabel :: string
  sg_Seed :: seed
  sg_Contributors :: "traceContributor list"

text \<open>The first name a contributor has; without one it gets the number of groups there are so far.\<close>

definition seedGroupKey :: "nat \<Rightarrow> traceContributor \<Rightarrow> string" where
  "seedGroupKey groupCount c =
     (if TrimSpace (tc_SeedID c) \<noteq> [] then TrimSpace (tc_SeedID c)
      else if TrimSpace (tc_SeedLabel c) \<noteq> [] then TrimSpace (tc_SeedLabel c)
      else if TrimSpace (tc_AssetID c) \<noteq> [] then TrimSpace (tc_AssetID c)
      else ''unknown-'' @ show_nat groupCount)"

definition newSeedGroup :: "(string \<rightharpoonup> seed) \<Rightarrow> string \<Rightarrow> traceContributor \<Rightarrow> traceSeedGroup" where
  "newSeedGroup seedByID key c =
     (let s = seedAt seedByID (tc_SeedID c)
      in \<lparr>sg_Key = key, sg_SeedID = tc_SeedID c,
          sg_SeedLabel = (if tc_SeedLabel c \<noteq> [] then tc_SeedLabel c
                          else if seed_CompanyName s \<noteq> [] then seed_CompanyName s
                          else if tc_SeedID c \<noteq> [] then tc_SeedID c
                          else ''Unknown Seed''),
          sg_Seed = s, sg_Contributors = []\<rparr>)"

definition joinSeedGroup :: "(string \<rightharpoonup> seed) \<Rightarrow> traceContributor \<Rightarrow> traceSeedGroup \<Rightarrow> traceSeedGroup" where
  "joinSeedGroup seedByID c g =
     g\<lparr>sg_SeedID := (if sg_SeedID g = [] then tc_SeedID c else sg_SeedID g),
       sg_Seed := (if seed_ID (sg_Seed g) = [] \<and> tc_SeedID c \<noteq> [] then seedAt seedByID (tc_SeedID c)
                   else sg_Seed g),
       sg_SeedLabel := (if sg_SeedLabel g = [] \<and> tc_SeedLabel c \<noteq> [] then tc_SeedLabel c
                        else sg_SeedLabel g),
       sg_Contributors := sg_Contributors g @ [c]\<rparr>"

definition addToSeedGroups ::
  "(string \<rightharpoonup> seed) \<Rightarrow> traceContributor \<Rightarrow> traceSeedGroup list \<Rightarrow> traceSeedGroup list" where
  "addToSeedGroups seedByID c groups =
     (let key = seedGroupKey (length groups) c;
          groups1 = (if key \<in> sg_Key ` set groups then groups else groups @ [newSeedGroup seedByID key c])
      in map (\<lambda>g. if sg_Key g = key then joinSeedGroup seedByID c g else g) groups1)"

definition groupTraceContributorsBySeed ::
  "traceContributor list \<Rightarrow> (string \<rightharpoonup> seed) \<Rightarrow> traceSeedGroup list" where
  "groupTraceContributorsBySeed contributors seedByID = fold (addToSeedGroups seedByID) contributors []"

definition buildSeedGroupTraceDetails :: "traceSeedGroup list \<Rightarrow> traceSection list" where
  "buildSeedGroupTraceDetails seedGroups =
     (if length seedGroups = 0 then []
      else (let contributors = concat (map sg_Contributors seedGroups);
                enumerations = distinctValues (map tc_EnumerationID contributors);
                sources = distinctValues (map tc_Source contributors)
            in [newSection ''Seed Summary'' (compactTraceValues
                 [''Unique seeds: '' @ show_nat (length seedGroups),
                  ''Contributors: '' @ show_nat (length contributors),
                  ''Enumerations represented: '' @ show_nat (length enumerations),
                  ''Enumerations: '' @ Join enumerations '', '',
                  ''Sources: '' @ Join sources '', ''])]))"

definition buildSeedTraceDetails :: "(gotime \<Rightarrow> int) \<Rightarrow> traceSeedGroup \<Rightarrow> traceSection list" where
  "buildSeedTraceDetails zone g =
     (let s = sg_Seed g;
          evidence = formatSeedEvidence (seed_Evidence s);
          enumerations = sort (uniqueTraceContributorValues (sg_Contributors g) tc_EnumerationID);
          sources = sort (uniqueTraceContributorValues (sg_Contributors g) tc_Source);
          (firstSeen, lastSeen) = traceContributorTimeBounds (sg_Contributors g);
          sections = [newSection ''Seed'' (compactTraceValues
                        [''Seed ID: '' @ sg_SeedID g, ''Company: '' @ seed_CompanyName s,
                         ''Domains: '' @ Join (seed_Domains s) '', '',
                         ''Tags: '' @ Join (seed_Tags s) '', ''])]
                     @ (if length evidence > 0 then [newSection ''Evidence'' evidence] else [])
      in appendTraceSection sections ''Contribution Summary'' (compactTraceValues
           [''Contributors: '' @ show_nat (length (sg_Contributors g)),
            ''Enumerations represented: '' @ show_nat (length enumerations),
            ''Enumerations: '' @ Join enumerations '', '',
            ''Sources: '' @ Join sources '', '',
            ''First contributed at: '' @ FormatDateTime zone firstSeen,
            ''Last contributed at: '' @ FormatDateTime zone lastSeen]))"

definition buildContributorTraceDetails :: "(gotime \<Rightarrow> int) \<Rightarrow> traceContributor \<Rightarrow> traceSection list" where
  "buildContributorTraceDetails zone c =
     [newSection ''Contributor'' (compactTraceValues
        [''Source: '' @ tc_Source c, ''Enumeration ID: '' @ tc_EnumerationID c,
         ''Originating asset ID: '' @ tc_AssetID c,
         ''Discovered at: '' @ FormatDateTime zone (tc_DiscoveryDate c)])]"

definition buildRelationGroupTraceDetails :: "string \<Rightarrow> assetRelation list \<Rightarrow> traceSection list" where
  "buildRelationGroupTraceDetails assetID relations =
     (if length relations = 0 then []
      else (let kinds = distinctValues (map rel_Kind relations);
                peers = distinctValues (map (\<lambda>r. if rel_ToAssetID r = assetID then rel_FromIdentifier r
                                                 else rel_ToIdentifier r) relations);
                sources = distinctValues (map rel_Source relations)
            in [newSection ''Relation Summary'' (compactTraceValues
                 [''Total relations: '' @ show_nat (length relations),
                  ''Peer assets: '' @ show_nat (length peers),
                  ''Peers: '' @ Join peers '', '',
                  ''Kinds: '' @ Join kinds '', '',
                  ''Sources: '' @ Join sources '', ''])]))"

definition buildEnrichmentGroupTraceDetails :: "(gotime \<Rightarrow> int) \<Rightarrow> asset \<Rightarrow> traceSection list" where
  "buildEnrichmentGroupTraceDetails zone a =
     (let states = asset_EnrichmentStates a;
          names = filter (\<lambda>s. s \<noteq> []) (map (\<lambda>(key, state). TrimSpace (ToLower (es_Status state))) states);
          statuses = sort (map (\<lambda>status. status @ '' ('' @ show_nat (count_list names status) @ '')'')
                             (uniqueBy (\<lambda>s. s) {} names));
          lastUpdated = snd (timeBounds (map (\<lambda>(key, state). es_UpdatedAt state) states) 0 0)
      in [newSection ''Enrichment Summary'' (compactTraceValues
           [''Stages: '' @ show_nat (length states),
            ''Stage names: '' @ Join (sort (map fst states)) '', '',
            ''Statuses: '' @ Join statuses '', '',
            ''Exported fields: '' @ Join (sort (map fst (asset_EnrichmentData a))) '', '',
            ''Latest update: '' @ FormatDateTime zone lastUpdated])])"

section \<open>Details of an observation\<close>

definition zeroAsset :: asset where
  "zeroAsset = \<lparr>asset_ID = [], asset_EnumerationID = [], asset_Type = [], asset_Identifier = [],
     asset_Source = [], asset_DiscoveryDate = 0, asset_Provenance = [], asset_OwnershipState = [],
     asset_InclusionReason = [], asset_EnrichmentStates = [], asset_DomainDetails = None,
     asset_IPDetails = None, asset_EnrichmentData = []\<rparr>"

definition enumerationTraceSections ::
  "(gotime \<Rightarrow> int) \<Rightarrow> enumeration \<Rightarrow> seed \<Rightarrow> traceSection list \<Rightarrow> traceSection list" where
  "enumerationTraceSections zone enum s sections =
     appendTraceSection
       (sections @ [newSection ''Enumeration'' (compactTraceValues
          [''Enumeration ID: '' @ enum_ID enum, ''Status: '' @ enum_Status enum,
           ''Created at: '' @ FormatDateTime zone (enum_CreatedAt enum),
           ''Started at: '' @ FormatDateTime zone (enum_StartedAt enum),
           ''Ended at: '' @ FormatDateTime zone (enum_EndedAt enum),
           ''Seed ID: '' @ enum_SeedID enum])])
       ''Seed Context''
       (compactTraceValues
          [''Seed ID: '' @ seed_ID s, ''Company: '' @ seed_CompanyName s,
           ''Seed domains: '' @ Join (seed_Domains s) '', '',
           ''Seed tags: '' @ Join (seed_Tags s) '', '']
        @ formatSeedEvidence (seed_Evidence s))"

definition enrichmentStateItems :: "(gotime \<Rightarrow> int) \<Rightarrow> string \<times> enrichmentState \<Rightarrow> string list" where
  "enrichmentStateItems zone entry =
     (case entry of (key, state) \<Rightarrow> compactTraceValues
        [''Stage: '' @ key, ''Status: '' @ es_Status state, ''Cached: '' @ show_bool (es_Cached state),
         ''Updated at: '' @ FormatDateTime zone (es_UpdatedAt state), ''Error: '' @ es_Error state])"

text \<open>The entries of a map in the order of its sorted keys.\<close>

definition sortedEntries :: "(string \<times> 'v) list \<Rightarrow> (string \<times> 'v) list" where
  "sortedEntries m = sort_key fst m"

definition buildObservationTraceDetails ::
  "(gotime \<Rightarrow> int) \<Rightarrow> assetObservation \<Rightarrow> (string \<rightharpoonup> enumeration) \<Rightarrow> (string \<rightharpoonup> seed) \<Rightarrow> traceSection list" where
  "buildObservationTraceDetails zone ob enumByID seedByID =
     (let s0 = [newSection ''Observation'' (compactTraceValues
                  [''Observation ID: '' @ obs_ID ob, ''Kind: '' @ obs_Kind ob, ''Type: '' @ obs_Type ob,
                   ''Identifier: '' @ obs_Identifier ob, ''Source: '' @ obs_Source ob,
                   ''Discovered at: '' @ FormatDateTime zone (obs_DiscoveryDate ob),
                   ''Ownership state: '' @ obs_OwnershipState ob,
                   ''Inclusion reason: '' @ obs_InclusionReason ob])];
          enum = enumAt enumByID (obs_EnumerationID ob);
          s1 = (if enum_ID enum \<noteq> []
                then enumerationTraceSections zone enum (seedAt seedByID (enum_SeedID enum)) s0 else s0);
          domainAsset = zeroAsset\<lparr>asset_Type := AssetTypeDomain, asset_Identifier := obs_Identifier ob,
                          asset_DomainDetails := obs_DomainDetails ob,
                          asset_EnrichmentStates := obs_EnrichmentStates ob\<rparr>;
          s2 = (if obs_DomainDetails ob \<noteq> None
                then appendTraceSection s1 ''Domain Evidence'' (buildDomainTraceItems zone domainAsset) else s1);
          ipAsset = zeroAsset\<lparr>asset_Type := AssetTypeIP, asset_Identifier := obs_Identifier ob,
                          asset_IPDetails := obs_IPDetails ob\<rparr>;
          s3 = (if obs_IPDetails ob \<noteq> None
                then appendTraceSection s2 ''Network Evidence'' (buildIPTraceItems ipAsset) else s2);
          s4 = (if length (obs_EnrichmentData ob) > 0
                then appendTraceSection s3 ''Enrichment'' (buildEnrichmentTraceItems (obs_EnrichmentData ob))
                else s3)
      in if length (obs_EnrichmentStates ob) > 0
         then appendTraceSection s4 ''Enrichment State''
                (concat (map (enrichmentStateItems zone) (sortedEntries (obs_EnrichmentStates ob))))
         else s4)"

section \<open>The tree of nodes\<close>

definition groupNode :: "asset \<Rightarrow> string \<Rightarrow> string \<Rightarrow> string \<Rightarrow> traceSection list \<Rightarrow> traceNode" where
  "groupNode a suffix label subtitle details =
     \<lparr>tn_ID = ''asset:'' @ asset_ID a @ suffix, tn_ParentID = ''asset:'' @ asset_ID a, tn_Kind = ''group'',
      tn_Label = label, tn_Subtitle = subtitle, tn_Badges = [], tn_LinkedAssetID = asset_ID a,
      tn_LinkedObservationID = [], tn_LinkedRelationID = [], tn_Details = details\<rparr>"

text \<open>By date, the entries without one last, then by ID: the order of observations and of relations.\<close>

definition datedBefore :: "('a \<Rightarrow> gotime) \<Rightarrow> ('a \<Rightarrow> string) \<Rightarrow> 'a \<Rightarrow> 'a \<Rightarrow> bool" where
  "datedBefore date ident x y =
     (if date x = date y then ident x < ident y
      else if date x = 0 then False
      else if date y = 0 then True
      else date x < date y)"

definition rootNode :: "asset \<Rightarrow> string \<Rightarrow> traceSection list \<Rightarrow> traceNode" where
  "rootNode a allSources sections =
     \<lparr>tn_ID = ''asset:'' @ asset_ID a, tn_ParentID = [], tn_Kind = ''asset'', tn_Label = asset_Identifier a,
      tn_Subtitle = asset_Type a, tn_Badges = compactTraceValues [asset_OwnershipState a, allSources],
      tn_LinkedAssetID = asset_ID a, tn_LinkedObservationID = [], tn_LinkedRelationID = [],
      tn_Details = sections @ [newSection ''Ownership'' (compactTraceValues
        [''Ownership state: '' @ asset_OwnershipState a, ''Inclusion reason: '' @ asset_InclusionReason a])]\<rparr>"

definition observationNode ::
  "(gotime \<Rightarrow> int) \<Rightarrow> string \<Rightarrow> (string \<rightharpoonup> enumeration) \<Rightarrow> (string \<rightharpoonup> seed) \<Rightarrow> assetObservation \<Rightarrow> traceNode" where
  "observationNode zone groupID enumByID seedByID ob =
     \<lparr>tn_ID = ''obs:'' @ obs_ID ob, tn_ParentID = groupID, tn_Kind = ''observation'',
      tn_Label = obs_Source ob, tn_Subtitle = obs_Identifier ob,
      tn_Badges = compactTraceValues [formatTraceLabel (obs_Kind ob),
                    FormatDateTime zone (obs_DiscoveryDate ob), obs_OwnershipState ob],
      tn_LinkedAssetID = obs_AssetID ob, tn_LinkedObservationID = obs_ID ob, tn_LinkedRelationID = [],
      tn_Details = buildObservationTraceDetails zone ob enumByID seedByID\<rparr>"

definition observationNodes ::
  "(gotime \<Rightarrow> int) \<Rightarrow> asset \<Rightarrow> assetObservation list \<Rightarrow> (string \<rightharpoonup> enumeration) \<Rightarrow> (string \<rightharpoonup> seed)
     \<Rightarrow> traceNode list" where
  "observationNodes zone a observations enumByID seedByID =
     (if length observations = 0 then []
      else groupNode a '':observations'' ''Observations''
             (show_nat (length observations) @ '' supporting observations'')
             (buildObservationGroupTraceDetails zone observations)
           # map (observationNode zone (''asset:'' @ asset_ID a @ '':observations'') enumByID seedByID)
               (SliceStable (datedBefore obs_DiscoveryDate obs_ID) observations))"

definition seedNode :: "(gotime \<Rightarrow> int) \<Rightarrow> asset \<Rightarrow> string \<Rightarrow> traceSeedGroup \<Rightarrow> traceNode" where
  "seedNode zone a seedID g =
     \<lparr>tn_ID = ''seed:'' @ seedID, tn_ParentID = ''asset:'' @ asset_ID a @ '':seeds'', tn_Kind = ''seed'',
      tn_Label = sg_SeedLabel g, tn_Subtitle = sg_SeedID g,
      tn_Badges = compactTraceValues [Join (seed_Domains (sg_Seed g)) '', '',
                    show_nat (length (sg_Contributors g)) @ '' contributors''],
      tn_LinkedAssetID = asset_ID a, tn_LinkedObservationID = [], tn_LinkedRelationID = [],
      tn_Details = buildSeedTraceDetails zone g\<rparr>"

definition contributorNode :: "(gotime \<Rightarrow> int) \<Rightarrow> string \<Rightarrow> nat \<times> traceContributor \<Rightarrow> traceNode" where
  "contributorNode zone seedID entry =
     (case entry of (index, c) \<Rightarrow>
        \<lparr>tn_ID = ''seed:'' @ seedID @ '':contributor:'' @ show_nat index, tn_ParentID = ''seed:'' @ seedID,
         tn_Kind = ''contributor'', tn_Label = (if tc_Source c = [] then ''Contributor'' else tc_Source c),
         tn_Subtitle = tc_AssetID c,
         tn_Badges = compactTraceValues [''Enum '' @ tc_EnumerationID c, FormatDateTime zone (tc_DiscoveryDate c)],
         tn_LinkedAssetID = tc_AssetID c, tn_LinkedObservationID = [], tn_LinkedRelationID = [],
         tn_Details = buildContributorTraceDetails zone c\<rparr>)"

definition seedGroupNodes :: "(gotime \<Rightarrow> int) \<Rightarrow> asset \<Rightarrow> traceSeedGroup \<Rightarrow> traceNode list" where
  "seedGroupNodes zone a g =
     (let seedID = (if sg_SeedID g = [] then sg_Key g else sg_SeedID g)
      in seedNode zone a seedID g # map (contributorNode zone seedID) (enumerate 0 (sg_Contributors g)))"

definition seedNodes ::
  "(gotime \<Rightarrow> int) \<Rightarrow> asset \<Rightarrow> traceContributor list \<Rightarrow> (string \<rightharpoonup> seed) \<Rightarrow> traceNode list" where
  "seedNodes zone a contributors seedByID =
     (if length contributors = 0 then []
      else (let seedGroups = groupTraceContributorsBySeed contributors seedByID
            in groupNode a '':seeds'' ''Seed Context''
                 (show_nat (length seedGroups) @ '' contributing seeds'') (buildSeedGroupTraceDetails seedGroups)
               # concat (map (seedGroupNodes zone a) seedGroups)))"

definition relationNode :: "(gotime \<Rightarrow> int) \<Rightarrow> asset \<Rightarrow> assetRelation \<Rightarrow> traceNode" where
  "relationNode zone a r =
     \<lparr>tn_ID = ''rel:'' @ rel_ID r, tn_ParentID = ''asset:'' @ asset_ID a @ '':relations'', tn_Kind = ''relation'',
      tn_Label = (if rel_Label r = [] then rel_Kind r else rel_Label r),
      tn_Subtitle = (if rel_FromAssetID r = asset_ID a then rel_ToIdentifier r
                     else if rel_ToAssetID r = asset_ID a then rel_FromIdentifier r
                     else rel_ToIdentifier r),
      tn_Badges = compactTraceValues [rel_Kind r, rel_Source r, FormatDateTime zone (rel_DiscoveryDate r)],
      tn_LinkedAssetID = asset_ID a, tn_LinkedObservationID = [], tn_LinkedRelationID = rel_ID r,
      tn_Details =
        [newSection ''Relation'' (compactTraceValues
           [''Kind: '' @ rel_Kind r, ''Source: '' @ rel_Source r, ''Reason: '' @ rel_Reason r]),
         newSection ''Endpoints'' (compactTraceValues
           [''From: '' @ rel_FromIdentifier r, ''To: '' @ rel_ToIdentifier r,
            ''Enumeration: '' @ rel_EnumerationID r])]\<rparr>"

definition relationNodes :: "(gotime \<Rightarrow> int) \<Rightarrow> asset \<Rightarrow> assetRelation list \<Rightarrow> traceNode list" where
  "relationNodes zone a relations =
     (if length relations = 0 then []
      else groupNode a '':relations'' ''Relations''
             (show_nat (length relations) @ '' linked discovery edges'')
             (buildRelationGroupTraceDetails (asset_ID a) relations)
           # map (relationNode zone a) (SliceStable (datedBefore rel_DiscoveryDate rel_ID) relations))"

definition enrichmentNode :: "(gotime \<Rightarrow> int) \<Rightarrow> asset \<Rightarrow> string \<times> enrichmentState \<Rightarrow> traceNode" where
  "enrichmentNode zone a entry =
     (case entry of (key, state) \<Rightarrow>
        \<lparr>tn_ID = ''enrich:'' @ asset_ID a @ '':'' @ key, tn_ParentID = ''asset:'' @ asset_ID a @ '':enrichment'',
         tn_Kind = ''enrichment'', tn_Label = key, tn_Subtitle = es_Status state,
         tn_Badges = compactTraceValues [''cached='' @ show_bool (es_Cached state),
                       FormatDateTime zone (es_UpdatedAt state)],
         tn_LinkedAssetID = asset_ID a, tn_LinkedObservationID = [], tn_LinkedRelationID = [],
         tn_Details = [newSection ''Enrichment State'' (compactTraceValues
           [''Stage: '' @ key, ''Status: '' @ es_Status state, ''Cached: '' @ show_bool (es_Cached state),
            ''Error: '' @ es_Error state])]\<rparr>)"

definition enrichmentNodes :: "(gotime \<Rightarrow> int) \<Rightarrow> asset \<Rightarrow> traceNode list" where
  "enrichmentNodes zone a =
     (if length (asset_EnrichmentStates a) > 0 \<or> length (asset_EnrichmentData a) > 0
      then groupNode a '':enrichment'' ''Enrichment'' ''Runtime cache and enrichment results''
             (buildEnrichmentGroupTraceDetails zone a)
           # map (enrichmentNode zone a) (sortedEntries (asset_EnrichmentStates a))
      else [])"

definition buildTraceNodes ::
  "(gotime \<Rightarrow> int) \<Rightarrow> asset \<Rightarrow> string \<Rightarrow> traceSection list \<Rightarrow> traceContributor list \<Rightarrow> assetObservation list
     \<Rightarrow> assetRelation list \<Rightarrow> (string \<rightharpoonup> enumeration) \<Rightarrow> (string \<rightharpoonup> seed) \<Rightarrow> string \<times> traceNode list" where
  "buildTraceNodes zone a allSources sections contributors observations relations enumByID seedByID =
     (''asset:'' @ asset_ID a,
      [rootNode a allSources sections]
      @ observationNodes zone a observations enumByID seedByID
      @ seedNodes zone a contributors seedByID
      @ relationNodes zone a relations
      @ enrichmentNodes zone a)"

section \<open>The trace\<close>

definition BuildTracePath :: "string \<Rightarrow> string \<Rightarrow> string" where
  "BuildTracePath runID assetID = ''#trace/'' @ runID @ ''/'' @ assetID"

definition resultTraceItems ::
  "(gotime \<Rightarrow> int) \<Rightarrow> asset \<Rightarrow> string \<times> string \<times> string \<Rightarrow> string \<Rightarrow> string \<Rightarrow> nat \<Rightarrow> string list" where
  "resultTraceItems zone a sources domainKind registrableDomain contributorCount =
     (case sources of (allSources, discoverySources, enrichmentSources) \<Rightarrow>
        [''Asset ID: '' @ asset_ID a, ''Asset type: '' @ asset_Type a, ''Contributors: '' @ allSources]
        @ labelled ''Discovered by: '' discoverySources
        @ labelled ''Enriched by: '' enrichmentSources
        @ itemIf (contributorCount > 1) (''Merged contributors: '' @ show_nat contributorCount)
        @ itemIf (asset_DiscoveryDate a \<noteq> 0) (''Discovered at: '' @ FormatDateTime zone (asset_DiscoveryDate a))
        @ itemIf (domainKind \<noteq> []) (''Domain kind: '' @ formatTraceLabel domainKind)
        @ labelled ''Registrable domain: '' registrableDomain
        @ itemIf (DomainResolutionStatusForAsset a \<noteq> [])
            (''DNS resolution: '' @ formatTraceLabel (DomainResolutionStatusForAsset a)))"

definition seedTraceItems :: "seed \<Rightarrow> string list" where
  "seedTraceItems s =
     labelled ''Seed ID: '' (seed_ID s) @ labelled ''Company: '' (seed_CompanyName s)
     @ labelledList ''Seed domains: '' (seed_Domains s) @ labelledList ''Seed tags: '' (seed_Tags s)
     @ formatSeedEvidence (seed_Evidence s)"

definition enumerationTraceItems :: "(gotime \<Rightarrow> int) \<Rightarrow> enumeration \<Rightarrow> string list" where
  "enumerationTraceItems zone enum =
     labelled ''Enumeration ID: '' (enum_ID enum) @ labelled ''Status: '' (enum_Status enum)
     @ itemIf (enum_CreatedAt enum \<noteq> 0) (''Created at: '' @ FormatDateTime zone (enum_CreatedAt enum))
     @ itemIf (enum_StartedAt enum \<noteq> 0) (''Started at: '' @ FormatDateTime zone (enum_StartedAt enum))
     @ itemIf (enum_EndedAt enum \<noteq> 0) (''Ended at: '' @ FormatDateTime zone (enum_EndedAt enum))"

definition contributorTraceSections ::
  "(gotime \<Rightarrow> int) \<Rightarrow> traceContributor list \<Rightarrow> (string \<rightharpoonup> enumeration) \<Rightarrow> (string \<rightharpoonup> seed)
     \<Rightarrow> traceSection list \<Rightarrow> traceSection list" where
  "contributorTraceSections zone contributors enumByID seedByID sections =
     (case contributors of
        [] \<Rightarrow> sections
      | [c] \<Rightarrow> appendTraceSection
                 (appendTraceSection sections ''Seed Context'' (seedTraceItems (seedAt seedByID (tc_SeedID c))))
                 ''Enumeration'' (enumerationTraceItems zone (enumAt enumByID (tc_EnumerationID c)))
      | _ \<Rightarrow> appendTraceSection sections ''Seed Context'' (buildMergedSeedTraceItems contributors seedByID))"

definition traceSections ::
  "(gotime \<Rightarrow> int) \<Rightarrow> asset \<Rightarrow> string \<times> string \<times> string \<Rightarrow> string \<Rightarrow> string \<Rightarrow> traceContributor list
     \<Rightarrow> (string \<rightharpoonup> enumeration) \<Rightarrow> (string \<rightharpoonup> seed) \<Rightarrow> traceSection list" where
  "traceSections zone a sources domainKind registrableDomain contributors enumByID seedByID =
     (let s0 = appendTraceSection [] ''Result''
                 (resultTraceItems zone a sources domainKind registrableDomain (length contributors));
          s1 = appendTraceSection s0 ''Contributor Provenance'' (buildContributorTraceItems zone contributors);
          s2 = contributorTraceSections zone contributors enumByID seedByID s1;
          s3 = appendTraceSection s2 ''Domain Evidence'' (buildDomainTraceItems zone a);
          s4 = appendTraceSection s3 ''Network Evidence'' (buildIPTraceItems a)
      in appendTraceSection s4 ''Enrichment'' (buildEnrichmentTraceItems (asset_EnrichmentData a)))"

definition BuildTrace ::
  "(gotime \<Rightarrow> int) \<Rightarrow> asset \<Rightarrow> string \<Rightarrow> string \<Rightarrow> traceContributor list \<Rightarrow> assetObservation list
     \<Rightarrow> assetRelation list \<Rightarrow> (string \<rightharpoonup> enumeration) \<Rightarrow> (string \<rightharpoonup> seed) \<Rightarrow> trace" where
  "BuildTrace zone a domainKind registrableDomain contributors observations relations enumByID seedByID =
     (let sources = SummarizeObservationSources observations (asset_Source a);
          (allSources, discoverySources, enrichmentSources) = sources;
          sections = traceSections zone a sources domainKind registrableDomain contributors enumByID seedByID;
          (rootID, nodes) = buildTraceNodes zone a allSources sections contributors observations relations
                              enumByID seedByID
      in \<lparr>tr_AssetID = asset_ID a, tr_Identifier = asset_Identifier a, tr_AssetType = asset_Type a,
          tr_Source = allSources, tr_DiscoveredBy = discoverySources, tr_EnrichedBy = enrichmentSources,
          tr_EnumerationID = SummarizeContributorValues contributors tc_EnumerationID,
          tr_SeedID = SummarizeContributorValues contributors tc_SeedID,
          tr_DomainKind = domainKind, tr_RegistrableDomain = registrableDomain,
          tr_ResolutionStatus = DomainResolutionStatusForAsset a,
          tr_Contributors = contributors, tr_RootNodeID = rootID, tr_Nodes = nodes,
          tr_Sections = sections, tr_Related = []\<rparr>)"

end
