(* ===== verification/Asset_Projection.thy ===== *)
theory Asset_Projection
  imports Trace_Build Discovery "HOL-Library.Product_Lexorder"
begin

text \<open>
  The classification and the order of assets for the exports (\<open>internal/export/shared\<close>,
  \<open>export/classify.go\<close>), and the rows and traces of the live read model
  (\<open>internal/runservice/asset_projection.go\<close>).
\<close>

section \<open>Classification\<close>

type_synonym domainKind = string

abbreviation DomainKindRegistrable :: domainKind where "DomainKindRegistrable \<equiv> ''registrable''"
abbreviation DomainKindSubdomain :: domainKind where "DomainKindSubdomain \<equiv> ''subdomain''"

record classifiedAsset =
  cls_DomainKind :: domainKind
  cls_RegistrableDomain :: string

definition ClassifyAsset :: "netLibrary \<Rightarrow> asset \<Rightarrow> classifiedAsset" where
  "ClassifyAsset net a =
     (if asset_Type a = AssetTypeDomain then
        (let normalized = NormalizeDomainIdentifier (asset_Identifier a)
         in if normalized = [] then \<lparr>cls_DomainKind = DomainKindRegistrable, cls_RegistrableDomain = []\<rparr>
            else (let registrableDomain = RegistrableDomain net normalized
                  in \<lparr>cls_DomainKind = (if registrableDomain = normalized then DomainKindRegistrable
                                        else DomainKindSubdomain),
                      cls_RegistrableDomain = registrableDomain\<rparr>))
      else \<lparr>cls_DomainKind = [], cls_RegistrableDomain = []\<rparr>)"

definition exportGroupForAsset :: "asset \<Rightarrow> classifiedAsset \<Rightarrow> nat" where
  "exportGroupForAsset a classified =
     (if asset_Type a = AssetTypeDomain
      then (if cls_DomainKind classified = DomainKindSubdomain then 1 else 0)
      else 2)"

definition exportBefore :: "netLibrary \<Rightarrow> asset \<Rightarrow> asset \<Rightarrow> bool" where
  "exportBefore net a b =
     (let left = ClassifyAsset net a; right = ClassifyAsset net b;
          leftID = NormalizeDomainIdentifier (asset_Identifier a);
          rightID = NormalizeDomainIdentifier (asset_Identifier b)
      in if exportGroupForAsset a left \<noteq> exportGroupForAsset b right
         then exportGroupForAsset a left < exportGroupForAsset b right
         else if cls_RegistrableDomain left \<noteq> cls_RegistrableDomain right
         then cls_RegistrableDomain left < cls_RegistrableDomain right
         else if leftID \<noteq> rightID then leftID < rightID
         else if asset_DiscoveryDate a \<noteq> asset_DiscoveryDate b
         then asset_DiscoveryDate a < asset_DiscoveryDate b
         else asset_ID a < asset_ID b)"

definition SortedAssetsForExport :: "netLibrary \<Rightarrow> asset list \<Rightarrow> asset list" where
  "SortedAssetsForExport net as = SliceStable (exportBefore net) as"

record exportAsset =
  ea_Asset :: asset
  ea_DomainKind :: domainKind
  ea_RegistrableDomain :: string

definition BuildJSONExportAssets :: "netLibrary \<Rightarrow> asset list \<Rightarrow> exportAsset list" where
  "BuildJSONExportAssets net as =
     map (\<lambda>a. \<lparr>ea_Asset = a, ea_DomainKind = cls_DomainKind (ClassifyAsset net a),
               ea_RegistrableDomain = cls_RegistrableDomain (ClassifyAsset net a)\<rparr>)
       (SortedAssetsForExport net as)"

definition completeEnumeration :: "gotime \<Rightarrow> enumeration \<Rightarrow> enumeration" where
  "completeEnumeration completedAt e =
     e\<lparr>enum_StartedAt := (if enum_StartedAt e = 0 then enum_CreatedAt e else enum_StartedAt e),
       enum_Status := ''completed'', enum_UpdatedAt := completedAt,
       enum_EndedAt := (if enum_EndedAt e = 0 then completedAt else enum_EndedAt e)\<rparr>"

definition MarkEnumerationsCompleted :: "gotime \<Rightarrow> pipelineContext \<Rightarrow> pipelineContext" where
  "MarkEnumerationsCompleted completedAt p =
     p\<lparr>Enumerations := map (completeEnumeration completedAt) (Enumerations p)\<rparr>"

section \<open>Inputs\<close>

record assetProjectionInputs =
  in_enumByID :: "string \<rightharpoonup> enumeration"
  in_seedByID :: "string \<rightharpoonup> seed"
  in_observationsByAsset :: "string \<Rightarrow> assetObservation list"
  in_relationsByAsset :: "string \<Rightarrow> assetRelation list"

definition buildAssetProjectionInputs :: "pipelineContext \<Rightarrow> assetProjectionInputs" where
  "buildAssetProjectionInputs p =
     \<lparr>in_enumByID = fold (\<lambda>e m. m(enum_ID e \<mapsto> e)) (Enumerations p) Map.empty,
      in_seedByID = fold (\<lambda>s m. m(seed_ID s \<mapsto> s)) (Seeds p) Map.empty,
      in_observationsByAsset =
        (\<lambda>i. if i = [] then [] else filter (\<lambda>ob. obs_AssetID ob = i) (Observations p)),
      in_relationsByAsset =
        (\<lambda>i. if i = [] then []
             else filter (\<lambda>r. rel_FromAssetID r = i \<or> rel_ToAssetID r = i) (Relations p))\<rparr>"

section \<open>Rows\<close>

definition projectedRDAPDetails :: "(gotime \<Rightarrow> int) \<Rightarrow> rdapData \<Rightarrow> string list" where
  "projectedRDAPDetails zone rdap =
     labelled ''Registrar '' (rdap_RegistrarName rdap) @ labelled ''RegistrarURL '' (rdap_RegistrarURL rdap)
     @ labelled ''RegistrantName '' (rdap_RegistrantName rdap)
     @ labelled ''RegistrantOrg '' (rdap_RegistrantOrg rdap)
     @ labelled ''RegistrantEmail '' (rdap_RegistrantEmail rdap)
     @ labelledList ''Nameservers '' (rdap_NameServers rdap)
     @ itemIf (rdap_CreationDate rdap \<noteq> 0) (''Created '' @ FormatDay zone (rdap_CreationDate rdap))
     @ itemIf (rdap_UpdatedDate rdap \<noteq> 0) (''Updated '' @ FormatDay zone (rdap_UpdatedDate rdap))
     @ itemIf (rdap_ExpirationDate rdap \<noteq> 0) (''Expires '' @ FormatDay zone (rdap_ExpirationDate rdap))
     @ labelledList ''RegistrationStatus '' (rdap_Statuses rdap)"

definition recordText :: "dnsRecord \<Rightarrow> string" where
  "recordText r = rec_Type r @ '':'' @ rec_Value r"

text \<open>\<open>asset.EnrichmentData["cidr"].(string)\<close>, empty when it is missing or no string.\<close>

definition cidrOf :: "asset \<Rightarrow> string" where
  "cidrOf a = (case map_of (asset_EnrichmentData a) ''cidr'' of Some (EVString s) \<Rightarrow> s | _ \<Rightarrow> [])"

definition buildProjectedAssetDetails :: "(gotime \<Rightarrow> int) \<Rightarrow> asset \<Rightarrow> string" where
  "buildProjectedAssetDetails zone a =
     Join (labelled ''Ownership '' (asset_OwnershipState a) @ labelled ''Reason '' (asset_InclusionReason a)
           @ labelled ''Resolution '' (DomainResolutionStatusForAsset a)
           @ (case asset_DomainDetails a of None \<Rightarrow> []
              | Some d \<Rightarrow> itemIf (length (dd_Records d) > 0) (''DNS '' @ Join (map recordText (dd_Records d)) ''; '')
                  @ itemIf (dd_IsCatchAll d) ''Catch-all''
                  @ (case dd_RDAP d of None \<Rightarrow> [] | Some rdap \<Rightarrow> projectedRDAPDetails zone rdap))
           @ (case asset_IPDetails a of None \<Rightarrow> []
              | Some ip \<Rightarrow> itemIf (ip_ASN ip \<noteq> 0) (''ASN '' @ show_int (ip_ASN ip))
                  @ labelled ''Org '' (ip_Organization ip) @ labelled ''PTR '' (ip_PTR ip))
           @ labelled ''CIDR '' (cidrOf a)) '' | ''"

definition buildProjectedRegistrationItems :: "(gotime \<Rightarrow> int) \<Rightarrow> rdapData option \<Rightarrow> string list" where
  "buildProjectedRegistrationItems zone details =
     (case details of None \<Rightarrow> []
      | Some rdap \<Rightarrow>
          labelled ''Registrar: '' (rdap_RegistrarName rdap) @ labelled ''Registrar URL: '' (rdap_RegistrarURL rdap)
          @ labelled ''Registrant name: '' (rdap_RegistrantName rdap)
          @ labelled ''Registrant organization: '' (rdap_RegistrantOrg rdap)
          @ labelled ''Registrant email: '' (rdap_RegistrantEmail rdap)
          @ itemIf (rdap_CreationDate rdap \<noteq> 0) (''Created: '' @ FormatDay zone (rdap_CreationDate rdap))
          @ itemIf (rdap_UpdatedDate rdap \<noteq> 0) (''Updated: '' @ FormatDay zone (rdap_UpdatedDate rdap))
          @ itemIf (rdap_ExpirationDate rdap \<noteq> 0) (''Expires: '' @ FormatDay zone (rdap_ExpirationDate rdap))
          @ labelledList ''Status: '' (rdap_Statuses rdap))"

definition evidenceIf :: "string \<Rightarrow> string list \<Rightarrow> evidenceGroup list" where
  "evidenceIf title items = (if length items > 0 then [\<lparr>eg_Title = title, eg_Items = items\<rparr>] else [])"

definition projectedDNSItems :: "asset \<Rightarrow> string list" where
  "projectedDNSItems a =
     (let found = (case asset_DomainDetails a of None \<Rightarrow> []
                   | Some d \<Rightarrow> map recordText (dd_Records d) @ itemIf (dd_IsCatchAll d) ''Catch-all detected'');
          resolution = DomainResolutionStatusForAsset a
      in if length found = 0
         then (if resolution = DomainResolutionStatusUnresolved then [''Unresolved'']
               else if resolution = DomainResolutionStatusLookupFailed then [''Lookup failed''] else [])
         else found)"

definition projectedNetworkItems :: "asset \<Rightarrow> string list" where
  "projectedNetworkItems a =
     (case asset_IPDetails a of None \<Rightarrow> []
      | Some ip \<Rightarrow> itemIf (ip_ASN ip \<noteq> 0) (''ASN: '' @ show_int (ip_ASN ip))
          @ labelled ''Organization: '' (ip_Organization ip) @ labelled ''PTR: '' (ip_PTR ip))
     @ labelled ''CIDR: '' (cidrOf a)"

definition buildProjectedEvidenceGroups :: "(gotime \<Rightarrow> int) \<Rightarrow> asset \<Rightarrow> evidenceGroup list" where
  "buildProjectedEvidenceGroups zone a =
     (if asset_Type a = AssetTypeDomain
      then evidenceIf ''DNS'' (projectedDNSItems a)
           @ (case asset_DomainDetails a of None \<Rightarrow> []
              | Some d \<Rightarrow> evidenceIf ''Registration'' (buildProjectedRegistrationItems zone (dd_RDAP d)))
      else [])
     @ (if asset_Type a = AssetTypeIP then evidenceIf ''Network'' (projectedNetworkItems a) else [])"

definition buildProjectedAssetData ::
  "netLibrary \<Rightarrow> (gotime \<Rightarrow> int) \<Rightarrow> string \<Rightarrow> asset \<Rightarrow> assetProjectionInputs \<Rightarrow> assetRow \<times> trace" where
  "buildProjectedAssetData net zone runID a inputs =
     (let classified = ClassifyAsset net a;
          contributors = BuildTraceContributors a (in_enumByID inputs) (in_seedByID inputs);
          observations = in_observationsByAsset inputs (asset_ID a);
          (allSources, discoverySources, enrichmentSources) =
            SummarizeObservationSources observations (asset_Source a)
      in (\<lparr>row_AssetID = asset_ID a, row_Identifier = asset_Identifier a, row_AssetType = asset_Type a,
           row_DomainKind = cls_DomainKind classified,
           row_RegistrableDomain = cls_RegistrableDomain classified,
           row_ResolutionStatus = DomainResolutionStatusForAsset a,
           row_OwnershipState = asset_OwnershipState a, row_InclusionReason = asset_InclusionReason a,
           row_ASN = (case asset_IPDetails a of None \<Rightarrow> 0 | Some ip \<Rightarrow> ip_ASN ip),
           row_Organization = (case asset_IPDetails a of None \<Rightarrow> [] | Some ip \<Rightarrow> ip_Organization ip),
           row_PTR = (case asset_IPDetails a of None \<Rightarrow> [] | Some ip \<Rightarrow> ip_PTR ip),
           row_Source = (if TrimSpace discoverySources = [] then allSources else discoverySources),
           row_DiscoveredBy = discoverySources, row_EnrichedBy = enrichmentSources,
           row_EnumerationID = SummarizeContributorValues contributors tc_EnumerationID,
           row_SeedID = SummarizeContributorValues contributors tc_SeedID,
           row_Status = SummarizeTraceStatus a contributors (in_enumByID inputs),
           row_DiscoveryDate = asset_DiscoveryDate a, row_Details = buildProjectedAssetDetails zone a,
           row_EvidenceGroups = buildProjectedEvidenceGroups zone a,
           row_TracePath = BuildTracePath runID (asset_ID a)\<rparr>,
          BuildTrace zone a (cls_DomainKind classified) (cls_RegistrableDomain classified) contributors
            observations (in_relationsByAsset inputs (asset_ID a)) (in_enumByID inputs) (in_seedByID inputs)))"

section \<open>Links between rows\<close>

definition splitValues :: "string \<Rightarrow> string list" where
  "splitValues value = uniqueBy (\<lambda>s. s) {} (filter (\<lambda>s. s \<noteq> []) (map TrimSpace (Split value CHR '','')))"

definition hasSharedValue :: "string \<Rightarrow> string \<Rightarrow> bool" where
  "hasSharedValue left right =
     (let leftValues = splitValues left; rightValues = splitValues right
      in if length leftValues = 0 \<or> length rightValues = 0 then False
         else list_ex (\<lambda>v. v \<in> set leftValues) rightValues)"

text \<open>
  One loop over the rows: those that match are linked until there are eight links; \<open>link\<close> makes the
  label and the description.
\<close>

definition traceLinkTo :: "string \<Rightarrow> string \<Rightarrow> string \<Rightarrow> assetRow \<Rightarrow> traceLink" where
  "traceLinkTo runID label description candidate =
     \<lparr>tl_AssetID = row_AssetID candidate, tl_Identifier = row_Identifier candidate, tl_Label = label,
      tl_Description = description, tl_TracePath = BuildTracePath runID (row_AssetID candidate)\<rparr>"

fun linkLoop ::
  "string \<Rightarrow> (assetRow \<Rightarrow> bool) \<Rightarrow> (assetRow \<Rightarrow> traceLink) \<Rightarrow> assetRow list \<Rightarrow> string set \<times> traceLink list
     \<Rightarrow> string set \<times> traceLink list" where
  "linkLoop self matches link [] st = st"
| "linkLoop self matches link (c # rest) (seen, links) =
     (if length links \<ge> 8 then (seen, links)
      else if row_AssetID c = self then linkLoop self matches link rest (seen, links)
      else if matches c \<and> row_AssetID c \<notin> seen
      then linkLoop self matches link rest (insert (row_AssetID c) seen, links @ [link c])
      else linkLoop self matches link rest (seen, links))"

definition sameDomain :: "assetRow \<Rightarrow> assetRow \<Rightarrow> bool" where
  "sameDomain row c \<longleftrightarrow> row_RegistrableDomain row \<noteq> [] \<and> row_RegistrableDomain c = row_RegistrableDomain row"

definition buildTraceLinks :: "string \<Rightarrow> assetRow \<Rightarrow> assetRow list \<Rightarrow> traceLink list" where
  "buildTraceLinks runID row rows =
     snd (linkLoop (row_AssetID row) (\<lambda>c. hasSharedValue (row_EnumerationID row) (row_EnumerationID c))
            (\<lambda>c. traceLinkTo runID ''Same Enumeration'' (''Collected in '' @ row_EnumerationID c) c) rows
            (linkLoop (row_AssetID row) (sameDomain row)
               (\<lambda>c. traceLinkTo runID ''Same Registrable Domain'' (''Shares '' @ row_RegistrableDomain c) c) rows
               ({row_AssetID row}, [])))"

section \<open>The read model\<close>

definition assetRowGroup :: "assetRow \<Rightarrow> nat" where
  "assetRowGroup row =
     (if row_AssetType row = AssetTypeDomain
      then (if row_DomainKind row = DomainKindRegistrable then 0
            else if row_DomainKind row = DomainKindSubdomain then 1 else 2)
      else 2)"

definition rowBefore :: "assetRow \<Rightarrow> assetRow \<Rightarrow> bool" where
  "rowBefore a b =
     (if assetRowGroup a \<noteq> assetRowGroup b then assetRowGroup a < assetRowGroup b
      else if row_RegistrableDomain a \<noteq> row_RegistrableDomain b
      then row_RegistrableDomain a < row_RegistrableDomain b
      else if row_DiscoveryDate a = row_DiscoveryDate b then row_Identifier a < row_Identifier b
      else row_DiscoveryDate a > row_DiscoveryDate b)"

definition buildProjectedAssetReadModel ::
  "netLibrary \<Rightarrow> (gotime \<Rightarrow> int) \<Rightarrow> string \<Rightarrow> pipelineContext \<Rightarrow> assetRow list \<times> trace list" where
  "buildProjectedAssetReadModel net zone runID p =
     (let inputs = buildAssetProjectionInputs p;
          data = map (\<lambda>a. buildProjectedAssetData net zone runID a inputs) (SortedAssetsForExport net (Assets p));
          tracesByAssetID = fold (\<lambda>(row, t) m. m(row_AssetID row \<mapsto> t)) data Map.empty;
          rows = SliceStable rowBefore (map fst data)
      in (rows,
          concat (map (\<lambda>row. case tracesByAssetID (row_AssetID row) of
                              None \<Rightarrow> []
                            | Some t \<Rightarrow> [t\<lparr>tr_Related := buildTraceLinks runID row rows\<rparr>]) rows)))"

definition buildProjectedAssetRow ::
  "netLibrary \<Rightarrow> (gotime \<Rightarrow> int) \<Rightarrow> string \<Rightarrow> pipelineContext \<Rightarrow> string \<Rightarrow> assetRow option" where
  "buildProjectedAssetRow net zone runID p assetID =
     find (\<lambda>row. row_AssetID row = assetID) (fst (buildProjectedAssetReadModel net zone runID p))"

end
