(* ===== verification/Run_Process.thy ===== *)
theory Run_Process
  imports Run_Service Asset_Projection
begin

text \<open>
  \<open>ProcessRun\<close> (\<open>service_process_run.go\<close>), its mutation listener (\<open>listener.go\<close>) and the in-memory
  checkpoint store (\<open>checkpoints.go\<close>). The engine runs on the context of the snapshot, which is
  the first component of the engine state; the second is the world of the processor. The
  listener is called by the context inside each operation: here every atomic step of a stage is
  followed by the delivery of the events it logged.
\<close>

section \<open>The world of a processor\<close>

record projectionListener =
  lst_Run :: runRecord
  lst_Err :: "string option"
  lst_Delivered :: nat

record 's procWorld =
  pw_Snapshot :: snapshot
  pw_Broker :: pivotBroker
  pw_Listener :: projectionListener
  pw_Env :: environment
  pw_Store :: 's

type_synonym 's procState = "'s procWorld engineState"

text \<open>\<open>p.snapshot\<close>, whose context is the one the engine works on.\<close>

definition currentSnapshot :: "'s procState \<Rightarrow> snapshot" where
  "currentSnapshot st = (pw_Snapshot (snd st))\<lparr>snap_Context := fst st\<rparr>"

definition inWorld ::
  "('s world \<Rightarrow> string option \<times> 's world) \<Rightarrow> 's procWorld \<Rightarrow> string option \<times> 's procWorld" where
  "inWorld f pw = (let (e, w) = f (pw_Env pw, pw_Store pw)
                   in (e, pw\<lparr>pw_Env := fst w, pw_Store := snd w\<rparr>))"

text \<open>An event stamped with the clock, read after its ID was drawn.\<close>

definition eventNow ::
  "('s, 'b) services \<Rightarrow> string \<Rightarrow> string \<Rightarrow> string \<Rightarrow> (string \<times> enrichmentValue) list
     \<Rightarrow> 's world \<Rightarrow> string option \<times> 's world" where
  "eventNow sv runID kind message metadata w =
     (let (i, env1) = freshID ''event'' (fst w); (now, env2) = readClock env1
      in onStore (sv_AppendEvent sv runID \<lparr>er_ID = i, er_Kind = kind, er_Message = message,
                    er_Metadata = metadata, er_CreatedAt = now\<rparr>) (env2, snd w))"

section \<open>The listener\<close>

definition newProjectionMutationListener :: "runRecord \<Rightarrow> pipelineContext \<Rightarrow> projectionListener" where
  "newProjectionMutationListener run ctx =
     \<lparr>lst_Run = run, lst_Err = None, lst_Delivered = length (mutationLog ctx)\<rparr>"

definition setErr :: "string \<Rightarrow> 's procWorld \<Rightarrow> 's procWorld" where
  "setErr e pw = (case lst_Err (pw_Listener pw) of
     None \<Rightarrow> pw\<lparr>pw_Listener := (pw_Listener pw)\<lparr>lst_Err := Some e\<rparr>\<rparr> | Some _ \<Rightarrow> pw)"

text \<open>One call of the projection: its error, with a label, is kept when it is the first one.\<close>

definition listenerCall ::
  "string \<Rightarrow> ('s world \<Rightarrow> string option \<times> 's world) \<Rightarrow> 's procWorld \<Rightarrow> bool \<times> 's procWorld" where
  "listenerCall label f pw =
     (case inWorld f pw of (None, pw') \<Rightarrow> (True, pw') | (Some e, pw') \<Rightarrow> (False, setErr (label @ '': '' @ e) pw'))"

definition syncRunProjection ::
  "('s, 'b) services \<Rightarrow> (string list \<Rightarrow> string list) \<Rightarrow> pipelineContext \<Rightarrow> 's procWorld \<Rightarrow> 's procWorld" where
  "syncRunProjection sv mapOrder readModel pw =
     (let l = pw_Listener pw;
          (now, env) = readClock (pw_Env pw);
          run = (applyProjectedRunMetrics readModel (run_PendingPivotCount (lst_Run l))
                  (buildProjectedJudgeSummary mapOrder readModel) (lst_Run l))\<lparr>run_UpdatedAt := now\<rparr>
      in snd (listenerCall ''project run counts'' (onStore (sv_UpsertRun sv run))
               (pw\<lparr>pw_Listener := l\<lparr>lst_Run := run\<rparr>, pw_Env := env\<rparr>)))"

definition onAssetUpsert ::
  "('s, 'b) services \<Rightarrow> netLibrary \<Rightarrow> (gotime \<Rightarrow> int) \<Rightarrow> (string list \<Rightarrow> string list) \<Rightarrow> pipelineContext \<Rightarrow> asset
     \<Rightarrow> 's procWorld \<Rightarrow> 's procWorld" where
  "onAssetUpsert sv net zone mapOrder ctx a pw =
     (let readModel = SnapshotReadModel ctx; runID = run_ID (lst_Run (pw_Listener pw))
      in case buildProjectedAssetRow net zone runID readModel (asset_ID a) of
           None \<Rightarrow> pw
         | Some row \<Rightarrow>
             (case listenerCall (''project asset '' @ asset_ID a) (onStore (sv_UpsertAsset sv runID row)) pw of
                (False, pw') \<Rightarrow> pw'
              | (True, pw') \<Rightarrow> syncRunProjection sv mapOrder readModel pw'))"

definition listenerEvent ::
  "('s, 'b) services \<Rightarrow> string \<Rightarrow> string \<Rightarrow> string \<Rightarrow> (string \<times> enrichmentValue) list \<Rightarrow> 's procWorld
     \<Rightarrow> bool \<times> 's procWorld" where
  "listenerEvent sv label kind message metadata pw =
     listenerCall label (eventNow sv (run_ID (lst_Run (pw_Listener pw))) kind message metadata) pw"

definition onObservationAdded :: "('s, 'b) services \<Rightarrow> assetObservation \<Rightarrow> 's procWorld \<Rightarrow> 's procWorld" where
  "onObservationAdded sv ob pw =
     snd (listenerEvent sv (''project observation event '' @ obs_ID ob) ''observation_added''
       (''Observation '' @ obs_ID ob @ '' recorded for '' @ obs_Identifier ob @ ''.'')
       [(''observation_id'', EVString (obs_ID ob)), (''asset_id'', EVString (obs_AssetID ob)),
        (''identifier'', EVString (obs_Identifier ob)), (''source'', EVString (obs_Source ob))] pw)"

definition onRelationAdded :: "('s, 'b) services \<Rightarrow> assetRelation \<Rightarrow> 's procWorld \<Rightarrow> 's procWorld" where
  "onRelationAdded sv r pw =
     snd (listenerEvent sv (''project relation event '' @ rel_ID r) ''relation_added''
       (''Relation '' @ rel_ID r @ '' linked '' @ rel_FromIdentifier r @ '' to '' @ rel_ToIdentifier r @ ''.'')
       [(''relation_id'', EVString (rel_ID r)), (''kind'', EVString (rel_Kind r)),
        (''source'', EVString (rel_Source r))] pw)"

definition onJudgeEvaluationRecorded ::
  "('s, 'b) services \<Rightarrow> (string list \<Rightarrow> string list) \<Rightarrow> pipelineContext \<Rightarrow> judgeEvaluation \<Rightarrow> 's procWorld \<Rightarrow> 's procWorld" where
  "onJudgeEvaluationRecorded sv mapOrder ctx e pw =
     (case listenerEvent sv (''project judge event from '' @ eval_Collector e) ''judge_evaluation''
             (''Recorded '' @ show_nat (length (eval_Outcomes e)) @ '' judge outcome(s) from '' @ eval_Collector e @ ''.'')
             [(''collector'', EVString (eval_Collector e)), (''seed_id'', EVString (eval_SeedID e)),
              (''scenario'', EVString (eval_Scenario e))] pw of
        (False, pw1) \<Rightarrow> pw1
      | (True, pw1) \<Rightarrow>
          (let readModel = SnapshotReadModel ctx
           in case listenerCall ''project judge summary''
                     (onStore (sv_UpsertJudgeSummary sv (run_ID (lst_Run (pw_Listener pw1)))
                        (buildProjectedJudgeSummary mapOrder readModel))) pw1 of
                (False, pw2) \<Rightarrow> pw2
              | (True, pw2) \<Rightarrow> syncRunProjection sv mapOrder readModel pw2))"

definition onExecutionEvent :: "('s, 'b) services \<Rightarrow> executionEvent \<Rightarrow> 's procWorld \<Rightarrow> 's procWorld" where
  "onExecutionEvent sv e pw =
     snd (listenerEvent sv (''project execution event '' @ event_Kind e) (event_Kind e) (event_Message e)
            (event_Metadata e) pw)"

fun onMutation ::
  "('s, 'b) services \<Rightarrow> netLibrary \<Rightarrow> (gotime \<Rightarrow> int) \<Rightarrow> (string list \<Rightarrow> string list) \<Rightarrow> pipelineContext
     \<Rightarrow> mutationEvent \<Rightarrow> 's procWorld \<Rightarrow> 's procWorld" where
  "onMutation sv net zone mo ctx (OnAssetUpsert a) pw = onAssetUpsert sv net zone mo ctx a pw"
| "onMutation sv net zone mo ctx (OnObservationAdded ob) pw = onObservationAdded sv ob pw"
| "onMutation sv net zone mo ctx (OnRelationAdded r) pw = onRelationAdded sv r pw"
| "onMutation sv net zone mo ctx (OnJudgeEvaluationRecorded e) pw = onJudgeEvaluationRecorded sv mo ctx e pw"
| "onMutation sv net zone mo ctx (OnExecutionEvent e) pw = onExecutionEvent sv e pw"

text \<open>The events logged since the last delivery, in their order.\<close>

definition deliver ::
  "('s, 'b) services \<Rightarrow> netLibrary \<Rightarrow> (gotime \<Rightarrow> int) \<Rightarrow> (string list \<Rightarrow> string list) \<Rightarrow> 's procState \<Rightarrow> 's procState" where
  "deliver sv net zone mo st =
     (let (ctx, pw) = st;
          pw1 = fold (onMutation sv net zone mo ctx) (drop (lst_Delivered (pw_Listener pw)) (mutationLog ctx)) pw
      in (ctx, pw1\<lparr>pw_Listener := (pw_Listener pw1)\<lparr>lst_Delivered := length (mutationLog ctx)\<rparr>\<rparr>))"

primrec listened :: "('s \<Rightarrow> 's) \<Rightarrow> 's thread \<Rightarrow> 's thread" where
  "listened f (Done e) = Done e"
| "listened f (Panicked m) = Panicked m"
| "listened f (Step act rest) = Step (\<lambda>s. f (act s)) (\<lambda>s. listened f (rest s))"

definition listenedNodes :: "('b engineState \<Rightarrow> 'b engineState) \<Rightarrow> 'b engineNode list \<Rightarrow> 'b engineNode list" where
  "listenedNodes f ns = map (\<lambda>n. n\<lparr>node_Process := listened f (node_Process n)\<rparr>) ns"

definition listenedEngine :: "('b engineState \<Rightarrow> 'b engineState) \<Rightarrow> 'b engine \<Rightarrow> 'b engine" where
  "listenedEngine f e =
     \<lparr>Collectors = listenedNodes f (Collectors e), Enrichers = listenedNodes f (Enrichers e),
      Expanders = listenedNodes f (Expanders e), Reconsiderers = listenedNodes f (Reconsiderers e),
      Filters = listenedNodes f (Filters e), Exporters = listenedNodes f (Exporters e)\<rparr>"

section \<open>Projecting a snapshot\<close>

text \<open>The calls on the projection, in the order of the code.\<close>

definition projectionCalls ::
  "('s, 'b) services \<Rightarrow> netLibrary \<Rightarrow> (gotime \<Rightarrow> int) \<Rightarrow> judgeSummary \<Rightarrow> snapshot
     \<Rightarrow> (string \<times> ('s world \<Rightarrow> string option \<times> 's world)) list" where
  "projectionCalls sv net zone summary snap =
     (let runID = run_ID (snap_Run snap);
          (rows, traces) = buildProjectedAssetReadModel net zone runID (snap_Context snap)
      in [(''upsert run'', onStore (sv_UpsertRun sv (snap_Run snap))),
          (''upsert judge summary'', onStore (sv_UpsertJudgeSummary sv runID summary))]
         @ map (\<lambda>row. (''upsert asset '' @ row_AssetID row, onStore (sv_UpsertAsset sv runID row))) rows
         @ [(''sync traces'', onStore (sv_SyncTraces sv runID traces))]
         @ map (\<lambda>p. (''upsert pivot '' @ pp_ID p, onStore (sv_UpsertPivot sv runID (buildPivotRecord net p))))
             (sortedPivotStates (snap_Pivots snap)))"

definition projectSnapshot ::
  "('s, 'b) services \<Rightarrow> netLibrary \<Rightarrow> (gotime \<Rightarrow> int) \<Rightarrow> (string list \<Rightarrow> string list) \<Rightarrow> snapshot
     \<Rightarrow> 's world \<Rightarrow> (string option \<times> snapshot) \<times> 's world" where
  "projectSnapshot sv net zone mapOrder snap w =
     (let summary = buildProjectedJudgeSummary mapOrder (snap_Context snap);
          snap1 = snap\<lparr>snap_Run := applyProjectedRunMetrics (snap_Context snap)
                          (countPendingPivots (snap_Pivots snap)) summary (snap_Run snap)\<rparr>;
          (e, w') = runEffects (projectionCalls sv net zone summary snap1) w
      in ((e, snap1), w'))"

text \<open>\<open>checkpoints.Save\<close> followed by \<open>projectSnapshot\<close>: which of the two failed, and how.\<close>

datatype persisted = Persisted | SaveFailed string | ProjectFailed string

definition saveAndProject ::
  "('s, 'b) services \<Rightarrow> netLibrary \<Rightarrow> (gotime \<Rightarrow> int) \<Rightarrow> (string list \<Rightarrow> string list) \<Rightarrow> string \<Rightarrow> snapshot
     \<Rightarrow> 's world \<Rightarrow> (persisted \<times> snapshot) \<times> 's world" where
  "saveAndProject sv net zone mapOrder runID snap w =
     (case onStore (sv_Save sv runID snap) w of
        (Some e, w1) \<Rightarrow> ((SaveFailed e, snap), w1)
      | (None, w1) \<Rightarrow>
          (case projectSnapshot sv net zone mapOrder snap w1 of
             ((Some e, snap1), w2) \<Rightarrow> ((ProjectFailed e, snap1), w2)
           | ((None, snap1), w2) \<Rightarrow> ((Persisted, snap1), w2)))"

section \<open>Starting\<close>

definition loadedSnapshot :: "snapshot \<Rightarrow> snapshot" where
  "loadedSnapshot snap =
     snap\<lparr>snap_Context := SetCandidatePromotionConfidenceThreshold
             (candidatePromotionConfidenceThreshold (run_Mode (snap_Run snap)))
             (RestoreSchedulerState (snap_SchedulerState snap) (snap_Context snap))\<rparr>"

definition loadBroker :: "snapshot \<Rightarrow> pivotBroker" where
  "loadBroker snap = newPivotBroker (run_Mode (snap_Run snap)) (snap_Pivots snap)"

text \<open>\<open>buildDownloads\<close>: the last output of each kind.\<close>

definition addDownload :: "string \<Rightarrow> downloads \<Rightarrow> downloads" where
  "addDownload output d =
     (if HasSuffix (ToLower output) ''.json'' then d\<lparr>dl_JSON := output\<rparr>
      else if HasSuffix (ToLower output) ''.csv'' then d\<lparr>dl_CSV := output\<rparr>
      else if HasSuffix (ToLower output) ''.xlsx'' then d\<lparr>dl_XLSX := output\<rparr>
      else d)"

definition buildDownloads :: "string list \<Rightarrow> downloads" where
  "buildDownloads outputs = fold addDownload outputs noDownloads"

definition markRunning ::
  "('s, 'b) services \<Rightarrow> (string list \<Rightarrow> string list) \<Rightarrow> string \<Rightarrow> snapshot \<Rightarrow> 's world
     \<Rightarrow> (string option \<times> snapshot) \<times> 's world" where
  "markRunning sv mapOrder runID snap w =
     (let (now, env) = readClock (fst w);
          run = snap_Run snap;
          snap1 = updateRunCounters mapOrder (snap\<lparr>snap_Run := run\<lparr>run_Status := RunStatusRunning,
                    run_UpdatedAt := now,
                    run_StartedAt := (case run_StartedAt run of None \<Rightarrow> Some now | Some t \<Rightarrow> Some t)\<rparr>\<rparr>);
          (e, w') = runEffects
            [(''project running state'', onStore (sv_UpsertRun sv (snap_Run snap1))),
             (''project start event'', appendEvent sv runID ''run_started''
                (''Run '' @ runID @ '' started in '' @ run_Mode (snap_Run snap1) @ '' mode.'') [] now)] (env, snd w)
      in ((e, snap1), w'))"

section \<open>Checkpoints\<close>

definition checkpointName :: "checkpoint \<Rightarrow> string" where
  "checkpointName cp =
     (case cp of CheckpointAfterCollectionWave \<Rightarrow> ''after_collection_wave''
      | CheckpointAfterReconsider \<Rightarrow> ''after_reconsideration''
      | CheckpointAfterExtraWave \<Rightarrow> ''after_extra_wave'')"

text \<open>The snapshot a checkpoint stores, and the clock and IDs it used.\<close>

definition checkpointSnapshot ::
  "netLibrary \<Rightarrow> (string list \<Rightarrow> string list) \<Rightarrow> runProgress \<Rightarrow> pivotBroker \<Rightarrow> snapshot \<Rightarrow> environment
     \<Rightarrow> snapshot \<times> environment" where
  "checkpointSnapshot net mapOrder progress broker snap env =
     (let ctx = snap_Context snap;
          snap1 = snap\<lparr>snap_Progress := progress, snap_SchedulerState := SnapshotSchedulerState ctx,
                       snap_Pivots := brokerSnapshot broker\<rparr>;
          (now, env1) = readClock env;
          (snap2, env2) = hydratePivotsFromJudges net now ctx (snap1, env1);
          snap3 = updateRunCounters mapOrder snap2;
          (now', env3) = readClock env2
      in (snap3\<lparr>snap_Run := (snap_Run snap3)\<lparr>run_CurrentWave := Wave progress, run_UpdatedAt := now',
            run_Status := (if hasPendingReview (snap_Pivots snap3) then RunStatusAwaitingReview
                           else RunStatusRunning)\<rparr>\<rparr>, env3))"

definition procAfterCheckpoint ::
  "('s, 'b) services \<Rightarrow> netLibrary \<Rightarrow> (gotime \<Rightarrow> int) \<Rightarrow> (string list \<Rightarrow> string list) \<Rightarrow> string
     \<Rightarrow> checkpoint \<Rightarrow> runProgress \<Rightarrow> 's procState \<Rightarrow> (bool \<times> string option) \<times> 's procState" where
  "procAfterCheckpoint sv net zone mapOrder runID cp progress st0 =
     (let st = deliver sv net zone mapOrder st0;
          pw = snd st;
          (snap, env) = checkpointSnapshot net mapOrder progress (pw_Broker pw) (currentSnapshot st) (pw_Env pw);
          ((r, snap1), w1) = saveAndProject sv net zone mapOrder runID snap (env, pw_Store pw);
          pw1 = pw\<lparr>pw_Snapshot := snap1, pw_Env := fst w1, pw_Store := snd w1\<rparr>
      in case r of
           SaveFailed e \<Rightarrow> ((False, Some (''save checkpoint: '' @ e)), (fst st, pw1))
         | ProjectFailed e \<Rightarrow> ((False, Some e), (fst st, pw1))
         | Persisted \<Rightarrow>
             (let (e, pw2) = inWorld (eventNow sv runID ''checkpoint''
                    (''Reached '' @ checkpointName cp @ '' at wave '' @ show_int (Wave progress) @ ''.'')
                    [(''checkpoint'', EVString (checkpointName cp)), (''wave'', EVInt (Wave progress))]) pw1
              in case e of
                   Some m \<Rightarrow> ((False, Some (''project checkpoint event: '' @ m)), (fst st, pw2))
                 | None \<Rightarrow> ((hasPendingReview (snap_Pivots snap1), None), (fst st, pw2))))"

section \<open>Ending\<close>

definition originalError :: "string \<Rightarrow> string \<Rightarrow> string \<Rightarrow> string \<Rightarrow> string" where
  "originalError label e kind original = label @ '': '' @ e @ '' ('' @ kind @ '' error: '' @ original @ '')''"

text \<open>The run failed: its status, the error and the pivots of the broker, before it is stored.\<close>

definition failedSnapshot ::
  "(string list \<Rightarrow> string list) \<Rightarrow> string \<Rightarrow> gotime \<Rightarrow> pivotTable \<Rightarrow> snapshot \<Rightarrow> snapshot" where
  "failedSnapshot mapOrder lastError failedAt pivots snap =
     updateRunCounters mapOrder
       (snap\<lparr>snap_Run := (snap_Run snap)\<lparr>run_Status := RunStatusFailed, run_LastError := lastError,
               run_UpdatedAt := failedAt\<rparr>,
             snap_SchedulerState := SnapshotSchedulerState (snap_Context snap), snap_Pivots := pivots\<rparr>)"

definition persistPipelineFailure ::
  "('s, 'b) services \<Rightarrow> netLibrary \<Rightarrow> (gotime \<Rightarrow> int) \<Rightarrow> (string list \<Rightarrow> string list) \<Rightarrow> string \<Rightarrow> string
     \<Rightarrow> pivotBroker \<Rightarrow> snapshot \<Rightarrow> 's world \<Rightarrow> string option \<times> 's world" where
  "persistPipelineFailure sv net zone mapOrder runID runErr broker snap w =
     (let (failedAt, env) = readClock (fst w);
          snap1 = failedSnapshot mapOrder runErr failedAt (brokerSnapshot broker) snap;
          ((r, _), w1) = saveAndProject sv net zone mapOrder runID snap1 (env, snd w)
      in (Some (case r of
            SaveFailed e \<Rightarrow> originalError ''save failed snapshot'' e ''original'' runErr
          | ProjectFailed e \<Rightarrow> originalError ''project failed run'' e ''original'' runErr
          | Persisted \<Rightarrow> runErr), w1))"

definition persistArtifactFailure ::
  "('s, 'b) services \<Rightarrow> netLibrary \<Rightarrow> (gotime \<Rightarrow> int) \<Rightarrow> (string list \<Rightarrow> string list) \<Rightarrow> string \<Rightarrow> string
     \<Rightarrow> pivotBroker \<Rightarrow> snapshot \<Rightarrow> 's world \<Rightarrow> string option \<times> 's world" where
  "persistArtifactFailure sv net zone mapOrder runID publishErr broker snap w =
     (let (failedAt, env) = readClock (fst w);
          lastError = ''publish artifacts: '' @ publishErr;
          snap1 = failedSnapshot mapOrder lastError failedAt (brokerSnapshot broker) snap;
          ((r, _), w1) = saveAndProject sv net zone mapOrder runID snap1 (env, snd w)
      in case r of
           SaveFailed e \<Rightarrow> (Some (originalError ''save artifact failure snapshot'' e ''artifact'' publishErr), w1)
         | ProjectFailed e \<Rightarrow> (Some (originalError ''project artifact failure'' e ''artifact'' publishErr), w1)
         | Persisted \<Rightarrow>
             (let (e, w2) = appendEvent sv runID ''artifact_publish_failed''
                    (''Run '' @ runID @ '' failed while publishing result artifacts.'')
                    [(''error'', EVString publishErr)] failedAt w1
              in (Some (case e of
                    Some m \<Rightarrow> originalError ''project artifact failure event'' m ''artifact'' publishErr
                  | None \<Rightarrow> lastError), w2)))"

definition completedSnapshot ::
  "netLibrary \<Rightarrow> (string list \<Rightarrow> string list) \<Rightarrow> downloads \<Rightarrow> gotime \<Rightarrow> pivotBroker \<Rightarrow> snapshot \<Rightarrow> environment
     \<Rightarrow> snapshot \<times> environment" where
  "completedSnapshot net mapOrder published completedAt broker snap env =
     (let snap1 = snap\<lparr>snap_Run := (snap_Run snap)\<lparr>run_Downloads := published, run_Status := RunStatusCompleted,
                         run_UpdatedAt := completedAt, run_CompletedAt := Some completedAt, run_LastError := []\<rparr>,
                       snap_SchedulerState := SnapshotSchedulerState (snap_Context snap),
                       snap_Pivots := brokerSnapshot broker\<rparr>;
          (now, env1) = readClock env;
          (snap2, env2) = hydratePivotsFromJudges net now (snap_Context snap1) (snap1, env1)
      in (updateRunCounters mapOrder snap2, env2))"

definition completeRun ::
  "('s, 'b) services \<Rightarrow> netLibrary \<Rightarrow> (gotime \<Rightarrow> int) \<Rightarrow> (string list \<Rightarrow> string list) \<Rightarrow> string \<Rightarrow> downloads
     \<Rightarrow> pivotBroker \<Rightarrow> snapshot \<Rightarrow> 's world \<Rightarrow> string option \<times> 's world" where
  "completeRun sv net zone mapOrder runID localDownloads broker snap w =
     (case sv_Publish sv runID localDownloads (snd w) of
        (Inl publishErr, s) \<Rightarrow> persistArtifactFailure sv net zone mapOrder runID publishErr broker snap (fst w, s)
      | (Inr published, s) \<Rightarrow>
          (let (completedAt, env) = readClock (fst w);
               (snap1, env1) = completedSnapshot net mapOrder published completedAt broker snap env;
               ((r, snap2), w1) = saveAndProject sv net zone mapOrder runID snap1 (env1, s)
           in case r of
                SaveFailed e \<Rightarrow> (Some (''save completed snapshot: '' @ e), w1)
              | ProjectFailed e \<Rightarrow> (Some e, w1)
              | Persisted \<Rightarrow>
                  (case appendEvent sv runID ''artifacts_published''
                          (''Published result artifacts for run '' @ runID @ ''.'')
                          [(''json'', EVString (dl_JSON published)), (''csv'', EVString (dl_CSV published)),
                           (''xlsx'', EVString (dl_XLSX published))] completedAt w1 of
                     (Some e, w2) \<Rightarrow> (Some (''project artifact publish event: '' @ e), w2)
                   | (None, w2) \<Rightarrow>
                       appendEvent sv runID ''run_completed''
                         (''Run '' @ runID @ '' completed with '' @ show_nat (run_AssetCount (snap_Run snap2)) @ '' asset(s).'')
                         [] completedAt w2)))"

text \<open>The errors of the stores are only logged here.\<close>

definition handlePanic ::
  "('s, 'b) services \<Rightarrow> netLibrary \<Rightarrow> (gotime \<Rightarrow> int) \<Rightarrow> (string list \<Rightarrow> string list) \<Rightarrow> string \<Rightarrow> string
     \<Rightarrow> snapshot \<Rightarrow> 's world \<Rightarrow> string option \<times> 's world" where
  "handlePanic sv net zone mapOrder runID recovered snap w =
     (let panicErr = ''panic while processing run '' @ runID @ '': '' @ recovered;
          (failedAt, env) = readClock (fst w);
          snap1 = failedSnapshot mapOrder panicErr failedAt (snap_Pivots snap) snap;
          (_, w1) = onStore (sv_Save sv runID snap1) (env, snd w);
          (_, w2) = projectSnapshot sv net zone mapOrder snap1 w1
      in (Some panicErr, w2))"

section \<open>The processor\<close>

text \<open>What follows the return of \<open>Resume\<close>.\<close>

definition afterResume ::
  "('s, 'b) services \<Rightarrow> netLibrary \<Rightarrow> (gotime \<Rightarrow> int) \<Rightarrow> (string list \<Rightarrow> string list) \<Rightarrow> string \<Rightarrow> downloads
     \<Rightarrow> stageResult \<times> runProgress \<times> 's procState \<Rightarrow> string option \<times> 's world" where
  "afterResume sv net zone mapOrder runID localDownloads outcome =
     (let (result, progress, st0) = outcome;
          st = deliver sv net zone mapOrder st0;
          pw = snd st;
          snap = (currentSnapshot st)\<lparr>snap_Progress := progress\<rparr>;
          w = (pw_Env pw, pw_Store pw)
      in case result of
           Inl m \<Rightarrow> handlePanic sv net zone mapOrder runID m snap w
         | Inr runErr \<Rightarrow>
             (case lst_Err (pw_Listener pw) of
                Some e \<Rightarrow> (Some e, w)
              | None \<Rightarrow>
                  (case runErr of
                     Some e \<Rightarrow> if e = ErrExecutionPaused then (None, w)
                               else persistPipelineFailure sv net zone mapOrder runID e (pw_Broker pw) snap w
                   | None \<Rightarrow> completeRun sv net zone mapOrder runID localDownloads (pw_Broker pw) snap w)))"

text \<open>\<open>ProcessRun\<close>; \<open>None\<close> would be a run that never returns.\<close>

definition ProcessRun ::
  "('s, 's procWorld) services \<Rightarrow> netLibrary \<Rightarrow> (gotime \<Rightarrow> int) \<Rightarrow> (string list \<Rightarrow> string list)
     \<Rightarrow> 's procState scheduler \<Rightarrow> string \<Rightarrow> 's world \<Rightarrow> (string option \<times> 's world) option" where
  "ProcessRun sv net zone mapOrder pick runID w0 =
     (case sv_Load sv runID (snd w0) of
        (Inl e, s) \<Rightarrow> Some (Some (''load snapshot: '' @ le_Message e), (fst w0, s))
      | (Inr stored, s) \<Rightarrow>
          (let snap0 = loadedSnapshot stored
           in case sv_pipelineFactory sv runID of
                Inl e \<Rightarrow> Some (Some (''build pipeline: '' @ e), (fst w0, s))
              | Inr (engine, outputs) \<Rightarrow>
                  (case markRunning sv mapOrder runID snap0 (fst w0, s) of
                     ((Some e, _), w1) \<Rightarrow> Some (Some e, w1)
                   | ((None, snap1), w1) \<Rightarrow>
                       (let ctx = SetMutationListener True (snap_Context snap1);
                            pw = \<lparr>pw_Snapshot = snap1, pw_Broker = loadBroker snap1,
                                  pw_Listener = newProjectionMutationListener (snap_Run snap1) ctx,
                                  pw_Env = fst w1, pw_Store = snd w1\<rparr>
                        in map_option (afterResume sv net zone mapOrder runID (buildDownloads outputs))
                             (Resume pick (listenedEngine (deliver sv net zone mapOrder) engine)
                                (Some (procAfterCheckpoint sv net zone mapOrder runID))
                                (snap_Progress snap1) (ctx, pw))))))"

end
