(* ===== verification/Checkpoint_Store.thy ===== *)
theory Checkpoint_Store
  imports Run_Process
begin

text \<open>
  The checkpoint store (\<open>checkpoints.go\<close>) and the contract the run service has with its stores.
  \<open>encoding/json\<close> drops the unexported fields of the context and its errors; the values the stages
  store in \<open>EnrichmentData\<close> are strings and booleans, which come back as they were. The in-memory
  stores together with the queue of the in-process dispatcher give one instance of the contract.
\<close>

section \<open>What a checkpoint keeps\<close>

definition persistContext :: "pipelineContext \<Rightarrow> pipelineContext" where
  "persistContext p = (newContext (nodeClock p) (Seeds p))\<lparr>
     Enumerations := Enumerations p, Assets := Assets p, Observations := Observations p,
     Relations := Relations p, JudgeEvaluations := JudgeEvaluations p,
     DNSVariantSweepLabels := DNSVariantSweepLabels p, AISearchExecutedRoots := AISearchExecutedRoots p,
     nodeIDCounter := nodeIDCounter p\<rparr>"

definition persistSnapshot :: "snapshot \<Rightarrow> snapshot" where
  "persistSnapshot s = s\<lparr>snap_Context := persistContext (snap_Context s)\<rparr>"

type_synonym memoryCheckpoints = "string \<rightharpoonup> snapshot"

definition SaveCheckpoint :: "string \<Rightarrow> snapshot \<Rightarrow> memoryCheckpoints \<Rightarrow> string option \<times> memoryCheckpoints" where
  "SaveCheckpoint runID s m = (None, m(runID \<mapsto> persistSnapshot s))"

definition LoadCheckpoint :: "string \<Rightarrow> memoryCheckpoints \<Rightarrow> (loadError + snapshot) \<times> memoryCheckpoints" where
  "LoadCheckpoint runID m =
     (case m runID of
        None \<Rightarrow> (Inl \<lparr>le_NotExist = True, le_Message = ''file does not exist''\<rparr>, m)
      | Some s \<Rightarrow> (Inr s, m))"

definition DeleteCheckpoint :: "string \<Rightarrow> memoryCheckpoints \<Rightarrow> memoryCheckpoints" where
  "DeleteCheckpoint runID m = m(runID := None)"

lemma persist_idem [simp]: "persistContext (persistContext p) = persistContext p"
  "persistSnapshot (persistSnapshot s) = persistSnapshot s"
  by (simp_all add: persistContext_def persistSnapshot_def newContext_def)

lemma persist_fields [simp]:
  "Seeds (persistContext p) = Seeds p" "Assets (persistContext p) = Assets p" "Relations (persistContext p) = Relations p"
  "JudgeEvaluations (persistContext p) = JudgeEvaluations p"
  "assetStateInitialized (persistContext p) = False"
  "snap_Run (persistSnapshot s) = snap_Run s" "snap_Pivots (persistSnapshot s) = snap_Pivots s"
  "snap_SchedulerState (persistSnapshot s) = snap_SchedulerState s"
  "snap_Progress (persistSnapshot s) = snap_Progress s"
  "snap_Context (persistSnapshot s) = persistContext (snap_Context s)"
  by (simp_all add: persistContext_def persistSnapshot_def newContext_def)

text \<open>The read model, and so the rows and traces, do not depend on what is dropped.\<close>

lemma persist_read_model:
  "buildProjectedAssetReadModel net zone r (persistContext p) = buildProjectedAssetReadModel net zone r p"
proof -
  have "Enumerations (persistContext p) = Enumerations p" "Observations (persistContext p) = Observations p"
    "Relations (persistContext p) = Relations p"
    by (simp_all add: persistContext_def)
  then have "buildAssetProjectionInputs (persistContext p) = buildAssetProjectionInputs p"
    by (simp only: buildAssetProjectionInputs_def persist_fields)
  then show ?thesis by (simp add: buildProjectedAssetReadModel_def)
qed

lemma loaded_table:
  "Relations (snap_Context (loadedSnapshot (persistSnapshot s))) = Relations (snap_Context s)"
  "\<not> assetStateInitialized (snap_Context (loadedSnapshot (persistSnapshot s)))"
  by (simp_all add: loadedSnapshot_def RestoreSchedulerState_def SetCandidatePromotionConfidenceThreshold_def)

text \<open>The frontier comes back with the scheduler state, and the asset table is well formed again.\<close>

lemma loaded_frontier:
  assumes "sched_inv D (snap_Context s)" and "snap_SchedulerState s = SnapshotSchedulerState (snap_Context s)"
  shows "sched_inv D (snap_Context (loadedSnapshot (persistSnapshot s)))"
proof -
  have "sched_inv D (RestoreSchedulerState (SnapshotSchedulerState (snap_Context s)) (persistContext (snap_Context s)))"
    by (rule restore_snapshot [OF assms(1)]) simp
  then show ?thesis
    using assms(2) same_frontier_inv [of _ "SetCandidatePromotionConfidenceThreshold t p" D for t p]
    by (simp add: loadedSnapshot_def same_frontier_def SetCandidatePromotionConfidenceThreshold_def)
qed

lemma loaded_assets:
  assumes "assets_ok (snap_Context s)"
  shows "assets_ok (snap_Context (loadedSnapshot (persistSnapshot s)))"
proof -
  have "\<forall>a \<in> set (Assets (snap_Context s)). cleanAsset a"
    using assms by (auto simp: assets_ok_def asset_inv_def goodAsset_def cleanAsset_def split: if_splits)
  then show ?thesis
    by (simp add: loadedSnapshot_def assets_ok_def SetCandidatePromotionConfidenceThreshold_def
        RestoreSchedulerState_def persistContext_def newContext_def)
qed

lemma loaded_judges:
  "judges_ok (snap_Context (loadedSnapshot (persistSnapshot s))) = judges_ok (snap_Context s)"
  by (simp add: loadedSnapshot_def judges_ok_def SetCandidatePromotionConfidenceThreshold_def RestoreSchedulerState_def)

lemma loaded_context:
  assumes "context_ok D (snap_Context s)" and "snap_SchedulerState s = SnapshotSchedulerState (snap_Context s)"
  shows "context_ok D (snap_Context (loadedSnapshot (persistSnapshot s)))"
  using assms loaded_frontier loaded_assets loaded_judges by (simp add: context_ok_def)

text \<open>But the next operation on the assets forgets the relations and the old observations.\<close>

lemma ingestAsset_relations: "Relations (snd (ingestAssetLocked a p)) = Relations p"
  by (auto simp: ingestAssetLocked_def recordObservation_def addCanonical_def NewID_def Let_def
      split: option.splits prod.splits if_splits)

lemma ingestAssets_relations: "Relations (ingestAssets as p) = Relations p"
  unfolding ingestAssets_def by (induction as arbitrary: p) (simp_all add: ingestAsset_relations)

lemma ensure_drops_relations: "\<not> assetStateInitialized p \<Longrightarrow> Relations (EnsureAssetState p) = []"
  by (simp add: EnsureAssetState_def ensureAssetStateLocked_def ingestAssets_relations)

section \<open>The contract\<close>

text \<open>
  \<open>saved r s\<close> is the checkpoint of the run \<open>r\<close>. Loading gives it back, saving replaces it by what a
  checkpoint keeps, and the calls on the other stores leave it alone.
\<close>

locale run_stores =
  fixes sv :: "('s, 'b) services" and saved :: "string \<Rightarrow> 's \<Rightarrow> snapshot option"
  assumes load_saved: "saved r s = Some x \<Longrightarrow> sv_Load sv r s = (Inr x, s)"
    and load_missing: "saved r s = None \<Longrightarrow> \<exists>m. sv_Load sv r s = (Inl \<lparr>le_NotExist = True, le_Message = m\<rparr>, s)"
    and save: "sv_Save sv r x s = (None, s') \<Longrightarrow> saved r s' = Some (persistSnapshot x)"
    and run_keeps: "saved r (snd (sv_UpsertRun sv run s)) = saved r s"
    and seed_keeps: "saved r (snd (sv_UpsertSeed sv q sd s)) = saved r s"
    and pivot_keeps: "saved r (snd (sv_UpsertPivot sv q p s)) = saved r s"
    and summary_keeps: "saved r (snd (sv_UpsertJudgeSummary sv q j s)) = saved r s"
    and event_keeps: "saved r (snd (sv_AppendEvent sv q e s)) = saved r s"
    and asset_keeps: "saved r (snd (sv_UpsertAsset sv q row s)) = saved r s"
    and traces_keep: "saved r (snd (sv_SyncTraces sv q ts s)) = saved r s"
    and publish_keeps: "saved r (snd (sv_Publish sv q d s)) = saved r s"
    and enqueue_keeps: "sv_Enqueue sv = Some f \<Longrightarrow> saved r (snd (f q s)) = saved r s"
begin

lemmas stores_keep = run_keeps seed_keeps pivot_keeps summary_keeps event_keeps asset_keeps traces_keep
  publish_keeps enqueue_keeps

definition effect_keeps :: "('s world \<Rightarrow> string option \<times> 's world) \<Rightarrow> bool" where
  "effect_keeps f \<longleftrightarrow> (\<forall>r w. saved r (snd (snd (f w))) = saved r (snd w))"

lemma onStore_keeps: "(\<And>r s. saved r (snd (f s)) = saved r s) \<Longrightarrow> effect_keeps (onStore f)"
  by (simp add: effect_keeps_def onStore_def split_def Let_def)

lemma appendEvent_keeps: "effect_keeps (appendEvent sv q k m md t)"
  by (simp add: effect_keeps_def appendEvent_def onStore_def split_def Let_def event_keeps)

lemma eventNow_keeps: "effect_keeps (eventNow sv q k m md)"
  by (simp add: effect_keeps_def eventNow_def onStore_def split_def Let_def event_keeps)

lemma runEffects_keeps:
  assumes "\<forall>(l, f) \<in> set fs. effect_keeps f"
  shows "saved r (snd (snd (runEffects fs w))) = saved r (snd w)"
  using assms
proof (induction fs arbitrary: w)
  case (Cons lf rest)
  obtain label f e w' where lf: "lf = (label, f)" and f: "f w = (e, w')" by (metis surj_pair)
  have "effect_keeps f" using Cons.prems lf by simp
  then have "saved r (snd (snd (f w))) = saved r (snd w)" unfolding effect_keeps_def by blast
  with Cons.IH [of w'] Cons.prems lf f show ?case by (cases e) simp_all
qed simp

lemma projectionCalls_keep: "\<forall>(l, f) \<in> set (projectionCalls sv net zone j snap). effect_keeps f"
proof -
  obtain rows traces where "buildProjectedAssetReadModel net zone (run_ID (snap_Run snap)) (snap_Context snap) = (rows, traces)"
    by (metis surj_pair)
  then show ?thesis by (auto simp: projectionCalls_def Let_def stores_keep intro!: onStore_keeps)
qed

lemma projectSnapshot_keeps:
  assumes "projectSnapshot sv net zone mo snap w = ((e, snap1), w')"
  shows "saved r (snd w') = saved r (snd w)"
proof -
  obtain j snap2 where "runEffects (projectionCalls sv net zone j snap2) w = (e, w')"
    using assms unfolding projectSnapshot_def Let_def by (auto split: prod.splits)
  with runEffects_keeps [OF projectionCalls_keep, of r net zone j snap2 w] show ?thesis by simp
qed

lemma saveAndProject_saved:
  assumes "saveAndProject sv net zone mo r snap w = ((p, snap1), w')" and "\<And>e. p \<noteq> SaveFailed e"
  shows "saved r (snd w') = Some (persistSnapshot snap)"
proof -
  obtain e w1 where s: "onStore (sv_Save sv r snap) w = (e, w1)" by (metis surj_pair)
  with assms have e: "e = None" by (auto simp: saveAndProject_def split: option.splits)
  obtain e2 snap2 w2 where p: "projectSnapshot sv net zone mo snap w1 = ((e2, snap2), w2)"
    by (metis surj_pair)
  have "w2 = w'" using assms(1) s e p by (auto simp: saveAndProject_def split: option.splits)
  moreover have "sv_Save sv r snap (snd w) = (None, snd w1)"
    using s e by (cases "sv_Save sv r snap (snd w)") (auto simp: onStore_def)
  ultimately show ?thesis using projectSnapshot_keeps [OF p] save by metis
qed

end

text \<open>Stores that never fail, as the in-memory ones.\<close>

locale reliable_stores = run_stores sv saved
  for sv :: "('s, 'b) services" and saved :: "string \<Rightarrow> 's \<Rightarrow> snapshot option" +
  assumes save_works: "fst (sv_Save sv r x s) = None"
    and run_works: "fst (sv_UpsertRun sv run s) = None"
    and seed_works: "fst (sv_UpsertSeed sv r sd s) = None"
    and pivot_works: "fst (sv_UpsertPivot sv r p s) = None"
    and summary_works: "fst (sv_UpsertJudgeSummary sv r j s) = None"
    and event_works: "fst (sv_AppendEvent sv r e s) = None"
    and asset_works: "fst (sv_UpsertAsset sv r row s) = None"
    and traces_work: "fst (sv_SyncTraces sv r ts s) = None"
    and enqueue_works: "sv_Enqueue sv = Some f \<Longrightarrow> fst (f r s) = None"
begin

lemmas stores_work = save_works run_works seed_works pivot_works summary_works event_works asset_works
  traces_work enqueue_works

definition effect_works :: "('s world \<Rightarrow> string option \<times> 's world) \<Rightarrow> bool" where
  "effect_works f \<longleftrightarrow> (\<forall>w. fst (f w) = None)"

lemma onStore_works: "(\<And>s. fst (f s) = None) \<Longrightarrow> effect_works (onStore f)"
  by (simp add: effect_works_def onStore_def split_def)

lemma appendEvent_works: "effect_works (appendEvent sv q k m md t)"
  by (simp add: effect_works_def appendEvent_def onStore_def split_def Let_def event_works)

lemma eventNow_works: "effect_works (eventNow sv q k m md)"
  by (simp add: effect_works_def eventNow_def onStore_def split_def Let_def event_works)

lemma runEffects_works: "\<forall>(l, f) \<in> set fs. effect_works f \<Longrightarrow> fst (runEffects fs w) = None"
proof (induction fs arbitrary: w)
  case (Cons lf rest)
  obtain label f e w' where lf: "lf = (label, f)" and f: "f w = (e, w')" by (metis surj_pair)
  have "effect_works f" using Cons.prems lf by simp
  then have "fst (f w) = None" unfolding effect_works_def by blast
  with Cons.IH [of w'] Cons.prems lf f show ?case by simp
qed simp

lemma projectionCalls_work: "\<forall>(l, f) \<in> set (projectionCalls sv net zone j snap). effect_works f"
proof -
  obtain rows traces where "buildProjectedAssetReadModel net zone (run_ID (snap_Run snap)) (snap_Context snap) = (rows, traces)"
    by (metis surj_pair)
  then show ?thesis by (auto simp: projectionCalls_def Let_def stores_work intro!: onStore_works)
qed

lemma projectSnapshot_works: "\<exists>snap1 w'. projectSnapshot sv net zone mo snap w = ((None, snap1), w')"
proof -
  have calls: "fst (runEffects (projectionCalls sv net zone j snap2) w) = None" for j snap2
    by (rule runEffects_works [OF projectionCalls_work])
  obtain e snap1 w' where p: "projectSnapshot sv net zone mo snap w = ((e, snap1), w')"
    by (metis surj_pair)
  then have "\<exists>j snap2. e = fst (runEffects (projectionCalls sv net zone j snap2) w)"
    unfolding projectSnapshot_def Let_def by (auto split: prod.splits) (metis fst_conv)
  with calls p show ?thesis by auto
qed

lemma saveAndProject_works: "\<exists>snap1 w'. saveAndProject sv net zone mo r snap w = ((Persisted, snap1), w')"
proof -
  have "fst (onStore (sv_Save sv r snap) w) = None"
    using onStore_works [of "sv_Save sv r snap"] save_works unfolding effect_works_def by blast
  then obtain w1 where s: "onStore (sv_Save sv r snap) w = (None, w1)"
    by (cases "onStore (sv_Save sv r snap) w") simp
  obtain snap2 w2 where "projectSnapshot sv net zone mo snap w1 = ((None, snap2), w2)"
    using projectSnapshot_works by blast
  with s show ?thesis by (simp add: saveAndProject_def)
qed

end

section \<open>The in-memory stores\<close>

record memoryStores =
  ms_Checkpoints :: memoryCheckpoints
  ms_Projection :: memoryProjection
  ms_Queue :: "string list"

definition onProjection :: "(memoryProjection \<Rightarrow> memoryProjection) \<Rightarrow> memoryStores \<Rightarrow> string option \<times> memoryStores" where
  "onProjection f s = (None, s\<lparr>ms_Projection := f (ms_Projection s)\<rparr>)"

definition InProcessEnqueue :: "string \<Rightarrow> memoryStores \<Rightarrow> string option \<times> memoryStores" where
  "InProcessEnqueue runID s = (None, s\<lparr>ms_Queue := ms_Queue s @ [runID]\<rparr>)"

text \<open>The artifact store and the pipeline factory are arguments.\<close>

definition memoryServices ::
  "(string \<Rightarrow> downloads \<Rightarrow> string + downloads) \<Rightarrow> (string \<Rightarrow> string + ('b engine \<times> string list))
     \<Rightarrow> (memoryStores, 'b) services" where
  "memoryServices publish factory =
     \<lparr>sv_Load = (\<lambda>r s. let (x, m) = LoadCheckpoint r (ms_Checkpoints s) in (x, s\<lparr>ms_Checkpoints := m\<rparr>)),
      sv_Save = (\<lambda>r x s. let (e, m) = SaveCheckpoint r x (ms_Checkpoints s) in (e, s\<lparr>ms_Checkpoints := m\<rparr>)),
      sv_UpsertRun = (\<lambda>run. onProjection (UpsertRun run)),
      sv_UpsertSeed = (\<lambda>r x. onProjection (UpsertSeed r x)),
      sv_UpsertPivot = (\<lambda>r x. onProjection (UpsertPivot r x)),
      sv_UpsertJudgeSummary = (\<lambda>r x. onProjection (UpsertJudgeSummary r x)),
      sv_AppendEvent = (\<lambda>r x. onProjection (AppendEvent r x)),
      sv_UpsertAsset = (\<lambda>r x. onProjection (UpsertAsset r x)),
      sv_SyncTraces = (\<lambda>r x. onProjection (SyncTraces r x)),
      sv_Publish = (\<lambda>r d s. (publish r d, s)),
      sv_Enqueue = Some InProcessEnqueue,
      sv_pipelineFactory = factory\<rparr>"

definition savedIn :: "string \<Rightarrow> memoryStores \<Rightarrow> snapshot option" where
  "savedIn r s = ms_Checkpoints s r"

interpretation memory: reliable_stores "memoryServices publish factory" savedIn for publish factory
  by unfold_locales
    (auto simp: memoryServices_def savedIn_def LoadCheckpoint_def SaveCheckpoint_def onProjection_def
      InProcessEnqueue_def)

end
