(* ===== verification/Engine_Facts.thy ===== *)
theory Engine_Facts
  imports Engine
begin

text \<open>
  What the engine guarantees for any stages that keep to the operations of the context: under
  every interleaving of the collectors the invariants of the frontier and of the asset table
  hold after every turn, the loop returns, the number of waves is bounded, and no seed is
  collected in two waves.
\<close>

section \<open>Relations that every step keeps\<close>

text \<open>In a state the relation says nothing about, it asks nothing of the rest of a thread either.\<close>

definition idle :: "('s \<Rightarrow> 's \<Rightarrow> bool) \<Rightarrow> 's \<Rightarrow> bool" where
  "idle R s \<longleftrightarrow> (\<forall>t. R s t)"

lemma idleD: "idle R s \<Longrightarrow> R s t"
  by (simp add: idle_def)

inductive thread_ok :: "('s \<Rightarrow> 's \<Rightarrow> bool) \<Rightarrow> 's thread \<Rightarrow> bool" for R where
  returned: "thread_ok R (Done e)"
| panicked: "thread_ok R (Panicked m)"
| step: "(\<And>s. R s (act s)) \<Longrightarrow> (\<And>s. \<not> idle R s \<Longrightarrow> thread_ok R (rest s)) \<Longrightarrow> thread_ok R (Step act rest)"

inductive_simps thread_ok_simps [simp]:
  "thread_ok R (Done e)" "thread_ok R (Panicked m)" "thread_ok R (Step act rest)"

lemma thread_ok_finish:
  assumes "thread_ok R t" and "\<And>e. thread_ok R (onReturn e)" and "\<And>m. thread_ok R (onPanic m)"
  shows "thread_ok R (finish t onReturn onPanic)"
  using assms(1) by (induction rule: thread_ok.induct) (auto simp: assms(2,3))

text \<open>
  A relation between the states before and after a stage that the engine's own actions (events
  and error entries) respect.
\<close>

locale stage_relation =
  fixes R :: "'b engineState \<Rightarrow> 'b engineState \<Rightarrow> bool"
  assumes R_refl: "R s s"
    and R_trans: "R s t \<Longrightarrow> R t u \<Longrightarrow> R s u"
    and R_event: "R s (onContext (EmitExecutionEvent ev) s)"
    and R_error: "R s (onContext (appendError err) s)"
begin

lemma run_thread_R: "thread_ok R t \<Longrightarrow> R s (snd (run_thread t s))"
proof (induction arbitrary: s rule: thread_ok.induct)
  case (step act rest)
  show ?case
  proof (cases "idle R s")
    case False
    then have "R (act s) (snd (run_thread (rest s) (act s)))" by (rule step.IH)
    with step.hyps(1) [of s] show ?thesis by (simp add: R_trans)
  qed (rule idleD)
qed (simp_all add: R_refl)

lemma processNode_ok: "thread_ok R (node_Process n) \<Longrightarrow> thread_ok R (processNode stage wave n)"
  by (simp add: processNode_def R_event thread_ok_finish)

lemma collectorThread_ok: "thread_ok R (node_Process n) \<Longrightarrow> thread_ok R (collectorThread wave n)"
  unfolding collectorThread_def
  by (rule thread_ok_finish) (auto simp: processNode_ok R_error split: option.split)

lemma runPool_R: "\<forall>t \<in> set ts. thread_ok R t \<Longrightarrow> R s (runPool pick ts s)"
proof (induction pick ts s rule: runPool.induct)
  case (1 pick ts s)
  show ?case
  proof (cases "runnableIndexes ts = [] \<or> idle R s")
    case True
    then show ?thesis by (auto simp: runPool.simps [of pick ts] R_refl idleD)
  next
    case nonempty: False
    then have False: "runnableIndexes ts \<noteq> []" and busy: "\<not> idle R s" by auto
    let ?i = "runnableIndexes ts ! (pick ts s mod length (runnableIndexes ts))"
    have i: "?i < length ts" by (rule picked_index [OF False])
    show ?thesis
    proof (cases "ts ! ?i")
      case (Step act rest)
      have "thread_ok R (ts ! ?i)" using "1.prems" i by simp
      then have "thread_ok R (Step act rest)" by (simp only: Step)
      then have ok: "R s (act s)" "thread_ok R (rest s)"
        using busy by (cases rule: thread_ok.cases; blast)+
      have all: "\<forall>t \<in> set (ts[?i := rest s]). thread_ok R t"
        using "1.prems" ok(2) set_update_subset_insert [of ts ?i "rest s"] by blast
      have "R (act s) (runPool pick (ts[?i := rest s]) (act s))"
        by (rule "1.IH" [OF refl False refl Step all])
      with ok(1) False Step show ?thesis
        by (simp add: runPool.simps [of pick ts] Let_def) (rule R_trans)
    qed (use False in \<open>simp_all add: runPool.simps [of pick ts] Let_def R_refl\<close>)
  qed
qed

lemma runStages_R:
  "\<forall>n \<in> set ns. thread_ok R (node_Process n) \<Longrightarrow> R s (snd (runStages stage wave ns s))"
proof (induction ns arbitrary: s)
  case (Cons n ns)
  obtain r s' where run: "run_thread (processNode stage wave n) s = (r, s')" by (metis surj_pair)
  have one: "R s s'"
    using run_thread_R [OF processNode_ok, of n s stage wave] Cons.prems run by simp
  have "R s' (snd (runStages stage wave ns s'))" by (rule Cons.IH) (use Cons.prems in simp)
  with one run show ?case by (auto split: sum.split option.split intro: R_trans)
qed (simp add: R_refl)

lemma runWave_R:
  assumes "\<forall>n \<in> set (Collectors e @ Enrichers e @ Expanders e). thread_ok R (node_Process n)"
  shows "R s (snd (runWave pick e wave s))"
proof -
  let ?s1 = "if length (CollectionSeeds (fst s)) > 0
     then runPool pick (map (collectorThread wave) (Collectors e)) s else s"
  have s1: "R s ?s1" using assms by (auto simp: R_refl intro!: runPool_R collectorThread_ok)
  obtain r s2 where en: "runStages ''enrich'' wave (Enrichers e) ?s1 = (r, s2)" by (metis surj_pair)
  have "R ?s1 s2" using runStages_R [of "Enrichers e" ?s1 "''enrich''" wave] assms en by simp
  with s1 have s2: "R s s2" by (rule R_trans)
  have "R s2 (snd (runStages ''expand'' wave (Expanders e) s2))" by (rule runStages_R) (use assms in simp)
  with s2 have "R s (snd (runStages ''expand'' wave (Expanders e) s2))" by (rule R_trans)
  with s2 en show ?thesis by (simp add: runWave_def Let_def split: sum.split option.split)
qed

end

section \<open>The two relations of the engine\<close>

text \<open>The frontier and asset invariants survive, and nothing a later wave relies on is undone.\<close>

definition keeps :: "'b engineState \<Rightarrow> 'b engineState \<Rightarrow> bool" where
  "keeps s t \<longleftrightarrow> (\<forall>D. context_ok D (fst s) \<longrightarrow> context_ok D (fst t) \<and> grows (fst s) (fst t))"

lemma busy_keeps: "\<not> idle keeps s \<Longrightarrow> \<exists>D. context_ok D (fst s)"
  by (auto simp: idle_def keeps_def)

lemma keeps_frame:
  assumes "same_frontier (fst s) (fst t)" and "assets_ok (fst s) \<longrightarrow> assets_ok (fst t)"
  shows "keeps s t"
  using assms same_judges(1) [OF assms(1)]
  by (simp add: keeps_def context_ok_def same_frontier_inv same_frontier_grows)

interpretation keeps: stage_relation "keeps :: 'b engineState \<Rightarrow> 'b engineState \<Rightarrow> bool"
proof unfold_locales
  fix s t u :: "'b engineState" and ev err
  show "keeps s s" by (simp add: keeps_def)
  show "keeps s t \<Longrightarrow> keeps t u \<Longrightarrow> keeps s u"
    unfolding keeps_def by (meson grows_trans)
  show "keeps s (onContext (EmitExecutionEvent ev) s)"
    by (rule keeps_frame) (simp_all add: onContext_def hooks_frame same_assets_ok [OF hooks_frame(2)])
  have "same_assets (fst s) (appendError err (fst s))"
    by (simp add: appendError_def same_assets_def)
  from same_assets_ok [OF this] show "keeps s (onContext (appendError err) s)"
    by (intro keeps_frame) (simp_all add: onContext_def appendError_def same_frontier_def)
qed

text \<open>Errors are never lost.\<close>

definition errorsGrow :: "'b engineState \<Rightarrow> 'b engineState \<Rightarrow> bool" where
  "errorsGrow s t \<longleftrightarrow> (\<exists>new. Errors (fst t) = Errors (fst s) @ new)"

interpretation errorsGrow: stage_relation "errorsGrow :: 'b engineState \<Rightarrow> 'b engineState \<Rightarrow> bool"
  by unfold_locales
    (auto simp: errorsGrow_def onContext_def appendError_def EmitExecutionEvent_def Let_def)

text \<open>The operations stages are made of are such steps.\<close>

lemma keeps_frontier_step:
  assumes "frontier_step h (p, b) (p', b')"
  shows "keeps (p, b) (p', b')"
proof -
  have "same_assets p p'"
    using assms by (cases rule: frontier_step.cases) (auto simp: go_frame promote_frame_assets)
  with assms sched_inv_frontier_step grows_frontier_step show ?thesis
    by (auto simp: keeps_def context_ok_def same_assets_ok same_judges(2))
qed

lemma ingest_frontier:
  "same_frontier p (snd (ingestAssetLocked a p))"
  "same_frontier p (snd (ingestObservationLocked ob p))"
  "same_frontier p (snd (addAssetRelationLocked r p))"
proof -
  have new: "same_frontier p (snd (assetNewID s i p))" for s i p
    by (simp add: assetNewID_def NewID_context same_frontier_def)
  have rec: "same_frontier p (snd (recordObservation i ob p))" for i ob p
    by (simp add: recordObservation_def same_frontier_def Let_def split: option.split)
  have place: "same_frontier p (snd (placeObservation k c m ob p))" for k c m ob p
  proof (cases "assetIndexByKey p k")
    case None
    have "same_frontier p (snd (addCanonical k c p))" by (simp add: addCanonical_def same_frontier_def)
    from same_frontier_trans [OF this rec] None show ?thesis
      by (simp add: placeObservation_def split_def Let_def)
  next
    case (Some i)
    have "same_frontier p (p\<lparr>Assets := as\<rparr>)" for as by (simp add: same_frontier_def)
    from same_frontier_trans [OF this rec] Some show ?thesis
      by (simp add: placeObservation_def Let_def)
  qed
  show "same_frontier p (snd (ingestAssetLocked a p))"
    unfolding ingestAssetLocked_eq Let_def by (rule same_frontier_trans [OF new place])
  let ?p1 = "snd (assetNewID ''obs'' (TrimSpace (obs_ID ob)) p)"
  let ?p2 = "if assetIndexByKey ?p1 (obsKeyOf ob) = None
    then snd (assetNewID ''asset'' (asset_ID (assetFromObservation (ingestedObs ob p))) ?p1) else ?p1"
  have "same_frontier p ?p2"
    using new [of p "''obs''" "TrimSpace (obs_ID ob)"] same_frontier_trans [OF new new] by simp
  from same_frontier_trans [OF this place] show "same_frontier p (snd (ingestObservationLocked ob p))"
    by (simp only: ingestObservationLocked_eq Let_def)
  show "same_frontier p (snd (addAssetRelationLocked r p))"
    by (simp add: addAssetRelationLocked_def NewID_context same_frontier_def split_def Let_def
        split: option.split)
qed

lemma ingestAssets_frontier: "same_frontier p (ingestAssets as p)"
  unfolding ingestAssets_def
proof (induction as arbitrary: p)
  case (Cons a as)
  from same_frontier_trans [OF ingest_frontier(1) Cons] show ?case by simp
qed simp

lemma ensure_frontier: "same_frontier p (ensureAssetStateLocked p)"
proof -
  have "same_frontier p (reconcilePendingRawAssetsLocked q)" if "same_frontier p q" for q
  proof -
    have "same_frontier p (rebuildAssetIndexLocked (q\<lparr>Assets := as\<rparr>))" for as
      using that by (simp add: rebuildAssetIndexLocked_def same_frontier_def)
    with that same_frontier_trans [OF _ ingestAssets_frontier] show ?thesis
      by (simp add: reconcilePendingRawAssetsLocked_def Let_def)
  qed
  moreover have "same_frontier p (rebuildAssetIndexLocked p)"
    by (simp add: rebuildAssetIndexLocked_def same_frontier_def)
  moreover have "same_frontier p (q\<lparr>assetStateInitialized := True\<rparr>)" if "same_frontier p q" for q
    using that by (simp add: same_frontier_def)
  moreover have "same_frontier p (ingestAssets as (p\<lparr>Assets := [], Observations := [], Relations := [],
      assetIndexByKey := Map.empty, observationIndexByID := Map.empty, relationIndexByKey := Map.empty\<rparr>))" for as
    by (rule same_frontier_trans [OF _ ingestAssets_frontier]) (simp add: same_frontier_def)
  ultimately show ?thesis by (simp add: ensureAssetStateLocked_def Let_def)
qed

lemma ingestAll_frontier:
  assumes "\<And>x p. same_frontier p (snd (ingest x p))"
  shows "same_frontier p (snd (snd (ingestAll ingest xs p)))"
proof (induction xs arbitrary: p)
  case (Cons x xs)
  from same_frontier_trans [OF assms Cons, of p x] show ?case
    by (simp add: split_def Let_def)
qed simp

lemma addRelations_frontier: "same_frontier p (snd (addRelations rs p))"
proof (induction rs arbitrary: p)
  case (Cons r rs)
  from same_frontier_trans [OF ingest_frontier(3) Cons, of p r] show ?case
    by (simp add: split_def Let_def)
qed simp

lemma append_frontier:
  "same_frontier p (AppendAssets as p)" "same_frontier p (AppendAssetObservations obs p)"
  "same_frontier p (AppendAssetRelations rs p)"
proof -
  have emit: "same_frontier p (emitMutationEvents a ob r q)" if "same_frontier p q" for a ob r q
    using that by (simp add: emitMutationEvents_def same_frontier_def)
  show "same_frontier p (AppendAssets as p)"
    using emit [OF same_frontier_trans [OF ensure_frontier
          ingestAll_frontier [of ingestAssetLocked, OF ingest_frontier(1)]]]
    by (simp add: AppendAssets_def split_def Let_def)
  show "same_frontier p (AppendAssetObservations obs p)"
    using emit [OF same_frontier_trans [OF ensure_frontier
          ingestAll_frontier [of ingestObservationLocked, OF ingest_frontier(2)]]]
    by (simp add: AppendAssetObservations_def split_def Let_def)
  show "same_frontier p (AppendAssetRelations rs p)"
    using emit [OF same_frontier_trans [OF ensure_frontier addRelations_frontier]]
    by (simp add: AppendAssetRelations_def split_def Let_def)
qed

lemma keeps_append:
  "\<forall>a \<in> set as. cleanAsset a \<Longrightarrow> keeps (p, b) (AppendAssets as p, b')"
  "\<forall>ob \<in> set obs. cleanObservation ob \<Longrightarrow> keeps (p, b) (AppendAssetObservations obs p, b')"
  "keeps (p, b) (AppendAssetRelations rs p, b')"
proof -
  have stay: "keeps (p, b) (p, b')" by (rule keeps_frame) simp_all
  have kept: "keeps (p, b) (q, b')" if "assets_ok p \<Longrightarrow> appended new p q" "same_frontier p q" for new q
    by (rule keeps_frame) (use that appended_ok in auto)
  show "keeps (p, b) (AppendAssets as p, b')" if "\<forall>a \<in> set as. cleanAsset a"
  proof (cases "as = []")
    case False
    show ?thesis by (rule kept [OF AppendAssets_spec [OF _ that False] append_frontier(1)])
  qed (simp add: AppendAssets_def stay)
  show "keeps (p, b) (AppendAssetObservations obs p, b')" if "\<forall>ob \<in> set obs. cleanObservation ob"
  proof (cases "obs = []")
    case False
    show ?thesis by (rule kept [OF AppendAssetObservations_spec [OF _ that False] append_frontier(2)])
  qed (simp add: AppendAssetObservations_def stay)
  show "keeps (p, b) (AppendAssetRelations rs p, b')"
  proof (cases "rs = []")
    case False
    show ?thesis by (rule kept [OF AppendAssetRelations_spec [OF _ False] append_frontier(3)])
  qed (simp add: AppendAssetRelations_def stay)
qed

section \<open>The loop\<close>

text \<open>Stages and callbacks that keep to the context's operations.\<close>

definition engine_ok :: "'b engine \<Rightarrow> 'b resumeCallbacks \<Rightarrow> bool" where
  "engine_ok e callbacks \<longleftrightarrow>
     (\<forall>n \<in> set (Collectors e @ Enrichers e @ Expanders e @ Reconsiderers e @ Filters e @ Exporters e).
        thread_ok keeps (node_Process n))
   \<and> (\<forall>f cp progress s. callbacks = Some f \<longrightarrow> keeps s (snd (f cp progress s)))"

text \<open>The waves still allowed: the depth left, and the extra wave.\<close>

definition wavesLeft :: "pipelineContext \<Rightarrow> nat" where
  "wavesLeft p = nat (maxCollectionDepth p - collectionDepth p)
     + (if extraCollectionWaveInProgress p then 0 else 1)"

definition phaseRank :: "runPhase \<Rightarrow> nat \<Rightarrow> nat" where
  "phaseRank ph w = (case ph of
       RunPhaseCollectionWave \<Rightarrow> 2 * w + 10 | RunPhaseAdvanceFrontier \<Rightarrow> 2 * w + 9
     | RunPhaseReconsideration \<Rightarrow> 8 | RunPhaseAdvanceExtraWave \<Rightarrow> 7 | RunPhaseExtraWave \<Rightarrow> 6
     | RunPhaseFiltering \<Rightarrow> 5 | RunPhaseExporting \<Rightarrow> 4 | RunPhaseCompleted \<Rightarrow> 3
     | RunPhaseUnknown _ \<Rightarrow> 2)"

lemma grows_wavesLeft: "grows p q \<Longrightarrow> wavesLeft q = wavesLeft p"
  by (simp add: grows_def wavesLeft_def)

lemma wavesLeft_advance:
  assumes "sched_inv D p" and "AdvanceSeedFrontier p = (True, q)"
  shows "wavesLeft p = Suc (wavesLeft q)"
proof -
  have moved: "pendingSeeds p \<noteq> []" "\<not> extraCollectionWaveInProgress p"
    using assms(2) by (auto simp: AdvanceSeedFrontier_eq Let_def)
  have q: "q = snd (AdvanceSeedFrontier p)" using assms(2) by simp
  show ?thesis
  proof (cases "extraCollectionWaveReserved p")
    case True
    then show ?thesis using moved by (simp add: q AdvanceSeedFrontier_eq wavesLeft_def Let_def)
  next
    case False
    with assms(1) moved have "collectionDepth p < maxCollectionDepth p"
      by (simp add: sched_inv_def budget_ok_def)
    then show ?thesis using False moved by (simp add: q AdvanceSeedFrontier_eq wavesLeft_def Let_def)
  qed
qed

lemma wavesLeft_advance_fail:
  "AdvanceSeedFrontier p = (False, q) \<Longrightarrow> wavesLeft q = wavesLeft p"
  by (auto simp: AdvanceSeedFrontier_eq wavesLeft_def Let_def)

text \<open>The state part of a turn, whichever way it ends.\<close>

definition turnState :: "'b turn \<Rightarrow> runProgress \<times> 'b engineState" where
  "turnState t = (case t of Inl (pr, s) \<Rightarrow> (pr, s) | Inr (r, pr, s) \<Rightarrow> (pr, s))"

lemma turnState_simps [simp]:
  "turnState (Inl x) = x" "turnState (Inr (r, y)) = y"
  by (simp_all add: turnState_def split_def)

lemma afterCheckpoint_state:
  assumes "engine_ok e callbacks"
  shows "keeps s (snd (turnState (afterCheckpoint callbacks cp pr s)))"
    and "fst (turnState (afterCheckpoint callbacks cp pr s)) = pr"
proof -
  obtain pz err s' where f: "runCheckpointCallback callbacks cp pr s = ((pz, err), s')" by (metis surj_pair)
  have "keeps s s'"
  proof (cases callbacks)
    case None
    with f show ?thesis by (simp add: runCheckpointCallback_def keeps.R_refl)
  next
    case (Some g)
    with assms have "keeps s (snd (g cp pr s))" unfolding engine_ok_def by blast
    with f Some show ?thesis by (simp add: runCheckpointCallback_def)
  qed
  with f show "keeps s (snd (turnState (afterCheckpoint callbacks cp pr s)))"
    and "fst (turnState (afterCheckpoint callbacks cp pr s)) = pr"
    by (simp_all add: afterCheckpoint_def split: option.split)
qed

text \<open>What a stage of a turn does to the state, with the turn that follows it.\<close>

lemma staged_turn:
  assumes "keeps s (snd run)" and "\<And>s1. keeps s1 (snd (turnState (k s1)))"
  shows "keeps s (snd (turnState (case run of (Inr None, s1) \<Rightarrow> k s1 | (r, s1) \<Rightarrow> Inr (r, pr, s1))))"
proof -
  obtain r s1 where run: "run = (r, s1)" by (metis surj_pair)
  from assms(1) run have "keeps s s1" by simp
  with assms(2) [of s1] run show ?thesis
    by (auto split: sum.split option.split intro: keeps.R_trans)
qed

lemma waveOrSkip_keeps:
  assumes "engine_ok e callbacks"
  shows "keeps s (snd (waveOrSkip pick e wave s))"
proof -
  have "\<forall>n \<in> set (Collectors e @ Enrichers e @ Expanders e). thread_ok keeps (node_Process n)"
    using assms unfolding engine_ok_def set_append by blast
  from keeps.runWave_R [OF this, of s pick wave] show ?thesis
    by (simp add: waveOrSkip_def keeps.R_refl)
qed

lemma runStages_keeps:
  assumes "engine_ok e callbacks" and "set ns \<subseteq> set (Reconsiderers e @ Filters e @ Exporters e)"
  shows "keeps s (snd (runStages stage wave ns s))"
proof (rule keeps.runStages_R, rule ballI)
  fix n assume "n \<in> set ns"
  with assms show "thread_ok keeps (node_Process n)" unfolding engine_ok_def by auto
qed

lemma reserve_keeps: "keeps s (onContext (\<lambda>p. snd (ReserveExtraCollectionWave p)) s)"
proof -
  have "keeps (fst s, snd s) (snd (ReserveExtraCollectionWave (fst s)), snd s)"
    by (rule keeps_frontier_step, rule frontier_step.reserve)
  then show ?thesis by (simp add: onContext_def)
qed

lemma reconsider_keeps:
  assumes "engine_ok e callbacks"
  shows "keeps s (snd (if length (Reconsiderers e) > 0
      then runStages ''reconsider'' w (Reconsiderers e) (onContext (\<lambda>p. snd (ReserveExtraCollectionWave p)) s)
      else (Inr None, s)))"
  using keeps.R_trans [OF reserve_keeps runStages_keeps [OF assms]] by (auto simp: keeps.R_refl)

definition isAdvance :: "runPhase \<Rightarrow> bool" where
  "isAdvance ph \<longleftrightarrow> ph = RunPhaseAdvanceFrontier \<or> ph = RunPhaseAdvanceExtraWave"

lemma turn_keeps:
  assumes "engine_ok e callbacks" and "\<not> isAdvance (Phase pr)"
  shows "keeps s (snd (turnState (resumeTurn pick e callbacks pr s)))"
proof (cases "Phase pr")
  case RunPhaseCollectionWave
  then show ?thesis
    using staged_turn [OF waveOrSkip_keeps [OF assms(1)] afterCheckpoint_state(1) [OF assms(1)]]
    by (simp add: resumeTurn_def)
next
  case RunPhaseReconsideration
  then show ?thesis
    using staged_turn [OF reconsider_keeps [OF assms(1)] afterCheckpoint_state(1) [OF assms(1)]]
    by (simp add: resumeTurn_def)
next
  case RunPhaseExtraWave
  then show ?thesis
    using staged_turn [OF waveOrSkip_keeps [OF assms(1)] afterCheckpoint_state(1) [OF assms(1)]]
    by (simp add: resumeTurn_def)
next
  case RunPhaseFiltering
  have sub: "set (Filters e) \<subseteq> set (Reconsiderers e @ Filters e @ Exporters e)" by auto
  from \<open>Phase pr = _\<close> show ?thesis
    using staged_turn [OF runStages_keeps [OF assms(1) sub], of "\<lambda>s1. Inl (pr\<lparr>Phase := RunPhaseExporting\<rparr>, s1)"]
    by (simp add: resumeTurn_def keeps.R_refl)
next
  case RunPhaseExporting
  have sub: "set (Exporters e) \<subseteq> set (Reconsiderers e @ Filters e @ Exporters e)" by auto
  from \<open>Phase pr = _\<close> show ?thesis
    using staged_turn [OF runStages_keeps [OF assms(1) sub], of "\<lambda>s1. Inl (pr\<lparr>Phase := RunPhaseCompleted\<rparr>, s1)"]
    by (simp add: resumeTurn_def keeps.R_refl)
qed (use assms(2) in \<open>simp_all add: resumeTurn_def isAdvance_def keeps.R_refl\<close>)

text \<open>Where a turn leads, and that the loop gets closer to its end.\<close>

definition followPhase :: "runPhase \<Rightarrow> runPhase \<Rightarrow> bool" where
  "followPhase a b \<longleftrightarrow> (a, b) \<in> {(RunPhaseCollectionWave, RunPhaseAdvanceFrontier),
     (RunPhaseReconsideration, RunPhaseAdvanceExtraWave), (RunPhaseExtraWave, RunPhaseFiltering),
     (RunPhaseFiltering, RunPhaseExporting), (RunPhaseExporting, RunPhaseCompleted)}"

lemma staged_goes_on:
  assumes "(case run of (Inr None, s1) \<Rightarrow> k s1 | (r, s1) \<Rightarrow> Inr (r, pr, s1)) = Inl (pr', s')"
  obtains s1 where "run = (Inr None, s1)" "k s1 = Inl (pr', s')"
proof -
  obtain r s1 where run: "run = (r, s1)" by (metis surj_pair)
  show thesis
  proof (cases r)
    case (Inr err)
    then show thesis using assms run that by (cases err) auto
  qed (use assms run in simp)
qed

lemma afterCheckpoint_goes_on:
  "afterCheckpoint callbacks cp pr s = Inl (pr', s') \<Longrightarrow> pr' = pr"
  by (auto simp: afterCheckpoint_def split: prod.splits option.splits if_splits)

lemma turn_follows:
  assumes "resumeTurn pick e callbacks pr s = Inl (pr', s')" and "\<not> isAdvance (Phase pr)"
  shows "followPhase (Phase pr) (Phase pr') \<and> Wave pr' = Wave pr"
  using assms
  by (cases "Phase pr")
    (auto simp: resumeTurn_def isAdvance_def followPhase_def elim!: staged_goes_on
      dest!: afterCheckpoint_goes_on)

lemma advance_turn:
  assumes "isAdvance (Phase pr)"
  obtains p where "AdvanceSeedFrontier (fst s) = (True, p)"
      "resumeTurn pick e callbacks pr s =
         Inl (pr\<lparr>Wave := Wave pr + 1, Phase := (if Phase pr = RunPhaseAdvanceFrontier
               then RunPhaseCollectionWave else RunPhaseExtraWave)\<rparr>, (p, snd s))"
  | p where "AdvanceSeedFrontier (fst s) = (False, p)"
      "resumeTurn pick e callbacks pr s =
         Inl (pr\<lparr>Phase := (if Phase pr = RunPhaseAdvanceFrontier
               then RunPhaseReconsideration else RunPhaseFiltering)\<rparr>, (p, snd s))"
proof -
  obtain moved p where a: "AdvanceSeedFrontier (fst s) = (moved, p)" by fastforce
  from assms have "Phase pr = RunPhaseAdvanceFrontier \<or> Phase pr = RunPhaseAdvanceExtraWave"
    by (simp add: isAdvance_def)
  with a that show thesis by (cases moved) (auto simp: resumeTurn_def)
qed

lemma advance_keeps_inv:
  assumes "context_ok D p" and "AdvanceSeedFrontier p = (moved, q)"
  shows "context_ok (D \<union> keysOf (collectionSeeds p)) q"
  using sched_inv_AdvanceSeedFrontier [OF context_okD(1) [OF assms(1)]]
    same_assets_ok [OF frontier_frame_assets(3), of p] same_judges(2) [OF frontier_frame_assets(3), of p] assms
  by (simp add: context_ok_def)

lemma turn_decreases:
  assumes "engine_ok e callbacks" and "context_ok D (fst s)"
    and "resumeTurn pick e callbacks pr s = Inl (pr', s')"
  shows "phaseRank (Phase pr') (wavesLeft (fst s')) < phaseRank (Phase pr) (wavesLeft (fst s))
     \<and> (Wave pr' + int (wavesLeft (fst s')) = Wave pr + int (wavesLeft (fst s)))
     \<and> (\<exists>D'. context_ok D' (fst s'))"
proof (cases "isAdvance (Phase pr)")
  case True
  then show ?thesis
  proof (cases rule: advance_turn [of pr s pick e callbacks])
    case (1 p)
    with assms(3) have "pr' = pr\<lparr>Wave := Wave pr + 1, Phase := (if Phase pr = RunPhaseAdvanceFrontier
               then RunPhaseCollectionWave else RunPhaseExtraWave)\<rparr>" "s' = (p, snd s)" by simp_all
    with wavesLeft_advance [OF context_okD(1) [OF assms(2)] 1(1)] advance_keeps_inv [OF assms(2) 1(1)] True
    show ?thesis by (auto simp: phaseRank_def isAdvance_def)
  next
    case (2 p)
    with assms(3) have "pr' = pr\<lparr>Phase := (if Phase pr = RunPhaseAdvanceFrontier
               then RunPhaseReconsideration else RunPhaseFiltering)\<rparr>" "s' = (p, snd s)" by simp_all
    with wavesLeft_advance_fail [OF 2(1)] advance_keeps_inv [OF assms(2) 2(1)] True
    show ?thesis by (auto simp: phaseRank_def isAdvance_def)
  qed
next
  case False
  have "keeps s s'" using turn_keeps [OF assms(1) False, of s pick] assms(3) by simp
  then have "context_ok D (fst s') \<and> grows (fst s) (fst s')"
    using assms(2) by (auto simp: keeps_def)
  moreover from this have "wavesLeft (fst s') = wavesLeft (fst s)" by (simp add: grows_wavesLeft)
  ultimately show ?thesis
    using turn_follows [OF assms(3) False] by (auto simp: followPhase_def phaseRank_def)
qed

lemma resumeLoop_returns:
  assumes "engine_ok e callbacks" and "context_ok D (fst s)"
  shows "\<exists>r pr' s'. resumeLoop pick e callbacks pr s = Some (r, pr', s')
     \<and> Wave pr' \<le> Wave pr + int (wavesLeft (fst s)) \<and> (\<exists>D. context_ok D (fst s'))"
  using assms(2)
proof (induction "phaseRank (Phase pr) (wavesLeft (fst s))" arbitrary: pr s D rule: less_induct)
  case less
  show ?case
  proof (cases "resumeTurn pick e callbacks pr s")
    case (Inl nx)
    then obtain pr' s' where turn: "resumeTurn pick e callbacks pr s = Inl (pr', s')" by (metis surj_pair)
    note d = turn_decreases [OF assms(1) less.prems turn]
    then obtain D' where D': "context_ok D' (fst s')" by blast
    have eq: "resumeLoop pick e callbacks pr s = resumeLoop pick e callbacks pr' s'"
      by (subst resumeLoop.simps) (simp add: turn)
    obtain r pr2 s2 where "resumeLoop pick e callbacks pr' s' = Some (r, pr2, s2)"
      "Wave pr2 \<le> Wave pr' + int (wavesLeft (fst s'))" "\<exists>D. context_ok D (fst s2)"
      using less.hyps [OF _ D'] d by blast
    with eq d show ?thesis by auto
  next
    case (Inr res)
    obtain r pr' s' where res: "res = (r, pr', s')" by (metis surj_pair)
    have notadv: "\<not> isAdvance (Phase pr)"
    proof
      assume "isAdvance (Phase pr)"
      then show False by (cases rule: advance_turn [of pr s pick e callbacks]) (use Inr in simp_all)
    qed
    have ks: "keeps s s'"
      using turn_keeps [OF assms(1) notadv, of s pick] by (simp add: Inr res)
    have "Wave pr' = Wave pr"
      using Inr notadv unfolding res
      by (cases "Phase pr")
        (auto simp: resumeTurn_def isAdvance_def afterCheckpoint_def
          split: prod.splits sum.splits option.splits if_splits)
    moreover have "resumeLoop pick e callbacks pr s = Some (r, pr', s')"
      by (subst resumeLoop.simps) (simp add: Inr res)
    ultimately show ?thesis
      using ks less.prems by (auto simp: keeps_def)
  qed
qed

section \<open>What was collected, wave by wave\<close>

text \<open>\<open>engineRun hist pr s\<close>: the loop stands before a turn, after collecting the waves \<open>hist\<close>.\<close>

definition collectedNow :: "runProgress \<Rightarrow> 'b engineState \<Rightarrow> string list list" where
  "collectedNow pr s =
     (if Phase pr = RunPhaseCollectionWave \<or> Phase pr = RunPhaseExtraWave
      then [map seedKey (CollectionSeeds (fst s))] else [])"

inductive engineRun ::
  "'b engineState scheduler \<Rightarrow> 'b engine \<Rightarrow> 'b resumeCallbacks \<Rightarrow> 'b engineState
     \<Rightarrow> string list list \<Rightarrow> runProgress \<Rightarrow> 'b engineState \<Rightarrow> bool"
  for pick e callbacks s0 where
  start: "initialProgress zeroProgress s0 = (pr, s) \<Longrightarrow> engineRun pick e callbacks s0 [] pr s"
| turn: "engineRun pick e callbacks s0 hist pr s \<Longrightarrow>
         resumeTurn pick e callbacks pr s = Inl (pr', s') \<Longrightarrow>
         engineRun pick e callbacks s0 (hist @ collectedNow pr s) pr' s'"

definition collecting :: "runPhase \<Rightarrow> bool" where
  "collecting ph \<longleftrightarrow> ph = RunPhaseCollectionWave \<or> ph = RunPhaseExtraWave"

definition run_inv :: "string list list \<Rightarrow> runProgress \<Rightarrow> 'b engineState \<Rightarrow> bool" where
  "run_inv hist pr s \<longleftrightarrow> distinct (concat hist) \<and>
     (\<exists>D. context_ok D (fst s) \<and>
        set (concat hist) \<subseteq> D \<union> (if collecting (Phase pr) then {} else keysOf (collectionSeeds (fst s))))"

lemma run_inv_turn:
  assumes "engine_ok e callbacks" and "run_inv hist pr s" and turn: "resumeTurn pick e callbacks pr s = Inl (pr', s')"
  shows "run_inv (hist @ collectedNow pr s) pr' s'"
proof -
  obtain D where D: "context_ok D (fst s)" and dist: "distinct (concat hist)"
    and sub: "set (concat hist) \<subseteq> D \<union> (if collecting (Phase pr) then {} else keysOf (collectionSeeds (fst s)))"
    using assms(2) by (auto simp: run_inv_def)
  show ?thesis
  proof (cases "isAdvance (Phase pr)")
    case True
    then have none: "collectedNow pr s = []" and nc: "\<not> collecting (Phase pr)"
      by (auto simp: isAdvance_def collectedNow_def collecting_def)
    obtain moved p where a: "AdvanceSeedFrontier (fst s) = (moved, p)" by fastforce
    have "fst s' = p"
      using True turn a by (cases rule: advance_turn [of pr s pick e callbacks]) auto
    with advance_keeps_inv [OF D a] have inv: "context_ok (D \<union> keysOf (collectionSeeds (fst s))) (fst s')"
      by simp
    have "set (concat hist) \<subseteq> D \<union> keysOf (collectionSeeds (fst s))" using sub nc by simp
    with inv dist show ?thesis unfolding run_inv_def none append_Nil2 by blast
  next
    case False
    have "keeps s s'" using turn_keeps [OF assms(1) False, of s pick] turn by simp
    with D have inv: "context_ok D (fst s')" and keys: "map seedKey (collectionSeeds (fst s')) = map seedKey (collectionSeeds (fst s))"
      by (auto simp: keeps_def grows_def)
    have keys': "keysOf (collectionSeeds (fst s')) = keysOf (collectionSeeds (fst s))"
      by (rule keysOf_map_cong [OF keys])
    have nc': "\<not> collecting (Phase pr')"
      using turn_follows [OF turn False] by (auto simp: followPhase_def collecting_def)
    show ?thesis
    proof (cases "collecting (Phase pr)")
      case True
      then have now: "concat (hist @ collectedNow pr s) = concat hist @ map seedKey (collectionSeeds (fst s))"
        by (auto simp: collectedNow_def collecting_def CollectionSeeds_def)
      have "distinct (map seedKey (collectionSeeds (fst s)))" "D \<inter> keysOf (collectionSeeds (fst s)) = {}"
        using context_okD(1) [OF D] by (auto simp: sched_inv_def slices_ok_def)
      moreover have "set (concat hist) \<subseteq> D" using sub True by simp
      ultimately have "distinct (concat (hist @ collectedNow pr s))"
        using dist unfolding now by (auto simp: keysOf_def)
      moreover have "set (concat (hist @ collectedNow pr s)) \<subseteq> D \<union> keysOf (collectionSeeds (fst s'))"
        using sub True unfolding now keys' by (auto simp: keysOf_def)
      ultimately show ?thesis using inv nc' unfolding run_inv_def by auto
    next
      case False
      then have none: "collectedNow pr s = []" by (auto simp: collectedNow_def collecting_def)
      with inv nc' keys' sub False dist show ?thesis unfolding run_inv_def by auto
    qed
  qed
qed

text \<open>A context a run may start from.\<close>

definition startable :: "pipelineContext \<Rightarrow> bool" where
  "startable p \<longleftrightarrow> (\<forall>x \<in> set (Seeds p). commaFree x) \<and> assets_ok p \<and> judges_ok p"

lemma startable_ok: "startable p \<Longrightarrow> context_ok {} (InitializeSeedFrontier d p)"
  using InitializeSeedFrontier_fields(1) [of p d] same_assets_ok [OF frontier_frame_assets(4), of d p]
    same_judges(2) [OF frontier_frame_assets(4), of d p]
  by (simp add: startable_def context_ok_def)

lemma engineRun_inv:
  assumes "engine_ok e callbacks" and "startable (fst s0)"
    and "engineRun pick e callbacks s0 hist pr s"
  shows "run_inv hist pr s"
  using assms(3)
proof (induction rule: engineRun.induct)
  case (start pr s)
  then have "fst s = InitializeSeedFrontier maxSeedExpansionDepth (fst s0)"
    by (auto simp: initialProgress_def zeroProgress_def onContext_def)
  with startable_ok [OF assms(2)] show ?case by (auto simp: run_inv_def)
next
  case (turn hist pr s pr' s')
  from run_inv_turn [OF assms(1) turn.IH turn.hyps(2)] show ?case .
qed

lemma Run_returns:
  assumes "engine_ok e None" and "startable p"
  shows "\<exists>r pr q b'. Run pick e (p, b) = Some (r, pr, (q, b')) \<and> Wave pr \<le> maxSeedExpansionDepth + 1
     \<and> (\<exists>D. context_ok D q)"
proof -
  let ?p = "InitializeSeedFrontier maxSeedExpansionDepth p"
  have "\<forall>x \<in> set (Seeds p). commaFree x" using assms(2) by (simp add: startable_def)
  note init = InitializeSeedFrontier_fields [OF this, of maxSeedExpansionDepth]
  have "wavesLeft ?p \<le> 4"
    using init(1,4) by (auto simp: wavesLeft_def maxSeedExpansionDepth_def sched_inv_def budget_ok_def)
  moreover note startable_ok [OF assms(2), of maxSeedExpansionDepth]
  moreover have "\<exists>r pr s'. resumeLoop pick e None \<lparr>Initialized = True, Wave = 0, Phase = RunPhaseCollectionWave\<rparr> (?p, b)
        = Some (r, pr, s')
      \<and> Wave pr \<le> Wave \<lparr>Initialized = True, Wave = 0, Phase = RunPhaseCollectionWave\<rparr> + int (wavesLeft (fst (?p, b)))
      \<and> (\<exists>D. context_ok D (fst s'))"
    by (rule resumeLoop_returns [OF assms(1), of "{}"]) (use calculation in auto)
  then obtain r pr s' where "resumeLoop pick e None \<lparr>Initialized = True, Wave = 0, Phase = RunPhaseCollectionWave\<rparr> (?p, b)
      = Some (r, pr, s')"
      and wave: "Wave pr \<le> Wave \<lparr>Initialized = True, Wave = 0, Phase = RunPhaseCollectionWave\<rparr> + int (wavesLeft (fst (?p, b)))"
      and "\<exists>D. context_ok D (fst s')"
    by blast
  moreover from wave have "Wave pr \<le> int (wavesLeft ?p)" by simp
  ultimately show ?thesis
    by (cases s') (auto simp: Run_def Resume_def initialProgress_def zeroProgress_def onContext_def
        maxSeedExpansionDepth_def)
qed

section \<open>Panics\<close>

text \<open>What becomes of a collector: its goroutine always returns, and its failure is recorded.\<close>

lemma run_thread_finish:
  "run_thread (finish t onReturn onPanic) s =
     (case run_thread t s of (Inr e, s') \<Rightarrow> run_thread (onReturn e) s' | (Inl m, s') \<Rightarrow> run_thread (onPanic m) s')"
  by (induction t arbitrary: s) simp_all

lemma collectorThread_result:
  "run_thread (collectorThread w col) s =
     (case run_thread (processNode ''collect'' w col) s of
        (Inr None, s') \<Rightarrow> (Inr None, s')
      | (Inr (Some e), s') \<Rightarrow> (Inr None, onContext (appendError e) s')
      | (Inl m, s') \<Rightarrow> (Inr None, onContext (appendError (''collector '' @ node_Name col @ '' panicked: '' @ m)) s'))"
proof -
  obtain r s' where "run_thread (processNode ''collect'' w col) s = (r, s')" by (metis surj_pair)
  then show ?thesis
    unfolding collectorThread_def run_thread_finish by (auto split: sum.split option.split)
qed

text \<open>A stage that never panics; collectors may, since their goroutine recovers.\<close>

inductive panic_free :: "'s thread \<Rightarrow> bool" where
  "panic_free (Done e)"
| "(\<And>s. panic_free (rest s)) \<Longrightarrow> panic_free (Step act rest)"

lemma panic_free_run: "panic_free t \<Longrightarrow> fst (run_thread t s) \<noteq> Inl m"
proof (induction arbitrary: s rule: panic_free.induct)
  case (2 rest act)
  show ?case using "2.IH" [of s "act s"] by simp
qed simp

lemma panic_free_finish:
  "panic_free t \<Longrightarrow> (\<And>e. panic_free (k e)) \<Longrightarrow> panic_free (finish t k h)"
  by (induction rule: panic_free.induct) (auto intro: panic_free.intros)

lemma panic_free_processNode: "panic_free (node_Process n) \<Longrightarrow> panic_free (processNode stage w n)"
  unfolding processNode_def by (intro panic_free.intros panic_free_finish)

lemma runStages_no_panic:
  "\<forall>n \<in> set ns. panic_free (node_Process n) \<Longrightarrow> fst (runStages stage w ns s) \<noteq> Inl m"
proof (induction ns arbitrary: s)
  case (Cons n ns)
  obtain r s' where run: "run_thread (processNode stage w n) s = (r, s')" by (metis surj_pair)
  have "r \<noteq> Inl m" using panic_free_run [OF panic_free_processNode, of n stage w s m] Cons.prems run by simp
  then show ?case
    using run Cons.IH [of s'] Cons.prems by (cases r) (auto split: option.split)
qed simp

lemma runWave_no_panic:
  assumes "\<forall>n \<in> set (Enrichers e @ Expanders e). panic_free (node_Process n)"
  shows "fst (runWave pick e w s) \<noteq> Inl m"
proof -
  let ?s1 = "if length (CollectionSeeds (fst s)) > 0
     then runPool pick (map (collectorThread w) (Collectors e)) s else s"
  obtain r s2 where en: "runStages ''enrich'' w (Enrichers e) ?s1 = (r, s2)" by (metis surj_pair)
  have "r \<noteq> Inl m" using runStages_no_panic [of "Enrichers e" "''enrich''" w ?s1 m] assms en by simp
  moreover have "fst (runStages ''expand'' w (Expanders e) s2) \<noteq> Inl m"
    by (rule runStages_no_panic) (use assms in simp)
  ultimately show ?thesis
    unfolding runWave_def Let_def en by (cases r) (simp_all split: option.split)
qed

end
