(* ===== verification/Resume_Facts.thy ===== *)
theory Resume_Facts
  imports Engine_Facts
begin

text \<open>
  What the result of \<open>Resume\<close> says: an error comes from a stage or from the checkpoint callback,
  and a pause is the answer of the callback in the very state that is returned. Together with the
  relations a whole run respects when each stage and the callback do.
\<close>

section \<open>What a stage may return\<close>

inductive only_returns :: "(string option \<Rightarrow> bool) \<Rightarrow> 's thread \<Rightarrow> bool" for P where
  returned: "P e \<Longrightarrow> only_returns P (Done e)"
| panicked: "only_returns P (Panicked m)"
| step: "(\<And>s. only_returns P (rest s)) \<Longrightarrow> only_returns P (Step act rest)"

inductive_simps only_returns_simps [simp]:
  "only_returns P (Done e)" "only_returns P (Panicked m)" "only_returns P (Step act rest)"

lemma only_returns_run: "only_returns P t \<Longrightarrow> run_thread t s = (Inr e, s') \<Longrightarrow> P e"
  by (induction arbitrary: s rule: only_returns.induct) auto

lemma only_returns_finish:
  "only_returns P t \<Longrightarrow> (\<And>e. P e \<Longrightarrow> only_returns P (k e)) \<Longrightarrow> (\<And>m. only_returns P (h m))
   \<Longrightarrow> only_returns P (finish t k h)"
  by (induction rule: only_returns.induct) auto

lemma only_returns_processNode:
  "only_returns P (node_Process n) \<Longrightarrow> only_returns P (processNode stage w n)"
  unfolding processNode_def by (simp add: only_returns_finish)

lemma runStages_returns:
  "\<lbrakk>\<forall>n \<in> set ns. only_returns P (node_Process n); runStages stage w ns s = (Inr (Some e), s')\<rbrakk> \<Longrightarrow> P (Some e)"
proof (induction ns arbitrary: s)
  case (Cons n ns)
  obtain r s1 where run: "run_thread (processNode stage w n) s = (r, s1)" by (metis surj_pair)
  show ?case
  proof (cases "r = Inr None")
    case True
    with Cons run show ?thesis by simp
  next
    case False
    with Cons.prems(2) run have "r = Inr (Some e)" by (auto split: sum.splits option.splits)
    with run only_returns_run [OF only_returns_processNode] Cons.prems(1) show ?thesis by fastforce
  qed
qed simp

definition stages :: "'b engine \<Rightarrow> 'b engineNode set" where
  "stages e = set (Enrichers e @ Expanders e @ Reconsiderers e @ Filters e @ Exporters e)"

lemma waveOrSkip_returns:
  assumes "\<forall>n \<in> stages e. only_returns P (node_Process n)" and "waveOrSkip pick e w s = (Inr (Some err), s')"
  shows "P (Some err)"
proof -
  let ?s1 = "if length (CollectionSeeds (fst s)) > 0
     then runPool pick (map (collectorThread w) (Collectors e)) s else s"
  have wave: "runWave pick e w s = (Inr (Some err), s')"
    using assms(2) by (auto simp: waveOrSkip_def split: if_splits)
  obtain r s2 where en: "runStages ''enrich'' w (Enrichers e) ?s1 = (r, s2)" by (metis surj_pair)
  have P: "\<forall>n \<in> set (Enrichers e). only_returns P (node_Process n)" "\<forall>n \<in> set (Expanders e). only_returns P (node_Process n)"
    using assms(1) by (auto simp: stages_def)
  consider "r = Inr (Some err)" | "r = Inr None" "runStages ''expand'' w (Expanders e) s2 = (Inr (Some err), s')"
    using wave unfolding runWave_def Let_def en by (auto split: sum.splits option.splits)
  then show ?thesis using runStages_returns [OF P(1)] runStages_returns [OF P(2)] en by cases auto
qed

definition callbackSaid :: "'b resumeCallbacks \<Rightarrow> string \<Rightarrow> runProgress \<Rightarrow> 'b engineState \<Rightarrow> bool" where
  "callbackSaid callbacks err pr s' \<longleftrightarrow> (\<exists>f cp s0 pz e0. callbacks = Some f \<and> f cp pr s0 = ((pz, e0), s')
     \<and> (e0 = Some err \<or> e0 = None \<and> pz \<and> err = ErrExecutionPaused))"

lemma afterCheckpoint_said:
  assumes "afterCheckpoint callbacks cp pr s = Inr (Inr (Some err), pr', s')"
  shows "callbackSaid callbacks err pr' s'"
proof (cases callbacks)
  case None
  with assms show ?thesis by (simp add: afterCheckpoint_def runCheckpointCallback_def)
next
  case (Some f)
  obtain pz e0 s1 where f: "f cp pr s = ((pz, e0), s1)" by (metis surj_pair)
  with assms Some have "pr' = pr \<and> s' = s1 \<and> (e0 = Some err \<or> e0 = None \<and> pz \<and> err = ErrExecutionPaused)"
    by (cases e0) (auto simp: afterCheckpoint_def runCheckpointCallback_def split: if_splits)
  with Some f show ?thesis unfolding callbackSaid_def by blast
qed

lemma turn_error:
  assumes "\<forall>n \<in> stages e. only_returns P (node_Process n)"
    and "resumeTurn pick e callbacks pr s = Inr (Inr (Some err), pr', s')"
  shows "P (Some err) \<or> callbackSaid callbacks err pr' s'"
proof -
  have P: "\<forall>n \<in> set (Reconsiderers e). only_returns P (node_Process n)"
    "\<forall>n \<in> set (Filters e). only_returns P (node_Process n)" "\<forall>n \<in> set (Exporters e). only_returns P (node_Process n)"
    using assms(1) by (auto simp: stages_def)
  have staged: "P (Some err) \<or> callbackSaid callbacks err pr' s'"
    if "(case x of (Inr None, s1) \<Rightarrow> afterCheckpoint callbacks cp q s1 | (r, s1) \<Rightarrow> Inr (r, pr, s1)) = Inr (Inr (Some err), pr', s')"
      and "\<And>s1. x = (Inr (Some err), s1) \<Longrightarrow> P (Some err)" for x cp q
    using that afterCheckpoint_said [of callbacks cp q] by (auto split: prod.splits sum.splits option.splits)
  show ?thesis
  proof (cases "Phase pr")
    case RunPhaseCollectionWave
    show ?thesis
      by (rule staged [OF assms(2) [unfolded resumeTurn_def RunPhaseCollectionWave runPhase.case]])
        (rule waveOrSkip_returns [OF assms(1)])
  next
    case RunPhaseReconsideration
    show ?thesis
      by (rule staged [OF assms(2) [unfolded resumeTurn_def RunPhaseReconsideration runPhase.case]])
        (auto intro: runStages_returns [OF P(1)] split: if_splits)
  next
    case RunPhaseExtraWave
    show ?thesis
      by (rule staged [OF assms(2) [unfolded resumeTurn_def RunPhaseExtraWave runPhase.case]])
        (rule waveOrSkip_returns [OF assms(1)])
  next
    case RunPhaseFiltering
    with assms(2) show ?thesis
      by (auto simp: resumeTurn_def split: prod.splits sum.splits option.splits intro: runStages_returns [OF P(2)])
  next
    case RunPhaseExporting
    with assms(2) show ?thesis
      by (auto simp: resumeTurn_def split: prod.splits sum.splits option.splits intro: runStages_returns [OF P(3)])
  qed (use assms(2) in \<open>auto simp: resumeTurn_def Let_def split: prod.splits if_splits\<close>)
qed

lemma resumeLoop_error:
  fixes e :: "'b engine"
  assumes "\<forall>n \<in> stages e. only_returns P (node_Process n)"
    and "resumeLoop pick e callbacks pr s = Some (Inr (Some err), pr', s')"
  shows "P (Some err) \<or> callbackSaid callbacks err pr' s'"
proof -
  define Q where "Q = (\<lambda>(e :: 'b engine) callbacks (y :: stageResult \<times> runProgress \<times> 'b engineState).
    fst y = Inr (Some err) \<longrightarrow> (\<forall>n \<in> stages e. only_returns P (node_Process n))
      \<longrightarrow> P (Some err) \<or> callbackSaid callbacks err (fst (snd y)) (snd (snd y)))"
  have "Q e callbacks (Inr (Some err), pr', s')"
  proof (rule resumeLoop.raw_induct [OF _ assms(2), where P = "\<lambda>pick e callbacks pr s y. Q e callbacks y"])
    fix loop and pick :: "'b engineState scheduler" and e callbacks pr s y
    assume IH: "\<And>pick e callbacks pr s y. loop pick e callbacks pr s = Some y \<Longrightarrow> Q e callbacks y"
      and step: "(case resumeTurn pick e callbacks pr s of Inl nx \<Rightarrow> loop pick e callbacks (fst nx) (snd nx)
        | Inr result \<Rightarrow> Some result) = Some y"
    show "Q e callbacks y"
    proof (cases "resumeTurn pick e callbacks pr s")
      case (Inl nx)
      with step IH [of pick e callbacks "fst nx" "snd nx" y] show ?thesis by simp
    next
      case (Inr res)
      with step have turn: "resumeTurn pick e callbacks pr s = Inr (fst y, fst (snd y), snd (snd y))" by simp
      show ?thesis
        unfolding Q_def using turn_error [of e P pick callbacks pr s err "fst (snd y)" "snd (snd y)"] turn
        by (cases y) auto
    qed
  qed
  with assms(1) show ?thesis by (simp add: Q_def)
qed

section \<open>Relations over a whole run\<close>

text \<open>A relation that looks only at what the stages share besides the context.\<close>

locale side_relation = stage_relation R
  for R :: "'b engineState \<Rightarrow> 'b engineState \<Rightarrow> bool" +
  assumes R_context: "R (p, b) (q, b)"
begin

lemma R_onContext: "R s (onContext f s)"
  using R_context [of "fst s" "snd s"] by (simp add: onContext_def)

definition run_ok :: "'b engine \<Rightarrow> 'b resumeCallbacks \<Rightarrow> bool" where
  "run_ok e callbacks \<longleftrightarrow> (\<forall>n \<in> set (Collectors e) \<union> stages e. thread_ok R (node_Process n))
     \<and> (\<forall>f cp pr s. callbacks = Some f \<longrightarrow> R s (snd (f cp pr s)))"

lemma afterCheckpoint_R:
  assumes "run_ok e callbacks" shows "R s (snd (turnState (afterCheckpoint callbacks cp pr s)))"
proof (cases callbacks)
  case None
  then show ?thesis by (simp add: afterCheckpoint_def runCheckpointCallback_def R_refl)
next
  case (Some f)
  obtain pz e0 s1 where f: "f cp pr s = ((pz, e0), s1)" by (metis surj_pair)
  have "R s (snd (f cp pr s))" using assms Some unfolding run_ok_def by blast
  with f Some show ?thesis
    by (cases e0) (auto simp: afterCheckpoint_def runCheckpointCallback_def)
qed

lemma staged_R:
  assumes "run_ok e callbacks" and "R s (snd x)"
  shows "R s (snd (turnState (case x of (Inr None, s1) \<Rightarrow> afterCheckpoint callbacks cp q s1
     | (r, s1) \<Rightarrow> Inr (r, pr, s1))))"
proof -
  obtain res s1 where x: "x = (res, s1)" by (cases x)
  show ?thesis
  proof (cases "res = Inr None")
    case True
    have "R s s1" using assms(2) x by simp
    from R_trans [OF this afterCheckpoint_R [OF assms(1)]] show ?thesis by (simp add: x True)
  next
    case False
    with assms(2) show ?thesis by (auto simp: x split: sum.splits option.splits)
  qed
qed

lemma turn_R:
  assumes "run_ok e callbacks" shows "R s (snd (turnState (resumeTurn pick e callbacks pr s)))"
proof -
  have w: "R s (snd (waveOrSkip pick e n s))" for n s
    using runWave_R [of e s pick n] assms by (auto simp: waveOrSkip_def run_ok_def stages_def R_refl)
  have st: "R s (snd (runStages stage n ns s))" if "set ns \<subseteq> stages e" for stage n ns s
    by (rule runStages_R) (use assms that in \<open>auto simp: run_ok_def\<close>)
  have adv: "R s (snd (turnState (case AdvanceSeedFrontier (fst s) of (moved, p) \<Rightarrow>
      if moved then Inl (a, (p, snd s)) else Inl (b, (p, snd s)))))" for a b
    using R_context [of "fst s" "snd s"] by (simp add: split_def Let_def)
  show ?thesis
  proof (cases "Phase pr")
    case RunPhaseCollectionWave
    show ?thesis unfolding resumeTurn_def RunPhaseCollectionWave runPhase.case by (rule staged_R [OF assms w])
  next
    case RunPhaseExtraWave
    show ?thesis unfolding resumeTurn_def RunPhaseExtraWave runPhase.case by (rule staged_R [OF assms w])
  next
    case RunPhaseReconsideration
    have rec: "set (Reconsiderers e) \<subseteq> stages e" by (auto simp: stages_def)
    have "R s (snd (if length (Reconsiderers e) > 0
       then runStages ''reconsider'' (Wave pr) (Reconsiderers e) (onContext (\<lambda>p. snd (ReserveExtraCollectionWave p)) s)
       else (Inr None, s)))"
      using R_trans [OF R_onContext [of s "\<lambda>p. snd (ReserveExtraCollectionWave p)"]
          st [OF rec]]
      by (simp add: R_refl)
    then show ?thesis unfolding resumeTurn_def RunPhaseReconsideration runPhase.case by (rule staged_R [OF assms])
  next
    case RunPhaseFiltering
    have "set (Filters e) \<subseteq> stages e" by (auto simp: stages_def)
    with RunPhaseFiltering st [of "Filters e" s "''filter''" "Wave pr"] show ?thesis
      by (auto simp: resumeTurn_def split: prod.splits sum.splits option.splits)
  next
    case RunPhaseExporting
    have "set (Exporters e) \<subseteq> stages e" by (auto simp: stages_def)
    with RunPhaseExporting st [of "Exporters e" s "''export''" "Wave pr"] show ?thesis
      by (auto simp: resumeTurn_def split: prod.splits sum.splits option.splits)
  qed (simp_all add: resumeTurn_def adv R_refl)
qed

lemma resumeLoop_R:
  assumes "run_ok e callbacks" and "resumeLoop pick e callbacks pr s = Some (r, pr', s')"
  shows "R s s'"
proof -
  let ?P = "\<lambda>(pick :: 'b engineState scheduler) e callbacks pr s y.
    run_ok e callbacks \<longrightarrow> R s (snd (snd y))"
  have "?P pick e callbacks pr s (r, pr', s')"
  proof (rule resumeLoop.raw_induct [OF _ assms(2), where P = ?P])
    fix loop pick e callbacks pr s y
    assume IH: "\<And>pick e callbacks pr s y. loop pick e callbacks pr s = Some y \<Longrightarrow> ?P pick e callbacks pr s y"
      and step: "(case resumeTurn pick e callbacks pr s of Inl nx \<Rightarrow> loop pick e callbacks (fst nx) (snd nx)
        | Inr result \<Rightarrow> Some result) = Some y"
    show "?P pick e callbacks pr s y"
    proof
      assume ok: "run_ok e callbacks"
      note R = turn_R [OF ok, of s pick pr]
      show "R s (snd (snd y))"
      proof (cases "resumeTurn pick e callbacks pr s")
        case (Inl nx)
        with step IH [of pick e callbacks "fst nx" "snd nx" y] ok have "R (snd nx) (snd (snd y))" by simp
        with R Inl show ?thesis by (auto intro: R_trans)
      next
        case (Inr res)
        with step R show ?thesis by (cases y) simp
      qed
    qed
  qed
  with assms(1) show ?thesis by simp
qed

lemma Resume_R:
  assumes "run_ok e callbacks" and "Resume pick e callbacks pr s = Some (r, pr', s')"
  shows "R s s'"
proof -
  obtain pr1 s1 where i: "initialProgress pr s = (pr1, s1)" by (metis surj_pair)
  then have "R s s1" by (auto simp: initialProgress_def R_refl R_onContext split: if_splits)
  moreover have "R s1 s'" using resumeLoop_R [OF assms(1)] assms(2) i by (simp add: Resume_def)
  ultimately show ?thesis by (rule R_trans)
qed

end

lemma Resume_error:
  assumes "\<forall>n \<in> stages e. only_returns P (node_Process n)"
    and "Resume pick e callbacks pr s = Some (Inr (Some err), pr', s')"
  shows "P (Some err) \<or> callbackSaid callbacks err pr' s'"
  using assms(2) resumeLoop_error [OF assms(1)] by (auto simp: Resume_def split: prod.splits)

text \<open>A run goes on from a checkpoint as it goes on from the start: it returns.\<close>

lemma Resume_returns:
  assumes "engine_ok e callbacks"
    and "if Initialized pr then \<exists>D. context_ok D (fst s) else startable (fst s)"
  shows "\<exists>r pr' s'. Resume pick e callbacks pr s = Some (r, pr', s') \<and> (\<exists>D. context_ok D (fst s'))"
proof (cases "Initialized pr")
  case True
  then obtain D where D: "context_ok D (fst s)" using assms(2) by auto
  show ?thesis using resumeLoop_returns [OF assms(1) D, of pick pr] True
    by (auto simp: Resume_def initialProgress_def)
next
  case False
  let ?s = "onContext (InitializeSeedFrontier maxSeedExpansionDepth) s"
  have "context_ok {} (fst ?s)"
    using startable_ok [of "fst s" maxSeedExpansionDepth] assms(2) False by (simp add: onContext_def)
  from resumeLoop_returns [OF assms(1) this, of pick "\<lparr>Initialized = True, Wave = 0, Phase = RunPhaseCollectionWave\<rparr>"]
  show ?thesis using False by (auto simp: Resume_def initialProgress_def)
qed

end
