(* ===== verification/Run_Facts.thy ===== *)
theory Run_Facts
  imports Checkpoint_Store Resume_Facts
begin

text \<open>
  What a call of \<open>ProcessRun\<close> leaves behind: the listener and the checkpoints do not touch the
  context; a call that ends without an error left a checkpoint that awaits review or is completed;
  with stores that do not fail, a call that ends with an error left a failed run with that error.
\<close>

section \<open>The listener\<close>

definition sameProcessor :: "'s procWorld \<Rightarrow> 's procWorld \<Rightarrow> bool" where
  "sameProcessor pw pw' \<longleftrightarrow> pw_Snapshot pw' = pw_Snapshot pw \<and> pw_Broker pw' = pw_Broker pw
     \<and> run_ID (lst_Run (pw_Listener pw')) = run_ID (lst_Run (pw_Listener pw))"

definition noListenerError :: "'s procWorld \<Rightarrow> bool" where
  "noListenerError pw \<longleftrightarrow> lst_Err (pw_Listener pw) = None"

lemma fst_deliver [simp]: "fst (deliver sv net zone mo st) = fst st"
  by (simp add: deliver_def split_def Let_def)

text \<open>How a stored run ended.\<close>

definition awaiting :: "runProgress \<Rightarrow> snapshot \<Rightarrow> bool" where
  "awaiting progress x \<longleftrightarrow> run_Status (snap_Run x) = RunStatusAwaitingReview
     \<and> hasPendingReview (snap_Pivots x) \<and> snap_Progress x = progress"

definition failedWith :: "string \<Rightarrow> snapshot \<Rightarrow> bool" where
  "failedWith e x \<longleftrightarrow> run_Status (snap_Run x) = RunStatusFailed \<and> run_LastError (snap_Run x) = e"

context run_stores
begin

definition stays :: "'s procWorld \<Rightarrow> 's procWorld \<Rightarrow> bool" where
  "stays pw pw' \<longleftrightarrow> sameProcessor pw pw' \<and> (\<forall>r. saved r (pw_Store pw') = saved r (pw_Store pw))"

lemma stays_refl [simp]: "stays pw pw"
  by (simp add: stays_def sameProcessor_def)

lemma stays_trans: "stays a b \<Longrightarrow> stays b c \<Longrightarrow> stays a c"
  by (simp add: stays_def sameProcessor_def)

lemma inWorld_stays:
  assumes "effect_keeps f" shows "stays pw (snd (inWorld f pw))"
proof -
  obtain e w where f: "f (pw_Env pw, pw_Store pw) = (e, w)" by (metis surj_pair)
  have "saved r (snd (snd (f (pw_Env pw, pw_Store pw)))) = saved r (snd (pw_Env pw, pw_Store pw))" for r
    using assms unfolding effect_keeps_def by blast
  with f show ?thesis by (simp add: inWorld_def stays_def sameProcessor_def)
qed

lemma listenerCall_stays:
  assumes "effect_keeps f" shows "stays pw (snd (listenerCall label f pw))"
proof -
  obtain e pw1 where i: "inWorld f pw = (e, pw1)" by (metis surj_pair)
  have "stays pw pw1" using inWorld_stays [OF assms, of pw] i by simp
  then show ?thesis
    by (cases e) (auto simp: listenerCall_def i setErr_def stays_def sameProcessor_def split: option.split)
qed

lemma listenerEvent_stays: "stays pw (snd (listenerEvent sv label k m md pw))"
  unfolding listenerEvent_def by (rule listenerCall_stays [OF eventNow_keeps])

lemma syncRunProjection_stays: "stays pw (syncRunProjection sv mo q pw)"
proof -
  obtain now env where clock: "readClock (pw_Env pw) = (now, env)" by (metis surj_pair)
  let ?run = "(applyProjectedRunMetrics q (run_PendingPivotCount (lst_Run (pw_Listener pw)))
     (buildProjectedJudgeSummary mo q) (lst_Run (pw_Listener pw)))\<lparr>run_UpdatedAt := now\<rparr>"
  let ?pw = "pw\<lparr>pw_Listener := (pw_Listener pw)\<lparr>lst_Run := ?run\<rparr>, pw_Env := env\<rparr>"
  have "stays pw ?pw" by (simp add: stays_def sameProcessor_def applyProjectedRunMetrics_def)
  moreover have "stays ?pw (snd (listenerCall ''project run counts'' (onStore (sv_UpsertRun sv ?run)) ?pw))"
    by (rule listenerCall_stays [OF onStore_keeps]) (rule run_keeps)
  ultimately show ?thesis unfolding syncRunProjection_def Let_def clock prod.case by (rule stays_trans)
qed

lemma onMutation_stays: "stays pw (onMutation sv net zone mo ctx ev pw)"
proof (cases ev)
  case (OnAssetUpsert a)
  show ?thesis
  proof (cases "buildProjectedAssetRow net zone (run_ID (lst_Run (pw_Listener pw))) (SnapshotReadModel ctx) (asset_ID a)")
    case None
    then show ?thesis by (simp add: OnAssetUpsert onAssetUpsert_def)
  next
    case (Some row)
    let ?f = "onStore (sv_UpsertAsset sv (run_ID (lst_Run (pw_Listener pw))) row)"
    obtain ok pw1 where c: "listenerCall (''project asset '' @ asset_ID a) ?f pw = (ok, pw1)" by (metis surj_pair)
    have "effect_keeps ?f" by (rule onStore_keeps) (rule asset_keeps)
    from listenerCall_stays [OF this, of pw "''project asset '' @ asset_ID a"] c have "stays pw pw1" by simp
    with syncRunProjection_stays show ?thesis
      using c by (cases ok) (auto simp: OnAssetUpsert onAssetUpsert_def Some Let_def intro: stays_trans)
  qed
next
  case (OnJudgeEvaluationRecorded e)
  obtain ok pw1 where c: "listenerEvent sv (''project judge event from '' @ eval_Collector e) ''judge_evaluation''
      (''Recorded '' @ show_nat (length (eval_Outcomes e)) @ '' judge outcome(s) from '' @ eval_Collector e @ ''.'')
      [(''collector'', EVString (eval_Collector e)), (''seed_id'', EVString (eval_SeedID e)),
       (''scenario'', EVString (eval_Scenario e))] pw = (ok, pw1)" by (metis surj_pair)
  have s1: "stays pw pw1" using listenerEvent_stays c by (metis snd_conv)
  let ?f = "onStore (sv_UpsertJudgeSummary sv (run_ID (lst_Run (pw_Listener pw1)))
     (buildProjectedJudgeSummary mo (SnapshotReadModel ctx)))"
  obtain ok2 pw2 where c2: "listenerCall ''project judge summary'' ?f pw1 = (ok2, pw2)" by (metis surj_pair)
  have "effect_keeps ?f" by (rule onStore_keeps) (rule summary_keeps)
  from listenerCall_stays [OF this, of pw1 "''project judge summary''"] c2 have "stays pw1 pw2" by simp
  with s1 have s2: "stays pw pw2" by (rule stays_trans)
  show ?thesis
    unfolding OnJudgeEvaluationRecorded onMutation.simps onJudgeEvaluationRecorded_def c
    using s1 s2 c2 syncRunProjection_stays [of pw2 mo "SnapshotReadModel ctx"]
    by (cases ok; cases ok2) (auto simp: Let_def intro: stays_trans)
qed (simp_all add: onObservationAdded_def onRelationAdded_def onExecutionEvent_def listenerEvent_stays)

lemma deliver_stays: "stays (snd st) (snd (deliver sv net zone mo st))"
proof -
  have "stays pw (fold (onMutation sv net zone mo ctx) evs pw)" for ctx evs pw
    by (induction evs arbitrary: pw) (auto intro: stays_trans onMutation_stays)
  then have "stays pw ((fold (onMutation sv net zone mo ctx) evs pw)\<lparr>pw_Listener :=
      (pw_Listener (fold (onMutation sv net zone mo ctx) evs pw))\<lparr>lst_Delivered := n\<rparr>\<rparr>)" for ctx evs pw n
    by (simp add: stays_def sameProcessor_def)
  then show ?thesis by (simp add: deliver_def split_def Let_def)
qed

section \<open>Checkpoints\<close>

lemma projectSnapshot_pivots:
  assumes "projectSnapshot sv net zone mo snap w = ((e, snap1), w')"
  shows "snap_Pivots snap1 = snap_Pivots snap \<and> run_Status (snap_Run snap1) = run_Status (snap_Run snap)"
  using assms by (auto simp: projectSnapshot_def Let_def applyProjectedRunMetrics_def split: prod.splits)

lemma saveAndProject_pivots:
  assumes "saveAndProject sv net zone mo r snap w = ((p, snap1), w')"
  shows "snap_Pivots snap1 = snap_Pivots snap \<and> run_Status (snap_Run snap1) = run_Status (snap_Run snap)"
  using assms projectSnapshot_pivots unfolding saveAndProject_def by (auto split: prod.splits option.splits)

lemma runEffects_label:
  "runEffects fs w = (Some e, w') \<Longrightarrow> \<exists>l \<in> fst ` set fs. \<exists>m. e = l @ '': '' @ m"
proof (induction fs arbitrary: w)
  case (Cons lf fs)
  obtain l f err w1 where lf: "lf = (l, f)" and f: "f w = (err, w1)" by (metis surj_pair)
  with Cons show ?case by (cases err) auto
qed simp

lemma ProjectFailed_hd:
  assumes "saveAndProject sv net zone mo r snap w = ((ProjectFailed e, snap1), w')"
  shows "hd e \<in> {CHR ''u'', CHR ''s''}"
proof -
  obtain err w1 where s: "onStore (sv_Save sv r snap) w = (err, w1)" by (metis surj_pair)
  with assms have "err = None" by (cases err) (auto simp: saveAndProject_def)
  with assms s have "projectSnapshot sv net zone mo snap w1 = ((Some e, snap1), w')"
    by (auto simp: saveAndProject_def split: prod.splits option.splits)
  then obtain j snap2 where "runEffects (projectionCalls sv net zone j snap2) w1 = (Some e, w')"
    by (auto simp: projectSnapshot_def Let_def split: prod.splits)
  from runEffects_label [OF this] show ?thesis
    by (auto simp: projectionCalls_def Let_def split: prod.splits)
qed

lemma checkpointSnapshot_status:
  assumes "checkpointSnapshot net mo progress b snap env = (snap1, env1)"
  shows "run_Status (snap_Run snap1)
      = (if hasPendingReview (snap_Pivots snap1) then RunStatusAwaitingReview else RunStatusRunning)
    \<and> snap_Progress snap1 = progress \<and> snap_SchedulerState snap1 = SnapshotSchedulerState (snap_Context snap)
    \<and> snap_Context snap1 = snap_Context snap"
proof -
  let ?s1 = "snap\<lparr>snap_Progress := progress, snap_SchedulerState := SnapshotSchedulerState (snap_Context snap),
     snap_Pivots := brokerSnapshot b\<rparr>"
  obtain now e1 where c: "readClock env = (now, e1)" by (metis surj_pair)
  obtain s2 e2 where h: "hydratePivotsFromJudges net now (snap_Context snap) (?s1, e1) = (s2, e2)" by (metis surj_pair)
  obtain now' e3 where c3: "readClock e2 = (now', e3)" by (metis surj_pair)
  have f: "snap_Context s2 = snap_Context ?s1" "snap_SchedulerState s2 = snap_SchedulerState ?s1"
    "snap_Progress s2 = snap_Progress ?s1"
    using hydrate_fields [of net now "snap_Context snap" "(?s1, e1)"] h by simp_all
  show ?thesis using assms unfolding checkpointSnapshot_def Let_def c prod.case h c3 by (auto simp: f)
qed

text \<open>A pause: the checkpoint that asks for it is stored, awaits review and has what to review.\<close>

lemma procAfterCheckpoint_cases:
  assumes "procAfterCheckpoint sv net zone mo r cp progress st = ((pz, err), st')"
  shows "fst st' = fst st"
    and "pz \<longrightarrow> err = None \<and> (\<exists>x. saved r (pw_Store (snd st')) = Some x \<and> awaiting progress x)"
    and "err \<noteq> Some ErrExecutionPaused"
proof -
  let ?st = "deliver sv net zone mo st"
  let ?pw = "snd ?st"
  obtain snap env where cs: "checkpointSnapshot net mo progress (pw_Broker ?pw) (currentSnapshot ?st) (pw_Env ?pw) = (snap, env)"
    by (metis surj_pair)
  obtain res snap1 w1 where sp: "saveAndProject sv net zone mo r snap (env, pw_Store ?pw) = ((res, snap1), w1)"
    by (metis surj_pair)
  let ?pw1 = "?pw\<lparr>pw_Snapshot := snap1, pw_Env := fst w1, pw_Store := snd w1\<rparr>"
  let ?ev = "eventNow sv r ''checkpoint''
      (''Reached '' @ checkpointName cp @ '' at wave '' @ show_int (Wave progress) @ ''.'')
      [(''checkpoint'', EVString (checkpointName cp)), (''wave'', EVInt (Wave progress))]"
  obtain e pw2 where ev: "inWorld ?ev ?pw1 = (e, pw2)" by (metis surj_pair)
  note def = assms [unfolded procAfterCheckpoint_def Let_def cs prod.case sp ev]
  show "fst st' = fst st" using def by (auto split: persisted.splits option.splits)
  have pivots: "snap_Pivots snap1 = snap_Pivots snap" using saveAndProject_pivots [OF sp] by simp
  show "pz \<longrightarrow> err = None \<and> (\<exists>x. saved r (pw_Store (snd st')) = Some x \<and> awaiting progress x)"
  proof
    assume pz: pz
    with def have res: "res = Persisted" and e: "e = None" and st': "st' = (fst ?st, pw2)" and err: "err = None"
      and pend: "hasPendingReview (snap_Pivots snap)"
      by (auto simp: pivots split: persisted.splits option.splits)
    have "saved r (snd w1) = Some (persistSnapshot snap)" by (rule saveAndProject_saved [OF sp]) (simp add: res)
    moreover have "stays ?pw1 pw2" using inWorld_stays [OF eventNow_keeps] ev by (metis snd_conv)
    ultimately have "saved r (pw_Store pw2) = Some (persistSnapshot snap)" by (simp add: stays_def)
    moreover have "awaiting progress (persistSnapshot snap)"
      using checkpointSnapshot_status [OF cs] pend by (simp add: awaiting_def)
    ultimately show "err = None \<and> (\<exists>x. saved r (pw_Store (snd st')) = Some x \<and> awaiting progress x)"
      using st' err by simp
  qed
  have "e' \<noteq> ErrExecutionPaused" if "res = ProjectFailed e'" for e'
    using ProjectFailed_hd sp that by (fastforce simp: ErrExecutionPaused_def)
  then show "err \<noteq> Some ErrExecutionPaused"
    using def by (auto simp: ErrExecutionPaused_def split: persisted.splits option.splits)
qed

section \<open>Endings\<close>

lemma appendEvent_saved:
  "appendEvent sv q k m md t w = (e, w') \<Longrightarrow> saved r (snd w') = saved r (snd w)"
  using appendEvent_keeps [of q k m md t] unfolding effect_keeps_def by (metis snd_conv)

lemma completedSnapshot_status:
  assumes "completedSnapshot net mo d t b snap env = (snap1, env1)"
  shows "run_Status (snap_Run snap1) = RunStatusCompleted"
proof -
  let ?s1 = "snap\<lparr>snap_Run := (snap_Run snap)\<lparr>run_Downloads := d, run_Status := RunStatusCompleted,
     run_UpdatedAt := t, run_CompletedAt := Some t, run_LastError := []\<rparr>,
     snap_SchedulerState := SnapshotSchedulerState (snap_Context snap), snap_Pivots := brokerSnapshot b\<rparr>"
  obtain now e1 where c: "readClock env = (now, e1)" by (metis surj_pair)
  obtain s2 e2 where h: "hydratePivotsFromJudges net now (snap_Context ?s1) (?s1, e1) = (s2, e2)" by (metis surj_pair)
  have "snap_Run s2 = snap_Run ?s1"
    using hydrate_fields(1) [of net now "snap_Context ?s1" "(?s1, e1)"] h by simp
  moreover have "snap1 = updateRunCounters mo s2"
    using assms unfolding completedSnapshot_def Let_def c prod.case h by simp
  ultimately show ?thesis by simp
qed

lemma completeRun_nil:
  assumes "completeRun sv net zone mo r d b snap w = (None, w')"
  shows "\<exists>x. saved r (snd w') = Some x \<and> run_Status (snap_Run x) = RunStatusCompleted"
proof -
  obtain out s where p: "sv_Publish sv r d (snd w) = (out, s)" by (metis surj_pair)
  have "\<exists>pub. out = Inr pub"
    using assms p by (cases out) (auto simp: completeRun_def persistArtifactFailure_def Let_def
        split: prod.splits persisted.splits option.splits)
  then obtain pub where pub: "out = Inr pub" ..
  obtain t env where c: "readClock (fst w) = (t, env)" by (metis surj_pair)
  obtain s1 env1 where cs: "completedSnapshot net mo pub t b snap env = (s1, env1)" by (metis surj_pair)
  obtain res s2 w1 where sp: "saveAndProject sv net zone mo r s1 (env1, s) = ((res, s2), w1)" by (metis surj_pair)
  note def = assms [unfolded completeRun_def Let_def p pub prod.case sum.case c cs sp]
  have res: "res = Persisted" using def by (cases res) simp_all
  have "saved r (snd w1) = Some (persistSnapshot s1)" by (rule saveAndProject_saved [OF sp]) (simp add: res)
  moreover have "saved r (snd w') = saved r (snd w1)"
    using def res by (auto simp: appendEvent_saved split: prod.splits option.splits)
  ultimately show ?thesis using completedSnapshot_status [OF cs] by simp
qed

lemma failures_return_errors:
  "fst (persistPipelineFailure sv net zone mo r e b snap w) \<noteq> None"
  "fst (persistArtifactFailure sv net zone mo r e b snap w) \<noteq> None"
  "fst (handlePanic sv net zone mo r e snap w) \<noteq> None"
  by (auto simp: persistPipelineFailure_def persistArtifactFailure_def handlePanic_def Let_def
      split: prod.splits persisted.splits option.splits)

end

section \<open>The engine under the listener\<close>

lemma only_returns_listened: "only_returns P t \<Longrightarrow> only_returns P (listened f t)"
  by (induction rule: only_returns.induct) simp_all

lemma stages_listened: "stages (listenedEngine f e) = (\<lambda>n. n\<lparr>node_Process := listened f (node_Process n)\<rparr>) ` stages e"
  by (simp add: stages_def listenedEngine_def listenedNodes_def image_Un)

lemma collectors_listened:
  "set (Collectors (listenedEngine f e)) = (\<lambda>n. n\<lparr>node_Process := listened f (node_Process n)\<rparr>) ` set (Collectors e)"
  by (simp add: listenedEngine_def listenedNodes_def)

lemma thread_ok_listened:
  assumes "thread_ok R t" and "\<And>s u. R s u \<Longrightarrow> R s (f u)"
  shows "thread_ok R (listened f t)"
  using assms(1) by (induction rule: thread_ok.induct) (auto intro: assms(2))

definition pauses :: "string option \<Rightarrow> bool" where
  "pauses e \<longleftrightarrow> e = Some ErrExecutionPaused"

definition listenerOK :: "'s procState \<Rightarrow> 's procState \<Rightarrow> bool" where
  "listenerOK s t \<longleftrightarrow> (noListenerError (snd s) \<longrightarrow> noListenerError (snd t))"

interpretation listenerOK: side_relation "listenerOK :: 's procState \<Rightarrow> 's procState \<Rightarrow> bool"
  by unfold_locales (auto simp: listenerOK_def onContext_def)

section \<open>Runs\<close>

context run_stores
begin

lemma afterResume_nil:
  assumes "\<forall>n \<in> stages e. only_returns (\<lambda>e. \<not> pauses e) (node_Process n)"
    and "Resume pick e (Some (procAfterCheckpoint sv net zone mo r)) pr st = Some outcome"
    and "afterResume sv net zone mo r d outcome = (None, w')"
  shows "\<exists>x. saved r (snd w') = Some x \<and> (run_Status (snap_Run x) = RunStatusCompleted \<or> (\<exists>p. awaiting p x))"
proof -
  obtain result progress st0 where o: "outcome = (result, progress, st0)" by (metis surj_pair)
  let ?st = "deliver sv net zone mo st0"
  let ?snap = "(currentSnapshot ?st)\<lparr>snap_Progress := progress\<rparr>"
  let ?w = "(pw_Env (snd ?st), pw_Store (snd ?st))"
  note def = assms(3) [unfolded afterResume_def o prod.case Let_def]
  have "\<exists>runErr. result = Inr runErr"
  proof (cases result)
    case (Inl m)
    with def have "handlePanic sv net zone mo r m ?snap ?w = (None, w')" by simp
    with failures_return_errors(3) [of net zone mo r m ?snap ?w] show ?thesis by simp
  qed blast
  then obtain runErr where r: "result = Inr runErr" ..
  have nerr: "lst_Err (pw_Listener (snd ?st)) = None" using def r by (auto split: option.splits)
  show ?thesis
  proof (cases runErr)
    case None
    with def r nerr have "completeRun sv net zone mo r d (pw_Broker (snd ?st)) ?snap ?w = (None, w')" by simp
    from completeRun_nil [OF this] show ?thesis by blast
  next
    case (Some m)
    have m: "m = ErrExecutionPaused"
    proof (rule ccontr)
      assume "m \<noteq> ErrExecutionPaused"
      with def r nerr Some have "persistPipelineFailure sv net zone mo r m (pw_Broker (snd ?st)) ?snap ?w = (None, w')"
        by simp
      with failures_return_errors(1) [of net zone mo r m "pw_Broker (snd ?st)" ?snap ?w] show False by simp
    qed
    with def r nerr Some have w': "w' = ?w" by simp
    have "callbackSaid (Some (procAfterCheckpoint sv net zone mo r)) ErrExecutionPaused progress st0"
      using Resume_error [OF assms(1)] assms(2) unfolding o r Some m pauses_def by blast
    then obtain cp s0 pz e0 where c: "procAfterCheckpoint sv net zone mo r cp progress s0 = ((pz, e0), st0)"
      and pz: "e0 = Some ErrExecutionPaused \<or> pz"
      unfolding callbackSaid_def by blast
    then have "pz" using procAfterCheckpoint_cases(3) [OF c] by blast
    then obtain x where "saved r (pw_Store (snd st0)) = Some x" "awaiting progress x"
      using procAfterCheckpoint_cases(2) [OF c] by blast
    moreover have "saved r (pw_Store (snd ?st)) = saved r (pw_Store (snd st0))"
      using deliver_stays [of st0 net zone mo] by (simp add: stays_def)
    ultimately show ?thesis unfolding w' by auto
  qed
qed

end

text \<open>Stores whose pipelines run on the world of a processor.\<close>

locale run_processor = run_stores sv saved
  for sv :: "('s, 's procWorld) services" and saved :: "string \<Rightarrow> 's \<Rightarrow> snapshot option"
begin

lemma ProcessRun_nil:
  assumes "\<And>e out. sv_pipelineFactory sv r = Inr (e, out)
      \<Longrightarrow> \<forall>n \<in> stages e. only_returns (\<lambda>e. \<not> pauses e) (node_Process n)"
    and "ProcessRun sv net zone mo pick r w = Some (None, w')"
  shows "\<exists>x. saved r (snd w') = Some x \<and> (run_Status (snap_Run x) = RunStatusCompleted \<or> (\<exists>p. awaiting p x))"
proof -
  obtain ld s where l: "sv_Load sv r (snd w) = (ld, s)" by (metis surj_pair)
  obtain stored where ld: "ld = Inr stored" using assms(2) l by (cases ld) (auto simp: ProcessRun_def)
  obtain e out where f: "sv_pipelineFactory sv r = Inr (e, out)"
    using assms(2) l ld by (cases "sv_pipelineFactory sv r") (auto simp: ProcessRun_def Let_def)
  obtain me snap1 w1 where m: "markRunning sv mo r (loadedSnapshot stored) (fst w, s) = ((me, snap1), w1)"
    by (metis surj_pair)
  have me: "me = None" using assms(2) l ld f m by (cases me) (auto simp: ProcessRun_def Let_def)
  let ?ctx = "SetMutationListener True (snap_Context snap1)"
  let ?pw = "\<lparr>pw_Snapshot = snap1, pw_Broker = loadBroker snap1,
     pw_Listener = newProjectionMutationListener (snap_Run snap1) ?ctx, pw_Env = fst w1, pw_Store = snd w1\<rparr>"
  let ?e = "listenedEngine (deliver sv net zone mo) e"
  obtain outcome where run: "Resume pick ?e (Some (procAfterCheckpoint sv net zone mo r)) (snap_Progress snap1) (?ctx, ?pw)
      = Some outcome"
    and after: "afterResume sv net zone mo r (buildDownloads out) outcome = (None, w')"
    using assms(2) unfolding ProcessRun_def l ld prod.case sum.case Let_def f m me option.case by auto
  have "\<forall>n \<in> stages ?e. only_returns (\<lambda>e. \<not> pauses e) (node_Process n)"
    using assms(1) [OF f] by (auto simp: stages_listened only_returns_listened)
  from afterResume_nil [OF this run after] show ?thesis .
qed

end

section \<open>Termination\<close>

text \<open>The listener and the checkpoints leave the context alone, so the engine still returns.\<close>

lemma procAfterCheckpoint_context:
  "fst (snd (procAfterCheckpoint sv net zone mo r cp progress st)) = fst st"
  by (simp add: procAfterCheckpoint_def Let_def split: prod.splits persisted.splits option.splits)

lemma keeps_same_context: "keeps s t \<Longrightarrow> fst u = fst t \<Longrightarrow> keeps s u"
  by (simp add: keeps_def)

lemma engine_ok_listened:
  assumes "engine_ok e None"
  shows "engine_ok (listenedEngine (deliver sv net zone mo) e) (Some (procAfterCheckpoint sv net zone mo r))"
proof -
  have "thread_ok keeps (listened (deliver sv net zone mo) t)" if "thread_ok keeps t" for t
    using that by (rule thread_ok_listened) (rule keeps_same_context, simp_all)
  moreover have "keeps s (snd (procAfterCheckpoint sv net zone mo r cp progress s))" for cp progress s
    by (rule keeps_same_context [OF keeps.R_refl]) (rule procAfterCheckpoint_context)
  ultimately show ?thesis
    using assms by (auto simp: engine_ok_def listenedEngine_def listenedNodes_def)
qed

text \<open>A stored snapshot a run can go on from.\<close>

definition resumable :: "snapshot \<Rightarrow> bool" where
  "resumable x \<longleftrightarrow>
     (if Initialized (snap_Progress x) then \<exists>D. context_ok D (snap_Context (loadedSnapshot x))
      else startable (snap_Context (loadedSnapshot x)))"

lemma markRunning_fields:
  assumes "markRunning sv mo r snap w = ((e, snap1), w1)"
  shows "snap_Context snap1 = snap_Context snap \<and> snap_Progress snap1 = snap_Progress snap"
  using assms by (auto simp: markRunning_def Let_def split: prod.splits)

lemma ProcessRun_returns:
  assumes "\<And>x s. sv_Load sv r (snd w) = (Inr x, s) \<Longrightarrow> resumable x"
    and "\<And>e out. sv_pipelineFactory sv r = Inr (e, out) \<Longrightarrow> engine_ok e None"
  shows "ProcessRun sv net zone mo pick r w \<noteq> None"
proof -
  obtain ld s where l: "sv_Load sv r (snd w) = (ld, s)" by (metis surj_pair)
  show ?thesis
  proof (cases ld)
    case (Inl err)
    with l show ?thesis by (simp add: ProcessRun_def)
  next
    case (Inr stored)
    note ld = this
    show ?thesis
    proof (cases "sv_pipelineFactory sv r")
      case (Inl err)
      with l ld show ?thesis by (simp add: ProcessRun_def Let_def)
    next
      case (Inr p)
      obtain e out where f: "sv_pipelineFactory sv r = Inr (e, out)" using Inr by (cases p) simp
      obtain me snap1 w1 where m: "markRunning sv mo r (loadedSnapshot stored) (fst w, s) = ((me, snap1), w1)"
        by (metis surj_pair)
      have fields: "snap_Context snap1 = snap_Context (loadedSnapshot stored)" "snap_Progress snap1 = snap_Progress stored"
        using markRunning_fields [OF m] by (simp_all add: loadedSnapshot_def)
      let ?ctx = "SetMutationListener True (snap_Context snap1)"
      have ok: "resumable stored" by (rule assms(1)) (simp add: l ld)
      have "same_frontier (snap_Context snap1) ?ctx" "same_assets (snap_Context snap1) ?ctx"
        by (simp_all add: SetMutationListener_def same_frontier_def same_assets_def)
      then have same: "sched_inv D ?ctx = sched_inv D (snap_Context (loadedSnapshot stored))"
          "assets_ok ?ctx = assets_ok (snap_Context (loadedSnapshot stored))"
          "judges_ok ?ctx = judges_ok (snap_Context (loadedSnapshot stored))" for D
        using same_frontier_inv [of "snap_Context snap1" ?ctx D] same_assets_ok [of "snap_Context snap1" ?ctx]
          same_judges(1) [of "snap_Context snap1" ?ctx] fields
        by simp_all
      have "Seeds ?ctx = Seeds (snap_Context (loadedSnapshot stored))"
        using fields by (simp add: SetMutationListener_def)
      with same have "context_ok D ?ctx = context_ok D (snap_Context (loadedSnapshot stored))"
          "startable ?ctx = startable (snap_Context (loadedSnapshot stored))" for D
        by (simp_all add: context_ok_def startable_def)
      then have "\<exists>res pr' s'. Resume pick (listenedEngine (deliver sv net zone mo) e)
          (Some (procAfterCheckpoint sv net zone mo r)) (snap_Progress snap1) (?ctx, pw) = Some (res, pr', s')" for pw
        using Resume_returns [OF engine_ok_listened [OF assms(2) [OF f], where sv = sv and net = net
            and zone = zone and mo = mo and r = r], of "snap_Progress snap1" "(?ctx, pw)" pick] ok fields(2)
        unfolding resumable_def by (auto split: if_splits)
      then have "Resume pick (listenedEngine (deliver sv net zone mo) e)
          (Some (procAfterCheckpoint sv net zone mo r)) (snap_Progress snap1) (?ctx, pw) \<noteq> None" for pw
        by fastforce
      then show ?thesis
        by (cases me) (simp_all add: ProcessRun_def l ld f m Let_def)
    qed
  qed
qed

section \<open>Failed runs\<close>

locale reliable_processor = run_processor sv saved + reliable_stores sv saved
  for sv :: "('s, 's procWorld) services" and saved :: "string \<Rightarrow> 's \<Rightarrow> snapshot option"
begin

lemma listenerCall_works:
  assumes "effect_works f"
  shows "fst (listenerCall label f pw) = True \<and> pw_Listener (snd (listenerCall label f pw)) = pw_Listener pw"
proof -
  obtain e w where f: "f (pw_Env pw, pw_Store pw) = (e, w)" by (metis surj_pair)
  have "e = None" using assms f unfolding effect_works_def by (metis fst_conv)
  then show ?thesis by (simp add: listenerCall_def inWorld_def f)
qed

lemma listenerEvent_works:
  "fst (listenerEvent sv label k m md pw) \<and> pw_Listener (snd (listenerEvent sv label k m md pw)) = pw_Listener pw"
  using listenerCall_works [OF eventNow_works] unfolding listenerEvent_def by blast

lemma syncRunProjection_works: "noListenerError pw \<Longrightarrow> noListenerError (syncRunProjection sv mo q pw)"
  using listenerCall_works [OF onStore_works [OF run_works]]
  by (simp add: syncRunProjection_def split_def Let_def noListenerError_def)

lemma upsertCall_works:
  assumes "noListenerError pw" and "effect_works f"
  shows "noListenerError (snd (listenerCall label f pw))"
  using listenerCall_works [OF assms(2), of label pw] assms(1) by (simp add: noListenerError_def)

lemma eventCall_works: "noListenerError pw \<Longrightarrow> noListenerError (snd (listenerEvent sv label k m md pw))"
  unfolding listenerEvent_def by (rule upsertCall_works [OF _ eventNow_works])

lemma onMutation_works:
  assumes "noListenerError pw" shows "noListenerError (onMutation sv net zone mo ctx ev pw)"
proof (cases ev)
  case (OnAssetUpsert a)
  show ?thesis
  proof (cases "buildProjectedAssetRow net zone (run_ID (lst_Run (pw_Listener pw))) (SnapshotReadModel ctx) (asset_ID a)")
    case None
    with assms show ?thesis by (simp add: OnAssetUpsert onAssetUpsert_def)
  next
    case (Some row)
    let ?f = "onStore (sv_UpsertAsset sv (run_ID (lst_Run (pw_Listener pw))) row)"
    obtain ok pw1 where c: "listenerCall (''project asset '' @ asset_ID a) ?f pw = (ok, pw1)" by (metis surj_pair)
    have "noListenerError pw1"
      using upsertCall_works [OF assms, of ?f "''project asset '' @ asset_ID a"] onStore_works asset_works c by simp
    with syncRunProjection_works [of pw1 mo "SnapshotReadModel ctx"] show ?thesis
      using c by (cases ok) (simp_all add: OnAssetUpsert onAssetUpsert_def Some Let_def)
  qed
next
  case (OnJudgeEvaluationRecorded e)
  obtain ok pw1 where c: "listenerEvent sv (''project judge event from '' @ eval_Collector e) ''judge_evaluation''
      (''Recorded '' @ show_nat (length (eval_Outcomes e)) @ '' judge outcome(s) from '' @ eval_Collector e @ ''.'')
      [(''collector'', EVString (eval_Collector e)), (''seed_id'', EVString (eval_SeedID e)),
       (''scenario'', EVString (eval_Scenario e))] pw = (ok, pw1)" by (metis surj_pair)
  have n1: "noListenerError pw1" unfolding c [THEN arg_cong, of snd, unfolded snd_conv, symmetric] by (rule eventCall_works [OF assms])
  let ?f = "onStore (sv_UpsertJudgeSummary sv (run_ID (lst_Run (pw_Listener pw1)))
     (buildProjectedJudgeSummary mo (SnapshotReadModel ctx)))"
  obtain ok2 pw2 where c2: "listenerCall ''project judge summary'' ?f pw1 = (ok2, pw2)" by (metis surj_pair)
  have n2: "noListenerError pw2"
    using upsertCall_works [OF n1, of ?f "''project judge summary''"] onStore_works summary_works c2 by simp
  show ?thesis
    unfolding OnJudgeEvaluationRecorded onMutation.simps onJudgeEvaluationRecorded_def c
    using n1 n2 c2 syncRunProjection_works [of pw2 mo "SnapshotReadModel ctx"]
    by (cases ok; cases ok2) (simp_all add: Let_def)
qed (simp_all add: onObservationAdded_def onRelationAdded_def onExecutionEvent_def eventCall_works assms)

lemma deliver_works: "noListenerError (snd st) \<Longrightarrow> noListenerError (snd (deliver sv net zone mo st))"
proof -
  have "noListenerError pw \<Longrightarrow> noListenerError (fold (onMutation sv net zone mo ctx) evs pw)" for ctx evs pw
    by (induction evs arbitrary: pw) (auto intro: onMutation_works)
  then show "noListenerError (snd st) \<Longrightarrow> noListenerError (snd (deliver sv net zone mo st))"
    by (simp add: deliver_def split_def Let_def noListenerError_def)
qed

lemma inWorld_listener: "pw_Listener (snd (inWorld f pw)) = pw_Listener pw"
  by (simp add: inWorld_def split_def Let_def)

lemma procAfterCheckpoint_works:
  assumes "procAfterCheckpoint sv net zone mo r cp progress st = ((pz, err), st')"
  shows "err = None \<and> (noListenerError (snd st) \<longrightarrow> noListenerError (snd st'))"
proof -
  let ?pw = "snd (deliver sv net zone mo st)"
  obtain snap env where cs: "checkpointSnapshot net mo progress (pw_Broker ?pw)
      (currentSnapshot (deliver sv net zone mo st)) (pw_Env ?pw) = (snap, env)" by (metis surj_pair)
  obtain snap1 w1 where sp: "saveAndProject sv net zone mo r snap (env, pw_Store ?pw) = ((Persisted, snap1), w1)"
    using saveAndProject_works by blast
  let ?pw1 = "?pw\<lparr>pw_Snapshot := snap1, pw_Env := fst w1, pw_Store := snd w1\<rparr>"
  let ?ev = "eventNow sv r ''checkpoint''
      (''Reached '' @ checkpointName cp @ '' at wave '' @ show_int (Wave progress) @ ''.'')
      [(''checkpoint'', EVString (checkpointName cp)), (''wave'', EVInt (Wave progress))]"
  have works: "effect_works ?ev" by (rule eventNow_works)
  obtain e pw2 where ev: "inWorld ?ev ?pw1 = (e, pw2)" by (metis surj_pair)
  have "fst (?ev (pw_Env ?pw1, pw_Store ?pw1)) = None" using works unfolding effect_works_def by blast
  then have e: "e = None" using ev by (simp add: inWorld_def split_def Let_def)
  have l: "pw_Listener pw2 = pw_Listener ?pw" using inWorld_listener [of ?ev ?pw1] ev by simp
  note def = assms [unfolded procAfterCheckpoint_def Let_def cs prod.case sp persisted.case ev e option.case]
  show ?thesis using def deliver_works [of st net zone mo] l by (auto simp: noListenerError_def)
qed

text \<open>A run that ends with an error is stored as failed, with the error that is returned.\<close>

lemma failedSnapshot_failed: "failedWith e (persistSnapshot (failedSnapshot mo e t ps snap))"
  by (simp add: failedWith_def failedSnapshot_def updateRunCounters_def applyProjectedRunMetrics_def)

lemma saved_failed:
  assumes "saveAndProject sv net zone mo r (failedSnapshot mo e t ps snap) w = ((Persisted, snap1), w')"
  shows "\<exists>x. saved r (snd w') = Some x \<and> failedWith e x"
  using saveAndProject_saved [OF assms] failedSnapshot_failed by auto

lemma persistPipelineFailure_saved:
  assumes "persistPipelineFailure sv net zone mo r e b snap w = (Some e', w')"
  shows "\<exists>x. saved r (snd w') = Some x \<and> failedWith e' x"
proof -
  obtain t env where c: "readClock (fst w) = (t, env)" by (metis surj_pair)
  obtain snap1 w1 where sp: "saveAndProject sv net zone mo r (failedSnapshot mo e t (brokerSnapshot b) snap) (env, snd w)
      = ((Persisted, snap1), w1)" using saveAndProject_works by blast
  with assms have "e' = e" "w' = w1" by (simp_all add: persistPipelineFailure_def Let_def c)
  with saved_failed [OF sp] show ?thesis by simp
qed

lemma persistArtifactFailure_saved:
  assumes "persistArtifactFailure sv net zone mo r e b snap w = (Some e', w')"
  shows "\<exists>x. saved r (snd w') = Some x \<and> failedWith e' x"
proof -
  obtain t env where c: "readClock (fst w) = (t, env)" by (metis surj_pair)
  obtain snap1 w1 where sp: "saveAndProject sv net zone mo r
      (failedSnapshot mo (''publish artifacts: '' @ e) t (brokerSnapshot b) snap) (env, snd w)
      = ((Persisted, snap1), w1)" using saveAndProject_works by blast
  obtain ev w2 where ae: "appendEvent sv r ''artifact_publish_failed''
      (''Run '' @ r @ '' failed while publishing result artifacts.'') [(''error'', EVString e)] t w1 = (ev, w2)"
    by (metis surj_pair)
  have "ev = None" using appendEvent_works ae unfolding effect_works_def by (metis fst_conv)
  with assms have "e' = ''publish artifacts: '' @ e" "w' = w2"
    unfolding persistArtifactFailure_def Let_def c prod.case sp persisted.case ae by simp_all
  with saved_failed [OF sp] appendEvent_saved [OF ae] show ?thesis by simp
qed

lemma handlePanic_saved:
  assumes "handlePanic sv net zone mo r m snap w = (Some e', w')"
  shows "\<exists>x. saved r (snd w') = Some x \<and> failedWith e' x"
proof -
  let ?e = "''panic while processing run '' @ r @ '': '' @ m"
  obtain t env where c: "readClock (fst w) = (t, env)" by (metis surj_pair)
  let ?snap = "failedSnapshot mo ?e t (snap_Pivots snap) snap"
  have "fst (onStore (sv_Save sv r ?snap) (env, snd w)) = None"
    using onStore_works [of "sv_Save sv r ?snap"] save_works unfolding effect_works_def by blast
  then obtain w1 where s: "onStore (sv_Save sv r ?snap) (env, snd w) = (None, w1)"
    by (cases "onStore (sv_Save sv r ?snap) (env, snd w)") simp
  obtain snap2 w2 where p: "projectSnapshot sv net zone mo ?snap w1 = ((None, snap2), w2)"
    using projectSnapshot_works by blast
  have "sv_Save sv r ?snap (snd w) = (None, snd w1)"
    using s by (cases "sv_Save sv r ?snap (snd w)") (auto simp: onStore_def)
  from save [OF this] projectSnapshot_keeps [OF p] have "saved r (snd w2) = Some (persistSnapshot ?snap)" by simp
  moreover have "e' = ?e" "w' = w2" using assms unfolding handlePanic_def Let_def c prod.case s p by simp_all
  ultimately show ?thesis using failedSnapshot_failed by auto
qed

lemma completeRun_saved:
  assumes "completeRun sv net zone mo r d b snap w = (Some e, w')"
  shows "\<exists>x. saved r (snd w') = Some x \<and> failedWith e x"
proof -
  obtain out s where p: "sv_Publish sv r d (snd w) = (out, s)" by (metis surj_pair)
  show ?thesis
  proof (cases out)
    case (Inl m)
    with assms p have "persistArtifactFailure sv net zone mo r m b snap (fst w, s) = (Some e, w')"
      by (simp add: completeRun_def)
    from persistArtifactFailure_saved [OF this] show ?thesis .
  next
    case (Inr pub)
    obtain t env where c: "readClock (fst w) = (t, env)" by (metis surj_pair)
    obtain s1 env1 where cs: "completedSnapshot net mo pub t b snap env = (s1, env1)" by (metis surj_pair)
    obtain s2 w1 where sp: "saveAndProject sv net zone mo r s1 (env1, s) = ((Persisted, s2), w1)"
      using saveAndProject_works by blast
    have ev: "fst (appendEvent sv r k m md t' u) = None" for k m md t' u
      using appendEvent_works unfolding effect_works_def by blast
    obtain w2 where e1: "appendEvent sv r ''artifacts_published'' (''Published result artifacts for run '' @ r @ ''.'')
        [(''json'', EVString (dl_JSON pub)), (''csv'', EVString (dl_CSV pub)), (''xlsx'', EVString (dl_XLSX pub))] t w1
        = (None, w2)" using ev by (metis prod.collapse)
    have "fst (completeRun sv net zone mo r d b snap w) = None"
      unfolding completeRun_def p prod.case Inr sum.case Let_def c cs sp persisted.case e1 option.case
      by (rule ev)
    with assms show ?thesis by simp
  qed
qed

lemma markRunning_works: "fst (fst (markRunning sv mo r snap w)) = None"
proof -
  obtain l1 run l2 k m md t w0 where "fst (fst (markRunning sv mo r snap w))
      = fst (runEffects [(l1, onStore (sv_UpsertRun sv run)), (l2, appendEvent sv r k m md t)] w0)"
    unfolding markRunning_def Let_def by (simp add: split_def del: runEffects.simps)
  moreover have "fst (runEffects [(l1, onStore (sv_UpsertRun sv run)), (l2, appendEvent sv r k m md t)] w0) = None"
    by (rule runEffects_works) (simp add: onStore_works run_works appendEvent_works)
  ultimately show ?thesis by simp
qed

lemma ProcessRun_error:
  assumes "saved r (snd w) = Some stored" and "sv_pipelineFactory sv r = Inr (e, out)"
    and "\<forall>n \<in> set (Collectors e) \<union> stages e. thread_ok listenerOK (node_Process n)"
    and "ProcessRun sv net zone mo pick r w = Some (Some err, w')"
  shows "\<exists>x. saved r (snd w') = Some x \<and> failedWith err x"
proof -
  note l = load_saved [OF assms(1)]
  obtain me snap1 w1 where m: "markRunning sv mo r (loadedSnapshot stored) (fst w, snd w) = ((me, snap1), w1)"
    by (metis surj_pair)
  have me: "me = None" using markRunning_works [of mo r "loadedSnapshot stored" "(fst w, snd w)"] m by simp
  let ?ctx = "SetMutationListener True (snap_Context snap1)"
  let ?pw = "\<lparr>pw_Snapshot = snap1, pw_Broker = loadBroker snap1,
     pw_Listener = newProjectionMutationListener (snap_Run snap1) ?ctx, pw_Env = fst w1, pw_Store = snd w1\<rparr>"
  let ?e = "listenedEngine (deliver sv net zone mo) e"
  let ?cb = "Some (procAfterCheckpoint sv net zone mo r)"
  obtain outcome where run: "Resume pick ?e ?cb (snap_Progress snap1) (?ctx, ?pw) = Some outcome"
    and after: "afterResume sv net zone mo r (buildDownloads out) outcome = (Some err, w')"
    using assms(4) m unfolding ProcessRun_def l prod.case sum.case Let_def assms(2) me
    by (auto simp: m me)
  obtain result progress st0 where o: "outcome = (result, progress, st0)" by (metis surj_pair)
  have "listenerOK.run_ok ?e ?cb"
  proof -
    have "thread_ok listenerOK (listened (deliver sv net zone mo) (node_Process n))"
      if "thread_ok listenerOK (node_Process n)" for n :: "'s procWorld engineNode"
      by (rule thread_ok_listened [OF that]) (auto simp: listenerOK_def deliver_works)
    moreover have "listenerOK s (snd (procAfterCheckpoint sv net zone mo r cp pr s))" for cp pr s
      using procAfterCheckpoint_works unfolding listenerOK_def by (metis prod.collapse)
    ultimately show ?thesis
      using assms(3) by (auto simp: listenerOK.run_ok_def stages_listened collectors_listened)
  qed
  from listenerOK.Resume_R [OF this run [unfolded o]] have "noListenerError (snd st0)"
    by (simp add: listenerOK_def noListenerError_def newProjectionMutationListener_def)
  from deliver_works [OF this] have nerr: "lst_Err (pw_Listener (snd (deliver sv net zone mo st0))) = None"
    by (simp add: noListenerError_def)
  show ?thesis
    using after nerr unfolding afterResume_def o prod.case Let_def
    by (auto split: sum.splits option.splits if_splits
        intro: handlePanic_saved persistPipelineFailure_saved completeRun_saved)
qed

end

interpretation memory_runs: reliable_processor "memoryServices publish factory" savedIn for publish factory
  by unfold_locales

end
