(* ===== verification/Decision_Facts.thy ===== *)
theory Decision_Facts
  imports Run_Facts
begin

text \<open>
  What deciding a pivot and creating a run leave behind (\<open>service_pivots.go\<close>,
  \<open>service_create_run.go\<close>): who may decide, that a decision is stored, answers the resumed run and
  is final, and where an accepted seed goes. At the end, the pivots that a checkpoint makes from
  the judges: they get a new identity at every checkpoint.
\<close>

section \<open>Deciding\<close>

lemma EnqueueSeed_reject:
  "seedSchedulingModeLocked p = seedSchedulingReject \<Longrightarrow> EnqueueSeed s p = (False, p)"
  by (simp add: EnqueueSeed_def)

lemma decidedSnapshot_fields:
  "snap_Context (decidedSnapshot mo key p ctx now snap) = ctx"
  "snap_Pivots (decidedSnapshot mo key p ctx now snap) = AList.update key p (snap_Pivots snap)"
  "snap_SchedulerState (decidedSnapshot mo key p ctx now snap) = SnapshotSchedulerState ctx"
  "snap_Progress (decidedSnapshot mo key p ctx now snap) = snap_Progress snap"
  "run_Status (snap_Run (decidedSnapshot mo key p ctx now snap)) =
     (if hasPendingReview (AList.update key p (snap_Pivots snap)) then RunStatusAwaitingReview
      else if run_Status (snap_Run snap) = RunStatusAwaitingReview then RunStatusQueued
      else run_Status (snap_Run snap))"
  by (simp_all add: decidedSnapshot_def Let_def)

text \<open>The pivot and the context after the decision.\<close>

definition decidedStatus :: "pivotDecisionInput \<Rightarrow> pivotDecisionStatus" where
  "decidedStatus decision = (if decision = PivotDecisionInputAccepted then PivotDecisionAccepted else PivotDecisionRejected)"

definition decidedContext :: "pivotDecisionInput \<Rightarrow> pendingPivotState \<Rightarrow> snapshot \<Rightarrow> pipelineContext" where
  "decidedContext decision p snap =
     (let ctx = RestoreSchedulerState (snap_SchedulerState snap) (snap_Context snap)
      in if decision = PivotDecisionInputAccepted then snd (EnqueueSeed (req_Seed (pp_Candidate p)) ctx) else ctx)"

definition decided :: "authenticatedUser \<Rightarrow> pivotDecisionInput \<Rightarrow> gotime \<Rightarrow> pendingPivotState \<Rightarrow> pendingPivotState" where
  "decided user decision now p = signedPivot user now (p\<lparr>pp_Status := decidedStatus decision\<rparr>)"

lemma decided_fields [simp]:
  "pp_Status (decided user decision now p) = decidedStatus decision"
  "pp_ID (decided user decision now p) = pp_ID p"
  "pp_Candidate (decided user decision now p) = pp_Candidate p"
  by (simp_all add: decided_def signedPivot_def)

context run_stores
begin

lemma applyDecision_Inr:
  assumes "applyDecision sv r decision now p ctx w = (Inr (p1, ctx1), w1)"
  shows "decision \<in> {PivotDecisionInputAccepted, PivotDecisionInputRejected}
     \<and> p1 = p\<lparr>pp_Status := decidedStatus decision\<rparr>
     \<and> ctx1 = (if decision = PivotDecisionInputAccepted then snd (EnqueueSeed (req_Seed (pp_Candidate p)) ctx) else ctx)"
  using assms
  by (auto simp: applyDecision_def Let_def decidedStatus_def split: if_splits prod.splits option.splits)

lemma publishDecision_saved:
  assumes "publishDecision sv net user r p now snap w = (None, w')"
  shows "saved r (snd w') = Some (persistSnapshot snap)"
proof -
  obtain e w1 where s: "onStore (sv_Save sv r snap) w = (e, w1)" by (metis surj_pair)
  obtain rest where rest: "publishDecision sv net user r p now snap w
        = runEffects ((''save snapshot'', onStore (sv_Save sv r snap)) # rest) w"
    and keeps: "\<forall>(l, f) \<in> set rest. effect_keeps f"
    by (rule that [OF fun_cong [OF publishDecision_def [unfolded append_Cons append_Nil]]])
      (auto simp: stores_keep appendEvent_keeps intro!: onStore_keeps split: option.splits if_splits)
  have e: "e = None" using assms s unfolding rest by (cases e) auto
  have "sv_Save sv r snap (snd w) = (None, snd w1)"
    using s e by (cases "sv_Save sv r snap (snd w)") (auto simp: onStore_def)
  moreover have "saved r (snd (snd (runEffects rest w1))) = saved r (snd w1)" by (rule runEffects_keeps [OF keeps])
  moreover have "runEffects rest w1 = (None, w')" using assms s e unfolding rest by simp
  ultimately show ?thesis using save by simp
qed

lemma DecidePivot_success:
  assumes "saved r (snd w) = Some snap"
    and "DecidePivot sv net mo user r pivotID decision w = (Inr rec, w')"
  obtains key p now where "userOwnsRun user (snap_Run snap)" and "findPivotByID (snap_Pivots snap) pivotID = Some (key, p)"
    and "pp_Status p = PivotDecisionPendingReview"
    and "decision \<in> {PivotDecisionInputAccepted, PivotDecisionInputRejected}"
    and "rec = buildPivotRecord net (decided user decision now p)"
    and "saved r (snd w') = Some (persistSnapshot (decidedSnapshot mo key (decided user decision now p)
           (decidedContext decision p snap) now snap))"
proof -
  note l = load_saved [OF assms(1)]
  let ?ctx = "RestoreSchedulerState (snap_SchedulerState snap) (snap_Context snap)"
  have own: "userOwnsRun user (snap_Run snap)" using assms(2) by (auto simp: DecidePivot_def l split: if_splits)
  obtain key p where f: "findPivotByID (snap_Pivots snap) pivotID = Some (key, p)"
    using assms(2) own by (auto simp: DecidePivot_def l split: option.splits)
  have pend: "pp_Status p = PivotDecisionPendingReview"
    using assms(2) own f by (auto simp: DecidePivot_def l split: if_splits)
  obtain now env where c: "readClock (fst w) = (now, env)" by (metis surj_pair)
  obtain ad w1 where a: "applyDecision sv r decision now p ?ctx (env, snd w) = (ad, w1)" by (metis surj_pair)
  obtain p1 ctx1 where ad: "ad = Inr (p1, ctx1)"
    using assms(2) own f pend c a by (cases ad) (auto simp: DecidePivot_def l)
  let ?p2 = "signedPivot user now p1" and ?snap2 = "decidedSnapshot mo key (signedPivot user now p1) ctx1 now snap"
  obtain e w2 where pub: "publishDecision sv net user r ?p2 now ?snap2 w1 = (e, w2)" by (metis surj_pair)
  have e: "e = None \<and> rec = buildPivotRecord net ?p2 \<and> w' = w2"
    using assms(2) own f pend c a ad pub by (cases e) (auto simp: DecidePivot_def l Let_def)
  have d: "decision \<in> {PivotDecisionInputAccepted, PivotDecisionInputRejected}" "?p2 = decided user decision now p"
    "ctx1 = decidedContext decision p snap"
    using applyDecision_Inr [OF a [unfolded ad]] by (auto simp: decided_def decidedContext_def Let_def)
  have "saved r (snd w') = Some (persistSnapshot ?snap2)" using publishDecision_saved pub e by blast
  with that own f pend e d show thesis by metis
qed

lemma DecidePivot_forbidden:
  assumes "saved r (snd w) = Some snap" and "\<not> userOwnsRun user (snap_Run snap)"
  shows "DecidePivot sv net mo user r pivotID decision w = (Inl (ErrForbidden ''run access is forbidden''), w)"
  using assms by (simp add: DecidePivot_def load_saved)

lemma DecidePivot_missing:
  assumes "saved r (snd w) = None"
  shows "DecidePivot sv net mo user r pivotID decision w = (Inl (ErrNotFound (''run '' @ Quote r @ '' not found'')), w)"
  using load_missing [OF assms] by (auto simp: DecidePivot_def)

lemma DecidePivot_not_pending:
  assumes "saved r (snd w) = Some snap" and "userOwnsRun user (snap_Run snap)"
    and "findPivotByID (snap_Pivots snap) pivotID = Some (key, p)" and "pp_Status p \<noteq> PivotDecisionPendingReview"
  shows "DecidePivot sv net mo user r pivotID decision w
     = (Inl (ErrOther (''pivot '' @ Quote pivotID @ '' is not pending review'')), w)"
  using assms by (simp add: DecidePivot_def load_saved)

end

context reliable_stores
begin

lemma applyDecision_works:
  assumes "decision = PivotDecisionInputAccepted \<or> decision = PivotDecisionInputRejected"
  shows "\<exists>p1 ctx1 w1. applyDecision sv r decision now p ctx w = (Inr (p1, ctx1), w1)"
proof -
  let ?f = "onStore (sv_UpsertSeed sv r (acceptedSeedRecord (p\<lparr>pp_Status := PivotDecisionAccepted\<rparr>) now))"
  have "effect_works ?f" by (rule onStore_works) (rule seed_works)
  then have "fst (?f w) = None" unfolding effect_works_def by blast
  then obtain w1 where "?f w = (None, w1)" by (metis prod.collapse)
  then show ?thesis using assms by (auto simp: applyDecision_def Let_def)
qed

lemma DecidePivot_works:
  assumes "saved r (snd w) = Some snap" and "userOwnsRun user (snap_Run snap)"
    and "findPivotByID (snap_Pivots snap) pivotID = Some (key, p)" and "pp_Status p = PivotDecisionPendingReview"
    and "decision = PivotDecisionInputAccepted \<or> decision = PivotDecisionInputRejected"
  shows "\<exists>rec w'. DecidePivot sv net mo user r pivotID decision w = (Inr rec, w')"
proof -
  obtain now env where c: "readClock (fst w) = (now, env)" by (metis surj_pair)
  let ?ctx = "RestoreSchedulerState (snap_SchedulerState snap) (snap_Context snap)"
  obtain p1 ctx1 w1 where a: "applyDecision sv r decision now p ?ctx (env, snd w) = (Inr (p1, ctx1), w1)"
    using applyDecision_works [OF assms(5)] by blast
  let ?p2 = "signedPivot user now p1"
  let ?snap2 = "decidedSnapshot mo key ?p2 ctx1 now snap"
  have "fst (publishDecision sv net user r ?p2 now ?snap2 w1) = None"
    unfolding publishDecision_def
    by (rule runEffects_works) (auto simp: stores_work appendEvent_works intro!: onStore_works split: option.splits if_splits)
  then obtain w2 where "publishDecision sv net user r ?p2 now ?snap2 w1 = (None, w2)" by (metis prod.collapse)
  then show ?thesis
    using assms(2-4) c a by (simp add: DecidePivot_def load_saved [OF assms(1)] Let_def)
qed

end

text \<open>Looking up the decided pivot again.\<close>

lemma findPivotByID_ID: "findPivotByID ps i = Some (key, p) \<Longrightarrow> pp_ID p = i"
  by (auto simp: findPivotByID_def find_Some_iff)

lemma findPivotByID_update:
  assumes "findPivotByID ps i = Some (key, p)" and "pp_ID q = i" and "distinct (map fst ps)"
  shows "findPivotByID (AList.update key q ps) i = Some (key, q)"
proof -
  have "pp_ID p = i" using assms(1) by (rule findPivotByID_ID)
  then show ?thesis using assms
  proof (induction ps)
    case (Cons e ps)
    obtain k x where e: "e = (k, x)" by (cases e)
    show ?case
    proof (cases "pp_ID x = i")
      case True
      with Cons.prems show ?thesis by (simp add: findPivotByID_def e)
    next
      case False
      with Cons.prems have f: "findPivotByID ps i = Some (key, p)" by (simp add: findPivotByID_def e)
      then have "(key, p) \<in> set ps" unfolding findPivotByID_def by (metis find_Some_iff nth_mem)
      then have "k \<noteq> key" using Cons.prems(4) e by (auto simp: image_iff)
      with Cons.IH [OF Cons.prems(1) f Cons.prems(3)] Cons.prems(4) False show ?thesis
        by (simp add: findPivotByID_def e)
    qed
  qed (simp add: findPivotByID_def)
qed

lemma broker_answers:
  assumes "map_of (broker_pivots b) (promotionRoot net c) = Some p"
  shows "fst (HandleCandidatePromotion net c (b, env)) = decisionOfStatus (pp_Status p)"
  using assms by (simp add: HandleCandidatePromotion_def split_def Let_def)

section \<open>The identity of judged pivots\<close>

text \<open>A pivot made from a judgement has an ID drawn by the call that made it.\<close>

definition drawn :: "environment \<Rightarrow> environment \<Rightarrow> string \<Rightarrow> bool" where
  "drawn env env' i \<longleftrightarrow> (\<exists>n. env_tick env \<le> n \<and> n < env_tick env' \<and> i = env_id env ''pivot'' n)"

definition later :: "environment \<Rightarrow> environment \<Rightarrow> bool" where
  "later env env' \<longleftrightarrow> env_tick env \<le> env_tick env' \<and> env_id env' = env_id env \<and> env_clock env' = env_clock env"

lemma later_refl [simp]: "later e e" and later_trans: "later a b \<Longrightarrow> later b c \<Longrightarrow> later a c"
  by (simp_all add: later_def)

lemma reads_later: "later env (snd (readClock env))" "later env (snd (freshID p env))"
  by (simp_all add: readClock_def freshID_def later_def)

definition freshFrom :: "pivotTable \<Rightarrow> environment \<Rightarrow> pivotTable \<times> environment \<Rightarrow> bool" where
  "freshFrom old env0 st \<longleftrightarrow> later env0 (snd st)
     \<and> (\<forall>k p. map_of old k = None \<longrightarrow> map_of (fst st) k = Some p \<longrightarrow> drawn env0 (snd st) (pp_ID p))"

lemma hydrateOutcome_fresh:
  assumes "freshFrom old env0 st" shows "freshFrom old env0 (hydrateOutcome net mode now e x st)"
proof -
  obtain ps env where st: "st = (ps, env)" by (cases st)
  let ?r = "RegistrableDomain net (out_Root x)"
  obtain i env' where f: "freshID ''pivot'' env = (i, env')" by (metis surj_pair)
  then have i: "i = env_id env ''pivot'' (env_tick env)" "env' = env\<lparr>env_tick := env_tick env + 1\<rparr>"
    by (simp_all add: freshID_def)
  consider "?r = []" | p where "?r \<noteq> []" "map_of ps ?r = Some p" | "?r \<noteq> []" "map_of ps ?r = None" "out_Collect x"
    | "?r \<noteq> []" "map_of ps ?r = None" "\<not> out_Collect x" by blast
  then show ?thesis
  proof cases
    case 4
    then show ?thesis
      using assms i unfolding st
      by (auto simp: freshFrom_def hydrateOutcome_def Let_def f update_conv' withJudgement_def judgePivot_def
          newPivotState_def drawn_def later_def less_Suc_eq)
  qed (use assms in \<open>auto simp: st freshFrom_def hydrateOutcome_def Let_def update_conv' withJudgement_def\<close>)
qed

lemma hydrate_fresh:
  assumes "hydratePivotsFromJudges net now ctx (s, env) = (s', env')"
  shows "freshFrom (snap_Pivots s) env (snap_Pivots s', env')"
proof -
  let ?mode = "run_Mode (snap_Run s)"
  have inner: "freshFrom old e0 st \<Longrightarrow> freshFrom old e0 (fold (\<lambda>x. hydrateOutcome net ?mode now e x) xs st)" for old e0 st e xs
    by (induction xs arbitrary: st) (simp_all add: hydrateOutcome_fresh)
  have "freshFrom old e0 st \<Longrightarrow>
      freshFrom old e0 (fold (\<lambda>e. fold (\<lambda>x. hydrateOutcome net ?mode now e x) (eval_Outcomes e)) es st)" for old e0 st es
    by (induction es arbitrary: st) (simp_all add: inner)
  from this [of "snap_Pivots s" env "(snap_Pivots s, env)" "JudgeEvaluations ctx"] assms show ?thesis
    by (auto simp: freshFrom_def hydratePivotsFromJudges_def Let_def split: prod.splits)
qed

lemma checkpointSnapshot_fresh:
  assumes "checkpointSnapshot net mo pr b snap env = (s, env')"
    and "map_of (broker_pivots b) k = None" and "map_of (snap_Pivots s) k = Some p"
  shows "drawn env env' (pp_ID p) \<and> later env env'"
proof -
  let ?s1 = "snap\<lparr>snap_Progress := pr, snap_SchedulerState := SnapshotSchedulerState (snap_Context snap),
     snap_Pivots := brokerSnapshot b\<rparr>"
  obtain now e1 where c: "readClock env = (now, e1)" by (metis surj_pair)
  obtain s2 e2 where h: "hydratePivotsFromJudges net now (snap_Context snap) (?s1, e1) = (s2, e2)" by (metis surj_pair)
  obtain now' e3 where c3: "readClock e2 = (now', e3)" by (metis surj_pair)
  have "snap_Pivots s = snap_Pivots s2" "env' = e3"
    using assms(1) unfolding checkpointSnapshot_def Let_def c prod.case h c3 by auto
  moreover have "freshFrom (snap_Pivots ?s1) e1 (snap_Pivots s2, e2)" by (rule hydrate_fresh [OF h])
  moreover have "later env e1" "later e2 e3" "e1 = env\<lparr>env_tick := env_tick env + 1\<rparr>"
    using reads_later(1) [of env] reads_later(1) [of e2] c c3 by (simp_all add: readClock_def)
  ultimately show ?thesis
    using assms(2,3) by (auto simp: freshFrom_def brokerSnapshot_def drawn_def later_def) (metis Suc_leD order_less_le_trans)
qed

lemma judged_pivot_renamed:
  assumes "checkpointSnapshot net mo pr b snap env = (s, env1)" and "checkpointSnapshot net mo pr' b' snap' env2 = (s', env3)"
    and "later env1 env2" and "inj (env_id env ''pivot'')"
    and "map_of (broker_pivots b) k = None" and "map_of (broker_pivots b') k = None"
    and "map_of (snap_Pivots s) k = Some p" and "map_of (snap_Pivots s') k = Some p'"
  shows "pp_ID p' \<noteq> pp_ID p"
proof -
  obtain m where m: "m < env_tick env1" "pp_ID p = env_id env ''pivot'' m" and "later env env1"
    using checkpointSnapshot_fresh [OF assms(1,5,7)] by (auto simp: drawn_def)
  moreover obtain n where "env_tick env2 \<le> n" "pp_ID p' = env_id env2 ''pivot'' n"
    using checkpointSnapshot_fresh [OF assms(2,6,8)] by (auto simp: drawn_def)
  ultimately have "m < n" "pp_ID p' = env_id env ''pivot'' n" using assms(3) by (auto simp: later_def)
  with m(2) assms(4) show ?thesis by (auto dest: injD)
qed

end
