(* ===== verification/Merge_Filter.thy ===== *)
theory Merge_Filter
  imports Engine_Facts
begin

text \<open>
  \<open>internal/filter/filtering.go\<close>: the filter stage validates the canonical graph that the
  context maintains, counts what is wrong with it and records an error for each finding.
\<close>

section \<open>Validation\<close>

definition canonicalValidationKey :: "assetType \<Rightarrow> string \<Rightarrow> string" where
  "canonicalValidationKey ty identifier0 =
     (let identifier = TrimSpace (ToLower identifier0)
      in if ty = [] \<or> identifier = [] then [] else ty @ ''|'' @ identifier)"

definition duplicateError :: "string \<Rightarrow> string \<Rightarrow> string \<Rightarrow> string" where
  "duplicateError key existingID newID =
     ''duplicate canonical asset key '' @ key @ '' for '' @ existingID @ '' and '' @ newID"

text \<open>The loop over the assets: the IDs seen, the ID of each key, the count and the errors.\<close>

fun validateAssets ::
  "asset list \<Rightarrow> string set \<Rightarrow> (string \<rightharpoonup> string) \<Rightarrow> nat \<Rightarrow> string list \<Rightarrow> string set \<times> nat \<times> string list" where
  "validateAssets [] ids keys duplicates errs = (ids, duplicates, errs)"
| "validateAssets (a # rest) ids keys duplicates errs =
     (let ids' = (if asset_ID a \<noteq> [] then insert (asset_ID a) ids else ids);
          key = canonicalValidationKey (asset_Type a) (asset_Identifier a)
      in if key = [] then validateAssets rest ids' keys duplicates errs
         else case keys key of
           Some existingID \<Rightarrow>
             if existingID \<noteq> asset_ID a
             then validateAssets rest ids' keys (duplicates + 1)
                    (errs @ [duplicateError key existingID (asset_ID a)])
             else validateAssets rest ids' (keys(key \<mapsto> asset_ID a)) duplicates errs
         | None \<Rightarrow> validateAssets rest ids' (keys(key \<mapsto> asset_ID a)) duplicates errs)"

definition observationErrors :: "string set \<Rightarrow> assetObservation \<Rightarrow> string list" where
  "observationErrors ids ob =
     (if obs_AssetID ob = [] then [''observation '' @ obs_ID ob @ '' is missing a canonical asset id'']
      else if obs_AssetID ob \<notin> ids
      then [''observation '' @ obs_ID ob @ '' references missing asset '' @ obs_AssetID ob]
      else [])"

definition relationErrors :: "string set \<Rightarrow> assetRelation \<Rightarrow> string list" where
  "relationErrors ids r =
     (if rel_FromAssetID r \<noteq> [] \<and> rel_FromAssetID r \<notin> ids
      then [''relation '' @ rel_ID r @ '' references missing from_asset_id '' @ rel_FromAssetID r] else [])
   @ (if rel_ToAssetID r \<noteq> [] \<and> rel_ToAssetID r \<notin> ids
      then [''relation '' @ rel_ID r @ '' references missing to_asset_id '' @ rel_ToAssetID r] else [])"

definition validateCanonicalGraph :: "pipelineContext \<Rightarrow> (nat \<times> nat \<times> nat) \<times> pipelineContext" where
  "validateCanonicalGraph p =
     (let (ids, duplicates, errs) = validateAssets (Assets p) {} Map.empty 0 [];
          obsErrs = concat (map (observationErrors ids) (Observations p));
          relErrs = concat (map (relationErrors ids) (Relations p));
          validationErrors = errs @ obsErrs @ relErrs
      in ((duplicates, length obsErrs, length relErrs),
          if length validationErrors > 0 then p\<lparr>Errors := Errors p @ validationErrors\<rparr> else p))"

definition MergeFilterProcess :: "pipelineContext \<Rightarrow> string option \<times> pipelineContext" where
  "MergeFilterProcess p = (None, snd (validateCanonicalGraph (EnsureAssetState p)))"

definition MergeFilter :: "'b engineNode" where
  "MergeFilter =
     \<lparr>node_Name = ''MergeFilter'',
      node_Process = Step (onContext (\<lambda>p. snd (MergeFilterProcess p))) (\<lambda>_. Done None)\<rparr>"

section \<open>What it finds\<close>

lemma canonicalValidationKey_eq:
  "canonicalValidationKey t i \<noteq> [] \<Longrightarrow> canonicalValidationKey t i = canonicalAssetKey t i"
  by (simp add: canonicalValidationKey_def canonicalAssetKey_def Let_def split: if_splits)

lemma validateAssets_ids:
  "fst (validateAssets as ids keys n errs) = ids \<union> (asset_ID ` set as - {[]})"
proof (induction as ids keys n errs rule: validateAssets.induct)
  case (2 a rest ids keys n errs)
  let ?ids = "if asset_ID a \<noteq> [] then insert (asset_ID a) ids else ids"
  let ?key = "canonicalValidationKey (asset_Type a) (asset_Identifier a)"
  have ids: "?ids \<union> (asset_ID ` set rest - {[]}) = ids \<union> (asset_ID ` set (a # rest) - {[]})" by auto
  consider "?key = []" | "?key \<noteq> []" "keys ?key = None"
    | i where "?key \<noteq> []" "keys ?key = Some i" "i = asset_ID a"
    | i where "?key \<noteq> []" "keys ?key = Some i" "i \<noteq> asset_ID a"
    by fastforce
  then have "fst (validateAssets (a # rest) ids keys n errs) = ?ids \<union> (asset_ID ` set rest - {[]})"
  proof cases
    case 1
    from "2.IH"(1) [OF refl refl 1] 1 show ?thesis by simp
  next
    case 2
    from "2.IH"(2) [OF refl refl 2(1) 2(2)] 2 show ?thesis by (simp add: Let_def del: fun_upd_apply)
  next
    case (3 i)
    from "2.IH"(4) [OF refl refl 3(1) 3(2)] 3 show ?thesis by (simp add: Let_def del: fun_upd_apply)
  next
    case (4 i)
    from "2.IH"(3) [OF refl refl 4(1) 4(2)] 4 show ?thesis by (simp add: Let_def del: fun_upd_apply)
  qed
  then show ?case unfolding ids .
qed simp

lemma validateAssets_clean:
  assumes "distinct (map assetKeyOf as)"
    and "\<forall>k i. keys k = Some i \<longrightarrow> k \<notin> assetKeyOf ` set as"
  shows "snd (validateAssets as ids keys n errs) = (n, errs)"
  using assms
proof (induction as ids keys n errs rule: validateAssets.induct)
  case (2 a rest ids keys n errs)
  let ?key = "canonicalValidationKey (asset_Type a) (asset_Identifier a)"
  show ?case
  proof (cases "?key = []")
    case True
    with 2 show ?thesis by simp
  next
    case False
    from canonicalValidationKey_eq [OF this] have key: "?key = assetKeyOf a" by (simp add: assetKeyOf_def)
    then have none: "keys ?key = None" using "2.prems"(2) by (cases "keys ?key") auto
    have fresh: "\<forall>k i. (keys(?key \<mapsto> asset_ID a)) k = Some i \<longrightarrow> k \<notin> assetKeyOf ` set rest"
      using "2.prems" key by auto
    have dist: "distinct (map assetKeyOf rest)" using "2.prems"(1) by simp
    from "2.IH"(2) [OF refl refl False none dist fresh] False none show ?thesis
      by (simp add: Let_def del: fun_upd_apply)
  qed
qed simp

lemma validate_ok:
  assumes "asset_inv {} p"
  shows "\<exists>rels. fst (validateCanonicalGraph p) = (0, 0, rels)
     \<and> Errors (snd (validateCanonicalGraph p)) =
         Errors p @ concat (map (relationErrors (assetIDs p)) (Relations p))"
proof -
  obtain ids n errs where run: "validateAssets (Assets p) {} Map.empty 0 [] = (ids, n, errs)"
    by (metis surj_pair)
  have clean: "n = 0" "errs = []"
    using validateAssets_clean [OF asset_inv_distinct(1) [OF assms], of Map.empty "{}" 0 "[]"] run by auto
  have good: "\<forall>a \<in> set (Assets p). asset_ID a \<noteq> []"
    using assms by (auto simp: asset_inv_def goodAsset_def)
  then have ids: "ids = assetIDs p"
    using validateAssets_ids [of "Assets p" "{}" Map.empty 0 "[]"] run by (auto simp: assetIDs_def)
  have "observationErrors ids ob = []" if "ob \<in> set (Observations p)" for ob
  proof -
    have "obs_AssetID ob \<in> assetIDs p" using that assms by (auto simp: asset_inv_def)
    moreover from this good have "obs_AssetID ob \<noteq> []" by (auto simp: assetIDs_def)
    ultimately show ?thesis by (simp add: observationErrors_def ids)
  qed
  then have "concat (map (observationErrors ids) (Observations p)) = []" by simp
  then show ?thesis
    unfolding validateCanonicalGraph_def run Let_def split_conv by (simp add: clean ids)
qed

text \<open>A relation whose endpoints resolve to canonical assets is never reported.\<close>

lemma relationErrors_resolved:
  "rel_FromAssetID r \<in> ids \<or> rel_FromAssetID r = [] \<Longrightarrow> rel_ToAssetID r \<in> ids \<or> rel_ToAssetID r = [] \<Longrightarrow>
   relationErrors ids r = []"
  by (auto simp: relationErrors_def)

lemma MergeFilter_keeps: "thread_ok keeps (node_Process MergeFilter)"
proof -
  have "keeps s (onContext (\<lambda>p. snd (MergeFilterProcess p)) s)" for s :: "'b engineState"
  proof (rule keeps_frame)
    have val: "same_frontier q (snd (validateCanonicalGraph q))" "same_assets q (snd (validateCanonicalGraph q))" for q
      by (simp_all add: validateCanonicalGraph_def same_frontier_def same_assets_def split_def Let_def)
    show "same_frontier (fst s) (fst (onContext (\<lambda>p. snd (MergeFilterProcess p)) s))"
      using same_frontier_trans [OF ensure_frontier val(1)]
      by (simp add: onContext_def MergeFilterProcess_def EnsureAssetState_def)
    show "assets_ok (fst s) \<longrightarrow> assets_ok (fst (onContext (\<lambda>p. snd (MergeFilterProcess p)) s))"
      using ensure_inv(1,2) [of "fst s"] same_assets_ok [OF val(2)]
      by (simp add: onContext_def MergeFilterProcess_def EnsureAssetState_def assets_ok_def)
  qed
  then show ?thesis
    unfolding MergeFilter_def engineNode.simps by (rule thread_ok.step) (rule thread_ok.returned)
qed

end
