(* ===== verification/Examples.thy ===== *)
theory Examples
  imports Merge_Filter Discovery Pivot_Facts
begin

text \<open>
  Concrete values on which the properties of the root theory are applied: a run for the company
  with the domain \<open>acme.com\<close>, with a collector that promotes a second domain and records an
  asset, one that fails and one that panics, and the filter stage of the program.
\<close>

section \<open>A run\<close>

definition acmeSeed :: seed where
  "acmeSeed = zeroSeed\<lparr>seed_ID := ''s1'', seed_CompanyName := ''Acme'', seed_Domains := ['' Acme.com'']\<rparr>"

definition labsSeed :: seed where
  "labsSeed = zeroSeed\<lparr>seed_ID := ''s2'', seed_Domains := [''labs.io'']\<rparr>"

definition labsEvidence :: seedEvidence where
  "labsEvidence = \<lparr>ev_Source = ''crawler'', ev_Kind = ''link'', ev_Value = ''labs.io'',
     ev_Confidence = 1 / 2, ev_Reasoned = True\<rparr>"

definition acmeContext :: pipelineContext where
  "acmeContext = newContext (\<lambda>_. 0) [acmeSeed, acmeSeed]"

definition acmeFrontier :: pipelineContext where
  "acmeFrontier = InitializeSeedFrontier maxSeedExpansionDepth acmeContext"

definition acmeAsset :: asset where
  "acmeAsset = \<lparr>asset_ID = ''a1'', asset_EnumerationID = ''e1'', asset_Type = AssetTypeDomain,
     asset_Identifier = ''WWW.acme.com'', asset_Source = ''crawler'', asset_DiscoveryDate = 1,
     asset_Provenance = [], asset_OwnershipState = [], asset_InclusionReason = [],
     asset_EnrichmentStates = [],
     asset_DomainDetails = Some \<lparr>dd_Records = [\<lparr>rec_Type = ''A'', rec_Value = ''192.0.2.1''\<rparr>],
       dd_IsCatchAll = False, dd_RDAP = None\<rparr>,
     asset_IPDetails = None, asset_EnrichmentData = []\<rparr>"

definition promoteLabs :: "unit engineNode" where
  "promoteLabs = \<lparr>node_Name = ''crawler'', node_Process =
     Step (\<lambda>(p, b). snd (PromoteSeedCandidate None labsSeed labsEvidence p b))
       (\<lambda>_. Step (onContext (AppendAssets [acmeAsset])) (\<lambda>_. Done None))\<rparr>"

definition failing :: "unit engineNode" where
  "failing = \<lparr>node_Name = ''rdap'', node_Process = Done (Some ''timeout'')\<rparr>"

definition panicking :: "unit engineNode" where
  "panicking = \<lparr>node_Name = ''dns'', node_Process = Panicked ''nil map''\<rparr>"

definition acmeEngine :: "unit engine" where
  "acmeEngine = \<lparr>Collectors = [promoteLabs, failing, panicking], Enrichers = [], Expanders = [],
     Reconsiderers = [], Filters = [MergeFilter], Exporters = []\<rparr>"

lemma acme_commaFree:
  "commaFree acmeSeed" "commaFree labsSeed" "\<forall>s \<in> set (Seeds acmeContext). commaFree s"
proof -
  show *: "commaFree acmeSeed" "commaFree labsSeed"
    by (simp_all add: acmeSeed_def labsSeed_def zeroSeed_def commaFree_def)
  show "\<forall>s \<in> set (Seeds acmeContext). commaFree s"
    using * by (simp add: acmeContext_def newContext_def)
qed

lemma acme_assets_ok: "assets_ok acmeContext"
  by (simp add: acmeContext_def newContext_def assets_ok_def)

lemma acme_startable: "startable acmeContext"
  using acme_commaFree(3) acme_assets_ok by (simp add: startable_def judges_ok_def acmeContext_def newContext_def)

lemma acme_cleanAsset: "cleanAsset acmeAsset"
  by (simp add: acmeAsset_def cleanAsset_def)

lemma acme_sched_inv: "sched_inv {} acmeFrontier"
  unfolding acmeFrontier_def by (rule InitializeSeedFrontier_fields) (rule acme_commaFree)

lemma acme_engine_ok: "engine_ok acmeEngine None"
proof -
  have "keeps s (case s of (p, b) \<Rightarrow> snd (PromoteSeedCandidate None labsSeed labsEvidence p b))"
    for s :: "unit engineState"
  proof (cases s)
    case (Pair p b)
    obtain r p' b' where "PromoteSeedCandidate None labsSeed labsEvidence p b = (r, p', b')"
      by (metis prod_cases3)
    with Pair keeps_frontier_step [OF frontier_step.promote [OF acme_commaFree(2) this]] show ?thesis by simp
  qed
  moreover have "keeps s (onContext (AppendAssets [acmeAsset]) s)" for s :: "unit engineState"
    using keeps_append(1) [of "[acmeAsset]" "fst s" "snd s"] acme_cleanAsset
    by (cases s) (simp add: onContext_def)
  ultimately have "thread_ok keeps (node_Process promoteLabs)" by (simp add: promoteLabs_def)
  then show ?thesis
    using MergeFilter_keeps by (simp add: engine_ok_def acmeEngine_def failing_def panicking_def)
qed

text \<open>A library of names in which every name is its own root but those under \<open>acme.com\<close>.\<close>

definition acmeNet :: netLibrary where
  "acmeNet = \<lparr>EffectiveTLDPlusOne = (\<lambda>d. if HasSuffix d ''acme.com'' then Some ''acme.com'' else None),
     PublicSuffix = (\<lambda>_. ''com''), ParseIP = (\<lambda>_. False), ParseHostname = (\<lambda>_. None)\<rparr>"

definition acmeRelation :: assetRelation where
  "acmeRelation = \<lparr>rel_ID = [], rel_FromAssetID = [], rel_FromAssetType = AssetTypeDomain,
     rel_FromIdentifier = ''www.acme.com'', rel_ToAssetID = [], rel_ToAssetType = AssetTypeIP,
     rel_ToIdentifier = ''192.0.2.1'', rel_ObservationID = [], rel_EnumerationID = ''e1'',
     rel_Source = ''dns_collector'', rel_Kind = ''dns_a'', rel_Label = ''A'', rel_Reason = [],
     rel_DiscoveryDate = 1\<rparr>"

section \<open>Judgements and a run\<close>

definition labsEvaluation :: judgeEvaluation where
  "labsEvaluation = \<lparr>eval_Collector = ''web_hint'', eval_SeedID = ''s1'', eval_SeedLabel = ''Acme'',
     eval_SeedDomains = [''acme.com''], eval_Scenario = ''web ownership hints'',
     eval_Outcomes =
       [\<lparr>out_Root = ''labs.io'', out_Collect = False, out_Confidence = 1 / 4, out_Kind = [], out_Reason = [],
         out_Explicit = True, out_Support = []\<rparr>,
        \<lparr>out_Root = ''labs.io'', out_Collect = True, out_Confidence = 3 / 4, out_Kind = ''llm_link'', out_Reason = [],
         out_Explicit = True, out_Support = [''footer'']\<rparr>,
        \<lparr>out_Root = ''cdn.net'', out_Collect = False, out_Confidence = 1 / 2, out_Kind = [], out_Reason = [],
         out_Explicit = True, out_Support = []\<rparr>]\<rparr>"

definition acmeEnvironment :: environment where
  "acmeEnvironment = \<lparr>env_tick = 0, env_clock = int, env_id = (\<lambda>prefix n. prefix @ ''-'' @ show_nat n)\<rparr>"

definition labsRequest :: candidatePromotionRequest where
  "labsRequest = \<lparr>req_Key = ''labs.io'', req_Seed = labsSeed, req_Evidence = [labsEvidence],
     req_Confidence = 1 / 2, req_Reasoned = True\<rparr>"

definition acmeRun :: runRecord where
  "acmeRun = \<lparr>run_ID = ''r1'', run_OwnerUID = ''u1'', run_OwnerEmail = ''a@acme.com'', run_Mode = RunModeManual,
     run_Status = RunStatusQueued, run_CurrentWave = 0, run_SeedCount = 1, run_EnumerationCount = 0,
     run_AssetCount = 0, run_PendingPivotCount = 0, run_JudgeEvaluationCount = 0, run_JudgeAcceptedCount = 0,
     run_JudgeDiscardedCount = 0, run_LastError = [], run_Downloads = noDownloads, run_CreatedAt = 0,
     run_UpdatedAt = 0, run_StartedAt = None, run_CompletedAt = None, run_ExecutionLeaseID = [],
     run_ExecutionHeartbeatAt = None, run_ExecutionLeaseUntil = None\<rparr>"

end
