(* ===== verification/Reconsider.thy ===== *)
theory Reconsider
  imports Judges Engine
begin

text \<open>
  \<open>internal/reconsider/discarded_candidate_reconsiderer.go\<close>: after the last wave the roots that the
  judges discarded are put to the judge once more, one request for each parent seed, with what the
  run found out about them since; those it collects now are promoted for one extra wave. The judge,
  the size of the prompt for a request and the promotion handler are arguments.
\<close>

section \<open>Lists of distinct values\<close>

definition appendUniqueValue :: "string list \<Rightarrow> string \<Rightarrow> string list" where
  "appendUniqueValue existing value0 =
     (let value = TrimSpace value0
      in if value = [] \<or> list_ex (\<lambda>current. EqualFold current value) existing then existing
         else existing @ [value])"

definition appendUniqueValues :: "string list \<Rightarrow> string list \<Rightarrow> string list" where
  "appendUniqueValues existing incoming = fold (\<lambda>v acc. appendUniqueValue acc v) incoming existing"

definition limitStrings :: "string list \<Rightarrow> nat \<Rightarrow> string list" where
  "limitStrings values limit = (if values = [] \<or> limit = 0 then [] else take limit (sort values))"

definition splitSources :: "string \<Rightarrow> string list" where
  "splitSources raw = filter (\<lambda>p. p \<noteq> []) (map TrimSpace (Split raw CHR '',''))"

definition filterAcceptedRoots :: "netLibrary \<Rightarrow> string list \<Rightarrow> string \<Rightarrow> string list" where
  "filterAcceptedRoots net roots current =
     sort (appendUniqueValues [] (filter (\<lambda>r. r \<noteq> [] \<and> r \<noteq> current) (map (RegistrableDomain net) roots)))"

section \<open>Parent seeds\<close>

definition domainsKey :: "string list \<Rightarrow> string" where
  "domainsKey domains = Join (UniqueLowerStrings domains) '',''"

record seedIndex =
  byID :: "string \<rightharpoonup> seed"
  byDomains :: "string \<rightharpoonup> seed"
  byLabel :: "string \<rightharpoonup> seed"

definition indexSeed :: "seed \<Rightarrow> seedIndex \<Rightarrow> seedIndex" where
  "indexSeed s ix0 =
     (let ix1 = (if seed_ID s \<noteq> [] then ix0\<lparr>byID := (byID ix0)(TrimSpace (seed_ID s) \<mapsto> s)\<rparr> else ix0);
          key = domainsKey (seed_Domains s);
          ix2 = (if key \<noteq> [] then ix1\<lparr>byDomains := (byDomains ix1)(key \<mapsto> s)\<rparr> else ix1);
          label = ToLower (TrimSpace (seed_CompanyName s))
      in if label \<noteq> [] then ix2\<lparr>byLabel := (byLabel ix2)(label \<mapsto> s)\<rparr> else ix2)"

definition buildSeedIndex :: "seed list \<Rightarrow> seedIndex" where
  "buildSeedIndex seeds = fold indexSeed seeds \<lparr>byID = Map.empty, byDomains = Map.empty, byLabel = Map.empty\<rparr>"

definition buildKnownSeedRoots :: "netLibrary \<Rightarrow> seed list \<Rightarrow> string set" where
  "buildKnownSeedRoots net seeds = knownRoots net (concat (map seed_Domains seeds))"

definition resolveParentSeed :: "judgeEvaluation \<Rightarrow> seedIndex \<Rightarrow> seed" where
  "resolveParentSeed e ix =
     (case byID ix (TrimSpace (eval_SeedID e)) of
        Some s \<Rightarrow> s
      | None \<Rightarrow>
          (let key = domainsKey (eval_SeedDomains e); label = ToLower (TrimSpace (eval_SeedLabel e))
           in case (if key \<noteq> [] then byDomains ix key else None) of
                Some s \<Rightarrow> s
              | None \<Rightarrow>
                  (case (if label \<noteq> [] then byLabel ix label else None) of
                     Some s \<Rightarrow> s
                   | None \<Rightarrow> zeroSeed\<lparr>seed_ID := TrimSpace (eval_SeedID e),
                       seed_CompanyName := TrimSpace (eval_SeedLabel e),
                       seed_Domains := eval_SeedDomains e\<rparr>)))"

definition canonicalParentKey :: "seed \<Rightarrow> judgeEvaluation \<Rightarrow> string" where
  "canonicalParentKey s e =
     (let i = TrimSpace (seed_ID s); key = domainsKey (seed_Domains s); key' = domainsKey (eval_SeedDomains e);
          label = ToLower (TrimSpace (seed_CompanyName s)); label' = ToLower (TrimSpace (eval_SeedLabel e))
      in if i \<noteq> [] then ''id:'' @ i
         else if key \<noteq> [] then ''domains:'' @ key
         else if key' \<noteq> [] then ''domains:'' @ key'
         else if label \<noteq> [] then ''label:'' @ label
         else if label' \<noteq> [] then ''label:'' @ label'
         else [])"

definition parentKeyOf :: "seedIndex \<Rightarrow> judgeEvaluation \<Rightarrow> string" where
  "parentKeyOf ix e = canonicalParentKey (resolveParentSeed e ix) e"

section \<open>Accepted roots\<close>

text \<open>The roots collected for each parent, in the order they were met; the inner Go map is a set.\<close>

definition addAccepted :: "string \<Rightarrow> string \<Rightarrow> (string \<Rightarrow> string list) \<Rightarrow> (string \<Rightarrow> string list)" where
  "addAccepted parent r m = m(parent := List.insert r (m parent))"

definition acceptOutcome ::
  "netLibrary \<Rightarrow> string set \<Rightarrow> string \<Rightarrow> judgeCandidateOutcome \<Rightarrow> (string \<Rightarrow> string list) \<Rightarrow> (string \<Rightarrow> string list)" where
  "acceptOutcome net known parent out m =
     (let root = RegistrableDomain net (out_Root out)
      in if \<not> out_Collect out \<or> root = [] \<or> root \<notin> known then m else addAccepted parent root m)"

definition buildAcceptedRootSet ::
  "netLibrary \<Rightarrow> judgeEvaluation list \<Rightarrow> seedIndex \<Rightarrow> string set \<Rightarrow> (string \<Rightarrow> string list)" where
  "buildAcceptedRootSet net es ix known =
     fold (\<lambda>e m. if parentKeyOf ix e = [] then m
                 else fold (acceptOutcome net known (parentKeyOf ix e)) (eval_Outcomes e) m) es (\<lambda>_. [])"

section \<open>What the run knows about a root\<close>

record rootFacts =
  rf_assetCount :: nat
  rf_provenanceCount :: nat
  rf_identifiers :: "string list"
  rf_sources :: "string list"
  rf_ptrHosts :: "string list"
  rf_registrantOrgs :: "string list"
  rf_registrars :: "string list"
  rf_nameServers :: "string list"

definition noFacts :: rootFacts where
  "noFacts = \<lparr>rf_assetCount = 0, rf_provenanceCount = 0, rf_identifiers = [], rf_sources = [],
     rf_ptrHosts = [], rf_registrantOrgs = [], rf_registrars = [], rf_nameServers = []\<rparr>"

definition domainFacts :: "asset \<Rightarrow> rootFacts \<Rightarrow> rootFacts" where
  "domainFacts a f0 =
     (let f = f0\<lparr>rf_assetCount := rf_assetCount f0 + 1,
                 rf_provenanceCount := rf_provenanceCount f0 + max 1 (length (asset_Provenance a)),
                 rf_identifiers := appendUniqueValue (rf_identifiers f0) (NormalizeDomainIdentifier (asset_Identifier a)),
                 rf_sources := appendUniqueValues (rf_sources f0) (splitSources (asset_Source a))\<rparr>
      in case Option.bind (asset_DomainDetails a) dd_RDAP of
           None \<Rightarrow> f
         | Some r \<Rightarrow> f\<lparr>rf_registrantOrgs := appendUniqueValue (rf_registrantOrgs f) (TrimSpace (rdap_RegistrantOrg r)),
                       rf_registrars := appendUniqueValue (rf_registrars f) (TrimSpace (rdap_RegistrarName r)),
                       rf_nameServers := appendUniqueValues (rf_nameServers f) (rdap_NameServers r)\<rparr>)"

definition ipFacts :: "string \<Rightarrow> asset \<Rightarrow> rootFacts \<Rightarrow> rootFacts" where
  "ipFacts ptr a f =
     f\<lparr>rf_ptrHosts := appendUniqueValue (rf_ptrHosts f) ptr,
       rf_sources := appendUniqueValues (rf_sources f) (splitSources (asset_Source a)),
       rf_provenanceCount := rf_provenanceCount f + max 1 (length (asset_Provenance a))\<rparr>"

definition updateFacts :: "string \<Rightarrow> (rootFacts \<Rightarrow> rootFacts) \<Rightarrow> (string \<rightharpoonup> rootFacts) \<Rightarrow> (string \<rightharpoonup> rootFacts)" where
  "updateFacts r f m =
     (if r = [] then m else m(r \<mapsto> f (case m r of None \<Rightarrow> noFacts | Some x \<Rightarrow> x)))"

definition assetFacts :: "netLibrary \<Rightarrow> asset \<Rightarrow> (string \<rightharpoonup> rootFacts) \<Rightarrow> (string \<rightharpoonup> rootFacts)" where
  "assetFacts net a m =
     (if asset_Type a = AssetTypeDomain
      then updateFacts (RegistrableDomain net (asset_Identifier a)) (domainFacts a) m
      else if asset_Type a = AssetTypeIP
      then (case asset_IPDetails a of
              None \<Rightarrow> m
            | Some ip \<Rightarrow> (let ptr = NormalizeDomainIdentifier (ip_PTR ip)
                         in updateFacts (RegistrableDomain net ptr) (ipFacts ptr a) m))
      else m)"

definition buildRunRootFacts :: "netLibrary \<Rightarrow> asset list \<Rightarrow> (string \<rightharpoonup> rootFacts)" where
  "buildRunRootFacts net assets = fold (assetFacts net) assets Map.empty"

section \<open>Discarded candidates\<close>

record candidateAggregate =
  ca_parentKey :: string
  ca_parentSeed :: seed
  ca_root :: string
  ca_collectors :: "string list"
  ca_scenarios :: "string list"
  ca_support :: "string list"
  ca_reasons :: "string list"
  ca_explicitCount :: nat
  ca_implicitCount :: nat

definition newAggregate :: "string \<Rightarrow> seed \<Rightarrow> string \<Rightarrow> candidateAggregate" where
  "newAggregate parentKey parentSeed r =
     \<lparr>ca_parentKey = parentKey, ca_parentSeed = parentSeed, ca_root = r, ca_collectors = [],
      ca_scenarios = [], ca_support = [], ca_reasons = [], ca_explicitCount = 0, ca_implicitCount = 0\<rparr>"

definition aggregateKey :: "string \<Rightarrow> string \<Rightarrow> string" where
  "aggregateKey parentKey r = parentKey @ CHR 0x00 # r"

definition addDiscard :: "judgeEvaluation \<Rightarrow> judgeCandidateOutcome \<Rightarrow> candidateAggregate \<Rightarrow> candidateAggregate" where
  "addDiscard e out a =
     a\<lparr>ca_collectors := appendUniqueValue (ca_collectors a) (eval_Collector e),
       ca_scenarios := appendUniqueValue (ca_scenarios a) (eval_Scenario e),
       ca_support := appendUniqueValues (ca_support a) (out_Support out),
       ca_reasons := (if out_Reason out \<noteq> [] then appendUniqueValue (ca_reasons a) (out_Reason out) else ca_reasons a),
       ca_explicitCount := (if out_Explicit out then ca_explicitCount a + 1 else ca_explicitCount a),
       ca_implicitCount := (if out_Explicit out then ca_implicitCount a else ca_implicitCount a + 1)\<rparr>"

text \<open>An outcome that is reconsidered, and its root.\<close>

definition reconsidered ::
  "netLibrary \<Rightarrow> string set \<Rightarrow> (string \<Rightarrow> string list) \<Rightarrow> string \<Rightarrow> judgeCandidateOutcome \<Rightarrow> bool" where
  "reconsidered net known accepted parent out \<longleftrightarrow>
     (let root = RegistrableDomain net (out_Root out)
      in \<not> out_Collect out \<and> root \<noteq> [] \<and> root \<notin> known \<and> root \<notin> set (accepted parent))"

definition aggregateOutcome ::
  "netLibrary \<Rightarrow> seed \<Rightarrow> string \<Rightarrow> judgeEvaluation \<Rightarrow> judgeCandidateOutcome
     \<Rightarrow> (string \<times> candidateAggregate) list \<Rightarrow> (string \<times> candidateAggregate) list" where
  "aggregateOutcome net parentSeed parent e out m =
     (let root = RegistrableDomain net (out_Root out); key = aggregateKey parent root;
          a = (case map_of m key of None \<Rightarrow> newAggregate parent parentSeed root | Some a \<Rightarrow> a)
      in AList.update key (addDiscard e out a) m)"

definition aggregateEvaluation ::
  "netLibrary \<Rightarrow> seedIndex \<Rightarrow> string set \<Rightarrow> (string \<Rightarrow> string list) \<Rightarrow> judgeEvaluation
     \<Rightarrow> (string \<times> candidateAggregate) list \<Rightarrow> (string \<times> candidateAggregate) list" where
  "aggregateEvaluation net ix known accepted e m =
     (let parent = parentKeyOf ix e
      in if parent = [] then m
         else fold (aggregateOutcome net (resolveParentSeed e ix) parent e)
                (filter (reconsidered net known accepted parent) (eval_Outcomes e)) m)"

definition aggregateDiscardedCandidates ::
  "netLibrary \<Rightarrow> judgeEvaluation list \<Rightarrow> seedIndex \<Rightarrow> string set \<Rightarrow> (string \<Rightarrow> string list) \<Rightarrow> candidateAggregate list" where
  "aggregateDiscardedCandidates net es ix known accepted =
     map snd (sort_key fst (fold (aggregateEvaluation net ix known accepted) es []))"

section \<open>Requests\<close>

definition prose :: "string \<Rightarrow> string \<Rightarrow> ownershipEvidenceItem list" where
  "prose kind summary = [\<lparr>item_Kind = kind, item_Summary = summary\<rparr>]"

definition summarizeRegistrationFacts :: "rootFacts \<Rightarrow> string" where
  "summarizeRegistrationFacts f =
     (let parts = (if rf_registrantOrgs f \<noteq> [] then [''registrant orgs='' @ Join (limitStrings (rf_registrantOrgs f) 4) '', ''] else [])
          @ (if rf_registrars f \<noteq> [] then [''registrars='' @ Join (limitStrings (rf_registrars f) 4) '', ''] else [])
          @ (if rf_nameServers f \<noteq> [] then [''name servers='' @ Join (limitStrings (rf_nameServers f) 5) '', ''] else [])
      in if parts = [] then []
         else ''Registration facts already present in this run: '' @ Join parts '' | '')"

definition factEvidence :: "rootFacts \<Rightarrow> ownershipEvidenceItem list" where
  "factEvidence f =
     (if rf_assetCount f > 0
      then prose ''run_assets'' (''Current run already discovered '' @ show_nat (rf_assetCount f)
             @ '' assets under this candidate root: '' @ Join (limitStrings (rf_identifiers f) 6) '', '' @ ''.'') else [])
     @ (if rf_sources f \<noteq> []
        then prose ''run_asset_sources'' (''Current run sources for this root: '' @ Join (limitStrings (rf_sources f) 6) '', '') else [])
     @ (if rf_ptrHosts f \<noteq> []
        then prose ''run_ptr_hosts'' (''PTR hosts already observed under this root: '' @ Join (limitStrings (rf_ptrHosts f) 5) '', '') else [])
     @ (if summarizeRegistrationFacts f \<noteq> [] then prose ''run_registration'' (summarizeRegistrationFacts f) else [])
     @ (if rf_provenanceCount f > 0
        then prose ''run_provenance'' (''Current run preserved '' @ show_nat (rf_provenanceCount f)
               @ '' provenance observations touching this root.'') else [])"

definition priorEvidence :: "candidateAggregate \<Rightarrow> string list \<Rightarrow> ownershipEvidenceItem list" where
  "priorEvidence a acceptedRoots =
     prose ''prior_discard_summary''
       (''Previously discarded '' @ show_nat (ca_explicitCount a + ca_implicitCount a)
        @ '' time(s) in this run; explicit discards='' @ show_nat (ca_explicitCount a)
        @ '', implicit non-decisions='' @ show_nat (ca_implicitCount a) @ ''.'')
     @ (if ca_collectors a \<noteq> [] \<or> ca_scenarios a \<noteq> []
        then prose ''prior_judge_context'' (''Prior judge context came from collectors ['' @ Join (limitStrings (ca_collectors a) 5) '', ''
               @ ''] and scenarios ['' @ Join (limitStrings (ca_scenarios a) 5) '', '' @ ''].'') else [])
     @ (if ca_support a \<noteq> []
        then prose ''prior_discard_support'' (''Prior support: '' @ Join (limitStrings (ca_support a) 6) '' | '') else [])
     @ (if ca_reasons a \<noteq> []
        then prose ''prior_discard_reasons'' (''Prior discard reasons: '' @ Join (limitStrings (ca_reasons a) 4) '' | '') else [])
     @ (if acceptedRoots \<noteq> []
        then prose ''accepted_run_roots'' (''Roots already accepted earlier in this run for the same seed: ''
               @ Join (limitStrings acceptedRoots 6) '', '') else [])"

definition buildCandidateEvidence ::
  "candidateAggregate \<Rightarrow> rootFacts option \<Rightarrow> string list \<Rightarrow> pipelineContext \<Rightarrow> ownershipEvidenceItem list" where
  "buildCandidateEvidence a facts acceptedRoots p =
     priorEvidence a acceptedRoots
     @ (case facts of None \<Rightarrow> [] | Some f \<Rightarrow> factEvidence f)
     @ prose ''run_summary'' (''Run summary so far: '' @ show_nat (length (Seeds p)) @ '' seeds, ''
         @ show_nat (length (Assets p)) @ '' assets, '' @ show_nat (length (JudgeEvaluations p)) @ '' judge evaluations.'')"

record requestGroup =
  rg_parentKey :: string
  rg_request :: ownershipRequest
  rg_byRoot :: "string \<rightharpoonup> candidateAggregate"

definition newRequestGroup :: "candidateAggregate \<Rightarrow> requestGroup" where
  "newRequestGroup a =
     \<lparr>rg_parentKey = ca_parentKey a,
      rg_request = \<lparr>or_Scenario = ''post-run discarded candidate reconsideration'', or_Seed = ca_parentSeed a,
                    or_Candidates = []\<rparr>,
      rg_byRoot = Map.empty\<rparr>"

definition addToGroup :: "candidateAggregate \<Rightarrow> ownershipEvidenceItem list \<Rightarrow> requestGroup \<Rightarrow> requestGroup" where
  "addToGroup a evidence g =
     g\<lparr>rg_request := (rg_request g)\<lparr>or_Candidates := or_Candidates (rg_request g)
                       @ [\<lparr>oc_Root = ca_root a, oc_Evidence = evidence\<rparr>]\<rparr>,
       rg_byRoot := (rg_byRoot g)(ca_root a \<mapsto> a)\<rparr>"

definition groupAggregate ::
  "(candidateAggregate \<Rightarrow> ownershipEvidenceItem list) \<Rightarrow> candidateAggregate
     \<Rightarrow> (string \<times> requestGroup) list \<Rightarrow> (string \<times> requestGroup) list" where
  "groupAggregate evidence a m =
     (let g = (case map_of m (ca_parentKey a) of None \<Rightarrow> newRequestGroup a | Some g \<Rightarrow> g)
      in AList.update (ca_parentKey a) (addToGroup a (evidence a) g) m)"

definition sortCandidates :: "requestGroup \<Rightarrow> requestGroup" where
  "sortCandidates g =
     g\<lparr>rg_request := (rg_request g)\<lparr>or_Candidates := sort_key oc_Root (or_Candidates (rg_request g))\<rparr>\<rparr>"

text \<open>\<open>mapOrder\<close> is the order in which Go visits the set of accepted roots of a parent.\<close>

definition buildRequestGroups ::
  "netLibrary \<Rightarrow> (string list \<Rightarrow> string list) \<Rightarrow> candidateAggregate list \<Rightarrow> (string \<rightharpoonup> rootFacts)
     \<Rightarrow> (string \<Rightarrow> string list) \<Rightarrow> pipelineContext \<Rightarrow> requestGroup list" where
  "buildRequestGroups net mapOrder aggregates facts accepted p =
     (let evidence = (\<lambda>a. buildCandidateEvidence a (facts (ca_root a))
                        (filterAcceptedRoots net (mapOrder (accepted (ca_parentKey a))) (ca_root a)) p)
      in map (\<lambda>x. sortCandidates (snd x)) (sort_key fst (fold (groupAggregate evidence) aggregates [])))"

definition groupLabel :: "requestGroup \<Rightarrow> string" where
  "groupLabel g =
     (let label = TrimSpace (seed_CompanyName (or_Seed (rg_request g))); key = domainsKey (seed_Domains (or_Seed (rg_request g)))
      in if label \<noteq> [] then label else if key \<noteq> [] then key else TrimSpace (rg_parentKey g))"

section \<open>The stage\<close>

record reconsiderer =
  rc_judge :: "(ownershipRequest \<Rightarrow> string + judgeDecision list) option"
  rc_promptSize :: "ownershipRequest \<Rightarrow> int"
  rc_maxPromptChars :: int

definition oversizedError :: "reconsiderer \<Rightarrow> requestGroup \<Rightarrow> string" where
  "oversizedError r g =
     ''post-run reconsideration skipped request group '' @ Quote (groupLabel g)
     @ '': prompt size '' @ show_int (rc_promptSize r (rg_request g)) @ '' exceeds per-request limit ''
     @ show_int (rc_maxPromptChars r)"

definition reconsiderSeed :: "netLibrary \<Rightarrow> candidateAggregate \<Rightarrow> judgeDecision \<Rightarrow> seed" where
  "reconsiderSeed net a d = BuildDiscoveredSeed net (ca_parentSeed a) (jd_Root d) ''post-run-reconsideration''"

definition reconsiderEvidence :: "judgeDecision \<Rightarrow> seedEvidence" where
  "reconsiderEvidence d =
     \<lparr>ev_Source = ''post_run_reconsideration'', ev_Kind = FirstNonEmpty [jd_Kind d, ''ownership_judged''],
      ev_Value = jd_Root d, ev_Confidence = jd_Confidence d, ev_Reasoned = True\<rparr>"

definition reviewDecision ::
  "netLibrary \<Rightarrow> 'b promotionHandler \<Rightarrow> requestGroup \<Rightarrow> judgeDecision \<Rightarrow> 'b engineState \<Rightarrow> 'b engineState" where
  "reviewDecision net h g d st =
     (if \<not> jd_Collect d \<or> \<not> IsConfidenceAtLeast (jd_Confidence d) (CandidatePromotionConfidenceThreshold (fst st)) then st
      else case rg_byRoot g (jd_Root d) of
             None \<Rightarrow> st
           | Some a \<Rightarrow> snd (EnqueueSeedCandidate h (reconsiderSeed net a d) (reconsiderEvidence d) (fst st) (snd st)))"

text \<open>What happens to one group, as a sequence of atomic steps.\<close>

definition groupSteps ::
  "netLibrary \<Rightarrow> 'b promotionHandler \<Rightarrow> reconsiderer \<Rightarrow> (ownershipRequest \<Rightarrow> string + judgeDecision list)
     \<Rightarrow> requestGroup \<Rightarrow> ('b engineState \<Rightarrow> 'b engineState) list" where
  "groupSteps net h r judge g =
     (if rc_maxPromptChars r > 0 \<and> rc_promptSize r (rg_request g) > rc_maxPromptChars r
      then [onContext (appendError (oversizedError r g))]
      else case judge (rg_request g) of
             Inl e \<Rightarrow> [onContext (appendError e)]
           | Inr ds \<Rightarrow> onContext (RecordOwnershipJudgeEvaluation net ''run_reconsideration'' (rg_request g) ds)
                       # map (reviewDecision net h g) ds)"

definition requestGroupsOf :: "netLibrary \<Rightarrow> (string list \<Rightarrow> string list) \<Rightarrow> pipelineContext \<Rightarrow> requestGroup list" where
  "requestGroupsOf net mapOrder p =
     (let ix = buildSeedIndex (Seeds p); known = buildKnownSeedRoots net (Seeds p);
          accepted = buildAcceptedRootSet net (JudgeEvaluations p) ix known
      in buildRequestGroups net mapOrder
           (aggregateDiscardedCandidates net (JudgeEvaluations p) ix known accepted)
           (buildRunRootFacts net (Assets p)) accepted p)"

definition ReconsiderProcess ::
  "netLibrary \<Rightarrow> (string list \<Rightarrow> string list) \<Rightarrow> 'b promotionHandler \<Rightarrow> reconsiderer \<Rightarrow> 'b engineState thread" where
  "ReconsiderProcess net mapOrder h r =
     Step (onContext EnsureAssetState)
       (\<lambda>st. let p = EnsureAssetState (fst st)
              in case rc_judge r of
                   None \<Rightarrow> Done None
                 | Some judge \<Rightarrow>
                     if length (JudgeEvaluations p) = 0 then Done None
                     else doSteps (concat (map (groupSteps net h r judge) (requestGroupsOf net mapOrder p))))"

definition DiscardedCandidateReconsiderer ::
  "netLibrary \<Rightarrow> (string list \<Rightarrow> string list) \<Rightarrow> 'b promotionHandler \<Rightarrow> reconsiderer \<Rightarrow> 'b engineNode" where
  "DiscardedCandidateReconsiderer net mapOrder h r =
     \<lparr>node_Name = ''DiscardedCandidateReconsiderer'', node_Process = ReconsiderProcess net mapOrder h r\<rparr>"

end
