(* ===== verification/Stage_Facts.thy ===== *)
theory Stage_Facts
  imports Judges Engine_Facts
begin

text \<open>
  The steps stages are made of keep the invariant of the context: reports, evaluations of judges,
  promotions of discovered seeds. Threads built from such steps are stages the engine's theorems
  apply to.
\<close>

section \<open>Discovered roots hold no comma\<close>

text \<open>Library: a registrable domain is made of characters of the name.\<close>

definition suffixLibrary :: "netLibrary \<Rightarrow> bool" where
  "suffixLibrary net \<longleftrightarrow> (\<forall>d r. EffectiveTLDPlusOne net d = Some r \<longrightarrow> set r \<subseteq> set d)"

lemma NormalizeDomainIdentifier_comma:
  assumes "CHR '','' \<notin> set d"
  shows "CHR '','' \<notin> set (NormalizeDomainIdentifier d)"
proof
  assume "CHR '','' \<in> set (NormalizeDomainIdentifier d)"
  then obtain c where "c \<in> set (TrimSuffix (TrimSpace d) ''.'')" and c: "lower_char c = CHR '',''"
    by (auto simp: NormalizeDomainIdentifier_def ToLower_def)
  then have "c \<in> set d" by (auto simp: TrimSuffix_def dest: set_TrimSpace in_set_takeD split: if_splits)
  with assms c show False by (simp add: lower_char_comma)
qed

lemma RegistrableDomain_comma:
  assumes "suffixLibrary net" and "CHR '','' \<notin> set d"
  shows "CHR '','' \<notin> set (RegistrableDomain net d)"
  using assms NormalizeDomainIdentifier_comma [OF assms(2)]
  by (auto simp: RegistrableDomain_def suffixLibrary_def Let_def split: option.splits)

lemma Split_mem: "c \<in> set s \<Longrightarrow> c = sep \<or> (\<exists>l \<in> set (Split s sep). c \<in> set l)"
proof (induction s sep rule: Split.induct)
  case (2 d s sep)
  show ?case
  proof (cases "d = sep")
    case False
    obtain l ls where ls: "Split s sep = l # ls" by (cases "Split s sep") (use Split_nonempty in auto)
    show ?thesis
    proof (cases "c = d")
      case True
      with False ls show ?thesis by simp
    next
      case other: False
      with "2.prems" have "c \<in> set s" by simp
      with "2.IH" False have "c = sep \<or> (\<exists>l \<in> set (Split s sep). c \<in> set l)" by simp
      with ls False show ?thesis by auto
    qed
  qed (use 2 in auto)
qed simp

lemma likely_comma:
  assumes "isLikelyDNSDomain net c \<or> isLikelyDomain net c"
  shows "CHR '','' \<notin> set (NormalizeDomainIdentifier c)"
proof
  assume comma: "CHR '','' \<in> set (NormalizeDomainIdentifier c)"
  have pat: "dnsDomainPattern (NormalizeDomainIdentifier c) \<or> domainPattern (NormalizeDomainIdentifier c)"
    using assms by (auto simp: isLikelyDNSDomain_def isLikelyDomain_def likely_def Let_def split: if_splits)
  from Split_mem [OF comma, of "CHR ''.''"] obtain l where
    l: "l \<in> set (Split (NormalizeDomainIdentifier c) CHR ''.'')" "CHR '','' \<in> set l" by auto
  with pat have "labelOK (\<lambda>c. alnum c \<or> c = CHR ''_'') l \<or> labelOK alnum l"
    by (auto simp: dnsDomainPattern_def domainPattern_def Let_def list_all_iff)
  with l(2) have "alnum CHR '',''" by (auto simp: labelOK_def list_all_iff)
  then show False by (simp add: alnum_def letter_def is_digit_def)
qed

lemma RegistrableDomain_comma_normal:
  assumes "suffixLibrary net" and "CHR '','' \<notin> set (NormalizeDomainIdentifier c)"
  shows "CHR '','' \<notin> set (RegistrableDomain net c)"
  using assms by (auto simp: RegistrableDomain_def suffixLibrary_def Let_def split: option.splits)

lemma extracted_comma:
  assumes "suffixLibrary net" and "d \<in> set (ExtractDomainCandidates net raw) \<or> d \<in> set (ExtractDNSDomainCandidates net raw)"
  shows "CHR '','' \<notin> set (RegistrableDomain net d)"
proof (rule RegistrableDomain_comma_normal [OF assms(1) likely_comma])
  show "isLikelyDNSDomain net d \<or> isLikelyDomain net d"
    using assms(2) extractCandidates_sound by (auto simp: ExtractDomainCandidates_def ExtractDNSDomainCandidates_def)
qed

lemma BuildDiscoveredSeed_commaFree:
  assumes "suffixLibrary net" and "CHR '','' \<notin> set r"
  shows "commaFree (BuildDiscoveredSeed net parent r tag)"
  using RegistrableDomain_comma [OF assms] NormalizeDomainIdentifier_comma [OF assms(2)]
  by (simp add: commaFree_def BuildDiscoveredSeed_def Let_def)

lemma judgeOutcomes_root:
  "out \<in> set (judgeOutcomes net rootOf support cs ds) \<Longrightarrow> \<exists>c \<in> set cs. out_Root out = RegistrableDomain net (rootOf c)"
  by (auto simp: judgeOutcomes_def Let_def dest!: subsetD [OF set_uniqueBy_subset])

section \<open>Steps\<close>

lemma keeps_same:
  "same_frontier (fst s) (fst t) \<Longrightarrow> same_assets (fst s) (fst t) \<Longrightarrow> keeps s t"
  by (rule keeps_frame) (simp_all add: same_assets_ok)

lemma keeps_ensure: "keeps s (onContext EnsureAssetState s)"
proof (rule keeps_frame)
  show "same_frontier (fst s) (fst (onContext EnsureAssetState s))"
    by (simp add: onContext_def EnsureAssetState_def ensure_frontier)
  show "assets_ok (fst s) \<longrightarrow> assets_ok (fst (onContext EnsureAssetState s))"
    using ensure_inv(1,2) [of "fst s"] by (simp add: onContext_def EnsureAssetState_def assets_ok_def)
qed

lemma keeps_evaluation:
  assumes "commaFreeEvaluation e"
  shows "keeps s (onContext (RecordJudgeEvaluation e) s)"
proof -
  let ?q = "RecordJudgeEvaluation e (fst s)"
  have "sched_inv D ?q = sched_inv D (fst s)" "grows (fst s) ?q" "assets_ok ?q = assets_ok (fst s)" for D
    using hooks_frame(3,4) [of "fst s" e]
    by (simp_all add: same_frontier_def same_assets_def sched_inv_def slices_ok_def candidates_ok_def budget_ok_def
        grows_def assets_ok_def asset_inv_def assetIDs_def)
  with judges_ok_RecordJudgeEvaluation [OF _ assms, of "fst s"] show ?thesis
    by (simp add: keeps_def context_ok_def onContext_def)
qed

lemma keeps_ownership_evaluation:
  assumes "suffixLibrary net" and "\<forall>c \<in> set (or_Candidates q). CHR '','' \<notin> set (oc_Root c)"
  shows "keeps s (onContext (RecordOwnershipJudgeEvaluation net collector q ds) s)"
proof (cases "or_Candidates q = []")
  case True
  then show ?thesis by (simp add: onContext_def RecordOwnershipJudgeEvaluation_def keeps.R_refl)
next
  case False
  let ?e = "\<lparr>eval_Collector = collector, eval_SeedID = TrimSpace (seed_ID (or_Seed q)),
      eval_SeedLabel = judgeSeedLabel (or_Seed q), eval_SeedDomains = seed_Domains (or_Seed q),
      eval_Scenario = TrimSpace (or_Scenario q),
      eval_Outcomes = judgeOutcomes net oc_Root ownershipJudgeSupport (or_Candidates q) ds\<rparr>"
  have "commaFreeEvaluation ?e"
    using assms RegistrableDomain_comma by (auto simp: commaFreeEvaluation_def dest!: judgeOutcomes_root)
  from keeps_evaluation [OF this, of s] False show ?thesis
    by (simp add: onContext_def RecordOwnershipJudgeEvaluation_def)
qed

lemma keeps_promotion:
  assumes "commaFree x" and "PromoteSeedCandidate h x ev p b = (r, p', b')"
  shows "keeps (p, b) (p', b')"
  by (rule keeps_frontier_step [OF frontier_step.promote [OF assms]])

lemma keeps_promotion_state: "commaFree x \<Longrightarrow> keeps s (snd (PromoteSeedCandidate h x ev (fst s) (snd s)))"
  using keeps_promotion by (cases "PromoteSeedCandidate h x ev (fst s) (snd s)") force

lemma thread_ok_doSteps: "(\<And>f s. f \<in> set fs \<Longrightarrow> R s (f s)) \<Longrightarrow> thread_ok R (doSteps fs)"
  by (induction fs) simp_all

end
