(* ===== verification/Reconsider_Facts.thy ===== *)
theory Reconsider_Facts
  imports Reconsider Stage_Facts
begin

text \<open>
  What the reconsideration of discarded candidates does: the candidates are exactly the discarded
  roots that no seed has and that were not accepted for the same parent, each once for each parent;
  only such roots are promoted, and the stage keeps the invariants of the context and never fails.
\<close>

section \<open>Aggregates\<close>

text \<open>A root that was discarded for the parent with key \<open>parent\<close>.\<close>

definition discardedFor ::
  "netLibrary \<Rightarrow> judgeEvaluation list \<Rightarrow> seedIndex \<Rightarrow> string set \<Rightarrow> (string \<Rightarrow> string list) \<Rightarrow> string \<Rightarrow> string \<Rightarrow> bool" where
  "discardedFor net es ix known accepted parent r \<longleftrightarrow>
     (\<exists>e \<in> set es. parentKeyOf ix e = parent \<and> parent \<noteq> []
        \<and> (\<exists>out \<in> set (eval_Outcomes e). reconsidered net known accepted parent out \<and> RegistrableDomain net (out_Root out) = r))"

definition aggregateOK ::
  "(string \<Rightarrow> string \<Rightarrow> bool) \<Rightarrow> (string \<times> candidateAggregate) list \<Rightarrow> bool" where
  "aggregateOK P m \<longleftrightarrow> distinct (map fst m)
     \<and> (\<forall>(k, a) \<in> set m. k = aggregateKey (ca_parentKey a) (ca_root a) \<and> P (ca_parentKey a) (ca_root a))"

lemma addDiscard_fields [simp]:
  "ca_parentKey (addDiscard e out a) = ca_parentKey a" "ca_root (addDiscard e out a) = ca_root a"
  "ca_parentSeed (addDiscard e out a) = ca_parentSeed a"
  by (simp_all add: addDiscard_def)

lemma newAggregate_fields [simp]:
  "ca_parentKey (newAggregate parent s r) = parent" "ca_root (newAggregate parent s r) = r"
  "ca_parentSeed (newAggregate parent s r) = s"
  by (simp_all add: newAggregate_def)

lemma set_AList_update_subset: "set (AList.update k v m) \<subseteq> insert (k, v) (set m)"
  by (induction m) auto

lemma aggregateOutcome_OK:
  assumes "aggregateOK P m" and "P parent (RegistrableDomain net (out_Root out))"
  shows "aggregateOK P (aggregateOutcome net ps parent e out m)"
proof -
  let ?r = "RegistrableDomain net (out_Root out)"
  let ?a = "case map_of m (aggregateKey parent ?r) of None \<Rightarrow> newAggregate parent ps ?r | Some a \<Rightarrow> a"
  have a: "aggregateKey (ca_parentKey ?a) (ca_root ?a) = aggregateKey parent ?r \<and> P (ca_parentKey ?a) (ca_root ?a)"
  proof (cases "map_of m (aggregateKey parent ?r)")
    case (Some a)
    then have "(aggregateKey parent ?r, a) \<in> set m" by (rule map_of_SomeD)
    with assms(1) Some show ?thesis by (auto simp: aggregateOK_def)
  qed (use assms(2) in simp)
  have "set (aggregateOutcome net ps parent e out m) \<subseteq> insert (aggregateKey parent ?r, addDiscard e out ?a) (set m)"
    using set_AList_update_subset by (simp add: aggregateOutcome_def Let_def)
  with assms(1) a show ?thesis
    by (fastforce simp: aggregateOK_def aggregateOutcome_def Let_def distinct_update)
qed

lemma aggregateOutcome_keys:
  "fst ` set (aggregateOutcome net ps parent e out m)
     = insert (aggregateKey parent (RegistrableDomain net (out_Root out))) (fst ` set m)"
  by (simp add: aggregateOutcome_def Let_def update_keys flip: set_map) (auto simp: update_keys)

text \<open>A loop that keeps \<open>aggregateOK P\<close> and adds the keys \<open>K x\<close> for each element.\<close>

lemma fold_aggregates:
  assumes "\<And>x m. x \<in> set xs \<Longrightarrow> aggregateOK P m \<Longrightarrow> aggregateOK P (f x m) \<and> fst ` set (f x m) = fst ` set m \<union> K x"
    and "aggregateOK P m"
  shows "aggregateOK P (fold f xs m) \<and> fst ` set (fold f xs m) = fst ` set m \<union> (\<Union>x \<in> set xs. K x)"
  using assms
proof (induction xs arbitrary: m)
  case (Cons x xs)
  have fx: "aggregateOK P (f x m)" "fst ` set (f x m) = fst ` set m \<union> K x" using Cons.prems by simp_all
  have "aggregateOK P (fold f xs (f x m)) \<and> fst ` set (fold f xs (f x m)) = fst ` set (f x m) \<union> (\<Union>y \<in> set xs. K y)"
    by (rule Cons.IH) (use Cons.prems(1) fx(1) in auto)
  with fx(2) show ?case by auto
qed simp

definition discardKeys ::
  "netLibrary \<Rightarrow> seedIndex \<Rightarrow> string set \<Rightarrow> (string \<Rightarrow> string list) \<Rightarrow> judgeEvaluation \<Rightarrow> string set" where
  "discardKeys net ix known accepted e =
     (if parentKeyOf ix e = [] then {}
      else (\<lambda>out. aggregateKey (parentKeyOf ix e) (RegistrableDomain net (out_Root out)))
             ` {out \<in> set (eval_Outcomes e). reconsidered net known accepted (parentKeyOf ix e) out})"

lemma aggregateEvaluation_OK:
  assumes "e \<in> set es" and "aggregateOK (discardedFor net es ix known accepted) m"
  shows "aggregateOK (discardedFor net es ix known accepted) (aggregateEvaluation net ix known accepted e m)
     \<and> fst ` set (aggregateEvaluation net ix known accepted e m) = fst ` set m \<union> discardKeys net ix known accepted e"
proof (cases "parentKeyOf ix e = []")
  case False
  let ?parent = "parentKeyOf ix e"
  let ?outs = "filter (reconsidered net known accepted ?parent) (eval_Outcomes e)"
  let ?f = "aggregateOutcome net (resolveParentSeed e ix) ?parent e"
  let ?K = "\<lambda>out. {aggregateKey ?parent (RegistrableDomain net (out_Root out))}"
  have "aggregateOK (discardedFor net es ix known accepted) (fold ?f ?outs m)
      \<and> fst ` set (fold ?f ?outs m) = fst ` set m \<union> (\<Union>out \<in> set ?outs. ?K out)"
  proof (rule fold_aggregates [OF _ assms(2)])
    fix out m'
    assume out: "out \<in> set ?outs" and ok: "aggregateOK (discardedFor net es ix known accepted) m'"
    have "discardedFor net es ix known accepted ?parent (RegistrableDomain net (out_Root out))"
      using False assms(1) out by (auto simp: discardedFor_def)
    from aggregateOutcome_OK [where P = "discardedFor net es ix known accepted", OF ok this]
    show "aggregateOK (discardedFor net es ix known accepted) (?f out m') \<and> fst ` set (?f out m') = fst ` set m' \<union> ?K out"
      by (simp add: aggregateOutcome_keys)
  qed
  with False show ?thesis by (simp add: aggregateEvaluation_def discardKeys_def UNION_singleton_eq_range image_def Let_def) blast
qed (use assms(2) in \<open>simp add: aggregateEvaluation_def discardKeys_def\<close>)

lemma aggregates_spec:
  fixes net es ix known accepted
  defines "P \<equiv> discardedFor net es ix known accepted"
  shows "sorted (map (\<lambda>a. aggregateKey (ca_parentKey a) (ca_root a)) (aggregateDiscardedCandidates net es ix known accepted))"
    and "distinct (map (\<lambda>a. aggregateKey (ca_parentKey a) (ca_root a)) (aggregateDiscardedCandidates net es ix known accepted))"
    and "a \<in> set (aggregateDiscardedCandidates net es ix known accepted) \<Longrightarrow> P (ca_parentKey a) (ca_root a)"
    and "P parent r \<Longrightarrow> aggregateKey parent r
           \<in> (\<lambda>a. aggregateKey (ca_parentKey a) (ca_root a)) ` set (aggregateDiscardedCandidates net es ix known accepted)"
proof -
  let ?m = "fold (aggregateEvaluation net ix known accepted) es []"
  let ?key = "\<lambda>a. aggregateKey (ca_parentKey a) (ca_root a)"
  have "aggregateOK P ?m \<and> fst ` set ?m = fst ` set ([] :: (string \<times> candidateAggregate) list) \<union> (\<Union>e \<in> set es. discardKeys net ix known accepted e)"
    unfolding P_def by (rule fold_aggregates [where K = "discardKeys net ix known accepted"])
      (simp_all add: aggregateEvaluation_OK, simp add: aggregateOK_def)
  then have ok: "aggregateOK P ?m" and keys: "fst ` set ?m = (\<Union>e \<in> set es. discardKeys net ix known accepted e)"
    by simp_all
  have fst: "map (?key \<circ> snd) (sort_key fst ?m) = map fst (sort_key fst ?m)"
    using ok by (auto simp: aggregateOK_def)
  show "sorted (map ?key (aggregateDiscardedCandidates net es ix known accepted))"
    unfolding aggregateDiscardedCandidates_def map_map fst by (rule sorted_sort_key)
  have "distinct (map fst ?m)" using ok by (simp add: aggregateOK_def)
  then have "distinct (map fst (sort_key fst ?m))"
    by (metis mset_sort mset_map mset_eq_imp_distinct_iff)
  then show "distinct (map ?key (aggregateDiscardedCandidates net es ix known accepted))"
    unfolding aggregateDiscardedCandidates_def map_map fst .
  show "a \<in> set (aggregateDiscardedCandidates net es ix known accepted) \<Longrightarrow> P (ca_parentKey a) (ca_root a)"
    using ok by (auto simp: aggregateDiscardedCandidates_def aggregateOK_def)
  assume "P parent r"
  then have "aggregateKey parent r \<in> fst ` set ?m"
    unfolding keys by (auto simp: P_def discardedFor_def discardKeys_def)
  moreover have "fst ` set ?m = ?key ` set (aggregateDiscardedCandidates net es ix known accepted)"
    using arg_cong [OF fst, of set] by (simp add: aggregateDiscardedCandidates_def image_comp)
  ultimately show "aggregateKey parent r \<in> ?key ` set (aggregateDiscardedCandidates net es ix known accepted)" by simp
qed

section \<open>Groups\<close>

text \<open>The candidates of a group and its index belong to aggregates with the group's key.\<close>

definition groupOK :: "(string \<Rightarrow> string \<Rightarrow> bool) \<Rightarrow> requestGroup \<Rightarrow> bool" where
  "groupOK P g \<longleftrightarrow> (\<forall>r a. rg_byRoot g r = Some a \<longrightarrow> ca_root a = r \<and> ca_parentKey a = rg_parentKey g \<and> P (rg_parentKey g) r)
     \<and> oc_Root ` set (or_Candidates (rg_request g)) = dom (rg_byRoot g)"

lemma groupAggregate_OK:
  assumes "\<forall>(k, g) \<in> set m. groupOK P g \<and> rg_parentKey g = k" and "P (ca_parentKey a) (ca_root a)"
  shows "\<forall>(k, g) \<in> set (groupAggregate evidence a m). groupOK P g \<and> rg_parentKey g = k"
proof -
  let ?g = "case map_of m (ca_parentKey a) of None \<Rightarrow> newRequestGroup a | Some g \<Rightarrow> g"
  have "groupOK P ?g \<and> rg_parentKey ?g = ca_parentKey a"
  proof (cases "map_of m (ca_parentKey a)")
    case (Some g)
    then have "(ca_parentKey a, g) \<in> set m" by (rule map_of_SomeD)
    with assms(1) Some show ?thesis by auto
  qed (simp add: groupOK_def newRequestGroup_def)
  then have "groupOK P (addToGroup a (evidence a) ?g) \<and> rg_parentKey (addToGroup a (evidence a) ?g) = ca_parentKey a"
    using assms(2) by (auto simp: groupOK_def addToGroup_def)
  moreover have "set (groupAggregate evidence a m) \<subseteq> insert (ca_parentKey a, addToGroup a (evidence a) ?g) (set m)"
    using set_AList_update_subset by (simp add: groupAggregate_def Let_def)
  ultimately show ?thesis using assms(1) by blast
qed

lemma buildRequestGroups_OK:
  assumes "\<forall>a \<in> set as. P (ca_parentKey a) (ca_root a)" and "g \<in> set (buildRequestGroups net mo as facts accepted p)"
  shows "groupOK P g \<and> sorted (map oc_Root (or_Candidates (rg_request g)))"
proof -
  have "\<forall>(k, g) \<in> set (fold (groupAggregate ev) as m). groupOK P g \<and> rg_parentKey g = k"
    if "\<forall>(k, g) \<in> set m. groupOK P g \<and> rg_parentKey g = k" for ev m
    using that assms(1)
  proof (induction as arbitrary: m)
    case (Cons a as)
    have "P (ca_parentKey a) (ca_root a)" using Cons.prems(2) by simp
    from Cons.IH [OF groupAggregate_OK [OF Cons.prems(1) this]] Cons.prems(2) show ?case by simp
  qed simp
  from this [of "[]"] assms(2) show ?thesis
    by (fastforce simp: buildRequestGroups_def Let_def sortCandidates_def groupOK_def)
qed

section \<open>The stage\<close>

text \<open>The discarded roots of a run that no seed has.\<close>

definition discardedRoots :: "netLibrary \<Rightarrow> pipelineContext \<Rightarrow> string set" where
  "discardedRoots net p =
     (\<lambda>out. RegistrableDomain net (out_Root out))
       ` {out \<in> set (concat (map eval_Outcomes (JudgeEvaluations p))). \<not> out_Collect out}
     - buildKnownSeedRoots net (Seeds p) - {[]}"

lemma requestGroupsOf_OK:
  assumes "g \<in> set (requestGroupsOf net mo p)"
  shows "groupOK (\<lambda>_ r. r \<in> discardedRoots net p) g \<and> sorted (map oc_Root (or_Candidates (rg_request g)))"
  using assms unfolding requestGroupsOf_def Let_def
proof (rule buildRequestGroups_OK [rotated], intro ballI)
  fix a
  let ?ix = "buildSeedIndex (Seeds p)"
  let ?known = "buildKnownSeedRoots net (Seeds p)"
  let ?accepted = "buildAcceptedRootSet net (JudgeEvaluations p) ?ix ?known"
  assume "a \<in> set (aggregateDiscardedCandidates net (JudgeEvaluations p) ?ix ?known ?accepted)"
  from aggregates_spec(3) [OF this] show "ca_root a \<in> discardedRoots net p"
    by (auto simp: discardedFor_def reconsidered_def discardedRoots_def Let_def) (metis (mono_tags, lifting) image_eqI mem_Collect_eq)
qed

text \<open>The keys of the seeds that may be built for them.\<close>

definition reconsiderKeys :: "netLibrary \<Rightarrow> string set \<Rightarrow> string set" where
  "reconsiderKeys net R =
     {seedKey (normalizeSeed (BuildDiscoveredSeed net parent r ''post-run-reconsideration'')) | parent r. r \<in> R}"

text \<open>What the steps of the stage may do: keep the invariants, and learn no seed but those of \<open>K\<close>.\<close>

definition learnsOnly :: "string set \<Rightarrow> 'b engineState \<Rightarrow> 'b engineState \<Rightarrow> bool" where
  "learnsOnly K s t \<longleftrightarrow> keeps s t \<and> knownSeedKeys (fst t) \<subseteq> knownSeedKeys (fst s) \<union> K"

lemma learnsOnly_refl [simp]: "learnsOnly K s s"
  by (simp add: learnsOnly_def keeps.R_refl)

lemma learnsOnly_trans: "learnsOnly K s t \<Longrightarrow> learnsOnly K t u \<Longrightarrow> learnsOnly K s u"
  unfolding learnsOnly_def using keeps.R_trans by blast

lemma learnsOnly_frame:
  assumes "same_frontier (fst s) (fst t)" and "same_assets (fst s) (fst t)"
  shows "learnsOnly K s t"
proof -
  have "knownSeedKeys (fst t) = knownSeedKeys (fst s)" using assms(1) by (simp add: same_frontier_def)
  then show ?thesis
    using keeps_frame [OF assms(1)] same_assets_ok [OF assms(2)] by (simp add: learnsOnly_def)
qed

lemma doSteps_run:
  assumes "\<And>f s. f \<in> set fs \<Longrightarrow> learnsOnly K s (f s)"
  shows "fst (run_thread (doSteps fs) s) = Inr None \<and> learnsOnly K s (snd (run_thread (doSteps fs) s))"
  using assms
proof (induction fs arbitrary: s)
  case (Cons f fs)
  have "learnsOnly K (f s) (snd (run_thread (doSteps fs) (f s)))" using Cons by simp
  moreover have "learnsOnly K s (f s)" using Cons.prems by simp
  ultimately have "learnsOnly K s (snd (run_thread (doSteps fs) (f s)))" using learnsOnly_trans by blast
  moreover have "fst (run_thread (doSteps fs) (f s)) = Inr None" using Cons by simp
  ultimately show ?case by simp
qed simp

lemma Promote_learns:
  assumes "PromoteSeedCandidate h s ev p b = (r, p', b')"
  shows "knownSeedKeys p' \<subseteq> insert (seedKey (normalizeSeed s)) (knownSeedKeys p)"
  using assms
  by (cases rule: PromoteSeedCandidate_cases)
    (auto simp: withCandidate_def materializeSeedCandidateLocked_def mergeSeedAcrossSlicesLocked_def Let_def)

lemma Promote_step:
  assumes "commaFree s" and "seedKey (normalizeSeed s) \<in> K"
  shows "learnsOnly K (p, b) (snd (EnqueueSeedCandidate h s ev p b))"
proof -
  obtain r p' b' where call: "PromoteSeedCandidate h s ev p b = (r, p', b')" by (metis prod_cases3)
  have "keeps (p, b) (p', b')" by (rule keeps_frontier_step [OF frontier_step.promote [OF assms(1) call]])
  with Promote_learns [OF call] assms(2) call show ?thesis
    by (auto simp: EnqueueSeedCandidate_def learnsOnly_def)
qed

lemma reviewDecision_step:
  assumes "groupOK (\<lambda>_ r. r \<in> R) g" and "suffixLibrary net" and "\<forall>r \<in> R. CHR '','' \<notin> set r"
  shows "learnsOnly (reconsiderKeys net R) s (reviewDecision net h g d s)"
proof (cases "rg_byRoot g (jd_Root d)")
  case (Some a)
  with assms(1) have R: "jd_Root d \<in> R" by (auto simp: groupOK_def)
  then have "commaFree (reconsiderSeed net a d)"
    using assms(2,3) BuildDiscoveredSeed_commaFree by (simp add: reconsiderSeed_def)
  moreover have "seedKey (normalizeSeed (reconsiderSeed net a d)) \<in> reconsiderKeys net R"
    using R by (auto simp: reconsiderSeed_def reconsiderKeys_def)
  ultimately show ?thesis
    using Some Promote_step [of "reconsiderSeed net a d" "reconsiderKeys net R" "fst s" "snd s" h "reconsiderEvidence d"]
    by (simp add: reviewDecision_def)
qed (simp add: reviewDecision_def)

lemma groupSteps_step:
  assumes "groupOK (\<lambda>_ r. r \<in> R) g" and "suffixLibrary net" and "\<forall>r \<in> R. CHR '','' \<notin> set r"
    and "f \<in> set (groupSteps net h r judge g)"
  shows "learnsOnly (reconsiderKeys net R) s (f s)"
proof -
  have "learnsOnly K s (onContext (appendError e) s)" for K e
    by (rule learnsOnly_frame) (simp_all add: onContext_def appendError_def same_frontier_def same_assets_def)
  moreover have "learnsOnly K s (onContext (RecordOwnershipJudgeEvaluation net c (rg_request g) ds) s)" for K c ds
  proof -
    have "oc_Root c \<in> R" if "c \<in> set (or_Candidates (rg_request g))" for c
    proof -
      have "oc_Root c \<in> dom (rg_byRoot g)" using that assms(1) by (auto simp: groupOK_def)
      with assms(1) show ?thesis by (auto simp: groupOK_def)
    qed
    then have "\<forall>c \<in> set (or_Candidates (rg_request g)). CHR '','' \<notin> set (oc_Root c)" using assms(3) by blast
    note keep = keeps_ownership_evaluation [OF assms(2) this, of s c ds]
    have "knownSeedKeys (RecordOwnershipJudgeEvaluation net c (rg_request g) ds (fst s)) = knownSeedKeys (fst s)"
      by (simp add: RecordOwnershipJudgeEvaluation_def RecordJudgeEvaluation_def Let_def)
    with keep show ?thesis by (simp add: learnsOnly_def onContext_def)
  qed
  moreover have "learnsOnly (reconsiderKeys net R) s (reviewDecision net h g d s)" for d
    by (rule reviewDecision_step [OF assms(1-3)])
  ultimately show ?thesis using assms(4) by (auto simp: groupSteps_def split: if_splits sum.splits)
qed

lemma ensure_step: "learnsOnly K s (onContext EnsureAssetState s)"
  using keeps_ensure [of s] ensure_frontier [of "fst s"]
  by (simp add: learnsOnly_def onContext_def EnsureAssetState_def same_frontier_def)

lemma reconsider_steps:
  assumes "suffixLibrary net" and "judges_ok p"
    and "f \<in> set (concat (map (groupSteps net h r judge) (requestGroupsOf net mo (EnsureAssetState p))))"
  shows "learnsOnly (reconsiderKeys net (discardedRoots net p)) s (f s)"
proof -
  have R: "discardedRoots net (EnsureAssetState p) = discardedRoots net p"
    using ensure_frontier [of p] by (simp add: discardedRoots_def EnsureAssetState_def same_frontier_def)
  have comma: "\<forall>r \<in> discardedRoots net p. CHR '','' \<notin> set r"
    using assms(1,2) RegistrableDomain_comma
    by (auto simp: discardedRoots_def judges_ok_def commaFreeEvaluation_def)
  obtain g where g: "g \<in> set (requestGroupsOf net mo (EnsureAssetState p))" and f: "f \<in> set (groupSteps net h r judge g)"
    using assms(3) by auto
  have "groupOK (\<lambda>_ r. r \<in> discardedRoots net p) g" using requestGroupsOf_OK [OF g] R by simp
  from groupSteps_step [OF this assms(1) comma f] show ?thesis .
qed

lemma ReconsiderProcess_spec:
  assumes "suffixLibrary net" and "judges_ok p"
  shows "fst (run_thread (ReconsiderProcess net mo h r) (p, b)) = Inr None"
    and "learnsOnly (reconsiderKeys net (discardedRoots net p)) (p, b) (snd (run_thread (ReconsiderProcess net mo h r) (p, b)))"
proof -
  let ?K = "reconsiderKeys net (discardedRoots net p)"
  have steps: "fst (run_thread (doSteps fs) s) = Inr None \<and> learnsOnly ?K s (snd (run_thread (doSteps fs) s))"
    if "fs = concat (map (groupSteps net h r judge) (requestGroupsOf net mo (EnsureAssetState p)))" for fs judge s
    by (rule doSteps_run) (use reconsider_steps [OF assms] that in blast)
  have "fst (run_thread (ReconsiderProcess net mo h r) (p, b)) = Inr None
     \<and> learnsOnly ?K (p, b) (snd (run_thread (ReconsiderProcess net mo h r) (p, b)))"
  proof (cases "rc_judge r = None \<or> JudgeEvaluations (EnsureAssetState p) = []")
    case True
    then show ?thesis using ensure_step [of ?K "(p, b)"] by (auto simp: ReconsiderProcess_def Let_def split: option.split)
  next
    case False
    then obtain judge where "rc_judge r = Some judge" by auto
    with False steps [OF refl, of judge "onContext EnsureAssetState (p, b)"]
      learnsOnly_trans [OF ensure_step [of ?K "(p, b)"]]
    show ?thesis by (simp add: ReconsiderProcess_def Let_def)
  qed
  then show "fst (run_thread (ReconsiderProcess net mo h r) (p, b)) = Inr None"
    and "learnsOnly ?K (p, b) (snd (run_thread (ReconsiderProcess net mo h r) (p, b)))" by simp_all
qed

lemma Reconsider_thread_ok:
  assumes "suffixLibrary net"
  shows "thread_ok keeps (node_Process (DiscardedCandidateReconsiderer net mo h r))"
proof -
  have steps: "thread_ok keeps (doSteps (concat (map (groupSteps net h r judge) (requestGroupsOf net mo (EnsureAssetState (fst s))))))"
    if "judges_ok (fst s)" for s :: "'b engineState" and judge
  proof (rule thread_ok_doSteps)
    fix f t assume "f \<in> set (concat (map (groupSteps net h r judge) (requestGroupsOf net mo (EnsureAssetState (fst s)))))"
    from reconsider_steps [OF assms that this, of t] show "keeps t (f t)" by (simp add: learnsOnly_def)
  qed
  have "thread_ok keeps (case rc_judge r of
      None \<Rightarrow> Done None
    | Some judge \<Rightarrow>
        if length (JudgeEvaluations (EnsureAssetState (fst s))) = 0 then Done None
        else doSteps (concat (map (groupSteps net h r judge) (requestGroupsOf net mo (EnsureAssetState (fst s))))))"
    if "\<not> idle keeps s" for s :: "'b engineState"
    using busy_keeps [OF that] context_okD(3) steps by (auto split: option.split)
  from thread_ok.step [of keeps "onContext EnsureAssetState", OF keeps_ensure this] show ?thesis
    by (simp only: DiscardedCandidateReconsiderer_def ReconsiderProcess_def engineNode.simps Let_def)
qed

text \<open>Without an answer above the threshold, nothing is promoted.\<close>

lemma reviewDecision_below:
  "jd_Confidence d < CandidatePromotionConfidenceThreshold (fst s) \<Longrightarrow> reviewDecision net h g d s = s"
  by (simp add: reviewDecision_def IsConfidenceAtLeast_def)

end
