(* ===== verification/Passive_Collectors.thy ===== *)
theory Passive_Collectors
  imports Discovery Run_Records Engine
begin

text \<open>
  The collectors that ask one archive for each domain of the seeds and report what it knows:
  crt.sh, HackerTarget, AlienVault, the Wayback Machine and RDAP (\<open>internal/collect\<close>), with the
  retrying transport of \<open>internal/fetchutil/http.go\<close> below them. The transport itself, JSON decoding
  and URL parsing are arguments. A collector works on its own lists and touches the context three
  times, so its thread has three steps; the clock readings and identifiers it draws meanwhile are
  those of the environment \<open>env s\<close> it finds in the state it starts in.
\<close>

section \<open>Requests with retries\<close>

record httpAnswer =
  ans_Status :: int
  ans_Body :: "string + string"   \<comment> \<open>the error of reading it, or the body\<close>

record retryOptions =
  MaxAttempts :: int
  InitialBackoff :: int
  MaxBackoff :: int

definition millisecond :: int where
  "millisecond = 1000000"

definition DefaultRetryOptions :: retryOptions where
  "DefaultRetryOptions = \<lparr>MaxAttempts = 3, InitialBackoff = 250 * millisecond, MaxBackoff = 2000 * millisecond\<rparr>"

text \<open>What one attempt gives. \<open>Canceled\<close> is an error that is not retried: a cancellation, or a request
  that could not be built.\<close>

datatype attempt = Answered httpAnswer | Failed string | Canceled string

definition shouldRetry :: "bool \<Rightarrow> attempt \<Rightarrow> bool" where
  "shouldRetry ctxDone a =
     (case a of
        Canceled _ \<Rightarrow> False
      | Failed _ \<Rightarrow> \<not> ctxDone
      | Answered r \<Rightarrow> ans_Status r \<in> {408, 425, 429, 500, 502, 503, 504})"

definition outcomeOf :: "attempt \<Rightarrow> string + httpAnswer" where
  "outcomeOf a = (case a of Answered r \<Rightarrow> Inr r | Failed e \<Rightarrow> Inl e | Canceled e \<Rightarrow> Inl e)"

definition nextBackoff :: "retryOptions \<Rightarrow> int \<Rightarrow> int" where
  "nextBackoff opts backoff =
     (if backoff \<le> 0 then 100 * millisecond
      else if MaxBackoff opts > 0 \<and> backoff * 2 > MaxBackoff opts then MaxBackoff opts
      else backoff * 2)"

definition waitOf :: "retryOptions \<Rightarrow> int \<Rightarrow> int" where
  "waitOf opts backoff =
     (let w = (if backoff \<le> 0 then 100 * millisecond else backoff)
      in if MaxBackoff opts > 0 \<and> w > MaxBackoff opts then MaxBackoff opts else w)"

text \<open>
  \<open>send n\<close> is what attempt \<open>n\<close> gives, \<open>ended n\<close> the error of the Go context if it has ended when attempt
  \<open>n\<close> returned, \<open>endsIn n\<close> its error if it ends during the wait after attempt \<open>n\<close>. The result is the
  answer or the error, and the attempts and waits made.
\<close>

function attemptFrom ::
  "retryOptions \<Rightarrow> (int \<Rightarrow> attempt) \<Rightarrow> (int \<Rightarrow> bool) \<Rightarrow> (int \<Rightarrow> string option) \<Rightarrow> int \<Rightarrow> int \<Rightarrow> string option
     \<Rightarrow> (string + httpAnswer) \<times> int list" where
  "attemptFrom opts send ended endsIn n backoff lastErr =
     (if n > MaxAttempts opts
      then (Inl (case lastErr of Some e \<Rightarrow> e | None \<Rightarrow> ''context canceled''), [])
      else (let a = send n;
                lastErr' = (case a of Answered _ \<Rightarrow> lastErr | Failed e \<Rightarrow> Some e | Canceled e \<Rightarrow> Some e)
            in if \<not> shouldRetry (ended n) a \<or> n = MaxAttempts opts then (outcomeOf a, [])
               else case endsIn n of
                      Some e \<Rightarrow> (Inl (case lastErr' of Some l \<Rightarrow> l | None \<Rightarrow> e), [waitOf opts backoff])
                    | None \<Rightarrow>
                        (let (r, waits) = attemptFrom opts send ended endsIn (n + 1) (nextBackoff opts backoff) lastErr'
                         in (r, waitOf opts backoff # waits))))"
  by pat_completeness auto
termination
  by (relation "measure (\<lambda>(opts, _, _, _, n, _, _). nat (MaxAttempts opts + 1 - n))") auto

declare attemptFrom.simps [simp del]

definition DoRequest ::
  "(int \<Rightarrow> attempt) \<Rightarrow> (int \<Rightarrow> bool) \<Rightarrow> (int \<Rightarrow> string option) \<Rightarrow> (string + httpAnswer) \<times> int list" where
  "DoRequest send ended endsIn =
     attemptFrom DefaultRetryOptions send ended endsIn 1 (InitialBackoff DefaultRetryOptions) None"

text \<open>The answers a collector sees, by URL.\<close>

type_synonym web = "string \<Rightarrow> string + httpAnswer"

definition okBody :: "(int \<Rightarrow> string) \<Rightarrow> string + httpAnswer \<Rightarrow> string + string" where
  "okBody badStatus r =
     (case r of Inl e \<Rightarrow> Inl e
      | Inr a \<Rightarrow> if ans_Status a \<noteq> 200 then Inl (badStatus (ans_Status a)) else ans_Body a)"

section \<open>The common frame\<close>

fun drawAll :: "('x \<Rightarrow> environment \<Rightarrow> 'a \<times> environment) \<Rightarrow> 'x list \<Rightarrow> environment \<Rightarrow> 'a list \<times> environment" where
  "drawAll f [] env = ([], env)"
| "drawAll f (x # xs) env =
     (let (a, env1) = f x env; (as, env2) = drawAll f xs env1 in (a # as, env2))"

definition startEnumeration :: "string \<Rightarrow> seed \<Rightarrow> environment \<Rightarrow> enumeration \<times> environment" where
  "startEnumeration prefix s env =
     (let (i, env1) = freshID prefix env; (created, env2) = readClock env1; (started, env3) = readClock env2
      in (\<lparr>enum_ID = i, enum_SeedID = seed_ID s, enum_Status = ''running'', enum_CreatedAt = created,
           enum_UpdatedAt = 0, enum_StartedAt = started, enum_EndedAt = 0\<rparr>, env3))"

definition newAsset ::
  "string \<Rightarrow> string \<Rightarrow> string \<Rightarrow> assetType \<Rightarrow> domainDetails option \<Rightarrow> ipDetails option \<Rightarrow> string \<Rightarrow> environment
     \<Rightarrow> asset \<times> environment" where
  "newAsset prefix enumID source type dd ip identifier env =
     (let (i, env1) = freshID prefix env; (found, env2) = readClock env1
      in (\<lparr>asset_ID = i, asset_EnumerationID = enumID, asset_Type = type, asset_Identifier = identifier,
           asset_Source = source, asset_DiscoveryDate = found, asset_Provenance = [], asset_OwnershipState = [],
           asset_InclusionReason = [], asset_EnrichmentStates = [], asset_DomainDetails = dd,
           asset_IPDetails = ip, asset_EnrichmentData = []\<rparr>, env2))"

definition noDomainDetails :: domainDetails where
  "noDomainDetails = \<lparr>dd_Records = [], dd_IsCatchAll = False, dd_RDAP = None\<rparr>"

definition noIPDetails :: ipDetails where
  "noIPDetails = \<lparr>ip_ASN = 0, ip_Organization = [], ip_PTR = []\<rparr>"

text \<open>What a collector does for one domain: an error, or assets.\<close>

type_synonym domainQuery = "string \<Rightarrow> string \<Rightarrow> environment \<Rightarrow> (string + asset list) \<times> environment"

definition querySeed ::
  "string \<Rightarrow> domainQuery \<Rightarrow> seed \<Rightarrow> environment \<Rightarrow> (enumeration \<times> (string + asset list) list) \<times> environment" where
  "querySeed prefix query s env =
     (let (e, env1) = startEnumeration prefix s env;
          (rs, env2) = drawAll (query (enum_ID e)) (seed_Domains s) env1
      in ((e, rs), env2))"

definition errorsOf :: "(string + asset list) list \<Rightarrow> string list" where
  "errorsOf rs = concat (map (case_sum (\<lambda>e. [e]) (\<lambda>_. [])) rs)"

definition assetsOf :: "(string + asset list) list \<Rightarrow> asset list" where
  "assetsOf rs = concat (map (case_sum (\<lambda>_. []) (\<lambda>as. as)) rs)"

definition report :: "enumeration list \<Rightarrow> string list \<Rightarrow> pipelineContext \<Rightarrow> pipelineContext" where
  "report enums errs p = p\<lparr>Enumerations := Enumerations p @ enums, Errors := Errors p @ errs\<rparr>"

definition passiveProcess ::
  "string \<Rightarrow> domainQuery \<Rightarrow> ('b engineState \<Rightarrow> environment) \<Rightarrow> 'b engineState thread" where
  "passiveProcess prefix query env =
     Step (\<lambda>s. s)
       (\<lambda>s. let found = fst (drawAll (querySeed prefix query) (CollectionSeeds (fst s)) (env s));
                rs = concat (map snd found)
            in Step (onContext (report (map fst found) (errorsOf rs)))
                 (\<lambda>_. Step (onContext (AppendAssets (assetsOf rs))) (\<lambda>_. Done None)))"

text \<open>The values seen for the first time, with an asset drawn for each.\<close>

definition namedAssets ::
  "(string \<Rightarrow> environment \<Rightarrow> asset \<times> environment) \<Rightarrow> string list \<Rightarrow> environment \<Rightarrow> (string + asset list) \<times> environment" where
  "namedAssets draw names env = (let (as, env') = drawAll draw names env in (Inr as, env'))"

definition failWith :: "string \<Rightarrow> environment \<Rightarrow> (string + asset list) \<times> environment" where
  "failWith e env = (Inl e, env)"

section \<open>The collectors\<close>

definition crtshNames :: "string list \<Rightarrow> string list" where
  "crtshNames nameValues =
     uniqueBy (\<lambda>n. n) {} (filter (\<lambda>n. n \<noteq> [])
       (map (\<lambda>n. TrimPrefix (TrimSpace n) ''*.'') (concat (map (\<lambda>v. Split v CHR 0x0A) nameValues))))"

definition CrtShQuery :: "(string \<Rightarrow> string + string list) \<Rightarrow> web \<Rightarrow> domainQuery" where
  "CrtShQuery decode web enumID domain =
     (case okBody (\<lambda>code. ''unexpected status code '' @ show_int code @ '' from crt.sh for '' @ domain)
             (web (''https://crt.sh/?q=%.'' @ domain @ ''&output=json'')) of
        Inl e \<Rightarrow> failWith e
      | Inr body \<Rightarrow>
          (case decode body of
             Inl e \<Rightarrow> failWith e
           | Inr nameValues \<Rightarrow>
               namedAssets (newAsset ''dom-crtsh'' enumID ''crt.sh'' AssetTypeDomain (Some noDomainDetails) None)
                 (crtshNames nameValues)))"

definition AlienVaultQuery :: "(string \<Rightarrow> string + string list) \<Rightarrow> web \<Rightarrow> domainQuery" where
  "AlienVaultQuery decode web enumID domain =
     (case okBody (\<lambda>code. ''unexpected status '' @ show_int code @ '' from AlienVault for '' @ domain)
             (web (''https://otx.alienvault.com/api/v1/indicators/domain/'' @ domain @ ''/passive_dns'')) of
        Inl e \<Rightarrow> failWith e
      | Inr body \<Rightarrow>
          (case decode body of
             Inl e \<Rightarrow> failWith (''failed to parse OTX JSON for '' @ domain @ '': '' @ e)
           | Inr hostnames \<Rightarrow>
               namedAssets (newAsset ''dom-otx'' enumID ''alienvault_collector'' AssetTypeDomain (Some noDomainDetails) None)
                 (filter (\<lambda>h. h \<noteq> []) hostnames)))"

text \<open>Lines that are no URL, or have no host, are skipped.\<close>

definition waybackHosts :: "netLibrary \<Rightarrow> string \<Rightarrow> string list" where
  "waybackHosts net body =
     uniqueBy (\<lambda>h. h) {} (filter (\<lambda>h. h \<noteq> []) (map (\<lambda>line. case ParseHostname net line of None \<Rightarrow> [] | Some h \<Rightarrow> h)
       (filter (\<lambda>line. line \<noteq> []) (map TrimSpace (Split body CHR 0x0A)))))"

definition WaybackQuery :: "netLibrary \<Rightarrow> web \<Rightarrow> domainQuery" where
  "WaybackQuery net web enumID domain =
     (case okBody (\<lambda>code. ''unexpected status '' @ show_int code @ '' from Wayback for '' @ domain)
             (web (''https://web.archive.org/cdx/search/cdx?url=*.'' @ domain
                   @ ''/*&output=txt&fl=original&collapse=urlkey&limit=5000'')) of
        Inl e \<Rightarrow> failWith e
      | Inr body \<Rightarrow>
          namedAssets (newAsset ''dom-wb'' enumID ''wayback_collector'' AssetTypeDomain (Some noDomainDetails) None)
            (waybackHosts net body))"

definition hackertargetBodyError :: "string \<Rightarrow> string option" where
  "hackertargetBodyError body =
     (let trimmed = TrimSpace body; lw = ToLower trimmed
      in if trimmed = [] then None
         else if HasPrefix lw ''error '' then Some trimmed
         else if Contains lw ''api count exceeded'' \<or> Contains lw ''increase quota with membership''
              \<or> Contains lw ''too many requests'' then Some trimmed
         else None)"

definition isAcceptedDomainIdentifier :: "netLibrary \<Rightarrow> string \<Rightarrow> bool" where
  "isAcceptedDomainIdentifier net candidate0 =
     (let candidate = NormalizeDomainIdentifier candidate0
      in candidate \<noteq> [] \<and> candidate \<in> set (ExtractDomainCandidates net candidate))"

text \<open>\<open>strings.SplitN(line, ",", 2)\<close>: the text before the first comma and the text behind it.\<close>

definition splitFirst :: "char \<Rightarrow> string \<Rightarrow> (string \<times> string) option" where
  "splitFirst sep line =
     (let before = takeWhile (\<lambda>c. c \<noteq> sep) line
      in if length before = length line then None else Some (before, drop (length before + 1) line))"

text \<open>\<open>canonicalIP\<close> is \<open>net.ParseIP\<close> followed by \<open>String\<close>.\<close>

definition hackerTargetLine ::
  "netLibrary \<Rightarrow> (string \<Rightarrow> string option) \<Rightarrow> string \<Rightarrow> string \<Rightarrow> environment \<Rightarrow> asset list \<times> environment" where
  "hackerTargetLine net canonicalIP enumID line0 env =
     (let line = TrimSpace line0
      in if line = [] \<or> HasPrefix (ToLower line) ''error '' then ([], env)
         else case splitFirst CHR '','' line of
                None \<Rightarrow> ([], env)
              | Some (host, address) \<Rightarrow>
                  (let subdomain = NormalizeDomainIdentifier host
                   in if \<not> isAcceptedDomainIdentifier net subdomain then ([], env)
                      else (let (d, env1) = newAsset ''dom-ht'' enumID ''hackertarget_collector'' AssetTypeDomain
                                              (Some noDomainDetails) None subdomain env
                            in case canonicalIP (TrimSpace address) of
                                 None \<Rightarrow> ([d], env1)
                               | Some ip \<Rightarrow>
                                   (let (a, env2) = newAsset ''ip-ht'' enumID ''hackertarget_collector'' AssetTypeIP
                                                      None (Some noIPDetails) ip env1
                                    in ([d, a], env2)))))"

definition HackerTargetQuery :: "netLibrary \<Rightarrow> (string \<Rightarrow> string option) \<Rightarrow> web \<Rightarrow> domainQuery" where
  "HackerTargetQuery net canonicalIP web enumID domain env =
     (case okBody (\<lambda>code. ''unexpected status '' @ show_int code @ '' from hackertarget for '' @ domain)
             (web (''https://api.hackertarget.com/hostsearch/?q='' @ domain)) of
        Inl e \<Rightarrow> failWith e env
      | Inr body \<Rightarrow>
          (case hackertargetBodyError body of
             Some e \<Rightarrow> failWith (''hackertarget for '' @ domain @ '': '' @ e) env
           | None \<Rightarrow>
               (let (as, env') = drawAll (hackerTargetLine net canonicalIP enumID) (Split body CHR 0x0A) env
                in (Inr (concat as), env'))))"

text \<open>\<open>lookup\<close> is \<open>registration.LookupDomain\<close>: data, no data, an unsupported suffix or an error.\<close>

datatype lookupResult = LookupFailed string | UnsupportedRegistrationData | Registered "rdapData option"

definition RDAPQuery :: "(string \<Rightarrow> lookupResult) \<Rightarrow> domainQuery" where
  "RDAPQuery lookup enumID domain =
     (case lookup domain of
        LookupFailed e \<Rightarrow> failWith e
      | UnsupportedRegistrationData \<Rightarrow> Pair (Inr [])
      | Registered None \<Rightarrow> Pair (Inr [])
      | Registered (Some r) \<Rightarrow>
          namedAssets (newAsset ''dom-rdap'' enumID ''rdap_collector'' AssetTypeDomain
                         (Some (noDomainDetails\<lparr>dd_RDAP := Some r\<rparr>)) None) [domain])"

definition CrtShCollector :: "(string \<Rightarrow> string + string list) \<Rightarrow> web \<Rightarrow> ('b engineState \<Rightarrow> environment) \<Rightarrow> 'b engineNode" where
  "CrtShCollector decode web env =
     \<lparr>node_Name = ''CrtShCollector'', node_Process = passiveProcess ''enum-crtsh'' (CrtShQuery decode web) env\<rparr>"

definition AlienVaultCollector :: "(string \<Rightarrow> string + string list) \<Rightarrow> web \<Rightarrow> ('b engineState \<Rightarrow> environment) \<Rightarrow> 'b engineNode" where
  "AlienVaultCollector decode web env =
     \<lparr>node_Name = ''AlienVaultCollector'', node_Process = passiveProcess ''enum-otx'' (AlienVaultQuery decode web) env\<rparr>"

definition WaybackCollector :: "netLibrary \<Rightarrow> web \<Rightarrow> ('b engineState \<Rightarrow> environment) \<Rightarrow> 'b engineNode" where
  "WaybackCollector net web env =
     \<lparr>node_Name = ''WaybackCollector'', node_Process = passiveProcess ''enum-wayback'' (WaybackQuery net web) env\<rparr>"

definition HackerTargetCollector ::
  "netLibrary \<Rightarrow> (string \<Rightarrow> string option) \<Rightarrow> web \<Rightarrow> ('b engineState \<Rightarrow> environment) \<Rightarrow> 'b engineNode" where
  "HackerTargetCollector net canonicalIP web env =
     \<lparr>node_Name = ''HackerTargetCollector'',
      node_Process = passiveProcess ''enum-ht'' (HackerTargetQuery net canonicalIP web) env\<rparr>"

definition RDAPCollector :: "(string \<Rightarrow> lookupResult) \<Rightarrow> ('b engineState \<Rightarrow> environment) \<Rightarrow> 'b engineNode" where
  "RDAPCollector lookup env =
     \<lparr>node_Name = ''RDAPCollector'', node_Process = passiveProcess ''enum-rdap'' (RDAPQuery lookup) env\<rparr>"

end
