(* ===== verification/DNS_Observation.thy ===== *)
theory DNS_Observation
  imports Passive_Collectors
begin

text \<open>
  The observations of \<open>internal/collect/dns_collector.go\<close>: what the DNS says about one name, the roots
  it refers to, and the sweep over variants of a label under other public suffixes. The resolver is an
  argument. Lookups of one name run in goroutines that share nothing; several names are looked up at
  once, so errors arrive in the order the goroutines end in, which is the argument \<open>ends\<close>. The counters
  that are only logged are left out.
\<close>

section \<open>The resolver\<close>

text \<open>What the lookups of the Go resolver give: values and an error, if any. The addresses are the texts
  of the \<open>net.IP\<close>s; \<open>rs_canonicalIP\<close> is \<open>net.ParseIP\<close> and \<open>String\<close>, \<open>rs_isIPv4\<close> whether \<open>To4\<close> is not nil.
  The error of a name server lookup comes with \<open>isNXDomainDNSError\<close>.\<close>

record resolver =
  rs_lookupIPs :: "string \<Rightarrow> string + string list"
  rs_lookupMX :: "string \<Rightarrow> string list \<times> string option"
  rs_lookupTXT :: "string \<Rightarrow> string list \<times> string option"
  rs_lookupNS :: "string \<Rightarrow> string list \<times> (string \<times> bool) option"
  rs_lookupCNAME :: "string \<Rightarrow> string \<times> string option"
  rs_lookupRDAP :: "string \<Rightarrow> lookupResult"
  rs_canonicalIP :: "string \<Rightarrow> string option"
  rs_isIPv4 :: "string \<Rightarrow> bool"

definition lookupIPsWithTimeout :: "resolver \<Rightarrow> string \<Rightarrow> string + string list" where
  "lookupIPsWithTimeout rs domain =
     (case rs_lookupIPs rs domain of
        Inl e \<Rightarrow> Inl e
      | Inr ips \<Rightarrow> Inr (UniqueLowerStrings (concat (map (\<lambda>ip. case rs_canonicalIP rs ip of None \<Rightarrow> [] | Some v \<Rightarrow> [v]) ips))))"

definition lookupRDAPWithTimeout :: "resolver \<Rightarrow> string \<Rightarrow> lookupResult" where
  "lookupRDAPWithTimeout rs domain =
     (if NormalizeDomainIdentifier domain = [] then Registered None
      else rs_lookupRDAP rs (NormalizeDomainIdentifier domain))"

definition registeredData :: "lookupResult \<Rightarrow> rdapData option" where
  "registeredData r = (case r of Registered d \<Rightarrow> d | _ \<Rightarrow> None)"

definition rdapErrors :: "lookupResult \<Rightarrow> string list" where
  "rdapErrors r = (case r of LookupFailed e \<Rightarrow> [e] | _ \<Rightarrow> [])"

section \<open>The observation of a name\<close>

record dnsObservation =
  do_domain :: string
  do_root :: string
  do_records :: "dnsRecord list"
  do_ips :: "string list"
  do_mxHosts :: "string list"
  do_mxRoots :: "string list"
  do_nsHosts :: "string list"
  do_nsRoots :: "string list"
  do_txtValues :: "string list"
  do_txtDomains :: "string list"
  do_txtRoots :: "string list"
  do_cname :: string
  do_live :: bool

record dnsLookupIssue =
  is_recordKind :: string
  is_domain :: string
  is_err :: string

definition asError :: "dnsLookupIssue \<Rightarrow> string" where
  "asError i = ''lookup '' @ is_recordKind i @ '' '' @ is_domain i @ '': '' @ is_err i"

definition lookupIssue :: "string \<Rightarrow> string \<Rightarrow> string option \<Rightarrow> dnsLookupIssue list" where
  "lookupIssue kind domain err =
     (case err of None \<Rightarrow> [] | Some e \<Rightarrow> [\<lparr>is_recordKind = kind, is_domain = domain, is_err = e\<rparr>])"

definition rootsFromDomains :: "netLibrary \<Rightarrow> string list \<Rightarrow> string list" where
  "rootsFromDomains net domains = UniqueLowerStrings (filter (\<lambda>r. r \<noteq> []) (map (RegistrableDomain net) domains))"

definition namesOf :: "string list \<Rightarrow> string list" where
  "namesOf hosts = filter (\<lambda>h. h \<noteq> []) (map NormalizeDomainIdentifier hosts)"

definition recordsOf :: "string \<Rightarrow> string list \<Rightarrow> dnsRecord list" where
  "recordsOf type values = map (\<lambda>v. \<lparr>rec_Type = type, rec_Value = v\<rparr>) values"

definition emptyObservation :: "netLibrary \<Rightarrow> string \<Rightarrow> dnsObservation" where
  "emptyObservation net domain =
     \<lparr>do_domain = domain, do_root = RegistrableDomain net domain, do_records = [], do_ips = [], do_mxHosts = [],
      do_mxRoots = [], do_nsHosts = [], do_nsRoots = [], do_txtValues = [], do_txtDomains = [], do_txtRoots = [],
      do_cname = [], do_live = False\<rparr>"

text \<open>\<open>preloaded\<close> are the name servers a preflight lookup has found already.\<close>

definition observeDomainWithNS ::
  "netLibrary \<Rightarrow> resolver \<Rightarrow> string \<Rightarrow> string list option \<Rightarrow> dnsObservation \<times> dnsLookupIssue list" where
  "observeDomainWithNS net rs domain0 preloaded =
     (let domain = NormalizeDomainIdentifier domain0;
          (ips, ipErr) = (case lookupIPsWithTimeout rs domain of Inl e \<Rightarrow> ([], Some e) | Inr vs \<Rightarrow> (vs, None));
          (mxs, mxErr) = rs_lookupMX rs domain;
          (txts, txtErr) = rs_lookupTXT rs domain;
          (nss, nsErr) = (case preloaded of
             Some hosts \<Rightarrow> (hosts, None)
           | None \<Rightarrow> (let (hosts, err) = rs_lookupNS rs domain in (hosts, map_option fst err)));
          (cname0, cnameErr) = rs_lookupCNAME rs domain;
          mxHosts = namesOf mxs; nsHosts = namesOf nss;
          txtValues = filter (\<lambda>t. t \<noteq> []) (map TrimSpace txts);
          cname = NormalizeDomainIdentifier cname0;
          cname' = (if cname \<noteq> [] \<and> cname \<noteq> domain then cname else []);
          txtDomains = ExtractStructuredTXTDomainCandidates net (UniqueLowerStrings txtValues)
      in ((emptyObservation net domain)\<lparr>
            do_records := map (\<lambda>ip. \<lparr>rec_Type = (if rs_isIPv4 rs ip then ''A'' else ''AAAA''), rec_Value = ip\<rparr>) ips
              @ recordsOf ''MX'' mxHosts @ recordsOf ''TXT'' txtValues @ recordsOf ''NS'' nsHosts
              @ (if cname' \<noteq> [] then recordsOf ''CNAME'' [cname'] else []),
            do_ips := UniqueLowerStrings ips,
            do_mxHosts := UniqueLowerStrings mxHosts,
            do_mxRoots := rootsFromDomains net (UniqueLowerStrings mxHosts),
            do_nsHosts := UniqueLowerStrings nsHosts,
            do_nsRoots := rootsFromDomains net (UniqueLowerStrings nsHosts),
            do_txtValues := UniqueLowerStrings txtValues,
            do_txtDomains := txtDomains,
            do_txtRoots := rootsFromDomains net txtDomains,
            do_cname := cname',
            do_live := (ips \<noteq> [] \<or> mxHosts \<noteq> [] \<or> nsHosts \<noteq> [])\<rparr>,
          lookupIssue ''A/AAAA'' domain ipErr @ lookupIssue ''MX'' domain mxErr @ lookupIssue ''TXT'' domain txtErr
            @ lookupIssue ''NS'' domain nsErr @ lookupIssue ''CNAME'' domain cnameErr))"

definition observeDomain :: "netLibrary \<Rightarrow> resolver \<Rightarrow> string \<Rightarrow> dnsObservation \<times> dnsLookupIssue list" where
  "observeDomain net rs domain = observeDomainWithNS net rs domain None"

text \<open>What \<open>observeVariantRoot\<close> says: the observation, whether the preflight met NXDOMAIN, whether the
  other lookups were made.\<close>

definition observeVariantRoot :: "netLibrary \<Rightarrow> resolver \<Rightarrow> string \<Rightarrow> dnsObservation \<times> bool \<times> bool" where
  "observeVariantRoot net rs domain0 =
     (let domain = NormalizeDomainIdentifier domain0
      in if domain = [] then (emptyObservation net domain, False, False)
         else case rs_lookupNS rs domain of
                (_, Some (e, notFound)) \<Rightarrow>
                  if notFound then (emptyObservation net domain, True, False)
                  else (fst (observeDomain net rs domain), False, True)
              | (hosts, None) \<Rightarrow> (fst (observeDomainWithNS net rs domain (Some hosts)), False, True))"

section \<open>The names an observation refers to\<close>

record dnsDomainCandidate =
  dc_host :: string
  dc_root :: string
  dc_sourceKind :: string

definition candidatesFrom :: "netLibrary \<Rightarrow> string \<Rightarrow> string list \<Rightarrow> dnsDomainCandidate list" where
  "candidatesFrom net kind values =
     filter (\<lambda>c. dc_root c \<noteq> [])
       (map (\<lambda>c. \<lparr>dc_host = c, dc_root = RegistrableDomain net c, dc_sourceKind = kind\<rparr>)
          (concat (map (ExtractDNSDomainCandidates net) values)))"

definition domainCandidates :: "netLibrary \<Rightarrow> dnsObservation \<Rightarrow> dnsDomainCandidate list" where
  "domainCandidates net ob =
     uniqueBy (\<lambda>c. dc_sourceKind c @ ''|'' @ dc_host c @ ''|'' @ dc_root c) {}
       (candidatesFrom net ''mx_root'' (do_mxHosts ob) @ candidatesFrom net ''ns_root'' (do_nsHosts ob)
        @ (if do_cname ob \<noteq> [] then candidatesFrom net ''cname_root'' [do_cname ob] else [])
        @ candidatesFrom net ''txt_root'' (do_txtDomains ob))"

definition dnsIPRelationKinds :: "dnsObservation \<Rightarrow> string \<Rightarrow> string list" where
  "dnsIPRelationKinds ob ip0 =
     (let ip = ToLower (TrimSpace ip0)
      in if ip = [] then []
         else uniqueBy (\<lambda>k. k) {} (concat (map (\<lambda>r.
                if ToLower (TrimSpace (rec_Value r)) \<noteq> ip then []
                else if ToUpper (TrimSpace (rec_Type r)) = ''A'' then [''dns_a'']
                else if ToUpper (TrimSpace (rec_Type r)) = ''AAAA'' then [''dns_aaaa'']
                else []) (do_records ob))))"

definition dnsCandidateRelationKind :: "string \<Rightarrow> string" where
  "dnsCandidateRelationKind sourceKind =
     (let kind = ToLower (TrimSpace sourceKind)
      in if kind = ''ns_root'' then ''dns_ns''
         else if kind = ''mx_root'' then ''dns_mx''
         else if kind = ''txt_root'' then ''dns_txt''
         else if kind = ''cname_root'' then ''dns_cname''
         else ''dns_reference'')"

section \<open>Observing many roots\<close>

record observedDNSCandidate =
  od_root :: string
  od_observation :: dnsObservation
  od_rdap :: "rdapData option"

definition observeRoot :: "netLibrary \<Rightarrow> resolver \<Rightarrow> string \<Rightarrow> observedDNSCandidate list" where
  "observeRoot net rs r0 =
     (let ob = fst (observeDomain net rs r0)
      in if \<not> do_live ob then []
         else [\<lparr>od_root = r0, od_observation = ob, od_rdap = registeredData (lookupRDAPWithTimeout rs r0)\<rparr>])"

definition observeCandidateRoots ::
  "netLibrary \<Rightarrow> resolver \<Rightarrow> (string list \<Rightarrow> string list) \<Rightarrow> string list
     \<Rightarrow> observedDNSCandidate list \<times> string list" where
  "observeCandidateRoots net rs ends roots =
     (concat (map (observeRoot net rs) roots),
      concat (map (\<lambda>r. if do_live (fst (observeDomain net rs r)) then rdapErrors (lookupRDAPWithTimeout rs r) else [])
        (ends roots)))"

record dnsVariantSweepMetrics =
  vm_totalRoots :: nat
  vm_batches :: nat
  vm_preflightNXDOMAIN :: nat
  vm_fullObservations :: nat

definition variantLive :: "netLibrary \<Rightarrow> resolver \<Rightarrow> string \<Rightarrow> bool" where
  "variantLive net rs r0 =
     (case observeVariantRoot net rs r0 of (ob, nxdomain, _) \<Rightarrow> \<not> nxdomain \<and> do_live ob)"

definition observeVariantCandidateRootBatch ::
  "netLibrary \<Rightarrow> resolver \<Rightarrow> (string list \<Rightarrow> string list) \<Rightarrow> string list
     \<Rightarrow> observedDNSCandidate list \<times> string list \<times> nat \<times> nat" where
  "observeVariantCandidateRootBatch net rs ends roots =
     (map (\<lambda>r. \<lparr>od_root = r, od_observation = fst (observeVariantRoot net rs r),
                od_rdap = registeredData (lookupRDAPWithTimeout rs r)\<rparr>) (filter (variantLive net rs) roots),
      concat (map (\<lambda>r. rdapErrors (lookupRDAPWithTimeout rs r)) (filter (variantLive net rs) (ends roots))),
      length (filter (\<lambda>r. fst (snd (observeVariantRoot net rs r))) roots),
      length (filter (\<lambda>r. snd (snd (observeVariantRoot net rs r))) roots))"

text \<open>The slices \<open>roots[start:end]\<close> of \<open>batchSize\<close> roots.\<close>

function batchesOf :: "nat \<Rightarrow> 'a list \<Rightarrow> 'a list list" where
  "batchesOf n xs = (if xs = [] then [] else take (max 1 n) xs # batchesOf n (drop (max 1 n) xs))"
  by pat_completeness auto
termination by (relation "measure (\<lambda>(n, xs). length xs)") auto

declare batchesOf.simps [simp del]

definition observeVariantCandidateRoots ::
  "netLibrary \<Rightarrow> resolver \<Rightarrow> (string list \<Rightarrow> string list) \<Rightarrow> int \<Rightarrow> string list
     \<Rightarrow> observedDNSCandidate list \<times> string list \<times> dnsVariantSweepMetrics" where
  "observeVariantCandidateRoots net rs ends batchSize roots =
     (let bs = map (observeVariantCandidateRootBatch net rs ends) (batchesOf (nat batchSize) roots)
      in (concat (map fst bs), concat (map (\<lambda>b. fst (snd b)) bs),
          \<lparr>vm_totalRoots = length roots, vm_batches = length bs,
           vm_preflightNXDOMAIN = sum_list (map (\<lambda>b. fst (snd (snd b))) bs),
           vm_fullObservations = sum_list (map (\<lambda>b. snd (snd (snd b))) bs)\<rparr>))"

end
