(* ===== verification/Judged_Pivots.thy ===== *)
theory Judged_Pivots
  imports Passive_Collectors Judges
begin

text \<open>
  The frame of the collectors that put the roots they found to the ownership judge and promote what it
  collects (\<open>internal/collect\<close>): the lists a collector fills during a call, its report at the end, and
  the loop over the decisions. Every promotion is a step on the context of its own; so is the recording
  of an evaluation. What differs between the collectors are arguments.
\<close>

type_synonym ownershipJudge = "ownershipRequest \<Rightarrow> string + judgeDecision list"

section \<open>The work of a call\<close>

record pivotWork =
  pw_env :: environment
  pw_enums :: "enumeration list"
  pw_errors :: "string list"
  pw_assets :: "asset list"

definition emptyWork :: "environment \<Rightarrow> pivotWork" where
  "emptyWork env = \<lparr>pw_env = env, pw_enums = [], pw_errors = [], pw_assets = []\<rparr>"

definition pivotErrors :: "string list \<Rightarrow> pivotWork \<Rightarrow> pivotWork" where
  "pivotErrors es w = w\<lparr>pw_errors := pw_errors w @ es\<rparr>"

definition pivotEnumeration :: "string \<Rightarrow> seed \<Rightarrow> pivotWork \<Rightarrow> string \<times> pivotWork" where
  "pivotEnumeration prefix s w =
     (let (e, env) = startEnumeration prefix s (pw_env w)
      in (enum_ID e, w\<lparr>pw_env := env, pw_enums := pw_enums w @ [e]\<rparr>))"

text \<open>A domain asset of the collector \<open>source\<close>, appended to \<open>newAssets\<close>.\<close>

definition pivotAsset ::
  "string \<Rightarrow> string \<Rightarrow> string \<Rightarrow> domainDetails \<Rightarrow> (string \<times> enrichmentValue) list \<Rightarrow> string \<Rightarrow> pivotWork \<Rightarrow> pivotWork" where
  "pivotAsset prefix source enumID details data identifier w =
     (let (a, env) = newAsset prefix enumID source AssetTypeDomain (Some details) None identifier (pw_env w)
      in w\<lparr>pw_env := env, pw_assets := pw_assets w @ [a\<lparr>asset_EnrichmentData := data\<rparr>]\<rparr>)"

section \<open>Judging and promoting\<close>

definition judgedEvidence :: "judgeDecision \<Rightarrow> seedEvidence" where
  "judgedEvidence d = \<lparr>ev_Source = ''ownership_judge'', ev_Kind = jd_Kind d, ev_Value = jd_Root d,
     ev_Confidence = jd_Confidence d, ev_Reasoned = True\<rparr>"

text \<open>The two guards every collector has on a decision.\<close>

definition collects :: "judgeDecision \<Rightarrow> pipelineContext \<Rightarrow> bool" where
  "collects d p \<longleftrightarrow> jd_Collect d \<and> IsConfidenceAtLeast (jd_Confidence d) (CandidatePromotionConfidenceThreshold p)"

text \<open>\<open>pick\<close> is the seed a decision promotes and its evidence, \<open>add\<close> what an accepted one reports.\<close>

primrec pivotDecisions ::
  "'b promotionHandler \<Rightarrow> (judgeDecision \<Rightarrow> pipelineContext \<Rightarrow> (seed \<times> seedEvidence) option)
     \<Rightarrow> (judgeDecision \<Rightarrow> pivotWork \<Rightarrow> pivotWork) \<Rightarrow> judgeDecision list
     \<Rightarrow> (pivotWork \<Rightarrow> 'b engineState thread) \<Rightarrow> pivotWork \<Rightarrow> 'b engineState thread" where
  "pivotDecisions h pick add [] k w = k w"
| "pivotDecisions h pick add (d # ds) k w =
     Step (\<lambda>st. case pick d (fst st) of
             None \<Rightarrow> st
           | Some (x, ev) \<Rightarrow> snd (PromoteSeedCandidate h x ev (fst st) (snd st)))
       (\<lambda>st. case pick d (fst st) of
             None \<Rightarrow> pivotDecisions h pick add ds k w
           | Some (x, ev) \<Rightarrow>
               (if res_Decision (fst (PromoteSeedCandidate h x ev (fst st) (snd st))) = CandidatePromotionAccepted
                then pivotDecisions h pick add ds k (add d w) else pivotDecisions h pick add ds k w))"

definition judgePivots ::
  "netLibrary \<Rightarrow> 'b promotionHandler \<Rightarrow> ownershipJudge option \<Rightarrow> string \<Rightarrow> ownershipRequest
     \<Rightarrow> (judgeDecision \<Rightarrow> pipelineContext \<Rightarrow> (seed \<times> seedEvidence) option)
     \<Rightarrow> (judgeDecision \<Rightarrow> pivotWork \<Rightarrow> pivotWork) \<Rightarrow> (pivotWork \<Rightarrow> 'b engineState thread)
     \<Rightarrow> pivotWork \<Rightarrow> 'b engineState thread" where
  "judgePivots net h judge collector request pick add k w =
     (case judge of
        None \<Rightarrow> k w
      | Some j \<Rightarrow>
          (if or_Candidates request = [] then k w
           else case j request of
                  Inl e \<Rightarrow> k (pivotErrors [e] w)
                | Inr ds \<Rightarrow> Step (onContext (RecordOwnershipJudgeEvaluation net collector request ds))
                             (\<lambda>_. pivotDecisions h pick add ds k w)))"

section \<open>The stage\<close>

type_synonym 'b pivotTurn =
  "seed \<Rightarrow> (pivotWork \<Rightarrow> 'b engineState thread) \<Rightarrow> pivotWork \<Rightarrow> 'b engineState thread"

primrec eachSeed :: "'b pivotTurn \<Rightarrow> seed list \<Rightarrow> pivotWork \<Rightarrow> 'b engineState thread" where
  "eachSeed turn [] w =
     Step (onContext (report (pw_enums w) (pw_errors w)))
       (\<lambda>_. Step (onContext (AppendAssets (pw_assets w))) (\<lambda>_. Done None))"
| "eachSeed turn (s # ss) w = turn s (eachSeed turn ss) w"

definition judgedProcess :: "'b pivotTurn \<Rightarrow> ('b engineState \<Rightarrow> environment) \<Rightarrow> 'b engineState thread" where
  "judgedProcess turn env =
     Step (\<lambda>st. st) (\<lambda>st. eachSeed turn (CollectionSeeds (fst st)) (emptyWork (env st)))"

end
