(* ===== verification/DNS_Collector.thy ===== *)
theory DNS_Collector
  imports DNS_Observation Judged_Pivots
begin

text \<open>
  The stage of \<open>internal/collect/dns_collector.go\<close>: for each seed it resolves the domains, reports
  addresses and hosts, gathers the roots the records refer to and the live variants of the seed's
  labels, asks the judge about those that share something with the seed, and promotes what it collects.
  The stage works on lists of its own; its thread has a step for each operation on the context.
\<close>

section \<open>Candidates for a pivot\<close>

record dnsPivotCandidate =
  pc_root :: string
  pc_variant :: bool
  pc_sourceKinds :: "string list"
  pc_sampleHosts :: "string list"
  pc_observation :: "dnsObservation option"
  pc_rdap :: "rdapData option"

type_synonym pivotCandidates = "(string \<times> dnsPivotCandidate) list"

definition newPivotCandidate :: "string \<Rightarrow> dnsPivotCandidate" where
  "newPivotCandidate r =
     \<lparr>pc_root = r, pc_variant = False, pc_sourceKinds = [], pc_sampleHosts = [], pc_observation = None, pc_rdap = None\<rparr>"

definition addSource :: "string \<Rightarrow> string \<Rightarrow> dnsPivotCandidate \<Rightarrow> dnsPivotCandidate" where
  "addSource kind0 sample0 c =
     (let kind = TrimSpace (ToLower kind0); sample = NormalizeDomainIdentifier sample0;
          c1 = (if kind \<noteq> [] then c\<lparr>pc_sourceKinds := List.insert kind (pc_sourceKinds c)\<rparr> else c)
      in if sample = [] \<or> sample \<in> set (pc_sampleHosts c1) \<or> length (pc_sampleHosts c1) \<ge> 3 then c1
         else c1\<lparr>pc_sampleHosts := pc_sampleHosts c1 @ [sample]\<rparr>)"

text \<open>\<open>ensureDNSPivotCandidate\<close> and the change the caller makes to what it returns; a nil candidate, for
  a name without a normal form, is left alone.\<close>

definition updatePivotCandidate ::
  "string \<Rightarrow> (dnsPivotCandidate \<Rightarrow> dnsPivotCandidate) \<Rightarrow> pivotCandidates \<Rightarrow> pivotCandidates" where
  "updatePivotCandidate root0 f m =
     (let r = NormalizeDomainIdentifier root0
      in if r = [] then m
         else AList.update r (f (case map_of m r of None \<Rightarrow> newPivotCandidate r | Some c \<Rightarrow> c)) m)"

definition sortedDNSPivotRoots :: "pivotCandidates \<Rightarrow> string list" where
  "sortedDNSPivotRoots m = sort (map fst m)"

definition observedPivot :: "observedDNSCandidate \<Rightarrow> dnsPivotCandidate \<Rightarrow> dnsPivotCandidate" where
  "observedPivot x c = c\<lparr>pc_observation := Some (od_observation x), pc_rdap := od_rdap x\<rparr>"

definition variantPivot :: "observedDNSCandidate \<Rightarrow> dnsPivotCandidate \<Rightarrow> dnsPivotCandidate" where
  "variantPivot x c = observedPivot x (addSource ''dns_variant'' (od_root x) (c\<lparr>pc_variant := True\<rparr>))"

definition noteObserved :: "observedDNSCandidate list \<Rightarrow> pivotCandidates \<Rightarrow> pivotCandidates" where
  "noteObserved os m = fold (\<lambda>x. updatePivotCandidate (od_root x) (observedPivot x)) os m"

definition noteVariants :: "observedDNSCandidate list \<Rightarrow> pivotCandidates \<Rightarrow> pivotCandidates" where
  "noteVariants os m = fold (\<lambda>x. updatePivotCandidate (od_root x) (variantPivot x)) os m"

section \<open>What is known about the seed\<close>

record dnsSeedBaseline =
  bl_seedRoots :: "string list"
  bl_ips :: "string set"
  bl_nsRoots :: "string set"
  bl_mailRoots :: "string set"
  bl_txtRoots :: "string set"
  bl_cnameRoots :: "string set"
  bl_rdapOrgs :: "string set"
  bl_rdapEmailRoots :: "string set"

definition newDNSSeedBaseline :: "netLibrary \<Rightarrow> seed \<Rightarrow> dnsSeedBaseline" where
  "newDNSSeedBaseline net s =
     \<lparr>bl_seedRoots = uniqueBy (\<lambda>r. r) {} (filter (\<lambda>r. r \<noteq> []) (map (RegistrableDomain net) (seed_Domains s))),
      bl_ips = {}, bl_nsRoots = {}, bl_mailRoots = {}, bl_txtRoots = {}, bl_cnameRoots = {}, bl_rdapOrgs = {},
      bl_rdapEmailRoots = {}\<rparr>"

definition rdapEmailRoot :: "netLibrary \<Rightarrow> string \<Rightarrow> string" where
  "rdapEmailRoot net email0 =
     (let email = TrimSpace (ToLower email0); parts = Split email CHR ''@''
      in if email = [] \<or> length parts \<noteq> 2 then [] else RegistrableDomain net (parts ! 1))"

definition nonEmpty :: "string \<Rightarrow> string set" where
  "nonEmpty s = (if s \<noteq> [] then {s} else {})"

definition addObservation ::
  "netLibrary \<Rightarrow> dnsObservation \<Rightarrow> rdapData option \<Rightarrow> dnsSeedBaseline \<Rightarrow> dnsSeedBaseline" where
  "addObservation net ob rdap b =
     (let b1 = b\<lparr>bl_ips := bl_ips b \<union> set (do_ips ob), bl_nsRoots := bl_nsRoots b \<union> set (do_nsRoots ob),
            bl_mailRoots := bl_mailRoots b \<union> set (do_mxRoots ob), bl_txtRoots := bl_txtRoots b \<union> set (do_txtRoots ob),
            bl_cnameRoots := (if do_cname ob \<noteq> [] then bl_cnameRoots b \<union> nonEmpty (RegistrableDomain net (do_cname ob))
                              else bl_cnameRoots b)\<rparr>
      in case rdap of
           None \<Rightarrow> b1
         | Some r \<Rightarrow> b1\<lparr>bl_rdapOrgs := bl_rdapOrgs b1 \<union> nonEmpty (NormalizeOrganization (rdap_RegistrantOrg r)),
                       bl_rdapEmailRoots := bl_rdapEmailRoots b1 \<union> nonEmpty (rdapEmailRoot net (rdap_RegistrantEmail r)),
                       bl_nsRoots := bl_nsRoots b1 \<union> (\<Union>n \<in> set (rdap_NameServers r). nonEmpty (RegistrableDomain net n))\<rparr>)"

section \<open>Evidence for the judge\<close>

definition overlapWithSet :: "string list \<Rightarrow> string set \<Rightarrow> string list" where
  "overlapWithSet values target =
     sort (uniqueBy (\<lambda>v. v) {} (filter (\<lambda>v. v \<in> target) (filter (\<lambda>v. v \<noteq> []) (map NormalizeDomainIdentifier values))))"

definition evidenceItem :: "string \<Rightarrow> string \<Rightarrow> ownershipEvidenceItem" where
  "evidenceItem kind summary = \<lparr>item_Kind = kind, item_Summary = summary\<rparr>"

definition dnsPublicSuffix :: "netLibrary \<Rightarrow> string \<Rightarrow> string" where
  "dnsPublicSuffix net domain0 =
     (let domain = NormalizeDomainIdentifier domain0
      in if domain = [] then [] else NormalizeDomainIdentifier (PublicSuffix net domain))"

text \<open>Where the candidate was seen; this alone does not corroborate it.\<close>

definition referenceEvidence :: "netLibrary \<Rightarrow> dnsPivotCandidate \<Rightarrow> ownershipEvidenceItem list" where
  "referenceEvidence net c =
     (if pc_variant c
      then [evidenceItem ''dns_variant'' (''Live DNS variant for registrable label '' @ Quote (RegistrableLabel net (pc_root c))
              @ '' under alternate public suffix '' @ Quote (dnsPublicSuffix net (pc_root c)))] else [])
     @ (if ''ns_root'' \<in> set (pc_sourceKinds c)
        then [evidenceItem ''ns_root_reference''
                (''Observed as an NS-derived registrable root from the seed DNS records: '' @ pc_root c)] else [])
     @ (if ''mx_root'' \<in> set (pc_sourceKinds c)
        then [evidenceItem ''mx_root_reference''
                (''Observed as an MX-derived registrable root from the seed DNS records: '' @ pc_root c)] else [])
     @ (if ''txt_root'' \<in> set (pc_sourceKinds c)
        then [evidenceItem ''txt_root_reference'' (''Observed in structured TXT records for the seed DNS: '' @ pc_root c)] else [])
     @ (if ''cname_root'' \<in> set (pc_sourceKinds c)
        then [evidenceItem ''cname_root_reference''
                (''Observed as a CNAME target root from the seed DNS records: '' @ pc_root c)] else [])"

definition overlapEvidence :: "string \<Rightarrow> string \<Rightarrow> string list \<Rightarrow> ownershipEvidenceItem list" where
  "overlapEvidence kind text overlap = (if overlap \<noteq> [] then [evidenceItem kind (text @ Join overlap '', '')] else [])"

text \<open>What the candidate shares with the seed: any item here corroborates it.\<close>

definition sharedEvidence ::
  "netLibrary \<Rightarrow> dnsSeedBaseline \<Rightarrow> dnsObservation \<Rightarrow> rdapData option \<Rightarrow> ownershipEvidenceItem list" where
  "sharedEvidence net b ob rdap =
     overlapEvidence ''ip_overlap'' ''Shares resolved IPs with the seed baseline: '' (overlapWithSet (do_ips ob) (bl_ips b))
     @ overlapEvidence ''nameserver_overlap'' ''Shares registrable nameserver roots with the seed baseline: ''
         (overlapWithSet (do_nsRoots ob) (bl_nsRoots b))
     @ overlapEvidence ''mx_overlap'' ''Shares MX-derived registrable roots with the seed baseline: ''
         (overlapWithSet (do_mxRoots ob) (bl_mailRoots b))
     @ overlapEvidence ''txt_overlap'' ''Shares TXT-derived registrable roots with the seed baseline: ''
         (overlapWithSet (do_txtRoots ob) (bl_txtRoots b))
     @ (case rdap of
          None \<Rightarrow> []
        | Some r \<Rightarrow>
            (let org = NormalizeOrganization (rdap_RegistrantOrg r); emailRoot = rdapEmailRoot net (rdap_RegistrantEmail r)
             in (if org \<noteq> [] \<and> org \<in> bl_rdapOrgs b
                 then [evidenceItem ''registrant_org_match''
                         (''Registrant organization '' @ Quote (rdap_RegistrantOrg r) @ '' matches the seed baseline'')] else [])
                @ (if emailRoot \<noteq> [] \<and> emailRoot \<in> bl_rdapEmailRoots b
                   then [evidenceItem ''registrant_email_root_match''
                           (''Registrant email root '' @ Quote emailRoot @ '' matches the seed baseline'')] else [])))"

definition buildDNSCandidateEvidence ::
  "netLibrary \<Rightarrow> dnsPivotCandidate \<Rightarrow> dnsSeedBaseline \<Rightarrow> ownershipEvidenceItem list \<times> bool" where
  "buildDNSCandidateEvidence net c b =
     (case pc_observation c of
        None \<Rightarrow> ([], False)
      | Some ob \<Rightarrow>
          (let shared = sharedEvidence net b ob (pc_rdap c);
               recordKinds = sort (uniqueBy (\<lambda>k. k) {} (map rec_Type (do_records ob)))
           in (referenceEvidence net c @ shared
               @ (if recordKinds \<noteq> [] then [evidenceItem ''live_dns''
                    (''Live DNS records observed for the candidate root: '' @ Join recordKinds '', '')] else [])
               @ (if pc_sampleHosts c \<noteq> [] then [evidenceItem ''dns_samples''
                    (''Sample DNS-derived hostnames or roots: '' @ Join (pc_sampleHosts c) '', '')] else []),
               shared \<noteq> [])))"

section \<open>Variants of a label\<close>

record dnsLabelGroup =
  lg_label :: string
  lg_roots :: "string list"

definition groupSeedRootsByLabel :: "netLibrary \<Rightarrow> string list \<Rightarrow> dnsLabelGroup list" where
  "groupSeedRootsByLabel net seedRoots =
     map (\<lambda>l. \<lparr>lg_label = l, lg_roots = sort (filter (\<lambda>r. RegistrableLabel net r = l) seedRoots)\<rparr>)
       (sort (uniqueBy (\<lambda>l. l) {} (filter (\<lambda>l. l \<noteq> []) (map (RegistrableLabel net) seedRoots))))"

record dnsCollector =
  co_judge :: "(ownershipRequest \<Rightarrow> string + judgeDecision list) option"
  co_resolver :: resolver
  co_variantSweepMode :: string
  co_variantProbeBatchSize :: int
  co_maxVariantProbesPerRoot :: int
  co_variantProbeConcurrency :: int
  co_variantSuffixes :: "string list"
  co_genericVariantSuffixes :: "string list"
  co_ICANNPublicSuffixes :: "string list"
  co_ends :: "string list \<Rightarrow> string list"   \<comment> \<open>the order in which the goroutines of a group of names end\<close>

definition normalizeDNSVariantSweepMode :: "string \<Rightarrow> string" where
  "normalizeDNSVariantSweepMode mode0 =
     (let mode = ToLower (TrimSpace mode0)
      in if mode = ''prioritized'' \<or> mode = ''exhaustive'' then mode else [])"

record dnsVariantSweepConfig =
  vs_Mode :: string
  vs_BatchSize :: int
  vs_Concurrency :: int
  vs_PrioritizedCap :: int

definition DefaultDNSVariantSweepConfig :: dnsVariantSweepConfig where
  "DefaultDNSVariantSweepConfig =
     \<lparr>vs_Mode = ''exhaustive'', vs_BatchSize = 256, vs_Concurrency = 32, vs_PrioritizedCap = 256\<rparr>"

definition WithDNSCollectorVariantSweepConfig :: "dnsVariantSweepConfig \<Rightarrow> dnsCollector \<Rightarrow> dnsCollector" where
  "WithDNSCollectorVariantSweepConfig cfg c =
     (let mode = normalizeDNSVariantSweepMode (vs_Mode cfg)
      in c\<lparr>co_variantSweepMode := (if mode \<noteq> [] then mode else co_variantSweepMode c),
           co_variantProbeBatchSize := (if vs_BatchSize cfg > 0 then vs_BatchSize cfg else co_variantProbeBatchSize c),
           co_variantProbeConcurrency := (if vs_Concurrency cfg > 0 then vs_Concurrency cfg else co_variantProbeConcurrency c),
           co_maxVariantProbesPerRoot := (if vs_PrioritizedCap cfg > 0 then vs_PrioritizedCap cfg else co_maxVariantProbesPerRoot c)\<rparr>)"

definition VariantSweepConfig :: "dnsCollector \<Rightarrow> dnsVariantSweepConfig" where
  "VariantSweepConfig c =
     (let mode = normalizeDNSVariantSweepMode (co_variantSweepMode c)
      in \<lparr>vs_Mode = (if mode = [] then ''exhaustive'' else mode),
          vs_BatchSize = max 1 (co_variantProbeBatchSize c),
          vs_Concurrency = max 1 (co_variantProbeConcurrency c),
          vs_PrioritizedCap = max 0 (co_maxVariantProbesPerRoot c)\<rparr>)"

definition NewDNSCollector ::
  "(ownershipRequest \<Rightarrow> string + judgeDecision list) option \<Rightarrow> resolver \<Rightarrow> string list \<Rightarrow> (string list \<Rightarrow> string list)
     \<Rightarrow> dnsCollector" where
  "NewDNSCollector judge rs suffixes ends =
     \<lparr>co_judge = judge, co_resolver = rs, co_variantSweepMode = ''exhaustive'', co_variantProbeBatchSize = 256,
      co_maxVariantProbesPerRoot = 256, co_variantProbeConcurrency = 32, co_variantSuffixes = suffixes,
      co_genericVariantSuffixes = [''com'', ''net'', ''org'', ''io'', ''co'', ''app'', ''dev'', ''ai'', ''cloud'', ''tech''],
      co_ICANNPublicSuffixes = suffixes, co_ends = ends\<rparr>"

definition appendSuffix :: "string \<Rightarrow> string list \<Rightarrow> string list" where
  "appendSuffix suffix0 ordered =
     (let suffix = NormalizeDomainIdentifier suffix0
      in if suffix = [] \<or> suffix \<in> set ordered then ordered else ordered @ [suffix])"

definition prioritizedVariantSuffixes :: "netLibrary \<Rightarrow> dnsCollector \<Rightarrow> seed \<Rightarrow> string list \<Rightarrow> string list" where
  "prioritizedVariantSuffixes net c s roots =
     (let available = (if co_variantSuffixes c = [] then co_ICANNPublicSuffixes c else co_variantSuffixes c);
          current = filter (\<lambda>x. x \<noteq> []) (map (dnsPublicSuffix net) (roots @ seed_Domains s));
          hints = map LastLabel current
      in fold appendSuffix
           (filter (\<lambda>x. x \<in> set current) available @ filter (\<lambda>x. LastLabel x \<in> set hints) available
            @ co_genericVariantSuffixes c @ available) [])"

text \<open>The loop over the suffixes: the names to probe, and the candidates, in which names already known
  as candidates become variants.\<close>

fun probeLoop ::
  "netLibrary \<Rightarrow> dnsCollector \<Rightarrow> string \<Rightarrow> string list \<Rightarrow> string list \<Rightarrow> string set \<Rightarrow> string list
     \<Rightarrow> pivotCandidates \<Rightarrow> string list \<times> pivotCandidates" where
  "probeLoop net c label seedRoots [] seen probes cands = (probes, cands)"
| "probeLoop net c label seedRoots (suffix # rest) seen probes cands =
     (let r = NormalizeDomainIdentifier (label @ ''.'' @ suffix)
      in if r = [] \<or> r \<in> seen then probeLoop net c label seedRoots rest seen probes cands
         else if r \<in> set seedRoots \<or> RegistrableDomain net r \<noteq> r
         then probeLoop net c label seedRoots rest (insert r seen) probes cands
         else case map_of cands r of
                Some e \<Rightarrow> probeLoop net c label seedRoots rest (insert r seen) probes
                           (AList.update r (addSource ''dns_variant'' r (e\<lparr>pc_variant := True\<rparr>)) cands)
              | None \<Rightarrow>
                  (let probes' = probes @ [r]
                   in if co_variantSweepMode c = ''prioritized'' \<and> int (length probes') \<ge> co_maxVariantProbesPerRoot c
                      then (probes', cands)
                      else probeLoop net c label seedRoots rest (insert r seen) probes' cands))"

definition buildVariantProbeRoots ::
  "netLibrary \<Rightarrow> dnsCollector \<Rightarrow> seed \<Rightarrow> string list \<Rightarrow> string list \<Rightarrow> pivotCandidates
     \<Rightarrow> string list \<times> pivotCandidates" where
  "buildVariantProbeRoots net c s roots seedRoots cands =
     (if co_variantSweepMode c = ''prioritized'' \<and> co_maxVariantProbesPerRoot c \<le> 0 then ([], cands)
      else case filter (\<lambda>l. l \<noteq> []) (map (RegistrableLabel net) roots) of
             [] \<Rightarrow> ([], cands)
           | label # _ \<Rightarrow> probeLoop net c label seedRoots (prioritizedVariantSuffixes net c s roots) {} [] cands)"

section \<open>Reporting the domains of a seed\<close>

record dnsWork =
  dw_env :: environment
  dw_enums :: "enumeration list"
  dw_errors :: "string list"
  dw_assets :: "asset list"
  dw_relations :: "assetRelation list"

definition addErrors :: "string list \<Rightarrow> dnsWork \<Rightarrow> dnsWork" where
  "addErrors es w = w\<lparr>dw_errors := dw_errors w @ es\<rparr>"

definition addAsset :: "asset \<Rightarrow> dnsWork \<Rightarrow> dnsWork" where
  "addAsset a w = w\<lparr>dw_assets := dw_assets w @ [a]\<rparr>"

definition domainAssetFromObservation ::
  "string \<Rightarrow> string \<Rightarrow> string \<Rightarrow> string \<Rightarrow> dnsObservation \<Rightarrow> rdapData option \<Rightarrow> dnsWork \<Rightarrow> asset \<times> dnsWork" where
  "domainAssetFromObservation prefix enumID identifier source ob rdap w =
     (let (a, env') = newAsset prefix enumID source AssetTypeDomain
            (Some \<lparr>dd_Records = do_records ob, dd_IsCatchAll = False, dd_RDAP = rdap\<rparr>) None identifier (dw_env w)
      in (a, w\<lparr>dw_env := env'\<rparr>))"

text \<open>A relation from the domain \<open>from\<close>, with a fresh identifier and the time.\<close>

definition addDNSRelation ::
  "string \<Rightarrow> string \<Rightarrow> string \<Rightarrow> string \<Rightarrow> string \<Rightarrow> assetType \<Rightarrow> string \<Rightarrow> string \<Rightarrow> string \<Rightarrow> string \<Rightarrow> string
     \<Rightarrow> dnsWork \<Rightarrow> dnsWork" where
  "addDNSRelation prefix enumID fromID from toID toType to observationID kind label reason w =
     (let (i, env1) = freshID prefix (dw_env w); (now, env2) = readClock env1
      in w\<lparr>dw_env := env2,
           dw_relations := dw_relations w @
             [\<lparr>rel_ID = i, rel_FromAssetID = fromID, rel_FromAssetType = AssetTypeDomain, rel_FromIdentifier = from,
               rel_ToAssetID = toID, rel_ToAssetType = toType, rel_ToIdentifier = to, rel_ObservationID = observationID,
               rel_EnumerationID = enumID, rel_Source = ''dns_collector'', rel_Kind = kind, rel_Label = label,
               rel_Reason = reason, rel_DiscoveryDate = now\<rparr>]\<rparr>)"

definition reportIP :: "string \<Rightarrow> string \<Rightarrow> string \<Rightarrow> dnsObservation \<Rightarrow> string \<Rightarrow> dnsWork \<Rightarrow> dnsWork" where
  "reportIP enumID baseID domain ob ip w =
     (let reason = ''Resolved from '' @ domain @ '' via DNS'';
          (a, env') = newAsset ''ip'' enumID ''dns_collector'' AssetTypeIP None (Some noIPDetails) ip (dw_env w)
      in fold (\<lambda>kind. addDNSRelation ''rel-dns-ip'' enumID baseID domain [] AssetTypeIP ip (asset_ID a) kind ''Resolved IP'' reason)
           (dnsIPRelationKinds ob ip)
           (addAsset (a\<lparr>asset_OwnershipState := OwnershipStateAssociatedInfrastructure, asset_InclusionReason := reason\<rparr>)
              (w\<lparr>dw_env := env'\<rparr>)))"

definition reportHost :: "string \<Rightarrow> string \<Rightarrow> string \<Rightarrow> dnsDomainCandidate \<Rightarrow> dnsWork \<Rightarrow> dnsWork" where
  "reportHost enumID baseID domain c w =
     (let kind = dnsCandidateRelationKind (dc_sourceKind c);
          reason = ''Observed from '' @ domain @ '' via '' @ kind;
          (a, env') = newAsset ''dom-dns-host'' enumID ''dns_collector'' AssetTypeDomain (Some noDomainDetails) None
             (dc_host c) (dw_env w)
      in addDNSRelation ''rel-dns-host'' enumID baseID domain (asset_ID a) AssetTypeDomain (dc_host c) (asset_ID a) kind
           ''Discovered Host'' reason
           (addAsset (a\<lparr>asset_OwnershipState := OwnershipStateOwned, asset_InclusionReason := reason\<rparr>) (w\<lparr>dw_env := env'\<rparr>)))"

definition reportCandidate ::
  "dnsSeedBaseline \<Rightarrow> string \<Rightarrow> string \<Rightarrow> string \<Rightarrow> dnsDomainCandidate
     \<Rightarrow> pivotCandidates \<times> dnsWork \<Rightarrow> pivotCandidates \<times> dnsWork" where
  "reportCandidate b enumID baseID domain c mw =
     (if dc_root c \<in> set (bl_seedRoots b)
      then (fst mw, if dc_host c \<noteq> [] \<and> dc_host c \<noteq> domain then reportHost enumID baseID domain c (snd mw) else snd mw)
      else (updatePivotCandidate (dc_root c) (addSource (dc_sourceKind c) (dc_host c)) (fst mw), snd mw))"

text \<open>The turn of the merging loop for one domain.\<close>

definition mergeBaseDomain ::
  "netLibrary \<Rightarrow> resolver \<Rightarrow> string \<Rightarrow> string \<Rightarrow> dnsSeedBaseline \<times> pivotCandidates \<times> dnsWork
     \<Rightarrow> dnsSeedBaseline \<times> pivotCandidates \<times> dnsWork" where
  "mergeBaseDomain net rs enumID domain acc =
     (let (b, m, w) = acc;
          (ob, issues) = observeDomain net rs domain;
          rdap = lookupRDAPWithTimeout rs (RegistrableDomain net domain);
          w1 = addErrors (map asError issues @ rdapErrors rdap) w;
          b1 = addObservation net ob (registeredData rdap) b;
          (baseID, w2) = (if do_records ob = [] then ([], w1)
             else (let (a, w') = domainAssetFromObservation ''dom'' enumID domain ''dns_collector'' ob None w1
                   in (asset_ID a, addAsset a w')));
          w3 = fold (reportIP enumID baseID domain ob) (do_ips ob) w2;
          (m', w4) = fold (reportCandidate b1 enumID baseID domain) (domainCandidates net ob) (m, w3)
      in (b1, m', w4))"

definition observeSeed ::
  "netLibrary \<Rightarrow> dnsCollector \<Rightarrow> seed \<Rightarrow> dnsWork \<Rightarrow> string \<times> dnsSeedBaseline \<times> pivotCandidates \<times> dnsWork" where
  "observeSeed net c s w0 =
     (let (e, env1) = startEnumeration ''enum-dns'' s (dw_env w0);
          w = w0\<lparr>dw_env := env1, dw_enums := dw_enums w0 @ [e]\<rparr>;
          domains = filter (\<lambda>d. d \<noteq> []) (map NormalizeDomainIdentifier (seed_Domains s));
          (b, m, w1) = fold (mergeBaseDomain net (co_resolver c) (enum_ID e)) domains (newDNSSeedBaseline net s, [], w);
          (observed, errs) = observeCandidateRoots net (co_resolver c) (co_ends c) (sortedDNSPivotRoots m)
      in (enum_ID e, b, noteObserved observed m, addErrors errs w1))"

section \<open>The stage\<close>

text \<open>The sweep over the labels of the seed, each at most once in a run; \<open>k\<close> is what follows.\<close>

primrec sweepLabels ::
  "netLibrary \<Rightarrow> dnsCollector \<Rightarrow> seed \<Rightarrow> dnsSeedBaseline \<Rightarrow> dnsLabelGroup list
     \<Rightarrow> (pivotCandidates \<Rightarrow> dnsWork \<Rightarrow> 'b engineState thread) \<Rightarrow> pivotCandidates \<Rightarrow> dnsWork \<Rightarrow> 'b engineState thread" where
  "sweepLabels net c s b [] k m w = k m w"
| "sweepLabels net c s b (g # gs) k m w =
     Step (\<lambda>st. st)
       (\<lambda>st. if HasDNSVariantSweepLabel (lg_label g) (fst st) then sweepLabels net c s b gs k m w
             else (let (probes, m1) = buildVariantProbeRoots net c s (lg_roots g) (bl_seedRoots b) m
                   in if probes = [] then sweepLabels net c s b gs k m1 w
                      else (let (live, errs, _) = observeVariantCandidateRoots net (co_resolver c) (co_ends c)
                                                    (max 1 (co_variantProbeBatchSize c)) probes
                            in Step (onContext (MarkDNSVariantSweepLabel (lg_label g)))
                                 (\<lambda>_. sweepLabels net c s b gs k (noteVariants live m1) (addErrors errs w)))))"

definition judgeCandidates :: "netLibrary \<Rightarrow> dnsSeedBaseline \<Rightarrow> pivotCandidates \<Rightarrow> ownershipCandidate list" where
  "judgeCandidates net b m =
     concat (map (\<lambda>r. case map_of m r of
         Some pc \<Rightarrow> (case pc_observation pc of
             Some ob \<Rightarrow> (if do_live ob
                then (let (evidence, corroborated) = buildDNSCandidateEvidence net pc b
                      in if corroborated then [\<lparr>oc_Root = r, oc_Evidence = evidence\<rparr>] else [])
                else [])
           | None \<Rightarrow> [])
       | None \<Rightarrow> []) (sortedDNSPivotRoots m))"

definition dnsSource :: "dnsPivotCandidate \<Rightarrow> string" where
  "dnsSource pc = (if pc_variant pc then ''dns_variant_sweep'' else ''dns_dns_pivot'')"

definition dnsDiscoveredSeed :: "netLibrary \<Rightarrow> seed \<Rightarrow> dnsPivotCandidate \<Rightarrow> judgeDecision \<Rightarrow> seed" where
  "dnsDiscoveredSeed net s pc d =
     (let x = BuildDiscoveredSeed net s (jd_Root d) (if pc_variant pc then ''dns-variant-pivot'' else ''dns-record-pivot'')
      in x\<lparr>seed_Evidence := seed_Evidence x @
             [\<lparr>ev_Source = dnsSource pc,
               ev_Kind = (if pc_variant pc then ''dns_variant_pivot'' else ''dns_record_pivot''),
               ev_Value = jd_Root d, ev_Confidence = jd_Confidence d, ev_Reasoned = False\<rparr>]\<rparr>)"

text \<open>The candidate a decision promotes, with its observation.\<close>

definition promotable :: "pivotCandidates \<Rightarrow> judgeDecision \<Rightarrow> pipelineContext \<Rightarrow> (dnsPivotCandidate \<times> dnsObservation) option" where
  "promotable m d p =
     (if \<not> jd_Collect d \<or> \<not> IsConfidenceAtLeast (jd_Confidence d) (CandidatePromotionConfidenceThreshold p) then None
      else case map_of m (jd_Root d) of
             None \<Rightarrow> None
           | Some pc \<Rightarrow> map_option (\<lambda>ob. (pc, ob)) (pc_observation pc))"

primrec dnsDecisions ::
  "netLibrary \<Rightarrow> 'b promotionHandler \<Rightarrow> seed \<Rightarrow> string \<Rightarrow> pivotCandidates \<Rightarrow> judgeDecision list
     \<Rightarrow> (dnsWork \<Rightarrow> 'b engineState thread) \<Rightarrow> dnsWork \<Rightarrow> 'b engineState thread" where
  "dnsDecisions net h s enumID m [] k w = k w"
| "dnsDecisions net h s enumID m (d # ds) k w =
     Step (\<lambda>st. case promotable m d (fst st) of
             None \<Rightarrow> st
           | Some (pc, ob) \<Rightarrow> snd (PromoteSeedCandidate h (dnsDiscoveredSeed net s pc d) (judgedEvidence d) (fst st) (snd st)))
       (\<lambda>st. case promotable m d (fst st) of
             None \<Rightarrow> dnsDecisions net h s enumID m ds k w
           | Some (pc, ob) \<Rightarrow>
               (if res_Decision (fst (PromoteSeedCandidate h (dnsDiscoveredSeed net s pc d) (judgedEvidence d) (fst st) (snd st)))
                     = CandidatePromotionAccepted
                then (let (a, w') = domainAssetFromObservation ''dom-dns-pivot'' enumID (jd_Root d) (dnsSource pc) ob (pc_rdap pc) w
                      in dnsDecisions net h s enumID m ds k (addAsset a w'))
                else dnsDecisions net h s enumID m ds k w))"

definition judgeDNS ::
  "netLibrary \<Rightarrow> dnsCollector \<Rightarrow> 'b promotionHandler \<Rightarrow> seed \<Rightarrow> string \<Rightarrow> dnsSeedBaseline
     \<Rightarrow> (dnsWork \<Rightarrow> 'b engineState thread) \<Rightarrow> pivotCandidates \<Rightarrow> dnsWork \<Rightarrow> 'b engineState thread" where
  "judgeDNS net c h s enumID b k m w =
     (case co_judge c of
        None \<Rightarrow> k w
      | Some judge \<Rightarrow>
          (let request = \<lparr>or_Scenario = ''dns root variant pivot'', or_Seed = s, or_Candidates = judgeCandidates net b m\<rparr>
           in if or_Candidates request = [] then k w
              else case judge request of
                     Inl e \<Rightarrow> k (addErrors [e] w)
                   | Inr ds \<Rightarrow> Step (onContext (RecordOwnershipJudgeEvaluation net ''dns_collector'' request ds))
                                (\<lambda>_. dnsDecisions net h s enumID m ds k w)))"

primrec dnsSeeds ::
  "netLibrary \<Rightarrow> dnsCollector \<Rightarrow> 'b promotionHandler \<Rightarrow> seed list \<Rightarrow> dnsWork \<Rightarrow> 'b engineState thread" where
  "dnsSeeds net c h [] w =
     Step (onContext (report (dw_enums w) (dw_errors w)))
       (\<lambda>_. Step (onContext (AppendAssets (dw_assets w)))
         (\<lambda>_. Step (onContext (AppendAssetRelations (dw_relations w))) (\<lambda>_. Done None)))"
| "dnsSeeds net c h (s # ss) w =
     (let (enumID, b, m, w1) = observeSeed net c s w
      in sweepLabels net c s b (groupSeedRootsByLabel net (bl_seedRoots b))
           (judgeDNS net c h s enumID b (dnsSeeds net c h ss)) m w1)"

definition DNSProcess ::
  "netLibrary \<Rightarrow> dnsCollector \<Rightarrow> 'b promotionHandler \<Rightarrow> ('b engineState \<Rightarrow> environment) \<Rightarrow> 'b engineState thread" where
  "DNSProcess net c h env =
     Step (\<lambda>st. st)
       (\<lambda>st. dnsSeeds net c h (CollectionSeeds (fst st))
          \<lparr>dw_env = env st, dw_enums = [], dw_errors = [], dw_assets = [], dw_relations = []\<rparr>)"

definition DNSCollector ::
  "netLibrary \<Rightarrow> dnsCollector \<Rightarrow> 'b promotionHandler \<Rightarrow> ('b engineState \<Rightarrow> environment) \<Rightarrow> 'b engineNode" where
  "DNSCollector net c h env = \<lparr>node_Name = ''DNSCollector'', node_Process = DNSProcess net c h env\<rparr>"

end
