(* ===== verification/LLM_Judge.thy ===== *)
theory LLM_Judge
  imports Judges
begin

text \<open>
  The language model behind the judges and the search (\<open>ownership/judge.go\<close>, \<open>webhint/judge.go\<close>,
  \<open>search/provider.go\<close>): configuration from the environment, the exchange, and what is made of the
  answer. The HTTP client, the JSON encoder and decoder, the URL parser and the environment variables
  are arguments.
\<close>

section \<open>Configuration\<close>

record llmConfig =
  lj_endpoint :: string
  lj_model :: string
  lj_apiKey :: string

definition firstNonEmptyEnv :: "(string \<Rightarrow> string) \<Rightarrow> string list \<Rightarrow> string" where
  "firstNonEmptyEnv Getenv keys = FirstNonEmpty (map Getenv keys)"

definition TrimRight :: "string \<Rightarrow> char \<Rightarrow> string" where
  "TrimRight s c = rev (dropWhile (\<lambda>x. x = c) (rev s))"

definition defaultLLMBaseURL :: string where
  "defaultLLMBaseURL = ''https://api.openai.com/v1''"

definition defaultLLMModel :: string where
  "defaultLLMModel = ''gpt-5.4-nano''"

text \<open>Both judges are configured alike; \<open>prefix\<close> is \<open>ASSET_DISCOVERY_OWNERSHIP_LLM\<close> or
  \<open>ASSET_DISCOVERY_WEB_HINT_LLM\<close>.\<close>

definition NewJudgeFromEnv :: "string \<Rightarrow> (string \<Rightarrow> string) \<Rightarrow> string + llmConfig option" where
  "NewJudgeFromEnv prefix Getenv =
     (let model0 = TrimSpace (Getenv (prefix @ ''_MODEL''));
          apiKey = firstNonEmptyEnv Getenv [prefix @ ''_API_KEY'', ''OPENAI_API_KEY''];
          baseURL0 = TrimSpace (Getenv (prefix @ ''_BASE_URL''));
          endpoint0 = TrimSpace (Getenv (prefix @ ''_ENDPOINT''));
          model = (if model0 = [] \<and> apiKey \<noteq> [] then defaultLLMModel else model0);
          baseURL = (if baseURL0 = [] then defaultLLMBaseURL else baseURL0);
          endpoint = (if endpoint0 = [] then TrimRight baseURL CHR ''/'' @ ''/chat/completions'' else endpoint0)
      in if model = [] then Inr None
         else if apiKey = [] \<and> HasPrefix endpoint defaultLLMBaseURL
         then Inl (prefix @ ''_MODEL is set but '' @ prefix @ ''_API_KEY is empty'')
         else Inr (Some \<lparr>lj_endpoint = endpoint, lj_model = model, lj_apiKey = apiKey\<rparr>))"

definition NewDefaultJudge :: "string \<Rightarrow> (string \<Rightarrow> string) \<Rightarrow> llmConfig option" where
  "NewDefaultJudge prefix Getenv = (case NewJudgeFromEnv prefix Getenv of Inl _ \<Rightarrow> None | Inr j \<Rightarrow> j)"

section \<open>The exchange\<close>

record chatRequest =
  cq_Model :: string
  cq_Messages :: "(string \<times> string) list"   \<comment> \<open>role and content\<close>

record httpCall =
  hc_URL :: string
  hc_Authorization :: "string option"
  hc_Body :: string

record completion =
  cp_Choices :: "string list"
  cp_Error :: "string option"

text \<open>\<open>lx_Do\<close> gives an error of building or sending the request, or the status and what reading the body gives.\<close>

record llmExchange =
  lx_Marshal :: "chatRequest \<Rightarrow> string + string"
  lx_Do :: "httpCall \<Rightarrow> string + (int \<times> (string + string))"
  lx_Completion :: "string \<Rightarrow> string + completion"
  lx_Decisions :: "string \<Rightarrow> string + llmDecision list"

definition bodyLimit :: nat where
  "bodyLimit = 1024 * 1024"

definition bearer :: "string \<Rightarrow> string option" where
  "bearer apiKey = (if apiKey = [] then None else Some (''Bearer '' @ apiKey))"

definition limitedBody :: "(int \<Rightarrow> string \<Rightarrow> string) \<Rightarrow> string + (int \<times> (string + string)) \<Rightarrow> string + string" where
  "limitedBody badStatus answer =
     (case answer of
        Inl e \<Rightarrow> Inl e
      | Inr (status, Inl e) \<Rightarrow> Inl e
      | Inr (status, Inr body) \<Rightarrow>
          (let read = take bodyLimit body in if status \<ge> 400 then Inl (badStatus status (TrimSpace read)) else Inr read))"

definition completeChat :: "llmExchange \<Rightarrow> llmConfig \<Rightarrow> string \<Rightarrow> string \<Rightarrow> string + string" where
  "completeChat x j system user =
     (case lx_Marshal x \<lparr>cq_Model = lj_model j, cq_Messages = [(''system'', system), (''user'', user)]\<rparr> of
        Inl e \<Rightarrow> Inl e
      | Inr body \<Rightarrow>
          (case limitedBody (\<lambda>status text. ''unexpected LLM status '' @ show_int status @ '': '' @ text)
                  (lx_Do x \<lparr>hc_URL = lj_endpoint j, hc_Authorization = bearer (lj_apiKey j), hc_Body = body\<rparr>) of
             Inl e \<Rightarrow> Inl e
           | Inr answer \<Rightarrow>
               (case lx_Completion x answer of
                  Inl e \<Rightarrow> Inl e
                | Inr c \<Rightarrow>
                    (case cp_Error c of
                       Some m \<Rightarrow> Inl (''LLM error: '' @ m)
                     | None \<Rightarrow>
                         (case cp_Choices c of
                            [] \<Rightarrow> Inl ''LLM response did not include choices''
                          | content # _ \<Rightarrow> Inr content)))))"

section \<open>The answer\<close>

definition stripFences :: "string \<Rightarrow> string" where
  "stripFences raw =
     TrimSpace (TrimSuffix (TrimPrefix (TrimPrefix (TrimSpace raw) ''```json'') ''```'') ''```'')"

text \<open>From the first opening brace to the last closing one, unless that comes before it.\<close>

definition jsonObject :: "string \<Rightarrow> string option" where
  "jsonObject raw =
     (let object = rev (dropWhile (\<lambda>c. c \<noteq> CHR ''}'') (rev (dropWhile (\<lambda>c. c \<noteq> CHR ''{'') raw)))
      in if object = [] then None else Some object)"

definition parseLLMDecisions :: "(string \<Rightarrow> string + llmDecision list) \<Rightarrow> string \<Rightarrow> string + llmDecision list" where
  "parseLLMDecisions Unmarshal raw =
     (case jsonObject (stripFences raw) of
        None \<Rightarrow> Inl ''LLM response did not contain a JSON object''
      | Some object \<Rightarrow> Unmarshal object)"

section \<open>The ownership judge\<close>

definition judgeSystemPrompt :: string where
  "judgeSystemPrompt = Join
     [''You judge whether candidate registrable domains should be collected as first-party assets for ''
        @ ''the organization described in the seed context.'',
      [],
      ''Use the provided evidence items and the seed context together. The evidence may come from ''
        @ ''registration metadata, DNS/PTR observations, network ownership pivots, or other structured ''
        @ ''discovery signals.'',
      [],
      ''Be conservative:'',
      ''- collect only when the candidate root is likely owned, controlled, or clearly in scope for ''
        @ ''the same organization'',
      ''- reject customer domains, shared-hosting neighbors, generic SaaS/vendor domains, and tenuous ''
        @ ''lexical similarities'',
      ''- do not rely on brand-name substring similarity alone unless the structured evidence also ''
        @ ''supports ownership'',
      [],
      ''Return strict JSON with this shape and no extra prose:'',
      ''{\"decisions\":[{\"root\":\"example.com\",\"collect\":true,\"confidence\":0.93,\"kind\":\"owner''
        @ ''ship_judged\",\"reason\":\"brief reason\"}]}'',
      [],
      ''Only return decisions for the provided candidate roots.''] [CHR 0x0A]"

record seedContext =
  sc_CompanyName :: string
  sc_Domains :: "string list"
  sc_Industry :: string
  sc_ASN :: "int list"
  sc_CIDR :: "string list"

record judgePayload =
  jp_Scenario :: string
  jp_Seed :: seedContext
  jp_Candidates :: "ownershipCandidate list"

definition buildJudgePrompt :: "(judgePayload \<Rightarrow> string) \<Rightarrow> ownershipRequest \<Rightarrow> string" where
  "buildJudgePrompt MarshalIndent q =
     MarshalIndent \<lparr>jp_Scenario = or_Scenario q,
       jp_Seed = \<lparr>sc_CompanyName = TrimSpace (seed_CompanyName (or_Seed q)), sc_Domains = seed_Domains (or_Seed q),
                  sc_Industry = TrimSpace (seed_Industry (or_Seed q)), sc_ASN = seed_ASN (or_Seed q),
                  sc_CIDR = seed_CIDR (or_Seed q)\<rparr>,
       jp_Candidates = or_Candidates q\<rparr>"

definition EstimatePromptSize :: "(judgePayload \<Rightarrow> string) \<Rightarrow> ownershipRequest \<Rightarrow> int" where
  "EstimatePromptSize MarshalIndent q = int (length judgeSystemPrompt) + int (length (buildJudgePrompt MarshalIndent q))"

definition EvaluateCandidates ::
  "netLibrary \<Rightarrow> (judgePayload \<Rightarrow> string) \<Rightarrow> llmExchange \<Rightarrow> llmConfig \<Rightarrow> ownershipRequest \<Rightarrow> string + judgeDecision list" where
  "EvaluateCandidates net MarshalIndent x j q =
     (if or_Candidates q = [] then Inr []
      else case completeChat x j judgeSystemPrompt (buildJudgePrompt MarshalIndent q) of
             Inl e \<Rightarrow> Inl e
           | Inr content \<Rightarrow>
               (case parseLLMDecisions (lx_Decisions x) content of
                  Inl e \<Rightarrow> Inl e
                | Inr raw \<Rightarrow> Inr (ownershipDecisions net q raw)))"

section \<open>The judge of web hints\<close>

definition webHintSystemPrompt :: string where
  "webHintSystemPrompt = Join
     [''You judge whether external domains linked from a company's website should be collected as ''
        @ ''potential first-party assets.'',
      [],
      ''Be conservative.'',
      [],
      ''Collect only when the external registrable domain likely represents:'',
      ''- another domain owned or controlled by the same company'',
      ''- a rebrand, migration, acquisition, or sister brand'',
      ''- an explicit first-party legal, privacy, about, contact, or security property hosted on ''
        @ ''another owned root'',
      [],
      ''Reject third-party platforms and utilities, especially:'',
      ''- messaging, social, or contact platforms like whatsapp.com, facebook.com, instagram.com, ''
        @ ''linkedin.com, calendly.com'',
      ''- SaaS, analytics, CDNs, payment providers, booking providers, map providers, app stores, or ''
        @ ''generic vendor links'',
      [],
      ''Return strict JSON with this shape and no extra prose:'',
      ''{\"decisions\":[{\"root\":\"example.com\",\"collect\":true,\"confidence\":0.91,\"kind\":\"llm_l''
        @ ''ink\",\"reason\":\"brief reason\"}]}'',
      [],
      ''Only return decisions for the provided candidate roots.'',
      ''Confidence should be above 0.9 only for strong first-party ownership evidence.''] [CHR 0x0A]"

record webHintPayload =
  wp_CompanyName :: string
  wp_SeedDomains :: "string list"
  wp_PageDomain :: string
  wp_Candidates :: "webHintCandidate list"

definition buildWebHintPrompt :: "(webHintPayload \<Rightarrow> string) \<Rightarrow> seed \<Rightarrow> string \<Rightarrow> webHintCandidate list \<Rightarrow> string" where
  "buildWebHintPrompt MarshalIndent s baseDomain cs =
     MarshalIndent \<lparr>wp_CompanyName = TrimSpace (seed_CompanyName s), wp_SeedDomains = seed_Domains s,
       wp_PageDomain = NormalizeDomainIdentifier baseDomain, wp_Candidates = cs\<rparr>"

definition EvaluateAnchorRoots ::
  "netLibrary \<Rightarrow> (webHintPayload \<Rightarrow> string) \<Rightarrow> llmExchange \<Rightarrow> llmConfig \<Rightarrow> seed \<Rightarrow> string \<Rightarrow> webHintCandidate list
     \<Rightarrow> string + judgeDecision list" where
  "EvaluateAnchorRoots net MarshalIndent x j s baseDomain cs =
     (if cs = [] then Inr []
      else case completeChat x j webHintSystemPrompt (buildWebHintPrompt MarshalIndent s baseDomain cs) of
             Inl e \<Rightarrow> Inl e
           | Inr content \<Rightarrow>
               (case parseLLMDecisions (lx_Decisions x) content of
                  Inl e \<Rightarrow> Inl e
                | Inr raw \<Rightarrow> Inr (webHintDecisions net cs raw)))"

section \<open>What is certain about the answers\<close>

lemma ownershipDecisions_roots: "map jd_Root (ownershipDecisions net q raw) = map oc_Root (or_Candidates q)"
  by (simp add: ownershipDecisions_def decideCandidate_def Let_def comp_def)

lemma webHintDecisions_roots: "map jd_Root (webHintDecisions net cs raw) = map wh_Root cs"
  by (simp add: webHintDecisions_def decideCandidate_def Let_def comp_def)

definition soundDecision :: "judgeDecision \<Rightarrow> bool" where
  "soundDecision d \<longleftrightarrow> (jd_Collect d \<longrightarrow> jd_Explicit d) \<and> 0 \<le> jd_Confidence d \<and> jd_Confidence d \<le> 1"

lemma decideCandidate_sound: "soundDecision (decideCandidate kind m r)"
  by (simp add: soundDecision_def decideCandidate_def clampUnitFloat_def Let_def)

lemma EvaluateCandidates_spec:
  assumes "EvaluateCandidates net MarshalIndent x j q = Inr ds"
  shows "map jd_Root ds = map oc_Root (or_Candidates q)" and "\<forall>d \<in> set ds. soundDecision d"
  using assms ownershipDecisions_roots [of net q]
  by (auto simp: EvaluateCandidates_def ownershipDecisions_def decideCandidate_sound split: if_splits sum.splits)

lemma EvaluateAnchorRoots_spec:
  assumes "EvaluateAnchorRoots net MarshalIndent x j s baseDomain cs = Inr ds"
  shows "map jd_Root ds = map wh_Root cs" and "\<forall>d \<in> set ds. soundDecision d"
  using assms webHintDecisions_roots [of net cs]
  by (auto simp: EvaluateAnchorRoots_def webHintDecisions_def decideCandidate_sound split: if_splits sum.splits)

text \<open>A root is collected only when the model named it and said so.\<close>

lemma decisionsByRoot_from:
  "decisionsByRoot net raw m r = Some d \<Longrightarrow>
     m r = Some d \<or> (\<exists>d0 \<in> set raw. RegistrableDomain net (llm_Root d0) = r \<and> llm_Collect d0 = llm_Collect d)"
proof (induction raw arbitrary: m)
  case (Cons d0 raw)
  show ?case
  proof (cases "RegistrableDomain net (llm_Root d0) = []")
    case True
    with Cons.prems have "decisionsByRoot net raw m r = Some d" by simp
    from Cons.IH [OF this] show ?thesis by auto
  next
    case False
    let ?m = "m(RegistrableDomain net (llm_Root d0) \<mapsto> d0\<lparr>llm_Root := RegistrableDomain net (llm_Root d0),
        llm_Confidence := clampUnitFloat (llm_Confidence d0)\<rparr>)"
    have "decisionsByRoot net raw ?m r = Some d" using False Cons.prems by (simp add: Let_def)
    from Cons.IH [OF this] show ?thesis by (auto split: if_splits)
  qed
qed simp

lemma collected_by_model:
  assumes "d \<in> set (ownershipDecisions net q raw)" and "jd_Collect d"
  shows "\<exists>d0 \<in> set raw. llm_Collect d0 \<and> RegistrableDomain net (llm_Root d0) = jd_Root d"
proof -
  from assms obtain r x where "decisionsByRoot net raw Map.empty r = Some x" "llm_Collect x" "jd_Root d = r"
    by (auto simp: ownershipDecisions_def decideCandidate_def Let_def split: if_splits)
  with decisionsByRoot_from [OF this(1)] show ?thesis by auto
qed

text \<open>Whatever is wrapped around it, the object found starts and ends with its braces.\<close>

lemma jsonObject_spec:
  assumes "jsonObject raw = Some object"
  shows "\<exists>before after. raw = before @ object @ after \<and> hd object = CHR ''{'' \<and> last object = CHR ''}''
     \<and> CHR ''{'' \<notin> set before \<and> CHR ''}'' \<notin> set after"
proof -
  let ?rest = "dropWhile (\<lambda>c. c \<noteq> CHR ''{'') raw"
  let ?obj = "rev (dropWhile (\<lambda>c. c \<noteq> CHR ''}'') (rev ?rest))"
  let ?before = "takeWhile (\<lambda>c. c \<noteq> CHR ''{'') raw" and ?after = "rev (takeWhile (\<lambda>c. c \<noteq> CHR ''}'') (rev ?rest))"
  have obj: "object = ?obj" "?obj \<noteq> []" using assms by (auto simp: jsonObject_def Let_def split: if_splits)
  have rest: "?rest = ?obj @ ?after" by (metis rev_append rev_rev_ident takeWhile_dropWhile_id)
  have "raw = ?before @ ?obj @ ?after" using rest by (metis takeWhile_dropWhile_id)
  moreover have "hd ?obj = CHR ''{''"
  proof -
    have "?rest \<noteq> []" using obj(2) by (metis dropWhile.simps(1) rev.simps(1))
    from hd_dropWhile [OF this] show ?thesis using rest obj(2) by (metis hd_append2)
  qed
  moreover have "last ?obj = CHR ''}''"
  proof -
    have "dropWhile (\<lambda>c. c \<noteq> CHR ''}'') (rev ?rest) \<noteq> []" using obj(2) by (metis rev.simps(1))
    from hd_dropWhile [OF this] show ?thesis by (metis last_rev)
  qed
  moreover have "CHR ''{'' \<notin> set ?before" "CHR ''}'' \<notin> set ?after" by (auto dest: set_takeWhileD)
  ultimately show ?thesis using obj(1) by blast
qed

end
