(* ===== verification/Collector_Facts.thy ===== *)
theory Collector_Facts
  imports Passive_Collectors Engine_Facts
begin

text \<open>
  What is certain about the passive collectors, whatever the archives answer: they are stages as the
  engine needs them, they never fail, they report one enumeration for each seed of the wave, and
  every query ends in an error that is recorded or in assets that are appended. The retrying
  transport makes at most three attempts.
\<close>

section \<open>Retries\<close>

lemma attemptFrom_bounds:
  assumes "attemptFrom opts send ended endsIn n backoff lastErr = (r, waits)"
  shows "int (length waits) \<le> max 0 (MaxAttempts opts - n)"
    and "MaxBackoff opts > 0 \<Longrightarrow> \<forall>w \<in> set waits. 0 < w \<and> w \<le> max (MaxBackoff opts) 0"
  using assms
proof (induction opts send ended endsIn n backoff lastErr arbitrary: r waits rule: attemptFrom.induct)
  case (1 opts send ended endsIn n backoff lastErr)
  { case 1
    then show ?case
      using "1.IH"(1)
      by (subst (asm) attemptFrom.simps) (force simp: Let_def split: if_splits option.splits prod.splits)
  next
    case 2
    have w: "0 < waitOf opts b \<and> waitOf opts b \<le> MaxBackoff opts" for b
      using 2 by (auto simp: waitOf_def Let_def millisecond_def)
    from 2 show ?case
      using "1.IH"(2) w
      by (subst (asm) attemptFrom.simps) (force simp: Let_def split: if_splits option.splits prod.splits)
  }
qed

text \<open>The first attempt that is not retried decides.\<close>

lemma attemptFrom_first:
  assumes "\<not> shouldRetry (ended n) (send n)" and "n \<le> MaxAttempts opts"
  shows "attemptFrom opts send ended endsIn n backoff lastErr = (outcomeOf (send n), [])"
  using assms by (subst attemptFrom.simps) (simp add: Let_def)

lemma attemptFrom_retry:
  assumes "shouldRetry (ended n) (send n)" and "n < MaxAttempts opts" and "endsIn n = None"
  shows "fst (attemptFrom opts send ended endsIn n backoff lastErr) =
    fst (attemptFrom opts send ended endsIn (n + 1) (nextBackoff opts backoff)
           (case send n of Answered _ \<Rightarrow> lastErr | Failed e \<Rightarrow> Some e | Canceled e \<Rightarrow> Some e))"
  using assms by (subst attemptFrom.simps) (simp add: Let_def split_def)

section \<open>The frame\<close>

lemma drawAll_length: "length (fst (drawAll f xs env)) = length xs"
  by (induction xs arbitrary: env) (simp_all add: split_def Let_def)

lemma drawAll_map:
  assumes "\<And>x env. x \<in> set xs \<Longrightarrow> g (fst (f x env)) = h x"
  shows "map g (fst (drawAll f xs env)) = map h xs"
  using assms by (induction xs arbitrary: env) (simp_all add: split_def Let_def)

lemma drawAll_all:
  assumes "\<And>x env. x \<in> set xs \<Longrightarrow> P (fst (f x env))"
  shows "\<forall>a \<in> set (fst (drawAll f xs env)). P a"
  using assms by (induction xs arbitrary: env) (simp_all add: split_def Let_def)

lemma querySeed_fields:
  "enum_SeedID (fst (fst (querySeed prefix query s env))) = seed_ID s"
  "length (snd (fst (querySeed prefix query s env))) = length (seed_Domains s)"
  by (simp_all add: querySeed_def startEnumeration_def split_def Let_def drawAll_length)

text \<open>Every asset of a query has a type without a bar and no PTR name.\<close>

definition cleanQuery :: "domainQuery \<Rightarrow> bool" where
  "cleanQuery query \<longleftrightarrow> (\<forall>enumID d env as. fst (query enumID d env) = Inr as \<longrightarrow> (\<forall>a \<in> set as. cleanAsset a))"

definition cleanResult :: "string + asset list \<Rightarrow> bool" where
  "cleanResult r \<longleftrightarrow> (case r of Inl _ \<Rightarrow> True | Inr as \<Rightarrow> \<forall>a \<in> set as. cleanAsset a)"

lemma cleanQuery_result: "cleanQuery query \<Longrightarrow> cleanResult (fst (query enumID d env))"
  by (auto simp: cleanQuery_def cleanResult_def split: sum.split)

lemma cleanQuery_assets:
  assumes "cleanQuery query"
  shows "\<forall>a \<in> set (assetsOf (concat (map snd (fst (drawAll (querySeed prefix query) seeds env))))). cleanAsset a"
proof -
  have one: "\<forall>r \<in> set (snd (fst (querySeed prefix query s env'))). cleanResult r" for s env'
    using drawAll_all [of _ cleanResult "query i" for i] cleanQuery_result [OF assms]
    by (simp add: querySeed_def split_def Let_def)
  have "\<forall>x \<in> set (fst (drawAll (querySeed prefix query) seeds env)). \<forall>r \<in> set (snd x). cleanResult r"
    by (rule drawAll_all) (rule one)
  then show ?thesis by (force simp: assetsOf_def cleanResult_def split: sum.splits)
qed

lemma report_keeps: "keeps s (onContext (report enums errs) s)"
proof -
  have "same_frontier (fst s) (report enums errs (fst s))" "same_assets (fst s) (report enums errs (fst s))"
    by (simp_all add: report_def same_frontier_def same_assets_def)
  from keeps_frame [of s "onContext (report enums errs) s"] this same_assets_ok [OF this(2)] show ?thesis
    by (simp add: onContext_def)
qed

lemma append_keeps: "\<forall>a \<in> set as. cleanAsset a \<Longrightarrow> keeps s (onContext (AppendAssets as) s)"
  using keeps_append(1) [of as "fst s" "snd s" "snd s"] by (simp add: onContext_def)

lemma passive_thread_ok: "cleanQuery query \<Longrightarrow> thread_ok keeps (passiveProcess prefix query env)"
  using cleanQuery_assets by (simp add: passiveProcess_def Let_def keeps.R_refl report_keeps append_keeps)

text \<open>What the context has gained when the collector is done.\<close>

lemma passive_run:
  fixes query prefix env p b
  defines "found \<equiv> fst (drawAll (querySeed prefix query) (CollectionSeeds p) (env (p, b)))"
  shows "run_thread (passiveProcess prefix query env) (p, b)
     = (Inr None, (AppendAssets (assetsOf (concat (map snd found)))
                     (report (map fst found) (errorsOf (concat (map snd found))) p), b))"
    and "map enum_SeedID (map fst found) = map seed_ID (CollectionSeeds p)"
    and "map (\<lambda>x. length (snd x)) found = map (\<lambda>s. length (seed_Domains s)) (CollectionSeeds p)"
  by (simp_all add: passiveProcess_def found_def onContext_def Let_def comp_def querySeed_fields
      drawAll_map [where h = "seed_ID"] drawAll_map [where h = "\<lambda>s. length (seed_Domains s)"])

section \<open>The collectors\<close>

lemma plainPTR_noIPDetails [simp]: "plainPTR (Some noIPDetails)"
  by (simp add: plainPTR_def noIPDetails_def)

lemma newAsset_clean:
  "CHR ''|'' \<notin> set t \<Longrightarrow> plainPTR ip \<Longrightarrow> cleanAsset (fst (newAsset prefix enumID source t dd ip identifier env))"
  by (simp add: newAsset_def cleanAsset_def split_def Let_def)

lemma newAsset_fields [simp]:
  "asset_Identifier (fst (newAsset prefix enumID source t dd ip identifier env)) = identifier"
  "asset_Type (fst (newAsset prefix enumID source t dd ip identifier env)) = t"
  "asset_EnumerationID (fst (newAsset prefix enumID source t dd ip identifier env)) = enumID"
  by (simp_all add: newAsset_def split_def Let_def)

lemma namedAssets_clean:
  "CHR ''|'' \<notin> set t \<Longrightarrow> plainPTR ip \<Longrightarrow> fst (namedAssets (newAsset prefix enumID source t dd ip) names env) = Inr as
     \<Longrightarrow> \<forall>a \<in> set as. cleanAsset a"
  using drawAll_all [of names cleanAsset "newAsset prefix enumID source t dd ip" env]
  by (auto simp: namedAssets_def newAsset_clean split_def Let_def)

lemma hackerTargetLine_all:
  assumes "a \<in> set (fst (hackerTargetLine net canonicalIP enumID line env))"
  shows "cleanAsset a \<and> (asset_Type a = AssetTypeDomain \<longrightarrow> isAcceptedDomainIdentifier net (asset_Identifier a))"
  using assms
  by (auto simp: hackerTargetLine_def Let_def split_def newAsset_clean split: if_splits option.splits)

lemma HackerTarget_accepted:
  assumes "fst (HackerTargetQuery net canonicalIP web enumID d env) = Inr as" and "a \<in> set as"
  shows "cleanAsset a \<and> (asset_Type a = AssetTypeDomain \<longrightarrow> isAcceptedDomainIdentifier net (asset_Identifier a))"
proof -
  obtain body where "as = concat (fst (drawAll (hackerTargetLine net canonicalIP enumID) (Split body CHR 0x0A) env))"
    using assms(1) by (auto simp: HackerTargetQuery_def failWith_def Let_def split_def split: sum.splits option.splits)
  moreover have "\<forall>l \<in> set (fst (drawAll (hackerTargetLine net canonicalIP enumID) (Split body CHR 0x0A) env)).
      \<forall>a \<in> set l. cleanAsset a \<and> (asset_Type a = AssetTypeDomain \<longrightarrow> isAcceptedDomainIdentifier net (asset_Identifier a))"
    by (rule drawAll_all) (use hackerTargetLine_all in blast)
  ultimately show ?thesis using assms(2) by auto
qed

lemma clean_queries:
  "cleanQuery (CrtShQuery decode web)" "cleanQuery (AlienVaultQuery decode web)" "cleanQuery (WaybackQuery net web)"
  "cleanQuery (RDAPQuery lookup)" "cleanQuery (HackerTargetQuery net canonicalIP web)"
proof -
  have named: "\<forall>a \<in> set as. cleanAsset a"
    if "fst (namedAssets (newAsset prefix enumID source AssetTypeDomain dd None) names env) = Inr as"
    for prefix enumID source dd names env as
    by (rule namedAssets_clean [OF _ _ that]) simp_all
  show "cleanQuery (CrtShQuery decode web)" "cleanQuery (AlienVaultQuery decode web)" "cleanQuery (WaybackQuery net web)"
    unfolding cleanQuery_def CrtShQuery_def AlienVaultQuery_def WaybackQuery_def
    by (auto simp: failWith_def dest!: named split: sum.splits)
  show "cleanQuery (RDAPQuery lookup)"
    unfolding cleanQuery_def RDAPQuery_def
    by (auto simp: failWith_def dest!: named split: lookupResult.splits option.splits)
  show "cleanQuery (HackerTargetQuery net canonicalIP web)"
    unfolding cleanQuery_def using HackerTarget_accepted by blast
qed

text \<open>The wildcard prefix of a certificate name is removed once, and each name is reported once.\<close>

lemma crtshNames_distinct: "distinct (crtshNames vs)"
  unfolding crtshNames_def using distinct_uniqueBy [of "\<lambda>n. n" "{}"] by simp

end
