(* ===== verification/Judged_Pivot_Facts.thy ===== *)
theory Judged_Pivot_Facts
  imports Judged_Pivots LLM_Judge Stage_Facts Collector_Facts
begin

text \<open>
  A collector built on the frame of \<open>Judged_Pivots\<close> keeps the invariants of the context when the roots it
  asks about and promotes hold no comma. The judge of the program decides exactly about the candidates
  it was asked about.
\<close>

section \<open>Clean work\<close>

definition cleanPivotWork :: "pivotWork \<Rightarrow> bool" where
  "cleanPivotWork w \<longleftrightarrow> (\<forall>a \<in> set (pw_assets w). cleanAsset a)"

lemma cleanPivotWork_simps [simp]:
  "cleanPivotWork (emptyWork env)"
  "cleanPivotWork (pivotErrors es w) = cleanPivotWork w"
  "cleanPivotWork (snd (pivotEnumeration prefix s w)) = cleanPivotWork w"
  by (simp_all add: cleanPivotWork_def emptyWork_def pivotErrors_def pivotEnumeration_def split_def Let_def)

lemma pivotAsset_clean [simp]: "cleanPivotWork (pivotAsset prefix source e details data i w) = cleanPivotWork w"
proof -
  have "cleanAsset (fst (newAsset prefix e source AssetTypeDomain (Some details) None i (pw_env w)))"
    by (rule newAsset_clean) simp_all
  then show ?thesis by (auto simp: cleanPivotWork_def pivotAsset_def cleanAsset_def split_def Let_def)
qed

lemma pivotAssets_clean [simp]:
  "cleanPivotWork (fold (pivotAsset prefix source e details data) is w) = cleanPivotWork w"
  by (induction "is" arbitrary: w) simp_all

section \<open>Judging\<close>

lemma pivotDecisions_ok:
  assumes pick: "\<And>d p x ev. d \<in> set ds \<Longrightarrow> pick d p = Some (x, ev) \<Longrightarrow> commaFree x"
    and add: "\<And>d w. cleanPivotWork w \<Longrightarrow> cleanPivotWork (add d w)"
    and k: "\<And>w. cleanPivotWork w \<Longrightarrow> thread_ok keeps (k w)" and "cleanPivotWork w"
  shows "thread_ok keeps (pivotDecisions h pick add ds k w)"
  using assms(4) pick
proof (induction ds arbitrary: w)
  case (Cons d ds)
  have "keeps st (case pick d (fst st) of None \<Rightarrow> st
     | Some (x, ev) \<Rightarrow> snd (PromoteSeedCandidate h x ev (fst st) (snd st)))" for st
    using Cons.prems(2) [of d "fst st"] by (auto simp: keeps.R_refl keeps_promotion_state split: option.split)
  moreover have "thread_ok keeps (pivotDecisions h pick add ds k w')" if "cleanPivotWork w'" for w'
    by (rule Cons.IH [OF that]) (use Cons.prems(2) in auto)
  ultimately show ?case using Cons.prems(1) add by (auto split: option.split)
qed (simp add: k)

lemma judgePivots_ok:
  assumes net: "suffixLibrary net" and roots: "\<And>c. c \<in> set (or_Candidates request) \<Longrightarrow> CHR '','' \<notin> set (oc_Root c)"
    and pick: "\<And>j ds d p x ev. judge = Some j \<Longrightarrow> j request = Inr ds \<Longrightarrow> d \<in> set ds \<Longrightarrow> pick d p = Some (x, ev)
                 \<Longrightarrow> commaFree x"
    and add: "\<And>d w. cleanPivotWork w \<Longrightarrow> cleanPivotWork (add d w)"
    and k: "\<And>w. cleanPivotWork w \<Longrightarrow> thread_ok keeps (k w)" and w: "cleanPivotWork w"
  shows "thread_ok keeps (judgePivots net h judge collector request pick add k w)"
proof -
  have "keeps st (onContext (RecordOwnershipJudgeEvaluation net collector request ds) st)" for ds st
    by (rule keeps_ownership_evaluation [OF net]) (use roots in blast)
  moreover have "thread_ok keeps (pivotDecisions h pick add ds k w)" if "judge = Some j" "j request = Inr ds" for j ds
    by (rule pivotDecisions_ok [OF pick [OF that] add k w])
  ultimately show ?thesis using k w by (auto simp: judgePivots_def split: option.split sum.split)
qed

text \<open>The judge answers for the candidates of the request only.\<close>

definition answersCandidates :: "ownershipJudge option \<Rightarrow> bool" where
  "answersCandidates judge \<longleftrightarrow>
     (\<forall>j q ds. judge = Some j \<and> j q = Inr ds \<longrightarrow> jd_Root ` set ds \<subseteq> oc_Root ` set (or_Candidates q))"

lemma EvaluateCandidates_answers: "answersCandidates (Some (EvaluateCandidates net MarshalIndent x j))"
  using EvaluateCandidates_spec(1) [of net MarshalIndent x j] by (fastforce simp: answersCandidates_def simp flip: set_map)

lemma answersCandidatesD:
  "answersCandidates judge \<Longrightarrow> judge = Some j \<Longrightarrow> j q = Inr ds \<Longrightarrow> d \<in> set ds
     \<Longrightarrow> \<exists>c \<in> set (or_Candidates q). jd_Root d = oc_Root c"
  by (fastforce simp: answersCandidates_def)

section \<open>The stage\<close>

definition turnOK :: "'b pivotTurn \<Rightarrow> bool" where
  "turnOK turn \<longleftrightarrow> (\<forall>s k w. commaFree s \<longrightarrow> (\<forall>w'. cleanPivotWork w' \<longrightarrow> thread_ok keeps (k w')) \<longrightarrow> cleanPivotWork w
     \<longrightarrow> thread_ok keeps (turn s k w))"

lemma eachSeed_ok:
  assumes "turnOK turn" and "\<forall>s \<in> set ss. commaFree s" and "cleanPivotWork w"
  shows "thread_ok keeps (eachSeed turn ss w)"
  using assms(2,3)
proof (induction ss arbitrary: w)
  case Nil
  then show ?case by (simp add: report_keeps append_keeps cleanPivotWork_def)
next
  case (Cons s ss)
  have "\<forall>w'. cleanPivotWork w' \<longrightarrow> thread_ok keeps (eachSeed turn ss w')" using Cons by simp
  with assms(1) Cons.prems show ?case by (simp add: turnOK_def)
qed

lemma collected_commaFree:
  assumes "context_ok D p" shows "\<forall>s \<in> set (CollectionSeeds p). commaFree s"
  using context_okD(1) [OF assms]
  by (auto simp: sched_inv_def slices_ok_def normalDomains_def commaFree_def CollectionSeeds_def)

lemma judgedProcess_ok:
  fixes turn :: "'b pivotTurn"
  assumes "turnOK turn"
  shows "thread_ok keeps (judgedProcess turn env)"
proof -
  have "thread_ok keeps (eachSeed turn (CollectionSeeds (fst st)) (emptyWork (env st)))" if "\<not> idle keeps st" for st :: "'b engineState"
    by (rule eachSeed_ok [OF assms]) (use busy_keeps [OF that] collected_commaFree in auto)
  then show ?thesis unfolding judgedProcess_def by (intro thread_ok.step keeps.R_refl)
qed

end
