(* ===== verification/DNS_Facts.thy ===== *)
theory DNS_Facts
  imports DNS_Collector Judged_Pivot_Facts
begin

text \<open>
  What the DNS stage does: batching does not change what a sweep finds, the probes of a sweep are new
  registrable names and no more than the cap, the judge is only asked about live roots that share
  something with the seed, and the stage keeps the invariants of the context.
\<close>

section \<open>Batches\<close>

lemma concat_batchesOf: "concat (batchesOf n xs) = xs"
proof (induction n xs rule: batchesOf.induct)
  case (1 n xs)
  show ?case
  proof (cases "xs = []")
    case False
    with 1 show ?thesis by (subst batchesOf.simps) simp
  qed (simp add: batchesOf.simps)
qed

lemma batchesOf_length: "b \<in> set (batchesOf n xs) \<Longrightarrow> b \<noteq> [] \<and> length b \<le> max 1 n"
proof (induction n xs rule: batchesOf.induct)
  case (1 n xs)
  show ?case
  proof (cases "xs = []")
    case False
    have "b = take (max 1 n) xs \<or> b \<in> set (batchesOf n (drop (max 1 n) xs))"
      using "1.prems" by (subst (asm) batchesOf.simps) (simp add: False)
    with 1 False show ?thesis by auto
  qed (use 1 in \<open>simp add: batchesOf.simps\<close>)
qed

lemma concat_map_batches:
  assumes "\<And>xs ys. f (xs @ ys) = f xs @ f ys" and "f [] = []"
  shows "concat (map f bs) = f (concat bs)"
  by (induction bs) (simp_all add: assms)

lemma sum_map_batches:
  assumes "\<And>xs ys. f (xs @ ys) = f xs + f ys" and "f [] = (0 :: nat)"
  shows "sum_list (map f bs) = f (concat bs)"
  by (induction bs) (simp_all add: assms)

text \<open>A sweep in batches finds what one look at every root would find, in the order of the roots.\<close>

lemma sweep_found:
  fixes net rs roots n
  shows "fst (observeVariantCandidateRoots net rs ends n roots) =
     map (\<lambda>r. \<lparr>od_root = r, od_observation = fst (observeVariantRoot net rs r),
               od_rdap = registeredData (lookupRDAPWithTimeout rs r)\<rparr>) (filter (variantLive net rs) roots)"
    (is "_ = ?found roots")
proof -
  have "concat (map ?found (batchesOf (nat n) roots)) = ?found (concat (batchesOf (nat n) roots))"
    by (rule concat_map_batches) simp_all
  then show ?thesis
    by (simp add: observeVariantCandidateRoots_def observeVariantCandidateRootBatch_def Let_def comp_def concat_batchesOf)
qed

lemma sweep_metrics:
  fixes net rs ends n roots
  defines "metrics \<equiv> snd (snd (observeVariantCandidateRoots net rs ends n roots))"
  shows "vm_preflightNXDOMAIN metrics = length (filter (\<lambda>r. fst (snd (observeVariantRoot net rs r))) roots)"
    and "vm_fullObservations metrics = length (filter (\<lambda>r. snd (snd (observeVariantRoot net rs r))) roots)"
proof -
  have sum: "sum_list (map (\<lambda>b. length (filter P b)) (batchesOf (nat n) roots)) = length (filter P roots)" for P
    using sum_map_batches [of "\<lambda>b. length (filter P b)" "batchesOf (nat n) roots"] by (simp add: concat_batchesOf)
  show "vm_preflightNXDOMAIN metrics = length (filter (\<lambda>r. fst (snd (observeVariantRoot net rs r))) roots)"
    and "vm_fullObservations metrics = length (filter (\<lambda>r. snd (snd (observeVariantRoot net rs r))) roots)"
    by (simp_all add: metrics_def observeVariantCandidateRoots_def observeVariantCandidateRootBatch_def Let_def comp_def sum)
qed

text \<open>The errors are those of the live roots, in an order that only depends on the goroutines.\<close>

lemma sweep_errors:
  assumes "\<And>xs. mset (ends xs) = mset xs"
  shows "mset (fst (snd (observeVariantCandidateRoots net rs ends n roots)))
     = mset (concat (map (\<lambda>r. rdapErrors (lookupRDAPWithTimeout rs r)) (filter (variantLive net rs) roots)))"
proof -
  let ?errs = "\<lambda>xs. concat (map (\<lambda>r. rdapErrors (lookupRDAPWithTimeout rs r)) (filter (variantLive net rs) xs))"
  have cong: "mset (concat (map f xs)) = (\<Sum>x \<in># mset xs. mset (f x))" for f :: "string \<Rightarrow> string list" and xs
    by (induction xs) simp_all
  have one: "mset (?errs (ends xs)) = mset (?errs xs)" for xs
    by (simp add: cong assms)
  have "mset (concat (map (\<lambda>b. ?errs (ends b)) bs)) = mset (?errs (concat bs))" for bs
    by (induction bs) (simp_all add: one)
  then show ?thesis
    by (simp add: observeVariantCandidateRoots_def observeVariantCandidateRootBatch_def Let_def comp_def concat_batchesOf)
qed

section \<open>The names to probe\<close>

definition probeOK ::
  "netLibrary \<Rightarrow> string set \<Rightarrow> string \<Rightarrow> string list \<Rightarrow> pivotCandidates \<Rightarrow> string \<Rightarrow> bool" where
  "probeOK net S label seedRoots cands r \<longleftrightarrow>
     r \<noteq> [] \<and> r \<notin> set seedRoots \<and> RegistrableDomain net r = r \<and> r \<notin> fst ` set cands
     \<and> (\<exists>suffix \<in> S. r = NormalizeDomainIdentifier (label @ ''.'' @ suffix))"

lemma keys_AList_update: "fst ` set (AList.update k v m) = insert k (fst ` set m)"
  using dom_update [of k v m] by simp

lemma probeLoop_spec:
  assumes "probeLoop net c label seedRoots suffixes seen probes cands = (out, cands')"
    and "set suffixes \<subseteq> S" and "distinct probes" and "\<forall>r \<in> set probes. probeOK net S label seedRoots cands r \<and> r \<in> seen"
    and "co_variantSweepMode c = ''prioritized'' \<longrightarrow> int (length probes) < co_maxVariantProbesPerRoot c"
  shows "distinct out \<and> (\<forall>r \<in> set out. probeOK net S label seedRoots cands r)
     \<and> (co_variantSweepMode c = ''prioritized'' \<longrightarrow> int (length out) \<le> co_maxVariantProbesPerRoot c)
     \<and> fst ` set cands' = fst ` set cands"
  using assms
proof (induction suffixes arbitrary: seen probes cands)
  case (Cons suffix rest)
  define r0 where "r0 = NormalizeDomainIdentifier (label @ ''.'' @ suffix)"
  note step = Cons.prems(1) [unfolded probeLoop.simps Let_def, folded r0_def]
  consider (skip) "r0 = [] \<or> r0 \<in> seen" | (known) "r0 \<noteq> []" "r0 \<notin> seen" "r0 \<in> set seedRoots \<or> RegistrableDomain net r0 \<noteq> r0"
    | (cand) e where "r0 \<noteq> []" "r0 \<notin> seen" "\<not> (r0 \<in> set seedRoots \<or> RegistrableDomain net r0 \<noteq> r0)" "map_of cands r0 = Some e"
    | (probe) "r0 \<noteq> []" "r0 \<notin> seen" "\<not> (r0 \<in> set seedRoots \<or> RegistrableDomain net r0 \<noteq> r0)" "map_of cands r0 = None"
    by (cases "map_of cands r0") auto
  then show ?case
  proof cases
    case skip
    with step Cons.IH [OF _ _ Cons.prems(3-5)] Cons.prems(2) show ?thesis by simp
  next
    case known
    with step have "probeLoop net c label seedRoots rest (insert r0 seen) probes cands = (out, cands')" by simp
    from Cons.IH [OF this _ Cons.prems(3) _ Cons.prems(5)] Cons.prems(2,4) show ?thesis by simp
  next
    case cand
    let ?m = "AList.update r0 (addSource ''dns_variant'' r0 (e\<lparr>pc_variant := True\<rparr>)) cands"
    from cand step have run: "probeLoop net c label seedRoots rest (insert r0 seen) probes ?m = (out, cands')" by simp
    have "r0 \<in> fst ` set cands" using cand(4) by (metis map_of_eq_None_iff option.distinct(1))
    then have keys: "fst ` set ?m = fst ` set cands" by (auto simp: keys_AList_update)
    have same: "probeOK net S label seedRoots ?m = probeOK net S label seedRoots cands"
      by (rule ext) (simp add: probeOK_def keys)
    from Cons.IH [OF run _ Cons.prems(3) _ Cons.prems(5)] Cons.prems(2,4) show ?thesis by (simp add: same keys)
  next
    case probe
    have ok: "probeOK net S label seedRoots cands r0"
      using probe Cons.prems(2) by (auto simp: probeOK_def map_of_eq_None_iff r0_def)
    have new: "distinct (probes @ [r0])" using Cons.prems(3,4) probe(2) by auto
    have all: "\<forall>r \<in> set (probes @ [r0]). probeOK net S label seedRoots cands r \<and> r \<in> insert r0 seen"
      using Cons.prems(4) ok by auto
    show ?thesis
    proof (cases "co_variantSweepMode c = ''prioritized'' \<and> int (length (probes @ [r0])) \<ge> co_maxVariantProbesPerRoot c")
      case True
      with step probe have "out = probes @ [r0]" "cands' = cands" by simp_all
      with new all Cons.prems(5) True show ?thesis by auto
    next
      case False
      with step probe have run: "probeLoop net c label seedRoots rest (insert r0 seen) (probes @ [r0]) cands = (out, cands')"
        by auto
      show ?thesis by (rule Cons.IH [OF run _ new all]) (use False Cons.prems(2) in auto)
    qed
  qed
qed auto

lemma buildVariantProbeRoots_spec:
  assumes "buildVariantProbeRoots net c s roots seedRoots cands = (probes, cands')"
  defines "S \<equiv> set (prioritizedVariantSuffixes net c s roots)"
  shows "distinct probes
     \<and> (\<exists>label. (probes \<noteq> [] \<longrightarrow> (\<exists>r \<in> set roots. label = RegistrableLabel net r)) \<and> (\<forall>r \<in> set probes. probeOK net S label seedRoots cands r))
     \<and> (co_variantSweepMode c = ''prioritized'' \<longrightarrow> int (length probes) \<le> max 0 (co_maxVariantProbesPerRoot c))
     \<and> fst ` set cands' = fst ` set cands"
proof -
  let ?labels = "filter (\<lambda>l. l \<noteq> []) (map (RegistrableLabel net) roots)"
  show ?thesis
  proof (cases "(co_variantSweepMode c = ''prioritized'' \<and> co_maxVariantProbesPerRoot c \<le> 0) \<or> ?labels = []")
    case True
    with assms have "probes = [] \<and> cands' = cands"
      unfolding buildVariantProbeRoots_def by (auto split: if_splits list.splits)
    then show ?thesis by simp
  next
    case False
    then obtain label ls where ls: "?labels = label # ls" by (cases ?labels) auto
    then have "label \<in> set ?labels" by simp
    then have label: "\<exists>r \<in> set roots. label = RegistrableLabel net r" by auto
    from False ls assms
    have "probeLoop net c label seedRoots (prioritizedVariantSuffixes net c s roots) {} [] cands = (probes, cands')"
      by (auto simp: buildVariantProbeRoots_def)
    from probeLoop_spec [OF this, of S] False
    have "distinct probes" "\<forall>r \<in> set probes. probeOK net S label seedRoots cands r"
      "co_variantSweepMode c = ''prioritized'' \<longrightarrow> int (length probes) \<le> max 0 (co_maxVariantProbesPerRoot c)"
      by (simp_all add: S_def) (use False in auto)
    moreover have "fst ` set cands' = fst ` set cands"
      using probeLoop_spec [OF \<open>probeLoop net c label _ _ _ _ _ = _\<close>, of S] False by (auto simp: not_le S_def)
    ultimately show ?thesis using label by blast
  qed
qed

section \<open>Who the judge is asked about\<close>

lemma evidence_corroborated:
  assumes "pc_observation pc = Some ob"
  shows "snd (buildDNSCandidateEvidence net pc b) \<longleftrightarrow> sharedEvidence net b ob (pc_rdap pc) \<noteq> []"
    and "set (sharedEvidence net b ob (pc_rdap pc)) \<subseteq> set (fst (buildDNSCandidateEvidence net pc b))"
  using assms by (auto simp: buildDNSCandidateEvidence_def Let_def)

lemma judgeCandidates_iff:
  "x \<in> set (judgeCandidates net b m) \<longleftrightarrow>
     (\<exists>r pc ob. r \<in> set (sortedDNSPivotRoots m) \<and> map_of m r = Some pc \<and> pc_observation pc = Some ob \<and> do_live ob
        \<and> snd (buildDNSCandidateEvidence net pc b) \<and> x = \<lparr>oc_Root = r, oc_Evidence = fst (buildDNSCandidateEvidence net pc b)\<rparr>)"
  unfolding judgeCandidates_def Let_def split_def set_concat set_map
  by (simp add: Bex_def split: option.splits) metis

lemma judgeCandidates_spec:
  assumes "x \<in> set (judgeCandidates net b m)"
  shows "\<exists>pc ob. map_of m (oc_Root x) = Some pc \<and> pc_observation pc = Some ob \<and> do_live ob
     \<and> sharedEvidence net b ob (pc_rdap pc) \<noteq> [] \<and> set (sharedEvidence net b ob (pc_rdap pc)) \<subseteq> set (oc_Evidence x)"
  using assms unfolding judgeCandidates_iff by (auto simp: evidence_corroborated)

lemma judgeCandidates_complete:
  assumes "map_of m r = Some pc" and "pc_observation pc = Some ob" and "do_live ob"
    and "sharedEvidence net b ob (pc_rdap pc) \<noteq> []"
  shows "r \<in> oc_Root ` set (judgeCandidates net b m)"
proof -
  have r: "r \<in> set (sortedDNSPivotRoots m)"
    using assms(1) by (metis domI dom_map_of_conv_image_fst list.set_map set_sort sortedDNSPivotRoots_def)
  have "\<lparr>oc_Root = r, oc_Evidence = fst (buildDNSCandidateEvidence net pc b)\<rparr> \<in> set (judgeCandidates net b m)"
    unfolding judgeCandidates_iff using r assms evidence_corroborated(1) [OF assms(2), of net b] by blast
  from imageI [OF this, of oc_Root] show ?thesis by simp
qed

section \<open>Names without commas\<close>

text \<open>Names taken from records match the pattern of a domain, so they hold no comma.\<close>

lemma candidate_comma:
  assumes "suffixLibrary net" and "c \<in> set (domainCandidates net ob)"
  shows "CHR '','' \<notin> set (dc_root c)"
proof -
  have "CHR '','' \<notin> set (dc_root c)" if "c \<in> set (candidatesFrom net kind values)" for kind "values"
  proof -
    have "\<exists>x v. x \<in> set (ExtractDNSDomainCandidates net v) \<and> dc_root c = RegistrableDomain net x"
      using that unfolding candidatesFrom_def by fastforce
    then obtain x v where x: "x \<in> set (ExtractDNSDomainCandidates net v)" "dc_root c = RegistrableDomain net x" by blast
    with extracted_comma [OF assms(1)] show ?thesis by metis
  qed
  with assms(2) show ?thesis
    unfolding domainCandidates_def by (auto dest!: subsetD [OF set_uniqueBy_subset] split: if_splits)
qed

definition cleanPivots :: "pivotCandidates \<Rightarrow> bool" where
  "cleanPivots m \<longleftrightarrow> (\<forall>r \<in> fst ` set m. CHR '','' \<notin> set r)"

lemma cleanPivots_update: "CHR '','' \<notin> set r \<Longrightarrow> cleanPivots m \<Longrightarrow> cleanPivots (AList.update r c m)"
  by (simp add: cleanPivots_def keys_AList_update)

lemma cleanPivots_updatePivot:
  "CHR '','' \<notin> set r \<Longrightarrow> cleanPivots m \<Longrightarrow> cleanPivots (updatePivotCandidate r f m)"
  by (simp add: updatePivotCandidate_def cleanPivots_update NormalizeDomainIdentifier_comma Let_def)

lemma cleanPivots_fold:
  "\<forall>x \<in> set xs. CHR '','' \<notin> set (root_of x) \<Longrightarrow> cleanPivots m
     \<Longrightarrow> cleanPivots (fold (\<lambda>x. updatePivotCandidate (root_of x) (f x)) xs m)"
  by (induction xs arbitrary: m) (simp_all add: cleanPivots_updatePivot)

section \<open>The work of the stage\<close>

definition cleanWork :: "dnsWork \<Rightarrow> bool" where
  "cleanWork w \<longleftrightarrow> (\<forall>a \<in> set (dw_assets w). cleanAsset a)"

lemma cleanWork_simps [simp]:
  "cleanWork (addErrors es w) = cleanWork w" "cleanWork (w\<lparr>dw_env := env\<rparr>) = cleanWork w"
  "cleanWork (w\<lparr>dw_enums := enums\<rparr>) = cleanWork w"
  "cleanWork (addAsset a w) = (cleanAsset a \<and> cleanWork w)"
  "cleanWork (addDNSRelation prefix enumID fromID from toID toType to oid kind label reason w) = cleanWork w"
  by (auto simp: cleanWork_def addErrors_def addAsset_def addDNSRelation_def split_def Let_def)

lemma clean_updates:
  "cleanAsset (a\<lparr>asset_OwnershipState := os, asset_InclusionReason := re\<rparr>) = cleanAsset a"
  by (simp add: cleanAsset_def)

lemma domainAsset_clean:
  "cleanWork (snd (domainAssetFromObservation prefix enumID identifier source ob rdap w)) = cleanWork w"
  "cleanAsset (fst (domainAssetFromObservation prefix enumID identifier source ob rdap w))"
  by (simp_all add: domainAssetFromObservation_def split_def Let_def newAsset_clean)

lemma reportIP_clean: "cleanWork (reportIP enumID baseID domain ob ip w) = cleanWork w"
proof -
  have "cleanWork (fold (\<lambda>kind. addDNSRelation p e f d t ty i oid kind l r) kinds w') = cleanWork w'"
    for p e f d t ty i oid l r kinds w'
    by (induction kinds arbitrary: w') simp_all
  then show ?thesis by (simp add: reportIP_def split_def Let_def newAsset_clean clean_updates)
qed

lemma reportCandidate_clean:
  assumes "CHR '','' \<notin> set (dc_root c)" and "cleanPivots (fst mw)" and "cleanWork (snd mw)"
  shows "cleanPivots (fst (reportCandidate b enumID baseID domain c mw)) \<and> cleanWork (snd (reportCandidate b enumID baseID domain c mw))"
  using assms
  by (auto simp: reportCandidate_def reportHost_def split_def Let_def newAsset_clean clean_updates cleanPivots_updatePivot)

lemma mergeBaseDomain_clean:
  assumes "suffixLibrary net" and "mergeBaseDomain net rs enumID domain (b, m, w) = (b', m', w')"
    and "cleanPivots m" and "cleanWork w"
  shows "cleanPivots m' \<and> cleanWork w' \<and> bl_seedRoots b' = bl_seedRoots b"
proof -
  obtain ob issues where ob: "observeDomain net rs domain = (ob, issues)" by fastforce
  let ?rdap = "lookupRDAPWithTimeout rs (RegistrableDomain net domain)"
  let ?w1 = "addErrors (map asError issues @ rdapErrors ?rdap) w"
  let ?b1 = "addObservation net ob (registeredData ?rdap) b"
  obtain baseID w2 where w2: "(if do_records ob = [] then ([], ?w1)
      else (let (a, w') = domainAssetFromObservation ''dom'' enumID domain ''dns_collector'' ob None ?w1
            in (asset_ID a, addAsset a w'))) = (baseID, w2)" by fastforce
  have c2: "cleanWork w2"
    using w2 assms(4) domainAsset_clean [of "''dom''" enumID domain "''dns_collector''" ob None ?w1]
    by (auto simp: split_def Let_def split: if_splits)
  have c3: "cleanWork (fold (reportIP enumID baseID domain ob) ips x) = cleanWork x" for ips x
    by (induction ips arbitrary: x) (simp_all add: reportIP_clean)
  have c4: "cleanPivots (fst (fold (reportCandidate ?b1 enumID baseID domain) cs mw))
      \<and> cleanWork (snd (fold (reportCandidate ?b1 enumID baseID domain) cs mw))"
    if "\<forall>c \<in> set cs. CHR '','' \<notin> set (dc_root c)" "cleanPivots (fst mw)" "cleanWork (snd mw)" for cs mw
    using that by (induction cs arbitrary: mw) (simp_all add: reportCandidate_clean)
  have "\<forall>c \<in> set (domainCandidates net ob). CHR '','' \<notin> set (dc_root c)" using candidate_comma [OF assms(1)] by blast
  from c4 [OF this, of "(m, fold (reportIP enumID baseID domain ob) (do_ips ob) w2)"] assms(2,3) c2 c3 ob w2
  show ?thesis
    by (auto simp: mergeBaseDomain_def Let_def addObservation_def split: option.splits)
qed

text \<open>What the stage knows after it has looked at the domains of a seed.\<close>

lemma observeSeed_clean:
  assumes "suffixLibrary net" and "observeSeed net c s w = (enumID, b, m, w')" and "cleanWork w"
  shows "cleanPivots m \<and> cleanWork w' \<and> bl_seedRoots b = bl_seedRoots (newDNSSeedBaseline net s)"
proof -
  have fold: "cleanPivots m1 \<and> cleanWork w1 \<and> bl_seedRoots b1 = bl_seedRoots b0"
    if "fold (mergeBaseDomain net (co_resolver c) e) ds (b0, m0, w0) = (b1, m1, w1)" "cleanPivots m0" "cleanWork w0"
    for e ds b0 m0 w0 b1 m1 w1
    using that
  proof (induction ds arbitrary: b0 m0 w0)
    case (Cons d ds)
    obtain b2 m2 w2 where one: "mergeBaseDomain net (co_resolver c) e d (b0, m0, w0) = (b2, m2, w2)" by (metis prod_cases3)
    from mergeBaseDomain_clean [OF assms(1) one Cons.prems(2,3)] Cons.IH [of b2 m2 w2] Cons.prems(1) one show ?case by simp
  qed simp
  obtain e env1 where e: "startEnumeration ''enum-dns'' s (dw_env w) = (e, env1)" by fastforce
  let ?w = "w\<lparr>dw_env := env1, dw_enums := dw_enums w @ [e]\<rparr>"
  let ?ds = "filter (\<lambda>d. d \<noteq> []) (map NormalizeDomainIdentifier (seed_Domains s))"
  obtain b1 m1 w1 where run: "fold (mergeBaseDomain net (co_resolver c) (enum_ID e)) ?ds (newDNSSeedBaseline net s, [], ?w) = (b1, m1, w1)"
    by (metis prod_cases3)
  have clean: "cleanPivots m1 \<and> cleanWork w1 \<and> bl_seedRoots b1 = bl_seedRoots (newDNSSeedBaseline net s)"
    by (rule fold [OF run]) (simp_all add: cleanPivots_def assms(3))
  obtain os errs where os: "observeCandidateRoots net (co_resolver c) (co_ends c) (sortedDNSPivotRoots m1) = (os, errs)" by fastforce
  have "\<forall>x \<in> set os. od_root x \<in> fst ` set m1"
    using os by (auto simp: observeCandidateRoots_def observeRoot_def sortedDNSPivotRoots_def Let_def
        split: if_splits) (metis fst_conv image_eqI)
  with clean have "cleanPivots (noteObserved os m1)"
    unfolding noteObserved_def by (intro cleanPivots_fold) (unfold cleanPivots_def, blast+)
  with clean os run e assms(2) show ?thesis by (auto simp: observeSeed_def Let_def)
qed

text \<open>The suffixes a sweep may try.\<close>

definition cleanSuffixes :: "dnsCollector \<Rightarrow> bool" where
  "cleanSuffixes c \<longleftrightarrow> (\<forall>x \<in> set (co_variantSuffixes c @ co_genericVariantSuffixes c @ co_ICANNPublicSuffixes c). CHR '','' \<notin> set x)"

lemma appendSuffix_clean:
  "CHR '','' \<notin> set x \<Longrightarrow> \<forall>y \<in> set ys. CHR '','' \<notin> set y \<Longrightarrow> \<forall>y \<in> set (appendSuffix x ys). CHR '','' \<notin> set y"
  by (auto simp: appendSuffix_def Let_def NormalizeDomainIdentifier_comma)

lemma prioritized_clean:
  assumes "cleanSuffixes c"
  shows "\<forall>x \<in> set (prioritizedVariantSuffixes net c s roots). CHR '','' \<notin> set x"
proof -
  have fold: "\<forall>y \<in> set (fold appendSuffix xs ys). CHR '','' \<notin> set y"
    if "\<forall>x \<in> set xs. CHR '','' \<notin> set x" "\<forall>y \<in> set ys. CHR '','' \<notin> set y" for xs ys
    using that
  proof (induction xs arbitrary: ys)
    case (Cons x xs)
    show ?case unfolding fold_Cons comp_def
      by (rule Cons.IH) (use Cons.prems appendSuffix_clean [of x ys] in auto)
  qed simp
  show ?thesis
    unfolding prioritizedVariantSuffixes_def Let_def
    by (rule fold) (use assms in \<open>auto simp: cleanSuffixes_def split: if_splits\<close>)
qed

lemma RegistrableLabel_comma:
  assumes "suffixLibrary net" and "CHR '','' \<notin> set d"
  shows "CHR '','' \<notin> set (RegistrableLabel net d)"
  using RegistrableDomain_comma [OF assms]
  by (auto simp: RegistrableLabel_def TrimSuffix_def Let_def dest: in_set_takeD)

lemma buildVariantProbeRoots_clean:
  assumes "buildVariantProbeRoots net c s roots seedRoots cands = (probes, cands')"
    and "suffixLibrary net" and "cleanSuffixes c" and "\<forall>r \<in> set roots. CHR '','' \<notin> set r"
  shows "\<forall>r \<in> set probes. CHR '','' \<notin> set r"
proof
  fix r assume r: "r \<in> set probes"
  from buildVariantProbeRoots_spec [OF assms(1)] obtain label where
    "probes \<noteq> [] \<longrightarrow> (\<exists>x \<in> set roots. label = RegistrableLabel net x)"
    and "\<forall>r \<in> set probes. probeOK net (set (prioritizedVariantSuffixes net c s roots)) label seedRoots cands r"
    by blast
  with r have label: "\<exists>x \<in> set roots. label = RegistrableLabel net x"
    and "\<exists>suffix \<in> set (prioritizedVariantSuffixes net c s roots). r = NormalizeDomainIdentifier (label @ ''.'' @ suffix)"
    by (force, unfold probeOK_def) blast
  then obtain suffix where suffix: "suffix \<in> set (prioritizedVariantSuffixes net c s roots)"
    and "r = NormalizeDomainIdentifier (label @ ''.'' @ suffix)" by blast
  moreover have "CHR '','' \<notin> set label" using label assms(4) RegistrableLabel_comma [OF assms(2)] by auto
  moreover have "CHR '','' \<notin> set suffix" using suffix prioritized_clean [OF assms(3)] by blast
  ultimately show "CHR '','' \<notin> set r" by (simp add: NormalizeDomainIdentifier_comma)
qed

section \<open>The stage keeps the invariants\<close>

lemma keeps_mark: "keeps st (onContext (MarkDNSVariantSweepLabel l) st)"
  by (rule keeps_same) (simp_all add: onContext_def hooks_frame)

lemma sweepLabels_ok:
  assumes "suffixLibrary net" and "cleanSuffixes c" and "\<forall>g \<in> set gs. \<forall>r \<in> set (lg_roots g). CHR '','' \<notin> set r"
    and k: "\<And>m w. cleanPivots m \<Longrightarrow> cleanWork w \<Longrightarrow> thread_ok keeps (k m w)"
    and "cleanPivots m" and "cleanWork w"
  shows "thread_ok keeps (sweepLabels net c s b gs k m w)"
  using assms(3,5,6)
proof (induction gs arbitrary: m w)
  case (Cons g gs)
  obtain probes m1 where p: "buildVariantProbeRoots net c s (lg_roots g) (bl_seedRoots b) m = (probes, m1)" by fastforce
  have m1: "cleanPivots m1"
    using buildVariantProbeRoots_spec [OF p] Cons.prems(2) by (simp add: cleanPivots_def)
  obtain live errs vm where o: "observeVariantCandidateRoots net (co_resolver c) (co_ends c)
      (max 1 (co_variantProbeBatchSize c)) probes = (live, errs, vm)" by (metis prod_cases3)
  have "live = map (\<lambda>r. \<lparr>od_root = r, od_observation = fst (observeVariantRoot net (co_resolver c) r),
               od_rdap = registeredData (lookupRDAPWithTimeout (co_resolver c) r)\<rparr>) (filter (variantLive net (co_resolver c)) probes)"
    using sweep_found [of net "co_resolver c" "co_ends c" "max 1 (co_variantProbeBatchSize c)" probes] o by simp
  moreover have "\<forall>r \<in> set probes. CHR '','' \<notin> set r"
    by (rule buildVariantProbeRoots_clean [OF p assms(1,2)]) (use Cons.prems(1) in simp)
  ultimately have "cleanPivots (noteVariants live m1)"
    unfolding noteVariants_def by (intro cleanPivots_fold) (auto simp: m1)
  then have "thread_ok keeps (sweepLabels net c s b gs k (noteVariants live m1) (addErrors errs w))"
    using Cons by simp
  then show ?case using Cons m1 by (simp add: p o keeps.R_refl keeps_mark Let_def)
qed (simp add: k)

lemma dnsDecisions_ok:
  assumes "suffixLibrary net" and "cleanPivots m"
    and k: "\<And>w. cleanWork w \<Longrightarrow> thread_ok keeps (k w)" and "cleanWork w"
  shows "thread_ok keeps (dnsDecisions net h s enumID m ds k w)"
  using assms(4)
proof (induction ds arbitrary: w)
  case (Cons d ds)
  have act: "keeps st (case promotable m d (fst st) of None \<Rightarrow> st
     | Some (pc, ob) \<Rightarrow> snd (PromoteSeedCandidate h (dnsDiscoveredSeed net s pc d) (judgedEvidence d) (fst st) (snd st)))" for st
  proof (cases "promotable m d (fst st)")
    case (Some x)
    obtain pc ob where x: "x = (pc, ob)" by fastforce
    have "jd_Root d \<in> fst ` set m"
      using Some by (auto simp: promotable_def split: if_splits option.splits dest!: map_of_SomeD intro: rev_image_eqI)
    then have "CHR '','' \<notin> set (jd_Root d)" using assms(2) by (auto simp: cleanPivots_def)
    from BuildDiscoveredSeed_commaFree [OF assms(1) this] have "commaFree (dnsDiscoveredSeed net s pc d)"
      by (simp add: dnsDiscoveredSeed_def commaFree_def Let_def)
    from keeps_promotion_state [OF this] show ?thesis by (simp add: Some x)
  qed (simp add: keeps.R_refl)
  have "thread_ok keeps (dnsDecisions net h s enumID m ds k
      (addAsset (fst (domainAssetFromObservation p enumID i src ob r w)) (snd (domainAssetFromObservation p enumID i src ob r w))))"
    for p i src ob r
    by (rule Cons.IH) (simp add: domainAsset_clean Cons.prems)
  then show ?case
    using Cons act by (auto simp: split_def Let_def split: option.split)
qed (simp add: k)

lemma judgeDNS_ok:
  assumes "suffixLibrary net" and "cleanPivots m"
    and k: "\<And>w. cleanWork w \<Longrightarrow> thread_ok keeps (k w)" and "cleanWork w"
  shows "thread_ok keeps (judgeDNS net c h s enumID b k m w)"
proof -
  let ?request = "\<lparr>or_Scenario = ''dns root variant pivot'', or_Seed = s, or_Candidates = judgeCandidates net b m\<rparr>"
  have "CHR '','' \<notin> set (oc_Root x)" if "x \<in> set (judgeCandidates net b m)" for x
  proof -
    have "oc_Root x \<in> fst ` set m"
      using judgeCandidates_spec [OF that] by (auto dest!: map_of_SomeD intro: rev_image_eqI)
    with assms(2) show ?thesis unfolding cleanPivots_def by blast
  qed
  then have "keeps st (onContext (RecordOwnershipJudgeEvaluation net ''dns_collector'' ?request ds) st)" for ds st
    by (intro keeps_ownership_evaluation assms(1)) simp
  then show ?thesis
    using k [OF assms(4)] k [of "addErrors _ w"] dnsDecisions_ok [OF assms(1,2) k assms(4)] assms(4)
    by (auto simp: judgeDNS_def Let_def split: option.split sum.split)
qed

lemma seedRoots_clean:
  assumes "suffixLibrary net" and "commaFree s" and "g \<in> set (groupSeedRootsByLabel net (bl_seedRoots (newDNSSeedBaseline net s)))"
  shows "\<forall>r \<in> set (lg_roots g). CHR '','' \<notin> set r"
proof -
  have "set (lg_roots g) \<subseteq> set (bl_seedRoots (newDNSSeedBaseline net s))"
    using assms(3) by (auto simp: groupSeedRootsByLabel_def)
  moreover have "\<forall>r \<in> set (bl_seedRoots (newDNSSeedBaseline net s)). CHR '','' \<notin> set r"
    using assms(1,2) RegistrableDomain_comma
    by (auto simp: newDNSSeedBaseline_def commaFree_def dest!: subsetD [OF set_uniqueBy_subset])
  ultimately show ?thesis by blast
qed

lemma dnsSeeds_ok:
  assumes "suffixLibrary net" and "cleanSuffixes c" and "\<forall>s \<in> set ss. commaFree s" and "cleanWork w"
  shows "thread_ok keeps (dnsSeeds net c h ss w)"
  using assms(3,4)
proof (induction ss arbitrary: w)
  case Nil
  have "keeps st (onContext (AppendAssetRelations rs) st)" for rs and st :: "'a engineState"
    using keeps_append(3) [of "fst st" "snd st" rs "snd st"] by (simp add: onContext_def)
  with Nil show ?case by (simp add: report_keeps append_keeps cleanWork_def)
next
  case (Cons s ss)
  obtain enumID b m w1 where run: "observeSeed net c s w = (enumID, b, m, w1)" by (metis prod_cases4)
  note clean = observeSeed_clean [OF assms(1) run Cons.prems(2)]
  have "thread_ok keeps (sweepLabels net c s b (groupSeedRootsByLabel net (bl_seedRoots b))
      (judgeDNS net c h s enumID b (dnsSeeds net c h ss)) m w1)"
  proof (rule sweepLabels_ok [OF assms(1,2)])
    show "\<forall>g \<in> set (groupSeedRootsByLabel net (bl_seedRoots b)). \<forall>r \<in> set (lg_roots g). CHR '','' \<notin> set r"
      using seedRoots_clean [OF assms(1), of s] Cons.prems(1) clean by (metis list.set_intros(1))
    show "thread_ok keeps (judgeDNS net c h s enumID b (dnsSeeds net c h ss) m' w')"
      if "cleanPivots m'" "cleanWork w'" for m' w'
      by (rule judgeDNS_ok [OF assms(1) that(1) _ that(2)]) (use Cons in simp)
  qed (use clean in simp_all)
  then show ?case by (simp add: run)
qed

lemma DNS_thread_ok:
  assumes "suffixLibrary net" and "cleanSuffixes c"
  shows "thread_ok keeps (node_Process (DNSCollector net c h env))"
proof -
  have "thread_ok keeps (dnsSeeds net c h (CollectionSeeds (fst st))
     \<lparr>dw_env = env st, dw_enums = [], dw_errors = [], dw_assets = [], dw_relations = []\<rparr>)"
    if "\<not> idle keeps st" for st :: "'a engineState"
    by (rule dnsSeeds_ok [OF assms]) (use busy_keeps [OF that] collected_commaFree in \<open>auto simp: cleanWork_def\<close>)
  then show ?thesis
    unfolding DNSCollector_def DNSProcess_def engineNode.simps by (intro thread_ok.step keeps.R_refl)
qed

end
