(* ===== verification/Domain_Enricher.thy ===== *)
theory Domain_Enricher
  imports Passive_Collectors "HOL-Library.AList"
begin

text \<open>
  \<open>internal/enrich/domain_enricher.go\<close>: looks every domain of the asset table up once per run, writes
  records and registration data into the assets, and reports the addresses. What the enricher keeps
  between calls (its cache and the addresses it has reported) is its own part of the state outside the
  context, reached through a \<open>cell\<close>. The lookups are arguments; the workers share nothing but the
  cache, which none of them writes, so only the order in which their results arrive (\<open>den_ends\<close>) is
  left to the scheduler.
\<close>

section \<open>Private state\<close>

record ('b, 'c) cell =
  cell_get :: "'b \<Rightarrow> 'c"
  cell_put :: "'c \<Rightarrow> 'b \<Rightarrow> 'b"

record cachedDomainEnrichment =
  ce_records :: "dnsRecord list"
  ce_ips :: "string list"
  ce_rdap :: "rdapData option"
  ce_dnsDone :: bool
  ce_rdapDone :: bool

record domainEnrichmentResult =
  er_identifier :: string
  er_cache :: cachedDomainEnrichment
  er_errors :: "string list"
  er_cached :: bool
  er_retryable :: bool

text \<open>\<open>lastContext\<close> is the address of the context of the last call.\<close>

record domainEnricherState =
  des_cache :: "string \<rightharpoonup> cachedDomainEnrichment"
  des_emittedIPKeys :: "string set"
  des_lastContext :: "nat option"

definition zeroEnrichment :: cachedDomainEnrichment where
  "zeroEnrichment = \<lparr>ce_records = [], ce_ips = [], ce_rdap = None, ce_dnsDone = False, ce_rdapDone = False\<rparr>"

definition NewDomainEnricherState :: domainEnricherState where
  "NewDomainEnricherState = \<lparr>des_cache = Map.empty, des_emittedIPKeys = {}, des_lastContext = None\<rparr>"

definition ensureRunState :: "nat \<Rightarrow> domainEnricherState \<Rightarrow> domainEnricherState" where
  "ensureRunState context st =
     (if des_lastContext st = Some context then st
      else \<lparr>des_cache = Map.empty, des_emittedIPKeys = {}, des_lastContext = Some context\<rparr>)"

definition cachedEntry :: "string \<Rightarrow> domainEnricherState \<Rightarrow> cachedDomainEnrichment option" where
  "cachedEntry identifier st = des_cache st identifier"

definition storeCachedEntry :: "string \<Rightarrow> cachedDomainEnrichment \<Rightarrow> domainEnricherState \<Rightarrow> domainEnricherState" where
  "storeCachedEntry identifier entry st = st\<lparr>des_cache := (des_cache st)(identifier \<mapsto> entry)\<rparr>"

definition domainEnricherIPKey :: "string \<Rightarrow> string \<Rightarrow> string" where
  "domainEnricherIPKey enumerationID ip =
     (if TrimSpace enumerationID = [] \<or> TrimSpace ip = [] then [] else TrimSpace enumerationID @ ''|'' @ TrimSpace ip)"

definition seedEmittedIP :: "string \<Rightarrow> string \<Rightarrow> domainEnricherState \<Rightarrow> domainEnricherState" where
  "seedEmittedIP enumerationID ip st =
     (let key = domainEnricherIPKey enumerationID ip
      in if key = [] then st else st\<lparr>des_emittedIPKeys := insert key (des_emittedIPKeys st)\<rparr>)"

definition claimEmittedIP :: "string \<Rightarrow> string \<Rightarrow> domainEnricherState \<Rightarrow> bool \<times> domainEnricherState" where
  "claimEmittedIP enumerationID ip st =
     (let key = domainEnricherIPKey enumerationID ip
      in if key = [] \<or> key \<in> des_emittedIPKeys st then (False, st)
         else (True, st\<lparr>des_emittedIPKeys := insert key (des_emittedIPKeys st)\<rparr>))"

section \<open>Lookups\<close>

text \<open>An error with its text and, when a \<open>net.DNSError\<close> is in its chain, that one's fields.\<close>

record dnsErrorFields =
  dne_IsNotFound :: bool
  dne_IsTemporary :: bool
  dne_IsTimeout :: bool
  dne_Err :: string

record lookupError =
  le_Text :: string
  le_DNS :: "dnsErrorFields option"

definition isTerminalDNSLookupError :: "lookupError \<Rightarrow> bool" where
  "isTerminalDNSLookupError err \<longleftrightarrow>
     (case le_DNS err of
        Some d \<Rightarrow> dne_IsNotFound d
          \<or> (\<not> dne_IsTemporary d \<and> \<not> dne_IsTimeout d \<and> Contains (ToLower (dne_Err d)) ''no such host'')
      | None \<Rightarrow> False)
     \<or> Contains (ToLower (le_Text err)) ''no such host''"

text \<open>The texts of distinct errors; those of \<open>domain_enricher.go\<close> are never nil.\<close>

definition joinEnrichmentErrors :: "string list \<Rightarrow> string" where
  "joinEnrichmentErrors errs = Join (uniqueBy (\<lambda>v. v) {} (filter (\<lambda>v. v \<noteq> []) (map TrimSpace errs))) '' | ''"

text \<open>What the resolver gives: values (the addresses as text) and an error. The timeouts are inside.\<close>

record domainEnricher =
  den_lookupIP :: "string \<Rightarrow> string \<Rightarrow> string list \<times> lookupError option"
  den_lookupMX :: "string \<Rightarrow> string list \<times> lookupError option"
  den_lookupTXT :: "string \<Rightarrow> string list \<times> lookupError option"
  den_lookupCNAME :: "string \<Rightarrow> string \<times> lookupError option"
  den_lookupRDAP :: "string \<Rightarrow> lookupResult"
  den_ends :: "domainEnrichmentResult list \<Rightarrow> domainEnrichmentResult list"

definition enricherRecordKey :: "dnsRecord \<Rightarrow> string" where
  "enricherRecordKey r = TrimSpace (ToUpper (rec_Type r)) @ ''|'' @ TrimSpace (ToLower (rec_Value r))"

definition uniqueEnricherRecords :: "dnsRecord list \<Rightarrow> dnsRecord list" where
  "uniqueEnricherRecords rs =
     uniqueBy enricherRecordKey {} (filter (\<lambda>r. \<not> (rec_Type r = [] \<or> rec_Value r = []))
       (map (\<lambda>r. r\<lparr>rec_Type := TrimSpace (ToUpper (rec_Type r)), rec_Value := TrimSpace (rec_Value r)\<rparr>) rs))"

definition mergeEnricherRecords :: "dnsRecord list \<Rightarrow> dnsRecord list \<Rightarrow> dnsRecord list" where
  "mergeEnricherRecords existing incoming =
     existing @ uniqueBy enricherRecordKey (enricherRecordKey ` set existing) incoming"

text \<open>\<open>addLookupError\<close>: the error it adds, if any; a terminal one is an answer.\<close>

definition addLookupError :: "string \<Rightarrow> string \<Rightarrow> lookupError option \<Rightarrow> string list" where
  "addLookupError identifier kind err =
     (case err of
        None \<Rightarrow> []
      | Some e \<Rightarrow> if isTerminalDNSLookupError e then []
                  else [''domain_enricher lookup '' @ kind @ '' '' @ identifier @ '': '' @ le_Text e])"

definition enricherRecords :: "string \<Rightarrow> string list \<Rightarrow> dnsRecord list" where
  "enricherRecords type values = map (\<lambda>v. \<lparr>rec_Type = type, rec_Value = v\<rparr>) values"

definition lookupDNS ::
  "domainEnricher \<Rightarrow> string \<Rightarrow> cachedDomainEnrichment \<Rightarrow> cachedDomainEnrichment \<times> string list" where
  "lookupDNS e identifier entry =
     (let (ip4, err4) = den_lookupIP e ''ip4'' identifier; ipv4 = filter (\<lambda>v. v \<noteq> []) ip4;
          (ip6, err6) = den_lookupIP e ''ip6'' identifier; ipv6 = filter (\<lambda>v. v \<noteq> []) ip6;
          (cname0, errC) = den_lookupCNAME e identifier; cname = NormalizeDomainIdentifier cname0;
          (mxs, errM) = den_lookupMX e identifier;
          (txts, errT) = den_lookupTXT e identifier;
          errs = addLookupError identifier ''A'' err4 @ addLookupError identifier ''AAAA'' err6
            @ addLookupError identifier ''CNAME'' errC @ addLookupError identifier ''MX'' errM
            @ addLookupError identifier ''TXT'' errT
      in (entry\<lparr>ce_records := ce_records entry @ enricherRecords ''A'' ipv4 @ enricherRecords ''AAAA'' ipv6
                  @ (if cname \<noteq> [] \<and> cname \<noteq> identifier then enricherRecords ''CNAME'' [cname] else [])
                  @ enricherRecords ''MX'' (filter (\<lambda>h. h \<noteq> []) (map NormalizeDomainIdentifier mxs))
                  @ enricherRecords ''TXT'' (filter (\<lambda>t. t \<noteq> []) (map TrimSpace txts)),
                ce_ips := ce_ips entry @ ipv4 @ ipv6,
                ce_dnsDone := (errs = [])\<rparr>, errs))"

definition lookupRegistration ::
  "domainEnricher \<Rightarrow> string \<Rightarrow> cachedDomainEnrichment \<Rightarrow> cachedDomainEnrichment \<times> string list" where
  "lookupRegistration e identifier entry =
     (case den_lookupRDAP e identifier of
        Registered rdap \<Rightarrow> (entry\<lparr>ce_rdap := rdap, ce_rdapDone := True\<rparr>, [])
      | UnsupportedRegistrationData \<Rightarrow> (entry\<lparr>ce_rdapDone := True\<rparr>, [])
      | LookupFailed err \<Rightarrow> (entry, [''domain_enricher lookup RDAP '' @ identifier @ '': '' @ err]))"

definition doneEntry :: "bool \<Rightarrow> cachedDomainEnrichment \<Rightarrow> bool" where
  "doneEntry wantRDAP entry \<longleftrightarrow> ce_dnsDone entry \<and> (\<not> wantRDAP \<or> ce_rdapDone entry)"

definition enrichDomain ::
  "domainEnricher \<Rightarrow> domainEnricherState \<Rightarrow> bool \<Rightarrow> string \<Rightarrow> domainEnrichmentResult" where
  "enrichDomain e st wantRDAP identifier =
     (let entry0 = (case cachedEntry identifier st of None \<Rightarrow> zeroEnrichment | Some entry \<Rightarrow> entry)
      in if doneEntry wantRDAP entry0
         then \<lparr>er_identifier = identifier, er_cache = entry0, er_errors = [], er_cached = True, er_retryable = False\<rparr>
         else (let (entry1, dnsErrs) = (if ce_dnsDone entry0 then (entry0, []) else lookupDNS e identifier entry0);
                   (entry2, rdapErrs) = (if wantRDAP \<and> \<not> ce_rdapDone entry1
                                         then lookupRegistration e identifier entry1 else (entry1, []))
               in \<lparr>er_identifier = identifier,
                   er_cache = entry2\<lparr>ce_records := uniqueEnricherRecords (ce_records entry2),
                                     ce_ips := UniqueLowerStrings (ce_ips entry2)\<rparr>,
                   er_errors = dnsErrs @ rdapErrs, er_cached = False,
                   er_retryable = (dnsErrs \<noteq> [] \<or> rdapErrs \<noteq> [])\<rparr>))"

section \<open>What is to be enriched\<close>

definition uniquePreservingOrder :: "string list \<Rightarrow> string list" where
  "uniquePreservingOrder values = uniqueBy (\<lambda>v. v) {} (filter (\<lambda>v. v \<noteq> []) (map TrimSpace values))"

definition assetContributorEnumerationIDs :: "asset \<Rightarrow> string list" where
  "assetContributorEnumerationIDs a =
     uniquePreservingOrder ((if asset_EnumerationID a \<noteq> [] then [asset_EnumerationID a] else [])
       @ filter (\<lambda>i. i \<noteq> []) (map prov_EnumerationID (asset_Provenance a)))"

definition domainName :: "asset \<Rightarrow> string" where
  "domainName a = (if asset_Type a = AssetTypeDomain then NormalizeDomainIdentifier (asset_Identifier a) else [])"

definition identifiersOf :: "asset list \<Rightarrow> string list" where
  "identifiersOf as = sort (remdups (filter (\<lambda>i. i \<noteq> []) (map domainName as)))"

definition indexesOf :: "asset list \<Rightarrow> string \<Rightarrow> nat list" where
  "indexesOf as identifier = filter (\<lambda>i. domainName (as ! i) = identifier) [0..<length as]"

definition lacksRDAP :: "asset \<Rightarrow> bool" where
  "lacksRDAP a \<longleftrightarrow> (case asset_DomainDetails a of None \<Rightarrow> True | Some d \<Rightarrow> dd_RDAP d = None)"

definition needsRDAP :: "netLibrary \<Rightarrow> asset list \<Rightarrow> string \<Rightarrow> bool" where
  "needsRDAP net as identifier \<longleftrightarrow>
     identifier = RegistrableDomain net identifier \<and> (\<exists>a \<in> set as. domainName a = identifier \<and> lacksRDAP a)"

definition seedEmitted :: "asset list \<Rightarrow> domainEnricherState \<Rightarrow> domainEnricherState" where
  "seedEmitted as st =
     fold (\<lambda>a. if asset_Type a = AssetTypeIP
               then fold (\<lambda>enumID. seedEmittedIP enumID (asset_Identifier a)) (assetContributorEnumerationIDs a) else id) as st"

definition identifiersToLookup :: "netLibrary \<Rightarrow> asset list \<Rightarrow> domainEnricherState \<Rightarrow> string list" where
  "identifiersToLookup net as st =
     filter (\<lambda>i. case cachedEntry i st of None \<Rightarrow> True | Some entry \<Rightarrow> \<not> doneEntry (needsRDAP net as i) entry) (identifiersOf as)"

text \<open>\<open>readyResults\<close>: the cached entry, or what the lookup gave.\<close>

definition readyResult :: "netLibrary \<Rightarrow> domainEnricher \<Rightarrow> asset list \<Rightarrow> domainEnricherState \<Rightarrow> string \<Rightarrow> domainEnrichmentResult" where
  "readyResult net e as st identifier = enrichDomain e st (needsRDAP net as identifier) identifier"

section \<open>Writing the results\<close>

definition shouldRecordDomainEnrichmentObservation :: "asset \<Rightarrow> bool" where
  "shouldRecordDomainEnrichmentObservation a \<longleftrightarrow>
     (case map_of (asset_EnrichmentStates a) ''domain_enricher'' of
        None \<Rightarrow> True
      | Some st \<Rightarrow> TrimSpace (ToLower (es_Status st)) \<in> {[], ''missing'', ''retryable''})"

definition domainStageState :: "domainEnrichmentResult \<Rightarrow> gotime \<Rightarrow> enrichmentState" where
  "domainStageState r now =
     (if er_cached r then \<lparr>es_Status = ''cached'', es_Cached = True, es_UpdatedAt = now, es_Error = []\<rparr>
      else if er_retryable r
      then \<lparr>es_Status = ''retryable'', es_Cached = False, es_UpdatedAt = now, es_Error = joinEnrichmentErrors (er_errors r)\<rparr>
      else \<lparr>es_Status = ''completed'', es_Cached = False, es_UpdatedAt = now, es_Error = []\<rparr>)"

definition enrichedDomainAsset ::
  "netLibrary \<Rightarrow> domainEnrichmentResult \<Rightarrow> enrichmentState \<Rightarrow> asset \<Rightarrow> asset" where
  "enrichedDomainAsset net r stage a =
     (let d = (case asset_DomainDetails a of None \<Rightarrow> noDomainDetails | Some d \<Rightarrow> d);
          d1 = d\<lparr>dd_Records := mergeEnricherRecords (dd_Records d) (ce_records (er_cache r))\<rparr>;
          d2 = (if ce_rdap (er_cache r) \<noteq> None \<and> er_identifier r = RegistrableDomain net (er_identifier r) \<and> dd_RDAP d1 = None
                then d1\<lparr>dd_RDAP := ce_rdap (er_cache r)\<rparr> else d1)
      in a\<lparr>asset_DomainDetails := Some d2,
           asset_EnrichmentData := AList.update ''enriched'' (EVBool True) (asset_EnrichmentData a),
           asset_EnrichmentStates := AList.update ''domain_enricher'' stage (asset_EnrichmentStates a)\<rparr>)"

text \<open>\<open>kindsByIP[ip]\<close>, which is nil for an address without a record.\<close>

definition recordIPKind :: "dnsRecord \<Rightarrow> string" where
  "recordIPKind r =
     (let t = ToUpper (TrimSpace (rec_Type r))
      in if t = ''A'' then ''dns_a'' else if t = ''AAAA'' then ''dns_aaaa'' else [])"

definition domainIPRelationKinds :: "dnsRecord list \<Rightarrow> string \<Rightarrow> string list" where
  "domainIPRelationKinds records ip =
     (if ip = [] then []
      else uniqueBy (\<lambda>k. k) {} (map recordIPKind
             (filter (\<lambda>r. recordIPKind r \<noteq> [] \<and> TrimSpace (ToLower (rec_Value r)) = ip) records)))"

record enricherWork =
  ew_env :: environment
  ew_state :: domainEnricherState
  ew_assets :: "asset list"
  ew_observations :: "assetObservation list"
  ew_ips :: "asset list"
  ew_relations :: "assetRelation list"

definition workFreshID :: "string \<Rightarrow> enricherWork \<Rightarrow> string \<times> enricherWork" where
  "workFreshID prefix w = (let (i, env) = freshID prefix (ew_env w) in (i, w\<lparr>ew_env := env\<rparr>))"

definition workClock :: "enricherWork \<Rightarrow> gotime \<times> enricherWork" where
  "workClock w = (let (now, env) = readClock (ew_env w) in (now, w\<lparr>ew_env := env\<rparr>))"

definition resolvedRelation ::
  "asset \<Rightarrow> string \<Rightarrow> string \<Rightarrow> string \<Rightarrow> string \<Rightarrow> string \<Rightarrow> enricherWork \<Rightarrow> enricherWork" where
  "resolvedRelation a enumID ip observationID reason kind w =
     (let (i, w1) = workFreshID ''rel-domain-ip'' w; (now, w2) = workClock w1
      in w2\<lparr>ew_relations := ew_relations w2 @
           [\<lparr>rel_ID = i, rel_FromAssetID = asset_ID a, rel_FromAssetType = AssetTypeDomain, rel_FromIdentifier = asset_Identifier a,
             rel_ToAssetID = [], rel_ToAssetType = AssetTypeIP, rel_ToIdentifier = ip, rel_ObservationID = observationID,
             rel_EnumerationID = enumID, rel_Source = ''domain_enricher'', rel_Kind = kind, rel_Label = ''Resolved IP'',
             rel_Reason = reason, rel_DiscoveryDate = now\<rparr>]\<rparr>)"

definition emitIP :: "dnsRecord list \<Rightarrow> asset \<Rightarrow> string \<Rightarrow> string \<Rightarrow> enricherWork \<Rightarrow> enricherWork" where
  "emitIP records a enumID ip w0 =
     (let (claimed, st) = claimEmittedIP enumID ip (ew_state w0); w = w0\<lparr>ew_state := st\<rparr>
      in if \<not> claimed then w
         else (let kinds0 = domainIPRelationKinds records ip;
                   kinds = (if kinds0 = [] then [''dns_a''] else kinds0);
                   reason = ''Resolved from '' @ asset_Identifier a @ '' via '' @ ToUpper (TrimPrefix (hd kinds) ''dns_'');
                   (x, env) = newAsset ''ip-domain-enricher'' enumID ''domain_enricher'' AssetTypeIP None (Some noIPDetails) ip (ew_env w);
                   found = x\<lparr>asset_OwnershipState := OwnershipStateAssociatedInfrastructure, asset_InclusionReason := reason\<rparr>
               in fold (resolvedRelation a enumID ip (asset_ID x) reason) kinds
                    (w\<lparr>ew_env := env, ew_ips := ew_ips w @ [found]\<rparr>)))"

text \<open>The turn of the loop for one asset of the name.\<close>

definition enrichAt :: "netLibrary \<Rightarrow> domainEnrichmentResult \<Rightarrow> nat \<Rightarrow> enricherWork \<Rightarrow> enricherWork" where
  "enrichAt net r index w0 =
     (let before = ew_assets w0 ! index;
          (now, w1) = workClock w0;
          stage = domainStageState r now;
          a = enrichedDomainAsset net r stage before;
          w2 = w1\<lparr>ew_assets := (ew_assets w1)[index := a]\<rparr>;
          w3 = (if shouldRecordDomainEnrichmentObservation before
                then (let (i, w') = workFreshID ''obs-domain-enricher'' w2; (found, w'') = workClock w'
                      in w''\<lparr>ew_observations := ew_observations w'' @
                           [\<lparr>obs_Kind = ObservationKindEnrichment, obs_ID = i, obs_AssetID = asset_ID a,
                             obs_EnumerationID = asset_EnumerationID a, obs_Type = asset_Type a,
                             obs_Identifier = asset_Identifier a, obs_Source = ''domain_enricher'', obs_DiscoveryDate = found,
                             obs_OwnershipState = [], obs_InclusionReason = [], obs_DomainDetails = asset_DomainDetails a,
                             obs_IPDetails = None, obs_EnrichmentData = asset_EnrichmentData a,
                             obs_EnrichmentStates = [(''domain_enricher'', stage)]\<rparr>]\<rparr>)
                else w2)
      in fold (\<lambda>enumID. fold (emitIP (ce_records (er_cache r)) a enumID) (ce_ips (er_cache r)))
           (assetContributorEnumerationIDs a) w3)"

section \<open>The stage\<close>

text \<open>All of a call that happens on its own data: the errors of the lookups and the work done.\<close>

definition enrichDomains ::
  "netLibrary \<Rightarrow> domainEnricher \<Rightarrow> nat \<Rightarrow> environment \<Rightarrow> asset list \<Rightarrow> domainEnricherState \<Rightarrow> string list \<times> enricherWork" where
  "enrichDomains net e context env as st0 =
     (let st = seedEmitted as (ensureRunState context st0);
          results = den_ends e (map (readyResult net e as st) (identifiersToLookup net as st));
          stored = fold (\<lambda>r. storeCachedEntry (er_identifier r) (er_cache r)) results st
      in (concat (map er_errors results),
          fold (\<lambda>i. fold (enrichAt net (readyResult net e as st i)) (indexesOf as i)) (identifiersOf as)
            \<lparr>ew_env = env, ew_state = stored, ew_assets = as, ew_observations = [], ew_ips = [], ew_relations = []\<rparr>))"

definition appendErrors :: "string list \<Rightarrow> pipelineContext \<Rightarrow> pipelineContext" where
  "appendErrors errs p = p\<lparr>Errors := Errors p @ errs\<rparr>"

definition DomainEnricherProcess ::
  "netLibrary \<Rightarrow> domainEnricher \<Rightarrow> ('b, domainEnricherState) cell \<Rightarrow> nat \<Rightarrow> ('b engineState \<Rightarrow> environment)
     \<Rightarrow> 'b engineState thread" where
  "DomainEnricherProcess net e c context env =
     (let done = (\<lambda>s. enrichDomains net e context (env s) (Assets (fst s)) (cell_get c (snd s)))
      in Step (onContext EnsureAssetState)
        (\<lambda>_. Step (\<lambda>s. ((fst s)\<lparr>Assets := ew_assets (snd (done s))\<rparr>, cell_put c (ew_state (snd (done s))) (snd s)))
          (\<lambda>s. if identifiersOf (Assets (fst s)) = [] then Done None
               else doSteps [onContext (appendErrors (fst (done s))),
                             onContext (AppendAssetObservations (ew_observations (snd (done s)))),
                             onContext (AppendAssets (ew_ips (snd (done s)))),
                             onContext (AppendAssetRelations (ew_relations (snd (done s))))])))"

definition NewDomainEnricher ::
  "netLibrary \<Rightarrow> domainEnricher \<Rightarrow> ('b, domainEnricherState) cell \<Rightarrow> nat \<Rightarrow> ('b engineState \<Rightarrow> environment) \<Rightarrow> 'b engineNode" where
  "NewDomainEnricher net e c context env =
     \<lparr>node_Name = ''DomainEnricher'', node_Process = DomainEnricherProcess net e c context env\<rparr>"

end
