(* ===== verification/IP_Enricher.thy ===== *)
theory IP_Enricher
  imports Domain_Enricher Judges
begin

text \<open>
  \<open>internal/enrich/ip_enricher.go\<close>: reverse names and autonomous systems of the addresses, their
  ownership, and the pivots their names suggest. One goroutine per address works on its own asset and
  reports under two mutexes; the orders in which they get there are the permutations \<open>ipo_observations\<close>
  and \<open>ipo_events\<close>, the order in which Go visits its maps is \<open>ipo_map\<close>. The resolver is an argument.
\<close>

section \<open>The resolver\<close>

text \<open>A parsed address: the text of its \<open>To4\<close>, and the bytes of its \<open>To16\<close>.\<close>

record ipAddress =
  ia_To4 :: "string option"
  ia_To16 :: "8 word list option"

text \<open>Lookups by attempt, from 1; \<open>ir_contains\<close> is \<open>net.ParseCIDR\<close> and \<open>Contains\<close>; \<open>ir_ptrFirst\<close> says
  which of the two lookups of an address fails first.\<close>

record ipResolver =
  ir_ParseIP :: "string \<Rightarrow> ipAddress option"
  ir_lookupAddr :: "string \<Rightarrow> nat \<Rightarrow> lookupError + string list"
  ir_lookupTXT :: "string \<Rightarrow> nat \<Rightarrow> lookupError + string list"
  ir_contains :: "string \<Rightarrow> ipAddress \<Rightarrow> bool"
  ir_ptrFirst :: "string \<Rightarrow> bool"

definition nextIPBackoff :: "int \<Rightarrow> int" where
  "nextIPBackoff backoff =
     (if backoff < 2000 * millisecond
      then (if backoff * 2 > 2000 * millisecond then 2000 * millisecond else backoff * 2) else backoff)"

text \<open>The values, or the text of the last error, and the pauses made. A terminal error is no values.\<close>

function retryIPFrom ::
  "(nat \<Rightarrow> lookupError + string list) \<Rightarrow> nat \<Rightarrow> int \<Rightarrow> (string + string list) \<times> int list" where
  "retryIPFrom lookup attempt backoff =
     (case lookup attempt of
        Inr values \<Rightarrow> (Inr values, [])
      | Inl err \<Rightarrow>
          if isTerminalDNSLookupError err then (Inr [], [])
          else if attempt \<ge> 3 then (Inl (le_Text err), [])
          else (let (r, waits) = retryIPFrom lookup (attempt + 1) (nextIPBackoff backoff) in (r, backoff # waits)))"
  by pat_completeness auto
termination
  by (relation "measure (\<lambda>(_, attempt, _). 3 - attempt)") auto

declare retryIPFrom.simps [simp del]

definition retryIPResolverLookup :: "(nat \<Rightarrow> lookupError + string list) \<Rightarrow> (string + string list) \<times> int list" where
  "retryIPResolverLookup lookup = retryIPFrom lookup 1 (250 * millisecond)"

definition lookupAddrWithRetry :: "ipResolver \<Rightarrow> string \<Rightarrow> string + string list" where
  "lookupAddrWithRetry r ip = fst (retryIPResolverLookup (ir_lookupAddr r ip))"

definition lookupTXTWithRetry :: "ipResolver \<Rightarrow> string \<Rightarrow> string + string list" where
  "lookupTXTWithRetry r name = fst (retryIPResolverLookup (ir_lookupTXT r name))"

text \<open>\<open>hex.EncodeToString\<close>.\<close>

definition hexBytes :: "8 word list \<Rightarrow> string" where
  "hexBytes bytes = concat (map (\<lambda>b. [hexDigit (unat b div 16), hexDigit (unat b mod 16)]) bytes)"

definition cymruOriginQueryDomain :: "ipAddress \<Rightarrow> string option" where
  "cymruOriginQueryDomain ip =
     (case ia_To4 ip of
        Some v4 \<Rightarrow>
          (case Split v4 CHR ''.'' of
             [a, b, c, d] \<Rightarrow> Some (d @ ''.'' @ c @ ''.'' @ b @ ''.'' @ a @ ''.origin.asn.cymru.com'')
           | _ \<Rightarrow> None)
      | None \<Rightarrow>
          (case ia_To16 ip of
             None \<Rightarrow> None
           | Some bytes \<Rightarrow> Some (Join (map (\<lambda>c. [c]) (rev (hexBytes bytes))) ''.'' @ ''.origin6.asn.cymru.com'')))"

text \<open>\<open>strconv.Atoi\<close> with its 64-bit range.\<close>

definition Atoi :: "string \<Rightarrow> int option" where
  "Atoi s =
     (let (neg, ds) = (case s of [] \<Rightarrow> (False, []) | c # t \<Rightarrow>
            if c = CHR ''-'' then (True, t) else if c = CHR ''+'' then (False, t) else (False, s));
          v = (if neg then - int (read_nat 0 ds) else int (read_nat 0 ds))
      in if ds = [] \<or> \<not> list_all is_digit ds \<or> v < - (2 ^ 63) \<or> v \<ge> 2 ^ 63 then None else Some v)"

section \<open>Enriching one address\<close>

definition unquoted :: "string \<Rightarrow> string" where
  "unquoted s = TrimSet {CHR 0x22} s"

definition lookupError1 :: "string \<Rightarrow> string \<Rightarrow> string \<Rightarrow> string" where
  "lookupError1 kind ip err = ''ip_enricher lookup '' @ kind @ '' '' @ ip @ '': '' @ err"

text \<open>The first goroutine: the name, if one is found, and its errors.\<close>

definition ptrTask :: "ipResolver \<Rightarrow> string \<Rightarrow> string option \<times> string list" where
  "ptrTask r ip =
     (case lookupAddrWithRetry r ip of
        Inl err \<Rightarrow> (None, [lookupError1 ''ptr'' ip err])
      | Inr [] \<Rightarrow> (None, [])
      | Inr (name # _) \<Rightarrow> (Some (TrimSuffix name ''.''), []))"

definition orgTask :: "ipResolver \<Rightarrow> string \<Rightarrow> int \<Rightarrow> string option \<times> string list" where
  "orgTask r ip asn =
     (case lookupTXTWithRetry r (''AS'' @ show_int asn @ ''.asn.cymru.com'') of
        Inl err \<Rightarrow> (None, [lookupError1 ''org'' ip err])
      | Inr [] \<Rightarrow> (None, [])
      | Inr (rec # _) \<Rightarrow>
          (let parts = Split (unquoted rec) CHR ''|''
           in (if length parts \<ge> 5 then Some (TrimSpace (parts ! 4)) else None, [])))"

text \<open>The second goroutine: system, organization and block, if found, and its errors.\<close>

definition asnTask :: "ipResolver \<Rightarrow> string \<Rightarrow> ipAddress \<Rightarrow> (int option \<times> string option \<times> string option) \<times> string list" where
  "asnTask r ip parsed =
     (case cymruOriginQueryDomain parsed of
        None \<Rightarrow> ((None, None, None), [])
      | Some query \<Rightarrow>
          (case lookupTXTWithRetry r query of
             Inl err \<Rightarrow> ((None, None, None), [lookupError1 ''asn'' ip err])
           | Inr [] \<Rightarrow> ((None, None, None), [])
           | Inr (rec # _) \<Rightarrow>
               (let parts = Split (unquoted rec) CHR ''|'';
                    asn = Atoi (TrimSpace (parts ! 0));
                    (org, errs) = (case asn of None \<Rightarrow> (None, []) | Some n \<Rightarrow> orgTask r ip n);
                    cidr = (if length parts \<ge> 2 then Some (TrimSpace (parts ! 1)) else None)
                in ((asn, org, cidr), errs))))"

definition override :: "'a option \<Rightarrow> 'a \<Rightarrow> 'a" where
  "override new old = (case new of None \<Rightarrow> old | Some v \<Rightarrow> v)"

text \<open>An address that does not parse gets its details and nothing else.\<close>

definition enrichIP :: "ipResolver \<Rightarrow> gotime \<Rightarrow> asset \<Rightarrow> asset" where
  "enrichIP r now a =
     (let d = (case asset_IPDetails a of None \<Rightarrow> noIPDetails | Some d \<Rightarrow> d); ip = asset_Identifier a
      in case ir_ParseIP r ip of
           None \<Rightarrow> a\<lparr>asset_IPDetails := Some d\<rparr>
         | Some parsed \<Rightarrow>
             (let (ptr, ptrErrs) = ptrTask r ip;
                  ((asn, org, cidr), asnErrs) = asnTask r ip parsed;
                  errs = (if ir_ptrFirst r ip then ptrErrs @ asnErrs else asnErrs @ ptrErrs);
                  data = (case cidr of None \<Rightarrow> asset_EnrichmentData a
                          | Some c \<Rightarrow> AList.update ''cidr'' (EVString c) (asset_EnrichmentData a));
                  stage = \<lparr>es_Status = (if errs \<noteq> [] then ''retryable'' else ''completed''), es_Cached = False,
                           es_UpdatedAt = now, es_Error = joinEnrichmentErrors errs\<rparr>
              in a\<lparr>asset_IPDetails := Some \<lparr>ip_ASN = override asn (ip_ASN d),
                                            ip_Organization = override org (ip_Organization d),
                                            ip_PTR = override ptr (ip_PTR d)\<rparr>,
                   asset_EnrichmentData := AList.update ''enriched'' (EVBool True) data,
                   asset_EnrichmentStates := AList.update ''ip_enricher'' stage (asset_EnrichmentStates a)\<rparr>))"

definition needsIPEnrichment :: "asset \<Rightarrow> bool" where
  "needsIPEnrichment a \<longleftrightarrow>
     (case map_of (asset_EnrichmentStates a) ''ip_enricher'' of
        None \<Rightarrow> True
      | Some st \<Rightarrow> TrimSpace (ToLower (es_Status st)) \<in> {[], ''missing'', ''retryable''})"

section \<open>Ownership\<close>

text \<open>The seed of an enumeration; of two with one ID the last counts.\<close>

definition seedByID :: "pipelineContext \<Rightarrow> string \<Rightarrow> seed option" where
  "seedByID p i = map_of (rev (map (\<lambda>s. (seed_ID s, s)) (Seeds p))) i"

definition enumToSeed :: "pipelineContext \<Rightarrow> string \<Rightarrow> seed option" where
  "enumToSeed p i =
     map_of (rev (concat (map (\<lambda>e. case seedByID p (enum_SeedID e) of None \<Rightarrow> [] | Some s \<Rightarrow> [(enum_ID e, s)])
       (Enumerations p)))) i"

definition seedContextKey :: "seed \<Rightarrow> string" where
  "seedContextKey s = (if seed_ID s = [] then Join (seed_Domains s) '','' else seed_ID s)"

definition contributorSeedsForAsset :: "(string \<Rightarrow> seed option) \<Rightarrow> asset \<Rightarrow> seed list" where
  "contributorSeedsForAsset toSeed a =
     uniqueBy seedContextKey {} (concat (map (\<lambda>i. case toSeed i of None \<Rightarrow> [] | Some s \<Rightarrow> [s])
       (assetContributorEnumerationIDs a)))"

definition ptrHostOf :: "asset \<Rightarrow> string" where
  "ptrHostOf a = (case asset_IPDetails a of None \<Rightarrow> [] | Some d \<Rightarrow> NormalizeDomainIdentifier (ip_PTR d))"

definition ptrRootOf :: "netLibrary \<Rightarrow> asset \<Rightarrow> string" where
  "ptrRootOf net a = (if asset_IPDetails a = None then [] else RegistrableDomain net (ptrHostOf a))"

definition ipOwnershipMatchesSeed :: "netLibrary \<Rightarrow> ipResolver \<Rightarrow> asset \<Rightarrow> seed list \<Rightarrow> bool" where
  "ipOwnershipMatchesSeed net r a seeds \<longleftrightarrow>
     (\<exists>s \<in> set seeds.
        (\<exists>d \<in> set (seed_Domains s). ptrRootOf net a \<noteq> [] \<and> RegistrableDomain net d = ptrRootOf net a)
      \<or> (case asset_IPDetails a of None \<Rightarrow> False | Some d \<Rightarrow> \<exists>asn \<in> set (seed_ASN s). asn \<noteq> 0 \<and> asn = ip_ASN d)
      \<or> (case ir_ParseIP r (asset_Identifier a) of None \<Rightarrow> False
         | Some parsed \<Rightarrow> \<exists>cidr \<in> set (seed_CIDR s). ir_contains r (TrimSpace cidr) parsed))"

definition classifyCanonicalIPAsset ::
  "netLibrary \<Rightarrow> ipResolver \<Rightarrow> (string \<Rightarrow> seed option) \<Rightarrow> asset \<Rightarrow> asset" where
  "classifyCanonicalIPAsset net r toSeed a =
     (let seeds = contributorSeedsForAsset toSeed a;
          assoc = (if asset_OwnershipState a = [] then OwnershipStateAssociatedInfrastructure else asset_OwnershipState a);
          reason = (\<lambda>text. if asset_InclusionReason a = [] then text else asset_InclusionReason a)
      in if seeds = [] then a\<lparr>asset_OwnershipState := assoc\<rparr>
         else if ipOwnershipMatchesSeed net r a seeds
         then a\<lparr>asset_OwnershipState := OwnershipStateOwned,
                asset_InclusionReason := reason ''Corroborated by PTR/ASN/CIDR overlap with an in-scope seed''\<rparr>
         else if ptrRootOf net a \<noteq> []
              \<and> \<not> (\<exists>s \<in> set seeds. \<exists>d \<in> set (seed_Domains s). RegistrableDomain net d = ptrRootOf net a)
         then a\<lparr>asset_OwnershipState := OwnershipStateUncertain,
                asset_InclusionReason := ''Observed behind an in-scope domain, but PTR points to '' @ ptrHostOf a\<rparr>
         else a\<lparr>asset_OwnershipState := assoc,
                asset_InclusionReason := reason ''Observed as infrastructure supporting an in-scope domain''\<rparr>)"

section \<open>The goroutines\<close>

definition buildIPEnrichmentObservation ::
  "asset \<Rightarrow> bool \<Rightarrow> ownershipState \<Rightarrow> string \<Rightarrow> environment \<Rightarrow> assetObservation option \<times> environment" where
  "buildIPEnrichmentObservation a performed previousOwnership previousReason env =
     (if \<not> performed \<and> asset_OwnershipState a = previousOwnership \<and> asset_InclusionReason a = previousReason
      then (None, env)
      else (let st0 = (case map_of (asset_EnrichmentStates a) ''ip_enricher'' of
                   Some st \<Rightarrow> st | None \<Rightarrow> \<lparr>es_Status = [], es_Cached = False, es_UpdatedAt = 0, es_Error = []\<rparr>);
                st1 = (if performed then st0
                       else st0\<lparr>es_Status := (if es_Status st0 = [] then ''cached'' else es_Status st0), es_Cached := True\<rparr>);
                (st, env1) = (if \<not> performed \<and> es_UpdatedAt st1 = 0
                              then (let (now, e) = readClock env in (st1\<lparr>es_UpdatedAt := now\<rparr>, e)) else (st1, env));
                (i, env2) = freshID ''obs-ip-enricher'' env1; (found, env3) = readClock env2
            in (Some \<lparr>obs_Kind = ObservationKindEnrichment, obs_ID = i, obs_AssetID = asset_ID a,
                  obs_EnumerationID = asset_EnumerationID a, obs_Type = asset_Type a, obs_Identifier = asset_Identifier a,
                  obs_Source = ''ip_enricher'', obs_DiscoveryDate = found, obs_OwnershipState = asset_OwnershipState a,
                  obs_InclusionReason = asset_InclusionReason a, obs_DomainDetails = None,
                  obs_IPDetails = asset_IPDetails a, obs_EnrichmentData = asset_EnrichmentData a,
                  obs_EnrichmentStates = [(''ip_enricher'', st)]\<rparr>, env3)))"

text \<open>What a goroutine does to its asset, and the observation it reports.\<close>

definition enrichOneIP ::
  "netLibrary \<Rightarrow> ipResolver \<Rightarrow> (string \<Rightarrow> seed option) \<Rightarrow> asset \<Rightarrow> environment
     \<Rightarrow> (asset \<times> assetObservation option) \<times> environment" where
  "enrichOneIP net r toSeed a0 env0 =
     (let performed = needsIPEnrichment a0;
          (a1, env1) = (if performed then (let (now, e) = readClock env0 in (enrichIP r now a0, e)) else (a0, env0));
          a = classifyCanonicalIPAsset net r toSeed a1;
          (ob, env2) = buildIPEnrichmentObservation a performed (asset_OwnershipState a0) (asset_InclusionReason a0) env1
      in ((a, ob), env2))"

definition enrichTableAsset ::
  "netLibrary \<Rightarrow> ipResolver \<Rightarrow> (string \<Rightarrow> seed option) \<Rightarrow> asset \<Rightarrow> environment
     \<Rightarrow> (asset \<times> assetObservation option) \<times> environment" where
  "enrichTableAsset net r toSeed a env =
     (if asset_Type a = AssetTypeIP then enrichOneIP net r toSeed a env else ((a, None), env))"

text \<open>What a goroutine reports under the second mutex, once for each enumeration of its asset.\<close>

record ptrEvent =
  pe_host :: string
  pe_root :: string
  pe_PTR :: string
  pe_enumerationID :: string
  pe_seed :: seed

definition ptrEventsOf :: "netLibrary \<Rightarrow> (string \<Rightarrow> seed option) \<Rightarrow> asset \<Rightarrow> ptrEvent list" where
  "ptrEventsOf net toSeed a =
     (case asset_IPDetails a of
        None \<Rightarrow> []
      | Some d \<Rightarrow>
          (let host = NormalizeDomainIdentifier (ip_PTR d)
           in if asset_Type a \<noteq> AssetTypeIP \<or> ip_PTR d = [] \<or> host = [] \<or> ExtractDomainCandidates net host = [] then []
              else concat (map (\<lambda>i. case toSeed i of None \<Rightarrow> []
                     | Some s \<Rightarrow> [\<lparr>pe_host = host, pe_root = RegistrableDomain net host, pe_PTR = ip_PTR d,
                                  pe_enumerationID = i, pe_seed = s\<rparr>]) (assetContributorEnumerationIDs a))))"

definition ptrHostWithinSeedScope :: "netLibrary \<Rightarrow> seed \<Rightarrow> string \<Rightarrow> bool" where
  "ptrHostWithinSeedScope net s host \<longleftrightarrow>
     RegistrableDomain net host \<noteq> [] \<and> (\<exists>d \<in> set (seed_Domains s). RegistrableDomain net d = RegistrableDomain net host)"

definition buildPTRSeed :: "seed \<Rightarrow> string \<Rightarrow> seed" where
  "buildPTRSeed parent host0 =
     (let host = NormalizeDomainIdentifier host0
      in if host = [] then zeroSeed
         else zeroSeed\<lparr>seed_ID := (if seed_ID parent \<noteq> [] then seed_ID parent @ '':ptr:'' @ host else host),
                       seed_CompanyName := host, seed_Domains := [host], seed_Address := seed_Address parent,
                       seed_Industry := seed_Industry parent,
                       seed_Tags := UniqueLowerStrings (seed_Tags parent @ [''ptr-recursion''])\<rparr>)"

record ptrObservation =
  po_root :: string
  po_seed :: seed
  po_hits :: nat
  po_hosts :: "string list"

text \<open>The maps \<open>ptrFollowUpSeeds\<close> and \<open>ptrObservations\<close>, by insertion.\<close>

type_synonym ptrMaps = "(string \<times> seed) list \<times> (string \<times> ptrObservation) list"

definition ptrHit :: "string \<Rightarrow> ptrObservation \<Rightarrow> ptrObservation" where
  "ptrHit ptr ob = ob\<lparr>po_hits := po_hits ob + 1, po_hosts := (if length (po_hosts ob) < 3 then po_hosts ob @ [ptr] else po_hosts ob)\<rparr>"

definition ptrObserve :: "netLibrary \<Rightarrow> ptrEvent \<Rightarrow> ptrMaps \<Rightarrow> ptrMaps" where
  "ptrObserve net e m =
     (let (follow, obs) = m;
          follow' = (if ptrHostWithinSeedScope net (pe_seed e) (pe_host e) \<and> map_of follow (pe_host e) = None
                     then follow @ [(pe_host e, buildPTRSeed (pe_seed e) (pe_host e))] else follow);
          key = pe_enumerationID e @ ''|'' @ pe_root e;
          ob = (case map_of obs key of Some ob \<Rightarrow> ob
                | None \<Rightarrow> \<lparr>po_root = pe_root e, po_seed = pe_seed e, po_hits = 0, po_hosts = []\<rparr>)
      in (follow', if pe_root e = [] then obs else AList.update key (ptrHit (pe_PTR e) ob) obs))"

section \<open>The judge\<close>

definition ptrEvidence :: "ptrObservation \<Rightarrow> ownershipEvidenceItem list" where
  "ptrEvidence ob =
     \<lparr>item_Kind = ''ptr_root'', item_Summary = ''Observed '' @ show_nat (po_hits ob)
        @ '' PTR-derived hits for this registrable domain from discovered IP assets''\<rparr>
     # (if po_hosts ob = [] then []
        else [\<lparr>item_Kind = ''ptr_host_samples'', item_Summary = ''Sample PTR hostnames: '' @ Join (po_hosts ob) '', ''\<rparr>])"

definition ptrGroupKey :: "ptrObservation \<Rightarrow> string" where
  "ptrGroupKey ob =
     (if seed_ID (po_seed ob) \<noteq> [] then seed_ID (po_seed ob)
      else seed_CompanyName (po_seed ob) @ ''|'' @ Join (seed_Domains (po_seed ob)) '','')"

text \<open>The members of a group in the order of insertion; its seed is the one of the first. The last
  observation with a root is the one that counts for it.\<close>

definition ptrGroups :: "ptrObservation list \<Rightarrow> (string \<times> ptrObservation list) list" where
  "ptrGroups obs =
     map (\<lambda>k. (k, filter (\<lambda>ob. ptrGroupKey ob = k) obs)) (uniqueBy (\<lambda>k. k) {} (map ptrGroupKey obs))"

definition ptrRequest :: "ptrObservation list \<Rightarrow> ownershipRequest" where
  "ptrRequest members =
     \<lparr>or_Scenario = ''reverse DNS pivot'', or_Seed = po_seed (hd members),
      or_Candidates = map (\<lambda>ob. \<lparr>oc_Root = po_root ob, oc_Evidence = ptrEvidence ob\<rparr>) members\<rparr>"

definition ptrByRoot :: "ptrObservation list \<Rightarrow> string \<Rightarrow> ptrObservation option" where
  "ptrByRoot members r = map_of (rev (map (\<lambda>ob. (po_root ob, ob)) members)) r"

definition ptrDiscoveredSeed :: "netLibrary \<Rightarrow> ptrObservation \<Rightarrow> string \<Rightarrow> seed" where
  "ptrDiscoveredSeed net ob r =
     (let s = BuildDiscoveredSeed net (po_seed ob) r ''ptr-recursion''
      in if seed_CompanyName s = [] then s\<lparr>seed_CompanyName := r\<rparr> else s)"

definition ptrDecision ::
  "netLibrary \<Rightarrow> 'b promotionHandler \<Rightarrow> ptrObservation list \<Rightarrow> judgeDecision \<Rightarrow> 'b engineState \<Rightarrow> 'b engineState" where
  "ptrDecision net h members d st =
     (if \<not> jd_Collect d \<or> \<not> IsConfidenceAtLeast (jd_Confidence d) (CandidatePromotionConfidenceThreshold (fst st)) then st
      else case ptrByRoot members (jd_Root d) of
             None \<Rightarrow> st
           | Some ob \<Rightarrow> snd (EnqueueSeedCandidate h (ptrDiscoveredSeed net ob (jd_Root d))
               \<lparr>ev_Source = ''ownership_judge'', ev_Kind = jd_Kind d, ev_Value = jd_Root d,
                ev_Confidence = jd_Confidence d, ev_Reasoned = True\<rparr> (fst st) (snd st)))"

definition judgePTRGroup ::
  "netLibrary \<Rightarrow> 'b promotionHandler \<Rightarrow> (ownershipRequest \<Rightarrow> string + judgeDecision list) \<Rightarrow> ptrObservation list
     \<Rightarrow> ('b engineState \<Rightarrow> 'b engineState) list" where
  "judgePTRGroup net h judge members =
     (case judge (ptrRequest members) of
        Inl e \<Rightarrow> [onContext (appendError e)]
      | Inr ds \<Rightarrow> onContext (RecordOwnershipJudgeEvaluation net ''ip_enricher'' (ptrRequest members) ds)
                  # map (ptrDecision net h members) ds)"

section \<open>The stage\<close>

record ipOrders =
  ipo_observations :: "assetObservation list \<Rightarrow> assetObservation list"
  ipo_events :: "ptrEvent list \<Rightarrow> ptrEvent list"
  ipo_map :: "string list \<Rightarrow> string list"

definition visitMap :: "(string list \<Rightarrow> string list) \<Rightarrow> (string \<times> 'v) list \<Rightarrow> 'v list" where
  "visitMap order m = map (\<lambda>k. the (map_of m k)) (order (map fst m))"

text \<open>The assets and observations of all goroutines, and what they reported of names.\<close>

definition enrichIPs ::
  "netLibrary \<Rightarrow> ipResolver \<Rightarrow> ipOrders \<Rightarrow> environment \<Rightarrow> pipelineContext \<Rightarrow> asset list \<times> assetObservation list \<times> ptrMaps" where
  "enrichIPs net r orders env p =
     (let toSeed = enumToSeed p;
          done = fst (drawAll (enrichTableAsset net r toSeed) (Assets p) env);
          as = map fst done;
          obs = concat (map (\<lambda>x. case snd x of None \<Rightarrow> [] | Some ob \<Rightarrow> [ob]) done);
          events = concat (map (ptrEventsOf net toSeed) as)
      in (as, ipo_observations orders obs, fold (ptrObserve net) (ipo_events orders events) ([], [])))"

definition IPEnricherProcess ::
  "netLibrary \<Rightarrow> ipResolver \<Rightarrow> ipOrders \<Rightarrow> (ownershipRequest \<Rightarrow> string + judgeDecision list) option
     \<Rightarrow> 'b promotionHandler \<Rightarrow> ('b engineState \<Rightarrow> environment) \<Rightarrow> 'b engineState thread" where
  "IPEnricherProcess net r orders judge h env =
     Step (onContext EnsureAssetState)
       (\<lambda>_. Step (\<lambda>s. ((fst s)\<lparr>Assets := fst (enrichIPs net r orders (env s) (fst s))\<rparr>, snd s))
         (\<lambda>s. let (_, obs, follow, ptrs) = enrichIPs net r orders (env s) (fst s);
                  groups = (if judge = None then [] else ptrGroups (visitMap (ipo_map orders) ptrs))
              in doSteps (onContext (AppendAssetObservations obs)
                   # map (\<lambda>s. onContext (\<lambda>p. snd (EnqueueSeed s p))) (visitMap (ipo_map orders) follow)
                   @ concat (map (judgePTRGroup net h (the judge)) (visitMap (ipo_map orders) groups)))))"

definition IPEnricher ::
  "netLibrary \<Rightarrow> ipResolver \<Rightarrow> ipOrders \<Rightarrow> (ownershipRequest \<Rightarrow> string + judgeDecision list) option
     \<Rightarrow> 'b promotionHandler \<Rightarrow> ('b engineState \<Rightarrow> environment) \<Rightarrow> 'b engineNode" where
  "IPEnricher net r orders judge h env =
     \<lparr>node_Name = ''IPEnricher'', node_Process = IPEnricherProcess net r orders judge h env\<rparr>"

end
