(* ===== verification/Enricher_Facts.thy ===== *)
theory Enricher_Facts
  imports IP_Enricher Stage_Facts Collector_Facts
begin

text \<open>
  What the enrichers do: they rewrite assets in place without touching what the table is indexed by,
  so both keep the invariants of the context. The domain enricher looks a name up until it succeeds and
  reports an address once for each enumeration; the IP enricher settles, and what it counts does not
  depend on the order in which its goroutines report.
\<close>

section \<open>Rewriting assets in place\<close>

definition sameIdentity :: "asset \<Rightarrow> asset \<Rightarrow> bool" where
  "sameIdentity a b \<longleftrightarrow> asset_ID b = asset_ID a \<and> asset_Type b = asset_Type a \<and> asset_Identifier b = asset_Identifier a
     \<and> (cleanAsset a \<longrightarrow> cleanAsset b)"

lemma sameIdentity_refl [simp]: "sameIdentity a a"
  by (simp add: sameIdentity_def)

lemma sameIdentity_trans: "sameIdentity a b \<Longrightarrow> sameIdentity b c \<Longrightarrow> sameIdentity a c"
  by (simp add: sameIdentity_def)

lemma sameIdentities_trans:
  "list_all2 sameIdentity as bs \<Longrightarrow> list_all2 sameIdentity bs cs \<Longrightarrow> list_all2 sameIdentity as cs"
  by (rule list_all2_trans [of sameIdentity sameIdentity sameIdentity]) (rule sameIdentity_trans)

lemma sameIdentities_refl: "list_all2 sameIdentity as as"
  by (simp add: list_all2_conv_all_nth)

lemma sameIdentity_key: "sameIdentity a b \<Longrightarrow> assetKeyOf b = assetKeyOf a"
  by (simp add: sameIdentity_def assetKeyOf_def)

lemma sameIdentity_good: "sameIdentity a b \<Longrightarrow> goodAsset a \<Longrightarrow> goodAsset b"
  unfolding sameIdentity_def goodAsset_def by presburger

lemma list_all2_forall:
  "list_all2 R xs ys \<Longrightarrow> (\<And>x y. R x y \<Longrightarrow> P x \<Longrightarrow> Q y) \<Longrightarrow> \<forall>x \<in> set xs. P x \<Longrightarrow> \<forall>y \<in> set ys. Q y"
  by (induction rule: list_all2_induct) auto

lemma rewritten_index:
  assumes "list_all2 sameIdentity as bs"
  shows "map assetKeyOf bs = map assetKeyOf as" and "map asset_ID bs = map asset_ID as"
    and "\<forall>a \<in> set as. cleanAsset a \<Longrightarrow> \<forall>b \<in> set bs. cleanAsset b"
    and "\<forall>a \<in> set as. goodAsset a \<Longrightarrow> \<forall>b \<in> set bs. goodAsset b"
proof -
  show "map assetKeyOf bs = map assetKeyOf as" "map asset_ID bs = map asset_ID as"
    using assms by (induction rule: list_all2_induct) (simp_all add: sameIdentity_key, simp add: sameIdentity_def)
  show "\<forall>b \<in> set bs. cleanAsset b" if "\<forall>a \<in> set as. cleanAsset a"
    by (rule list_all2_forall [OF assms _ that]) (simp add: sameIdentity_def)
  show "\<forall>b \<in> set bs. goodAsset b" if "\<forall>a \<in> set as. goodAsset a"
    by (rule list_all2_forall [OF assms _ that]) (rule sameIdentity_good)
qed

lemma is_index_same_keys: "map f ys = map f xs \<Longrightarrow> is_index f ys m = is_index f xs m"
  unfolding is_index_def by (metis length_map nth_map)

lemma assets_ok_clean: "assets_ok p \<Longrightarrow> \<forall>a \<in> set (Assets p). cleanAsset a"
  by (auto simp: assets_ok_def asset_inv_def split: if_splits)

lemma keeps_rewrite:
  assumes "list_all2 sameIdentity (Assets p) as"
  shows "keeps (p, b) (p\<lparr>Assets := as\<rparr>, b')"
proof (rule keeps_frame)
  note same = rewritten_index [OF assms]
  have "assetIDs (p\<lparr>Assets := as\<rparr>) = assetIDs p"
    using same(2) by (simp add: assetIDs_def flip: set_map)
  then show "assets_ok (fst (p, b)) \<longrightarrow> assets_ok (fst (p\<lparr>Assets := as\<rparr>, b'))"
    using same is_index_same_keys [OF same(1)] by (auto simp: assets_ok_def asset_inv_def)
qed (simp add: same_frontier_def)

lemma busy_clean: "\<not> idle keeps s \<Longrightarrow> \<forall>a \<in> set (Assets (fst s)). cleanAsset a"
  using busy_keeps context_okD(2) assets_ok_clean by blast

lemma keeps_observations:
  "\<forall>ob \<in> set obs. cleanObservation ob \<Longrightarrow> keeps s (onContext (AppendAssetObservations obs) s)"
  using keeps_append(2) [of obs "fst s" "snd s" "snd s"] by (simp add: onContext_def)

lemma keeps_relations: "keeps s (onContext (AppendAssetRelations rs) s)"
  using keeps_append(3) [of "fst s" "snd s" rs "snd s"] by (simp add: onContext_def)

lemma keeps_errors: "keeps s (onContext (appendErrors errs) s)" "keeps s (onContext (appendError err) s)"
  by (rule keeps_same; simp add: onContext_def appendErrors_def appendError_def same_frontier_def same_assets_def)+

section \<open>The work of the domain enricher\<close>

definition okWork :: "asset list \<Rightarrow> enricherWork \<Rightarrow> bool" where
  "okWork as w \<longleftrightarrow> list_all2 sameIdentity as (ew_assets w)
     \<and> (\<forall>ob \<in> set (ew_observations w). cleanObservation ob) \<and> (\<forall>a \<in> set (ew_ips w). cleanAsset a)"

definition ipKey :: "asset \<Rightarrow> string" where
  "ipKey a = domainEnricherIPKey (asset_EnumerationID a) (asset_Identifier a)"

text \<open>What was reported since the state \<open>E\<close> of the emitted keys.\<close>

definition emittedSince :: "string set \<Rightarrow> enricherWork \<Rightarrow> bool" where
  "emittedSince E w \<longleftrightarrow> distinct (map ipKey (ew_ips w)) \<and> ipKey ` set (ew_ips w) \<inter> E = {}
     \<and> des_emittedIPKeys (ew_state w) = E \<union> ipKey ` set (ew_ips w)"

lemma fold_keeps_invariant: "(\<And>x w. x \<in> set xs \<Longrightarrow> P w \<Longrightarrow> P (f x w)) \<Longrightarrow> P w \<Longrightarrow> P (fold f xs w)"
  by (induction xs arbitrary: w) simp_all

lemma resolvedRelation_fields:
  "ew_state (resolvedRelation a e i o' r k w) = ew_state w" "ew_assets (resolvedRelation a e i o' r k w) = ew_assets w"
  "ew_observations (resolvedRelation a e i o' r k w) = ew_observations w" "ew_ips (resolvedRelation a e i o' r k w) = ew_ips w"
  by (simp_all add: resolvedRelation_def workFreshID_def workClock_def split_def Let_def)

lemma resolvedRelations_fields:
  "ew_state (fold (resolvedRelation a e i o' r) ks w) = ew_state w"
  "ew_assets (fold (resolvedRelation a e i o' r) ks w) = ew_assets w"
  "ew_observations (fold (resolvedRelation a e i o' r) ks w) = ew_observations w"
  "ew_ips (fold (resolvedRelation a e i o' r) ks w) = ew_ips w"
  by (induction ks arbitrary: w) (simp_all add: resolvedRelation_fields)

lemma emitIP_fields:
  "ew_assets (emitIP rs a e i w) = ew_assets w" "ew_observations (emitIP rs a e i w) = ew_observations w"
  "des_cache (ew_state (emitIP rs a e i w)) = des_cache (ew_state w)"
  "des_lastContext (ew_state (emitIP rs a e i w)) = des_lastContext (ew_state w)"
  by (simp_all add: emitIP_def claimEmittedIP_def resolvedRelations_fields split_def Let_def)

lemma emitIP_ok: "okWork as w \<Longrightarrow> okWork as (emitIP rs a e i w)"
  by (auto simp: okWork_def emitIP_fields)
    (auto simp: emitIP_def resolvedRelations_fields split_def Let_def newAsset_def cleanAsset_def split: if_splits)

lemma emitIP_since: "emittedSince E w \<Longrightarrow> emittedSince E (emitIP rs a e i w)"
  by (auto simp: emittedSince_def emitIP_def claimEmittedIP_def resolvedRelations_fields split_def Let_def
      newAsset_def ipKey_def split: if_splits)

lemma enriched_identity: "sameIdentity a (enrichedDomainAsset net r stage a)"
  by (simp add: sameIdentity_def enrichedDomainAsset_def cleanAsset_def Let_def)

lemma sameIdentities_update:
  assumes "list_all2 sameIdentity as bs" and "sameIdentity (bs ! i) c"
  shows "list_all2 sameIdentity as (bs[i := c])"
proof -
  have "sameIdentity (as ! j) (bs[i := c] ! j)" if "j < length bs" for j
    using that assms list_all2_nthD2 [OF assms(1) that] sameIdentity_trans [OF _ assms(2), of "as ! i"]
    by (cases "i = j") auto
  then show ?thesis using list_all2_lengthD [OF assms(1)] by (simp add: list_all2_conv_all_nth)
qed

text \<open>The state of \<open>enrichAt\<close> before the addresses are reported.\<close>

definition enrichedWork :: "netLibrary \<Rightarrow> domainEnrichmentResult \<Rightarrow> nat \<Rightarrow> enricherWork \<Rightarrow> enricherWork \<times> asset" where
  "enrichedWork net r index w0 =
     (let before = ew_assets w0 ! index; (now, w1) = workClock w0; stage = domainStageState r now;
          a = enrichedDomainAsset net r stage before;
          w2 = w1\<lparr>ew_assets := (ew_assets w1)[index := a]\<rparr>
      in (if shouldRecordDomainEnrichmentObservation before
          then (let (i, w') = workFreshID ''obs-domain-enricher'' w2; (found, w'') = workClock w'
                in w''\<lparr>ew_observations := ew_observations w'' @
                     [\<lparr>obs_Kind = ObservationKindEnrichment, obs_ID = i, obs_AssetID = asset_ID a,
                       obs_EnumerationID = asset_EnumerationID a, obs_Type = asset_Type a,
                       obs_Identifier = asset_Identifier a, obs_Source = ''domain_enricher'', obs_DiscoveryDate = found,
                       obs_OwnershipState = [], obs_InclusionReason = [], obs_DomainDetails = asset_DomainDetails a,
                       obs_IPDetails = None, obs_EnrichmentData = asset_EnrichmentData a,
                       obs_EnrichmentStates = [(''domain_enricher'', stage)]\<rparr>]\<rparr>)
          else w2, a))"

lemma enrichAt_eq:
  "enrichAt net r index w =
     (let (w', a) = enrichedWork net r index w
      in fold (\<lambda>enumID. fold (emitIP (ce_records (er_cache r)) a enumID) (ce_ips (er_cache r)))
           (assetContributorEnumerationIDs a) w')"
  by (simp add: enrichAt_def enrichedWork_def split_def Let_def)

lemma enrichedWork_fields:
  "ew_state (fst (enrichedWork net r i w)) = ew_state w" "ew_ips (fst (enrichedWork net r i w)) = ew_ips w"
  "ew_assets (fst (enrichedWork net r i w)) = (ew_assets w)[i := snd (enrichedWork net r i w)]"
  "sameIdentity (ew_assets w ! i) (snd (enrichedWork net r i w))"
  by (simp_all add: enrichedWork_def workClock_def workFreshID_def enriched_identity split_def Let_def)

lemma enrichedWork_observations:
  "ob \<in> set (ew_observations (fst (enrichedWork net r i w)))
     \<Longrightarrow> ob \<in> set (ew_observations w) \<or> obs_Type ob = asset_Type (ew_assets w ! i) \<and> obs_IPDetails ob = None"
  by (auto simp: enrichedWork_def workClock_def workFreshID_def enrichedDomainAsset_def split_def Let_def split: if_splits)

lemma enrichedWork_ok:
  assumes "okWork as w" and "i < length as" and "asset_Type (as ! i) = AssetTypeDomain"
  shows "okWork as (fst (enrichedWork net r i w))"
proof -
  have same: "list_all2 sameIdentity as (ew_assets w)" using assms(1) by (simp add: okWork_def)
  then have "asset_Type (ew_assets w ! i) = AssetTypeDomain"
    using list_all2_nthD [OF same assms(2)] assms(3) by (simp add: sameIdentity_def)
  then have "cleanObservation ob" if "ob \<in> set (ew_observations (fst (enrichedWork net r i w)))" for ob
    using enrichedWork_observations [OF that] assms(1) by (auto simp: okWork_def cleanObservation_def)
  with assms(1) sameIdentities_update [OF same enrichedWork_fields(4)] show ?thesis
    by (simp add: okWork_def enrichedWork_fields)
qed

lemma enrichAt_ok:
  assumes "okWork as w" and "i < length as" and "asset_Type (as ! i) = AssetTypeDomain"
  shows "okWork as (enrichAt net r i w)"
  using enrichedWork_ok [OF assms, of net r]
  by (auto simp: enrichAt_eq split_def Let_def intro!: fold_keeps_invariant emitIP_ok)

lemma enrichAt_since: "emittedSince E w \<Longrightarrow> emittedSince E (enrichAt net r i w)"
proof -
  assume "emittedSince E w"
  then have "emittedSince E (fst (enrichedWork net r i w))" by (simp add: emittedSince_def enrichedWork_fields)
  then show ?thesis
    by (auto simp: enrichAt_eq split_def Let_def intro!: fold_keeps_invariant emitIP_since)
qed

definition cacheIs :: "(string \<rightharpoonup> cachedDomainEnrichment) \<Rightarrow> nat option \<Rightarrow> enricherWork \<Rightarrow> bool" where
  "cacheIs C L w \<longleftrightarrow> des_cache (ew_state w) = C \<and> des_lastContext (ew_state w) = L"

lemma enrichAt_cache: "cacheIs C L w \<Longrightarrow> cacheIs C L (enrichAt net r i w)"
proof -
  assume "cacheIs C L w"
  then have "cacheIs C L (fst (enrichedWork net r i w))" by (simp add: cacheIs_def enrichedWork_fields)
  moreover have "cacheIs C L (emitIP rs a e ip w')" if "cacheIs C L w'" for rs a e ip w'
    using that by (simp add: cacheIs_def emitIP_fields)
  ultimately show ?thesis
    unfolding enrichAt_eq split_def Let_def by (intro fold_keeps_invariant [where P = "cacheIs C L"]) simp_all
qed

section \<open>A call of the domain enricher\<close>

definition startState :: "nat \<Rightarrow> asset list \<Rightarrow> domainEnricherState \<Rightarrow> domainEnricherState" where
  "startState ctx as st = seedEmitted as (ensureRunState ctx st)"

definition storedState ::
  "netLibrary \<Rightarrow> domainEnricher \<Rightarrow> asset list \<Rightarrow> domainEnricherState \<Rightarrow> domainEnricherState" where
  "storedState net e as st =
     fold (\<lambda>r. storeCachedEntry (er_identifier r) (er_cache r))
       (den_ends e (map (readyResult net e as st) (identifiersToLookup net as st))) st"

lemma indexesOf_domain:
  assumes "i \<in> set (indexesOf as identifier)" and "identifier \<in> set (identifiersOf as)"
  shows "i < length as" and "asset_Type (as ! i) = AssetTypeDomain"
  using assms by (auto simp: indexesOf_def identifiersOf_def domainName_def split: if_splits)

lemma storedState_fields:
  "des_emittedIPKeys (storedState net e as st) = des_emittedIPKeys st"
  "des_lastContext (storedState net e as st) = des_lastContext st"
proof -
  let ?P = "\<lambda>s. des_emittedIPKeys s = des_emittedIPKeys st \<and> des_lastContext s = des_lastContext st"
  have "?P (storedState net e as st)"
    unfolding storedState_def by (rule fold_keeps_invariant [where P = ?P]) (simp_all add: storeCachedEntry_def)
  then show "des_emittedIPKeys (storedState net e as st) = des_emittedIPKeys st"
    "des_lastContext (storedState net e as st) = des_lastContext st" by simp_all
qed

lemma enrichAll_invariant:
  assumes "\<And>r i w. i < length as \<Longrightarrow> asset_Type (as ! i) = AssetTypeDomain \<Longrightarrow> P w \<Longrightarrow> P (enrichAt net r i w)" and "P w"
  shows "P (fold (\<lambda>i. fold (enrichAt net (ready i)) (indexesOf as i)) (identifiersOf as) w)"
proof (rule fold_keeps_invariant [where P = P, OF _ assms(2)])
  fix i w assume i: "i \<in> set (identifiersOf as)" and w: "P w"
  show "P (fold (enrichAt net (ready i)) (indexesOf as i) w)"
    by (rule fold_keeps_invariant [where P = P, OF _ w], rule assms(1)) (use indexesOf_domain i in auto)
qed

lemma enrichDomains_work:
  fixes net e ctx env as st0
  defines "st \<equiv> startState ctx as st0"
  defines "w \<equiv> snd (enrichDomains net e ctx env as st0)"
  shows "okWork as w" and "emittedSince (des_emittedIPKeys st) w"
    and "des_cache (ew_state w) = des_cache (storedState net e as st)"
    and "des_lastContext (ew_state w) = des_lastContext st"
proof -
  let ?w0 = "\<lparr>ew_env = env, ew_state = storedState net e as st, ew_assets = as, ew_observations = [], ew_ips = [], ew_relations = []\<rparr>"
  have w: "w = fold (\<lambda>i. fold (enrichAt net (readyResult net e as st i)) (indexesOf as i)) (identifiersOf as) ?w0"
    by (simp add: w_def enrichDomains_def storedState_def st_def startState_def Let_def)
  show "okWork as w"
    unfolding w by (rule enrichAll_invariant [where P = "okWork as"], rule enrichAt_ok) (simp_all add: okWork_def sameIdentities_refl)
  show "emittedSince (des_emittedIPKeys st) w"
    unfolding w by (rule enrichAll_invariant [where P = "emittedSince _"], rule enrichAt_since) (simp_all add: emittedSince_def storedState_fields)
  have "cacheIs (des_cache (storedState net e as st)) (des_lastContext st) w"
    unfolding w by (rule enrichAll_invariant [where P = "cacheIs _ _"], rule enrichAt_cache) (simp_all add: cacheIs_def storedState_fields)
  then show "des_cache (ew_state w) = des_cache (storedState net e as st)" "des_lastContext (ew_state w) = des_lastContext st"
    by (simp_all add: cacheIs_def)
qed

text \<open>A name whose lookup did not fail is done, so it is not looked up again in this run.\<close>

lemma enrichDomain_fields:
  "er_identifier (enrichDomain e st want i) = i"
  "\<not> er_retryable (enrichDomain e st want i) \<Longrightarrow> doneEntry want (er_cache (enrichDomain e st want i))"
proof -
  show "er_identifier (enrichDomain e st want i) = i" by (simp add: enrichDomain_def split_def Let_def)
  have dns: "ce_dnsDone (fst (lookupDNS e i entry)) = (snd (lookupDNS e i entry) = [])" for entry
    by (simp add: lookupDNS_def split_def Let_def)
  have rdap: "ce_dnsDone (fst (lookupRegistration e i entry)) = ce_dnsDone entry"
    "snd (lookupRegistration e i entry) = [] \<Longrightarrow> ce_rdapDone (fst (lookupRegistration e i entry))" for entry
    by (auto simp: lookupRegistration_def split: lookupResult.splits)
  show "doneEntry want (er_cache (enrichDomain e st want i))" if "\<not> er_retryable (enrichDomain e st want i)"
    using that by (auto simp: enrichDomain_def doneEntry_def split_def Let_def dns rdap split: if_splits)
qed

lemma stored_entries:
  assumes "\<forall>r \<in> set rs. er_identifier r = i \<longrightarrow> er_cache r = entry"
  shows "des_cache (fold (\<lambda>r. storeCachedEntry (er_identifier r) (er_cache r)) rs st) i
     = (if i \<in> er_identifier ` set rs then Some entry else des_cache st i)"
  using assms by (induction rs arbitrary: st) (auto simp: storeCachedEntry_def)

lemma storedState_cache:
  assumes "\<And>rs. mset (den_ends e rs) = mset rs"
  shows "des_cache (storedState net e as st) i =
     (if i \<in> set (identifiersToLookup net as st) then Some (er_cache (readyResult net e as st i)) else des_cache st i)"
proof -
  let ?rs = "den_ends e (map (readyResult net e as st) (identifiersToLookup net as st))"
  have ids: "er_identifier (readyResult net e as st j) = j" for j by (simp add: readyResult_def enrichDomain_fields)
  have set: "set ?rs = readyResult net e as st ` set (identifiersToLookup net as st)"
    using mset_eq_setD [OF assms] by simp
  then have "\<forall>r \<in> set ?rs. er_identifier r = i \<longrightarrow> er_cache r = er_cache (readyResult net e as st i)"
    using ids by auto
  from stored_entries [OF this, of st] set ids show ?thesis
    unfolding storedState_def by (auto simp: image_image)
qed

lemma looked_up_once:
  fixes net e ctx env as st0
  assumes "\<And>rs. mset (den_ends e rs) = mset rs"
  defines "w \<equiv> snd (enrichDomains net e ctx env as st0)"
  assumes "i \<in> set (identifiersOf as)" and "\<not> er_retryable (readyResult net e as (startState ctx as st0) i)"
    and "needsRDAP net as' i \<longrightarrow> needsRDAP net as i"
  shows "i \<notin> set (identifiersToLookup net as' (startState ctx as' (ew_state w)))"
proof -
  let ?st = "startState ctx as st0"
  have seed: "des_cache (seedEmitted bs st) = des_cache st" "des_lastContext (seedEmitted bs st) = des_lastContext st" for bs st
  proof -
    let ?P = "\<lambda>s. des_cache s = des_cache st \<and> des_lastContext s = des_lastContext st"
    have one: "?P (seedEmittedIP e i s)" if "?P s" for e i s using that by (simp add: seedEmittedIP_def Let_def)
    have "?P (fold (\<lambda>e. seedEmittedIP e i) es s)" if "?P s" for i es s
      by (rule fold_keeps_invariant [where P = ?P]) (use one that in auto)
    then have "?P (seedEmitted bs st)"
      unfolding seedEmitted_def by (intro fold_keeps_invariant [where P = ?P]) auto
    then show "des_cache (seedEmitted bs st) = des_cache st" "des_lastContext (seedEmitted bs st) = des_lastContext st"
      by simp_all
  qed
  have last: "des_lastContext ?st = Some ctx" by (simp add: startState_def seed ensureRunState_def)
  have "des_lastContext (ew_state w) = Some ctx"
    using enrichDomains_work(4) [of net e ctx env as st0] last by (simp add: w_def)
  then have cache: "des_cache (startState ctx as' (ew_state w)) = des_cache (storedState net e as ?st)"
    using enrichDomains_work(3) [of net e ctx env as st0] by (simp add: w_def startState_def seed ensureRunState_def)
  have "\<exists>entry. des_cache (storedState net e as ?st) i = Some entry \<and> doneEntry (needsRDAP net as i) entry"
  proof (cases "i \<in> set (identifiersToLookup net as ?st)")
    case True
    with enrichDomain_fields(2) assms(4) show ?thesis
      by (simp add: storedState_cache [OF assms(1)] readyResult_def)
  next
    case False
    with assms(3) show ?thesis
      by (auto simp: storedState_cache [OF assms(1)] identifiersToLookup_def cachedEntry_def split: option.splits)
  qed
  with cache assms(5) show ?thesis
    by (auto simp: identifiersToLookup_def cachedEntry_def doneEntry_def)
qed

lemma thread_ok_if: "thread_ok R t \<Longrightarrow> thread_ok R u \<Longrightarrow> thread_ok R (if c then t else u)"
  by simp

lemma DomainEnricher_thread_ok: "thread_ok keeps (node_Process (NewDomainEnricher net e c ctx env))"
proof -
  let ?w = "\<lambda>s. snd (enrichDomains net e ctx (env s) (Assets (fst s)) (cell_get c (snd s)))"
  have act: "keeps s ((fst s)\<lparr>Assets := ew_assets (?w s)\<rparr>, cell_put c (ew_state (?w s)) (snd s))" for s
    using keeps_rewrite [of "fst s" "ew_assets (?w s)" "snd s"] enrichDomains_work(1) [of "Assets (fst s)" net e ctx "env s"]
    by (simp add: okWork_def)
  have steps: "thread_ok keeps (doSteps [onContext (appendErrors errs), onContext (AppendAssetObservations (ew_observations (?w s))),
      onContext (AppendAssets (ew_ips (?w s))), onContext (AppendAssetRelations rels)])" for errs rels s
    using enrichDomains_work(1) [of "Assets (fst s)" net e ctx "env s" "cell_get c (snd s)"]
    by (intro thread_ok_doSteps) (auto simp: okWork_def keeps_errors keeps_observations append_keeps keeps_relations)
  show ?thesis
    unfolding NewDomainEnricher_def DomainEnricherProcess_def engineNode.simps Let_def
    by (intro thread_ok.step keeps_ensure act thread_ok_if thread_ok.returned steps)
qed

section \<open>Lookups with retries\<close>

lemma retryIPFrom_spec:
  assumes "retryIPFrom lookup n backoff = (r, waits)" and "1 \<le> n" and "n \<le> 3" and "0 < backoff" and "backoff \<le> 2000 * millisecond"
  shows "length waits + n \<le> 3 \<and> (\<forall>w \<in> set waits. 0 < w \<and> w \<le> 2000 * millisecond)
     \<and> (\<forall>vs. r = Inr vs \<longrightarrow> vs = [] \<or> (\<exists>k. lookup k = Inr vs))"
  using assms
proof (induction lookup n backoff arbitrary: r waits rule: retryIPFrom.induct)
  case (1 lookup n backoff)
  note run = "1.prems"(1) [unfolded retryIPFrom.simps [of lookup n backoff]]
  show ?case
  proof (cases "lookup n")
    case (Inr vs)
    with run "1.prems"(3) show ?thesis by auto
  next
    case (Inl err)
    show ?thesis
    proof (cases "isTerminalDNSLookupError err \<or> n \<ge> 3")
      case True
      with run Inl "1.prems"(3) show ?thesis by (auto split: if_splits)
    next
      case False
      obtain r' ws where rec: "retryIPFrom lookup (n + 1) (nextIPBackoff backoff) = (r', ws)" by fastforce
      have "0 < nextIPBackoff backoff" "nextIPBackoff backoff \<le> 2000 * millisecond"
        using "1.prems"(4,5) by (auto simp: nextIPBackoff_def millisecond_def)
      with "1.IH" [OF Inl _ _ rec] False "1.prems" run Inl rec show ?thesis by auto
    qed
  qed
qed

lemma retryIPResolverLookup_spec:
  assumes "retryIPResolverLookup lookup = (r, waits)"
  shows "length waits \<le> 2" and "\<forall>w \<in> set waits. 0 < w \<and> w \<le> 2000 * millisecond"
    and "r = Inr vs \<Longrightarrow> vs = [] \<or> (\<exists>k. lookup k = Inr vs)"
  using retryIPFrom_spec [OF assms [unfolded retryIPResolverLookup_def]] by (auto simp: millisecond_def)

section \<open>Assets of addresses\<close>

text \<open>Library: \<open>LookupAddr\<close> only gives properly formatted names; they hold no comma.\<close>

definition ptrLibrary :: "ipResolver \<Rightarrow> bool" where
  "ptrLibrary r \<longleftrightarrow> (\<forall>ip n names. ir_lookupAddr r ip n = Inr names \<longrightarrow> (\<forall>name \<in> set names. CHR '','' \<notin> set name))"

lemma TrimSuffix_set: "set (TrimSuffix s t) \<subseteq> set s"
  by (auto simp: TrimSuffix_def dest: in_set_takeD)

lemma ptrTask_plain:
  assumes "ptrLibrary r" and "fst (ptrTask r ip) = Some name"
  shows "CHR '','' \<notin> set name"
proof -
  obtain x xs where x: "lookupAddrWithRetry r ip = Inr (x # xs)" "name = TrimSuffix x ''.''"
    using assms(2) by (auto simp: ptrTask_def split: sum.splits list.splits)
  then have "\<exists>k. ir_lookupAddr r ip k = Inr (x # xs)"
    using retryIPResolverLookup_spec(3) [of "ir_lookupAddr r ip" "Inr (x # xs)" _ "x # xs"]
    by (metis list.distinct(1) lookupAddrWithRetry_def prod.collapse)
  with assms(1) have "CHR '','' \<notin> set x" unfolding ptrLibrary_def by (meson list.set_intros(1))
  with x(2) TrimSuffix_set show ?thesis by blast
qed

lemma enrichIP_identity:
  assumes "ptrLibrary r"
  shows "sameIdentity a (enrichIP r now a)"
proof -
  have plain: "plainPTR (Some \<lparr>ip_ASN = n, ip_Organization = g, ip_PTR = override (fst (ptrTask r ip)) (ip_PTR d)\<rparr>)"
    if "plainPTR (Some d)" for n g ip d
    using that ptrTask_plain [OF assms, of ip] by (simp add: plainPTR_def override_def split: option.split)
  show ?thesis
    by (auto simp: sameIdentity_def enrichIP_def cleanAsset_def split_def Let_def plain split: option.split)
qed

lemma classify_identity: "sameIdentity a (classifyCanonicalIPAsset net r toSeed a)"
  by (auto simp: sameIdentity_def classifyCanonicalIPAsset_def cleanAsset_def Let_def)

lemma enrichOneIP_identity:
  assumes "ptrLibrary r"
  shows "sameIdentity a (fst (fst (enrichOneIP net r toSeed a env)))"
  using sameIdentity_trans [OF enrichIP_identity [OF assms] classify_identity] classify_identity
  by (auto simp: enrichOneIP_def split_def Let_def)

lemma enrichOneIP_observation:
  assumes "snd (fst (enrichOneIP net r toSeed a env)) = Some ob"
  shows "obs_Type ob = asset_Type (fst (fst (enrichOneIP net r toSeed a env)))"
    and "obs_IPDetails ob = asset_IPDetails (fst (fst (enrichOneIP net r toSeed a env)))"
  using assms by (auto simp: enrichOneIP_def buildIPEnrichmentObservation_def split_def Let_def split: if_splits)

lemma enrichTable_identity:
  assumes "ptrLibrary r"
  shows "sameIdentity a (fst (fst (enrichTableAsset net r toSeed a env)))"
  using enrichOneIP_identity [OF assms] by (simp add: enrichTableAsset_def)

lemma enrichTable_observation:
  assumes "ptrLibrary r" and "cleanAsset a" and "snd (fst (enrichTableAsset net r toSeed a env)) = Some ob"
  shows "cleanObservation ob"
proof -
  have "sameIdentity a (fst (fst (enrichOneIP net r toSeed a env)))" by (rule enrichOneIP_identity [OF assms(1)])
  with assms(2) have "cleanAsset (fst (fst (enrichOneIP net r toSeed a env)))" by (simp add: sameIdentity_def)
  with assms(3) enrichOneIP_observation [of net r toSeed a env ob] show ?thesis
    by (simp add: cleanObservation_def cleanAsset_def enrichTableAsset_def split: if_splits)
qed

lemma drawAll_all2:
  assumes "\<And>x env. x \<in> set xs \<Longrightarrow> Q x (fst (f x env))"
  shows "list_all2 Q xs (fst (drawAll f xs env))"
  using assms by (induction xs arbitrary: env) (simp_all add: split_def Let_def)

section \<open>What the names of addresses lead to\<close>

text \<open>Seeds and roots that come from PTR names hold no comma.\<close>

definition cleanPTRMaps :: "ptrMaps \<Rightarrow> bool" where
  "cleanPTRMaps m \<longleftrightarrow> (\<forall>x \<in> set (fst m). commaFree (snd x)) \<and> (\<forall>x \<in> set (snd m). CHR '','' \<notin> set (po_root (snd x)))"

lemma buildPTRSeed_commaFree: "CHR '','' \<notin> set host \<Longrightarrow> commaFree (buildPTRSeed s host)"
  by (simp add: commaFree_def buildPTRSeed_def zeroSeed_def NormalizeDomainIdentifier_comma Let_def)

lemma ptrEvents_clean:
  assumes "suffixLibrary net" and "cleanAsset a" and "e \<in> set (ptrEventsOf net toSeed a)"
  shows "CHR '','' \<notin> set (pe_host e) \<and> CHR '','' \<notin> set (pe_root e)"
proof -
  obtain d where d: "asset_IPDetails a = Some d"
    using assms(3) by (cases "asset_IPDetails a") (auto simp: ptrEventsOf_def)
  with assms(3) have e: "pe_host e = NormalizeDomainIdentifier (ip_PTR d)" "pe_root e = RegistrableDomain net (pe_host e)"
    by (auto simp: ptrEventsOf_def Let_def split: option.splits if_splits)
  have "CHR '','' \<notin> set (ip_PTR d)" using assms(2) d by (simp add: cleanAsset_def plainPTR_def)
  then have "CHR '','' \<notin> set (pe_host e)" using e NormalizeDomainIdentifier_comma by simp
  with e RegistrableDomain_comma [OF assms(1)] show ?thesis by simp
qed

lemma set_AList_update: "set (AList.update k v m) \<subseteq> insert (k, v) (set m)"
  by (induction m) auto

lemma ptrObserve_clean:
  assumes "CHR '','' \<notin> set (pe_host e) \<and> CHR '','' \<notin> set (pe_root e)" and "cleanPTRMaps m"
  shows "cleanPTRMaps (ptrObserve net e m)"
proof -
  let ?key = "pe_enumerationID e @ ''|'' @ pe_root e"
  let ?ob = "case map_of (snd m) ?key of Some ob \<Rightarrow> ob
     | None \<Rightarrow> \<lparr>po_root = pe_root e, po_seed = pe_seed e, po_hits = 0, po_hosts = []\<rparr>"
  have "CHR '','' \<notin> set (po_root ?ob)"
  proof (cases "map_of (snd m) ?key")
    case None
    then show ?thesis using assms(1) by simp
  next
    case (Some ob)
    from map_of_SomeD [OF this] assms(2) have "CHR '','' \<notin> set (po_root ob)" unfolding cleanPTRMaps_def by force
    with Some show ?thesis by simp
  qed
  then have "\<forall>x \<in> set (AList.update ?key (ptrHit (pe_PTR e) ?ob) (snd m)). CHR '','' \<notin> set (po_root (snd x))"
    using assms(2) set_AList_update [of ?key "ptrHit (pe_PTR e) ?ob" "snd m"]
    by (auto simp: cleanPTRMaps_def ptrHit_def)
  then show ?thesis
    using assms buildPTRSeed_commaFree [of "pe_host e" "pe_seed e"]
    by (auto simp: cleanPTRMaps_def ptrObserve_def split_def Let_def)
qed

lemma ptrObserves_clean:
  assumes "\<forall>e \<in> set es. CHR '','' \<notin> set (pe_host e) \<and> CHR '','' \<notin> set (pe_root e)"
  shows "cleanPTRMaps (fold (ptrObserve net) es ([], []))"
proof (rule fold_keeps_invariant [where P = cleanPTRMaps])
  show "cleanPTRMaps (ptrObserve net e m)" if "e \<in> set es" "cleanPTRMaps m" for e m
    using ptrObserve_clean assms that by blast
qed (simp add: cleanPTRMaps_def)

lemma enrichIPs_spec:
  assumes "ptrLibrary r" and "suffixLibrary net"
    and "\<And>xs. mset (ipo_observations orders xs) = mset xs" and "\<And>xs. mset (ipo_events orders xs) = mset xs"
    and "enrichIPs net r orders env p = (as, obs, m)"
  shows "list_all2 sameIdentity (Assets p) as"
    and "\<forall>a \<in> set (Assets p). cleanAsset a \<Longrightarrow> (\<forall>ob \<in> set obs. cleanObservation ob) \<and> cleanPTRMaps m"
proof -
  let ?toSeed = "enumToSeed p"
  let ?done = "fst (drawAll (enrichTableAsset net r ?toSeed) (Assets p) env)"
  have as: "as = map fst ?done"
    and obs: "obs = ipo_observations orders (concat (map (\<lambda>x. case snd x of None \<Rightarrow> [] | Some ob \<Rightarrow> [ob]) ?done))"
    and m: "m = fold (ptrObserve net) (ipo_events orders (concat (map (ptrEventsOf net ?toSeed) as))) ([], [])"
    using assms(5) by (auto simp: enrichIPs_def Let_def)
  have "list_all2 (\<lambda>a x. sameIdentity a (fst x)) (Assets p) ?done"
    by (rule drawAll_all2) (rule enrichTable_identity [OF assms(1)])
  then show same: "list_all2 sameIdentity (Assets p) as" by (simp add: as list_all2_map2)
  assume clean: "\<forall>a \<in> set (Assets p). cleanAsset a"
  have "\<forall>x \<in> set ?done. \<forall>ob. snd x = Some ob \<longrightarrow> cleanObservation ob"
    by (rule drawAll_all) (use enrichTable_observation [OF assms(1)] clean in blast)
  then have 1: "\<forall>ob \<in> set obs. cleanObservation ob"
    unfolding obs mset_eq_setD [OF assms(3)] by (auto split: option.splits)
  have "\<forall>a \<in> set as. cleanAsset a" using rewritten_index(3) [OF same clean] .
  then have "\<forall>e \<in> set (ipo_events orders (concat (map (ptrEventsOf net ?toSeed) as))).
      CHR '','' \<notin> set (pe_host e) \<and> CHR '','' \<notin> set (pe_root e)"
    unfolding mset_eq_setD [OF assms(4)] using ptrEvents_clean [OF assms(2)] by auto
  from ptrObserves_clean [OF this] 1 m show "(\<forall>ob \<in> set obs. cleanObservation ob) \<and> cleanPTRMaps m" by simp
qed

lemma visitMap_mem:
  assumes "\<And>ks. mset (order ks) = mset ks" and "v \<in> set (visitMap order m)"
  shows "\<exists>k. map_of m k = Some v"
proof -
  obtain k where k: "k \<in> fst ` set m" "v = the (map_of m k)"
    using assms(2) mset_eq_setD [OF assms(1), of "map fst m"] by (auto simp: visitMap_def)
  then show ?thesis by (metis map_of_eq_None_iff option.collapse)
qed

lemma judgePTRGroup_keeps:
  assumes "suffixLibrary net" and "\<forall>ob \<in> set members. CHR '','' \<notin> set (po_root ob)"
    and "f \<in> set (judgePTRGroup net h judge members)"
  shows "keeps s (f s)"
proof -
  have root: "CHR '','' \<notin> set (jd_Root d)" if "ptrByRoot members (jd_Root d) = Some ob" for d ob
    using that assms(2) by (auto simp: ptrByRoot_def dest!: map_of_SomeD)
  have "keeps s (ptrDecision net h members d s)" for d
  proof -
    have "commaFree (ptrDiscoveredSeed net ob (jd_Root d))" if "ptrByRoot members (jd_Root d) = Some ob" for ob
      using BuildDiscoveredSeed_commaFree [OF assms(1) root [OF that]]
      by (auto simp: ptrDiscoveredSeed_def commaFree_def Let_def)
    then show ?thesis
      by (auto simp: ptrDecision_def EnqueueSeedCandidate_def split_def Let_def keeps.R_refl keeps_promotion_state split: option.split)
  qed
  moreover have "keeps s (onContext (RecordOwnershipJudgeEvaluation net ''ip_enricher'' (ptrRequest members) ds) s)" for ds
    by (rule keeps_ownership_evaluation [OF assms(1)]) (use assms(2) in \<open>auto simp: ptrRequest_def\<close>)
  ultimately show ?thesis
    using assms(3) by (auto simp: judgePTRGroup_def keeps_errors split: sum.splits)
qed

text \<open>Go's map orders and the goroutines are permutations.\<close>

definition fairOrders :: "ipOrders \<Rightarrow> bool" where
  "fairOrders orders \<longleftrightarrow> (\<forall>xs. mset (ipo_observations orders xs) = mset xs)
     \<and> (\<forall>xs. mset (ipo_events orders xs) = mset xs) \<and> (\<forall>ks. mset (ipo_map orders ks) = mset ks)"

lemma thread_ok_reports:
  assumes "\<And>s. R s (f s)" and "\<And>x s. x \<in> set xs \<Longrightarrow> R s (g x s)"
    and "\<And>y h s. y \<in> set ys \<Longrightarrow> h \<in> set (j y) \<Longrightarrow> R s (h s)"
  shows "thread_ok R (doSteps (f # map g xs @ concat (map j ys)))"
  by (rule thread_ok_doSteps) (use assms in auto)

lemma IPEnricher_thread_ok:
  assumes "suffixLibrary net" and "ptrLibrary r" and "fairOrders orders"
  shows "thread_ok keeps (node_Process (IPEnricher net r orders judge h env))"
proof -
  have perms: "\<And>xs. mset (ipo_observations orders xs) = mset xs" "\<And>xs. mset (ipo_events orders xs) = mset xs"
    "\<And>ks. mset (ipo_map orders ks) = mset ks"
    using assms(3) by (simp_all add: fairOrders_def)
  note spec = enrichIPs_spec [OF assms(2,1) perms(1,2)]
  have act: "keeps s ((fst s)\<lparr>Assets := fst (enrichIPs net r orders (env s) (fst s))\<rparr>, snd s)" for s
  proof -
    obtain as obs m where run: "enrichIPs net r orders (env s) (fst s) = (as, obs, m)" by (metis prod_cases3)
    show ?thesis using keeps_rewrite [OF spec(1) [OF run], of "snd s" "snd s"] by (simp add: run)
  qed
  have rest: "thread_ok keeps (let (_, obs, follow, ptrs) = enrichIPs net r orders (env s) (fst s);
       groups = (if judge = None then [] else ptrGroups (visitMap (ipo_map orders) ptrs))
     in doSteps (onContext (AppendAssetObservations obs)
          # map (\<lambda>s. onContext (\<lambda>p. snd (EnqueueSeed s p))) (visitMap (ipo_map orders) follow)
          @ concat (map (judgePTRGroup net h (the judge)) (visitMap (ipo_map orders) groups))))"
    if "\<not> idle keeps s" for s :: "'a engineState"
  proof -
    obtain as obs follow ptrs where run: "enrichIPs net r orders (env s) (fst s) = (as, obs, follow, ptrs)"
      by (metis prod_cases4)
    let ?groups = "if judge = None then [] else ptrGroups (visitMap (ipo_map orders) ptrs)"
    have obs: "\<forall>ob \<in> set obs. cleanObservation ob" and maps: "cleanPTRMaps (follow, ptrs)"
      using spec(2) [OF run busy_clean [OF that]] by auto
    have follow: "keeps t (onContext (\<lambda>p. snd (EnqueueSeed x p)) t)" if "x \<in> set (visitMap (ipo_map orders) follow)" for x t
    proof -
      obtain k where "map_of follow k = Some x" using visitMap_mem [OF perms(3) \<open>x \<in> _\<close>] by blast
      then have "(k, x) \<in> set follow" by (rule map_of_SomeD)
      with maps have "commaFree x" by (auto simp: cleanPTRMaps_def)
      from keeps_frontier_step [OF frontier_step.enqueue [OF this, where p = "fst t" and b = "snd t"]]
      show ?thesis by (simp add: onContext_def)
    qed
    have ptrs: "\<forall>ob \<in> set (visitMap (ipo_map orders) ptrs). CHR '','' \<notin> set (po_root ob)"
    proof
      fix ob assume "ob \<in> set (visitMap (ipo_map orders) ptrs)"
      from visitMap_mem [OF perms(3) this] obtain k where "map_of ptrs k = Some ob" by blast
      then have "(k, ob) \<in> set ptrs" by (rule map_of_SomeD)
      with maps show "CHR '','' \<notin> set (po_root ob)" by (auto simp: cleanPTRMaps_def)
    qed
    have members: "\<forall>ob \<in> set ms. CHR '','' \<notin> set (po_root ob)" if "ms \<in> set (visitMap (ipo_map orders) ?groups)" for ms
    proof -
      from visitMap_mem [OF perms(3) that] obtain k where "map_of ?groups k = Some ms" by blast
      then have "(k, ms) \<in> set ?groups" by (rule map_of_SomeD)
      then have "set ms \<subseteq> set (visitMap (ipo_map orders) ptrs)" by (auto simp: ptrGroups_def split: if_splits)
      with ptrs show ?thesis by blast
    qed
    have "thread_ok keeps (doSteps (onContext (AppendAssetObservations obs)
          # map (\<lambda>s. onContext (\<lambda>p. snd (EnqueueSeed s p))) (visitMap (ipo_map orders) follow)
          @ concat (map (judgePTRGroup net h (the judge)) (visitMap (ipo_map orders) ?groups))))"
    proof (rule thread_ok_reports)
      show "keeps t (onContext (AppendAssetObservations obs) t)" for t by (rule keeps_observations [OF obs])
      show "keeps t (onContext (\<lambda>p. snd (EnqueueSeed x p)) t)" if "x \<in> set (visitMap (ipo_map orders) follow)" for x t
        by (rule follow [OF that])
      show "keeps t (f t)" if "ms \<in> set (visitMap (ipo_map orders) ?groups)" "f \<in> set (judgePTRGroup net h (the judge) ms)" for ms f t
        by (rule judgePTRGroup_keeps [OF assms(1) members [OF that(1)] that(2)])
    qed
    then show ?thesis by (simp only: run split_conv Let_def)
  qed
  show ?thesis
    unfolding IPEnricher_def IPEnricherProcess_def engineNode.simps
    by (intro thread_ok.step keeps_ensure act rest)
qed

section \<open>The IP enricher settles\<close>

lemma classify_details:
  "asset_IPDetails (classifyCanonicalIPAsset net r toSeed a) = asset_IPDetails a"
  "asset_Identifier (classifyCanonicalIPAsset net r toSeed a) = asset_Identifier a"
  "asset_EnumerationID (classifyCanonicalIPAsset net r toSeed a) = asset_EnumerationID a"
  "asset_Provenance (classifyCanonicalIPAsset net r toSeed a) = asset_Provenance a"
  by (simp_all add: classifyCanonicalIPAsset_def Let_def)

lemma classify_idem:
  "classifyCanonicalIPAsset net r toSeed (classifyCanonicalIPAsset net r toSeed a) = classifyCanonicalIPAsset net r toSeed a"
proof -
  let ?c = "classifyCanonicalIPAsset net r toSeed a"
  have same: "contributorSeedsForAsset toSeed ?c = contributorSeedsForAsset toSeed a" "ptrRootOf net ?c = ptrRootOf net a"
    "ptrHostOf ?c = ptrHostOf a" "ipOwnershipMatchesSeed net r ?c = ipOwnershipMatchesSeed net r a"
    by (simp_all add: contributorSeedsForAsset_def assetContributorEnumerationIDs_def ptrRootOf_def ptrHostOf_def
        ipOwnershipMatchesSeed_def classify_details fun_eq_iff)
  have states: "OwnershipStateAssociatedInfrastructure \<noteq> []" by simp
  show ?thesis
    unfolding classifyCanonicalIPAsset_def [of net r toSeed ?c] same
    using states by (simp add: classifyCanonicalIPAsset_def Let_def)
qed

lemma enrichOneIP_settles:
  assumes "enrichOneIP net r toSeed a0 env = ((a, ob), env1)" and "\<not> needsIPEnrichment a"
  shows "fst (enrichOneIP net r toSeed a env') = (a, None)"
proof -
  have "\<exists>a1. a = classifyCanonicalIPAsset net r toSeed a1"
    using assms(1) by (auto simp: enrichOneIP_def split_def Let_def)
  then have "classifyCanonicalIPAsset net r toSeed a = a" using classify_idem by auto
  with assms(2) show ?thesis by (simp add: enrichOneIP_def buildIPEnrichmentObservation_def)
qed

section \<open>The order of the goroutines does not matter\<close>

definition hitsOf :: "string \<Rightarrow> ptrMaps \<Rightarrow> nat" where
  "hitsOf k m = (case map_of (snd m) k of None \<Rightarrow> 0 | Some ob \<Rightarrow> po_hits ob)"

definition ptrKey :: "ptrEvent \<Rightarrow> string" where
  "ptrKey e = pe_enumerationID e @ ''|'' @ pe_root e"

lemma map_of_update: "map_of (AList.update k v m) = (map_of m)(k \<mapsto> v)"
  by (rule update_conv')

lemma ptrObserve_step:
  "hitsOf k (ptrObserve net e m) = hitsOf k m + (if pe_root e \<noteq> [] \<and> ptrKey e = k then 1 else 0)"
  "(map_of (fst (ptrObserve net e m)) host = None) \<longleftrightarrow>
     map_of (fst m) host = None \<and> \<not> (pe_host e = host \<and> ptrHostWithinSeedScope net (pe_seed e) (pe_host e))"
  by (auto simp: hitsOf_def ptrObserve_def ptrHit_def ptrKey_def map_of_update map_add_def split_def Let_def
      split: option.split)

lemma ptrObserves_result:
  "hitsOf k (fold (ptrObserve net) es m) = hitsOf k m + length (filter (\<lambda>e. pe_root e \<noteq> [] \<and> ptrKey e = k) es)"
  "(map_of (fst (fold (ptrObserve net) es m)) host = None) \<longleftrightarrow>
     map_of (fst m) host = None \<and> \<not> (\<exists>e \<in> set es. pe_host e = host \<and> ptrHostWithinSeedScope net (pe_seed e) (pe_host e))"
  by (induction es arbitrary: m) (auto simp: ptrObserve_step)

lemma ptrObserves_order:
  assumes "mset es' = mset es"
  shows "hitsOf k (fold (ptrObserve net) es' ([], [])) = hitsOf k (fold (ptrObserve net) es ([], []))"
    and "fst ` set (fst (fold (ptrObserve net) es' ([], []))) = fst ` set (fst (fold (ptrObserve net) es ([], [])))"
proof -
  have "length (filter P es') = length (filter P es)" for P
    using assms by (metis mset_filter size_mset)
  then show "hitsOf k (fold (ptrObserve net) es' ([], [])) = hitsOf k (fold (ptrObserve net) es ([], []))"
    by (simp add: ptrObserves_result)
  have "map_of (fst (fold (ptrObserve net) es' ([], []))) host = None
      \<longleftrightarrow> map_of (fst (fold (ptrObserve net) es ([], []))) host = None" for host
    by (simp only: ptrObserves_result mset_eq_setD [OF assms])
  then show "fst ` set (fst (fold (ptrObserve net) es' ([], []))) = fst ` set (fst (fold (ptrObserve net) es ([], [])))"
    by (auto simp: map_of_eq_None_iff)
qed

end
