(* ===== verification/Run_Examples.thy ===== *)
theory Run_Examples
  imports Decision_Facts Examples Reconsider_Facts DNS_Facts Enricher_Facts
begin

text \<open>
  A run of the service over the in-memory stores: it is created for \<open>acme.com\<close>, in manual mode, and
  processed with a collector that records an asset, one that fails and the filter of the program.
  A second service has an exporter that fails.
\<close>

definition recordWWW :: "memoryStores procWorld engineNode" where
  "recordWWW = \<lparr>node_Name = ''crawler'', node_Process = Step (onContext (AppendAssets [acmeAsset])) (\<lambda>_. Done None)\<rparr>"

definition timedOut :: "memoryStores procWorld engineNode" where
  "timedOut = \<lparr>node_Name = ''rdap'', node_Process = Done (Some ''timeout'')\<rparr>"

definition acmeRunEngine :: "memoryStores procWorld engine" where
  "acmeRunEngine = \<lparr>Collectors = [recordWWW, timedOut], Enrichers = [], Expanders = [],
     Reconsiderers = [], Filters = [MergeFilter], Exporters = []\<rparr>"

definition brokenEngine :: "memoryStores procWorld engine" where
  "brokenEngine = acmeRunEngine\<lparr>Exporters := [timedOut]\<rparr>"

definition acmeServices :: "(memoryStores, memoryStores procWorld) services" where
  "acmeServices = memoryServices (\<lambda>_ d. Inr d) (\<lambda>_. Inr (acmeRunEngine, []))"

definition brokenServices :: "(memoryStores, memoryStores procWorld) services" where
  "brokenServices = memoryServices (\<lambda>_ d. Inr d) (\<lambda>_. Inr (brokenEngine, []))"

definition emptyStores :: memoryStores where
  "emptyStores = \<lparr>ms_Checkpoints = Map.empty, ms_Projection = NewMemoryProjectionStore, ms_Queue = []\<rparr>"

definition acmeUser :: authenticatedUser where
  "acmeUser = \<lparr>user_UID = ''u1'', user_Email = ''a@acme.com'', user_EmailVerified = True, user_Name = []\<rparr>"

definition storedRun :: snapshot where
  "storedRun = newSnapshot (\<lambda>_. 0) acmeRun [acmeSeed]"

definition storedWorld :: "memoryStores world" where
  "storedWorld = (acmeEnvironment, emptyStores\<lparr>ms_Checkpoints := [''r1'' \<mapsto> persistSnapshot storedRun]\<rparr>)"

lemma stored_r1: "savedIn ''r1'' (snd storedWorld) = Some (persistSnapshot storedRun)"
  by (simp add: savedIn_def storedWorld_def emptyStores_def)

lemma stored_resumable: "resumable (persistSnapshot storedRun)"
proof -
  have "\<not> Initialized (snap_Progress (persistSnapshot storedRun))"
    "Seeds (snap_Context (loadedSnapshot (persistSnapshot storedRun))) = [acmeSeed]"
    "judges_ok (snap_Context storedRun)"
    by (simp_all add: storedRun_def newSnapshot_def zeroProgress_def newContext_def judges_ok_def
        loadedSnapshot_def RestoreSchedulerState_def SetCandidatePromotionConfidenceThreshold_def)
  moreover have "assets_ok (snap_Context storedRun)"
    by (simp add: storedRun_def newSnapshot_def newContext_def assets_ok_def SetCandidatePromotionConfidenceThreshold_def)
  ultimately show ?thesis
    using loaded_assets loaded_judges acme_commaFree(1) by (simp add: resumable_def startable_def)
qed

lemma broken_engine_ok: "engine_ok brokenEngine None"
proof -
  have "keeps s (onContext (AppendAssets [acmeAsset]) s)" for s :: "memoryStores procState"
    using keeps_append(1) [of "[acmeAsset]" "fst s" "snd s"] acme_cleanAsset
    by (cases s) (simp add: onContext_def)
  then show ?thesis
    using MergeFilter_keeps by (simp add: engine_ok_def brokenEngine_def acmeRunEngine_def recordWWW_def timedOut_def)
qed

lemma broken_engine_only_returns:
  "\<forall>n \<in> stages brokenEngine. only_returns (\<lambda>err. \<not> pauses err) (node_Process n)"
  by (simp add: brokenEngine_def acmeRunEngine_def timedOut_def MergeFilter_def stages_def pauses_def ErrExecutionPaused_def)

lemma broken_engine_listenerOK:
  "\<forall>n \<in> set (Collectors brokenEngine) \<union> stages brokenEngine. thread_ok listenerOK (node_Process n)"
  by (simp add: brokenEngine_def acmeRunEngine_def recordWWW_def timedOut_def MergeFilter_def stages_def listenerOK_def
      onContext_def split_def)

section \<open>A run that waits for a decision\<close>

text \<open>The last wave has run and the wave budget is used up.\<close>

definition pausedRun :: snapshot where
  "pausedRun = storedRun\<lparr>
     snap_Run := acmeRun\<lparr>run_Status := RunStatusAwaitingReview\<rparr>,
     snap_SchedulerState := (snap_SchedulerState storedRun)\<lparr>ss_CollectionDepth := 3, ss_MaxCollectionDepth := 3\<rparr>,
     snap_Pivots := [(''labs.io'', newPivotState ''p1'' labsRequest PivotDecisionPendingReview 1 1)]\<rparr>"

definition pausedWorld :: "memoryStores world" where
  "pausedWorld = (acmeEnvironment, emptyStores\<lparr>ms_Checkpoints := [''r1'' \<mapsto> persistSnapshot pausedRun]\<rparr>)"

lemma paused_r1: "savedIn ''r1'' (snd pausedWorld) = Some (persistSnapshot pausedRun)"
  by (simp add: savedIn_def pausedWorld_def emptyStores_def)

abbreviation decideP1 :: "pivotDecisionInput \<Rightarrow> (serviceError + pivotRecord) \<times> memoryStores world" where
  "decideP1 d \<equiv> DecidePivot acmeServices acmeNet rev acmeUser ''r1'' ''p1'' d pausedWorld"

lemma paused_decision:
  "decideP1 PivotDecisionInputRejected = (Inr (projr (fst (decideP1 PivotDecisionInputRejected))), snd (decideP1 PivotDecisionInputRejected))"
  "decideP1 PivotDecisionInputAccepted = (Inr (projr (fst (decideP1 PivotDecisionInputAccepted))), snd (decideP1 PivotDecisionInputAccepted))"
proof -
  have "\<exists>rec w'. decideP1 d = (Inr rec, w')" if "d = PivotDecisionInputAccepted \<or> d = PivotDecisionInputRejected" for d
    unfolding acmeServices_def
    by (rule memory.DecidePivot_works [OF paused_r1 _ _ _ that, where key = "''labs.io''" and p = "newPivotState ''p1'' labsRequest PivotDecisionPendingReview 1 1"])
      (code_simp, code_simp, code_simp)
  then have "\<exists>rec w'. decideP1 PivotDecisionInputRejected = (Inr rec, w')" "\<exists>rec w'. decideP1 PivotDecisionInputAccepted = (Inr rec, w')"
    by blast+
  then show "decideP1 PivotDecisionInputRejected = (Inr (projr (fst (decideP1 PivotDecisionInputRejected))), snd (decideP1 PivotDecisionInputRejected))"
    "decideP1 PivotDecisionInputAccepted = (Inr (projr (fst (decideP1 PivotDecisionInputAccepted))), snd (decideP1 PivotDecisionInputAccepted))"
    by (metis fst_conv snd_conv sum.sel(2))+
qed

section \<open>Checkpoints\<close>

definition frontierRun :: snapshot where
  "frontierRun = storedRun\<lparr>snap_Context := acmeFrontier, snap_SchedulerState := SnapshotSchedulerState acmeFrontier\<rparr>"

lemma acme_frontier_assets: "assets_ok acmeFrontier"
  using acme_assets_ok same_assets_ok [OF frontier_frame_assets(4)] by (simp add: acmeFrontier_def)

definition countingEnvironment :: environment where
  "countingEnvironment = \<lparr>env_tick = 0, env_clock = int, env_id = (\<lambda>prefix n. prefix @ replicate n CHR ''i'')\<rparr>"

definition judgedOnce :: "snapshot \<times> environment" where
  "judgedOnce = checkpointSnapshot acmeNet rev zeroProgress (newPivotBroker RunModeManual [])
     (storedRun\<lparr>snap_Context := (snap_Context storedRun)\<lparr>JudgeEvaluations := [labsEvaluation]\<rparr>\<rparr>) countingEnvironment"

definition judgedTwice :: "snapshot \<times> environment" where
  "judgedTwice = checkpointSnapshot acmeNet rev zeroProgress (newPivotBroker RunModeManual []) (fst judgedOnce) (snd judgedOnce)"

section \<open>Reconsideration\<close>

lemma acme_suffixLibrary: "suffixLibrary acmeNet"
proof -
  have "set ''acme.com'' \<subseteq> set d" if "HasSuffix d ''acme.com''" for d
    using that set_drop_subset [of "length d - length ''acme.com''" d] unfolding HasSuffix_def by metis
  then show ?thesis unfolding suffixLibrary_def acmeNet_def by (auto split: if_splits simp del: set_simps)
qed

definition judgedContext :: pipelineContext where
  "judgedContext = RecordJudgeEvaluation labsEvaluation acmeFrontier"

definition acmeReconsiderer :: reconsiderer where
  "acmeReconsiderer = \<lparr>rc_judge = Some (\<lambda>_. Inl ''no answer''), rc_promptSize = (\<lambda>_. 100), rc_maxPromptChars = 1000\<rparr>"

lemma judged_context_ok: "context_ok {} judgedContext"
proof -
  have "context_ok {} acmeFrontier"
    using startable_ok [OF acme_startable] by (simp add: acmeFrontier_def)
  moreover have "commaFreeEvaluation labsEvaluation"
    by (simp add: commaFreeEvaluation_def labsEvaluation_def)
  ultimately show ?thesis
    using keeps_evaluation [of labsEvaluation "(acmeFrontier, ())"] by (simp add: keeps_def onContext_def judgedContext_def)
qed

section \<open>A resolver\<close>

text \<open>Only \<open>acme.io\<close> resolves, to the address of \<open>acme.com\<close>.\<close>

definition acmeResolver :: resolver where
  "acmeResolver = \<lparr>rs_lookupIPs = (\<lambda>d. if d \<in> {''acme.com'', ''acme.io''} then Inr [''192.0.2.1''] else Inl ''no such host''),
     rs_lookupMX = (\<lambda>_. ([], None)), rs_lookupTXT = (\<lambda>_. ([], None)), rs_lookupNS = (\<lambda>_. ([], None)),
     rs_lookupCNAME = (\<lambda>d. (d, None)), rs_lookupRDAP = (\<lambda>_. LookupFailed ''timeout''),
     rs_canonicalIP = Some, rs_isIPv4 = (\<lambda>_. True)\<rparr>"

definition acmeDNS :: dnsCollector where
  "acmeDNS = WithDNSCollectorVariantSweepConfig
     \<lparr>vs_Mode = '' Prioritized '', vs_BatchSize = 0, vs_Concurrency = 0, vs_PrioritizedCap = 2\<rparr>
     (NewDNSCollector (Some (\<lambda>_. Inr [])) acmeResolver [''com'', ''io'', ''org'', ''net''] rev)"

section \<open>Lookups of the enrichers\<close>

definition acmeEnricher :: domainEnricher where
  "acmeEnricher = \<lparr>den_lookupIP = (\<lambda>network host. (if network = ''ip4'' then [''192.0.2.1''] else [], None)),
     den_lookupMX = (\<lambda>_. ([], None)), den_lookupTXT = (\<lambda>_. ([], None)), den_lookupCNAME = (\<lambda>d. (d, None)),
     den_lookupRDAP = (\<lambda>_. UnsupportedRegistrationData), den_ends = rev\<rparr>"

text \<open>A resolver that knows the name of every address.\<close>

definition acmePTR :: ipResolver where
  "acmePTR = \<lparr>ir_ParseIP = (\<lambda>_. Some \<lparr>ia_To4 = Some ''192.0.2.1'', ia_To16 = None\<rparr>),
     ir_lookupAddr = (\<lambda>_ _. Inr [''host.acme.com.'']), ir_lookupTXT = (\<lambda>_ _. Inr []),
     ir_contains = (\<lambda>_ _. False), ir_ptrFirst = (\<lambda>_. True)\<rparr>"

definition acmeAddress :: asset where
  "acmeAddress = fst (newAsset ''ip'' ''e1'' ''dns_collector'' AssetTypeIP None (Some noIPDetails) ''192.0.2.1'' acmeEnvironment)"

end
