(* ===== verification/Registration.thy ===== *)
theory Registration
  imports Passive_Collectors Asset_Merge
begin

text \<open>
  \<open>internal/registration/rdap.go\<close>: the registration data of a domain, from RDAP, or when RDAP does not know
  the domain from WHOIS, first through a library, then through the \<open>whois\<close> command with a parser of the
  program's own for Chile. The network, JSON, the WHOIS library and the parsing of times are arguments.
\<close>

section \<open>Data\<close>

text \<open>A JSON value; \<open>JOther\<close> holds what \<open>fmt.Sprint\<close> prints for any other.\<close>

datatype jsonValue = JString string | JArray "jsonValue list" | JOther string

fun Sprint :: "jsonValue \<Rightarrow> string" where
  "Sprint (JString s) = s"
| "Sprint (JArray vs) = ''['' @ Join (map Sprint vs) '' '' @ '']''"
| "Sprint (JOther text) = text"

record rdapEntity =
  re_Roles :: "string list"
  re_PublicIds :: "string list"
  re_VCardArray :: "jsonValue list"

record rdapResponse =
  rp_Entities :: "rdapEntity list"
  rp_Events :: "(string \<times> string) list"
  rp_Status :: "string list"
  rp_NameServers :: "string list"

definition emptyRDAPData :: rdapData where
  "emptyRDAPData =
     \<lparr>rdap_RegistrarName = [], rdap_RegistrarIANAID = [], rdap_RegistrarURL = [], rdap_CreationDate = 0,
      rdap_ExpirationDate = 0, rdap_UpdatedDate = 0, rdap_RegistrantName = [], rdap_RegistrantEmail = [],
      rdap_RegistrantOrg = [], rdap_Statuses = [], rdap_NameServers = []\<rparr>"

text \<open>What the WHOIS parser gives: a date is a time, a text, or both.\<close>

record whoisDomain =
  wd_Status :: "string list"
  wd_NameServers :: "string list"
  wd_Created :: "gotime option \<times> string"
  wd_Expiration :: "gotime option \<times> string"
  wd_Updated :: "gotime option \<times> string"

record whoisInfo =
  wi_Domain :: "whoisDomain option"
  wi_Registrar :: "(string \<times> string \<times> string) option"    \<comment> \<open>name, ID, referral URL\<close>
  wi_Registrant :: "(string \<times> string \<times> string) option"   \<comment> \<open>name, email, organization\<close>

section \<open>Retries\<close>

text \<open>The Go context of a lookup: its error before an attempt, whether it has ended after one, its error if
  it ends during the wait that follows.\<close>

record goContext =
  gc_before :: "int \<Rightarrow> string option"
  gc_after :: "int \<Rightarrow> bool"
  gc_wait :: "int \<Rightarrow> string option"

definition whoisMaxAttempts :: int where "whoisMaxAttempts = 3"
definition whoisInitialBackoff :: int where "whoisInitialBackoff = 250 * millisecond"
definition whoisMaxBackoff :: int where "whoisMaxBackoff = 2000 * millisecond"

text \<open>An error is its text and whether it is \<open>context.Canceled\<close>; every other one is tried again.\<close>

definition shouldRetryWHOISError :: "bool \<Rightarrow> string \<times> bool \<Rightarrow> bool" where
  "shouldRetryWHOISError ctxDone err \<longleftrightarrow> \<not> snd err \<and> \<not> ctxDone"

definition whoisWait :: "int \<Rightarrow> int" where
  "whoisWait backoff =
     (let w = (if backoff \<le> 0 then 100 * millisecond else backoff) in if w > whoisMaxBackoff then whoisMaxBackoff else w)"

definition whoisNextBackoff :: "int \<Rightarrow> int" where
  "whoisNextBackoff backoff =
     (if backoff \<le> 0 then 100 * millisecond
      else if backoff * 2 > whoisMaxBackoff then whoisMaxBackoff else backoff * 2)"

text \<open>The loop both lookups have: the result or the error, and the waits made.\<close>

function whoisAttempts ::
  "goContext \<Rightarrow> (int \<Rightarrow> (string \<times> bool) + 'r) \<Rightarrow> int \<Rightarrow> int \<Rightarrow> string option \<Rightarrow> (string + 'r) \<times> int list" where
  "whoisAttempts ctx lookup n backoff lastErr =
     (if n > whoisMaxAttempts then (Inl (case lastErr of Some e \<Rightarrow> e | None \<Rightarrow> []), [])
      else case gc_before ctx n of
             Some e \<Rightarrow> (Inl (case lastErr of Some l \<Rightarrow> l | None \<Rightarrow> e), [])
           | None \<Rightarrow>
               (case lookup n of
                  Inr r \<Rightarrow> (Inr r, [])
                | Inl err \<Rightarrow>
                    (if n = whoisMaxAttempts \<or> \<not> shouldRetryWHOISError (gc_after ctx n) err then (Inl (fst err), [])
                     else case gc_wait ctx n of
                            Some e \<Rightarrow> (Inl e, [whoisWait backoff])
                          | None \<Rightarrow>
                              (let (r, waits) = whoisAttempts ctx lookup (n + 1) (whoisNextBackoff backoff) (Some (fst err))
                               in (r, whoisWait backoff # waits)))))"
  by pat_completeness auto
termination
  by (relation "measure (\<lambda>(_, _, n, _, _). nat (whoisMaxAttempts + 1 - n))") auto

declare whoisAttempts.simps [simp del]

definition retryWHOISLookup ::
  "goContext \<Rightarrow> (int \<Rightarrow> string \<Rightarrow> (string \<times> bool) + string) \<Rightarrow> string \<Rightarrow> (string + string) \<times> int list" where
  "retryWHOISLookup ctx lookup domain = whoisAttempts ctx (\<lambda>n. lookup n domain) 1 whoisInitialBackoff None"

text \<open>The command counts as answered when it printed something, whatever its status.\<close>

definition retrySystemWHOISLookup ::
  "goContext \<Rightarrow> (int \<Rightarrow> string \<times> (string \<times> bool) option) \<Rightarrow> (string + (string \<times> string option)) \<times> int list" where
  "retrySystemWHOISLookup ctx run =
     whoisAttempts ctx
       (\<lambda>n. case run n of
              (raw, None) \<Rightarrow> Inr (raw, None)
            | (raw, Some err) \<Rightarrow> if TrimSpace raw \<noteq> [] then Inr (raw, Some (fst err)) else Inl err)
       1 whoisInitialBackoff None"

section \<open>RDAP\<close>

record rdapVCard =
  vc_name :: string
  vc_organization :: string
  vc_email :: string

definition vcardValueString :: "jsonValue \<Rightarrow> string" where
  "vcardValueString v =
     (case v of
        JArray items \<Rightarrow> Join (filter (\<lambda>part. part \<noteq> []) (map (\<lambda>item. TrimSpace (Sprint item)) items)) '' ''
      | _ \<Rightarrow> Sprint v)"

definition addVCardProperty :: "jsonValue \<Rightarrow> rdapVCard \<Rightarrow> rdapVCard" where
  "addVCardProperty property vc =
     (case property of
        JArray (JString name # _ # _ # value # _) \<Rightarrow>
          (let v = TrimSpace (vcardValueString value); n = ToLower name
           in if v = [] then vc
              else if n = ''fn'' then (if vc_name vc = [] then vc\<lparr>vc_name := v\<rparr> else vc)
              else if n = ''org'' then (if vc_organization vc = [] then vc\<lparr>vc_organization := v\<rparr> else vc)
              else if n = ''email'' then (if vc_email vc = [] then vc\<lparr>vc_email := TrimPrefix (ToLower v) ''mailto:''\<rparr> else vc)
              else vc)
      | _ \<Rightarrow> vc)"

definition parseEntityVCard :: "jsonValue list \<Rightarrow> rdapVCard" where
  "parseEntityVCard raw =
     (case raw of
        _ # JArray properties # _ \<Rightarrow> fold addVCardProperty properties \<lparr>vc_name = [], vc_organization = [], vc_email = []\<rparr>
      | _ \<Rightarrow> \<lparr>vc_name = [], vc_organization = [], vc_email = []\<rparr>)"

definition entityHasRole :: "rdapEntity \<Rightarrow> string \<Rightarrow> bool" where
  "entityHasRole e role \<longleftrightarrow> list_ex (\<lambda>c. ToLower (TrimSpace c) = ToLower (TrimSpace role)) (re_Roles e)"

definition addEvent :: "(string \<Rightarrow> string \<Rightarrow> gotime option) \<Rightarrow> string \<times> string \<Rightarrow> rdapData \<Rightarrow> rdapData" where
  "addEvent timeParse ev d =
     (case timeParse ''2006-01-02T15:04:05Z07:00'' (snd ev) of
        None \<Rightarrow> d
      | Some t \<Rightarrow>
          if fst ev = ''registration'' then d\<lparr>rdap_CreationDate := t\<rparr>
          else if fst ev = ''expiration'' then d\<lparr>rdap_ExpirationDate := t\<rparr>
          else if fst ev = ''last changed'' then d\<lparr>rdap_UpdatedDate := t\<rparr> else d)"

definition addEntity :: "rdapEntity \<Rightarrow> rdapData \<Rightarrow> rdapData" where
  "addEntity e d =
     (let vc = parseEntityVCard (re_VCardArray e)
      in if entityHasRole e ''registrant''
         then d\<lparr>rdap_RegistrantName := orElse [] (rdap_RegistrantName d) (vc_name vc),
                rdap_RegistrantOrg := orElse [] (rdap_RegistrantOrg d) (vc_organization vc),
                rdap_RegistrantEmail := orElse [] (rdap_RegistrantEmail d) (vc_email vc)\<rparr>
         else if entityHasRole e ''registrar''
         then d\<lparr>rdap_RegistrarName := orElse [] (rdap_RegistrarName d) (FirstNonEmpty [vc_organization vc, vc_name vc]),
                rdap_RegistrarIANAID := (case re_PublicIds e of
                    i # _ \<Rightarrow> orElse [] (rdap_RegistrarIANAID d) (TrimSpace i) | [] \<Rightarrow> rdap_RegistrarIANAID d)\<rparr>
         else d)"

definition rdapDataOf :: "(string \<Rightarrow> string \<Rightarrow> gotime option) \<Rightarrow> rdapResponse \<Rightarrow> rdapData" where
  "rdapDataOf timeParse r =
     fold addEntity (rp_Entities r) (fold (addEvent timeParse) (rp_Events r)
       (emptyRDAPData\<lparr>rdap_Statuses := UniqueLowerStrings (rp_Status r),
          rdap_NameServers := UniqueLowerStrings (filter (\<lambda>n. n \<noteq> []) (map NormalizeDomainIdentifier (rp_NameServers r)))\<rparr>))"

section \<open>WHOIS\<close>

definition looseLayouts :: "string list" where
  "looseLayouts = [''2006-01-02T15:04:05Z07:00'', ''2006-01-02T15:04:05Z'', ''2006-01-02 15:04:05 MST'',
     ''2006-01-02 15:04:05 -0700'', ''2006-01-02 15:04:05'', ''2006-01-02'']"

definition parseLooseTime :: "(string \<Rightarrow> string \<Rightarrow> gotime option) \<Rightarrow> string \<Rightarrow> gotime" where
  "parseLooseTime timeParse value0 =
     (case find (\<lambda>t. t \<noteq> None) (map (\<lambda>layout. timeParse layout value0) looseLayouts) of
        Some (Some t) \<Rightarrow> t | _ \<Rightarrow> 0)"

definition whoisDate :: "(string \<Rightarrow> string \<Rightarrow> gotime option) \<Rightarrow> gotime option \<times> string \<Rightarrow> gotime" where
  "whoisDate timeParse d =
     (case fst d of Some t \<Rightarrow> t | None \<Rightarrow> if snd d \<noteq> [] then parseLooseTime timeParse (snd d) else 0)"

definition rdapDataFromWhoisInfo :: "(string \<Rightarrow> string \<Rightarrow> gotime option) \<Rightarrow> whoisInfo \<Rightarrow> rdapData" where
  "rdapDataFromWhoisInfo timeParse parsed =
     (let d1 = (case wi_Domain parsed of
                  None \<Rightarrow> emptyRDAPData
                | Some d \<Rightarrow> emptyRDAPData\<lparr>rdap_Statuses := UniqueLowerStrings (wd_Status d),
                      rdap_NameServers := UniqueLowerStrings (wd_NameServers d),
                      rdap_CreationDate := whoisDate timeParse (wd_Created d),
                      rdap_ExpirationDate := whoisDate timeParse (wd_Expiration d),
                      rdap_UpdatedDate := whoisDate timeParse (wd_Updated d)\<rparr>);
          d2 = (case wi_Registrar parsed of
                  None \<Rightarrow> d1
                | Some (name, i, url) \<Rightarrow> d1\<lparr>rdap_RegistrarName := TrimSpace name, rdap_RegistrarIANAID := TrimSpace i,
                      rdap_RegistrarURL := TrimSpace url\<rparr>)
      in case wi_Registrant parsed of
           None \<Rightarrow> d2
         | Some (name, email, org) \<Rightarrow> d2\<lparr>rdap_RegistrantName := TrimSpace name, rdap_RegistrantEmail := TrimSpace email,
                 rdap_RegistrantOrg := TrimSpace org\<rparr>)"

definition systemWHOISArgsForDomain :: "string \<Rightarrow> string list" where
  "systemWHOISArgsForDomain domain =
     (let normalized = ToLower (TrimSpace domain)
      in if HasSuffix normalized ''.cl'' then [''-h'', ''whois.nic.cl'', normalized] else [normalized])"

definition addChileField :: "(string \<Rightarrow> string \<Rightarrow> gotime option) \<Rightarrow> string \<Rightarrow> string \<Rightarrow> rdapData \<Rightarrow> rdapData" where
  "addChileField timeParse key v d =
     (if key = ''registrant name'' then d\<lparr>rdap_RegistrantName := orElse [] (rdap_RegistrantName d) v\<rparr>
      else if key = ''registrant organisation'' then d\<lparr>rdap_RegistrantOrg := orElse [] (rdap_RegistrantOrg d) v\<rparr>
      else if key = ''registrant email'' then d\<lparr>rdap_RegistrantEmail := orElse [] (rdap_RegistrantEmail d) (ToLower v)\<rparr>
      else if key = ''registrar name'' then d\<lparr>rdap_RegistrarName := orElse [] (rdap_RegistrarName d) v\<rparr>
      else if key = ''registrar url'' then d\<lparr>rdap_RegistrarURL := orElse [] (rdap_RegistrarURL d) v\<rparr>
      else if key = ''creation date'' then d\<lparr>rdap_CreationDate := orElse 0 (rdap_CreationDate d) (parseLooseTime timeParse v)\<rparr>
      else if key = ''expiration date'' then d\<lparr>rdap_ExpirationDate := orElse 0 (rdap_ExpirationDate d) (parseLooseTime timeParse v)\<rparr>
      else if key \<in> {''updated date'', ''last updated date'', ''modified date''}
      then d\<lparr>rdap_UpdatedDate := orElse 0 (rdap_UpdatedDate d) (parseLooseTime timeParse v)\<rparr>
      else if key \<in> {''status'', ''domain status''} then d\<lparr>rdap_Statuses := rdap_Statuses d @ [v]\<rparr>
      else if key = ''name server''
      then (let n = NormalizeDomainIdentifier v in if n = [] then d else d\<lparr>rdap_NameServers := rdap_NameServers d @ [n]\<rparr>)
      else d)"

definition addChileLine :: "(string \<Rightarrow> string \<Rightarrow> gotime option) \<Rightarrow> string \<Rightarrow> rdapData \<Rightarrow> rdapData" where
  "addChileLine timeParse line0 d =
     (let line = TrimSpace line0
      in if line = [] \<or> HasPrefix line ''%'' \<or> CHR '':'' \<notin> set line then d
         else addChileField timeParse (ToLower (TrimSpace (takeWhile (\<lambda>c. c \<noteq> CHR '':'') line)))
                (TrimSpace (tl (dropWhile (\<lambda>c. c \<noteq> CHR '':'') line))) d)"

text \<open>The IANA number is not among the fields tested, since the parser never sets it.\<close>

definition noRegistration :: "rdapData \<Rightarrow> bool" where
  "noRegistration d \<longleftrightarrow>
     rdap_RegistrarName d = [] \<and> rdap_RegistrarURL d = [] \<and> rdap_RegistrantName d = [] \<and> rdap_RegistrantEmail d = []
   \<and> rdap_RegistrantOrg d = [] \<and> rdap_NameServers d = [] \<and> rdap_Statuses d = [] \<and> rdap_CreationDate d = 0
   \<and> rdap_ExpirationDate d = 0 \<and> rdap_UpdatedDate d = 0"

definition parseNICChileWHOIS :: "(string \<Rightarrow> string \<Rightarrow> gotime option) \<Rightarrow> string \<Rightarrow> rdapData option" where
  "parseNICChileWHOIS timeParse raw =
     (let d0 = fold (addChileLine timeParse) (Split raw CHR 0x0A) emptyRDAPData;
          d = d0\<lparr>rdap_NameServers := UniqueLowerStrings (rdap_NameServers d0), rdap_Statuses := UniqueLowerStrings (rdap_Statuses d0)\<rparr>
      in if noRegistration d then None else Some d)"

definition parseCustomWHOIS :: "(string \<Rightarrow> string \<Rightarrow> gotime option) \<Rightarrow> string \<Rightarrow> string \<Rightarrow> rdapData option" where
  "parseCustomWHOIS timeParse domain raw =
     (if HasSuffix (ToLower (TrimSpace domain)) ''.cl'' then parseNICChileWHOIS timeParse raw else None)"

definition mergeWHOISData :: "rdapData \<Rightarrow> rdapData \<Rightarrow> rdapData" where
  "mergeWHOISData existing incoming =
     \<lparr>rdap_RegistrarName = orElse [] (rdap_RegistrarName existing) (rdap_RegistrarName incoming),
      rdap_RegistrarIANAID = orElse [] (rdap_RegistrarIANAID existing) (rdap_RegistrarIANAID incoming),
      rdap_RegistrarURL = orElse [] (rdap_RegistrarURL existing) (rdap_RegistrarURL incoming),
      rdap_CreationDate = orElse 0 (rdap_CreationDate existing) (rdap_CreationDate incoming),
      rdap_ExpirationDate = orElse 0 (rdap_ExpirationDate existing) (rdap_ExpirationDate incoming),
      rdap_UpdatedDate = orElse 0 (rdap_UpdatedDate existing) (rdap_UpdatedDate incoming),
      rdap_RegistrantName = orElse [] (rdap_RegistrantName existing) (rdap_RegistrantName incoming),
      rdap_RegistrantEmail = orElse [] (rdap_RegistrantEmail existing) (rdap_RegistrantEmail incoming),
      rdap_RegistrantOrg = orElse [] (rdap_RegistrantOrg existing) (rdap_RegistrantOrg incoming),
      rdap_Statuses = UniqueLowerStrings (rdap_Statuses existing @ rdap_Statuses incoming),
      rdap_NameServers = UniqueLowerStrings (rdap_NameServers existing @ rdap_NameServers incoming)\<rparr>"

section \<open>The lookups\<close>

record registry =
  rg_get :: "string \<Rightarrow> string + httpAnswer"                       \<comment> \<open>\<open>fetchutil.DoRequest\<close>, by URL\<close>
  rg_Unmarshal :: "string \<Rightarrow> string + rdapResponse"
  rg_timeParse :: "string \<Rightarrow> string \<Rightarrow> gotime option"               \<comment> \<open>by layout and text\<close>
  rg_context :: goContext
  rg_whois :: "int \<Rightarrow> string \<Rightarrow> (string \<times> bool) + string"          \<comment> \<open>by attempt and domain\<close>
  rg_parseWhois :: "string \<Rightarrow> whoisInfo option"
  rg_systemContext :: goContext
  rg_runWhois :: "string list \<Rightarrow> int \<Rightarrow> string \<times> (string \<times> bool) option"

definition lookupDomainWHOISWith :: "registry \<Rightarrow> string \<Rightarrow> lookupResult" where
  "lookupDomainWHOISWith g domain =
     (case fst (retryWHOISLookup (rg_context g) (rg_whois g) domain) of
        Inl e \<Rightarrow> LookupFailed (''WHOIS lookup failed for '' @ domain @ '': '' @ e)
      | Inr raw \<Rightarrow>
          (case rg_parseWhois g raw of
             None \<Rightarrow> UnsupportedRegistrationData
           | Some parsed \<Rightarrow> Registered (Some (rdapDataFromWhoisInfo (rg_timeParse g) parsed))))"

definition systemWHOISData :: "registry \<Rightarrow> string \<Rightarrow> string \<Rightarrow> rdapData option" where
  "systemWHOISData g domain raw =
     (let parsed = map_option (rdapDataFromWhoisInfo (rg_timeParse g)) (rg_parseWhois g raw)
      in case parseCustomWHOIS (rg_timeParse g) domain raw of
           None \<Rightarrow> parsed
         | Some custom \<Rightarrow> Some (case parsed of None \<Rightarrow> custom | Some d \<Rightarrow> mergeWHOISData d custom))"

definition lookupDomainWHOISViaSystemWith :: "registry \<Rightarrow> string \<Rightarrow> lookupResult" where
  "lookupDomainWHOISViaSystemWith g domain =
     (let failed = (\<lambda>e. LookupFailed (''system WHOIS lookup failed for '' @ domain @ '': '' @ e))
      in case fst (retrySystemWHOISLookup (rg_systemContext g) (rg_runWhois g (systemWHOISArgsForDomain domain))) of
           Inl e \<Rightarrow> failed e
         | Inr (raw, err) \<Rightarrow>
             (case systemWHOISData g domain raw of
                Some d \<Rightarrow> Registered (Some d)
              | None \<Rightarrow> (case err of Some e \<Rightarrow> failed e | None \<Rightarrow> UnsupportedRegistrationData)))"

definition lookupDomainWHOIS :: "registry \<Rightarrow> string \<Rightarrow> lookupResult" where
  "lookupDomainWHOIS g domain =
     (case lookupDomainWHOISWith g domain of
        Registered d \<Rightarrow> Registered d
      | first \<Rightarrow>
          (case lookupDomainWHOISViaSystemWith g domain of
             Registered d \<Rightarrow> Registered d
           | second \<Rightarrow> if first = UnsupportedRegistrationData then second
                       else if second = UnsupportedRegistrationData then first else second))"

definition LookupDomain :: "registry \<Rightarrow> string \<Rightarrow> lookupResult" where
  "LookupDomain g domain =
     (case rg_get g (''https://rdap.org/domain/'' @ domain) of
        Inl e \<Rightarrow> LookupFailed e
      | Inr a \<Rightarrow>
          (if ans_Status a = 404 then lookupDomainWHOIS g domain
           else if ans_Status a \<noteq> 200
           then LookupFailed (''unexpected status code '' @ show_int (ans_Status a) @ '' from RDAP for '' @ domain)
           else case ans_Body a of
                  Inl e \<Rightarrow> LookupFailed e
                | Inr body \<Rightarrow>
                    (case rg_Unmarshal g body of
                       Inl e \<Rightarrow> LookupFailed e
                     | Inr r \<Rightarrow> Registered (Some (rdapDataOf (rg_timeParse g) r)))))"

section \<open>What a lookup gives\<close>

text \<open>A lookup that succeeds has data: the collectors' tests for none never apply.\<close>

lemma whois_not_None [simp]:
  "lookupDomainWHOISWith g domain \<noteq> Registered None" "lookupDomainWHOISViaSystemWith g domain \<noteq> Registered None"
  by (auto simp: lookupDomainWHOISWith_def lookupDomainWHOISViaSystemWith_def Let_def split: sum.split option.split)

lemma lookupDomainWHOIS_not_None [simp]: "lookupDomainWHOIS g domain \<noteq> Registered None"
  by (cases "lookupDomainWHOISWith g domain"; cases "lookupDomainWHOISViaSystemWith g domain")
    (use whois_not_None [of g domain] in \<open>auto simp: lookupDomainWHOIS_def\<close>)

lemma LookupDomain_not_None: "LookupDomain g domain \<noteq> Registered None"
  by (auto simp: LookupDomain_def split: sum.split)

text \<open>When RDAP does not know a domain, the failure kept is one that says more than that data is missing.\<close>

lemma lookupDomainWHOIS_spec:
  "lookupDomainWHOIS g domain =
     (case (lookupDomainWHOISWith g domain, lookupDomainWHOISViaSystemWith g domain) of
        (Registered d, _) \<Rightarrow> Registered d
      | (_, Registered d) \<Rightarrow> Registered d
      | (_, LookupFailed e) \<Rightarrow> LookupFailed e
      | (LookupFailed e, _) \<Rightarrow> LookupFailed e
      | _ \<Rightarrow> UnsupportedRegistrationData)"
  by (simp add: lookupDomainWHOIS_def split: lookupResult.split)

text \<open>A lookup makes at most three attempts and waits at most 250, then 500 milliseconds.\<close>

lemma whoisAttempts_waits:
  "snd (whoisAttempts ctx lookup n backoff lastErr) = []
   \<or> (\<exists>waits. snd (whoisAttempts ctx lookup n backoff lastErr) = whoisWait backoff # waits \<and> n < whoisMaxAttempts
        \<and> (waits = [] \<or> waits = snd (whoisAttempts ctx lookup (n + 1) (whoisNextBackoff backoff)
              (Some (case lookup n of Inl err \<Rightarrow> fst err | Inr _ \<Rightarrow> [])))))"
  by (subst (1 2) whoisAttempts.simps) (auto split: option.split sum.split prod.split)

lemma whois_waits: "snd (whoisAttempts ctx lookup 1 whoisInitialBackoff None)
   \<in> {[], [250 * millisecond], [250 * millisecond, 500 * millisecond]}"
proof -
  have three: "snd (whoisAttempts ctx lookup 3 b e) = []" for b e
    using whoisAttempts_waits [of ctx lookup 3 b e] by (auto simp: whoisMaxAttempts_def)
  have two: "snd (whoisAttempts ctx lookup 2 (500 * millisecond) e) \<in> {[], [500 * millisecond]}" for e
    using whoisAttempts_waits [of ctx lookup 2 "500 * millisecond" e]
    by (auto simp: three whoisWait_def whoisMaxBackoff_def millisecond_def)
  show ?thesis
    using whoisAttempts_waits [of ctx lookup 1 whoisInitialBackoff None] two
    by (fastforce simp: whoisWait_def whoisMaxBackoff_def whoisInitialBackoff_def whoisNextBackoff_def millisecond_def)
qed

text \<open>What comes from the parser of the program's own is never empty.\<close>

lemma parseNICChileWHOIS_nonempty: "parseNICChileWHOIS timeParse raw = Some d \<Longrightarrow> \<not> noRegistration d"
  by (simp add: parseNICChileWHOIS_def Let_def split: if_splits)

end
