(* ===== verification/Web_Links.thy ===== *)
theory Web_Links
  imports Judged_Pivots "HOL-Library.Product_Lexorder"
begin

text \<open>
  What the collectors of web pages share: URLs, parsed HTML, lines of text. \<open>net/url\<close> and the HTML parser
  are arguments; \<open>attr\<close> and \<open>nodeText\<close> are those of \<open>internal/collect/web_hint_collector.go\<close>.
\<close>

section \<open>URLs\<close>

text \<open>\<open>url_Rest\<close> is what the program neither reads nor changes: the user and an opaque part.\<close>

record goURL =
  url_Scheme :: string
  url_Host :: string
  url_Path :: string
  url_RawQuery :: string
  url_Fragment :: string
  url_Rest :: string

record urlLibrary =
  ul_Parse :: "string \<Rightarrow> goURL option"
  ul_ParseError :: "string \<Rightarrow> string"   \<comment> \<open>the text of the error of a URL that does not parse\<close>
  ul_ResolveReference :: "goURL \<Rightarrow> goURL \<Rightarrow> goURL"
  ul_String :: "goURL \<Rightarrow> string"
  ul_Hostname :: "goURL \<Rightarrow> string"
  ul_Port :: "goURL \<Rightarrow> string"
  ul_Query :: "goURL \<Rightarrow> (string \<times> string list) list"
  ul_Encode :: "(string \<times> string list) list \<Rightarrow> string"

text \<open>\<open>base.Parse\<close>, and \<open>url.Parse\<close> without a base.\<close>

definition parseFrom :: "urlLibrary \<Rightarrow> goURL option \<Rightarrow> string \<Rightarrow> goURL option" where
  "parseFrom ul base raw =
     (case ul_Parse ul raw of
        None \<Rightarrow> None
      | Some u \<Rightarrow> Some (case base of None \<Rightarrow> u | Some b \<Rightarrow> ul_ResolveReference ul b u))"

definition JoinHostPort :: "string \<Rightarrow> string \<Rightarrow> string" where
  "JoinHostPort host port = (if CHR '':'' \<in> set host then ''['' @ host @ '']:'' @ port else host @ '':'' @ port)"

text \<open>\<open>path.Ext\<close>.\<close>

definition pathExt :: "string \<Rightarrow> string" where
  "pathExt p =
     (let element = rev (takeWhile (\<lambda>c. c \<noteq> CHR ''/'') (rev p))
      in if CHR ''.'' \<in> set element then CHR ''.'' # rev (takeWhile (\<lambda>c. c \<noteq> CHR ''.'') (rev element)) else [])"

section \<open>HTML\<close>

datatype htmlNode =
    ElementNode string "(string \<times> string) list" "htmlNode list"
  | TextNode string
  | OtherNode "htmlNode list"

primrec childNodes :: "htmlNode \<Rightarrow> htmlNode list" where
  "childNodes (ElementNode _ _ ns) = ns"
| "childNodes (TextNode _) = []"
| "childNodes (OtherNode ns) = ns"

definition attr :: "(string \<times> string) list \<Rightarrow> string \<Rightarrow> string" where
  "attr attrs key =
     (case find (\<lambda>(k, v). ToLower k = ToLower key) attrs of None \<Rightarrow> [] | Some (k, v) \<Rightarrow> TrimSpace v)"

fun nodeText :: "htmlNode \<Rightarrow> string" where
  "nodeText (TextNode text) = text @ '' ''"
| "nodeText (ElementNode _ _ ns) = concat (map nodeText ns)"
| "nodeText (OtherNode ns) = concat (map nodeText ns)"

section \<open>Lines\<close>

text \<open>\<open>bufio.Scanner\<close> with its buffer of 64 KiB: the lines up to the first that does not fit, and whether
  there was one. The text behind the last newline is a line unless it is empty.\<close>

definition maxScanTokenSize :: nat where
  "maxScanTokenSize = 65536"

definition dropCR :: "string \<Rightarrow> string" where
  "dropCR l = (if l \<noteq> [] \<and> last l = CHR 0x0D then butlast l else l)"

definition scanLines :: "string \<Rightarrow> string list \<times> bool" where
  "scanLines body =
     (let parts = Split body CHR 0x0A; ls = (if last parts = [] then butlast parts else parts)
      in (map dropCR (takeWhile (\<lambda>l. length l < maxScanTokenSize) ls), \<not> list_all (\<lambda>l. length l < maxScanTokenSize) ls))"

text \<open>\<open>strings.Fields\<close>.\<close>

definition Fields :: "string \<Rightarrow> string list" where
  "Fields s = FieldsFunc is_space s []"

end
