(* ===== verification/Exporters.thy ===== *)
theory Exporters
  imports Asset_Projection Passive_Collectors Web_Links
begin

text \<open>
  The exporters of \<open>internal/export/exporting.go\<close>: what is written to the JSON, CSV and XLSX files. Writing
  itself is an argument: it gives the error of the first step that fails, if any.
\<close>

section \<open>CSV\<close>

definition csvHeader :: "string list" where
  "csvHeader = [''Asset ID'', ''Domain Kind'', ''Registrable Domain'', ''Type'', ''Identifier'', ''Source'', ''Date'']"

definition csvRow :: "netLibrary \<Rightarrow> (gotime \<Rightarrow> int) \<Rightarrow> asset \<Rightarrow> string list" where
  "csvRow net zone a =
     (let classified = ClassifyAsset net a
      in [asset_ID a, cls_DomainKind classified, cls_RegistrableDomain classified, asset_Type a, asset_Identifier a,
          asset_Source a, FormatDateTime zone (asset_DiscoveryDate a)])"

definition csvRows :: "netLibrary \<Rightarrow> (gotime \<Rightarrow> int) \<Rightarrow> asset list \<Rightarrow> string list list" where
  "csvRows net zone as = csvHeader # map (csvRow net zone) (SortedAssetsForExport net as)"

section \<open>XLSX\<close>

datatype xlsxCell = Text string | Number int | Blank

record xlsxFile =
  xs_domains :: "xlsxCell list list"
  xs_subdomains :: "xlsxCell list list"
  xs_ips :: "xlsxCell list list"

definition xlsxDay :: "(gotime \<Rightarrow> int) \<Rightarrow> gotime \<Rightarrow> string" where
  "xlsxDay zone t = (if t = 0 then [] else FormatDay zone t)"

definition xlsxDomainRow :: "netLibrary \<Rightarrow> (gotime \<Rightarrow> int) \<Rightarrow> asset \<Rightarrow> xlsxCell list" where
  "xlsxDomainRow net zone a =
     map Text ([asset_ID a, cls_RegistrableDomain (ClassifyAsset net a), asset_Source a, FormatDateTime zone (asset_DiscoveryDate a)]
       @ (case asset_DomainDetails a of
            Some dd \<Rightarrow>
              (case dd_RDAP dd of
                 Some d \<Rightarrow> [rdap_RegistrarName d, xlsxDay zone (rdap_CreationDate d), xlsxDay zone (rdap_UpdatedDate d),
                           xlsxDay zone (rdap_ExpirationDate d), rdap_RegistrantOrg d, Join (rdap_NameServers d) '', '']
               | None \<Rightarrow> [[], [], [], [], [], []])
          | None \<Rightarrow> [[], [], [], [], [], []]))"

definition exportRecords :: "string \<Rightarrow> asset \<Rightarrow> string list" where
  "exportRecords ty a =
     (case asset_DomainDetails a of
        None \<Rightarrow> []
      | Some dd \<Rightarrow> map rec_Value (filter (\<lambda>r. rec_Type r = ty) (dd_Records dd)))"

definition xlsxSubdomainRow :: "netLibrary \<Rightarrow> (gotime \<Rightarrow> int) \<Rightarrow> asset \<Rightarrow> xlsxCell list" where
  "xlsxSubdomainRow net zone a =
     map Text ([asset_ID a, cls_RegistrableDomain (ClassifyAsset net a), asset_Identifier a, asset_Source a,
                FormatDateTime zone (asset_DiscoveryDate a)]
       @ map (\<lambda>ty. Join (exportRecords ty a) '', '') [''A'', ''AAAA'', ''CNAME'', ''MX'', ''TXT''])"

definition xlsxIPRow :: "(gotime \<Rightarrow> int) \<Rightarrow> asset \<Rightarrow> xlsxCell list" where
  "xlsxIPRow zone a =
     [Text (asset_ID a), Text (asset_Identifier a), Text (asset_Source a), Text (FormatDateTime zone (asset_DiscoveryDate a)),
      (case asset_IPDetails a of Some d \<Rightarrow> if ip_ASN d \<noteq> 0 then Number (ip_ASN d) else Blank | None \<Rightarrow> Blank),
      Text (case asset_IPDetails a of Some d \<Rightarrow> ip_Organization d | None \<Rightarrow> []),
      Text (case asset_IPDetails a of Some d \<Rightarrow> ip_PTR d | None \<Rightarrow> []),
      Text (case map_of (asset_EnrichmentData a) ''cidr'' of Some (EVString v) \<Rightarrow> v | _ \<Rightarrow> [])]"

definition addXLSX :: "netLibrary \<Rightarrow> (gotime \<Rightarrow> int) \<Rightarrow> asset \<Rightarrow> xlsxFile \<Rightarrow> xlsxFile" where
  "addXLSX net zone a f =
     (if asset_Type a = AssetTypeDomain
      then (if cls_DomainKind (ClassifyAsset net a) = DomainKindRegistrable
            then f\<lparr>xs_domains := xs_domains f @ [xlsxDomainRow net zone a]\<rparr>
            else f\<lparr>xs_subdomains := xs_subdomains f @ [xlsxSubdomainRow net zone a]\<rparr>)
      else if asset_Type a = AssetTypeIP then f\<lparr>xs_ips := xs_ips f @ [xlsxIPRow zone a]\<rparr>
      else f)"

definition xlsxHeaders :: xlsxFile where
  "xlsxHeaders =
     \<lparr>xs_domains = [map Text [''Asset ID'', ''Registrable Domain'', ''Source'', ''Date'', ''Registrar'', ''Created'', ''Updated'',
                              ''Expires'', ''Registrant Org'', ''Nameservers'']],
      xs_subdomains = [map Text [''Asset ID'', ''Registrable Domain'', ''Hostname'', ''Source'', ''Date'', ''A Records'',
                                 ''AAAA Records'', ''CNAME'', ''MX'', ''TXT'']],
      xs_ips = [map Text [''Asset ID'', ''IP'', ''Source'', ''Date'', ''ASN'', ''Organization'', ''PTR'', ''CIDR'']]\<rparr>"

definition xlsxRows :: "netLibrary \<Rightarrow> (gotime \<Rightarrow> int) \<Rightarrow> asset list \<Rightarrow> xlsxFile" where
  "xlsxRows net zone as = fold (addXLSX net zone) (SortedAssetsForExport net as) xlsxHeaders"

section \<open>The stages\<close>

datatype exportFile = JSONFile "exportAsset list" | CSVFile "string list list" | XLSXFile xlsxFile

datatype exportFormat = JSONFormat | CSVFormat | XLSXFormat

primrec fileFor :: "exportFormat \<Rightarrow> netLibrary \<Rightarrow> (gotime \<Rightarrow> int) \<Rightarrow> asset list \<Rightarrow> exportFile" where
  "fileFor JSONFormat net zone as = JSONFile (BuildJSONExportAssets net as)"
| "fileFor CSVFormat net zone as = CSVFile (csvRows net zone as)"
| "fileFor XLSXFormat net zone as = XLSXFile (xlsxRows net zone as)"

primrec exporterName :: "exportFormat \<Rightarrow> string" where
  "exporterName JSONFormat = ''JSONExporter''"
| "exporterName CSVFormat = ''CSVExporter''"
| "exporterName XLSXFormat = ''XLSXExporter''"

definition exporterNode ::
  "netLibrary \<Rightarrow> (gotime \<Rightarrow> int) \<Rightarrow> (string \<Rightarrow> exportFile \<Rightarrow> string option) \<Rightarrow> ('b engineState \<Rightarrow> environment)
     \<Rightarrow> exportFormat \<Rightarrow> string \<Rightarrow> 'b engineNode" where
  "exporterNode net zone writeFile env format path =
     \<lparr>node_Name = exporterName format,
      node_Process =
        Step (onContext EnsureAssetState) (\<lambda>_.
        Step (\<lambda>s. onContext (MarkEnumerationsCompleted (fst (readClock (env s)))) s) (\<lambda>_.
        Step (\<lambda>s. s) (\<lambda>s. Done (writeFile path (fileFor format net zone (Assets (fst s)))))))\<rparr>"

section \<open>What is exported\<close>

lemma addXLSX_fold:
  "fold (addXLSX net zone) as f =
     f\<lparr>xs_domains := xs_domains f @ map (xlsxDomainRow net zone)
          (filter (\<lambda>a. asset_Type a = AssetTypeDomain \<and> cls_DomainKind (ClassifyAsset net a) = DomainKindRegistrable) as),
       xs_subdomains := xs_subdomains f @ map (xlsxSubdomainRow net zone)
          (filter (\<lambda>a. asset_Type a = AssetTypeDomain \<and> cls_DomainKind (ClassifyAsset net a) \<noteq> DomainKindRegistrable) as),
       xs_ips := xs_ips f @ map (xlsxIPRow zone) (filter (\<lambda>a. asset_Type a = AssetTypeIP) as)\<rparr>"
  by (induction as arbitrary: f) (simp_all add: addXLSX_def)

lemma SortedAssetsForExport_mset: "mset (SortedAssetsForExport net as) = mset as"
  by (simp add: SortedAssetsForExport_def)

text \<open>The identifiers of the assets in the rows of a sheet, below its header.\<close>

definition rowIDs :: "xlsxCell list list \<Rightarrow> xlsxCell multiset" where
  "rowIDs rows = mset (map hd (tl rows))"

lemma xlsx_complete:
  "rowIDs (xs_domains (xlsxRows net zone as)) + rowIDs (xs_subdomains (xlsxRows net zone as))
     + rowIDs (xs_ips (xlsxRows net zone as))
   = image_mset (\<lambda>a. Text (asset_ID a)) (filter_mset (\<lambda>a. asset_Type a = AssetTypeDomain \<or> asset_Type a = AssetTypeIP) (mset as))"
proof -
  let ?as = "SortedAssetsForExport net as"
  have heads: "hd (xlsxDomainRow net zone a) = Text (asset_ID a)" "hd (xlsxSubdomainRow net zone a) = Text (asset_ID a)"
    "hd (xlsxIPRow zone a) = Text (asset_ID a)" for a
    by (simp_all add: xlsxDomainRow_def xlsxSubdomainRow_def xlsxIPRow_def)
  have split: "mset (map f (filter (\<lambda>a. P a \<and> Q a) xs)) + mset (map f (filter (\<lambda>a. P a \<and> \<not> Q a) xs)) + mset (map f (filter R xs))
      = mset (map f (filter (\<lambda>a. P a \<or> R a) xs))" if "\<And>a. P a \<Longrightarrow> \<not> R a" for f :: "asset \<Rightarrow> xlsxCell" and P Q R xs
    using that by (induction xs) auto
  have "rowIDs (xs_domains (xlsxRows net zone as)) + rowIDs (xs_subdomains (xlsxRows net zone as))
     + rowIDs (xs_ips (xlsxRows net zone as))
    = mset (map (\<lambda>a. Text (asset_ID a)) (filter (\<lambda>a. asset_Type a = AssetTypeDomain \<or> asset_Type a = AssetTypeIP) ?as))"
    by (subst split [symmetric, where Q = "\<lambda>a. cls_DomainKind (ClassifyAsset net a) = DomainKindRegistrable"])
      (simp_all add: rowIDs_def xlsxRows_def addXLSX_fold xlsxHeaders_def heads comp_def)
  then show ?thesis by (simp add: mset_filter SortedAssetsForExport_mset)
qed

lemma csv_complete: "mset (map hd (tl (csvRows net zone as))) = image_mset asset_ID (mset as)"
  by (simp add: csvRows_def csvRow_def comp_def Let_def SortedAssetsForExport_mset)

end
