(* ===== verification/Crawler_Collector.thy ===== *)
theory Crawler_Collector
  imports Web_Links DNS_Observation
begin

text \<open>
  \<open>internal/collect/crawler_collector.go\<close> with the types of \<open>internal/models/crawler.go\<close>: crawls the pages of
  a seed's sites within its roots, reports the hosts it sees, and puts the roots its pages link to to the
  judge, in batches. The transport, URLs and the HTML parser are arguments. The time a page was fetched
  at is not kept, since nothing reads it.
\<close>

section \<open>Pages and links\<close>

record crawlRequest =
  cq_SeedID :: string
  cq_StartURLs :: "string list"
  cq_ScopeRoots :: "string list"
  cq_MaxDepth :: int
  cq_MaxPages :: int

record crawlLink =
  cl_SourceURL :: string
  cl_SourceTitle :: string
  cl_SourceDepth :: int
  cl_TargetURL :: string
  cl_TargetHost :: string
  cl_TargetRoot :: string
  cl_Relation :: string
  cl_AnchorText :: string
  cl_NoFollow :: bool

record crawlPage =
  cp_URL :: string
  cp_FinalURL :: string
  cp_Depth :: int
  cp_StatusCode :: int
  cp_ContentType :: string
  cp_Title :: string
  cp_Links :: "crawlLink list"

record crawlerQueueItem =
  qi_URL :: string
  qi_Depth :: int

text \<open>What a request gives: the final URL, the status, the content type and the body, or an error of reading it.\<close>

record crawlAnswer =
  ca_FinalURL :: string
  ca_StatusCode :: int
  ca_ContentType :: string
  ca_Body :: "string + string"

record crawler =
  cr_net :: netLibrary
  cr_urls :: urlLibrary
  cr_get :: "string \<Rightarrow> string + crawlAnswer"
  cr_html :: "string \<Rightarrow> string + htmlNode"
  cr_judge :: "ownershipJudge option"
  cr_maxDepth :: int
  cr_maxPagesPerSeed :: int
  cr_maxLinksPerPage :: int
  cr_maxSamplesPerRoot :: int
  cr_mapOrder :: "string list \<Rightarrow> string list"
  cr_showFloat :: "float64 \<Rightarrow> string"

section \<open>Text and URLs\<close>

definition normalizeCrawlerText :: "string \<Rightarrow> string" where
  "normalizeCrawlerText raw = Join (Fields (TrimSpace raw)) '' ''"

definition truncateCrawlerText :: "string \<Rightarrow> nat \<Rightarrow> string" where
  "truncateCrawlerText raw0 limit =
     (let raw = normalizeCrawlerText raw0
      in if limit = 0 \<or> length raw \<le> limit then raw else TrimSpace (take limit raw) @ ''...'')"

definition uniqueCrawlerStrings :: "string list \<Rightarrow> string list" where
  "uniqueCrawlerStrings values = uniqueBy (\<lambda>v. v) {} (filter (\<lambda>v. v \<noteq> []) (map TrimSpace values))"

text \<open>The parameters kept by \<open>normalizeCrawlerQuery\<close>. Two keys that are equal up to case and blanks share
  an entry, so the order in which the map is visited decides whose values stay.\<close>

definition trackingKey :: "string \<Rightarrow> bool" where
  "trackingKey k \<longleftrightarrow> k = [] \<or> HasPrefix k ''utm_'' \<or> k \<in> {''fbclid'', ''gclid'', ''mc_cid'', ''mc_eid''}"

definition normalizeCrawlerQuery ::
  "(string list \<Rightarrow> string list) \<Rightarrow> urlLibrary \<Rightarrow> (string \<times> string list) list \<Rightarrow> string" where
  "normalizeCrawlerQuery mapOrder ul values =
     (if values = [] then []
      else ul_Encode ul (fold (\<lambda>key m. let k = ToLower (TrimSpace key)
             in if trackingKey k then m
                else AList.update k (case map_of values key of None \<Rightarrow> [] | Some items \<Rightarrow> items) m)
           (mapOrder (map fst values)) []))"

definition normalizeCrawlerURL :: "crawler \<Rightarrow> string \<Rightarrow> string" where
  "normalizeCrawlerURL c raw0 =
     (let raw = TrimSpace raw0; ul = cr_urls c
      in if raw = [] then []
         else case ul_Parse ul raw of
                None \<Rightarrow> []
              | Some u \<Rightarrow>
                  (let scheme = ToLower (url_Scheme u); host = NormalizeDomainIdentifier (ul_Hostname ul u);
                       port0 = ul_Port ul u;
                       port = (if (scheme = ''http'' \<and> port0 = ''80'') \<or> (scheme = ''https'' \<and> port0 = ''443'')
                               then [] else port0)
                   in if (scheme \<noteq> ''http'' \<and> scheme \<noteq> ''https'') \<or> host = [] then []
                      else ul_String ul (u\<lparr>url_Host := (if port \<noteq> [] then JoinHostPort host port else host),
                             url_Path := (if url_Path u = [] then ''/'' else url_Path u), url_Fragment := [],
                             url_RawQuery := normalizeCrawlerQuery (cr_mapOrder c) ul (ul_Query ul u),
                             url_Scheme := scheme\<rparr>)))"

definition crawlerHost :: "crawler \<Rightarrow> string \<Rightarrow> string" where
  "crawlerHost c raw =
     (case ul_Parse (cr_urls c) raw of None \<Rightarrow> [] | Some u \<Rightarrow> NormalizeDomainIdentifier (ul_Hostname (cr_urls c) u))"

definition resolveCrawlerLink :: "crawler \<Rightarrow> goURL \<Rightarrow> string \<Rightarrow> string" where
  "resolveCrawlerLink c base raw0 =
     (let raw = TrimSpace raw0; lower = ToLower raw
      in if raw = [] \<or> list_ex (HasPrefix lower) [''#'', ''javascript:'', ''mailto:'', ''tel:'', ''data:''] then []
         else case parseFrom (cr_urls c) (Some base) raw of
                None \<Rightarrow> []
              | Some u \<Rightarrow> if ToLower (url_Scheme u) \<in> {''http'', ''https''} then normalizeCrawlerURL c (ul_String (cr_urls c) u)
                          else [])"

definition crawlerSkipExtensions :: "string list" where
  "crawlerSkipExtensions =
     [''.7z'', ''.avi'', ''.bz2'', ''.css'', ''.eot'', ''.gif'', ''.gz'', ''.ico'', ''.jar'', ''.jpeg'', ''.jpg'', ''.js'',
      ''.json'', ''.map'', ''.mov'', ''.mp3'', ''.mp4'', ''.pdf'', ''.png'', ''.svg'', ''.tar'', ''.tgz'', ''.ttf'', ''.txt'',
      ''.wav'', ''.webm'', ''.woff'', ''.woff2'', ''.xml'', ''.zip'']"

definition shouldFollowCrawlerURL :: "crawler \<Rightarrow> string \<Rightarrow> bool" where
  "shouldFollowCrawlerURL c raw =
     (case ul_Parse (cr_urls c) raw of
        None \<Rightarrow> False
      | Some u \<Rightarrow> (let ext = ToLower (pathExt (url_Path u)) in ext = [] \<or> ext \<notin> set crawlerSkipExtensions))"

section \<open>Relations\<close>

definition relationTags :: "(string list \<times> string) list" where
  "relationTags =
     [([''privacy''], ''privacy''), ([''security'', ''trust'', ''bug bounty''], ''security''),
      ([''legal'', ''terms'', ''cookie''], ''legal''), ([''contact'', ''support'', ''help''], ''contact''),
      ([''career'', ''jobs'', ''talent''], ''careers''), ([''about'', ''company'', ''group''], ''about''),
      ([''investor'', ''investors''], ''investor_relations'')]"

definition relationTag :: "string \<Rightarrow> string option" where
  "relationTag text = map_option snd (find (\<lambda>(words, _). list_ex (Contains text) words) relationTags)"

definition classifyCrawlerLinkRelation :: "string \<Rightarrow> string \<Rightarrow> string \<Rightarrow> string" where
  "classifyCrawlerLinkRelation sourceURL targetURL anchorText =
     (case relationTag (ToLower (targetURL @ '' '' @ TrimSpace anchorText)) of
        Some tag \<Rightarrow> tag
      | None \<Rightarrow> (case relationTag (ToLower sourceURL) of Some tag \<Rightarrow> tag | None \<Rightarrow> ''anchor''))"

section \<open>The links of a page\<close>

record linkWork =
  lw_title :: string
  lw_links :: "crawlLink list"
  lw_seen :: "string list"

definition linksFull :: "int \<Rightarrow> linkWork \<Rightarrow> bool" where
  "linksFull maxLinks w \<longleftrightarrow> maxLinks > 0 \<and> int (length (lw_links w)) \<ge> maxLinks"

definition visitNode :: "crawler \<Rightarrow> goURL \<Rightarrow> string \<Rightarrow> int \<Rightarrow> htmlNode \<Rightarrow> linkWork \<Rightarrow> linkWork" where
  "visitNode c base sourceURL depth node w =
     (case node of
        ElementNode tag attrs _ \<Rightarrow>
          (if ToLower tag = ''title''
           then (if lw_title w = [] then w\<lparr>lw_title := normalizeCrawlerText (nodeText node)\<rparr> else w)
           else if ToLower tag = ''a''
           then (let target = resolveCrawlerLink c base (attr attrs ''href'');
                     anchor = normalizeCrawlerText (nodeText node);
                     relation = classifyCrawlerLinkRelation sourceURL target anchor;
                     key = target @ ''|'' @ relation @ ''|'' @ ToLower anchor;
                     host = crawlerHost c target
                 in if target = [] \<or> key \<in> set (lw_seen w) then w
                    else w\<lparr>lw_seen := key # lw_seen w,
                           lw_links := lw_links w @
                             [\<lparr>cl_SourceURL = sourceURL, cl_SourceTitle = [], cl_SourceDepth = depth, cl_TargetURL = target,
                               cl_TargetHost = host, cl_TargetRoot = RegistrableDomain (cr_net c) host, cl_Relation = relation,
                               cl_AnchorText = anchor, cl_NoFollow = Contains (ToLower (attr attrs ''rel'')) ''nofollow''\<rparr>]\<rparr>)
           else w)
      | _ \<Rightarrow> w)"

fun walkNode :: "crawler \<Rightarrow> goURL \<Rightarrow> string \<Rightarrow> int \<Rightarrow> int \<Rightarrow> htmlNode \<Rightarrow> linkWork \<Rightarrow> linkWork"
  and walkNodes :: "crawler \<Rightarrow> goURL \<Rightarrow> string \<Rightarrow> int \<Rightarrow> int \<Rightarrow> htmlNode list \<Rightarrow> linkWork \<Rightarrow> linkWork" where
  "walkNode c base src depth maxLinks (TextNode text) w = w"
| "walkNode c base src depth maxLinks (ElementNode tag attrs ns) w =
     (if linksFull maxLinks w then w
      else walkNodes c base src depth maxLinks ns (visitNode c base src depth (ElementNode tag attrs ns) w))"
| "walkNode c base src depth maxLinks (OtherNode ns) w =
     (if linksFull maxLinks w then w else walkNodes c base src depth maxLinks ns w)"
| "walkNodes c base src depth maxLinks [] w = w"
| "walkNodes c base src depth maxLinks (n # ns) w =
     (let w' = walkNode c base src depth maxLinks n w
      in if linksFull maxLinks w' then w' else walkNodes c base src depth maxLinks ns w')"

definition extractCrawlerLinks :: "crawler \<Rightarrow> goURL \<Rightarrow> string \<Rightarrow> int \<Rightarrow> int \<Rightarrow> string + (string \<times> crawlLink list)" where
  "extractCrawlerLinks c base body depth maxLinks =
     (if body = [] then Inr ([], [])
      else case cr_html c body of
             Inl e \<Rightarrow> Inl e
           | Inr doc \<Rightarrow>
               (let w = walkNode c base (normalizeCrawlerURL c (ul_String (cr_urls c) base)) depth maxLinks doc
                          \<lparr>lw_title = [], lw_links = [], lw_seen = []\<rparr>
                in Inr (lw_title w, map (\<lambda>l. l\<lparr>cl_SourceTitle := lw_title w\<rparr>) (lw_links w))))"

definition crawlerBodyLimit :: nat where
  "crawlerBodyLimit = 1024 * 1024"

definition defaultFetchPage :: "crawler \<Rightarrow> crawlerQueueItem \<Rightarrow> string + crawlPage" where
  "defaultFetchPage c target =
     (case cr_get c (qi_URL target) of
        Inl e \<Rightarrow> Inl (''crawl '' @ qi_URL target @ '': '' @ e)
      | Inr a \<Rightarrow>
          (let page = \<lparr>cp_URL = normalizeCrawlerURL c (qi_URL target), cp_FinalURL = normalizeCrawlerURL c (ca_FinalURL a),
                       cp_Depth = qi_Depth target, cp_StatusCode = ca_StatusCode a,
                       cp_ContentType = ToLower (TrimSpace (ca_ContentType a)), cp_Title = [], cp_Links = []\<rparr>
           in if ca_StatusCode a \<ge> 400 \<or> (cp_ContentType page \<noteq> [] \<and> \<not> Contains (cp_ContentType page) ''html'') then Inr page
              else case ca_Body a of
                     Inl e \<Rightarrow> Inl (''read crawl body '' @ qi_URL target @ '': '' @ e)
                   | Inr read \<Rightarrow>
                       (let body = take crawlerBodyLimit read
                        in if body = [] then Inr page
                           else case ul_Parse (cr_urls c) (cp_FinalURL page) of
                                  None \<Rightarrow> Inl (''parse final crawl URL '' @ cp_FinalURL page @ '': '' @ ul_ParseError (cr_urls c) (cp_FinalURL page))
                                | Some final \<Rightarrow>
                                    (case extractCrawlerLinks c final body (qi_Depth target) (cr_maxLinksPerPage c) of
                                       Inl e \<Rightarrow> Inl (''parse crawl HTML '' @ cp_FinalURL page @ '': '' @ e)
                                     | Inr (title, links) \<Rightarrow> Inr (page\<lparr>cp_Title := title, cp_Links := links\<rparr>)))))"

section \<open>Outbound roots\<close>

record crawlerRootCandidate =
  rc_ObservationCount :: nat
  rc_samples :: "crawlLink list"
  rc_sampleKeys :: "string list"
  rc_referrers :: "string list"
  rc_relations :: "string list"

type_synonym outboundRoots = "(string \<times> crawlerRootCandidate) list"

definition newCrawlerRootCandidate :: crawlerRootCandidate where
  "newCrawlerRootCandidate =
     \<lparr>rc_ObservationCount = 0, rc_samples = [], rc_sampleKeys = [], rc_referrers = [], rc_relations = []\<rparr>"

definition addNonEmptyKey :: "string \<Rightarrow> string list \<Rightarrow> string list" where
  "addNonEmptyKey k ks = (if k = [] then ks else List.insert k ks)"

definition countLink :: "crawlLink \<Rightarrow> int \<Rightarrow> crawlerRootCandidate \<Rightarrow> crawlerRootCandidate" where
  "countLink l maxSamples x =
     (let x1 = x\<lparr>rc_ObservationCount := rc_ObservationCount x + 1,
                 rc_referrers := addNonEmptyKey (cl_SourceURL l) (rc_referrers x),
                 rc_relations := addNonEmptyKey (TrimSpace (ToLower (cl_Relation l))) (rc_relations x)\<rparr>;
          key = ToLower (TrimSpace (cl_SourceURL l)) @ ''|'' @ ToLower (TrimSpace (cl_TargetURL l)) @ ''|''
                  @ ToLower (TrimSpace (cl_AnchorText l))
      in if key \<in> set (rc_sampleKeys x1) then x1
         else (let x2 = x1\<lparr>rc_sampleKeys := key # rc_sampleKeys x1\<rparr>
               in if maxSamples > 0 \<and> int (length (rc_samples x2)) \<ge> maxSamples then x2
                  else x2\<lparr>rc_samples := rc_samples x2 @ [l]\<rparr>))"

definition captureCrawlerCandidate :: "netLibrary \<Rightarrow> crawlLink \<Rightarrow> int \<Rightarrow> outboundRoots \<Rightarrow> outboundRoots" where
  "captureCrawlerCandidate net l maxSamples m =
     (let r0 = RegistrableDomain net (cl_TargetRoot l);
          r = (if r0 = [] then RegistrableDomain net (cl_TargetHost l) else r0)
      in if r = [] then m
         else AList.update r (countLink l maxSamples
                (case map_of m r of None \<Rightarrow> newCrawlerRootCandidate | Some x \<Rightarrow> x)) m)"

section \<open>The crawl\<close>

definition buildRequest :: "crawler \<Rightarrow> seed \<Rightarrow> crawlRequest" where
  "buildRequest c s =
     (let domains = filter (\<lambda>d. d \<noteq> []) (map NormalizeDomainIdentifier (seed_Domains s))
      in \<lparr>cq_SeedID = seed_ID s,
          cq_StartURLs = uniqueCrawlerStrings (filter (\<lambda>u. u \<noteq> []) (concat (map (\<lambda>d.
             [normalizeCrawlerURL c (''https://'' @ NormalizeDomainIdentifier d @ ''/''),
              normalizeCrawlerURL c (''http://'' @ NormalizeDomainIdentifier d @ ''/'')]) domains))),
          cq_ScopeRoots = UniqueLowerStrings (filter (\<lambda>r. r \<noteq> []) (map (RegistrableDomain (cr_net c)) domains)),
          cq_MaxDepth = cr_maxDepth c, cq_MaxPages = cr_maxPagesPerSeed c\<rparr>)"

record crawlWork =
  cw_internalHosts :: "string list"
  cw_outbound :: outboundRoots
  cw_visited :: "string list"
  cw_queued :: "string list"
  cw_queue :: "crawlerQueueItem list"
  cw_errors :: "string list"
  cw_pagesFetched :: int

text \<open>The link with what \<open>crawlSeed\<close> fills in.\<close>

definition normalizedLink :: "crawler \<Rightarrow> string \<Rightarrow> crawlLink \<Rightarrow> crawlLink" where
  "normalizedLink c finalURL l =
     (let target = normalizeCrawlerURL c (cl_TargetURL l);
          host = NormalizeDomainIdentifier (FirstNonEmpty [cl_TargetHost l, crawlerHost c target])
      in l\<lparr>cl_SourceURL := normalizeCrawlerURL c (FirstNonEmpty [cl_SourceURL l, finalURL]), cl_TargetURL := target,
           cl_TargetHost := host,
           cl_TargetRoot := NormalizeDomainIdentifier (FirstNonEmpty [cl_TargetRoot l, RegistrableDomain (cr_net c) host])\<rparr>)"

definition enqueueLink :: "string \<Rightarrow> int \<Rightarrow> crawlWork \<Rightarrow> crawlWork" where
  "enqueueLink url depth w =
     (if url \<in> set (cw_visited w) \<or> url \<in> set (cw_queued w) then w
      else w\<lparr>cw_queued := url # cw_queued w, cw_queue := cw_queue w @ [\<lparr>qi_URL = url, qi_Depth = depth\<rparr>]\<rparr>)"

definition followLink :: "crawler \<Rightarrow> crawlRequest \<Rightarrow> crawlerQueueItem \<Rightarrow> string \<Rightarrow> crawlLink \<Rightarrow> crawlWork \<Rightarrow> crawlWork" where
  "followLink c q item finalURL l0 w =
     (let l = normalizedLink c finalURL l0
      in if cl_TargetURL l = [] \<or> cl_TargetRoot l = [] then w
         else if cl_TargetRoot l \<in> set (cq_ScopeRoots q)
         then (let w1 = (if cl_TargetHost l \<noteq> [] \<and> cl_TargetHost l \<noteq> cl_TargetRoot l
                            \<and> isAcceptedDomainIdentifier (cr_net c) (cl_TargetHost l)
                         then w\<lparr>cw_internalHosts := List.insert (cl_TargetHost l) (cw_internalHosts w)\<rparr> else w)
               in if qi_Depth item < cq_MaxDepth q \<and> shouldFollowCrawlerURL c (cl_TargetURL l)
                  then enqueueLink (cl_TargetURL l) (qi_Depth item + 1) w1 else w1)
         else w\<lparr>cw_outbound := captureCrawlerCandidate (cr_net c) l (cr_maxSamplesPerRoot c) (cw_outbound w)\<rparr>)"

definition redirectLink :: "crawlerQueueItem \<Rightarrow> string \<Rightarrow> string \<Rightarrow> string \<Rightarrow> crawlLink" where
  "redirectLink item finalURL finalHost finalRoot =
     \<lparr>cl_SourceURL = qi_URL item, cl_SourceTitle = [], cl_SourceDepth = qi_Depth item, cl_TargetURL = finalURL,
      cl_TargetHost = finalHost, cl_TargetRoot = finalRoot, cl_Relation = ''redirect'', cl_AnchorText = [], cl_NoFollow = False\<rparr>"

text \<open>What a fetched page adds.\<close>

definition readPage :: "crawler \<Rightarrow> crawlRequest \<Rightarrow> crawlerQueueItem \<Rightarrow> crawlPage \<Rightarrow> crawlWork \<Rightarrow> crawlWork" where
  "readPage c q item page w0 =
     (let w = w0\<lparr>cw_pagesFetched := cw_pagesFetched w0 + 1\<rparr>;
          finalURL = normalizeCrawlerURL c (FirstNonEmpty [cp_FinalURL page, cp_URL page, qi_URL item]);
          finalHost = crawlerHost c finalURL; finalRoot = RegistrableDomain (cr_net c) finalHost;
          w1 = (if finalHost \<noteq> [] \<and> finalRoot \<noteq> [] \<and> finalRoot \<in> set (cq_ScopeRoots q) \<and> finalHost \<noteq> finalRoot
                then w\<lparr>cw_internalHosts := List.insert finalHost (cw_internalHosts w)\<rparr> else w)
      in if finalRoot \<noteq> [] \<and> finalRoot \<notin> set (cq_ScopeRoots q)
         then w1\<lparr>cw_outbound := captureCrawlerCandidate (cr_net c) (redirectLink item finalURL finalHost finalRoot)
                   (cr_maxSamplesPerRoot c) (cw_outbound w1)\<rparr>
         else fold (followLink c q item finalURL) (cp_Links page) w1)"

lemma enqueueLink_pages [simp]: "cw_pagesFetched (enqueueLink url depth w) = cw_pagesFetched w"
  by (simp add: enqueueLink_def)

lemma followLink_pages [simp]: "cw_pagesFetched (followLink c q item u l w) = cw_pagesFetched w"
  by (simp add: followLink_def Let_def)

lemma followLinks_pages [simp]: "cw_pagesFetched (fold (followLink c q item u) ls w) = cw_pagesFetched w"
  by (induction ls arbitrary: w) simp_all

lemma readPage_pages [simp]: "cw_pagesFetched (readPage c q item page w) = cw_pagesFetched w + 1"
  by (simp add: readPage_def Let_def)

text \<open>The loop over the queue. Only a fetched page can lengthen the queue, and their number is limited; a page
  that fails does not count.\<close>

function crawlPages :: "crawler \<Rightarrow> crawlRequest \<Rightarrow> crawlWork \<Rightarrow> crawlWork" where
  "crawlPages c q w =
     (case cw_queue w of
        [] \<Rightarrow> w
      | item # queue \<Rightarrow>
          (if cw_pagesFetched w \<ge> cq_MaxPages q then w
           else (let w1 = w\<lparr>cw_queue := queue\<rparr>
                 in if qi_URL item \<in> set (cw_visited w1) then crawlPages c q w1
                    else (let w2 = w1\<lparr>cw_visited := qi_URL item # cw_visited w1\<rparr>
                          in case defaultFetchPage c item of
                               Inl e \<Rightarrow> crawlPages c q (w2\<lparr>cw_errors := cw_errors w2 @ [e]\<rparr>)
                             | Inr page \<Rightarrow> crawlPages c q (readPage c q item page w2)))))"
  by pat_completeness auto
termination
  by (relation "inv_image (less_than <*lex*> less_than)
       (\<lambda>(_, q, w). (nat (cq_MaxPages q - cw_pagesFetched w), length (cw_queue w)))") auto

declare crawlPages.simps [simp del]

definition crawlSeed :: "crawler \<Rightarrow> crawlRequest \<Rightarrow> crawlWork" where
  "crawlSeed c q =
     crawlPages c q (fold (\<lambda>url. enqueueLink url 0) (filter (\<lambda>u. u \<noteq> []) (cq_StartURLs q))
       \<lparr>cw_internalHosts = [], cw_outbound = [], cw_visited = [], cw_queued = [], cw_queue = [], cw_errors = [],
        cw_pagesFetched = 0\<rparr>)"

section \<open>The question\<close>

definition crawlerRelationSummary :: "string list \<Rightarrow> string" where
  "crawlerRelationSummary relations = (if relations = [] then [] else ''; relation tags: '' @ Join relations '', '')"

definition crawlerProminentRelations :: "string list \<Rightarrow> string list" where
  "crawlerProminentRelations relations =
     filter (\<lambda>r. r \<in> {''about'', ''careers'', ''contact'', ''investor_relations'', ''legal'', ''privacy'', ''security''}) relations"

definition sampleString :: "crawlLink \<Rightarrow> string" where
  "sampleString l =
     Join ((if cl_SourceURL l = [] then [] else [cl_SourceURL l])
       @ (if cl_Relation l = [] \<or> cl_Relation l = ''anchor'' then [] else [''relation '' @ cl_Relation l])
       @ (if cl_AnchorText l = [] then [] else [''text '' @ Quote (truncateCrawlerText (cl_AnchorText l) 80)])
       @ (if cl_TargetURL l = [] then [] else [''target '' @ cl_TargetURL l])) '' | ''"

text \<open>A sample with no part at all is left out.\<close>

definition sampleStrings :: "crawlerRootCandidate \<Rightarrow> nat \<Rightarrow> string list" where
  "sampleStrings x limit =
     filter (\<lambda>t. t \<noteq> []) (map sampleString (if limit > 0 then take limit (rc_samples x) else rc_samples x))"

definition sortedRelations :: "crawlerRootCandidate \<Rightarrow> string list" where
  "sortedRelations x = sort (rc_relations x)"

definition crawlerEvidence :: "crawlerRootCandidate \<Rightarrow> ownershipEvidenceItem list" where
  "crawlerEvidence x =
     (let relations = sortedRelations x; prominent = crawlerProminentRelations relations; samples = sampleStrings x 3
      in \<lparr>item_Kind = ''crawl_link_summary'',
          item_Summary = ''Observed '' @ show_nat (rc_ObservationCount x) @ '' outbound link(s) from ''
            @ show_nat (length (rc_referrers x)) @ '' crawled page(s)'' @ crawlerRelationSummary relations\<rparr>
       # (if prominent = [] then []
          else [\<lparr>item_Kind = ''crawl_first_party_context'',
                 item_Summary = ''Linked from first-party page contexts tagged as: '' @ Join prominent '', ''\<rparr>])
       @ (if samples = [] then []
          else [\<lparr>item_Kind = ''crawl_link_samples'', item_Summary = ''Sample crawl edges: '' @ Join samples '' ; ''\<rparr>]))"

text \<open>The roots seen most come first; the order is total, so the order of the map does not matter.\<close>

definition buildCrawlerJudgeCandidates :: "outboundRoots \<Rightarrow> ownershipCandidate list" where
  "buildCrawlerJudgeCandidates m =
     map (\<lambda>(r, x). \<lparr>oc_Root = r, oc_Evidence = crawlerEvidence x\<rparr>)
       (sort_key (\<lambda>(r, x). (- int (rc_ObservationCount x), - int (length (rc_referrers x)), r)) (filter (\<lambda>(r, x). r \<noteq> []) m))"

definition crawlerSeedEvidenceConfidence :: "crawlerRootCandidate \<Rightarrow> float64" where
  "crawlerSeedEvidenceConfidence x =
     (let confidence = 45 / 100 + 5 / 100 * of_nat (length (rc_referrers x)) + (if rc_relations x = [] then 0 else 5 / 100)
      in if confidence > 85 / 100 then 85 / 100 else confidence)"

section \<open>The stage\<close>

definition crawlerSeed :: "netLibrary \<Rightarrow> seed \<Rightarrow> crawlerRootCandidate \<Rightarrow> string \<Rightarrow> seed" where
  "crawlerSeed net s x r =
     (BuildDiscoveredSeed net s r ''crawler-outbound'')\<lparr>seed_Evidence :=
        [\<lparr>ev_Source = ''crawler_collector'', ev_Kind = ''outbound_link'', ev_Value = r,
          ev_Confidence = crawlerSeedEvidenceConfidence x, ev_Reasoned = False\<rparr>]\<rparr>"

definition crawlerAsset :: "crawler \<Rightarrow> string \<Rightarrow> outboundRoots \<Rightarrow> judgeDecision \<Rightarrow> pivotWork \<Rightarrow> pivotWork" where
  "crawlerAsset c enumID m d =
     pivotAsset ''dom-crawler'' ''crawler_collector'' enumID noDomainDetails
       (case map_of m (jd_Root d) of
          None \<Rightarrow> []
        | Some x \<Rightarrow>
            [(''crawl_kind'', EVString ''judged_outbound_root''), (''crawl_observations'', EVInt (int (rc_ObservationCount x))),
             (''crawl_relations'', EVStrings (sortedRelations x)), (''crawl_samples'', EVStrings (sampleStrings x 3)),
             (''ownership_confidence'', EVJSON (cr_showFloat c (jd_Confidence d)))]) (jd_Root d)"

definition maxCrawlerJudgeBatchSize :: nat where
  "maxCrawlerJudgeBatchSize = 20"

primrec judgeBatches ::
  "crawler \<Rightarrow> 'b promotionHandler \<Rightarrow> seed \<Rightarrow> string \<Rightarrow> outboundRoots \<Rightarrow> ownershipCandidate list list
     \<Rightarrow> (pivotWork \<Rightarrow> 'b engineState thread) \<Rightarrow> pivotWork \<Rightarrow> 'b engineState thread" where
  "judgeBatches c h s enumID m [] k w = k w"
| "judgeBatches c h s enumID m (batch # batches) k w =
     judgePivots (cr_net c) h (cr_judge c) ''crawler_collector''
       \<lparr>or_Scenario = ''crawler outbound link pivot'', or_Seed = s, or_Candidates = batch\<rparr>
       (\<lambda>d p. if jd_Root d \<in> oc_Root ` set batch \<and> collects d p
              then map_option (\<lambda>x. (crawlerSeed (cr_net c) s x (jd_Root d), judgedEvidence d)) (map_of m (jd_Root d))
              else None)
       (crawlerAsset c enumID m) (judgeBatches c h s enumID m batches k) w"

definition crawlerTurn :: "crawler \<Rightarrow> 'b promotionHandler \<Rightarrow> 'b pivotTurn" where
  "crawlerTurn c h s k w0 =
     (let q = buildRequest c s
      in if cq_StartURLs q = [] \<or> cq_ScopeRoots q = [] then k w0
         else (let (enumID, w1) = pivotEnumeration ''enum-crawler'' s w0;
                   cw = crawlSeed c q;
                   w = fold (pivotAsset ''dom-crawler'' ''crawler_collector'' enumID noDomainDetails
                              [(''crawl_kind'', EVString ''internal_link'')])
                         (sort (cw_internalHosts cw)) (pivotErrors (cw_errors cw) w1)
               in judgeBatches c h s enumID (cw_outbound cw)
                    (batchesOf maxCrawlerJudgeBatchSize (buildCrawlerJudgeCandidates (cw_outbound cw))) k w))"

definition CrawlerCollector ::
  "crawler \<Rightarrow> 'b promotionHandler \<Rightarrow> ('b engineState \<Rightarrow> environment) \<Rightarrow> 'b engineNode" where
  "CrawlerCollector c h env = \<lparr>node_Name = ''CrawlerCollector'', node_Process = judgedProcess (crawlerTurn c h) env\<rparr>"

definition NewCrawlerCollector ::
  "netLibrary \<Rightarrow> urlLibrary \<Rightarrow> (string \<Rightarrow> string + crawlAnswer) \<Rightarrow> (string \<Rightarrow> string + htmlNode) \<Rightarrow> ownershipJudge option
     \<Rightarrow> (string list \<Rightarrow> string list) \<Rightarrow> (float64 \<Rightarrow> string) \<Rightarrow> crawler" where
  "NewCrawlerCollector net ul client parse judge mapOrder showFloat =
     \<lparr>cr_net = net, cr_urls = ul, cr_get = client, cr_html = parse, cr_judge = judge, cr_maxDepth = 2,
      cr_maxPagesPerSeed = 12, cr_maxLinksPerPage = 128, cr_maxSamplesPerRoot = 5, cr_mapOrder = mapOrder,
      cr_showFloat = showFloat\<rparr>"

end
