(* ===== verification/Sitemap_Collector.thy ===== *)
theory Sitemap_Collector
  imports Web_Links
begin

text \<open>
  \<open>internal/collect/sitemap_collector.go\<close>: reads the sitemaps of a seed's sites, reports the hosts under
  its own roots, and puts the other roots to the judge. Fetching, URLs and the XML decoder are arguments.
\<close>

section \<open>URLs\<close>

definition normalizeSitemapURL :: "urlLibrary \<Rightarrow> string \<Rightarrow> goURL option \<Rightarrow> string" where
  "normalizeSitemapURL ul raw0 base =
     (let raw = TrimSpace raw0
      in if raw = [] then []
         else case parseFrom ul base raw of
                None \<Rightarrow> []
              | Some u \<Rightarrow> if url_Scheme u = [] \<or> url_Host u = [] then [] else ul_String ul (u\<lparr>url_Fragment := []\<rparr>))"

definition sitemapURLDedupKey :: "urlLibrary \<Rightarrow> string \<Rightarrow> string" where
  "sitemapURLDedupKey ul raw =
     (case ul_Parse ul (TrimSpace raw) of
        None \<Rightarrow> raw
      | Some u0 \<Rightarrow>
          (let u = u0\<lparr>url_Scheme := ToLower (url_Scheme u0)\<rparr>; host = ToLower (ul_Hostname ul u)
           in if host = [] then raw
              else ul_String ul (u\<lparr>url_Host := (if ul_Port ul u \<noteq> [] then JoinHostPort host (ul_Port ul u) else host)\<rparr>)))"

definition sitemapURLHost :: "netLibrary \<Rightarrow> urlLibrary \<Rightarrow> string \<Rightarrow> string" where
  "sitemapURLHost net ul raw =
     (let host = (case ul_Parse ul (TrimSpace raw) of None \<Rightarrow> [] | Some u \<Rightarrow> NormalizeDomainIdentifier (ul_Hostname ul u))
      in if host \<noteq> [] then host
         else case ExtractDomainCandidates net raw of [] \<Rightarrow> [] | c # _ \<Rightarrow> c)"

definition parseRobotsSitemapURLs :: "urlLibrary \<Rightarrow> string \<Rightarrow> goURL \<Rightarrow> string list" where
  "parseRobotsSitemapURLs ul body base =
     uniqueBy (sitemapURLDedupKey ul) {} (filter (\<lambda>u. u \<noteq> [])
       (map (\<lambda>line. normalizeSitemapURL ul (TrimSpace (drop (length ''sitemap:'') line)) (Some base))
         (filter (\<lambda>line. line \<noteq> [] \<and> HasPrefix (ToLower line) ''sitemap:'') (map TrimSpace (fst (scanLines body))))))"

section \<open>XML\<close>

text \<open>What the decoder gives: a start element, or a \<open>loc\<close> with what decoding it gives; at the end an error
  unless it is the end of the input.\<close>

datatype xmlItem = XStart string | XLoc string "string + string"

primrec xmlName :: "xmlItem \<Rightarrow> string" where
  "xmlName (XStart name) = name"
| "xmlName (XLoc name _) = name"

fun sitemapLocs :: "xmlItem list \<Rightarrow> string option \<Rightarrow> string + string list" where
  "sitemapLocs [] err = (case err of None \<Rightarrow> Inr [] | Some e \<Rightarrow> Inl e)"
| "sitemapLocs (XStart _ # rest) err = sitemapLocs rest err"
| "sitemapLocs (XLoc _ (Inl e) # rest) err = Inl e"
| "sitemapLocs (XLoc _ (Inr v) # rest) err =
     map_sum (\<lambda>e. e) (\<lambda>locs. if TrimSpace v = [] then locs else TrimSpace v # locs) (sitemapLocs rest err)"

definition parseSitemapXML :: "(string \<Rightarrow> xmlItem list \<times> string option) \<Rightarrow> string \<Rightarrow> string + (string \<times> string list)" where
  "parseSitemapXML decode body =
     (let (items, err) = decode body;
          names = filter (\<lambda>n. n \<noteq> []) (map (\<lambda>i. ToLower (TrimSpace (xmlName i))) items);
          r = (case names of [] \<Rightarrow> [] | n # _ \<Rightarrow> n)
      in case sitemapLocs items err of
           Inl e \<Rightarrow> Inl e
         | Inr locs \<Rightarrow>
             if r = ''sitemapindex'' \<or> r = ''urlset'' then Inr (r, locs)
             else if r = [] then Inl ''empty sitemap document''
             else Inl (''unsupported sitemap root '' @ Quote r))"

section \<open>The collector\<close>

record sitemapRootCandidate =
  sc_documents :: "string list"
  sc_samples :: "string list"
  sc_sampleSet :: "string list"

definition newSitemapRootCandidate :: sitemapRootCandidate where
  "newSitemapRootCandidate = \<lparr>sc_documents = [], sc_samples = [], sc_sampleSet = []\<rparr>"

definition addDocument :: "string \<Rightarrow> sitemapRootCandidate \<Rightarrow> sitemapRootCandidate" where
  "addDocument raw c =
     (let d = TrimSpace raw in if d = [] \<or> d \<in> set (sc_documents c) then c else c\<lparr>sc_documents := sc_documents c @ [d]\<rparr>)"

definition addSample :: "string \<Rightarrow> int \<Rightarrow> sitemapRootCandidate \<Rightarrow> sitemapRootCandidate" where
  "addSample raw limit c =
     (let v = TrimSpace raw
      in if v = [] \<or> v \<in> set (sc_sampleSet c) then c
         else (let c1 = c\<lparr>sc_sampleSet := sc_sampleSet c @ [v]\<rparr>
               in if int (length (sc_samples c1)) \<ge> limit then c1 else c1\<lparr>sc_samples := sc_samples c1 @ [v]\<rparr>))"

text \<open>\<open>sm_fetch\<close> is what a request gives below \<open>fetchURL\<close>: an error, or the final URL, the status and what
  reading the body gives.\<close>

record sitemapCollector =
  sm_urls :: urlLibrary
  sm_fetch :: "string \<Rightarrow> string + (goURL \<times> int \<times> (string + string))"
  sm_decode :: "string \<Rightarrow> xmlItem list \<times> string option"
  sm_judge :: "ownershipJudge option"
  sm_maxDocs :: int
  sm_maxURLs :: int
  sm_maxJudgeCandidates :: int
  sm_maxSamples :: int

definition NewSitemapCollector ::
  "urlLibrary \<Rightarrow> (string \<Rightarrow> string + (goURL \<times> int \<times> (string + string))) \<Rightarrow> (string \<Rightarrow> xmlItem list \<times> string option)
     \<Rightarrow> ownershipJudge option \<Rightarrow> sitemapCollector" where
  "NewSitemapCollector ul client decode judge =
     \<lparr>sm_urls = ul, sm_fetch = client, sm_decode = decode, sm_judge = judge, sm_maxDocs = 10, sm_maxURLs = 500,
      sm_maxJudgeCandidates = 25, sm_maxSamples = 3\<rparr>"

datatype targetKind = Robots | SitemapDoc

definition sitemapTargets :: "string \<Rightarrow> (string \<times> targetKind) list" where
  "sitemapTargets domain0 =
     (let domain = NormalizeDomainIdentifier domain0
      in [(''https://'' @ domain @ ''/robots.txt'', Robots), (''http://'' @ domain @ ''/robots.txt'', Robots),
          (''https://'' @ domain @ ''/sitemap.xml'', SitemapDoc), (''http://'' @ domain @ ''/sitemap.xml'', SitemapDoc)])"

definition fetchURL :: "sitemapCollector \<Rightarrow> string \<Rightarrow> string + (string \<times> goURL)" where
  "fetchURL c rawURL =
     (case sm_fetch c rawURL of
        Inl e \<Rightarrow> Inl (''fetch '' @ rawURL @ '': '' @ e)
      | Inr (final, status, body) \<Rightarrow>
          (if status < 200 \<or> status \<ge> 300 then Inl (''fetch '' @ rawURL @ '': unexpected status '' @ show_int status)
           else case body of
                  Inl e \<Rightarrow> Inl (''read '' @ rawURL @ '': '' @ e)
                | Inr b \<Rightarrow> Inr (take (1024 * 1024) b, final)))"

section \<open>Reading the sitemaps of a seed\<close>

text \<open>\<open>queuedDocSet\<close> holds the documents of the queue, which are different.\<close>

record sitemapWork =
  sw_hosts :: "string list"
  sw_candidates :: "(string \<times> sitemapRootCandidate) list"
  sw_queue :: "string list"
  sw_seenDocs :: "string list"
  sw_seenPages :: "string list"
  sw_errors :: "string list"

definition enqueueSitemapDoc :: "sitemapCollector \<Rightarrow> goURL option \<Rightarrow> string \<Rightarrow> sitemapWork \<Rightarrow> sitemapWork" where
  "enqueueSitemapDoc c base raw w =
     (let doc = normalizeSitemapURL (sm_urls c) raw base
      in if doc = [] \<or> doc \<in> set (sw_seenDocs w) \<or> doc \<in> set (sw_queue w)
            \<or> int (length (sw_seenDocs w) + length (sw_queue w)) \<ge> sm_maxDocs c then w
         else w\<lparr>sw_queue := sw_queue w @ [doc]\<rparr>)"

definition noteRoot :: "sitemapCollector \<Rightarrow> string \<Rightarrow> string \<Rightarrow> string \<Rightarrow> sitemapWork \<Rightarrow> sitemapWork" where
  "noteRoot c r document url w =
     (case map_of (sw_candidates w) r of
        None \<Rightarrow>
          (if int (length (sw_candidates w)) \<ge> sm_maxJudgeCandidates c then w
           else w\<lparr>sw_candidates := sw_candidates w @
                  [(r, addSample url (sm_maxSamples c) (addDocument document newSitemapRootCandidate))]\<rparr>)
      | Some x \<Rightarrow> w\<lparr>sw_candidates := AList.update r (addSample url (sm_maxSamples c) (addDocument document x)) (sw_candidates w)\<rparr>)"

definition addObservedURL ::
  "netLibrary \<Rightarrow> sitemapCollector \<Rightarrow> string set \<Rightarrow> string \<Rightarrow> string \<Rightarrow> sitemapWork \<Rightarrow> sitemapWork" where
  "addObservedURL net c scope document raw w =
     (let url = normalizeSitemapURL (sm_urls c) raw None
      in if url = [] \<or> url \<in> set (sw_seenPages w) \<or> int (length (sw_seenPages w)) \<ge> sm_maxURLs c then w
         else (let w1 = w\<lparr>sw_seenPages := sw_seenPages w @ [url]\<rparr>;
                   host = sitemapURLHost net (sm_urls c) url; r = RegistrableDomain net host
               in if host = [] \<or> r = [] then w1
                  else if r \<in> scope then w1\<lparr>sw_hosts := List.insert host (sw_hosts w1)\<rparr>
                  else if sm_judge c = None then w1
                  else noteRoot c r document url w1))"

definition sitemapErrors :: "string list \<Rightarrow> sitemapWork \<Rightarrow> sitemapWork" where
  "sitemapErrors es w = w\<lparr>sw_errors := sw_errors w @ es\<rparr>"

definition startTarget :: "sitemapCollector \<Rightarrow> string \<times> targetKind \<Rightarrow> sitemapWork \<Rightarrow> sitemapWork" where
  "startTarget c target w =
     (case target of
        (url, Robots) \<Rightarrow>
          (case fetchURL c url of
             Inl e \<Rightarrow> sitemapErrors [e] w
           | Inr (body, final) \<Rightarrow>
               fold (enqueueSitemapDoc c (Some final)) (parseRobotsSitemapURLs (sm_urls c) body final) w)
      | (url, SitemapDoc) \<Rightarrow> enqueueSitemapDoc c None url w)"

definition readDocument ::
  "netLibrary \<Rightarrow> sitemapCollector \<Rightarrow> string set \<Rightarrow> string \<Rightarrow> goURL \<Rightarrow> string \<Rightarrow> sitemapWork \<Rightarrow> sitemapWork" where
  "readDocument net c scope document final body w0 =
     (let w = w0\<lparr>sw_seenDocs := sw_seenDocs w0 @ [document]\<rparr>
      in case parseSitemapXML (sm_decode c) body of
           Inl e \<Rightarrow> sitemapErrors [''parse sitemap '' @ document @ '': '' @ e] w
         | Inr (kind, locs) \<Rightarrow>
             if kind = ''sitemapindex'' then fold (enqueueSitemapDoc c (Some final)) locs w
             else fold (\<lambda>loc. addObservedURL net c scope document (normalizeSitemapURL (sm_urls c) loc (Some final))) locs w)"

lemma enqueue_seenDocs [simp]: "sw_seenDocs (enqueueSitemapDoc c base raw w) = sw_seenDocs w"
  by (simp add: enqueueSitemapDoc_def Let_def)

lemma enqueues_seenDocs [simp]: "sw_seenDocs (fold (enqueueSitemapDoc c base) raws w) = sw_seenDocs w"
  by (induction raws arbitrary: w) simp_all

lemma observed_docs [simp]:
  "sw_seenDocs (addObservedURL net c scope d raw w) = sw_seenDocs w" "sw_queue (addObservedURL net c scope d raw w) = sw_queue w"
  by (simp_all add: addObservedURL_def noteRoot_def Let_def split: option.split)

lemma observeds_docs [simp]:
  "sw_seenDocs (fold (\<lambda>loc. addObservedURL net c scope d (g loc)) locs w) = sw_seenDocs w"
  "sw_queue (fold (\<lambda>loc. addObservedURL net c scope d (g loc)) locs w) = sw_queue w"
  by (induction locs arbitrary: w) simp_all

lemma readDocument_seenDocs [simp]: "sw_seenDocs (readDocument net c scope d final body w) = sw_seenDocs w @ [d]"
  by (simp add: readDocument_def sitemapErrors_def Let_def split: sum.split prod.split)

text \<open>The loop over the queue. A document that cannot be fetched, or was seen under its final URL, shortens
  the queue; any other uses up one of the documents a seed may have.\<close>

function readSitemaps :: "netLibrary \<Rightarrow> sitemapCollector \<Rightarrow> string set \<Rightarrow> sitemapWork \<Rightarrow> sitemapWork" where
  "readSitemaps net c scope w =
     (case sw_queue w of
        [] \<Rightarrow> w
      | doc # queue \<Rightarrow>
          (if int (length (sw_seenDocs w)) \<ge> sm_maxDocs c then w
           else (let w1 = w\<lparr>sw_queue := queue\<rparr>
                 in case fetchURL c doc of
                      Inl e \<Rightarrow> readSitemaps net c scope (sitemapErrors [e] w1)
                    | Inr (body, final) \<Rightarrow>
                        (let final_doc = normalizeSitemapURL (sm_urls c) (ul_String (sm_urls c) final) None;
                             document = (if final_doc = [] then doc else final_doc)
                         in if document \<in> set (sw_seenDocs w1) then readSitemaps net c scope w1
                            else readSitemaps net c scope (readDocument net c scope document final body w1)))))"
  by pat_completeness auto
termination
  by (relation "inv_image (less_than <*lex*> less_than)
       (\<lambda>(_, c, _, w). (nat (sm_maxDocs c - int (length (sw_seenDocs w))), length (sw_queue w)))")
    (auto simp: sitemapErrors_def)

declare readSitemaps.simps [simp del]

definition scopeRoots :: "netLibrary \<Rightarrow> seed \<Rightarrow> string set" where
  "scopeRoots net s = knownRoots net (seed_Domains s)"

definition crawlSitemaps :: "netLibrary \<Rightarrow> sitemapCollector \<Rightarrow> seed \<Rightarrow> sitemapWork" where
  "crawlSitemaps net c s =
     readSitemaps net c (scopeRoots net s)
       (fold (startTarget c) (concat (map sitemapTargets (seed_Domains s)))
         \<lparr>sw_hosts = [], sw_candidates = [], sw_queue = [], sw_seenDocs = [], sw_seenPages = [], sw_errors = []\<rparr>)"

section \<open>The stage\<close>

definition sitemapEvidence :: "sitemapRootCandidate \<Rightarrow> ownershipEvidenceItem list" where
  "sitemapEvidence x =
     (if sc_documents x = [] then []
      else [\<lparr>item_Kind = ''sitemap_document'',
             item_Summary = ''Referenced in sitemap document(s): '' @ Join (sc_documents x) '', ''\<rparr>])
   @ (if sc_samples x = [] then []
      else [\<lparr>item_Kind = ''sitemap_page_samples'',
             item_Summary = ''Sample sitemap URLs under this root: '' @ Join (sc_samples x) '', ''\<rparr>])"

definition sitemapQuestion :: "sitemapWork \<Rightarrow> ownershipCandidate list" where
  "sitemapQuestion sw =
     concat (map (\<lambda>r. case map_of (sw_candidates sw) r of
         None \<Rightarrow> []
       | Some x \<Rightarrow> if sitemapEvidence x = [] then [] else [\<lparr>oc_Root = r, oc_Evidence = sitemapEvidence x\<rparr>])
       (sort (map fst (sw_candidates sw))))"

definition sitemapSeed :: "netLibrary \<Rightarrow> seed \<Rightarrow> judgeDecision \<Rightarrow> string \<Rightarrow> seed" where
  "sitemapSeed net s d r =
     (let x = BuildDiscoveredSeed net s r ''sitemap-pivot''
      in x\<lparr>seed_Evidence := seed_Evidence x @
             [\<lparr>ev_Source = ''sitemap_collector'', ev_Kind = ''sitemap_root_reference'', ev_Value = r,
               ev_Confidence = jd_Confidence d, ev_Reasoned = False\<rparr>]\<rparr>)"

definition sitemapTurn :: "netLibrary \<Rightarrow> sitemapCollector \<Rightarrow> 'b promotionHandler \<Rightarrow> 'b pivotTurn" where
  "sitemapTurn net c h s k w0 =
     (let (enumID, w1) = pivotEnumeration ''enum-sitemap'' s w0
      in if scopeRoots net s = {} then k w1
         else (let sw = crawlSitemaps net c s;
                   w = fold (pivotAsset ''dom-sitemap'' ''sitemap_collector'' enumID noDomainDetails [])
                         (sort (sw_hosts sw)) (pivotErrors (sw_errors sw) w1)
               in judgePivots net h (sm_judge c) ''sitemap_collector''
                    \<lparr>or_Scenario = ''sitemap host pivot'', or_Seed = s, or_Candidates = sitemapQuestion sw\<rparr>
                    (\<lambda>d p. let r = RegistrableDomain net (jd_Root d)
                           in if collects d p \<and> r \<noteq> []
                              then Some (sitemapSeed net s d r, (judgedEvidence d)\<lparr>ev_Value := r\<rparr>) else None)
                    (\<lambda>d. pivotAsset ''dom-sitemap'' ''sitemap_collector'' enumID noDomainDetails []
                           (RegistrableDomain net (jd_Root d)))
                    k w))"

definition SitemapCollector ::
  "netLibrary \<Rightarrow> sitemapCollector \<Rightarrow> 'b promotionHandler \<Rightarrow> ('b engineState \<Rightarrow> environment) \<Rightarrow> 'b engineNode" where
  "SitemapCollector net c h env =
     \<lparr>node_Name = ''SitemapCollector'', node_Process = judgedProcess (sitemapTurn net c h) env\<rparr>"

end
