(* ===== verification/Web_Hint_Collector.thy ===== *)
theory Web_Hint_Collector
  imports Web_Links
begin

text \<open>
  \<open>internal/collect/web_hint_collector.go\<close>: reads the home page and the \<open>security.txt\<close> of a seed's sites,
  gathers the other roots they point to, and puts them to the web hint judge. It tells in events what it
  did; each of them is a step on the context, as are the recording of an evaluation and every promotion.
\<close>

section \<open>Targets and candidates\<close>

datatype hintKind = Homepage | SecurityTXT

primrec kindName :: "hintKind \<Rightarrow> string" where
  "kindName Homepage = ''homepage''"
| "kindName SecurityTXT = ''securitytxt''"

definition webHintTargets :: "string \<Rightarrow> (string \<times> hintKind) list" where
  "webHintTargets domain0 =
     (let domain = NormalizeDomainIdentifier domain0
      in [(''https://'' @ domain @ ''/'', Homepage), (''http://'' @ domain @ ''/'', Homepage),
          (''https://'' @ domain @ ''/.well-known/security.txt'', SecurityTXT),
          (''http://'' @ domain @ ''/.well-known/security.txt'', SecurityTXT)])"

type_synonym webHintJudge = "seed \<Rightarrow> string \<Rightarrow> webHintCandidate list \<Rightarrow> string + judgeDecision list"

record webHintCollector =
  wc_net :: netLibrary
  wc_urls :: urlLibrary
  wc_fetch :: "string \<Rightarrow> string + (goURL \<times> int \<times> (string + string))"
  wc_html :: "string \<Rightarrow> string + htmlNode"
  wc_judge :: "webHintJudge option"
  wc_mapOrder :: "string list \<Rightarrow> string list"
  wc_showThreshold :: "float64 \<Rightarrow> string"   \<comment> \<open>\<open>%.2f\<close>\<close>
  wc_showFloat :: "float64 \<Rightarrow> string"       \<comment> \<open>in JSON\<close>

record hintStats =
  hs_targetCount :: nat
  hs_successfulFetchCount :: nat
  hs_skippedStatusCount :: nat
  hs_fetchErrorCount :: nat
  hs_readErrorCount :: nat
  hs_parseErrorCount :: nat

definition errorCount :: "hintStats \<Rightarrow> nat" where
  "errorCount s = hs_fetchErrorCount s + hs_readErrorCount s + hs_parseErrorCount s"

text \<open>\<open>candidateByRoot\<close> and \<open>seenSamples\<close> have the same keys and are kept together.\<close>

type_synonym hintRoots = "(string \<times> webHintCandidate \<times> string list) list"

record hintWork =
  hw_judgeBaseDomain :: string
  hw_roots :: hintRoots
  hw_stats :: hintStats

definition addSampleOf :: "string \<Rightarrow> string \<Rightarrow> webHintCandidate \<times> string list \<Rightarrow> webHintCandidate \<times> string list" where
  "addSampleOf raw text entry =
     (let (c, seen) = entry; sampleKey = ToLower (TrimSpace raw) @ ''|'' @ ToLower (TrimSpace text)
      in if sampleKey \<in> set seen then (c, seen)
         else if length (wh_Samples c) \<ge> 3 then (c, sampleKey # seen)
         else (c\<lparr>wh_Samples := wh_Samples c @ [\<lparr>ls_Href = raw, ls_Text = text\<rparr>]\<rparr>, sampleKey # seen))"

definition collectWebHintCandidates :: "netLibrary \<Rightarrow> string set \<Rightarrow> string \<Rightarrow> string \<Rightarrow> hintRoots \<Rightarrow> hintRoots" where
  "collectWebHintCandidates net known raw text m0 =
     fold (\<lambda>candidate m. let r = RegistrableDomain net candidate
             in if r = [] \<or> r \<in> known then m
                else AList.update r (addSampleOf raw text
                       (case map_of m r of None \<Rightarrow> (\<lparr>wh_Root = r, wh_Samples = []\<rparr>, []) | Some entry \<Rightarrow> entry)) m)
       (ExtractDomainCandidates net raw) m0"

section \<open>Pages\<close>

text \<open>The calls of \<open>addCandidate\<close> for a node, and for a page in the order of the walk.\<close>

definition nodeHints :: "htmlNode \<Rightarrow> (string \<times> string) list" where
  "nodeHints node =
     (case node of
        ElementNode tag attrs _ \<Rightarrow>
          (if tag = ''link''
           then (if Contains (attr attrs ''rel'') ''canonical'' then [(attr attrs ''href'', ''canonical'')] else [])
              @ (if Contains (attr attrs ''rel'') ''alternate'' \<and> attr attrs ''hreflang'' \<noteq> []
                 then [(attr attrs ''href'', ''alternate'')] else [])
           else if tag = ''meta''
           then (if ToLower (attr attrs ''property'') = ''og:url'' \<or> ToLower (attr attrs ''name'') = ''og:url''
                 then [(attr attrs ''content'', ''canonical'')] else [])
           else if tag = ''a''
           then (if attr attrs ''href'' = [] then [] else [(attr attrs ''href'', TrimSpace (nodeText node))])
           else [])
      | _ \<Rightarrow> [])"

fun pageHints :: "htmlNode \<Rightarrow> (string \<times> string) list" where
  "pageHints (ElementNode tag attrs ns) = nodeHints (ElementNode tag attrs ns) @ concat (map pageHints ns)"
| "pageHints (TextNode text) = []"
| "pageHints (OtherNode ns) = concat (map pageHints ns)"

definition extractHTMLCandidates :: "(string \<Rightarrow> string + htmlNode) \<Rightarrow> string \<Rightarrow> (string \<times> string) list \<times> string option" where
  "extractHTMLCandidates parse body =
     (if body = [] then ([], None)
      else case parse body of Inl e \<Rightarrow> ([], Some e) | Inr doc \<Rightarrow> (pageHints doc, None))"

definition securityHints :: "string \<Rightarrow> (string \<times> string) list" where
  "securityHints line0 =
     (let line = TrimSpace line0
      in if line = [] \<or> HasPrefix line ''#'' \<or> CHR '':'' \<notin> set line then []
         else (let key = ToLower (TrimSpace (takeWhile (\<lambda>c. c \<noteq> CHR '':'') line));
                   value = TrimSpace (tl (dropWhile (\<lambda>c. c \<noteq> CHR '':'') line))
               in if key \<in> {''canonical'', ''contact'', ''policy'', ''hiring''} then [(value, ''securitytxt'')] else []))"

definition extractSecurityTXTCandidates :: "string \<Rightarrow> (string \<times> string) list \<times> string option" where
  "extractSecurityTXTCandidates body =
     (let (ls, tooLong) = scanLines body
      in (concat (map securityHints ls), if tooLong then Some ''bufio.Scanner: token too long'' else None))"

section \<open>Events\<close>

definition webHintSeedLabel :: "seed \<Rightarrow> string" where
  "webHintSeedLabel s =
     (if TrimSpace (seed_CompanyName s) \<noteq> [] then TrimSpace (seed_CompanyName s)
      else case firstDomain (seed_Domains s) of Some d \<Rightarrow> d | None \<Rightarrow> TrimSpace (seed_ID s))"

definition webHintEvent :: "seed \<Rightarrow> string \<Rightarrow> string \<Rightarrow> string \<Rightarrow> (string \<times> enrichmentValue) list \<Rightarrow> executionEvent" where
  "webHintEvent s baseDomain kind message extra =
     \<lparr>event_Kind = kind, event_Message = message,
      event_Metadata =
        [(''collector'', EVString ''web_hint_collector''), (''seed_id'', EVString (TrimSpace (seed_ID s))),
         (''seed_label'', EVString (webHintSeedLabel s))]
      @ (if NormalizeDomainIdentifier baseDomain \<noteq> []
         then [(''base_domain'', EVString (NormalizeDomainIdentifier baseDomain))] else [])
      @ extra\<rparr>"

definition emitting :: "executionEvent option \<Rightarrow> 'b engineState thread \<Rightarrow> 'b engineState thread" where
  "emitting event t = (case event of None \<Rightarrow> t | Some e \<Rightarrow> Step (onContext (EmitExecutionEvent e)) (\<lambda>_. t))"

section \<open>Reading a target\<close>

definition targetMetadata :: "string \<times> hintKind \<Rightarrow> (string \<times> enrichmentValue) list" where
  "targetMetadata target = [(''target_kind'', EVString (kindName (snd target))), (''target_url'', EVString (fst target))]"

definition addHints :: "netLibrary \<Rightarrow> string set \<Rightarrow> (string \<times> string) list \<Rightarrow> hintWork \<Rightarrow> hintWork" where
  "addHints net known hints hw =
     hw\<lparr>hw_roots := fold (\<lambda>(raw, text). collectWebHintCandidates net known raw text) hints (hw_roots hw)\<rparr>"

definition redirectHint :: "webHintCollector \<Rightarrow> string \<Rightarrow> hintKind \<Rightarrow> goURL \<Rightarrow> (string \<times> string) list" where
  "redirectHint c baseDomain kind final =
     (let finalRoot = RegistrableDomain (wc_net c) (ul_Hostname (wc_urls c) final)
      in if kind = Homepage \<and> finalRoot \<noteq> [] \<and> finalRoot \<noteq> RegistrableDomain (wc_net c) baseDomain
         then [(ul_String (wc_urls c) final, ''redirect'')] else [])"

definition parseTarget :: "webHintCollector \<Rightarrow> hintKind \<Rightarrow> string \<Rightarrow> (string \<times> string) list \<times> string option" where
  "parseTarget c kind body =
     (case kind of Homepage \<Rightarrow> extractHTMLCandidates (wc_html c) body | SecurityTXT \<Rightarrow> extractSecurityTXTCandidates body)"

primrec parsedName :: "hintKind \<Rightarrow> string" where
  "parsedName Homepage = ''homepage''"
| "parsedName SecurityTXT = ''security.txt''"

text \<open>What a target adds, the errors kept, and the event it is worth, if any.\<close>

definition readTarget ::
  "webHintCollector \<Rightarrow> seed \<Rightarrow> string set \<Rightarrow> string \<Rightarrow> string \<times> hintKind \<Rightarrow> hintWork
     \<Rightarrow> hintWork \<times> string list \<times> executionEvent option" where
  "readTarget c s known baseDomain target hw0 =
     (let (url, kind) = target; label = webHintSeedLabel s;
          event = (\<lambda>k m extra. Some (webHintEvent s (hw_judgeBaseDomain hw0) k m (extra @ targetMetadata target)));
          hw = hw0\<lparr>hw_stats := (hw_stats hw0)\<lparr>hs_targetCount := hs_targetCount (hw_stats hw0) + 1\<rparr>\<rparr>
      in case wc_fetch c url of
           Inl e \<Rightarrow>
             (hw\<lparr>hw_stats := (hw_stats hw)\<lparr>hs_fetchErrorCount := hs_fetchErrorCount (hw_stats hw) + 1\<rparr>\<rparr>, [],
              event ''web_hint_fetch_failed''
                (''Web hint collector failed to fetch '' @ kindName kind @ '' for '' @ label @ ''.'') [(''error'', EVString e)])
         | Inr (final, status, read) \<Rightarrow>
             (if status \<ge> 400
              then (hw\<lparr>hw_stats := (hw_stats hw)\<lparr>hs_skippedStatusCount := hs_skippedStatusCount (hw_stats hw) + 1\<rparr>\<rparr>, [],
                    event ''web_hint_target_skipped''
                      (''Web hint collector skipped '' @ kindName kind @ '' for '' @ label @ '' due to HTTP '' @ show_int status @ ''.'')
                      [(''status_code'', EVInt status)])
              else (let hw1 = addHints (wc_net c) known (redirectHint c baseDomain kind final)
                          (hw\<lparr>hw_stats := (hw_stats hw)\<lparr>hs_successfulFetchCount := hs_successfulFetchCount (hw_stats hw) + 1\<rparr>\<rparr>)
                    in case read of
                         Inl e \<Rightarrow>
                           (hw1\<lparr>hw_stats := (hw_stats hw1)\<lparr>hs_readErrorCount := hs_readErrorCount (hw_stats hw1) + 1\<rparr>\<rparr>, [e],
                            event ''web_hint_read_failed''
                              (''Web hint collector failed to read '' @ kindName kind @ '' for '' @ label @ ''.'') [(''error'', EVString e)])
                       | Inr bytes \<Rightarrow>
                           (let (hints, err) = parseTarget c kind (take (1024 * 1024) bytes);
                                hw2 = addHints (wc_net c) known hints hw1
                            in case err of
                                 None \<Rightarrow> (hw2, [], None)
                               | Some e \<Rightarrow>
                                   (hw2\<lparr>hw_stats := (hw_stats hw2)\<lparr>hs_parseErrorCount := hs_parseErrorCount (hw_stats hw2) + 1\<rparr>\<rparr>, [e],
                                    event ''web_hint_parse_failed''
                                      (''Web hint collector failed to parse '' @ parsedName kind @ '' hints for '' @ label @ ''.'')
                                      [(''error'', EVString e)])))))"

text \<open>The targets of all domains in turn, each with its domain. The base of the judge is the first domain
  that is not empty.\<close>

primrec readTargets ::
  "webHintCollector \<Rightarrow> seed \<Rightarrow> string set \<Rightarrow> (string \<times> string \<times> hintKind) list
     \<Rightarrow> (hintWork \<Rightarrow> pivotWork \<Rightarrow> 'b engineState thread) \<Rightarrow> hintWork \<Rightarrow> pivotWork \<Rightarrow> 'b engineState thread" where
  "readTargets c s known [] k hw w = k hw w"
| "readTargets c s known (t # ts) k hw w =
     (let (baseDomain, target) = t;
          (hw', errs, event) = readTarget c s known baseDomain target
            (if hw_judgeBaseDomain hw = [] then hw\<lparr>hw_judgeBaseDomain := baseDomain\<rparr> else hw)
      in emitting event (readTargets c s known ts k hw' (pivotErrors errs w)))"

definition seedTargets :: "seed \<Rightarrow> (string \<times> string \<times> hintKind) list" where
  "seedTargets s = concat (map (\<lambda>d. map (\<lambda>t. (d, t)) (webHintTargets d)) (seed_Domains s))"

section \<open>Judging\<close>

definition sortedWebHintCandidateRoots :: "hintRoots \<Rightarrow> string list" where
  "sortedWebHintCandidateRoots m = sort (map fst m)"

definition hintCandidates :: "hintRoots \<Rightarrow> webHintCandidate list" where
  "hintCandidates m = sort_key wh_Root (map (\<lambda>(_, c, _). c) m)"

definition statsMetadata :: "hintStats \<Rightarrow> (string \<times> enrichmentValue) list" where
  "statsMetadata st =
     [(''error_count'', EVInt (int (errorCount st))), (''skipped_status_count'', EVInt (int (hs_skippedStatusCount st))),
      (''successful_fetch_count'', EVInt (int (hs_successfulFetchCount st))), (''target_count'', EVInt (int (hs_targetCount st)))]"

definition discoveredEvent :: "seed \<Rightarrow> hintWork \<Rightarrow> executionEvent" where
  "discoveredEvent s hw =
     (let roots = sortedWebHintCandidateRoots (hw_roots hw); label = webHintSeedLabel s
      in if roots = []
         then webHintEvent s (hw_judgeBaseDomain hw) ''web_hint_no_candidates''
                (''Web hint collector found no cross-root candidates for '' @ label @ ''.'')
                ((''candidate_count'', EVInt 0) # statsMetadata (hw_stats hw))
         else webHintEvent s (hw_judgeBaseDomain hw) ''web_hint_candidates_discovered''
                (''Web hint collector found '' @ show_nat (length roots) @ '' candidate root(s) for '' @ label @ ''.'')
                ((''candidate_count'', EVInt (int (length roots))) # (''candidate_roots'', EVStrings roots)
                  # statsMetadata (hw_stats hw)))"

definition rootsMetadata :: "string list \<Rightarrow> (string \<times> enrichmentValue) list" where
  "rootsMetadata roots = [(''candidate_count'', EVInt (int (length roots))), (''candidate_roots'', EVStrings roots)]"

definition hintEvidence :: "judgeDecision \<Rightarrow> seedEvidence" where
  "hintEvidence d = \<lparr>ev_Source = ''web_hint_collector'', ev_Kind = jd_Kind d, ev_Value = jd_Root d,
     ev_Confidence = jd_Confidence d, ev_Reasoned = True\<rparr>"

type_synonym hintSignals = "(string \<times> seedEvidence list) list"

text \<open>\<open>signalsByRoot\<close>.\<close>

definition addSignal :: "judgeDecision \<Rightarrow> hintSignals \<Rightarrow> hintSignals" where
  "addSignal d m =
     AList.update (jd_Root d) ((case map_of m (jd_Root d) of None \<Rightarrow> [] | Some es \<Rightarrow> es) @ [hintEvidence d]) m"

definition signalsByRoot :: "judgeDecision list \<Rightarrow> hintSignals" where
  "signalsByRoot ds = fold addSignal (filter jd_Collect ds) []"

definition judgeHints ::
  "webHintCollector \<Rightarrow> seed \<Rightarrow> hintWork \<Rightarrow> (hintSignals \<Rightarrow> pivotWork \<Rightarrow> 'b engineState thread)
     \<Rightarrow> pivotWork \<Rightarrow> 'b engineState thread" where
  "judgeHints c s hw k w =
     (let cs = hintCandidates (hw_roots hw); roots = sortedWebHintCandidateRoots (hw_roots hw); base = hw_judgeBaseDomain hw;
          label = webHintSeedLabel s; event = (\<lambda>kind m extra. Some (webHintEvent s base kind m extra))
      in if roots = [] then k [] w
         else case wc_judge c of
           None \<Rightarrow>
             emitting (event ''web_hint_candidates_unjudged''
                 (''Web hint collector found '' @ show_nat (length roots) @ '' candidate root(s) for '' @ label
                    @ '', but the judge is disabled.'') (rootsMetadata roots)) (k [] w)
         | Some j \<Rightarrow>
             (case j s base cs of
                Inl e \<Rightarrow>
                  emitting (event ''web_hint_judge_failed'' (''Web hint judge failed for '' @ label @ ''.'')
                      (rootsMetadata roots @ [(''error'', EVString e)])) (k [] (pivotErrors [e] w))
              | Inr ds \<Rightarrow>
                  (let accepted = int (length (filter jd_Collect ds))
                   in Step (onContext (RecordWebHintJudgeEvaluation (wc_net c) ''web_hint_collector'' s base cs ds))
                        (\<lambda>_. emitting (event ''web_hint_judge_completed''
                              (''Web hint judge evaluated '' @ show_nat (length cs) @ '' candidate root(s) for '' @ label @ ''.'')
                              ((''accepted_count'', EVInt accepted) # rootsMetadata roots
                                @ [(''discarded_count'', EVInt (int (length cs) - accepted))]))
                            (k (signalsByRoot ds) w)))))"

section \<open>Promoting\<close>

record hintOutcome =
  ho_acceptedRoots :: "string list"
  ho_lowConfidenceRoots :: "string list"
  ho_promotedRoots :: "string list"

record rootFlags =
  rf_promoted :: bool
  rf_accepted :: bool
  rf_materialized :: bool

primrec eachEvidence ::
  "'b promotionHandler \<Rightarrow> string \<Rightarrow> seed \<Rightarrow> seedEvidence list \<Rightarrow> (rootFlags \<Rightarrow> hintOutcome \<Rightarrow> 'b engineState thread)
     \<Rightarrow> rootFlags \<Rightarrow> hintOutcome \<Rightarrow> 'b engineState thread" where
  "eachEvidence h r candidate [] k f ho = k f ho"
| "eachEvidence h r candidate (ev # evs) k f ho =
     Step (\<lambda>st. if IsConfidenceAtLeast (ev_Confidence ev) (CandidatePromotionConfidenceThreshold (fst st))
                then snd (PromoteSeedCandidate h candidate ev (fst st) (snd st)) else st)
       (\<lambda>st. if IsConfidenceAtLeast (ev_Confidence ev) (CandidatePromotionConfidenceThreshold (fst st))
             then (let promotion = fst (PromoteSeedCandidate h candidate ev (fst st) (snd st))
                   in eachEvidence h r candidate evs k
                        \<lparr>rf_promoted = rf_promoted f \<or> res_Scheduled promotion, rf_accepted = True,
                         rf_materialized = rf_materialized f \<or> res_Decision promotion = CandidatePromotionAccepted\<rparr> ho)
             else eachEvidence h r candidate evs k f (ho\<lparr>ho_lowConfidenceRoots := ho_lowConfidenceRoots ho @ [r]\<rparr>))"

primrec eachRoot ::
  "netLibrary \<Rightarrow> 'b promotionHandler \<Rightarrow> seed \<Rightarrow> string \<Rightarrow> hintSignals \<Rightarrow> string list
     \<Rightarrow> (hintOutcome \<Rightarrow> pivotWork \<Rightarrow> 'b engineState thread) \<Rightarrow> hintOutcome \<Rightarrow> pivotWork \<Rightarrow> 'b engineState thread" where
  "eachRoot net h s enumID m [] k ho w = k ho w"
| "eachRoot net h s enumID m (r # rs) k ho w =
     eachEvidence h r (BuildDiscoveredSeed net s r ''web-hint-pivot'') (case map_of m r of None \<Rightarrow> [] | Some es \<Rightarrow> es)
       (\<lambda>f ho'.
          if \<not> rf_accepted f then eachRoot net h s enumID m rs k ho' w
          else eachRoot net h s enumID m rs k
                 (ho'\<lparr>ho_acceptedRoots := ho_acceptedRoots ho' @ [r],
                      ho_promotedRoots := ho_promotedRoots ho' @ (if rf_promoted f then [r] else [])\<rparr>)
                 (if rf_materialized f then pivotAsset ''dom-web-hint'' ''web_hint_collector'' enumID noDomainDetails [] r w else w))
       \<lparr>rf_promoted = False, rf_accepted = False, rf_materialized = False\<rparr> ho"

section \<open>The stage\<close>

definition outcomeEvent :: "webHintCollector \<Rightarrow> seed \<Rightarrow> hintWork \<Rightarrow> hintOutcome \<Rightarrow> executionEvent option" where
  "outcomeEvent c s hw ho =
     (let roots = sortedWebHintCandidateRoots (hw_roots hw); accepted = sort (ho_acceptedRoots ho);
          promoted = sort (ho_promotedRoots ho); label = webHintSeedLabel s
      in if roots \<noteq> [] \<and> accepted = [] \<and> wc_judge c \<noteq> None
         then Some (webHintEvent s (hw_judgeBaseDomain hw) ''web_hint_no_accepted_candidates''
                (''Web hint collector accepted no candidate roots for '' @ label @ ''.'') (rootsMetadata roots))
         else if accepted \<noteq> []
         then Some (webHintEvent s (hw_judgeBaseDomain hw) ''web_hint_candidates_accepted''
                (''Web hint collector accepted '' @ show_nat (length accepted) @ '' candidate root(s) for '' @ label @ ''.'')
                [(''accepted_count'', EVInt (int (length accepted))), (''accepted_roots'', EVStrings accepted),
                 (''promoted_count'', EVInt (int (length promoted))), (''promoted_roots'', EVStrings promoted)])
         else None)"

definition lowConfidenceEvent :: "webHintCollector \<Rightarrow> seed \<Rightarrow> hintWork \<Rightarrow> string list \<Rightarrow> float64 \<Rightarrow> executionEvent" where
  "lowConfidenceEvent c s hw low threshold =
     webHintEvent s (hw_judgeBaseDomain hw) ''web_hint_low_confidence_skipped''
       (''Web hint collector skipped '' @ show_nat (length low) @ '' accepted candidate root(s) for '' @ webHintSeedLabel s
          @ '' due to confidence threshold '' @ wc_showThreshold c threshold @ ''.'')
       [(''confidence_threshold'', EVJSON (wc_showFloat c threshold)), (''skipped_roots'', EVStrings low)]"

definition lowConfidence ::
  "webHintCollector \<Rightarrow> seed \<Rightarrow> hintWork \<Rightarrow> hintOutcome \<Rightarrow> 'b engineState thread \<Rightarrow> 'b engineState thread" where
  "lowConfidence c s hw ho t =
     (let low = sort (ho_lowConfidenceRoots ho)
      in if low = [] then t
         else Step (onContext (\<lambda>p. EmitExecutionEvent
                      (lowConfidenceEvent c s hw low (CandidatePromotionConfidenceThreshold p)) p)) (\<lambda>_. t))"

definition noHints :: hintWork where
  "noHints = \<lparr>hw_judgeBaseDomain = [], hw_roots = [],
     hw_stats = \<lparr>hs_targetCount = 0, hs_successfulFetchCount = 0, hs_skippedStatusCount = 0, hs_fetchErrorCount = 0,
                 hs_readErrorCount = 0, hs_parseErrorCount = 0\<rparr>\<rparr>"

definition webHintTurn :: "webHintCollector \<Rightarrow> 'b promotionHandler \<Rightarrow> 'b pivotTurn" where
  "webHintTurn c h s k w0 =
     (let (enumID, w1) = pivotEnumeration ''enum-web-hint'' s w0
      in readTargets c s (knownRoots (wc_net c) (seed_Domains s)) (seedTargets s)
           (\<lambda>hw w2. emitting (Some (discoveredEvent s hw))
              (judgeHints c s hw
                 (\<lambda>m w3. eachRoot (wc_net c) h s enumID m (wc_mapOrder c (map fst m))
                    (\<lambda>ho w4. emitting (outcomeEvent c s hw ho) (lowConfidence c s hw ho (k w4)))
                    \<lparr>ho_acceptedRoots = [], ho_lowConfidenceRoots = [], ho_promotedRoots = []\<rparr> w3)
                 w2))
           noHints w1)"

definition judgeDisabledEvent :: executionEvent where
  "judgeDisabledEvent =
     \<lparr>event_Kind = ''judge_disabled'',
      event_Message = ''Web hint judge is disabled; external ownership hints will be observed but not promoted.'',
      event_Metadata = [(''collector'', EVString ''web_hint_collector''), (''judge'', EVString ''web_hint'')]\<rparr>"

definition WebHintCollector ::
  "webHintCollector \<Rightarrow> 'b promotionHandler \<Rightarrow> ('b engineState \<Rightarrow> environment) \<Rightarrow> 'b engineNode" where
  "WebHintCollector c h env =
     \<lparr>node_Name = ''WebHintCollector'',
      node_Process = emitting (if wc_judge c = None then Some judgeDisabledEvent else None)
        (judgedProcess (webHintTurn c h) env)\<rparr>"

end
