(* ===== verification/Search_Provider.thy ===== *)
theory Search_Provider
  imports LLM_Judge "HOL-Library.Product_Lexorder"
begin

text \<open>
  \<open>internal/search/provider.go\<close>: the web search behind the expander. The request, its answer and the
  normalization that bounds what the expander sees; JSON, HTTP and URL parsing are arguments.
\<close>

section \<open>Data\<close>

record contextSummary =
  cs_SeedLabel :: string
  cs_SeedDomains :: "string list"
  cs_FocusRoot :: string
  cs_Industry :: string
  cs_ASN :: "int list"
  cs_CIDR :: "string list"
  cs_KnownRoots :: "string list"
  cs_AcceptedRoots :: "string list"
  cs_DiscardedRoots :: "string list"
  cs_RegistrationFacts :: "string list"
  cs_ObservedHosts :: "string list"
  cs_ObservedRoots :: "string list"

record searchEvidence =
  se_Title :: string
  se_URL :: string
  se_Snippet :: string

record searchCandidate =
  sd_Root :: string
  sd_Summary :: string
  sd_Evidence :: "searchEvidence list"

record searchResult =
  sr_Queries :: "string list"
  sr_Candidates :: "searchCandidate list"

definition maxCandidates :: nat where "maxCandidates = 10"
definition maxEvidence :: nat where "maxEvidence = 3"
definition maxQueries :: nat where "maxQueries = 5"

section \<open>Configuration\<close>

definition envBool :: "(string \<Rightarrow> string) \<Rightarrow> string \<Rightarrow> bool \<times> bool" where
  "envBool Getenv key =
     (let value = TrimSpace (Getenv key)
      in if value = [] then (False, False)
         else (ToLower value \<in> {''1'', ''true'', ''yes'', ''on''}, True))"

definition NewProviderFromEnv :: "(string \<Rightarrow> string) \<Rightarrow> string + llmConfig option" where
  "NewProviderFromEnv Getenv =
     (let (enabled, configured) = envBool Getenv ''ASSET_DISCOVERY_AI_SEARCH_ENABLED'';
          model0 = TrimSpace (Getenv ''ASSET_DISCOVERY_AI_SEARCH_MODEL'');
          apiKey = firstNonEmptyEnv Getenv [''ASSET_DISCOVERY_AI_SEARCH_API_KEY'', ''OPENAI_API_KEY''];
          baseURL0 = TrimSpace (Getenv ''ASSET_DISCOVERY_AI_SEARCH_BASE_URL'');
          model = (if model0 = [] \<and> (apiKey \<noteq> [] \<or> baseURL0 \<noteq> [] \<or> (configured \<and> enabled)) then defaultLLMModel else model0);
          endpoint = TrimRight (if baseURL0 = [] then defaultLLMBaseURL else baseURL0) CHR ''/'' @ ''/responses''
      in if configured \<and> \<not> enabled \<or> model = [] then Inr None
         else if apiKey = [] \<and> HasPrefix endpoint defaultLLMBaseURL
         then Inl ''AI search is configured but ASSET_DISCOVERY_AI_SEARCH_API_KEY is empty''
         else Inr (Some \<lparr>lj_endpoint = endpoint, lj_model = model, lj_apiKey = apiKey\<rparr>))"

section \<open>The answer\<close>

text \<open>An item of the output: its text and the texts of its contents.\<close>

record responsesAnswer =
  ra_OutputText :: string
  ra_Output :: "(string \<times> string list) list"
  ra_Error :: "string option"

definition extractOutputText :: "responsesAnswer \<Rightarrow> string" where
  "extractOutputText a =
     (if TrimSpace (ra_OutputText a) \<noteq> [] then TrimSpace (ra_OutputText a)
      else Join (filter (\<lambda>t. t \<noteq> []) (map TrimSpace (concat (map (\<lambda>(text, contents). text # contents) (ra_Output a))))) [CHR 0x0A])"

definition parseSearchResult :: "(string \<Rightarrow> string + searchResult) \<Rightarrow> string \<Rightarrow> string + searchResult" where
  "parseSearchResult Unmarshal raw =
     (case jsonObject (stripFences raw) of
        None \<Rightarrow> Inl ''AI search response did not contain a JSON object''
      | Some object \<Rightarrow> Unmarshal object)"

definition normalizeQueries :: "string list \<Rightarrow> string list" where
  "normalizeQueries values = take maxQueries (uniqueBy ToLower {} (filter (\<lambda>v. v \<noteq> []) (map TrimSpace values)))"

text \<open>\<open>urlText\<close> is \<open>url.Parse\<close>: the scheme and the text of a URL that parses.\<close>

definition normalizeEvidence :: "(string \<Rightarrow> (string \<times> string) option) \<Rightarrow> searchEvidence list \<Rightarrow> searchEvidence list" where
  "normalizeEvidence urlText values =
     sort_key (\<lambda>e. (se_URL e, se_Title e)) (take maxEvidence (uniqueBy se_URL {} (concat (map (\<lambda>v.
       (let title = TrimSpace (se_Title v); snippet = TrimSpace (se_Snippet v); raw = TrimSpace (se_URL v)
        in if title = [] \<or> snippet = [] \<or> raw = [] then []
           else case urlText raw of
                  None \<Rightarrow> []
                | Some (scheme, url) \<Rightarrow>
                    if ToLower scheme \<in> {''http'', ''https''} then [\<lparr>se_Title = title, se_URL = url, se_Snippet = snippet\<rparr>]
                    else [])) values))))"

definition normalizeCandidate ::
  "netLibrary \<Rightarrow> (string \<Rightarrow> (string \<times> string) option) \<Rightarrow> searchCandidate \<Rightarrow> searchCandidate list" where
  "normalizeCandidate net urlText c =
     (let r = RegistrableDomain net (sd_Root c); evidence = normalizeEvidence urlText (sd_Evidence c);
          summary = TrimSpace (sd_Summary c)
      in if r = [] \<or> evidence = [] \<or> summary = [] then []
         else [\<lparr>sd_Root = r, sd_Summary = summary, sd_Evidence = evidence\<rparr>])"

definition normalizeSearchResult ::
  "netLibrary \<Rightarrow> (string \<Rightarrow> (string \<times> string) option) \<Rightarrow> searchResult \<Rightarrow> searchResult" where
  "normalizeSearchResult net urlText result =
     \<lparr>sr_Queries = normalizeQueries (sr_Queries result),
      sr_Candidates = take maxCandidates (uniqueBy sd_Root {} (concat (map (normalizeCandidate net urlText) (sr_Candidates result))))\<rparr>"

section \<open>The search\<close>

text \<open>\<open>px_Marshal\<close> encodes the request for a model and an input, with the tool and the schema, which are
  fixed.\<close>

record searchExchange =
  px_MarshalIndent :: "contextSummary \<Rightarrow> string"
  px_Marshal :: "string \<Rightarrow> string \<Rightarrow> string + string"
  px_Do :: "httpCall \<Rightarrow> string + (int \<times> (string + string))"
  px_Answer :: "string \<Rightarrow> string + responsesAnswer"
  px_Result :: "string \<Rightarrow> string + searchResult"
  px_urlText :: "string \<Rightarrow> (string \<times> string) option"

definition buildSearchPrompt :: "string \<Rightarrow> (contextSummary \<Rightarrow> string) \<Rightarrow> contextSummary \<Rightarrow> string" where
  "buildSearchPrompt preamble MarshalIndent summary =
     TrimSpace preamble @ Join [[], [], ''Context:'', MarshalIndent summary] [CHR 0x0A]"

definition searchPromptPreamble :: string where
  "searchPromptPreamble = Join
     [''Use web search to find additional registrable domains that are likely owned or controlled by ''
        @ ''the same organization described in the context.'',
      [],
      ''Be conservative.'',
      [],
      ''Only include roots that likely represent:'',
      ''- another first-party brand, product, business unit, or acquisition'',
      ''- a legal, privacy, contact, investor, careers, support, help, or security property hosted on ''
        @ ''another owned root'',
      ''- a rebrand or migration target clearly associated with the same organization'',
      [],
      ''Exclude vendor, SaaS, social, marketplace, CDN, app-store, messaging, analytics, or generic ''
        @ ''third-party domains.'',
      [],
      ''Search the web before answering. Return strict JSON matching the provided schema. If the ''
        @ ''evidence is weak, return an empty candidates array.''] [CHR 0x0A]"

definition Search :: "netLibrary \<Rightarrow> searchExchange \<Rightarrow> llmConfig \<Rightarrow> contextSummary \<Rightarrow> string + searchResult" where
  "Search net x p summary =
     (case px_Marshal x (lj_model p) (buildSearchPrompt searchPromptPreamble (px_MarshalIndent x) summary) of
        Inl e \<Rightarrow> Inl e
      | Inr body \<Rightarrow>
          (case limitedBody (\<lambda>status text. ''unexpected AI search status '' @ show_int status @ '': '' @ text)
                  (px_Do x \<lparr>hc_URL = lj_endpoint p, hc_Authorization = bearer (lj_apiKey p), hc_Body = body\<rparr>) of
             Inl e \<Rightarrow> Inl e
           | Inr answer \<Rightarrow>
               (case px_Answer x answer of
                  Inl e \<Rightarrow> Inl e
                | Inr a \<Rightarrow>
                    (case ra_Error a of
                       Some m \<Rightarrow> Inl (''AI search error: '' @ m)
                     | None \<Rightarrow>
                         (case parseSearchResult (px_Result x) (extractOutputText a) of
                            Inl e \<Rightarrow> Inl e
                          | Inr result \<Rightarrow> Inr (normalizeSearchResult net (px_urlText x) result))))))"

section \<open>What a search can give\<close>

definition boundedResult :: "netLibrary \<Rightarrow> searchResult \<Rightarrow> bool" where
  "boundedResult net result \<longleftrightarrow>
     length (sr_Queries result) \<le> 5 \<and> length (sr_Candidates result) \<le> 10 \<and> distinct (map sd_Root (sr_Candidates result))
   \<and> (\<forall>c \<in> set (sr_Candidates result). sd_Root c \<noteq> [] \<and> (\<exists>raw. sd_Root c = RegistrableDomain net raw)
        \<and> sd_Summary c \<noteq> [] \<and> sd_Evidence c \<noteq> [] \<and> length (sd_Evidence c) \<le> 3)"

lemma normalizeCandidate_spec:
  "c' \<in> set (normalizeCandidate net urlText c) \<Longrightarrow>
     sd_Root c' \<noteq> [] \<and> (\<exists>raw. sd_Root c' = RegistrableDomain net raw) \<and> sd_Summary c' \<noteq> []
       \<and> sd_Evidence c' \<noteq> [] \<and> length (sd_Evidence c') \<le> 3"
  by (auto simp: normalizeCandidate_def normalizeEvidence_def maxEvidence_def Let_def split: if_splits)

lemma normalizeSearchResult_bounded: "boundedResult net (normalizeSearchResult net urlText result)"
proof -
  have "set (take n (uniqueBy f {} xs)) \<subseteq> set xs" for n f and xs :: "'a list"
    using set_take_subset set_uniqueBy_subset by fast
  then show ?thesis
    using distinct_uniqueBy [of sd_Root "{}"] normalizeCandidate_spec [of _ net urlText]
    by (fastforce simp: boundedResult_def normalizeSearchResult_def normalizeQueries_def maxQueries_def maxCandidates_def
        take_map [symmetric] intro: distinct_take)
qed

lemma Search_bounded: "Search net x p summary = Inr result \<Longrightarrow> boundedResult net result"
  by (auto simp: Search_def normalizeSearchResult_bounded split: sum.splits option.splits)

end
