(* ===== verification/AI_Search_Collector.thy ===== *)
theory AI_Search_Collector
  imports Search_Provider Judged_Pivots
begin

text \<open>
  \<open>internal/expand/ai_search_collector.go\<close>: the expander. Once a wave is enriched it searches the web for each
  root of the seeds that was not searched before, and puts what remains of the answer to the ownership
  judge, in requests of bounded size. Every access to the context is a step of its own.
\<close>

section \<open>Strings\<close>

definition truncateString :: "string \<Rightarrow> nat \<Rightarrow> string" where
  "truncateString value0 limit =
     (let v = TrimSpace value0
      in if limit = 0 \<or> length v \<le> limit then v
         else if limit \<le> 3 then take limit v
         else take (limit - 3) v @ ''...'')"

definition uniqueTrimmed :: "string list \<Rightarrow> string list" where
  "uniqueTrimmed values = uniqueBy (\<lambda>v. v) {} (filter (\<lambda>v. v \<noteq> []) (map TrimSpace values))"

definition appendUniqueString :: "string list \<Rightarrow> string \<Rightarrow> string list" where
  "appendUniqueString values v = (if v \<in> set values then values else values @ [v])"

text \<open>The keys seen are those of the values appended.\<close>

definition appendUniqueLimited :: "nat \<Rightarrow> string \<Rightarrow> string list \<Rightarrow> string list" where
  "appendUniqueLimited limit value0 target =
     (let v = TrimSpace value0
      in if v = [] \<or> (limit > 0 \<and> length target \<ge> limit) \<or> ToLower v \<in> ToLower ` set target then target
         else target @ [v])"

definition aiLimitStrings :: "string list \<Rightarrow> nat \<Rightarrow> string list" where
  "aiLimitStrings values limit = (if limit = 0 \<or> length values \<le> limit then values else take limit values)"

definition unionStringSets :: "string list list \<Rightarrow> string list" where
  "unionStringSets groups =
     sort (uniqueBy (\<lambda>v. v) {} (filter (\<lambda>v. v \<noteq> []) (map (\<lambda>v. TrimSpace (ToLower v)) (concat groups))))"

definition toStringSet :: "string list \<Rightarrow> string set" where
  "toStringSet values = set (filter (\<lambda>v. v \<noteq> []) (map (\<lambda>v. TrimSpace (ToLower v)) values))"

definition differencePreservingOrder :: "string list \<Rightarrow> string list \<Rightarrow> string list" where
  "differencePreservingOrder values excluded =
     uniqueTrimmed (filter (\<lambda>v. ToLower (TrimSpace v) \<notin> toStringSet excluded) values)"

section \<open>What the search is told\<close>

definition uniqueSeedRoots :: "netLibrary \<Rightarrow> seed \<Rightarrow> string list" where
  "uniqueSeedRoots net s =
     sort (uniqueBy (\<lambda>r. r) {} (filter (\<lambda>r. r \<noteq> []) (map (RegistrableDomain net) (seed_Domains s))))"

definition judgeEvaluationMatchesSeed :: "netLibrary \<Rightarrow> seed \<Rightarrow> judgeEvaluation \<Rightarrow> bool" where
  "judgeEvaluationMatchesSeed net s e =
     (if seed_ID s \<noteq> [] \<and> TrimSpace (eval_SeedID e) \<noteq> [] then seed_ID s = TrimSpace (eval_SeedID e)
      else if seed_Domains s \<noteq> [] \<and> eval_SeedDomains e \<noteq> [] then RootsOverlap net (seed_Domains s) (eval_SeedDomains e)
      else EqualFold (seed_CompanyName s) (eval_SeedLabel e))"

text \<open>The roots a judge accepted for the seed, and those it discarded; a root may be in both.\<close>

definition judgedRoots :: "netLibrary \<Rightarrow> seed \<Rightarrow> bool \<Rightarrow> pipelineContext \<Rightarrow> string list" where
  "judgedRoots net s accepted p =
     sort (remdups (filter (\<lambda>r. r \<noteq> []) (map (\<lambda>so. RegistrableDomain net (out_Root so))
       (filter (\<lambda>so. out_Collect so = accepted)
         (concat (map eval_Outcomes (filter (judgeEvaluationMatchesSeed net s) (JudgeEvaluations p))))))))"

definition aiContributorEnumerationIDs :: "asset \<Rightarrow> string list" where
  "aiContributorEnumerationIDs a =
     uniqueTrimmed (filter (\<lambda>i. i \<noteq> []) (asset_EnumerationID a # map prov_EnumerationID (asset_Provenance a)))"

definition enumToSeedID :: "enumeration list \<Rightarrow> string \<Rightarrow> string" where
  "enumToSeedID es i =
     (case map_of (rev (map (\<lambda>e. (enum_ID e, enum_SeedID e)) (filter (\<lambda>e. enum_ID e \<noteq> [] \<and> enum_SeedID e \<noteq> []) es))) i of
        None \<Rightarrow> [] | Some seedID \<Rightarrow> seedID)"

definition assetBelongsToSeed :: "netLibrary \<Rightarrow> asset \<Rightarrow> seed \<Rightarrow> enumeration list \<Rightarrow> bool" where
  "assetBelongsToSeed net a s es =
     (if seed_ID s \<noteq> [] \<and> list_ex (\<lambda>i. enumToSeedID es i = seed_ID s) (aiContributorEnumerationIDs a) then True
      else seed_Domains s \<noteq> [] \<and> RootsOverlap net [asset_Identifier a] (seed_Domains s))"

definition aiSearchMaxSupportLineLength :: nat where "aiSearchMaxSupportLineLength = 280"

definition rdapFact :: "string \<Rightarrow> string \<Rightarrow> string \<Rightarrow> string" where
  "rdapFact r label value0 =
     (let v = TrimSpace value0
      in if r = [] \<or> label = [] \<or> v = [] then []
         else truncateString (label @ '' for '' @ r @ '': '' @ v) aiSearchMaxSupportLineLength)"

record seedAssetFacts =
  af_registration :: "string list"
  af_hosts :: "string list"
  af_roots :: "string list"

definition addRegistrationFacts :: "netLibrary \<Rightarrow> string \<Rightarrow> rdapData \<Rightarrow> string list \<Rightarrow> string list" where
  "addRegistrationFacts net r d facts =
     fold (appendUniqueLimited 12)
       ([rdapFact r ''Registrant org'' (rdap_RegistrantOrg d), rdapFact r ''Registrant email'' (rdap_RegistrantEmail d),
         rdapFact r ''Registrar'' (rdap_RegistrarName d)]
        @ map (\<lambda>nsRoot. truncateString (''Name server root for '' @ r @ '': '' @ nsRoot) aiSearchMaxSupportLineLength)
            (filter (\<lambda>nsRoot. nsRoot \<noteq> []) (map (RegistrableDomain net) (rdap_NameServers d)))) facts"

definition addAssetFacts :: "netLibrary \<Rightarrow> seed \<Rightarrow> string \<Rightarrow> enumeration list \<Rightarrow> asset \<Rightarrow> seedAssetFacts \<Rightarrow> seedAssetFacts" where
  "addAssetFacts net s focusRoot es a f =
     (let r = RegistrableDomain net (asset_Identifier a)
      in if asset_Type a \<noteq> AssetTypeDomain \<or> \<not> assetBelongsToSeed net a s es \<or> r = [] then f
         else f\<lparr>af_hosts := (if r = focusRoot \<and> asset_Identifier a \<noteq> focusRoot
                            then appendUniqueLimited 12 (asset_Identifier a) (af_hosts f) else af_hosts f),
                af_roots := (if r \<noteq> focusRoot then appendUniqueLimited 12 r (af_roots f) else af_roots f),
                af_registration := (case asset_DomainDetails a of
                   Some dd \<Rightarrow> (case dd_RDAP dd of Some d \<Rightarrow> addRegistrationFacts net r d (af_registration f) | None \<Rightarrow> af_registration f)
                 | None \<Rightarrow> af_registration f)\<rparr>)"

definition assetFactsForSeed :: "netLibrary \<Rightarrow> seed \<Rightarrow> string \<Rightarrow> pipelineContext \<Rightarrow> seedAssetFacts" where
  "assetFactsForSeed net s focusRoot p =
     (let f = fold (addAssetFacts net s focusRoot (Enumerations p)) (Assets p)
                \<lparr>af_registration = [], af_hosts = [], af_roots = []\<rparr>
      in \<lparr>af_registration = sort (af_registration f), af_hosts = sort (af_hosts f), af_roots = sort (af_roots f)\<rparr>)"

definition aiSearchSeedLabel :: "seed \<Rightarrow> string" where
  "aiSearchSeedLabel s =
     (if TrimSpace (seed_CompanyName s) \<noteq> [] then TrimSpace (seed_CompanyName s)
      else case seed_Domains s of d # _ \<Rightarrow> d | [] \<Rightarrow> TrimSpace (seed_ID s))"

definition buildAISearchSummary :: "netLibrary \<Rightarrow> seed \<Rightarrow> string \<Rightarrow> pipelineContext \<Rightarrow> contextSummary" where
  "buildAISearchSummary net s focusRoot p =
     (let accepted = judgedRoots net s True p; facts = assetFactsForSeed net s focusRoot p
      in \<lparr>cs_SeedLabel = aiSearchSeedLabel s, cs_SeedDomains = seed_Domains s, cs_FocusRoot = focusRoot,
          cs_Industry = TrimSpace (seed_Industry s), cs_ASN = seed_ASN s, cs_CIDR = seed_CIDR s,
          cs_KnownRoots = aiLimitStrings (unionStringSets [uniqueSeedRoots net s, accepted]) 12,
          cs_AcceptedRoots = aiLimitStrings accepted 10, cs_DiscardedRoots = aiLimitStrings (judgedRoots net s False p) 10,
          cs_RegistrationFacts = aiLimitStrings (af_registration facts) 12, cs_ObservedHosts = aiLimitStrings (af_hosts facts) 12,
          cs_ObservedRoots = aiLimitStrings (af_roots facts) 12\<rparr>)"

section \<open>What is asked\<close>

definition aiSearchRootDenylist :: "string set" where
  "aiSearchRootDenylist =
     {''akamai.net'', ''amazonaws.com'', ''apple.com'', ''atlassian.net'', ''azure.com'', ''cloudflare.com'', ''facebook.com'',
      ''github.com'', ''github.io'', ''gitlab.com'', ''google.com'', ''googleapis.com'', ''hubspot.com'', ''instagram.com'',
      ''linkedin.com'', ''microsoft.com'', ''myshopify.com'', ''office.com'', ''okta.com'', ''salesforce.com'', ''shopify.com'',
      ''slack.com'', ''whatsapp.com'', ''x.com'', ''youtube.com'', ''zendesk.com''}"

text \<open>\<open>p\<close> is the context the candidates are checked against, \<open>snapshot\<close> the one read before the search.\<close>

definition filterAISearchCandidates ::
  "netLibrary \<Rightarrow> seed \<Rightarrow> string \<Rightarrow> searchCandidate list \<Rightarrow> pipelineContext \<Rightarrow> pipelineContext \<Rightarrow> searchCandidate list" where
  "filterAISearchCandidates net s focusRoot cs snapshot p =
     (let known = set (uniqueSeedRoots net s) \<union> set (judgedRoots net s True snapshot);
          discarded = toStringSet (judgedRoots net s False snapshot)
      in filter (\<lambda>c. let r = RegistrableDomain net (sd_Root c)
             in r \<noteq> [] \<and> r \<noteq> focusRoot \<and> r \<notin> known \<and> r \<notin> discarded \<and> r \<notin> aiSearchRootDenylist
              \<and> \<not> HasAISearchExecutedRoot r p) cs)"

definition ownershipCandidateFromSearch :: "searchCandidate \<Rightarrow> ownershipCandidate" where
  "ownershipCandidateFromSearch c =
     \<lparr>oc_Root = sd_Root c,
      oc_Evidence = \<lparr>item_Kind = ''ai_search_summary'',
                     item_Summary = truncateString (sd_Summary c) aiSearchMaxSupportLineLength\<rparr>
        # map (\<lambda>e. \<lparr>item_Kind = ''search_result'', item_Summary = truncateString
              (se_Title e @ '' ('' @ se_URL e @ ''): '' @ se_Snippet e) aiSearchMaxSupportLineLength\<rparr>) (sd_Evidence c)\<rparr>"

definition searchCandidateRoots :: "searchCandidate list \<Rightarrow> string list" where
  "searchCandidateRoots cs = uniqueTrimmed (map sd_Root cs)"

record aiSearch =
  as_net :: netLibrary
  as_search :: "(contextSummary \<Rightarrow> string + searchResult) option"
  as_judge :: "ownershipJudge option"
  as_MarshalIndent :: "judgePayload \<Rightarrow> string"
  as_maxPromptChars :: int
  as_maxJudgedCandidates :: int
  as_showFloat :: "float64 \<Rightarrow> string"

record judgeBatchPlan =
  bp_requests :: "(ownershipRequest \<times> string list) list"
  bp_selectedRoots :: "string list"
  bp_truncatedRoots :: "string list"
  bp_promptSkippedRoots :: "string list"

text \<open>The plan so far, and the candidates of the request being built with their roots.\<close>

record batchWork =
  bw_plan :: judgeBatchPlan
  bw_current :: "ownershipCandidate list"
  bw_currentRoots :: "string list"

definition aiSearchRequest :: "seed \<Rightarrow> string \<Rightarrow> ownershipCandidate list \<Rightarrow> ownershipRequest" where
  "aiSearchRequest s focusRoot cs =
     \<lparr>or_Scenario = ''AI web search expansion from '' @ focusRoot, or_Seed = s, or_Candidates = cs\<rparr>"

definition tooLarge :: "aiSearch \<Rightarrow> ownershipRequest \<Rightarrow> bool" where
  "tooLarge c q \<longleftrightarrow> as_maxPromptChars c > 0 \<and> EstimatePromptSize (as_MarshalIndent c) q > as_maxPromptChars c"

definition appendCurrent :: "seed \<Rightarrow> string \<Rightarrow> batchWork \<Rightarrow> batchWork" where
  "appendCurrent s focusRoot b =
     (if bw_current b = [] then b
      else \<lparr>bw_plan = (bw_plan b)\<lparr>bp_requests := bp_requests (bw_plan b)
                @ [(aiSearchRequest s focusRoot (bw_current b), bw_currentRoots b)]\<rparr>,
            bw_current = [], bw_currentRoots = []\<rparr>)"

definition skipPrompt :: "string \<Rightarrow> batchWork \<Rightarrow> batchWork" where
  "skipPrompt r b = b\<lparr>bw_plan := (bw_plan b)\<lparr>bp_promptSkippedRoots := bp_promptSkippedRoots (bw_plan b) @ [r]\<rparr>\<rparr>"

definition selectCandidate :: "searchCandidate \<Rightarrow> batchWork \<Rightarrow> batchWork" where
  "selectCandidate x b =
     \<lparr>bw_plan = (bw_plan b)\<lparr>bp_selectedRoots := bp_selectedRoots (bw_plan b) @ [sd_Root x]\<rparr>,
      bw_current = bw_current b @ [ownershipCandidateFromSearch x], bw_currentRoots = bw_currentRoots b @ [sd_Root x]\<rparr>"

definition placeCandidate :: "aiSearch \<Rightarrow> seed \<Rightarrow> string \<Rightarrow> searchCandidate \<Rightarrow> batchWork \<Rightarrow> batchWork" where
  "placeCandidate c s focusRoot x b =
     (let oc = ownershipCandidateFromSearch x
      in if \<not> tooLarge c (aiSearchRequest s focusRoot (bw_current b @ [oc])) then selectCandidate x b
         else if bw_current b = [] then skipPrompt (sd_Root x) b
         else (let b' = appendCurrent s focusRoot b
               in if tooLarge c (aiSearchRequest s focusRoot [oc]) then skipPrompt (sd_Root x) b'
                  else selectCandidate x b'))"

definition buildJudgeRequests :: "aiSearch \<Rightarrow> seed \<Rightarrow> string \<Rightarrow> searchCandidate list \<Rightarrow> judgeBatchPlan" where
  "buildJudgeRequests c s focusRoot cs =
     (let m = nat (as_maxJudgedCandidates c);
          cut = as_maxJudgedCandidates c > 0 \<and> int (length cs) > as_maxJudgedCandidates c
      in bw_plan (appendCurrent s focusRoot (fold (placeCandidate c s focusRoot) (if cut then take m cs else cs)
           \<lparr>bw_plan = \<lparr>bp_requests = [], bp_selectedRoots = [],
                       bp_truncatedRoots = (if cut then searchCandidateRoots (drop m cs) else []), bp_promptSkippedRoots = []\<rparr>,
            bw_current = [], bw_currentRoots = []\<rparr>)))"

section \<open>Events\<close>

definition aiEvent :: "string \<Rightarrow> string \<Rightarrow> string \<Rightarrow> (string \<times> enrichmentValue) list \<Rightarrow> executionEvent" where
  "aiEvent focusRoot kind message extra =
     \<lparr>event_Kind = kind, event_Message = message,
      event_Metadata = (''collector'', EVString ''ai_search_collector'') # (''focus_root'', EVString focusRoot) # extra\<rparr>"

definition searchFailed :: "string \<Rightarrow> string \<Rightarrow> executionEvent" where
  "searchFailed focusRoot e =
     aiEvent focusRoot ''ai_search_failed'' (''AI search collector failed for '' @ focusRoot @ ''.'') [(''error'', EVString e)]"

definition noCandidates :: "string \<Rightarrow> searchResult \<Rightarrow> executionEvent" where
  "noCandidates focusRoot result =
     aiEvent focusRoot ''ai_search_no_candidates'' (''AI search collector found no judgeable candidates for '' @ focusRoot @ ''.'')
       [(''query_count'', EVInt (int (length (sr_Queries result)))),
        (''raw_candidate_count'', EVInt (int (length (sr_Candidates result))))]"

text \<open>The events between the filter and the judge.\<close>

definition planEvents :: "aiSearch \<Rightarrow> string \<Rightarrow> searchResult \<Rightarrow> searchCandidate list \<Rightarrow> judgeBatchPlan \<Rightarrow> executionEvent list" where
  "planEvents c focusRoot result cs plan =
     (let count = (\<lambda>xs. show_nat (length xs)); size = (\<lambda>xs. EVInt (int (length xs)))
      in [aiEvent focusRoot ''ai_search_candidates_discovered''
            (''AI search collector found '' @ show_nat (length cs) @ '' candidate root(s) for '' @ focusRoot @ ''.'')
            [(''query_count'', size (sr_Queries result)), (''candidate_count'', EVInt (int (length cs))),
             (''candidate_roots'', EVStrings (searchCandidateRoots cs)), (''queries'', EVStrings (sr_Queries result))]]
       @ (if bp_truncatedRoots plan = [] then []
          else [aiEvent focusRoot ''ai_search_candidate_truncated''
            (''AI search collector truncated '' @ count (bp_truncatedRoots plan) @ '' candidate root(s) for '' @ focusRoot
               @ '' due to the per-seed judge cap.'')
            [(''max_judged_candidates'', EVInt (as_maxJudgedCandidates c)), (''truncated_roots'', EVStrings (bp_truncatedRoots plan))]])
       @ (if bp_promptSkippedRoots plan = [] then []
          else [aiEvent focusRoot ''ai_search_prompt_skipped''
            (''AI search collector skipped '' @ count (bp_promptSkippedRoots plan) @ '' oversized candidate root(s) for ''
               @ focusRoot @ ''.'')
            [(''skipped_roots'', EVStrings (bp_promptSkippedRoots plan)), (''prompt_ceiling'', EVInt (as_maxPromptChars c))]])
       @ (if bp_selectedRoots plan = [] then []
          else [aiEvent focusRoot ''ai_search_candidates_selected''
            (''AI search collector selected '' @ count (bp_selectedRoots plan) @ '' candidate root(s) for judging for ''
               @ focusRoot @ ''.'')
            [(''request_count'', EVInt (int (length (bp_requests plan)))), (''selected_count'', size (bp_selectedRoots plan)),
             (''selected_roots'', EVStrings (bp_selectedRoots plan))]]))"

record searchOutcome =
  so_accepted :: "string list"
  so_judged :: "string list"
  so_low :: "string list"
  so_promoted :: "string list"

definition judgeCompleted :: "string \<Rightarrow> searchOutcome \<Rightarrow> executionEvent" where
  "judgeCompleted focusRoot so =
     (let judged = uniqueTrimmed (so_judged so); accepted = sort (so_accepted so);
          discarded = differencePreservingOrder judged accepted; promoted = sort (so_promoted so);
          size = (\<lambda>xs. EVInt (int (length xs)))
      in aiEvent focusRoot ''ai_search_judge_completed''
           (''AI search judge evaluated '' @ show_nat (length judged) @ '' candidate root(s) for '' @ focusRoot @ ''.'')
           [(''judged_count'', size judged), (''judged_roots'', EVStrings judged), (''accepted_count'', size accepted),
            (''accepted_roots'', EVStrings accepted), (''discarded_count'', size discarded),
            (''discarded_roots'', EVStrings discarded), (''promoted_count'', size promoted),
            (''promoted_roots'', EVStrings promoted)])"

definition lowSkipped :: "aiSearch \<Rightarrow> string \<Rightarrow> string list \<Rightarrow> pipelineContext \<Rightarrow> executionEvent" where
  "lowSkipped c focusRoot low p =
     aiEvent focusRoot ''ai_search_low_confidence_skipped''
       (''AI search collector skipped '' @ show_nat (length low) @ '' accepted candidate root(s) for '' @ focusRoot
          @ '' due to the promotion threshold.'')
       [(''confidence_threshold'', EVJSON (as_showFloat c (CandidatePromotionConfidenceThreshold p))), (''skipped_roots'', EVStrings low)]"

section \<open>The expander\<close>

definition buildSearchRelationReason :: "string list \<Rightarrow> searchCandidate \<Rightarrow> string" where
  "buildSearchRelationReason queries x =
     truncateString (case queries of
        [] \<Rightarrow> TrimSpace (sd_Summary x)
      | q # _ \<Rightarrow> ''Query '' @ Quote q @ '' surfaced this root. '' @ TrimSpace (sd_Summary x)) 320"

text \<open>The asset and the relation of an accepted root.\<close>

definition searchFound ::
  "string \<Rightarrow> string \<Rightarrow> string list \<Rightarrow> searchCandidate \<Rightarrow> string \<Rightarrow> environment \<Rightarrow> asset \<times> assetRelation \<times> environment" where
  "searchFound enumID focusRoot queries x r env0 =
     (let (a, env1) = newAsset ''dom-ai-search'' enumID ''ai_search_collector'' AssetTypeDomain (Some noDomainDetails) None r env0;
          (i, env2) = freshID ''rel-ai-search'' env1; (found, env3) = readClock env2
      in (a, \<lparr>rel_ID = i, rel_FromAssetID = [], rel_FromAssetType = AssetTypeDomain, rel_FromIdentifier = focusRoot,
              rel_ToAssetID = [], rel_ToAssetType = AssetTypeDomain, rel_ToIdentifier = r, rel_ObservationID = [],
              rel_EnumerationID = enumID, rel_Source = ''ai_search_collector'', rel_Kind = ''search_result'',
              rel_Label = ''Search Result'', rel_Reason = buildSearchRelationReason queries x, rel_DiscoveryDate = found\<rparr>, env3))"

definition searchEvidenceOf :: "judgeDecision \<Rightarrow> seedEvidence" where
  "searchEvidenceOf d = \<lparr>ev_Source = ''ai_search_collector'', ev_Kind = FirstNonEmpty [jd_Kind d, ''ownership_judged''],
     ev_Value = jd_Root d, ev_Confidence = jd_Confidence d, ev_Reasoned = True\<rparr>"

type_synonym 'b searchTail = "searchOutcome \<Rightarrow> environment \<Rightarrow> 'b engineState thread"

primrec searchDecisions ::
  "netLibrary \<Rightarrow> 'b promotionHandler \<Rightarrow> seed \<Rightarrow> string \<Rightarrow> string \<Rightarrow> string list \<Rightarrow> (string \<Rightarrow> searchCandidate option)
     \<Rightarrow> judgeDecision list \<Rightarrow> 'b searchTail \<Rightarrow> 'b searchTail" where
  "searchDecisions net h s focusRoot enumID queries byRoot [] k so env = k so env"
| "searchDecisions net h s focusRoot enumID queries byRoot (d # ds) k so env =
     (let next = searchDecisions net h s focusRoot enumID queries byRoot ds k; x = BuildDiscoveredSeed net s (jd_Root d) ''ai-search-pivot'';
          enough = (\<lambda>p. IsConfidenceAtLeast (jd_Confidence d) (CandidatePromotionConfidenceThreshold p))
      in case (if jd_Collect d then byRoot (jd_Root d) else None) of
           None \<Rightarrow> next so env
         | Some candidate \<Rightarrow>
             (let o1 = so\<lparr>so_accepted := appendUniqueString (so_accepted so) (jd_Root d)\<rparr>
              in Step (\<lambda>st. if enough (fst st) then snd (PromoteSeedCandidate h x (searchEvidenceOf d) (fst st) (snd st)) else st)
                   (\<lambda>st. if \<not> enough (fst st) then next (o1\<lparr>so_low := appendUniqueString (so_low o1) (jd_Root d)\<rparr>) env
                         else (let promotion = fst (PromoteSeedCandidate h x (searchEvidenceOf d) (fst st) (snd st));
                                   o2 = (if res_Scheduled promotion
                                         then o1\<lparr>so_promoted := appendUniqueString (so_promoted o1) (jd_Root d)\<rparr> else o1);
                                   (a, rel, env') = searchFound enumID focusRoot queries candidate (jd_Root d) env
                               in if res_Decision promotion = CandidatePromotionAccepted
                                  then Step (onContext (AppendAssets [a]))
                                         (\<lambda>_. Step (onContext (AppendAssetRelations [rel])) (\<lambda>_. next o2 env'))
                                  else next o2 env))))"

primrec searchRequests ::
  "aiSearch \<Rightarrow> ownershipJudge \<Rightarrow> 'b promotionHandler \<Rightarrow> seed \<Rightarrow> string \<Rightarrow> string \<Rightarrow> string list
     \<Rightarrow> (string \<Rightarrow> searchCandidate option) \<Rightarrow> (ownershipRequest \<times> string list) list \<Rightarrow> 'b searchTail \<Rightarrow> 'b searchTail" where
  "searchRequests c j h s focusRoot enumID queries byRoot [] k so env = k so env"
| "searchRequests c j h s focusRoot enumID queries byRoot (g # gs) k so env =
     (case j (fst g) of
        Inl e \<Rightarrow> Step (onContext (appendError e)) (\<lambda>_. searchRequests c j h s focusRoot enumID queries byRoot gs k so env)
      | Inr ds \<Rightarrow>
          Step (onContext (RecordOwnershipJudgeEvaluation (as_net c) ''ai_search_collector'' (fst g) ds))
            (\<lambda>_. searchDecisions (as_net c) h s focusRoot enumID queries byRoot ds
                   (searchRequests c j h s focusRoot enumID queries byRoot gs k)
                   (so\<lparr>so_judged := so_judged so @ snd g\<rparr>) env))"

primrec emitAll :: "executionEvent list \<Rightarrow> 'b engineState thread \<Rightarrow> 'b engineState thread" where
  "emitAll [] t = t"
| "emitAll (e # es) t = Step (onContext (EmitExecutionEvent e)) (\<lambda>_. emitAll es t)"

definition searchJudged :: "aiSearch \<Rightarrow> string \<Rightarrow> (environment \<Rightarrow> 'b engineState thread) \<Rightarrow> 'b searchTail" where
  "searchJudged c focusRoot k so env =
     (let low = sort (so_low so)
      in Step (onContext (EmitExecutionEvent (judgeCompleted focusRoot so)))
           (\<lambda>_. if low = [] then k env
                 else Step (onContext (\<lambda>p. EmitExecutionEvent (lowSkipped c focusRoot low p) p)) (\<lambda>_. k env)))"

text \<open>The answer of a search, the candidates being checked against the context of that moment.\<close>

definition searchAnswered ::
  "aiSearch \<Rightarrow> ownershipJudge \<Rightarrow> 'b promotionHandler \<Rightarrow> seed \<Rightarrow> string \<Rightarrow> string \<Rightarrow> pipelineContext \<Rightarrow> searchResult
     \<Rightarrow> (environment \<Rightarrow> 'b engineState thread) \<Rightarrow> environment \<Rightarrow> 'b engineState thread" where
  "searchAnswered c j h s focusRoot enumID snapshot result k env =
     Step (\<lambda>st. st) (\<lambda>st.
       (let cs = filterAISearchCandidates (as_net c) s focusRoot (sr_Candidates result) snapshot (fst st);
            plan = buildJudgeRequests c s focusRoot cs
        in if cs = [] then emitAll [noCandidates focusRoot result] (k env)
           else emitAll (planEvents c focusRoot result cs plan)
                  (if bp_requests plan = [] then k env
                   else searchRequests c j h s focusRoot enumID (sr_Queries result)
                          (map_of (rev (map (\<lambda>x. (sd_Root x, x)) cs))) (bp_requests plan) (searchJudged c focusRoot k)
                          \<lparr>so_accepted = [], so_judged = [], so_low = [], so_promoted = []\<rparr> env)))"

primrec searchRoots ::
  "aiSearch \<Rightarrow> (contextSummary \<Rightarrow> string + searchResult) \<Rightarrow> ownershipJudge \<Rightarrow> 'b promotionHandler \<Rightarrow> (seed \<times> string) list
     \<Rightarrow> environment \<Rightarrow> 'b engineState thread" where
  "searchRoots c search j h [] env = Done None"
| "searchRoots c search j h (f # fs) env =
     (let (s, focusRoot) = f; (e, env') = startEnumeration ''enum-ai-search'' s env
      in Step (\<lambda>st. st) (\<lambda>st.
           if HasAISearchExecutedRoot focusRoot (fst st) then searchRoots c search j h fs env
           else Step (onContext (MarkAISearchExecutedRoot focusRoot)) (\<lambda>_.
                Step (onContext (\<lambda>p. p\<lparr>Enumerations := Enumerations p @ [e]\<rparr>)) (\<lambda>_.
                Step (\<lambda>st. st) (\<lambda>st.
                  (let snapshot = SnapshotReadModel (fst st)
                   in case search (buildAISearchSummary (as_net c) s focusRoot snapshot) of
                        Inl err \<Rightarrow> Step (onContext (appendError err))
                                  (\<lambda>_. emitAll [searchFailed focusRoot err] (searchRoots c search j h fs env'))
                      | Inr result \<Rightarrow> searchAnswered c j h s focusRoot (enum_ID e) snapshot result
                                       (searchRoots c search j h fs) env'))))))"

definition disabledEvent :: executionEvent where
  "disabledEvent =
     \<lparr>event_Kind = ''ai_search_disabled'',
      event_Message = ''AI search collector is disabled; no web-search expansion will run.'',
      event_Metadata = [(''collector'', EVString ''ai_search_collector'')]\<rparr>"

definition searchJudgeDisabledEvent :: executionEvent where
  "searchJudgeDisabledEvent =
     \<lparr>event_Kind = ''ai_search_judge_disabled'',
      event_Message = ''AI search collector skipped because the ownership judge is disabled.'',
      event_Metadata = [(''collector'', EVString ''ai_search_collector''), (''judge'', EVString ''ownership'')]\<rparr>"

definition AISearchProcess ::
  "aiSearch \<Rightarrow> 'b promotionHandler \<Rightarrow> ('b engineState \<Rightarrow> environment) \<Rightarrow> 'b engineState thread" where
  "AISearchProcess c h env =
     Step (onContext EnsureAssetState) (\<lambda>_.
       case (as_search c, as_judge c) of
         (None, _) \<Rightarrow> emitAll [disabledEvent] (Done None)
       | (Some search, None) \<Rightarrow> emitAll [searchJudgeDisabledEvent] (Done None)
       | (Some search, Some j) \<Rightarrow>
           Step (\<lambda>st. st) (\<lambda>st. searchRoots c search j h
             (concat (map (\<lambda>s. map (\<lambda>r. (s, r)) (uniqueSeedRoots (as_net c) s)) (CollectionSeeds (fst st)))) (env st)))"

definition AISearchCollector ::
  "aiSearch \<Rightarrow> 'b promotionHandler \<Rightarrow> ('b engineState \<Rightarrow> environment) \<Rightarrow> 'b engineNode" where
  "AISearchCollector c h env = \<lparr>node_Name = ''AISearchCollector'', node_Process = AISearchProcess c h env\<rparr>"

text \<open>The defaults; a later option overrides an earlier one.\<close>

datatype aiSearchOption =
    WithAISearchProvider "(contextSummary \<Rightarrow> string + searchResult) option"
  | WithAISearchJudge "ownershipJudge option"
  | WithAISearchMaxPromptChars int
  | WithAISearchMaxJudgedCandidates int

fun applyAISearchOption :: "aiSearchOption \<Rightarrow> aiSearch \<Rightarrow> aiSearch" where
  "applyAISearchOption (WithAISearchProvider p) c = c\<lparr>as_search := p\<rparr>"
| "applyAISearchOption (WithAISearchJudge j) c = c\<lparr>as_judge := j\<rparr>"
| "applyAISearchOption (WithAISearchMaxPromptChars n) c = c\<lparr>as_maxPromptChars := n\<rparr>"
| "applyAISearchOption (WithAISearchMaxJudgedCandidates n) c = c\<lparr>as_maxJudgedCandidates := n\<rparr>"

definition NewAISearchCollector ::
  "netLibrary \<Rightarrow> ownershipJudge option \<Rightarrow> (judgePayload \<Rightarrow> string) \<Rightarrow> (float64 \<Rightarrow> string) \<Rightarrow> aiSearchOption list \<Rightarrow> aiSearch" where
  "NewAISearchCollector net judge MarshalIndent showFloat options =
     fold applyAISearchOption options
       \<lparr>as_net = net, as_search = None, as_judge = judge, as_MarshalIndent = MarshalIndent, as_maxPromptChars = 120000,
        as_maxJudgedCandidates = 12, as_showFloat = showFloat\<rparr>"

end
