(* ===== verification/Reverse_Registration.thy ===== *)
theory Reverse_Registration
  imports Judged_Pivots DNS_Observation
begin

text \<open>
  \<open>internal/collect/reverse_registration_collector.go\<close>: searches certificate transparency for the
  company (or the label of its domain), keeps the roots whose registration data agrees with that of the
  seed, and puts them to the judge. The transport, JSON, query escaping and the RDAP client are
  arguments.
\<close>

definition maxReverseRegistrationCandidates :: nat where
  "maxReverseRegistrationCandidates = 25"

section \<open>Helpers\<close>

definition uniquePreservingCase :: "string list \<Rightarrow> string list" where
  "uniquePreservingCase values =
     map TrimSpace (uniqueBy (\<lambda>v. ToLower (TrimSpace v)) {} (filter (\<lambda>v. ToLower (TrimSpace v) \<noteq> []) values))"

definition emailRoot :: "netLibrary \<Rightarrow> string \<Rightarrow> string" where
  "emailRoot net email =
     (let parts = Split (TrimSpace (ToLower email)) CHR ''@''
      in if TrimSpace (ToLower email) = [] \<or> length parts \<noteq> 2 then [] else RegistrableDomain net (parts ! 1))"

definition overlappingRoots :: "netLibrary \<Rightarrow> string list \<Rightarrow> string list \<Rightarrow> string list" where
  "overlappingRoots net left right =
     (if left = [] \<or> right = [] then []
      else uniquePreservingCase (filter (\<lambda>r. r \<noteq> [] \<and> r \<in> set (filter (\<lambda>l. l \<noteq> []) (map (RegistrableDomain net) left)))
             (map (RegistrableDomain net) right)))"

text \<open>The company, or else the first label of a domain that has four characters.\<close>

definition reverseRegistrationSearchTerms :: "netLibrary \<Rightarrow> seed \<Rightarrow> string list" where
  "reverseRegistrationSearchTerms net s =
     (let company = TrimSpace (seed_CompanyName s);
          labels = map (\<lambda>r. hd (Split r CHR ''.'')) (filter (\<lambda>r. r \<noteq> []) (map (RegistrableDomain net) (seed_Domains s)))
      in uniquePreservingCase
           (if company \<noteq> [] then [company] else take 1 (filter (\<lambda>l. length l \<ge> 4) labels)))"

section \<open>The collector\<close>

record reverseRegistration =
  rr_client :: web
  rr_searchCT :: "string \<Rightarrow> string + string list"
  rr_lookupDomain :: "string \<Rightarrow> lookupResult"
  rr_judge :: "ownershipJudge option"

text \<open>\<open>decode\<close> gives the common name and the name value of each record.\<close>

definition searchCertificateTransparency ::
  "netLibrary \<Rightarrow> (string \<Rightarrow> string) \<Rightarrow> (string \<Rightarrow> string + (string \<times> string) list) \<Rightarrow> web \<Rightarrow> string \<Rightarrow> string + string list" where
  "searchCertificateTransparency net QueryEscape decode client term =
     (case okBody (\<lambda>code. ''unexpected status '' @ show_int code)
             (client (''https://crt.sh/?q='' @ QueryEscape term @ ''&output=json'')) of
        Inl e \<Rightarrow> Inl e
      | Inr body \<Rightarrow>
          (case decode body of
             Inl e \<Rightarrow> Inl e
           | Inr records \<Rightarrow> Inr (UniqueLowerStrings (concat (map (\<lambda>(commonName, nameValue).
               ExtractDomainCandidates net commonName @ concat (map (ExtractDomainCandidates net) (Split nameValue CHR 0x0A)))
               records)))))"

text \<open>An option is a change of the collector.\<close>

definition WithReverseRegistrationClient :: "web \<Rightarrow> reverseRegistration \<Rightarrow> reverseRegistration" where
  "WithReverseRegistrationClient client c = c\<lparr>rr_client := client\<rparr>"

definition WithReverseRegistrationJudge :: "ownershipJudge option \<Rightarrow> reverseRegistration \<Rightarrow> reverseRegistration" where
  "WithReverseRegistrationJudge judge c = c\<lparr>rr_judge := judge\<rparr>"

definition NewReverseRegistrationCollector ::
  "netLibrary \<Rightarrow> (string \<Rightarrow> string) \<Rightarrow> (string \<Rightarrow> string + (string \<times> string) list) \<Rightarrow> (web \<Rightarrow> string \<Rightarrow> lookupResult)
     \<Rightarrow> ownershipJudge option \<Rightarrow> web \<Rightarrow> (reverseRegistration \<Rightarrow> reverseRegistration) list \<Rightarrow> reverseRegistration" where
  "NewReverseRegistrationCollector net QueryEscape decode LookupDomain NewDefaultJudge defaultClient options =
     (let c = fold (\<lambda>opt. opt) options
                \<lparr>rr_client = defaultClient, rr_searchCT = (\<lambda>_. Inr []), rr_lookupDomain = (\<lambda>_. Registered None), rr_judge = None\<rparr>
      in c\<lparr>rr_searchCT := searchCertificateTransparency net QueryEscape decode (rr_client c),
           rr_lookupDomain := LookupDomain (rr_client c),
           rr_judge := NewDefaultJudge\<rparr>)"

section \<open>The baseline of the seed\<close>

record registrationBaseline =
  rb_orgs :: "string list"
  rb_emailRoots :: "string list"
  rb_nameservers :: "string list"
  rb_cache :: "(string \<times> rdapData option) list"
  rb_errors :: "string list"

definition addNonEmpty :: "string \<Rightarrow> string list \<Rightarrow> string list" where
  "addNonEmpty v values = (if v = [] then values else List.insert v values)"

definition addRegistration :: "netLibrary \<Rightarrow> reverseRegistration \<Rightarrow> string \<Rightarrow> registrationBaseline \<Rightarrow> registrationBaseline" where
  "addRegistration net c domain b =
     (let r = RegistrableDomain net domain
      in if r = [] then b
         else (let found = rr_lookupDomain c r; b1 = b\<lparr>rb_errors := rb_errors b @ rdapErrors found\<rparr>
               in case registeredData found of
                    None \<Rightarrow> b1
                  | Some d \<Rightarrow> b1\<lparr>rb_cache := AList.update r (Some d) (rb_cache b1),
                      rb_orgs := addNonEmpty (NormalizeOrganization (rdap_RegistrantOrg d)) (rb_orgs b1),
                      rb_emailRoots := addNonEmpty (emailRoot net (rdap_RegistrantEmail d)) (rb_emailRoots b1),
                      rb_nameservers := rb_nameservers b1 @ rdap_NameServers d\<rparr>))"

definition newRegistrationBaseline :: "netLibrary \<Rightarrow> reverseRegistration \<Rightarrow> seed \<Rightarrow> registrationBaseline" where
  "newRegistrationBaseline net c s =
     (let b = fold (addRegistration net c) (seed_Domains s)
            \<lparr>rb_orgs = addNonEmpty (NormalizeOrganization (seed_CompanyName s)) [], rb_emailRoots = [],
             rb_nameservers = [], rb_cache = [], rb_errors = []\<rparr>
      in b\<lparr>rb_nameservers := UniqueLowerStrings (rb_nameservers b)\<rparr>)"

section \<open>The search\<close>

type_synonym searchTerms = "(string \<times> string list) list"

text \<open>Both loops end when there are enough candidates.\<close>

fun searchDomains :: "netLibrary \<Rightarrow> string set \<Rightarrow> string \<Rightarrow> string list \<Rightarrow> searchTerms \<Rightarrow> searchTerms" where
  "searchDomains net known term [] m = m"
| "searchDomains net known term (d # ds) m =
     (let r = RegistrableDomain net d
      in if r = [] \<or> r \<in> known then searchDomains net known term ds m
         else (let m' = AList.update r ((case map_of m r of None \<Rightarrow> [] | Some ts \<Rightarrow> ts) @ [term]) m
               in if length m' \<ge> maxReverseRegistrationCandidates then m' else searchDomains net known term ds m'))"

fun searchAll ::
  "netLibrary \<Rightarrow> (string \<Rightarrow> string + string list) \<Rightarrow> string set \<Rightarrow> string list \<Rightarrow> searchTerms \<times> string list
     \<Rightarrow> searchTerms \<times> string list" where
  "searchAll net searchCT known [] (m, errs) = (m, errs)"
| "searchAll net searchCT known (t # ts) (m, errs) =
     (case searchCT t of
        Inl e \<Rightarrow> searchAll net searchCT known ts (m, errs @ [''reverse registration search '' @ Quote t @ '': '' @ e])
      | Inr domains \<Rightarrow>
          (let m' = searchDomains net known t domains m
           in if length m' \<ge> maxReverseRegistrationCandidates then (m', errs) else searchAll net searchCT known ts (m', errs)))"

section \<open>The candidates\<close>

definition registrationEvidence ::
  "netLibrary \<Rightarrow> registrationBaseline \<Rightarrow> rdapData option \<Rightarrow> ownershipEvidenceItem list" where
  "registrationEvidence net b data =
     (case data of
        None \<Rightarrow> []
      | Some d \<Rightarrow>
          (let org = NormalizeOrganization (rdap_RegistrantOrg d); mail = emailRoot net (rdap_RegistrantEmail d);
               overlap = overlappingRoots net (rdap_NameServers d) (rb_nameservers b)
           in (if org \<noteq> [] \<and> org \<in> set (rb_orgs b)
               then [\<lparr>item_Kind = ''registrant_org_match'',
                      item_Summary = ''Registrant organization '' @ Quote (rdap_RegistrantOrg d) @ '' matches the seed baseline''\<rparr>]
               else [])
            @ (if mail \<noteq> [] \<and> mail \<in> set (rb_emailRoots b)
               then [\<lparr>item_Kind = ''registrant_email_root_match'',
                      item_Summary = ''Registrant email root '' @ Quote mail @ '' matches the seed baseline''\<rparr>]
               else [])
            @ (if overlap \<noteq> []
               then [\<lparr>item_Kind = ''nameserver_overlap'',
                      item_Summary = ''Shares registrable nameserver roots with the seed baseline: '' @ Join overlap '', ''\<rparr>]
               else [])))"

text \<open>The candidates of the question with their registration data, and the errors of the lookups.\<close>

fun registrationCandidates ::
  "netLibrary \<Rightarrow> reverseRegistration \<Rightarrow> registrationBaseline \<Rightarrow> searchTerms \<Rightarrow> string list
     \<Rightarrow> (ownershipCandidate \<times> rdapData option) list \<times> string list" where
  "registrationCandidates net c b m [] = ([], [])"
| "registrationCandidates net c b m (r # rs) =
     (let found = (case map_of (rb_cache b) r of Some d \<Rightarrow> Registered d | None \<Rightarrow> rr_lookupDomain c r);
          (cs, errs) = registrationCandidates net c b m rs;
          corroboration = registrationEvidence net b (registeredData found)
      in if rdapErrors found \<noteq> [] then (cs, rdapErrors found @ errs)
         else if corroboration = [] then (cs, errs)
         else ((\<lparr>oc_Root = r, oc_Evidence =
                   \<lparr>item_Kind = ''ct_query'', item_Summary = ''Found in certificate-transparency results for search terms: ''
                      @ Join (uniquePreservingCase (case map_of m r of None \<Rightarrow> [] | Some ts \<Rightarrow> ts)) '', ''\<rparr> # corroboration\<rparr>,
                registeredData found) # cs, errs))"

section \<open>The stage\<close>

definition registrationTurn :: "netLibrary \<Rightarrow> reverseRegistration \<Rightarrow> 'b promotionHandler \<Rightarrow> 'b pivotTurn" where
  "registrationTurn net c h s k w0 =
     (let (enumID, w1) = pivotEnumeration ''enum-revreg'' s w0;
          b = newRegistrationBaseline net c s;
          (m, searchErrs) = searchAll net (rr_searchCT c) (knownRoots net (seed_Domains s))
                              (reverseRegistrationSearchTerms net s) ([], []);
          (cs, lookupErrs) = registrationCandidates net c b m (sort (map fst m));
          w = pivotErrors (rb_errors b @ searchErrs @ lookupErrs) w1
      in judgePivots net h (rr_judge c) ''reverse_registration_collector''
           \<lparr>or_Scenario = ''registration pivot'', or_Seed = s, or_Candidates = map fst cs\<rparr>
           (\<lambda>d p. if collects d p \<and> jd_Root d \<in> oc_Root ` fst ` set cs
                  then Some (BuildDiscoveredSeed net s (jd_Root d) ''reverse-registration'', judgedEvidence d) else None)
           (\<lambda>d. pivotAsset ''dom-revreg'' ''reverse_registration_collector'' enumID
                  (noDomainDetails\<lparr>dd_RDAP := the (map_of (map (\<lambda>x. (oc_Root (fst x), snd x)) cs) (jd_Root d))\<rparr>) [] (jd_Root d))
           k w)"

definition ReverseRegistrationCollector ::
  "netLibrary \<Rightarrow> reverseRegistration \<Rightarrow> 'b promotionHandler \<Rightarrow> ('b engineState \<Rightarrow> environment) \<Rightarrow> 'b engineNode" where
  "ReverseRegistrationCollector net c h env =
     \<lparr>node_Name = ''ReverseRegistrationCollector'', node_Process = judgedProcess (registrationTurn net c h) env\<rparr>"

end
