(* ===== verification/ASN_CIDR.thy ===== *)
theory ASN_CIDR
  imports Judged_Pivots
begin

text \<open>
  \<open>internal/collect/asn_cidr_collector.go\<close>: looks up the names of the addresses in the networks of the
  seed, reports them as hosts, and puts their roots to the judge. The RIPE service, the resolver and the
  parser of prefixes are arguments; addresses are 32-bit words, as only IPv4 prefixes are visited.
\<close>

unbundle bit_operations_syntax

section \<open>The addresses of a prefix\<close>

record ipv4Prefix =
  pre_addr :: "32 word"
  pre_bits :: nat

definition networkMask :: "nat \<Rightarrow> 32 word" where
  "networkMask bits = NOT (mask (32 - bits))"

definition Masked :: "ipv4Prefix \<Rightarrow> ipv4Prefix" where
  "Masked p = p\<lparr>pre_addr := pre_addr p AND networkMask (pre_bits p)\<rparr>"

definition PrefixContains :: "ipv4Prefix \<Rightarrow> 32 word \<Rightarrow> bool" where
  "PrefixContains p a \<longleftrightarrow> a AND networkMask (pre_bits p) = pre_addr p AND networkMask (pre_bits p)"

text \<open>\<open>Addr.Next\<close>: the zero \<open>Addr\<close>, which no prefix contains, after the last address.\<close>

definition NextAddr :: "32 word \<Rightarrow> 32 word option" where
  "NextAddr a = (if a = - 1 then None else Some (a + 1))"

definition octet :: "nat \<Rightarrow> 32 word \<Rightarrow> nat" where
  "octet i a = unat (drop_bit (8 * i) a AND 255)"

definition AddrString :: "32 word \<Rightarrow> string" where
  "AddrString a = Join (map (\<lambda>i. show_nat (octet i a)) [3, 2, 1, 0]) ''.''"

text \<open>The loop, for the \<open>limit - len(ips)\<close> turns that may be left.\<close>

fun enumerateFrom :: "ipv4Prefix \<Rightarrow> nat \<Rightarrow> 32 word option \<Rightarrow> 32 word list" where
  "enumerateFrom p 0 addr = []"
| "enumerateFrom p (Suc n) None = []"
| "enumerateFrom p (Suc n) (Some a) = (if PrefixContains p a then a # enumerateFrom p n (NextAddr a) else [])"

definition enumeratePrefixIPs :: "ipv4Prefix \<Rightarrow> int \<Rightarrow> string list" where
  "enumeratePrefixIPs p limit =
     (if limit \<le> 0 then []
      else map AddrString (enumerateFrom (Masked p) (nat limit) (Some (pre_addr (Masked p)))))"

section \<open>The collector\<close>

text \<open>\<open>ac_ParsePrefix\<close> is \<open>netip.ParsePrefix\<close>: \<open>None\<close> for an error and for an IPv6 prefix.\<close>

record asnCIDRCollector =
  ac_prefixesLookup :: "int \<Rightarrow> string + string list"
  ac_ptrLookup :: "string \<Rightarrow> string + string list"
  ac_ParsePrefix :: "string \<Rightarrow> ipv4Prefix option"
  ac_maxHostsPerCIDR :: int
  ac_maxHostsPerASN :: int
  ac_judge :: "ownershipJudge option"
  ac_mapOrder :: "string list \<Rightarrow> string list"

definition lookupAnnouncedPrefixes ::
  "(string \<Rightarrow> string + string list) \<Rightarrow> web \<Rightarrow> int \<Rightarrow> string + string list" where
  "lookupAnnouncedPrefixes decode client asn =
     (case okBody (\<lambda>code. ''unexpected status '' @ show_int code)
             (client (''https://stat.ripe.net/data/announced-prefixes/data.json?resource=AS'' @ show_int asn)) of
        Inl e \<Rightarrow> Inl e
      | Inr body \<Rightarrow>
          (case decode body of
             Inl e \<Rightarrow> Inl e
           | Inr prefixes \<Rightarrow> Inr (UniqueLowerStrings (filter (\<lambda>p. p \<noteq> []) prefixes))))"

definition lookupPTR :: "(string \<Rightarrow> string + string list) \<Rightarrow> string \<Rightarrow> string + string list" where
  "lookupPTR LookupAddr ip = (case LookupAddr ip of Inl e \<Rightarrow> Inl e | Inr names \<Rightarrow> Inr (map NormalizeDomainIdentifier names))"

definition NewASNCIDRCollector ::
  "(string \<Rightarrow> string + string list) \<Rightarrow> web \<Rightarrow> (string \<Rightarrow> string + string list) \<Rightarrow> (string \<Rightarrow> ipv4Prefix option)
     \<Rightarrow> ownershipJudge option \<Rightarrow> (string list \<Rightarrow> string list) \<Rightarrow> asnCIDRCollector" where
  "NewASNCIDRCollector decode client LookupAddr ParsePrefix judge mapOrder =
     \<lparr>ac_prefixesLookup = lookupAnnouncedPrefixes decode client, ac_ptrLookup = lookupPTR LookupAddr,
      ac_ParsePrefix = ParsePrefix, ac_maxHostsPerCIDR = 256, ac_maxHostsPerASN = 512, ac_judge = judge,
      ac_mapOrder = mapOrder\<rparr>"

section \<open>The networks of a seed\<close>

fun seedPrefixes :: "asnCIDRCollector \<Rightarrow> int list \<Rightarrow> string list \<times> string list" where
  "seedPrefixes c [] = ([], [])"
| "seedPrefixes c (asn # asns) =
     (let (cidrs, errs) = seedPrefixes c asns
      in case ac_prefixesLookup c asn of
           Inl e \<Rightarrow> (cidrs, (''lookup ASN '' @ show_int asn @ '' prefixes: '' @ e) # errs)
         | Inr prefixes \<Rightarrow> (prefixes @ cidrs, errs))"

text \<open>The addresses whose names are looked up, in order; \<open>remaining\<close> is \<open>remainingASNHosts\<close>.\<close>

definition hostLimit :: "asnCIDRCollector \<Rightarrow> bool \<Rightarrow> int \<Rightarrow> int" where
  "hostLimit c hasASN remaining =
     (if remaining > 0 \<and> hasASN \<and> remaining < ac_maxHostsPerCIDR c then remaining else ac_maxHostsPerCIDR c)"

fun scanPrefixes :: "asnCIDRCollector \<Rightarrow> bool \<Rightarrow> int \<Rightarrow> string list \<Rightarrow> string list" where
  "scanPrefixes c hasASN remaining [] = []"
| "scanPrefixes c hasASN remaining (cidr # cidrs) =
     (case ac_ParsePrefix c cidr of
        None \<Rightarrow> scanPrefixes c hasASN remaining cidrs
      | Some p \<Rightarrow>
          (let limit = hostLimit c hasASN remaining
           in if remaining > 0 \<and> hasASN \<and> limit \<le> 0 then []
              else enumeratePrefixIPs p limit
                   @ scanPrefixes c hasASN (if hasASN then remaining - limit else remaining) cidrs))"

definition scannedIPs :: "asnCIDRCollector \<Rightarrow> seed \<Rightarrow> string list" where
  "scannedIPs c s =
     scanPrefixes c (seed_ASN s \<noteq> []) (ac_maxHostsPerASN c)
       (UniqueLowerStrings (seed_CIDR s @ fst (seedPrefixes c (seed_ASN s))))"

section \<open>The names\<close>

record networkNames =
  nn_hosts :: "string list"
  nn_roots :: "(string \<times> nat \<times> string list) list"

definition noteName :: "netLibrary \<Rightarrow> string \<Rightarrow> networkNames \<Rightarrow> networkNames" where
  "noteName net name nn =
     (let host = NormalizeDomainIdentifier name; r = RegistrableDomain net host
      in if ExtractDomainCandidates net host = [] then nn
         else (let nn1 = nn\<lparr>nn_hosts := (if host \<in> set (nn_hosts nn) then nn_hosts nn else nn_hosts nn @ [host])\<rparr>;
                   (hits, samples) = (case map_of (nn_roots nn) r of None \<Rightarrow> (0, []) | Some x \<Rightarrow> x)
               in if r = [] then nn1
                  else nn1\<lparr>nn_roots := AList.update r
                         (hits + 1, if length samples < 3 then samples @ [host] else samples) (nn_roots nn1)\<rparr>))"

definition scanNames :: "netLibrary \<Rightarrow> asnCIDRCollector \<Rightarrow> seed \<Rightarrow> networkNames" where
  "scanNames net c s =
     fold (noteName net) (concat (map (\<lambda>ip. case ac_ptrLookup c ip of Inl _ \<Rightarrow> [] | Inr names \<Rightarrow> names) (scannedIPs c s)))
       \<lparr>nn_hosts = [], nn_roots = []\<rparr>"

definition networkEvidence :: "nat \<Rightarrow> string list \<Rightarrow> ownershipEvidenceItem list" where
  "networkEvidence hits samples =
     \<lparr>item_Kind = ''ptr_root'', item_Summary = ''Observed '' @ show_nat hits
        @ '' PTR hostnames under this registrable domain from the seed's network scope''\<rparr>
     # (if samples = [] then []
        else [\<lparr>item_Kind = ''ptr_host_samples'', item_Summary = ''Sample PTR hostnames: '' @ Join samples '', ''\<rparr>])"

definition networkCandidates :: "asnCIDRCollector \<Rightarrow> networkNames \<Rightarrow> ownershipCandidate list" where
  "networkCandidates c nn =
     map (\<lambda>r. case map_of (nn_roots nn) r of
         Some (hits, samples) \<Rightarrow> \<lparr>oc_Root = r, oc_Evidence = networkEvidence hits samples\<rparr>
       | None \<Rightarrow> \<lparr>oc_Root = r, oc_Evidence = []\<rparr>) (ac_mapOrder c (map fst (nn_roots nn)))"

section \<open>The stage\<close>

definition networkTurn :: "netLibrary \<Rightarrow> asnCIDRCollector \<Rightarrow> 'b promotionHandler \<Rightarrow> 'b pivotTurn" where
  "networkTurn net c h s k w0 =
     (let (enumID, w1) = pivotEnumeration ''enum-asn-cidr'' s w0;
          nn = scanNames net c s;
          w = fold (pivotAsset ''dom-asn-cidr-host'' ''asn_cidr_collector'' enumID noDomainDetails [])
                (ac_mapOrder c (nn_hosts nn)) (pivotErrors (snd (seedPrefixes c (seed_ASN s))) w1)
      in judgePivots net h (ac_judge c) ''asn_cidr_collector''
           \<lparr>or_Scenario = ''network ptr pivot'', or_Seed = s, or_Candidates = networkCandidates c nn\<rparr>
           (\<lambda>d p. if collects d p then Some (BuildDiscoveredSeed net s (jd_Root d) ''asn-cidr-pivot'', judgedEvidence d)
                  else None)
           (\<lambda>d. pivotAsset ''dom-asn-cidr-root'' ''asn_cidr_collector'' enumID noDomainDetails [] (jd_Root d)) k w)"

definition ASNCIDRCollector ::
  "netLibrary \<Rightarrow> asnCIDRCollector \<Rightarrow> 'b promotionHandler \<Rightarrow> ('b engineState \<Rightarrow> environment) \<Rightarrow> 'b engineNode" where
  "ASNCIDRCollector net c h env =
     \<lparr>node_Name = ''ASNCIDRCollector'', node_Process = judgedProcess (networkTurn net c h) env\<rparr>"

end
