(* ===== verification/Program.thy ===== *)
theory Program
  imports Registration Exporters Crawler_Collector Sitemap_Collector Web_Hint_Collector AI_Search_Collector
    Reverse_Registration ASN_CIDR DNS_Collector Domain_Enricher IP_Enricher Reconsider Merge_Filter
begin

text \<open>
  \<open>internal/app/pipeline.go\<close>: the targets a run writes to, and the engine with all its stages. What is not
  the program's own code, from the transport to the LLM, is a field of \<open>externals\<close>.
\<close>

section \<open>Output targets\<close>

definition ResolveOutputTargets ::
  "(string list \<Rightarrow> string) \<Rightarrow> (gotime \<Rightarrow> string) \<Rightarrow> string list \<Rightarrow> bool \<Rightarrow> string \<Rightarrow> gotime \<Rightarrow> string list \<times> string" where
  "ResolveOutputTargets joinPath BuildRunID requested outputsChanged requestedRunID now =
     (let runID = (if TrimSpace requestedRunID = [] then BuildRunID now else TrimSpace requestedRunID);
          baseDir = joinPath [''exports'', ''runs'', runID]
      in (if outputsChanged then requested
          else map (\<lambda>name. joinPath [baseDir, name]) [''results.json'', ''results.csv'', ''results.xlsx''], runID))"

definition validateOutputTarget :: "string \<Rightarrow> string option" where
  "validateOutputTarget target =
     (let trimmed = TrimSpace target
      in if HasPrefix trimmed ''visualizer:''
         then Some (''visualizer output '' @ Quote target @ '' is no longer supported; specify JSON, CSV, or XLSX file paths only'')
         else if EqualFold (pathExt trimmed) ''.html''
         then Some (''visualizer HTML output '' @ Quote target @ '' is no longer supported; specify JSON, CSV, or XLSX file paths only'')
         else None)"

definition formatOf :: "string \<Rightarrow> exportFormat option" where
  "formatOf out =
     (let ext = ToLower (pathExt out)
      in if ext = ''.json'' then Some JSONFormat else if ext = ''.csv'' then Some CSVFormat
         else if ext = ''.xlsx'' then Some XLSXFormat else None)"

text \<open>A target of another format is left out.\<close>

fun BuildExporters :: "(exportFormat \<Rightarrow> string \<Rightarrow> 'n) \<Rightarrow> string list \<Rightarrow> string + 'n list" where
  "BuildExporters node [] = Inr []"
| "BuildExporters node (out # outs) =
     (case validateOutputTarget out of
        Some e \<Rightarrow> Inl e
      | None \<Rightarrow> map_sum (\<lambda>e. e) (\<lambda>ns. case formatOf out of None \<Rightarrow> ns | Some f \<Rightarrow> node f out # ns) (BuildExporters node outs))"

section \<open>The externals\<close>

record 'b externals =
  ex_net :: netLibrary
  ex_env :: "'b engineState \<Rightarrow> environment"
  ex_handler :: "'b promotionHandler"
  ex_ownershipJudge :: "ownershipJudge option"
  ex_webHintJudge :: "webHintJudge option"
  ex_search :: "(contextSummary \<Rightarrow> string + searchResult) option"
  ex_MarshalIndent :: "judgePayload \<Rightarrow> string"
  ex_web :: web
  ex_lookupDomain :: "web \<Rightarrow> string \<Rightarrow> lookupResult"
  ex_resolver :: resolver
  ex_ICANNSuffixes :: "string list"
  ex_ends :: "string list \<Rightarrow> string list"
  ex_decodeNames :: "string \<Rightarrow> string + string list"
  ex_decodeOTX :: "string \<Rightarrow> string + string list"
  ex_decodeCT :: "string \<Rightarrow> string + (string \<times> string) list"
  ex_decodePrefixes :: "string \<Rightarrow> string + string list"
  ex_QueryEscape :: "string \<Rightarrow> string"
  ex_LookupAddr :: "string \<Rightarrow> string + string list"
  ex_ParsePrefix :: "string \<Rightarrow> ipv4Prefix option"
  ex_urls :: urlLibrary
  ex_parseHTML :: "string \<Rightarrow> string + htmlNode"
  ex_fetch :: "string \<Rightarrow> string + (goURL \<times> int \<times> (string + string))"
  ex_crawl :: "string \<Rightarrow> string + crawlAnswer"
  ex_decodeXML :: "string \<Rightarrow> xmlItem list \<times> string option"
  ex_mapOrder :: "string list \<Rightarrow> string list"
  ex_showFloat :: "float64 \<Rightarrow> string"
  ex_showThreshold :: "float64 \<Rightarrow> string"
  ex_domainEnricher :: domainEnricher
  ex_domainState :: "('b, domainEnricherState) cell"
  ex_contextID :: nat
  ex_ipResolver :: ipResolver
  ex_ipOrders :: ipOrders
  ex_zone :: "gotime \<Rightarrow> int"
  ex_writeFile :: "string \<Rightarrow> exportFile \<Rightarrow> string option"

section \<open>The engine\<close>

definition programCollectors :: "'b externals \<Rightarrow> dnsVariantSweepConfig \<Rightarrow> 'b engineNode list" where
  "programCollectors s sweep =
     (let net = ex_net s; env = ex_env s; h = ex_handler s; judge = ex_ownershipJudge s; web = ex_web s
      in [DNSCollector net (WithDNSCollectorVariantSweepConfig sweep
             (NewDNSCollector judge (ex_resolver s) (ex_ICANNSuffixes s) (ex_ends s))) h env,
          CrtShCollector (ex_decodeNames s) web env,
          RDAPCollector (ex_lookupDomain s web) env,
          ReverseRegistrationCollector net (NewReverseRegistrationCollector net (ex_QueryEscape s) (ex_decodeCT s)
             (ex_lookupDomain s) judge web [WithReverseRegistrationClient web, WithReverseRegistrationJudge judge]) h env,
          HackerTargetCollector net (rs_canonicalIP (ex_resolver s)) web env,
          AlienVaultCollector (ex_decodeOTX s) web env,
          WaybackCollector net web env,
          ASNCIDRCollector net (NewASNCIDRCollector (ex_decodePrefixes s) web (ex_LookupAddr s) (ex_ParsePrefix s) judge
             (ex_mapOrder s)) h env,
          CrawlerCollector (NewCrawlerCollector net (ex_urls s) (ex_crawl s) (ex_parseHTML s) judge (ex_mapOrder s)
             (ex_showFloat s)) h env,
          SitemapCollector net (NewSitemapCollector (ex_urls s) (ex_fetch s) (ex_decodeXML s) judge) h env,
          WebHintCollector \<lparr>wc_net = net, wc_urls = ex_urls s, wc_fetch = ex_fetch s, wc_html = ex_parseHTML s,
             wc_judge = ex_webHintJudge s, wc_mapOrder = ex_mapOrder s, wc_showThreshold = ex_showThreshold s,
             wc_showFloat = ex_showFloat s\<rparr> h env])"

definition programEngine :: "'b externals \<Rightarrow> dnsVariantSweepConfig \<Rightarrow> 'b engineNode list \<Rightarrow> 'b engine" where
  "programEngine s sweep exporters =
     (let net = ex_net s; env = ex_env s; h = ex_handler s; judge = ex_ownershipJudge s
      in \<lparr>Collectors = programCollectors s sweep,
          Enrichers = [NewDomainEnricher net (ex_domainEnricher s) (ex_domainState s) (ex_contextID s) env,
                       IPEnricher net (ex_ipResolver s) (ex_ipOrders s) judge h env],
          Expanders = [AISearchCollector (NewAISearchCollector net judge (ex_MarshalIndent s) (ex_showFloat s)
                         [WithAISearchProvider (ex_search s), WithAISearchJudge judge]) h env],
          Reconsiderers = [DiscardedCandidateReconsiderer net (ex_mapOrder s) h
                         \<lparr>rc_judge = judge, rc_promptSize = EstimatePromptSize (ex_MarshalIndent s), rc_maxPromptChars = 1200000\<rparr>],
          Filters = [MergeFilter],
          Exporters = exporters\<rparr>)"

definition NewPipeline :: "'b externals \<Rightarrow> dnsVariantSweepConfig \<Rightarrow> string list \<Rightarrow> string + 'b engine" where
  "NewPipeline s sweep outputs =
     map_sum (\<lambda>e. e) (programEngine s sweep)
       (BuildExporters (exporterNode (ex_net s) (ex_zone s) (ex_writeFile s) (ex_env s)) outputs)"

end
