(* ===== verification/Pivot_Collector_Facts.thy ===== *)
theory Pivot_Collector_Facts
  imports Reverse_Registration ASN_CIDR Judged_Pivot_Facts
begin

text \<open>
  The collectors that pivot on registration data and on networks: both are stages as the engine needs
  them, the first asks about at most 25 new roots that agree with the seed, the second visits the
  addresses of a prefix in order from its network address.
\<close>

section \<open>Names of certificates\<close>

lemma set_TrimSpace_nonspace: "c \<in> set s \<Longrightarrow> \<not> is_space c \<Longrightarrow> c \<in> set (TrimSpace s)"
proof -
  have drop: "c \<in> set (dropWhile P s)" if "c \<in> set s" "\<not> P c" for P :: "char \<Rightarrow> bool" and s
    using that by (induction s) auto
  assume "c \<in> set s" "\<not> is_space c"
  then show ?thesis by (simp add: TrimSpace_def TrimLeft_def drop)
qed

lemma comma_normalized: "CHR '','' \<in> set (NormalizeDomainIdentifier d) \<longleftrightarrow> CHR '','' \<in> set d"
proof
  assume "CHR '','' \<in> set d"
  then have c: "CHR '','' \<in> set (TrimSpace d)" by (rule set_TrimSpace_nonspace) (simp add: is_space_def)
  have "CHR '','' \<in> set (TrimSuffix (TrimSpace d) ''.'')"
  proof (cases "HasSuffix (TrimSpace d) ''.''")
    case True
    then obtain u where u: "TrimSpace d = u @ ''.''" unfolding HasSuffix_def by (metis append_take_drop_id)
    with c have "CHR '','' \<in> set u" by auto
    then show ?thesis using u by (simp add: TrimSuffix_def)
  qed (simp add: TrimSuffix_def c)
  then have "lower_char CHR '','' \<in> set (ToLower (TrimSuffix (TrimSpace d) ''.''))" by (auto simp: ToLower_def)
  then show "CHR '','' \<in> set (NormalizeDomainIdentifier d)"
    by (simp add: NormalizeDomainIdentifier_def lower_char_def)
qed (use NormalizeDomainIdentifier_comma in blast)

text \<open>The answers of a search name roots without commas.\<close>

definition cleanSearch :: "reverseRegistration \<Rightarrow> bool" where
  "cleanSearch c \<longleftrightarrow> (\<forall>t ds. rr_searchCT c t = Inr ds \<longrightarrow> (\<forall>d \<in> set ds. CHR '','' \<notin> set d))"

lemma UniqueLower_comma:
  assumes "\<And>v. v \<in> set vs \<Longrightarrow> CHR '','' \<notin> set v" and "d \<in> set (UniqueLowerStrings vs)"
  shows "CHR '','' \<notin> set d"
proof
  assume comma: "CHR '','' \<in> set d"
  obtain v where v: "v \<in> set vs" "d = ToLower (TrimSpace v)"
    using assms(2) by (auto simp: UniqueLowerStrings_def split: if_splits dest!: subsetD [OF set_uniqueBy_subset])
  from comma v(2) obtain x where "x \<in> set (TrimSpace v)" "lower_char x = CHR '',''" by (auto simp: ToLower_def)
  then have "CHR '','' \<in> set v" using set_TrimSpace by (simp add: lower_char_comma)
  with assms(1) v(1) show False by blast
qed

lemma extracted_plain: "d \<in> set (ExtractDomainCandidates net raw) \<Longrightarrow> CHR '','' \<notin> set d"
  using likely_comma [of net d] by (auto simp: ExtractDomainCandidates_def comma_normalized dest: extractCandidates_sound)

lemma NewReverseRegistration_clean:
  "cleanSearch (NewReverseRegistrationCollector net esc decode lookup judge client opts)"
proof -
  have "CHR '','' \<notin> set d" if "searchCertificateTransparency net esc decode cl t = Inr ds" "d \<in> set ds" for cl t ds d
    using that by (auto simp: searchCertificateTransparency_def extracted_plain split: sum.splits elim!: UniqueLower_comma [rotated])
  then show ?thesis by (auto simp: cleanSearch_def NewReverseRegistrationCollector_def Let_def)
qed

section \<open>The search for siblings\<close>

definition searchedOK :: "netLibrary \<Rightarrow> string set \<Rightarrow> searchTerms \<Rightarrow> bool" where
  "searchedOK net known m \<longleftrightarrow> distinct (map fst m) \<and> (\<forall>r \<in> fst ` set m. r \<noteq> [] \<and> r \<notin> known)"

lemma AList_update_length: "length (AList.update k v m) \<le> Suc (length m)"
  by (induction m) auto

lemma keys_update: "fst ` set (AList.update k v m) = insert k (fst ` set m)"
  by (induction m) auto

lemma searched_update:
  assumes "searchedOK net known m" and "length m < 25" and "r \<noteq> []" and "r \<notin> known"
  shows "searchedOK net known (AList.update r ts m)" and "length (AList.update r ts m) \<le> 25"
  using assms AList_update_length [of r ts m] by (auto simp: searchedOK_def keys_update distinct_update)

lemma searchDomains_ok:
  assumes "searchedOK net known m" and "length m < 25"
  shows "searchedOK net known (searchDomains net known t ds m) \<and> length (searchDomains net known t ds m) \<le> 25
     \<and> fst ` set (searchDomains net known t ds m) \<subseteq> fst ` set m \<union> RegistrableDomain net ` set ds"
  using assms
proof (induction ds arbitrary: m)
  case (Cons d ds)
  let ?r = "RegistrableDomain net d"
  let ?m' = "AList.update ?r ((case map_of m ?r of None \<Rightarrow> [] | Some ts \<Rightarrow> ts) @ [t]) m"
  show ?case
  proof (cases "?r = [] \<or> ?r \<in> known")
    case True
    then have "searchDomains net known t (d # ds) m = searchDomains net known t ds m" by (simp add: Let_def)
    with Cons.IH [OF Cons.prems] show ?thesis by auto
  next
    case False
    note m' = searched_update [OF Cons.prems, of ?r "(case map_of m ?r of None \<Rightarrow> [] | Some ts \<Rightarrow> ts) @ [t]"]
    show ?thesis
    proof (cases "length ?m' \<ge> 25")
      case True
      with False have eq: "searchDomains net known t (d # ds) m = ?m'"
        by (simp add: Let_def maxReverseRegistrationCandidates_def)
      show ?thesis unfolding eq keys_update using m' False by auto
    next
      case more: False
      with False have eq: "searchDomains net known t (d # ds) m = searchDomains net known t ds ?m'"
        by (simp add: Let_def maxReverseRegistrationCandidates_def)
      show ?thesis unfolding eq using Cons.IH [of ?m'] m' False more by (auto simp: keys_update)
    qed
  qed
qed simp

definition foundRoots :: "netLibrary \<Rightarrow> (string \<Rightarrow> string + string list) \<Rightarrow> string set" where
  "foundRoots net search = {RegistrableDomain net d |d t ds. search t = Inr ds \<and> d \<in> set ds}"

lemma foundRootsI: "search t = Inr ds \<Longrightarrow> RegistrableDomain net ` set ds \<subseteq> foundRoots net search"
  by (auto simp: foundRoots_def)

lemma Un_chain: "X \<subseteq> A \<union> F \<Longrightarrow> A \<subseteq> M \<union> R \<Longrightarrow> R \<subseteq> F \<Longrightarrow> X \<subseteq> M \<union> F"
  by blast

lemma searchAll_ok:
  assumes "searchedOK net known m" and "length m < 25" and "searchAll net search known ts (m, errs) = (m', errs')"
  shows "searchedOK net known m' \<and> length m' \<le> 25
     \<and> fst ` set m' \<subseteq> fst ` set m \<union> foundRoots net search"
  using assms
proof (induction ts arbitrary: m errs)
  case (Cons t ts)
  show ?case
  proof (cases "search t")
    case (Inl e)
    with Cons show ?thesis by simp
  next
    case (Inr ds)
    let ?m1 = "searchDomains net known t ds m"
    note m1 = searchDomains_ok [OF Cons.prems(1,2), of t ds]
    show ?thesis
    proof (cases "length ?m1 \<ge> 25")
      case True
      with Cons.prems(3) Inr have "m' = ?m1" by (simp add: Let_def maxReverseRegistrationCandidates_def)
      with m1 foundRootsI [of search t ds net, OF Inr] show ?thesis by (metis Un_chain Un_upper1)
    next
      case False
      with Cons.prems(3) Inr have rest: "searchAll net search known ts (?m1, errs) = (m', errs')"
        by (simp add: Let_def maxReverseRegistrationCandidates_def)
      have IH: "searchedOK net known m' \<and> length m' \<le> 25 \<and> fst ` set m' \<subseteq> fst ` set ?m1 \<union> foundRoots net search"
        by (rule Cons.IH [OF _ _ rest]) (use m1 False in simp_all)
      with Un_chain [OF _ m1 [THEN conjunct2, THEN conjunct2] foundRootsI [of search t ds net, OF Inr]] show ?thesis by simp
    qed
  qed
qed simp

lemma registrationCandidates_ok:
  assumes "registrationCandidates net c b m rs = (cs, errs)"
  shows "set (map (oc_Root \<circ> fst) cs) \<subseteq> set rs \<and> length cs \<le> length rs
     \<and> (\<forall>x \<in> set cs. length (oc_Evidence (fst x)) \<ge> 2 \<and> registrationEvidence net b (snd x) \<noteq> [])"
  using assms
proof (induction rs arbitrary: cs errs)
  case (Cons r rs)
  obtain cs1 errs1 where rest: "registrationCandidates net c b m rs = (cs1, errs1)" by fastforce
  let ?found = "case map_of (rb_cache b) r of Some d \<Rightarrow> Registered d | None \<Rightarrow> rr_lookupDomain c r"
  have "cs = cs1 \<or> (\<exists>item. registrationEvidence net b (registeredData ?found) \<noteq> [] \<and>
     cs = (\<lparr>oc_Root = r, oc_Evidence = item # registrationEvidence net b (registeredData ?found)\<rparr>, registeredData ?found) # cs1)"
    using Cons.prems by (auto simp: rest Let_def split: if_splits)
  moreover have "2 \<le> length (item # xs)" if "xs \<noteq> []" for item :: ownershipEvidenceItem and xs
    using that by (cases xs) simp_all
  ultimately show ?case using Cons.IH [OF rest] by (elim disjE exE) (simp_all add: subset_insertI2)
qed simp

text \<open>What the judge is asked about: at most 25 roots, none of them of the seed, each agreeing with it.\<close>

definition registrationQuestion :: "netLibrary \<Rightarrow> reverseRegistration \<Rightarrow> seed \<Rightarrow> (ownershipCandidate \<times> rdapData option) list" where
  "registrationQuestion net c s =
     (let m = fst (searchAll net (rr_searchCT c) (knownRoots net (seed_Domains s)) (reverseRegistrationSearchTerms net s) ([], []))
      in fst (registrationCandidates net c (newRegistrationBaseline net c s) m (sort (map fst m))))"

lemma registrationQuestion_spec:
  shows "length (registrationQuestion net c s) \<le> 25"
    and "\<forall>x \<in> set (registrationQuestion net c s). oc_Root (fst x) \<noteq> [] \<and> oc_Root (fst x) \<notin> knownRoots net (seed_Domains s)
      \<and> registrationEvidence net (newRegistrationBaseline net c s) (snd x) \<noteq> []"
    and "oc_Root ` fst ` set (registrationQuestion net c s)
      \<subseteq> foundRoots net (rr_searchCT c)"
proof -
  obtain m errs where m: "searchAll net (rr_searchCT c) (knownRoots net (seed_Domains s))
      (reverseRegistrationSearchTerms net s) ([], []) = (m, errs)" by fastforce
  have ok: "searchedOK net (knownRoots net (seed_Domains s)) m" "length m \<le> 25"
    "fst ` set m \<subseteq> foundRoots net (rr_searchCT c)"
    using searchAll_ok [OF _ _ m] by (simp_all add: searchedOK_def)
  obtain cs errs' where cs: "registrationCandidates net c (newRegistrationBaseline net c s) m (sort (map fst m)) = (cs, errs')"
    by fastforce
  have q: "registrationQuestion net c s = cs" by (simp add: registrationQuestion_def m cs)
  note r = registrationCandidates_ok [OF cs]
  show "length (registrationQuestion net c s) \<le> 25" using r ok(2) by (simp add: q)
  have sub: "oc_Root ` fst ` set cs \<subseteq> fst ` set m" using r by (auto simp: image_image)
  then show "oc_Root ` fst ` set (registrationQuestion net c s)
      \<subseteq> foundRoots net (rr_searchCT c)" using ok(3) q by auto
  show "\<forall>x \<in> set (registrationQuestion net c s). oc_Root (fst x) \<noteq> [] \<and> oc_Root (fst x) \<notin> knownRoots net (seed_Domains s)
      \<and> registrationEvidence net (newRegistrationBaseline net c s) (snd x) \<noteq> []"
    unfolding q
  proof (intro ballI conjI)
    fix x assume x: "x \<in> set cs"
    then have "oc_Root (fst x) \<in> fst ` set m" using sub by auto
    with ok(1) show "oc_Root (fst x) \<noteq> []" "oc_Root (fst x) \<notin> knownRoots net (seed_Domains s)"
      unfolding searchedOK_def by blast+
    show "registrationEvidence net (newRegistrationBaseline net c s) (snd x) \<noteq> []" using r x by simp
  qed
qed

lemma registrationTurn_ok:
  assumes net: "suffixLibrary net" and "cleanSearch c"
  shows "turnOK (registrationTurn net c h)"
proof -
  have "\<forall>r \<in> foundRoots net (rr_searchCT c). CHR '','' \<notin> set r"
    using assms(2) RegistrableDomain_comma [OF net] by (auto simp: cleanSearch_def foundRoots_def)
  then have plain: "CHR '','' \<notin> set (oc_Root (fst x))" if "x \<in> set (registrationQuestion net c s)" for x s
    using registrationQuestion_spec(3) [of net c s] that by blast
  show ?thesis
    unfolding turnOK_def
  proof (intro allI impI)
    fix s :: seed and k :: "pivotWork \<Rightarrow> 'a engineState thread" and w
    assume k: "\<forall>w'. cleanPivotWork w' \<longrightarrow> thread_ok keeps (k w')" and w: "cleanPivotWork w"
    have question: "fst (registrationCandidates net c (newRegistrationBaseline net c s) m (sort (map fst m)))
        = registrationQuestion net c s"
      if "m = fst (searchAll net (rr_searchCT c) (knownRoots net (seed_Domains s)) (reverseRegistrationSearchTerms net s) ([], []))"
      for m by (simp add: registrationQuestion_def Let_def that)
    show "thread_ok keeps (registrationTurn net c h s k w)"
      unfolding registrationTurn_def Let_def split_def question [OF refl]
    proof (rule judgePivots_ok [OF net])
      show "CHR '','' \<notin> set (oc_Root q)" if "q \<in> set (or_Candidates \<lparr>or_Scenario = ''registration pivot'', or_Seed = s,
          or_Candidates = map fst (registrationQuestion net c s)\<rparr>)" for q
        using that plain by auto
      show "commaFree x" if "(if collects d p \<and> jd_Root d \<in> oc_Root ` fst ` set (registrationQuestion net c s)
          then Some (BuildDiscoveredSeed net s (jd_Root d) ''reverse-registration'', judgedEvidence d) else None) = Some (x, ev)"
        for d p x ev
      proof -
        have "jd_Root d \<in> oc_Root ` fst ` set (registrationQuestion net c s)"
          and x: "x = BuildDiscoveredSeed net s (jd_Root d) ''reverse-registration''" using that by (auto split: if_splits)
        then have "CHR '','' \<notin> set (jd_Root d)" using plain by auto
        from BuildDiscoveredSeed_commaFree [OF net this] show ?thesis by (simp add: x)
      qed
    qed (use k w in simp_all)
  qed
qed

lemma ReverseRegistration_thread_ok:
  assumes "suffixLibrary net" and "cleanSearch c"
  shows "thread_ok keeps (node_Process (ReverseRegistrationCollector net c h env))"
  unfolding ReverseRegistrationCollector_def engineNode.simps by (rule judgedProcess_ok [OF registrationTurn_ok [OF assms]])

text \<open>The option that sets the judge has no effect.\<close>

lemma judge_option_ignored:
  "rr_judge (NewReverseRegistrationCollector net esc decode lookup j0 client (opts @ [WithReverseRegistrationJudge judge]))
     = j0"
  by (simp add: NewReverseRegistrationCollector_def Let_def)

section \<open>The addresses of a prefix\<close>

text \<open>The block of a prefix: \<open>2 ^ (32 - bits)\<close> addresses from the masked one.\<close>

definition blockSize :: "ipv4Prefix \<Rightarrow> nat" where
  "blockSize p = 2 ^ (32 - pre_bits p)"

definition blockStart :: "ipv4Prefix \<Rightarrow> nat" where
  "blockStart p = unat (pre_addr p) div blockSize p * blockSize p"

lemma blockSize_pos [simp]: "0 < blockSize p"
  by (simp add: blockSize_def)

lemma unat_minus_1_word: "unat (- 1 :: 32 word) = 2 ^ 32 - 1"
  by (simp add: unsigned_minus_1_eq_mask mask_eq_exp_minus_1)

lemma unat_masked: "unat (a AND networkMask bits) = unat a div 2 ^ (32 - bits) * 2 ^ (32 - bits)"
proof -
  let ?n = "32 - bits"
  have "a AND networkMask bits = push_bit ?n (drop_bit ?n a)"
    unfolding networkMask_def by (rule bit_eqI) (auto simp: bit_simps)
  moreover have "unat (push_bit ?n (drop_bit ?n a)) = take_bit 32 (push_bit ?n (drop_bit ?n (unat a)))"
    using take_bit_nat_eq_self [of "unat a" 32] unsigned_less [of a, where ?'a = nat]
    by (simp only: unsigned_push_bit_eq unsigned_drop_bit_eq) simp
  ultimately have "unat (a AND networkMask bits) = take_bit 32 (unat a div 2 ^ ?n * 2 ^ ?n)"
    by (simp only: push_bit_nat_def drop_bit_nat_def)
  moreover have "unat a div 2 ^ ?n * 2 ^ ?n < 2 ^ 32"
    using order.strict_trans1 [OF div_times_less_eq_dividend unsigned_less [of a, where ?'a = nat]] by simp
  ultimately show ?thesis by (simp add: take_bit_nat_eq_self)
qed

lemma contains_iff: "PrefixContains p a \<longleftrightarrow> blockStart p \<le> unat a \<and> unat a < blockStart p + blockSize p"
proof -
  let ?n = "blockSize p"
  have "PrefixContains p a \<longleftrightarrow> unat a div ?n * ?n = blockStart p"
    by (simp add: PrefixContains_def word_unat_eq_iff unat_masked blockStart_def blockSize_def)
  also have "\<dots> \<longleftrightarrow> blockStart p \<le> unat a \<and> unat a < blockStart p + ?n"
  proof
    assume "unat a div ?n * ?n = blockStart p"
    moreover have "unat a mod ?n < ?n" by simp
    ultimately show "blockStart p \<le> unat a \<and> unat a < blockStart p + ?n"
      using div_mult_mod_eq [of "unat a" ?n] by (intro conjI) linarith+
  next
    assume "blockStart p \<le> unat a \<and> unat a < blockStart p + ?n"
    then have "unat a div ?n = unat (pre_addr p) div ?n"
      unfolding blockStart_def by (intro div_nat_eqI) (simp_all add: mult.commute)
    then show "unat a div ?n * ?n = blockStart p" by (simp add: blockStart_def)
  qed
  finally show ?thesis .
qed

lemma block_bound: "blockStart p + blockSize p \<le> 2 ^ 32"
proof -
  let ?n = "blockSize p"
  have "?n dvd 2 ^ 32" unfolding blockSize_def by (rule le_imp_power_dvd) simp
  then obtain k where k: "2 ^ 32 = ?n * k" by blast
  have "unat (pre_addr p) < ?n * k" using unsigned_less [of "pre_addr p", where ?'a = nat] k by simp
  then have "unat (pre_addr p) div ?n < k" by (simp add: less_mult_imp_div_less mult.commute)
  then have "(unat (pre_addr p) div ?n + 1) * ?n \<le> k * ?n" by (intro mult_le_mono1) simp
  then show ?thesis unfolding k blockStart_def by (simp add: algebra_simps)
qed

lemma enumerateFrom_block:
  assumes "blockStart p \<le> unat a" and "unat a < blockStart p + blockSize p"
  shows "enumerateFrom p n (Some a) = map of_nat [unat a ..< min (unat a + n) (blockStart p + blockSize p)]"
  using assms
proof (induction n arbitrary: a)
  case (Suc n)
  let ?stop = "blockStart p + blockSize p"
  have cons: "[unat a ..< min (unat a + Suc n) ?stop] = unat a # [Suc (unat a) ..< min (Suc (unat a) + n) ?stop]"
    using Suc.prems by (subst upt_conv_Cons) auto
  have here: "enumerateFrom p (Suc n) (Some a) = a # enumerateFrom p n (NextAddr a)"
    using Suc.prems by (simp add: contains_iff)
  show ?case
  proof (cases "a = - 1")
    case True
    then have "unat a = 2 ^ 32 - 1" by (simp add: unat_minus_1_word)
    then have "min (Suc (unat a) + n) ?stop \<le> Suc (unat a)" using block_bound [of p] by simp
    moreover have "enumerateFrom p n None = []" by (cases n) simp_all
    ultimately show ?thesis using here cons True by (simp add: NextAddr_def)
  next
    case False
    then have "a + 1 \<noteq> 0" by (simp add: eq_neg_iff_add_eq_0)
    then have "0 < unat (a + 1)" and "unat a = unat (a + 1) - 1" using unat_minus_one [of "a + 1"] by (simp_all add: unat_gt_0)
    then have succ: "unat (a + 1) = Suc (unat a)" by linarith
    show ?thesis
    proof (cases "Suc (unat a) < ?stop")
      case True
      have "enumerateFrom p n (Some (a + 1)) = map of_nat [Suc (unat a) ..< min (Suc (unat a) + n) ?stop]"
        using Suc.IH [of "a + 1"] Suc.prems True succ by simp
      then show ?thesis using here cons False by (simp add: NextAddr_def)
    next
      case last: False
      then have "\<not> PrefixContains p (a + 1)" by (simp add: contains_iff succ)
      then have "enumerateFrom p n (Some (a + 1)) = []" by (cases n) simp_all
      moreover have "[Suc (unat a) ..< min (Suc (unat a) + n) ?stop] = []" using last by simp
      ultimately show ?thesis using here cons False by (simp add: NextAddr_def)
    qed
  qed
qed simp

lemma Masked_block [simp]: "blockStart (Masked p) = blockStart p" "blockSize (Masked p) = blockSize p"
  "unat (pre_addr (Masked p)) = blockStart p"
proof -
  show size: "blockSize (Masked p) = blockSize p" by (simp add: blockSize_def Masked_def)
  show "unat (pre_addr (Masked p)) = blockStart p" by (simp add: Masked_def unat_masked blockStart_def blockSize_def)
  then show "blockStart (Masked p) = blockStart p" by (simp add: blockStart_def [of "Masked p"] size) (simp add: blockStart_def)
qed

lemma enumeratePrefixIPs_spec:
  "enumeratePrefixIPs p limit =
     map (\<lambda>n. AddrString (of_nat n)) [blockStart p ..< blockStart p + min (nat limit) (blockSize p)]"
proof (cases "limit \<le> 0")
  case False
  have "enumerateFrom (Masked p) (nat limit) (Some (pre_addr (Masked p)))
      = map of_nat [blockStart p ..< min (blockStart p + nat limit) (blockStart p + blockSize p)]"
    using enumerateFrom_block [of "Masked p" "pre_addr (Masked p)" "nat limit"] by simp
  with False show ?thesis by (simp add: enumeratePrefixIPs_def min_add_distrib_right)
qed (simp add: enumeratePrefixIPs_def)

lemma enumeratePrefixIPs_length: "length (enumeratePrefixIPs p limit) = min (nat limit) (blockSize p)"
  by (simp add: enumeratePrefixIPs_spec)

text \<open>The limit for the networks of an ASN is lost: once it is used up exactly, which is the case after two
  prefixes with the default limits, every further prefix gets the full limit of a prefix.\<close>

lemma asn_limit_lost:
  assumes "ac_maxHostsPerCIDR c = 256" and "ac_maxHostsPerASN c = 512"
    and "\<forall>cidr \<in> set cidrs. \<exists>p. ac_ParsePrefix c cidr = Some p \<and> 256 \<le> blockSize p"
  shows "length (scanPrefixes c True (ac_maxHostsPerASN c) cidrs) = 256 * length cidrs"
proof -
  have "length (scanPrefixes c True r cidrs) = 256 * length cidrs" if "r = 512 \<or> r = 256 \<or> r \<le> 0" for r
    using assms(3) that
  proof (induction cidrs arbitrary: r)
    case (Cons cidr cidrs)
    have limit: "hostLimit c True r = 256" using Cons.prems(2) assms(1) by (auto simp: hostLimit_def)
    have "length (scanPrefixes c True (r - 256) cidrs) = 256 * length cidrs"
      by (rule Cons.IH) (use Cons.prems in auto)
    with Cons.prems limit show ?case by (auto simp: enumeratePrefixIPs_length min_def Let_def)
  qed simp
  then show ?thesis using assms(2) by simp
qed

text \<open>Of one prefix no more than its limit is visited.\<close>

lemma hostLimit_le: "hostLimit c hasASN remaining \<le> ac_maxHostsPerCIDR c"
  by (simp add: hostLimit_def)

section \<open>The networks of a seed\<close>

text \<open>The resolver gives names in presentation format, without commas.\<close>

definition plainNames :: "asnCIDRCollector \<Rightarrow> bool" where
  "plainNames c \<longleftrightarrow> (\<forall>ip names. ac_ptrLookup c ip = Inr names \<longrightarrow> (\<forall>n \<in> set names. CHR '','' \<notin> set n))"

lemma noteName_roots:
  "fst ` set (nn_roots (noteName net name nn))
     \<subseteq> insert (RegistrableDomain net (NormalizeDomainIdentifier name)) (fst ` set (nn_roots nn))"
  unfolding noteName_def Let_def split_def by (simp add: keys_update subset_insertI)

lemma noteNames_roots:
  "fst ` set (nn_roots (fold (noteName net) names nn))
     \<subseteq> (\<lambda>n. RegistrableDomain net (NormalizeDomainIdentifier n)) ` set names \<union> fst ` set (nn_roots nn)"
proof (induction names arbitrary: nn)
  case (Cons name names)
  from Cons.IH [of "noteName net name nn"] noteName_roots [of net name nn] show ?case by auto
qed simp

lemma ball_subset_image: "S \<subseteq> f ` A \<Longrightarrow> \<forall>n \<in> A. P (f n) \<Longrightarrow> \<forall>r \<in> S. P r"
  by blast

lemma scanNames_plain:
  assumes "suffixLibrary net" and "plainNames c"
  shows "\<forall>r \<in> fst ` set (nn_roots (scanNames net c s)). CHR '','' \<notin> set r"
proof -
  let ?names = "concat (map (\<lambda>ip. case ac_ptrLookup c ip of Inl _ \<Rightarrow> [] | Inr names \<Rightarrow> names) (scannedIPs c s))"
  have "CHR '','' \<notin> set n" if "n \<in> set ?names" for n
    using that assms(2) unfolding plainNames_def by (auto split: sum.splits) (metis)
  then have "\<forall>n \<in> set ?names. CHR '','' \<notin> set (RegistrableDomain net (NormalizeDomainIdentifier n))"
    by (intro ballI RegistrableDomain_comma NormalizeDomainIdentifier_comma assms)
  moreover have "fst ` set (nn_roots (scanNames net c s)) \<subseteq> (\<lambda>n. RegistrableDomain net (NormalizeDomainIdentifier n)) ` set ?names"
    using noteNames_roots [of net ?names "\<lparr>nn_hosts = [], nn_roots = []\<rparr>"]
    by (simp only: scanNames_def networkNames.simps list.set image_empty Un_empty_right)
  ultimately show ?thesis by (rule ball_subset_image [rotated])
qed

definition fairMapOrder :: "(string list \<Rightarrow> string list) \<Rightarrow> bool" where
  "fairMapOrder order \<longleftrightarrow> (\<forall>ks. mset (order ks) = mset ks)"

lemma fairMapOrder_set: "fairMapOrder order \<Longrightarrow> set (order ks) = set ks"
  by (metis fairMapOrder_def mset_eq_setD)

lemma networkCandidates_roots:
  "fairMapOrder (ac_mapOrder c) \<Longrightarrow> oc_Root ` set (networkCandidates c nn) = fst ` set (nn_roots nn)"
proof -
  assume fair: "fairMapOrder (ac_mapOrder c)"
  have "map oc_Root (networkCandidates c nn) = ac_mapOrder c (map fst (nn_roots nn))"
    by (auto simp: networkCandidates_def comp_def intro!: map_idI split: option.split)
  then show ?thesis using fairMapOrder_set [OF fair] by (metis list.set_map)
qed

lemma networkTurn_ok:
  assumes net: "suffixLibrary net" and "plainNames c" and "fairMapOrder (ac_mapOrder c)" and "answersCandidates (ac_judge c)"
  shows "turnOK (networkTurn net c h)"
  unfolding turnOK_def
proof (intro allI impI)
  fix s :: seed and k :: "pivotWork \<Rightarrow> 'a engineState thread" and w
  assume k: "\<forall>w'. cleanPivotWork w' \<longrightarrow> thread_ok keeps (k w')" and w: "cleanPivotWork w"
  let ?nn = "scanNames net c s"
  let ?request = "\<lparr>or_Scenario = ''network ptr pivot'', or_Seed = s, or_Candidates = networkCandidates c ?nn\<rparr>"
  have plain: "CHR '','' \<notin> set r" if "r \<in> oc_Root ` set (networkCandidates c ?nn)" for r
    using that scanNames_plain [OF net assms(2), of s] networkCandidates_roots [OF assms(3)] by blast
  show "thread_ok keeps (networkTurn net c h s k w)"
    unfolding networkTurn_def Let_def split_def
  proof (rule judgePivots_ok [OF net])
    show "CHR '','' \<notin> set (oc_Root q)" if "q \<in> set (or_Candidates ?request)" for q
      using that plain by simp
    show "commaFree x" if "ac_judge c = Some j" "j ?request = Inr ds" "d \<in> set ds"
      "(if collects d p then Some (BuildDiscoveredSeed net s (jd_Root d) ''asn-cidr-pivot'', judgedEvidence d) else None)
         = Some (x, ev)" for j ds d p x ev
    proof -
      have "jd_Root d \<in> oc_Root ` set (networkCandidates c ?nn)"
        using answersCandidatesD [OF assms(4) that(1-3)] by auto
      from BuildDiscoveredSeed_commaFree [OF net plain [OF this]] that(4) show ?thesis by (auto split: if_splits)
    qed
  qed (use k w in simp_all)
qed

lemma ASNCIDR_thread_ok:
  assumes "suffixLibrary net" and "plainNames c" and "fairMapOrder (ac_mapOrder c)" and "answersCandidates (ac_judge c)"
  shows "thread_ok keeps (node_Process (ASNCIDRCollector net c h env))"
  unfolding ASNCIDRCollector_def engineNode.simps by (rule judgedProcess_ok [OF networkTurn_ok [OF assms]])

end
