(* ===== verification/Sitemap_Facts.thy ===== *)
theory Sitemap_Facts
  imports Sitemap_Collector Pivot_Collector_Facts
begin

text \<open>
  What the sitemap collector reads and asks is bounded, whatever the sites answer: the documents, the
  pages, the roots and their samples. It reports hosts under the roots of the seed only and asks about
  other roots only. It is a stage as the engine needs them when no URL names a host with a comma.
\<close>

section \<open>The invariant of the work\<close>

definition rootsOK :: "netLibrary \<Rightarrow> sitemapCollector \<Rightarrow> string set \<Rightarrow> (string \<times> sitemapRootCandidate) list \<Rightarrow> bool" where
  "rootsOK net c scope m \<longleftrightarrow>
     distinct (map fst m) \<and> int (length m) \<le> max 0 (sm_maxJudgeCandidates c)
   \<and> (\<forall>r \<in> fst ` set m. r \<noteq> [] \<and> r \<notin> scope \<and> (\<exists>url. r = RegistrableDomain net (sitemapURLHost net (sm_urls c) url)))
   \<and> (\<forall>x \<in> snd ` set m. int (length (sc_samples x)) \<le> max 0 (sm_maxSamples c))"

definition docsOK :: "sitemapCollector \<Rightarrow> sitemapWork \<Rightarrow> bool" where
  "docsOK c w \<longleftrightarrow> int (length (sw_seenDocs w) + length (sw_queue w)) \<le> max 0 (sm_maxDocs c) \<and> distinct (sw_seenDocs w)"

definition sitemapOK :: "netLibrary \<Rightarrow> sitemapCollector \<Rightarrow> string set \<Rightarrow> sitemapWork \<Rightarrow> bool" where
  "sitemapOK net c scope w \<longleftrightarrow>
     docsOK c w \<and> int (length (sw_seenPages w)) \<le> max 0 (sm_maxURLs c) \<and> rootsOK net c scope (sw_candidates w)
   \<and> (\<forall>h \<in> set (sw_hosts w). RegistrableDomain net h \<in> scope)"

lemma sitemapOK_frame:
  assumes "sitemapOK net c scope w" and "docsOK c w'" and "sw_seenPages w' = sw_seenPages w"
    and "sw_candidates w' = sw_candidates w" and "sw_hosts w' = sw_hosts w"
  shows "sitemapOK net c scope w'"
  using assms by (simp add: sitemapOK_def)

lemma sitemapErrors_ok: "sitemapOK net c scope w \<Longrightarrow> sitemapOK net c scope (sitemapErrors es w)"
  by (simp add: sitemapOK_def docsOK_def sitemapErrors_def)

lemma enqueue_ok:
  assumes "sitemapOK net c scope w" shows "sitemapOK net c scope (enqueueSitemapDoc c base raw w)"
proof (rule sitemapOK_frame [OF assms])
  have "docsOK c w" using assms by (simp add: sitemapOK_def)
  then show "docsOK c (enqueueSitemapDoc c base raw w)" by (auto simp: docsOK_def enqueueSitemapDoc_def Let_def)
qed (simp_all add: enqueueSitemapDoc_def Let_def)

lemma enqueues_ok: "sitemapOK net c scope w \<Longrightarrow> sitemapOK net c scope (fold (enqueueSitemapDoc c base) raws w)"
  by (induction raws arbitrary: w) (simp_all add: enqueue_ok)

lemma addSample_length:
  "int (length (sc_samples x)) \<le> max 0 limit \<Longrightarrow> int (length (sc_samples (addSample raw limit x))) \<le> max 0 limit"
  by (auto simp: addSample_def Let_def)

lemma addDocument_samples [simp]: "sc_samples (addDocument d x) = sc_samples x"
  by (simp add: addDocument_def Let_def)

lemma values_update: "distinct (map fst m) \<Longrightarrow> snd ` set (AList.update k v m) \<subseteq> insert v (snd ` set m)"
  by (induction m) auto

lemma insert_ball: "S \<subseteq> insert v T \<Longrightarrow> P v \<Longrightarrow> \<forall>x \<in> T. P x \<Longrightarrow> \<forall>y \<in> S. P y"
  by blast

lemma noteRoot_roots:
  assumes "rootsOK net c scope (sw_candidates w)" and "r \<noteq> []" and "r \<notin> scope"
    and "r = RegistrableDomain net (sitemapURLHost net (sm_urls c) url)"
  shows "rootsOK net c scope (sw_candidates (noteRoot c r d url w))"
proof (cases "map_of (sw_candidates w) r")
  case None
  then have "r \<notin> fst ` set (sw_candidates w)" by (simp add: map_of_eq_None_iff)
  with assms None show ?thesis
    by (auto simp: noteRoot_def rootsOK_def addSample_length newSitemapRootCandidate_def)
next
  case (Some x)
  have mem: "(r, x) \<in> set (sw_candidates w)" by (rule map_of_SomeD [OF Some])
  let ?x = "addSample url (sm_maxSamples c) (addDocument d x)"
  let ?m = "AList.update r ?x (sw_candidates w)"
  have keys: "map fst ?m = map fst (sw_candidates w)"
    using mem by (simp add: update_keys image_iff) (metis fst_conv)
  have "int (length (sc_samples ?x)) \<le> max 0 (sm_maxSamples c)"
    using assms(1) mem by (intro addSample_length) (auto simp: rootsOK_def)
  then have "\<forall>y \<in> snd ` set ?m. int (length (sc_samples y)) \<le> max 0 (sm_maxSamples c)"
    using assms(1) unfolding rootsOK_def
    by (intro insert_ball [OF values_update, where P = "\<lambda>y. int (length (sc_samples y)) \<le> max 0 (sm_maxSamples c)"])
      (elim conjE, assumption)+
  moreover have "length ?m = length (sw_candidates w)" "fst ` set ?m = fst ` set (sw_candidates w)"
    using keys by (metis length_map) (metis keys list.set_map)
  ultimately have "rootsOK net c scope ?m" using assms(1) keys unfolding rootsOK_def by simp
  with Some show ?thesis by (simp add: noteRoot_def)
qed

lemma observed_ok:
  assumes "sitemapOK net c scope w" shows "sitemapOK net c scope (addObservedURL net c scope d raw w)"
proof -
  let ?url = "normalizeSitemapURL (sm_urls c) raw None"
  let ?host = "sitemapURLHost net (sm_urls c) ?url"
  have fields: "sw_seenPages (noteRoot c r d u x) = sw_seenPages x" "sw_hosts (noteRoot c r d u x) = sw_hosts x"
    "sw_seenDocs (noteRoot c r d u x) = sw_seenDocs x" "sw_queue (noteRoot c r d u x) = sw_queue x" for r u x
    by (simp_all add: noteRoot_def split: option.split)
  show ?thesis
    using assms noteRoot_roots [of net c scope "w\<lparr>sw_seenPages := sw_seenPages w @ [?url]\<rparr>" "RegistrableDomain net ?host" ?url d]
    by (auto simp: addObservedURL_def sitemapOK_def docsOK_def Let_def fields)
qed

lemma observeds_ok:
  "sitemapOK net c scope w \<Longrightarrow> sitemapOK net c scope (fold (\<lambda>loc. addObservedURL net c scope d (g loc)) locs w)"
  by (induction locs arbitrary: w) (simp_all add: observed_ok)

lemma readDocument_ok:
  assumes "sitemapOK net c scope (w\<lparr>sw_seenDocs := sw_seenDocs w @ [d]\<rparr>)"
  shows "sitemapOK net c scope (readDocument net c scope d final body w)"
  unfolding readDocument_def Let_def
  by (auto intro!: sitemapErrors_ok enqueues_ok observeds_ok assms split: sum.split prod.split)

lemma readSitemaps_ok: "sitemapOK net c scope w \<Longrightarrow> sitemapOK net c scope (readSitemaps net c scope w)"
proof (induction net c scope w rule: readSitemaps.induct)
  case (1 net c scope w)
  show ?case
  proof (cases "sw_queue w")
    case (Cons doc queue)
    let ?w1 = "w\<lparr>sw_queue := queue\<rparr>"
    have w1: "sitemapOK net c scope ?w1"
      by (rule sitemapOK_frame [OF 1(4)]) (use 1(4) Cons in \<open>auto simp: sitemapOK_def docsOK_def\<close>)
    show ?thesis
    proof (cases "int (length (sw_seenDocs w)) \<ge> sm_maxDocs c")
      case False
      show ?thesis
      proof (cases "fetchURL c doc")
        case (Inl e)
        have "sitemapOK net c scope (readSitemaps net c scope (sitemapErrors [e] ?w1))"
          by (rule 1(1) [OF Cons False refl Inl sitemapErrors_ok [OF w1]])
        then show ?thesis using Cons False Inl by (simp add: readSitemaps.simps [of net c scope w])
      next
        case (Inr x)
        obtain body final where x: "x = (body, final)" by fastforce
        let ?nd = "normalizeSitemapURL (sm_urls c) (ul_String (sm_urls c) final) None"
        let ?document = "if ?nd = [] then doc else ?nd"
        show ?thesis
        proof (cases "?document \<in> set (sw_seenDocs ?w1)")
          case True
          have "sitemapOK net c scope (readSitemaps net c scope ?w1)"
            by (rule 1(2) [OF Cons False refl Inr [unfolded x] refl refl refl True w1])
          then show ?thesis using Cons False Inr x True by (simp add: readSitemaps.simps [of net c scope w] Let_def)
        next
          case new: False
          have "sitemapOK net c scope (?w1\<lparr>sw_seenDocs := sw_seenDocs ?w1 @ [?document]\<rparr>)"
            by (rule sitemapOK_frame [OF w1]) (use 1(4) Cons new in \<open>auto simp: sitemapOK_def docsOK_def\<close>)
          from readDocument_ok [OF this]
          have "sitemapOK net c scope (readSitemaps net c scope (readDocument net c scope ?document final body ?w1))"
            by (rule 1(3) [OF Cons False refl Inr [unfolded x] refl refl refl new])
          then show ?thesis using Cons False Inr x new by (simp add: readSitemaps.simps [of net c scope w] Let_def)
        qed
      qed
    qed (use 1(4) Cons in \<open>simp add: readSitemaps.simps [of net c scope w]\<close>)
  qed (use 1(4) in \<open>simp add: readSitemaps.simps [of net c scope w]\<close>)
qed

lemma startTarget_ok: "sitemapOK net c scope w \<Longrightarrow> sitemapOK net c scope (startTarget c t w)"
  by (auto simp: startTarget_def intro!: sitemapErrors_ok enqueues_ok enqueue_ok split: prod.split targetKind.split sum.split)

lemma crawlSitemaps_ok: "sitemapOK net c (scopeRoots net s) (crawlSitemaps net c s)"
proof -
  have "sitemapOK net c (scopeRoots net s) (fold (startTarget c) ts w)" if "sitemapOK net c (scopeRoots net s) w" for ts w
    using that by (induction ts arbitrary: w) (simp_all add: startTarget_ok)
  note start = this
  show ?thesis
    unfolding crawlSitemaps_def by (rule readSitemaps_ok, rule start) (simp add: sitemapOK_def docsOK_def rootsOK_def)
qed

section \<open>The question\<close>

lemma sitemapQuestion_roots: "oc_Root ` set (sitemapQuestion sw) \<subseteq> fst ` set (sw_candidates sw)"
proof
  fix r assume "r \<in> oc_Root ` set (sitemapQuestion sw)"
  then obtain q where "q \<in> set (sitemapQuestion sw)" and r: "r = oc_Root q" by blast
  then obtain r' where r': "r' \<in> set (map fst (sw_candidates sw))"
    and q: "q \<in> set (case map_of (sw_candidates sw) r' of None \<Rightarrow> []
          | Some x \<Rightarrow> if sitemapEvidence x = [] then [] else [\<lparr>oc_Root = r', oc_Evidence = sitemapEvidence x\<rparr>])"
    unfolding sitemapQuestion_def set_concat set_map set_sort by blast
  from q have "oc_Root q = r'" by (cases "map_of (sw_candidates sw) r'") (simp_all split: if_splits)
  with r r' show "r \<in> fst ` set (sw_candidates sw)" by simp
qed

text \<open>No URL names a host with a comma.\<close>

definition plainHosts :: "urlLibrary \<Rightarrow> bool" where
  "plainHosts ul \<longleftrightarrow> (\<forall>u. CHR '','' \<notin> set (ul_Hostname ul u))"

lemma sitemapURLHost_plain:
  assumes "plainHosts ul" shows "CHR '','' \<notin> set (sitemapURLHost net ul raw)"
proof -
  have "CHR '','' \<notin> set (case ul_Parse ul (TrimSpace raw) of None \<Rightarrow> [] | Some u \<Rightarrow> NormalizeDomainIdentifier (ul_Hostname ul u))"
    using assms by (simp add: plainHosts_def comma_normalized split: option.split)
  moreover have "CHR '','' \<notin> set (case ExtractDomainCandidates net raw of [] \<Rightarrow> [] | c # _ \<Rightarrow> c)"
    using extracted_plain [of _ net raw] by (cases "ExtractDomainCandidates net raw") simp_all
  ultimately show ?thesis by (simp add: sitemapURLHost_def Let_def)
qed

lemma sitemapTurn_ok:
  assumes net: "suffixLibrary net" and "plainHosts (sm_urls c)" and "answersCandidates (sm_judge c)"
  shows "turnOK (sitemapTurn net c h)"
  unfolding turnOK_def
proof (intro allI impI)
  fix s :: seed and k :: "pivotWork \<Rightarrow> 'a engineState thread" and w
  assume k: "\<forall>w'. cleanPivotWork w' \<longrightarrow> thread_ok keeps (k w')" and w: "cleanPivotWork w"
  let ?sw = "crawlSitemaps net c s"
  let ?request = "\<lparr>or_Scenario = ''sitemap host pivot'', or_Seed = s, or_Candidates = sitemapQuestion ?sw\<rparr>"
  have plain: "CHR '','' \<notin> set r" if "r \<in> oc_Root ` set (sitemapQuestion ?sw)" for r
  proof -
    have "r \<in> fst ` set (sw_candidates ?sw)" using that sitemapQuestion_roots by blast
    then obtain url where "r = RegistrableDomain net (sitemapURLHost net (sm_urls c) url)"
      using crawlSitemaps_ok [of net c s] unfolding sitemapOK_def rootsOK_def by blast
    with RegistrableDomain_comma [OF net sitemapURLHost_plain [OF assms(2)]] show ?thesis by simp
  qed
  show "thread_ok keeps (sitemapTurn net c h s k w)"
  proof (cases "scopeRoots net s = {}")
    case True
    then show ?thesis using k w by (simp add: sitemapTurn_def split_def Let_def)
  next
    case False
    show ?thesis
      unfolding sitemapTurn_def Let_def split_def if_not_P [OF False]
    proof (rule judgePivots_ok [OF net])
      show "CHR '','' \<notin> set (oc_Root q)" if "q \<in> set (or_Candidates ?request)" for q
        using that plain by simp
      show "commaFree x" if "sm_judge c = Some j" "j ?request = Inr ds" "d \<in> set ds"
        "(if collects d p \<and> RegistrableDomain net (jd_Root d) \<noteq> []
          then Some (sitemapSeed net s d (RegistrableDomain net (jd_Root d)),
                     judgedEvidence d\<lparr>ev_Value := RegistrableDomain net (jd_Root d)\<rparr>) else None) = Some (x, ev)"
        for j ds d p x ev
      proof -
        have "jd_Root d \<in> oc_Root ` set (sitemapQuestion ?sw)"
          using answersCandidatesD [OF assms(3) that(1-3)] by auto
        from BuildDiscoveredSeed_commaFree [OF net RegistrableDomain_comma [OF net plain [OF this]]] that(4) show ?thesis
          by (auto simp: sitemapSeed_def commaFree_def Let_def split: if_splits)
      qed
    qed (use k w in simp_all)
  qed
qed

lemma Sitemap_thread_ok:
  assumes "suffixLibrary net" and "plainHosts (sm_urls c)" and "answersCandidates (sm_judge c)"
  shows "thread_ok keeps (node_Process (SitemapCollector net c h env))"
  unfolding SitemapCollector_def engineNode.simps by (rule judgedProcess_ok [OF sitemapTurn_ok [OF assms]])

end
