(* ===== verification/Crawler_Facts.thy ===== *)
theory Crawler_Facts
  imports Crawler_Collector Sitemap_Facts DNS_Facts
begin

text \<open>
  The crawl of a seed is bounded by the limits of the collector, whatever the pages contain: the pages it
  reads, the requests it makes, the roots it puts to the judge. The collector is a stage as the engine
  needs them when no URL names a host with a comma.
\<close>

section \<open>The links of a page\<close>

definition plainLink :: "crawlLink \<Rightarrow> bool" where
  "plainLink l \<longleftrightarrow> CHR '','' \<notin> set (cl_TargetHost l) \<and> CHR '','' \<notin> set (cl_TargetRoot l)"

definition linksOK :: "int \<Rightarrow> linkWork \<Rightarrow> bool" where
  "linksOK maxLinks w \<longleftrightarrow> (maxLinks > 0 \<longrightarrow> int (length (lw_links w)) \<le> maxLinks)"

lemma visitNode_ok: "\<not> linksFull maxLinks w \<Longrightarrow> linksOK maxLinks (visitNode c base src depth n w)"
  by (auto simp: visitNode_def linksOK_def linksFull_def Let_def split: htmlNode.split)

lemma walk_ok:
  "linksOK maxLinks w \<Longrightarrow> linksOK maxLinks (walkNode c base src depth maxLinks n w)"
  "linksOK maxLinks w \<Longrightarrow> linksOK maxLinks (walkNodes c base src depth maxLinks ns w)"
  by (induction c base src depth maxLinks n w and c base src depth maxLinks ns w rule: walkNode_walkNodes.induct)
    (simp_all add: visitNode_ok Let_def)

lemma crawlerHost_plain: "plainHosts (cr_urls c) \<Longrightarrow> CHR '','' \<notin> set (crawlerHost c raw)"
  by (auto simp: crawlerHost_def plainHosts_def comma_normalized split: option.splits)

lemma visitNode_plain:
  assumes "suffixLibrary (cr_net c)" and "plainHosts (cr_urls c)" and "\<forall>l \<in> set (lw_links w). plainLink l"
  shows "\<forall>l \<in> set (lw_links (visitNode c base src depth n w)). plainLink l"
proof -
  have "CHR '','' \<notin> set (crawlerHost c u)" "CHR '','' \<notin> set (RegistrableDomain (cr_net c) (crawlerHost c u))" for u
    using crawlerHost_plain [OF assms(2)] by (auto dest!: RegistrableDomain_comma [OF assms(1), rotated])
  with assms(3) show ?thesis
    by (auto simp: visitNode_def plainLink_def Let_def split: htmlNode.split)
qed

lemma walk_plain:
  assumes "suffixLibrary (cr_net c)" and "plainHosts (cr_urls c)"
  shows "\<forall>l \<in> set (lw_links w). plainLink l \<Longrightarrow> \<forall>l \<in> set (lw_links (walkNode c base src depth maxLinks n w)). plainLink l"
    and "\<forall>l \<in> set (lw_links w). plainLink l \<Longrightarrow> \<forall>l \<in> set (lw_links (walkNodes c base src depth maxLinks ns w)). plainLink l"
  using assms
proof (induction c base src depth maxLinks n w and c base src depth maxLinks ns w rule: walkNode_walkNodes.induct)
  case (2 c base src depth maxLinks tag attrs ns w)
  then show ?case using visitNode_plain [OF 2(3,4,2)] by simp
qed (simp_all add: Let_def)

lemma extracted_links:
  assumes "extractCrawlerLinks c base body depth maxLinks = Inr (title, ls)"
  shows "maxLinks > 0 \<Longrightarrow> int (length ls) \<le> maxLinks"
    and "suffixLibrary (cr_net c) \<Longrightarrow> plainHosts (cr_urls c) \<Longrightarrow> \<forall>l \<in> set ls. plainLink l"
proof -
  let ?w0 = "\<lparr>lw_title = [], lw_links = [], lw_seen = []\<rparr>"
  consider "ls = []" | doc where
      "ls = map (\<lambda>l. l\<lparr>cl_SourceTitle := title\<rparr>) (lw_links
         (walkNode c base (normalizeCrawlerURL c (ul_String (cr_urls c) base)) depth maxLinks doc ?w0))"
    using assms by (auto simp: extractCrawlerLinks_def Let_def split: if_splits sum.splits)
  note ls = this
  show "int (length ls) \<le> maxLinks" if "maxLinks > 0"
    using ls
  proof cases
    case 2
    then show ?thesis
      using that walk_ok(1) [of maxLinks ?w0 c base "normalizeCrawlerURL c (ul_String (cr_urls c) base)" depth doc]
      by (simp add: linksOK_def)
  qed (use that in simp)
  show "\<forall>l \<in> set ls. plainLink l" if "suffixLibrary (cr_net c)" "plainHosts (cr_urls c)"
    using ls
  proof cases
    case 2
    then show ?thesis
      using walk_plain(1) [OF that, of ?w0 base "normalizeCrawlerURL c (ul_String (cr_urls c) base)" depth maxLinks doc]
      by (simp add: plainLink_def)
  qed simp
qed

lemma fetched_links:
  assumes "defaultFetchPage c item = Inr page"
  shows "cr_maxLinksPerPage c > 0 \<Longrightarrow> int (length (cp_Links page)) \<le> cr_maxLinksPerPage c"
    and "suffixLibrary (cr_net c) \<Longrightarrow> plainHosts (cr_urls c) \<Longrightarrow> \<forall>l \<in> set (cp_Links page). plainLink l"
proof -
  consider "cp_Links page = []" | final body title where
      "extractCrawlerLinks c final body (qi_Depth item) (cr_maxLinksPerPage c) = Inr (title, cp_Links page)"
    using assms by (auto simp: defaultFetchPage_def Let_def split: if_splits sum.splits option.splits)
  note links = this
  show "int (length (cp_Links page)) \<le> cr_maxLinksPerPage c" if "cr_maxLinksPerPage c > 0"
    using links by cases (use that extracted_links(1) in auto)
  show "\<forall>l \<in> set (cp_Links page). plainLink l" if "suffixLibrary (cr_net c)" "plainHosts (cr_urls c)"
    using links by cases (use that extracted_links(2) in auto)
qed

section \<open>The crawl\<close>

text \<open>What holds of the work when the loop is left, when every turn of the loop keeps it.\<close>

lemma crawlPages_invariant:
  assumes drop: "\<And>w item queue. P w \<Longrightarrow> cw_queue w = item # queue \<Longrightarrow> P (w\<lparr>cw_queue := queue\<rparr>)"
    and fail: "\<And>w item queue es. P w \<Longrightarrow> cw_queue w = item # queue \<Longrightarrow> qi_URL item \<notin> set (cw_visited w)
       \<Longrightarrow> P (w\<lparr>cw_queue := queue, cw_visited := qi_URL item # cw_visited w, cw_errors := es\<rparr>)"
    and page: "\<And>w item queue page. P w \<Longrightarrow> cw_queue w = item # queue \<Longrightarrow> qi_URL item \<notin> set (cw_visited w)
       \<Longrightarrow> cw_pagesFetched w < cq_MaxPages q \<Longrightarrow> defaultFetchPage c item = Inr page
       \<Longrightarrow> P (readPage c q item page (w\<lparr>cw_queue := queue, cw_visited := qi_URL item # cw_visited w\<rparr>))"
    and "P w"
  shows "P (crawlPages c q w)"
  using drop fail page \<open>P w\<close>
proof (induction c q w rule: crawlPages.induct)
  case (1 c q w)
  note drop = 1(4) and fail = 1(5) and page = 1(6) and P = 1(7)
  show ?case
  proof (cases "cw_queue w")
    case (Cons item queue)
    let ?w1 = "w\<lparr>cw_queue := queue\<rparr>"
    let ?w2 = "w\<lparr>cw_queue := queue, cw_visited := qi_URL item # cw_visited w\<rparr>"
    note unroll = crawlPages.simps [of c q w] Cons
    show ?thesis
    proof (cases "cq_MaxPages q \<le> cw_pagesFetched w")
      case False
      show ?thesis
      proof (cases "qi_URL item \<in> set (cw_visited w)")
        case True
        have "P (crawlPages c q ?w1)"
          by (rule 1(1) [OF Cons False refl]) (use True drop fail page drop [OF P Cons] in \<open>simp_all\<close>)
        then show ?thesis using False True by (simp add: unroll)
      next
        case new: False
        show ?thesis
        proof (cases "defaultFetchPage c item")
          case (Inl e)
          have "P (crawlPages c q (?w2\<lparr>cw_errors := cw_errors ?w2 @ [e]\<rparr>))"
            by (rule 1(2) [OF Cons False refl _ _ Inl]) (use new drop fail page fail [OF P Cons new] in \<open>simp_all\<close>)
          then show ?thesis using False new Inl by (simp add: unroll)
        next
          case (Inr x)
          have "P (crawlPages c q (readPage c q item x ?w2))"
            by (rule 1(3) [OF Cons False refl _ _ Inr]) (use new False drop fail page page [OF P Cons new _ Inr] in \<open>simp_all\<close>)
          then show ?thesis using False new Inr by (simp add: unroll)
        qed
      qed
    qed (use P in \<open>simp add: unroll\<close>)
  qed (use P in \<open>simp add: crawlPages.simps [of c q w]\<close>)
qed

text \<open>The requests made or waiting, and the roots found, grow by one with a link.\<close>

definition crawlLoad :: "crawlWork \<Rightarrow> nat" where
  "crawlLoad w = length (cw_visited w) + length (cw_queue w)"

lemma fold_grows:
  fixes f :: "'w \<Rightarrow> nat"
  assumes "\<And>x w. f (g x w) \<le> f w + 1"
  shows "f (fold g xs w) \<le> f w + length xs"
proof (induction xs arbitrary: w)
  case (Cons x xs)
  show ?case using Cons [of "g x w"] assms [of x w] by simp
qed simp

lemma length_update: "length (AList.update k v m) \<le> Suc (length m)"
  by (induction m) auto

lemma enqueueLink_fields [simp]:
  "cw_visited (enqueueLink url depth w) = cw_visited w" "cw_outbound (enqueueLink url depth w) = cw_outbound w"
  by (simp_all add: enqueueLink_def)

lemma followLink_visited [simp]: "cw_visited (followLink c q item u l w) = cw_visited w"
  by (simp add: followLink_def Let_def)

lemma followLinks_visited [simp]: "cw_visited (fold (followLink c q item u) ls w) = cw_visited w"
  by (induction ls arbitrary: w) simp_all

lemma readPage_visited [simp]: "cw_visited (readPage c q item page w) = cw_visited w"
  by (simp add: readPage_def Let_def)

lemma followLink_load: "crawlLoad (followLink c q item u l w) \<le> crawlLoad w + 1"
  by (simp add: followLink_def enqueueLink_def crawlLoad_def Let_def)

lemma captured_length: "length (captureCrawlerCandidate net l n m) \<le> length m + 1"
  by (simp add: captureCrawlerCandidate_def length_update Let_def)

lemma captured_distinct: "distinct (map fst m) \<Longrightarrow> distinct (map fst (captureCrawlerCandidate net l n m))"
  by (simp add: captureCrawlerCandidate_def distinct_update Let_def)

lemma followLink_outbound: "length (cw_outbound (followLink c q item u l w)) \<le> length (cw_outbound w) + 1"
  using captured_length by (simp add: followLink_def Let_def)

definition itemOK :: "crawlRequest \<Rightarrow> crawlerQueueItem \<Rightarrow> bool" where
  "itemOK q item \<longleftrightarrow> qi_Depth item \<le> max 0 (cq_MaxDepth q)"

definition shapeOK :: "crawlRequest \<Rightarrow> crawlWork \<Rightarrow> bool" where
  "shapeOK q w \<longleftrightarrow> (\<forall>item \<in> set (cw_queue w). itemOK q item) \<and> distinct (map fst (cw_outbound w)) \<and> distinct (cw_visited w)"

lemma followLink_shape: "shapeOK q w \<Longrightarrow> shapeOK q (followLink c q item u l w)"
  by (auto simp: followLink_def enqueueLink_def shapeOK_def itemOK_def captured_distinct Let_def)

lemma followLinks_shape: "shapeOK q w \<Longrightarrow> shapeOK q (fold (followLink c q item u) ls w)"
  by (induction ls arbitrary: w) (simp_all add: followLink_shape)

lemma readPage_cases:
  obtains (outside) w1 u where
      "readPage c q item page w = w1\<lparr>cw_outbound := captureCrawlerCandidate (cr_net c)
         (redirectLink item u (crawlerHost c u) (RegistrableDomain (cr_net c) (crawlerHost c u)))
         (cr_maxSamplesPerRoot c) (cw_outbound w)\<rparr>"
      "cw_visited w1 = cw_visited w" "cw_queue w1 = cw_queue w" "cw_outbound w1 = cw_outbound w"
  | (inside) w1 u where "readPage c q item page w = fold (followLink c q item u) (cp_Links page) w1"
      "cw_visited w1 = cw_visited w" "cw_queue w1 = cw_queue w" "cw_outbound w1 = cw_outbound w"
proof -
  let ?w = "w\<lparr>cw_pagesFetched := cw_pagesFetched w + 1\<rparr>"
  define u where "u = normalizeCrawlerURL c (FirstNonEmpty [cp_FinalURL page, cp_URL page, qi_URL item])"
  let ?host = "crawlerHost c u" and ?root = "RegistrableDomain (cr_net c) (crawlerHost c u)"
  define w1 where "w1 = (if ?host \<noteq> [] \<and> ?root \<noteq> [] \<and> ?root \<in> set (cq_ScopeRoots q) \<and> ?host \<noteq> ?root
    then ?w\<lparr>cw_internalHosts := List.insert ?host (cw_internalHosts ?w)\<rparr> else ?w)"
  have same: "cw_visited w1 = cw_visited w" "cw_queue w1 = cw_queue w" "cw_outbound w1 = cw_outbound w"
    by (simp_all add: w1_def)
  have "readPage c q item page w = (if ?root \<noteq> [] \<and> ?root \<notin> set (cq_ScopeRoots q)
     then w1\<lparr>cw_outbound := captureCrawlerCandidate (cr_net c) (redirectLink item u ?host ?root)
                   (cr_maxSamplesPerRoot c) (cw_outbound w1)\<rparr>
     else fold (followLink c q item u) (cp_Links page) w1)"
    unfolding readPage_def Let_def u_def [symmetric] w1_def [symmetric] by (rule refl)
  with same outside [where ?w1.0 = w1 and u = u] inside [where ?w1.0 = w1 and u = u] show thesis
    by (cases "?root \<noteq> [] \<and> ?root \<notin> set (cq_ScopeRoots q)") simp_all
qed

lemma readPage_shape: "shapeOK q w \<Longrightarrow> shapeOK q (readPage c q item page w)"
proof (rule readPage_cases [of c q item page w])
  fix w1 u assume "shapeOK q w" "readPage c q item page w = fold (followLink c q item u) (cp_Links page) w1"
    "cw_visited w1 = cw_visited w" "cw_queue w1 = cw_queue w" "cw_outbound w1 = cw_outbound w"
  with followLinks_shape [of q w1 c item u] show "shapeOK q (readPage c q item page w)" by (simp add: shapeOK_def)
qed (simp add: shapeOK_def captured_distinct)

lemma readPage_grows:
  "crawlLoad (readPage c q item page w) \<le> crawlLoad w + length (cp_Links page)"
  "length (cw_outbound (readPage c q item page w)) \<le> length (cw_outbound w) + max 1 (length (cp_Links page))"
proof -
  have load: "crawlLoad (fold (followLink c q item u) (cp_Links page) w') \<le> crawlLoad w' + length (cp_Links page)" for u w'
    by (rule fold_grows [of crawlLoad, OF followLink_load])
  have out: "length (cw_outbound (fold (followLink c q item u) (cp_Links page) w'))
      \<le> length (cw_outbound w') + length (cp_Links page)" for u w'
    by (rule fold_grows [of "\<lambda>w. length (cw_outbound w)", OF followLink_outbound])
  show "crawlLoad (readPage c q item page w) \<le> crawlLoad w + length (cp_Links page)"
  proof (rule readPage_cases [of c q item page w])
    fix w1 u assume "readPage c q item page w = fold (followLink c q item u) (cp_Links page) w1"
      "cw_visited w1 = cw_visited w" "cw_queue w1 = cw_queue w"
    with load [of u w1] show ?thesis by (simp add: crawlLoad_def)
  qed (simp add: crawlLoad_def)
  show "length (cw_outbound (readPage c q item page w)) \<le> length (cw_outbound w) + max 1 (length (cp_Links page))"
  proof (rule readPage_cases [of c q item page w])
    fix w1 u assume "readPage c q item page w = w1\<lparr>cw_outbound := captureCrawlerCandidate (cr_net c)
         (redirectLink item u (crawlerHost c u) (RegistrableDomain (cr_net c) (crawlerHost c u)))
         (cr_maxSamplesPerRoot c) (cw_outbound w)\<rparr>"
    then show ?thesis
      using captured_length [of "cr_net c" "redirectLink item u (crawlerHost c u) (RegistrableDomain (cr_net c) (crawlerHost c u))"
          "cr_maxSamplesPerRoot c" "cw_outbound w"] by simp
  next
    fix w1 u assume "readPage c q item page w = fold (followLink c q item u) (cp_Links page) w1" "cw_outbound w1 = cw_outbound w"
    with out [of u w1] show ?thesis by simp
  qed
qed

definition crawlOK :: "crawler \<Rightarrow> crawlRequest \<Rightarrow> nat \<Rightarrow> crawlWork \<Rightarrow> bool" where
  "crawlOK c q starts w \<longleftrightarrow>
     shapeOK q w \<and> 0 \<le> cw_pagesFetched w \<and> cw_pagesFetched w \<le> max 0 (cq_MaxPages q)
   \<and> int (crawlLoad w) \<le> int starts + cw_pagesFetched w * cr_maxLinksPerPage c
   \<and> int (length (cw_outbound w)) \<le> cw_pagesFetched w * cr_maxLinksPerPage c"

lemma readPage_ok:
  assumes links: "cr_maxLinksPerPage c > 0" and w: "crawlOK c q starts w"
    and room: "cw_pagesFetched w < cq_MaxPages q" and page: "defaultFetchPage c item = Inr page"
  shows "crawlOK c q starts (readPage c q item page w)"
proof -
  let ?L = "cr_maxLinksPerPage c"
  have L: "int (length (cp_Links page)) \<le> ?L" "int (max 1 (length (cp_Links page))) \<le> ?L"
    using fetched_links(1) [OF page links] links by simp_all
  have "int (crawlLoad (readPage c q item page w)) \<le> int (crawlLoad w) + ?L"
    "int (length (cw_outbound (readPage c q item page w))) \<le> int (length (cw_outbound w)) + ?L"
    using readPage_grows [of c q item page w] L by linarith+
  with w room show ?thesis
    unfolding crawlOK_def by (simp add: readPage_shape distrib_right)
qed

lemma crawlPages_ok:
  assumes links: "cr_maxLinksPerPage c > 0" and "crawlOK c q starts w"
  shows "crawlOK c q starts (crawlPages c q w)"
proof (rule crawlPages_invariant [where P = "crawlOK c q starts"])
  fix w item queue page
  assume w: "crawlOK c q starts w" "cw_queue w = item # queue" "qi_URL item \<notin> set (cw_visited w)"
    and room: "cw_pagesFetched w < cq_MaxPages q" and page: "defaultFetchPage c item = Inr page"
  have "crawlOK c q starts (w\<lparr>cw_queue := queue, cw_visited := qi_URL item # cw_visited w\<rparr>)"
    using w by (simp add: crawlOK_def shapeOK_def crawlLoad_def)
  from readPage_ok [OF links this _ page] room
  show "crawlOK c q starts (readPage c q item page (w\<lparr>cw_queue := queue, cw_visited := qi_URL item # cw_visited w\<rparr>))"
    by simp
qed (use assms(2) in \<open>simp_all add: crawlOK_def shapeOK_def crawlLoad_def\<close>)

lemma crawlSeed_ok:
  assumes "cr_maxLinksPerPage c > 0"
  shows "crawlOK c q (length (cq_StartURLs q)) (crawlSeed c q)"
proof -
  let ?w0 = "\<lparr>cw_internalHosts = [], cw_outbound = [], cw_visited = [], cw_queued = [], cw_queue = [], cw_errors = [],
    cw_pagesFetched = 0\<rparr>"
  let ?urls = "filter (\<lambda>u. u \<noteq> []) (cq_StartURLs q)"
  have "crawlOK c q (n + length urls) (fold (\<lambda>url. enqueueLink url 0) urls w)"
    if "crawlOK c q n w" "cw_pagesFetched w = 0" for urls n w
    using that
  proof (induction urls arbitrary: n w)
    case (Cons url urls)
    have "crawlOK c q (n + 1) (enqueueLink url 0 w)"
      using Cons.prems by (auto simp: crawlOK_def shapeOK_def itemOK_def crawlLoad_def enqueueLink_def)
    from Cons.IH [OF this] Cons.prems show ?case by simp
  qed simp
  from this [of 0 ?w0 ?urls] have "crawlOK c q (length ?urls) (fold (\<lambda>url. enqueueLink url 0) ?urls ?w0)"
    by (simp add: crawlOK_def shapeOK_def crawlLoad_def)
  then have "crawlOK c q (length (cq_StartURLs q)) (fold (\<lambda>url. enqueueLink url 0) ?urls ?w0)"
    using length_filter_le [of "\<lambda>u. u \<noteq> []" "cq_StartURLs q"] unfolding crawlOK_def by linarith
  from crawlPages_ok [OF assms this] show ?thesis by (simp only: crawlSeed_def)
qed

section \<open>The roots of the pages\<close>

definition plainRoots :: "outboundRoots \<Rightarrow> bool" where
  "plainRoots m \<longleftrightarrow> (\<forall>r \<in> fst ` set m. CHR '','' \<notin> set r)"

lemma FirstNonEmpty_comma: "\<forall>v \<in> set vs. CHR '','' \<notin> set v \<Longrightarrow> CHR '','' \<notin> set (FirstNonEmpty vs)"
proof (induction vs)
  case (Cons v vs)
  then show ?case using set_TrimSpace [of "CHR '',''" v] by auto
qed simp

lemma plainRoots_update: "plainRoots m \<Longrightarrow> CHR '','' \<notin> set k \<Longrightarrow> plainRoots (AList.update k v m)"
  unfolding plainRoots_def by (induction m) auto

lemma captured_plain:
  assumes net: "suffixLibrary net" and "plainLink l" and "plainRoots m"
  shows "plainRoots (captureCrawlerCandidate net l n m)"
proof -
  have "CHR '','' \<notin> set (RegistrableDomain net (cl_TargetRoot l))" "CHR '','' \<notin> set (RegistrableDomain net (cl_TargetHost l))"
    using assms(2) by (simp_all add: plainLink_def RegistrableDomain_comma [OF net])
  then show ?thesis
    unfolding captureCrawlerCandidate_def Let_def by (simp add: plainRoots_update assms(3))
qed

lemma normalizedLink_plain:
  assumes "suffixLibrary (cr_net c)" and "plainHosts (cr_urls c)" and "plainLink l"
  shows "plainLink (normalizedLink c u l)"
proof -
  have host: "CHR '','' \<notin> set (cl_TargetHost (normalizedLink c u l))"
    using assms(3) crawlerHost_plain [OF assms(2)] unfolding normalizedLink_def Let_def
    by (simp add: plainLink_def comma_normalized FirstNonEmpty_comma del: FirstNonEmpty.simps)
  have "cl_TargetRoot (normalizedLink c u l)
      = NormalizeDomainIdentifier (FirstNonEmpty [cl_TargetRoot l, RegistrableDomain (cr_net c) (cl_TargetHost (normalizedLink c u l))])"
    by (simp add: normalizedLink_def Let_def)
  moreover have "CHR '','' \<notin> set (FirstNonEmpty [cl_TargetRoot l, RegistrableDomain (cr_net c) (cl_TargetHost (normalizedLink c u l))])"
    by (rule FirstNonEmpty_comma) (use assms(3) RegistrableDomain_comma [OF assms(1) host] in \<open>auto simp: plainLink_def\<close>)
  ultimately show ?thesis using host by (simp add: plainLink_def comma_normalized)
qed

lemma followLink_plain:
  assumes "suffixLibrary (cr_net c)" and "plainHosts (cr_urls c)" and "plainLink l" and "plainRoots (cw_outbound w)"
  shows "plainRoots (cw_outbound (followLink c q item u l w))"
  using captured_plain [OF assms(1) normalizedLink_plain [OF assms(1-3)]] assms(4)
  by (simp add: followLink_def Let_def)

lemma followLinks_plain:
  assumes "suffixLibrary (cr_net c)" and "plainHosts (cr_urls c)"
  shows "\<forall>l \<in> set ls. plainLink l \<Longrightarrow> plainRoots (cw_outbound w) \<Longrightarrow> plainRoots (cw_outbound (fold (followLink c q item u) ls w))"
  by (induction ls arbitrary: w) (simp_all add: followLink_plain [OF assms])

lemma readPage_plain:
  assumes "suffixLibrary (cr_net c)" and "plainHosts (cr_urls c)"
    and page: "defaultFetchPage c item = Inr page" and w: "plainRoots (cw_outbound w)"
  shows "plainRoots (cw_outbound (readPage c q item page w))"
proof (rule readPage_cases [of c q item page w])
  fix w1 u
  let ?l = "redirectLink item u (crawlerHost c u) (RegistrableDomain (cr_net c) (crawlerHost c u))"
  assume eq: "readPage c q item page w = w1\<lparr>cw_outbound := captureCrawlerCandidate (cr_net c) ?l
      (cr_maxSamplesPerRoot c) (cw_outbound w)\<rparr>"
  have "plainLink ?l"
    using crawlerHost_plain [OF assms(2)] RegistrableDomain_comma [OF assms(1) crawlerHost_plain [OF assms(2)]]
    by (simp add: plainLink_def redirectLink_def)
  from captured_plain [OF assms(1) this] w show ?thesis unfolding eq by simp
next
  fix w1 u
  assume eq: "readPage c q item page w = fold (followLink c q item u) (cp_Links page) w1" and "cw_outbound w1 = cw_outbound w"
  then have "plainRoots (cw_outbound w1)" using w by simp
  with followLinks_plain [OF assms(1,2) fetched_links(2) [OF page assms(1,2)]] show ?thesis unfolding eq by blast
qed

lemma crawlSeed_plain:
  assumes "suffixLibrary (cr_net c)" and "plainHosts (cr_urls c)"
  shows "plainRoots (cw_outbound (crawlSeed c q))"
proof -
  have start: "plainRoots (cw_outbound (fold (\<lambda>url. enqueueLink url 0) urls w))" if "plainRoots (cw_outbound w)" for urls w
    using that by (induction urls arbitrary: w) simp_all
  show ?thesis
    unfolding crawlSeed_def
  proof (rule crawlPages_invariant [where P = "\<lambda>w. plainRoots (cw_outbound w)"])
    show "plainRoots (cw_outbound (readPage c q item page (w\<lparr>cw_queue := queue, cw_visited := qi_URL item # cw_visited w\<rparr>)))"
      if "plainRoots (cw_outbound w)" "defaultFetchPage c item = Inr page" for w item queue page
      by (rule readPage_plain [OF assms that(2)]) (use that(1) in simp)
    show "plainRoots (cw_outbound (fold (\<lambda>url. enqueueLink url 0) (filter (\<lambda>u. u \<noteq> []) (cq_StartURLs q))
       \<lparr>cw_internalHosts = [], cw_outbound = [], cw_visited = [], cw_queued = [], cw_queue = [], cw_errors = [], cw_pagesFetched = 0\<rparr>))"
      by (rule start) (simp add: plainRoots_def)
  qed (simp_all add: plainRoots_def)
qed

section \<open>The questions\<close>

lemma candidate_roots: "oc_Root ` set (buildCrawlerJudgeCandidates m) = {r \<in> fst ` set m. r \<noteq> []}"
  by (force simp: buildCrawlerJudgeCandidates_def image_iff)

lemma candidates_length: "length (buildCrawlerJudgeCandidates m) \<le> length m"
  by (simp add: buildCrawlerJudgeCandidates_def)

lemma judgeBatches_ok:
  assumes net: "suffixLibrary (cr_net c)" and roots: "\<And>b x. b \<in> set bs \<Longrightarrow> x \<in> set b \<Longrightarrow> CHR '','' \<notin> set (oc_Root x)"
    and k: "\<And>w. cleanPivotWork w \<Longrightarrow> thread_ok keeps (k w)" and "cleanPivotWork w"
  shows "thread_ok keeps (judgeBatches c h s enumID m bs k w)"
  using roots \<open>cleanPivotWork w\<close>
proof (induction bs arbitrary: w)
  case (Cons b bs)
  have plain: "CHR '','' \<notin> set (oc_Root x)" if "x \<in> set b" for x by (rule Cons.prems(1) [OF _ that]) simp
  show ?case
    unfolding judgeBatches.simps
  proof (rule judgePivots_ok [OF net])
    show "commaFree x" if "(if jd_Root d \<in> oc_Root ` set b \<and> collects d p
        then map_option (\<lambda>x. (crawlerSeed (cr_net c) s x (jd_Root d), judgedEvidence d)) (map_of m (jd_Root d)) else None) = Some (x, ev)"
      for d p x ev
    proof -
      from that have "CHR '','' \<notin> set (jd_Root d)" and x: "\<exists>y. x = crawlerSeed (cr_net c) s y (jd_Root d)"
        using plain by (auto split: if_splits)
      from BuildDiscoveredSeed_commaFree [OF net this(1)] x show ?thesis by (auto simp: crawlerSeed_def commaFree_def)
    qed
    show "thread_ok keeps (judgeBatches c h s enumID m bs k w')" if "cleanPivotWork w'" for w'
      by (rule Cons.IH) (use Cons.prems(1) that in auto)
  qed (use plain Cons.prems(2) in \<open>simp_all add: crawlerAsset_def\<close>)
qed (simp add: k)

lemma crawlerTurn_ok:
  assumes net: "suffixLibrary (cr_net c)" and hosts: "plainHosts (cr_urls c)"
  shows "turnOK (crawlerTurn c h)"
  unfolding turnOK_def
proof (intro allI impI)
  fix s :: seed and k :: "pivotWork \<Rightarrow> 'a engineState thread" and w
  assume k: "\<forall>w'. cleanPivotWork w' \<longrightarrow> thread_ok keeps (k w')" and w: "cleanPivotWork w"
  let ?q = "buildRequest c s"
  let ?m = "cw_outbound (crawlSeed c ?q)"
  have plain: "CHR '','' \<notin> set (oc_Root x)"
    if "b \<in> set (batchesOf maxCrawlerJudgeBatchSize (buildCrawlerJudgeCandidates ?m))" "x \<in> set b" for b x
  proof -
    have "x \<in> set (buildCrawlerJudgeCandidates ?m)"
      using that concat_batchesOf [of maxCrawlerJudgeBatchSize "buildCrawlerJudgeCandidates ?m"]
      by (metis UN_I set_concat)
    then have "oc_Root x \<in> fst ` set ?m" using candidate_roots [of ?m] by blast
    then show ?thesis using crawlSeed_plain [OF net hosts, of ?q] by (simp add: plainRoots_def del: ball_simps)
  qed
  show "thread_ok keeps (crawlerTurn c h s k w)"
  proof (cases "cq_StartURLs ?q = [] \<or> cq_ScopeRoots ?q = []")
    case False
    show ?thesis
      unfolding crawlerTurn_def Let_def split_def if_not_P [OF False]
      by (rule judgeBatches_ok [OF net plain]) (use k w in simp_all)
  qed (use k w in \<open>simp add: crawlerTurn_def Let_def\<close>)
qed

lemma Crawler_thread_ok:
  assumes "suffixLibrary (cr_net c)" and "plainHosts (cr_urls c)"
  shows "thread_ok keeps (node_Process (CrawlerCollector c h env))"
  unfolding CrawlerCollector_def engineNode.simps by (rule judgedProcess_ok [OF crawlerTurn_ok [OF assms]])

text \<open>Two parameters whose names differ in case only share an entry of the normal form of a query, and the
  order in which the map is visited decides which values stay.\<close>

lemma query_order:
  "normalizeCrawlerQuery (\<lambda>ks. ks) ul [(''ID'', [''1'']), (''id'', [''2''])] = ul_Encode ul [(''id'', [''2''])]"
  "normalizeCrawlerQuery rev ul [(''ID'', [''1'']), (''id'', [''2''])] = ul_Encode ul [(''id'', [''1''])]"
proof -
  have keys: "ToLower (TrimSpace ''ID'') = ''id''" "ToLower (TrimSpace ''id'') = ''id''" "\<not> trackingKey ''id''"
    by code_simp+
  show "normalizeCrawlerQuery (\<lambda>ks. ks) ul [(''ID'', [''1'']), (''id'', [''2''])] = ul_Encode ul [(''id'', [''2''])]"
    "normalizeCrawlerQuery rev ul [(''ID'', [''1'']), (''id'', [''2''])] = ul_Encode ul [(''id'', [''1''])]"
    by (simp_all add: normalizeCrawlerQuery_def keys)
qed

end
