(* ===== verification/Web_Hint_Facts.thy ===== *)
theory Web_Hint_Facts
  imports Web_Hint_Collector Sitemap_Facts
begin

text \<open>
  The web hint judge is asked about roots outside the seed only, with at most three samples each; the
  signals of a root are the decisions that collect it, in their order. The collector is a stage as the
  engine needs them.
\<close>

section \<open>The candidates\<close>

definition hintEntryOK :: "string set \<Rightarrow> string \<times> webHintCandidate \<times> string list \<Rightarrow> bool" where
  "hintEntryOK known e \<longleftrightarrow>
     (case e of (r, c, _) \<Rightarrow> wh_Root c = r \<and> r \<noteq> [] \<and> r \<notin> known \<and> CHR '','' \<notin> set r \<and> length (wh_Samples c) \<le> 3)"

definition hintsOK :: "string set \<Rightarrow> hintRoots \<Rightarrow> bool" where
  "hintsOK known m \<longleftrightarrow> distinct (map fst m) \<and> (\<forall>e \<in> set m. hintEntryOK known e)"

lemma set_update: "set (AList.update k v m) \<subseteq> insert (k, v) (set m)"
  by (induction m) auto

lemma addSampleOf_ok: "hintEntryOK known (r, entry) \<Longrightarrow> hintEntryOK known (r, addSampleOf raw text entry)"
  by (auto simp: hintEntryOK_def addSampleOf_def split_def Let_def)

lemma hintsOK_update:
  assumes "hintsOK known m" and "hintEntryOK known (r, v)"
  shows "hintsOK known (AList.update r v m)"
  using assms distinct_update [of m r v]
    insert_ball [OF set_update, where P = "hintEntryOK known" and k1 = r and v1 = v and m1 = m]
  by (simp add: hintsOK_def)

lemma collect_ok:
  assumes net: "suffixLibrary net" and "hintsOK known m"
  shows "hintsOK known (collectWebHintCandidates net known raw text m)"
proof -
  have "hintsOK known (fold (\<lambda>candidate m. let r = RegistrableDomain net candidate
             in if r = [] \<or> r \<in> known then m
                else AList.update r (addSampleOf raw text
                       (case map_of m r of None \<Rightarrow> (\<lparr>wh_Root = r, wh_Samples = []\<rparr>, []) | Some entry \<Rightarrow> entry)) m) cs m)"
    if "hintsOK known m" "\<forall>c \<in> set cs. CHR '','' \<notin> set c" for cs m
    using that
  proof (induction cs arbitrary: m)
    case (Cons c cs)
    let ?r = "RegistrableDomain net c"
    have step: "hintsOK known (AList.update ?r (addSampleOf raw text
        (case map_of m ?r of None \<Rightarrow> (\<lparr>wh_Root = ?r, wh_Samples = []\<rparr>, []) | Some entry \<Rightarrow> entry)) m)"
      if r: "?r \<noteq> []" "?r \<notin> known"
    proof (rule hintsOK_update [OF Cons.prems(1) addSampleOf_ok])
      have plain: "CHR '','' \<notin> set ?r" using RegistrableDomain_comma [OF net] Cons.prems(2) by simp
      show "hintEntryOK known (?r, case map_of m ?r of None \<Rightarrow> (\<lparr>wh_Root = ?r, wh_Samples = []\<rparr>, []) | Some entry \<Rightarrow> entry)"
        using Cons.prems(1) r plain
        by (auto simp: hintsOK_def hintEntryOK_def dest!: map_of_SomeD split: option.split)
    qed
    show ?case using Cons.IH Cons.prems step by (simp add: Let_def)
  qed simp
  from this [OF assms(2)] extracted_plain [of _ net raw] show ?thesis by (simp add: collectWebHintCandidates_def)
qed

lemma addHints_ok:
  assumes "suffixLibrary net" and "hintsOK known (hw_roots hw)"
  shows "hintsOK known (hw_roots (addHints net known hints hw))"
proof -
  have "hintsOK known (fold (\<lambda>(raw, text). collectWebHintCandidates net known raw text) hints m)" if "hintsOK known m" for m
    using that by (induction hints arbitrary: m) (auto simp: collect_ok [OF assms(1)])
  from this [OF assms(2)] show ?thesis by (simp add: addHints_def)
qed

lemma readTarget_ok:
  assumes "suffixLibrary (wc_net c)" and "hintsOK known (hw_roots hw)"
  shows "hintsOK known (hw_roots (fst (readTarget c s known baseDomain target hw)))"
  using assms addHints_ok [OF assms(1)]
  by (simp add: readTarget_def split_def Let_def split: sum.split option.split)

section \<open>The signals\<close>

lemma signalsByRoot_snoc:
  "signalsByRoot (ds @ [d]) = (if jd_Collect d then addSignal d (signalsByRoot ds) else signalsByRoot ds)"
  by (simp add: signalsByRoot_def)

definition collectedFor :: "string \<Rightarrow> judgeDecision list \<Rightarrow> seedEvidence list" where
  "collectedFor r ds = map hintEvidence (filter (\<lambda>d. jd_Collect d \<and> jd_Root d = r) ds)"

lemma signalsByRoot_spec:
  "map_of (signalsByRoot ds) r = (if collectedFor r ds = [] then None else Some (collectedFor r ds))"
proof (induction ds rule: rev_induct)
  case (snoc d ds)
  show ?case
  proof (cases "jd_Collect d \<and> jd_Root d = r")
    case True
    then have "collectedFor r (ds @ [d]) = collectedFor r ds @ [hintEvidence d]" by (simp add: collectedFor_def)
    moreover have "map_of (signalsByRoot (ds @ [d])) r
        = Some ((case map_of (signalsByRoot ds) r of None \<Rightarrow> [] | Some es \<Rightarrow> es) @ [hintEvidence d])"
      using True by (simp add: signalsByRoot_snoc addSignal_def update_conv)
    ultimately show ?thesis using snoc by simp
  next
    case False
    then have "collectedFor r (ds @ [d]) = collectedFor r ds" by (auto simp: collectedFor_def)
    moreover have "map_of (signalsByRoot (ds @ [d])) r = map_of (signalsByRoot ds) r"
      using False by (auto simp: signalsByRoot_snoc addSignal_def update_conv)
    ultimately show ?thesis using snoc by simp
  qed
qed (simp add: signalsByRoot_def collectedFor_def)

lemma signals_roots: "fst ` set (signalsByRoot ds) \<subseteq> jd_Root ` set ds"
proof
  fix r assume "r \<in> fst ` set (signalsByRoot ds)"
  then have "map_of (signalsByRoot ds) r \<noteq> None" by (simp add: map_of_eq_None_iff)
  then have "collectedFor r ds \<noteq> []" using signalsByRoot_spec [of ds r] by (auto split: if_splits)
  then show "r \<in> jd_Root ` set ds" by (auto simp: collectedFor_def filter_empty_conv)
qed

section \<open>The stage\<close>

definition answersHints :: "webHintJudge option \<Rightarrow> bool" where
  "answersHints judge \<longleftrightarrow>
     (\<forall>j s b cs ds. judge = Some j \<and> j s b cs = Inr ds \<longrightarrow> jd_Root ` set ds \<subseteq> wh_Root ` set cs)"

lemma EvaluateAnchorRoots_answers: "answersHints (Some (EvaluateAnchorRoots net MarshalIndent x j))"
  using EvaluateAnchorRoots_spec(1) [of net MarshalIndent x j] by (fastforce simp: answersHints_def simp flip: set_map)

lemma emitting_ok: "thread_ok keeps t \<Longrightarrow> thread_ok keeps (emitting event t)"
  by (auto simp: emitting_def keeps.R_event split: option.split)

lemma keeps_hint_evaluation:
  assumes "suffixLibrary net" and "\<forall>c \<in> set cs. CHR '','' \<notin> set (wh_Root c)"
  shows "keeps st (onContext (RecordWebHintJudgeEvaluation net collector s base cs ds) st)"
proof (cases "cs = []")
  case True
  then show ?thesis by (simp add: onContext_def RecordWebHintJudgeEvaluation_def keeps.R_refl)
next
  case False
  let ?e = "\<lparr>eval_Collector = collector, eval_SeedID = TrimSpace (seed_ID s), eval_SeedLabel = judgeSeedLabel s,
      eval_SeedDomains = seed_Domains s,
      eval_Scenario = (if NormalizeDomainIdentifier base \<noteq> []
         then ''web ownership hints from '' @ NormalizeDomainIdentifier base else ''web ownership hints''),
      eval_Outcomes = judgeOutcomes net wh_Root webHintJudgeSupport cs ds\<rparr>"
  have "commaFreeEvaluation ?e"
    using assms RegistrableDomain_comma by (auto simp: commaFreeEvaluation_def dest!: judgeOutcomes_root)
  from keeps_evaluation [OF this, of st] False show ?thesis
    by (simp add: onContext_def RecordWebHintJudgeEvaluation_def)
qed

lemma readTargets_ok:
  assumes net: "suffixLibrary (wc_net c)" and "hintsOK known (hw_roots hw)" and "cleanPivotWork w"
    and k: "\<And>hw w. hintsOK known (hw_roots hw) \<Longrightarrow> cleanPivotWork w \<Longrightarrow> thread_ok keeps (k hw w)"
  shows "thread_ok keeps (readTargets c s known ts k hw w)"
  using assms(2,3)
proof (induction ts arbitrary: hw w)
  case (Cons t ts)
  have "hintsOK known (hw_roots (if hw_judgeBaseDomain hw = [] then hw\<lparr>hw_judgeBaseDomain := fst t\<rparr> else hw))"
    using Cons.prems(1) by simp
  from readTarget_ok [OF net this, of s "fst t" "snd t"]
  have "thread_ok keeps (readTargets c s known ts k (fst (readTarget c s known (fst t) (snd t)
      (if hw_judgeBaseDomain hw = [] then hw\<lparr>hw_judgeBaseDomain := fst t\<rparr> else hw))) (pivotErrors es w))" for es
    by (rule Cons.IH) (simp add: Cons.prems(2))
  then show ?case by (simp add: split_def Let_def emitting_ok)
qed (simp add: k)

lemma hintCandidates_ok:
  "hintsOK known (hw_roots hw) \<Longrightarrow> \<forall>x \<in> set (hintCandidates (hw_roots hw)).
     wh_Root x \<noteq> [] \<and> wh_Root x \<notin> known \<and> CHR '','' \<notin> set (wh_Root x) \<and> length (wh_Samples x) \<le> 3"
  by (auto simp: hintCandidates_def hintsOK_def hintEntryOK_def)

lemma judgeHints_ok:
  assumes net: "suffixLibrary (wc_net c)" and judge: "answersHints (wc_judge c)" and hw: "hintsOK known (hw_roots hw)"
    and w: "cleanPivotWork w"
    and k: "\<And>m w. \<forall>r \<in> fst ` set m. CHR '','' \<notin> set r \<Longrightarrow> cleanPivotWork w \<Longrightarrow> thread_ok keeps (k m w)"
  shows "thread_ok keeps (judgeHints c s hw k w)"
proof -
  let ?cs = "hintCandidates (hw_roots hw)"
  have plain: "\<forall>x \<in> set ?cs. CHR '','' \<notin> set (wh_Root x)" using hintCandidates_ok [OF hw] by blast
  have answered: "thread_ok keeps (k (signalsByRoot ds) w)"
    if "wc_judge c = Some j" "j s (hw_judgeBaseDomain hw) ?cs = Inr ds" for j ds
  proof (rule k [OF _ w])
    have "jd_Root ` set ds \<subseteq> wh_Root ` set ?cs" using judge [unfolded answersHints_def, rule_format, OF conjI, OF that] .
    with signals_roots [of ds] have sub: "fst ` set (signalsByRoot ds) \<subseteq> wh_Root ` set ?cs" by (rule subset_trans)
    show "\<forall>r \<in> fst ` set (signalsByRoot ds). CHR '','' \<notin> set r"
      by (rule ball_subset_image [OF sub]) (rule plain)
  qed
  have none: "thread_ok keeps (k [] w')" if "cleanPivotWork w'" for w' by (rule k) (use that in simp_all)
  show ?thesis
  proof (cases "sortedWebHintCandidateRoots (hw_roots hw) = []")
    case True
    then show ?thesis using none [OF w] by (simp add: judgeHints_def Let_def)
  next
    case False
    show ?thesis
    proof (cases "wc_judge c")
      case None
      then show ?thesis using False none [OF w] by (simp add: judgeHints_def Let_def emitting_ok)
    next
      case (Some j)
      show ?thesis
      proof (cases "j s (hw_judgeBaseDomain hw) ?cs")
        case (Inl e)
        have "cleanPivotWork (pivotErrors [e] w)" using w by simp
        from none [OF this] show ?thesis using False Some Inl by (simp add: judgeHints_def Let_def emitting_ok)
      next
        case (Inr ds)
        then show ?thesis
          using False Some answered [OF Some Inr]
          by (simp add: judgeHints_def Let_def emitting_ok keeps_hint_evaluation [OF net plain])
      qed
    qed
  qed
qed

lemma eachEvidence_ok:
  assumes "commaFree x" and k: "\<And>f ho. thread_ok keeps (k f ho)"
  shows "thread_ok keeps (eachEvidence h r x evs k f ho)"
proof (induction evs arbitrary: f ho)
  case (Cons ev evs)
  have "keeps st (if IsConfidenceAtLeast (ev_Confidence ev) (CandidatePromotionConfidenceThreshold (fst st))
      then snd (PromoteSeedCandidate h x ev (fst st) (snd st)) else st)" for st
    using keeps_promotion_state [OF assms(1), of st h ev] by (simp add: keeps.R_refl)
  then show ?case unfolding eachEvidence.simps Let_def by (intro thread_ok.step) (simp_all add: Cons)
qed (simp add: k)

lemma eachRoot_ok:
  assumes net: "suffixLibrary net" and "\<forall>r \<in> set rs. CHR '','' \<notin> set r" and "cleanPivotWork w"
    and k: "\<And>ho w. cleanPivotWork w \<Longrightarrow> thread_ok keeps (k ho w)"
  shows "thread_ok keeps (eachRoot net h s enumID m rs k ho w)"
  using assms(2,3)
proof (induction rs arbitrary: ho w)
  case (Cons r rs)
  have "commaFree (BuildDiscoveredSeed net s r ''web-hint-pivot'')"
    by (rule BuildDiscoveredSeed_commaFree [OF net]) (use Cons.prems in simp)
  moreover have "thread_ok keeps (eachRoot net h s enumID m rs k ho' w')" if "cleanPivotWork w'" for ho' w'
    by (rule Cons.IH) (use Cons.prems that in simp_all)
  ultimately show ?case
    unfolding eachRoot.simps by (intro eachEvidence_ok) (simp_all add: Cons.prems(2))
qed (simp add: k)

lemma lowConfidence_ok: "thread_ok keeps t \<Longrightarrow> thread_ok keeps (lowConfidence c s hw ho t)"
proof -
  have "keeps st (onContext (\<lambda>p. EmitExecutionEvent (e p) p) st)" for st :: "'a engineState" and e
    using keeps.R_event [of st "e (fst st)"] by (simp add: onContext_def)
  then show "thread_ok keeps t \<Longrightarrow> thread_ok keeps (lowConfidence c s hw ho t)" by (simp add: lowConfidence_def Let_def)
qed

lemma webHintTurn_ok:
  assumes net: "suffixLibrary (wc_net c)" and judge: "answersHints (wc_judge c)" and order: "fairMapOrder (wc_mapOrder c)"
  shows "turnOK (webHintTurn c h)"
  unfolding turnOK_def
proof (intro allI impI)
  fix s :: seed and k :: "pivotWork \<Rightarrow> 'a engineState thread" and w
  assume k: "\<forall>w'. cleanPivotWork w' \<longrightarrow> thread_ok keeps (k w')" and w: "cleanPivotWork w"
  show "thread_ok keeps (webHintTurn c h s k w)"
    unfolding webHintTurn_def Let_def split_def
  proof (rule readTargets_ok [OF net])
    fix hw :: hintWork and w2
    assume hw: "hintsOK (knownRoots (wc_net c) (seed_Domains s)) (hw_roots hw)" and "cleanPivotWork w2"
    then show "thread_ok keeps (emitting (Some (discoveredEvent s hw)) (judgeHints c s hw
        (\<lambda>m. eachRoot (wc_net c) h s (fst (pivotEnumeration ''enum-web-hint'' s w)) m (wc_mapOrder c (map fst m))
           (\<lambda>ho w4. emitting (outcomeEvent c s hw ho) (lowConfidence c s hw ho (k w4)))
           \<lparr>ho_acceptedRoots = [], ho_lowConfidenceRoots = [], ho_promotedRoots = []\<rparr>) w2))"
      by (intro emitting_ok judgeHints_ok [OF net judge hw] eachRoot_ok [OF net] lowConfidence_ok)
        (simp_all add: fairMapOrder_set [OF order] k)
  qed (use w in \<open>simp_all add: noHints_def hintsOK_def\<close>)
qed

lemma WebHint_thread_ok:
  assumes "suffixLibrary (wc_net c)" and "answersHints (wc_judge c)" and "fairMapOrder (wc_mapOrder c)"
  shows "thread_ok keeps (node_Process (WebHintCollector c h env))"
  unfolding WebHintCollector_def engineNode.simps by (rule emitting_ok, rule judgedProcess_ok [OF webHintTurn_ok [OF assms]])

end
