(* ===== verification/AI_Search_Facts.thy ===== *)
theory AI_Search_Facts
  imports AI_Search_Collector Judged_Pivot_Facts
begin

text \<open>
  The requests of the expander to the judge split the candidates that fit, in their order; none is larger
  than the limit. It asks about no root that is known, was discarded or searched before. It is a stage as
  the engine needs them when the search names no root with a comma.
\<close>

section \<open>The requests\<close>

definition asksFor :: "seed \<Rightarrow> string \<Rightarrow> ownershipRequest \<times> string list \<Rightarrow> bool" where
  "asksFor s focusRoot g \<longleftrightarrow> or_Seed (fst g) = s \<and> or_Candidates (fst g) \<noteq> [] \<and> map oc_Root (or_Candidates (fst g)) = snd g"

definition batchOK :: "aiSearch \<Rightarrow> seed \<Rightarrow> string \<Rightarrow> searchCandidate list \<Rightarrow> batchWork \<Rightarrow> bool" where
  "batchOK c s focusRoot past b \<longleftrightarrow>
     (\<forall>g \<in> set (bp_requests (bw_plan b)). asksFor s focusRoot g \<and> \<not> tooLarge c (fst g))
   \<and> map oc_Root (bw_current b) = bw_currentRoots b
   \<and> (bw_current b \<noteq> [] \<longrightarrow> \<not> tooLarge c (aiSearchRequest s focusRoot (bw_current b)))
   \<and> concat (map snd (bp_requests (bw_plan b))) @ bw_currentRoots b = bp_selectedRoots (bw_plan b)
   \<and> mset (bp_selectedRoots (bw_plan b)) + mset (bp_promptSkippedRoots (bw_plan b)) = mset (map sd_Root past)
   \<and> (\<forall>r \<in> set (bp_promptSkippedRoots (bw_plan b)). \<exists>x \<in> set past. sd_Root x = r
        \<and> tooLarge c (aiSearchRequest s focusRoot [ownershipCandidateFromSearch x]))"

lemma oc_Root_search [simp]: "oc_Root (ownershipCandidateFromSearch x) = sd_Root x"
  by (simp add: ownershipCandidateFromSearch_def)

lemma appendCurrent_ok:
  assumes "batchOK c s focusRoot past b"
  shows "batchOK c s focusRoot past (appendCurrent s focusRoot b)" and "bw_current (appendCurrent s focusRoot b) = []"
    and "bw_currentRoots (appendCurrent s focusRoot b) = []"
  using assms by (auto simp: batchOK_def appendCurrent_def asksFor_def aiSearchRequest_def)

lemma selectCandidate_ok:
  assumes "batchOK c s focusRoot past b"
    and "\<not> tooLarge c (aiSearchRequest s focusRoot (bw_current b @ [ownershipCandidateFromSearch x]))"
  shows "batchOK c s focusRoot (past @ [x]) (selectCandidate x b)"
  using assms by (auto simp: batchOK_def selectCandidate_def)

lemma skipPrompt_ok:
  assumes "batchOK c s focusRoot past b" and "tooLarge c (aiSearchRequest s focusRoot [ownershipCandidateFromSearch x])"
  shows "batchOK c s focusRoot (past @ [x]) (skipPrompt (sd_Root x) b)"
  using assms by (auto simp: batchOK_def skipPrompt_def)

lemma placeCandidate_ok:
  assumes b: "batchOK c s focusRoot past b"
  shows "batchOK c s focusRoot (past @ [x]) (placeCandidate c s focusRoot x b)"
proof -
  let ?oc = "ownershipCandidateFromSearch x" and ?b = "appendCurrent s focusRoot b"
  show ?thesis
  proof (cases "tooLarge c (aiSearchRequest s focusRoot (bw_current b @ [?oc]))")
    case False
    then show ?thesis using selectCandidate_ok [OF b False] by (simp add: placeCandidate_def Let_def)
  next
    case large: True
    show ?thesis
    proof (cases "bw_current b = []")
      case True
      then show ?thesis using large skipPrompt_ok [OF b, of x] by (simp add: placeCandidate_def Let_def)
    next
      case False
      note flushed = appendCurrent_ok [OF b]
      show ?thesis
        using large False skipPrompt_ok [OF flushed(1), of x] selectCandidate_ok [OF flushed(1), of x] flushed(2)
        by (auto simp: placeCandidate_def Let_def)
    qed
  qed
qed

lemma placeCandidates_ok:
  "batchOK c s focusRoot past b \<Longrightarrow> batchOK c s focusRoot (past @ cs) (fold (placeCandidate c s focusRoot) cs b)"
proof (induction cs arbitrary: past b)
  case (Cons x cs)
  from Cons.IH [OF placeCandidate_ok [OF Cons.prems, of x]] show ?case by simp
qed simp

text \<open>The candidates a judge may see.\<close>

definition judgeable :: "aiSearch \<Rightarrow> searchCandidate list \<Rightarrow> searchCandidate list" where
  "judgeable c cs = (if as_maxJudgedCandidates c > 0 then take (nat (as_maxJudgedCandidates c)) cs else cs)"

lemma buildJudgeRequests_ok:
  "\<exists>b. buildJudgeRequests c s focusRoot cs = bw_plan b \<and> batchOK c s focusRoot (judgeable c cs) b \<and> bw_currentRoots b = []"
proof -
  let ?cut = "as_maxJudgedCandidates c > 0 \<and> int (length cs) > as_maxJudgedCandidates c"
  let ?cs = "if ?cut then take (nat (as_maxJudgedCandidates c)) cs else cs"
  have cs: "?cs = judgeable c cs" by (auto simp: judgeable_def)
  let ?start = "\<lparr>bw_plan = \<lparr>bp_requests = [], bp_selectedRoots = [],
      bp_truncatedRoots = (if ?cut then searchCandidateRoots (drop (nat (as_maxJudgedCandidates c)) cs) else []),
      bp_promptSkippedRoots = []\<rparr>, bw_current = [], bw_currentRoots = []\<rparr>"
  let ?b = "fold (placeCandidate c s focusRoot) ?cs ?start"
  have "batchOK c s focusRoot [] ?start" by (simp add: batchOK_def)
  from placeCandidates_ok [OF this, of ?cs] have "batchOK c s focusRoot (judgeable c cs) ?b"
    by (simp only: cs append_Nil)
  from appendCurrent_ok(1,3) [OF this] show ?thesis
    by (intro exI [of _ "appendCurrent s focusRoot ?b"]) (simp add: buildJudgeRequests_def Let_def)
qed

lemma buildJudgeRequests_spec:
  fixes c s focusRoot cs
  defines "plan \<equiv> buildJudgeRequests c s focusRoot cs"
  shows "\<forall>(q, rs) \<in> set (bp_requests plan). or_Seed q = s \<and> or_Candidates q \<noteq> [] \<and> map oc_Root (or_Candidates q) = rs
           \<and> \<not> tooLarge c q"
    and "concat (map snd (bp_requests plan)) = bp_selectedRoots plan"
    and "mset (bp_selectedRoots plan) + mset (bp_promptSkippedRoots plan) = mset (map sd_Root (judgeable c cs))"
    and "\<forall>r \<in> set (bp_promptSkippedRoots plan). \<exists>x \<in> set (judgeable c cs). sd_Root x = r
           \<and> tooLarge c (aiSearchRequest s focusRoot [ownershipCandidateFromSearch x])"
proof -
  obtain b where b: "plan = bw_plan b" "batchOK c s focusRoot (judgeable c cs) b" "bw_currentRoots b = []"
    using buildJudgeRequests_ok plan_def by blast
  show "\<forall>(q, rs) \<in> set (bp_requests plan). or_Seed q = s \<and> or_Candidates q \<noteq> [] \<and> map oc_Root (or_Candidates q) = rs
           \<and> \<not> tooLarge c q"
    using b(1,2) by (auto simp: batchOK_def asksFor_def)
  show "concat (map snd (bp_requests plan)) = bp_selectedRoots plan" using b by (simp add: batchOK_def)
  show "mset (bp_selectedRoots plan) + mset (bp_promptSkippedRoots plan) = mset (map sd_Root (judgeable c cs))"
    using b by (simp add: batchOK_def)
  show "\<forall>r \<in> set (bp_promptSkippedRoots plan). \<exists>x \<in> set (judgeable c cs). sd_Root x = r
           \<and> tooLarge c (aiSearchRequest s focusRoot [ownershipCandidateFromSearch x])"
    using b by (simp add: batchOK_def)
qed

lemma selected_roots: "set (concat (map snd (bp_requests (buildJudgeRequests c s focusRoot cs)))) \<subseteq> sd_Root ` set cs"
proof -
  have "set (judgeable c cs) \<subseteq> set cs" by (auto simp: judgeable_def dest: in_set_takeD)
  moreover have "set (bp_selectedRoots (buildJudgeRequests c s focusRoot cs)) \<subseteq> sd_Root ` set (judgeable c cs)"
    using buildJudgeRequests_spec(3) [of c s focusRoot cs] by (metis mset_subset_eq_add_left set_mset_mono set_mset_mset list.set_map)
  ultimately show ?thesis unfolding buildJudgeRequests_spec(2) by blast
qed

lemma filterAISearchCandidates_sound:
  assumes "x \<in> set (filterAISearchCandidates net s focusRoot cs snapshot p)"
  shows "x \<in> set cs" and "RegistrableDomain net (sd_Root x) \<notin> insert focusRoot aiSearchRootDenylist"
    and "RegistrableDomain net (sd_Root x) \<notin> knownRoots net (seed_Domains s)"
    and "\<not> HasAISearchExecutedRoot (RegistrableDomain net (sd_Root x)) p"
proof -
  have "knownRoots net (seed_Domains s) \<subseteq> set (uniqueSeedRoots net s)"
    using keys_uniqueBy [of "\<lambda>r. r" "{}" "filter (\<lambda>r. r \<noteq> []) (map (RegistrableDomain net) (seed_Domains s))"]
    by (auto simp: knownRoots_def uniqueSeedRoots_def)
  then show "x \<in> set cs" "RegistrableDomain net (sd_Root x) \<notin> insert focusRoot aiSearchRootDenylist"
    "RegistrableDomain net (sd_Root x) \<notin> knownRoots net (seed_Domains s)"
    "\<not> HasAISearchExecutedRoot (RegistrableDomain net (sd_Root x)) p"
    using assms unfolding filterAISearchCandidates_def Let_def by auto
qed

section \<open>The stage\<close>

definition plainSearch :: "(contextSummary \<Rightarrow> string + searchResult) option \<Rightarrow> bool" where
  "plainSearch search \<longleftrightarrow> (\<forall>f q result. search = Some f \<and> f q = Inr result
     \<longrightarrow> (\<forall>x \<in> set (sr_Candidates result). CHR '','' \<notin> set (sd_Root x)))"

lemma keeps_appendError: "keeps st (onContext (appendError e) st)"
  by (rule keeps_same) (simp_all add: onContext_def appendError_def same_frontier_def same_assets_def)

lemma keeps_enumeration: "keeps st (onContext (\<lambda>p. p\<lparr>Enumerations := Enumerations p @ [e]\<rparr>) st)"
  by (rule keeps_same) (simp_all add: onContext_def same_frontier_def same_assets_def)

lemma emitAll_ok: "thread_ok keeps t \<Longrightarrow> thread_ok keeps (emitAll es t)"
  by (induction es) (simp_all add: keeps.R_event)

lemma searchFound_clean: "cleanAsset (fst (searchFound enumID focusRoot queries x r env))"
proof -
  have "cleanAsset (fst (newAsset ''dom-ai-search'' enumID ''ai_search_collector'' AssetTypeDomain (Some noDomainDetails) None r env))"
    by (rule newAsset_clean) simp_all
  then show ?thesis by (simp add: searchFound_def split_def Let_def)
qed

lemma keeps_search_relations: "keeps st (onContext (AppendAssetRelations rs) st)"
  using keeps_append(3) [of "fst st" "snd st" rs "snd st"] by (simp add: onContext_def)

lemma searchDecisions_ok:
  assumes net: "suffixLibrary net" and "\<And>r. byRoot r \<noteq> None \<Longrightarrow> CHR '','' \<notin> set r"
    and k: "\<And>so env. thread_ok keeps (k so env)"
  shows "thread_ok keeps (searchDecisions net h s focusRoot enumID queries byRoot ds k so env)"
proof (induction ds arbitrary: so env)
  case (Cons d ds)
  show ?case
  proof (cases "if jd_Collect d then byRoot (jd_Root d) else None")
    case None
    then show ?thesis using Cons by simp
  next
    case (Some x)
    let ?x = "BuildDiscoveredSeed net s (jd_Root d) ''ai-search-pivot''"
    have "commaFree ?x" using Some assms(2) [of "jd_Root d"] by (intro BuildDiscoveredSeed_commaFree [OF net]) (auto split: if_splits)
    then have "keeps st (if IsConfidenceAtLeast (jd_Confidence d) (CandidatePromotionConfidenceThreshold (fst st))
        then snd (PromoteSeedCandidate h ?x (searchEvidenceOf d) (fst st) (snd st)) else st)" for st
      using keeps_promotion_state [of ?x st h "searchEvidenceOf d"] by (simp add: keeps.R_refl)
    moreover have "keeps st (onContext (AppendAssets [fst (searchFound enumID focusRoot queries x (jd_Root d) env)]) st)" for st
      by (rule append_keeps) (simp add: searchFound_clean)
    ultimately show ?thesis
      using Cons Some unfolding searchDecisions.simps Let_def split_def
      by (auto intro!: thread_ok.step simp: keeps_search_relations)
  qed
qed (simp add: k)

lemma searchRequests_ok:
  assumes net: "suffixLibrary (as_net c)" and "\<And>r. byRoot r \<noteq> None \<Longrightarrow> CHR '','' \<notin> set r"
    and "\<forall>g \<in> set gs. \<forall>x \<in> set (or_Candidates (fst g)). CHR '','' \<notin> set (oc_Root x)"
    and k: "\<And>so env. thread_ok keeps (k so env)"
  shows "thread_ok keeps (searchRequests c j h s focusRoot enumID queries byRoot gs k so env)"
  using assms(3)
proof (induction gs arbitrary: so env)
  case (Cons g gs)
  have IH: "thread_ok keeps (searchRequests c j h s focusRoot enumID queries byRoot gs k so env)" for so env
    using Cons by simp
  have "keeps st (onContext (RecordOwnershipJudgeEvaluation (as_net c) ''ai_search_collector'' (fst g) ds) st)" for ds st
    by (rule keeps_ownership_evaluation [OF net]) (use Cons.prems in simp)
  then show ?case
    using IH searchDecisions_ok [OF net assms(2) IH] by (auto simp: keeps_appendError split: sum.split)
qed (simp add: k)

lemma searchJudged_ok: "(\<And>env. thread_ok keeps (k env)) \<Longrightarrow> thread_ok keeps (searchJudged c focusRoot k so env)"
proof -
  have "keeps st (onContext (\<lambda>p. EmitExecutionEvent (e p) p) st)" for st :: "'a engineState" and e
    using keeps.R_event [of st "e (fst st)"] by (simp add: onContext_def)
  then show "(\<And>env. thread_ok keeps (k env)) \<Longrightarrow> thread_ok keeps (searchJudged c focusRoot k so env)"
    by (simp add: searchJudged_def keeps.R_event Let_def)
qed

lemma searchAnswered_ok:
  assumes net: "suffixLibrary (as_net c)" and plain: "\<forall>x \<in> set (sr_Candidates result). CHR '','' \<notin> set (sd_Root x)"
    and k: "\<And>env. thread_ok keeps (k env)"
  shows "thread_ok keeps (searchAnswered c j h s focusRoot enumID snapshot result k env)"
  unfolding searchAnswered_def
proof (rule thread_ok.step)
  fix st
  let ?cs = "filterAISearchCandidates (as_net c) s focusRoot (sr_Candidates result) snapshot (fst st)"
  let ?plan = "buildJudgeRequests c s focusRoot ?cs"
  have roots: "CHR '','' \<notin> set r" if "r \<in> sd_Root ` set ?cs" for r
    using that plain filterAISearchCandidates_sound(1) by blast
  have requests: "\<forall>g \<in> set (bp_requests ?plan). \<forall>x \<in> set (or_Candidates (fst g)). CHR '','' \<notin> set (oc_Root x)"
  proof (intro ballI)
    fix g x assume g: "g \<in> set (bp_requests ?plan)" "x \<in> set (or_Candidates (fst g))"
    have "map oc_Root (or_Candidates (fst g)) = snd g" using buildJudgeRequests_spec(1) [of c s focusRoot ?cs] g(1) by auto
    then have "oc_Root x \<in> set (snd g)" using g(2) by (metis image_eqI list.set_map)
    then have "oc_Root x \<in> set (concat (map snd (bp_requests ?plan)))" using g(1) by auto
    from subsetD [OF selected_roots this] show "CHR '','' \<notin> set (oc_Root x)" by (rule roots)
  qed
  have byRoot: "CHR '','' \<notin> set r" if "map_of (rev (map (\<lambda>x. (sd_Root x, x)) ?cs)) r \<noteq> None" for r
    by (rule roots) (use that in \<open>simp add: map_of_eq_None_iff image_image\<close>)
  have "thread_ok keeps (searchRequests c j h s focusRoot enumID (sr_Queries result)
      (map_of (rev (map (\<lambda>x. (sd_Root x, x)) ?cs))) (bp_requests ?plan) (searchJudged c focusRoot k) so env)" for so
    by (rule searchRequests_ok [OF net byRoot requests searchJudged_ok [OF k]])
  then show "thread_ok keeps (let cs = ?cs; plan = buildJudgeRequests c s focusRoot cs
      in if cs = [] then emitAll [noCandidates focusRoot result] (k env)
         else emitAll (planEvents c focusRoot result cs plan)
                (if bp_requests plan = [] then k env
                 else searchRequests c j h s focusRoot enumID (sr_Queries result)
                        (map_of (rev (map (\<lambda>x. (sd_Root x, x)) cs))) (bp_requests plan) (searchJudged c focusRoot k)
                        \<lparr>so_accepted = [], so_judged = [], so_low = [], so_promoted = []\<rparr> env))"
    unfolding Let_def by (auto intro!: emitAll_ok k simp: keeps.R_event)
qed (rule keeps.R_refl)

lemma keeps_search_mark: "keeps st (onContext (MarkAISearchExecutedRoot r) st)"
  by (rule keeps_same) (simp_all add: onContext_def go_frame)

lemma searchRoots_ok:
  assumes net: "suffixLibrary (as_net c)" and plain: "plainSearch (Some search)"
  shows "thread_ok keeps (searchRoots c search j h fs env)"
proof (induction fs arbitrary: env)
  case (Cons f fs)
  have answered: "thread_ok keeps (searchAnswered c j h s focusRoot enumID snapshot result (searchRoots c search j h fs) env')"
    if "search q = Inr result" for q s focusRoot enumID snapshot result env'
    by (rule searchAnswered_ok [OF net]) (use plain that Cons.IH in \<open>auto simp: plainSearch_def\<close>)
  show ?case
    unfolding searchRoots.simps Let_def split_def
    by (intro thread_ok.step keeps.R_refl)
      (auto intro!: thread_ok.step answered keeps_search_mark keeps_enumeration keeps_appendError keeps.R_refl
        simp: Cons.IH keeps.R_event split: sum.split)
qed simp

lemma AISearch_thread_ok:
  assumes "suffixLibrary (as_net c)" and "plainSearch (as_search c)"
  shows "thread_ok keeps (node_Process (AISearchCollector c h env))"
proof -
  have "thread_ok keeps (searchRoots c search j h fs env')" if "as_search c = Some search" for search j fs env'
    by (rule searchRoots_ok [OF assms(1)]) (use assms(2) that in simp)
  then show ?thesis
    unfolding AISearchCollector_def AISearchProcess_def engineNode.simps
    by (auto intro!: thread_ok.step keeps_ensure keeps.R_refl simp: keeps.R_event split: option.split)
qed

end
