(* ===== verification/Program_Facts.thy ===== *)
theory Program_Facts
  imports Program Crawler_Facts Web_Hint_Facts AI_Search_Facts Enricher_Facts Reconsider_Facts
begin

text \<open>
  Every stage of the program keeps the invariants of the context, so the engine that is built for any list
  of targets it accepts is one for which the properties of the loop hold.
\<close>

section \<open>The targets\<close>

lemma validateOutputTarget_html:
  "formatOf out = Some f \<Longrightarrow> TrimSpace out = out \<Longrightarrow> \<not> HasPrefix out ''visualizer:'' \<Longrightarrow> validateOutputTarget out = None"
  by (auto simp: formatOf_def validateOutputTarget_def EqualFold_def ToLower_def lower_char_def Let_def split: if_splits)

text \<open>Either a target is refused, the first one that is, or every target of a known format has its exporter.\<close>

lemma BuildExporters_spec:
  "BuildExporters node outs =
     (case find (\<lambda>out. validateOutputTarget out \<noteq> None) outs of
        Some out \<Rightarrow> Inl (the (validateOutputTarget out))
      | None \<Rightarrow> Inr (map (\<lambda>out. node (the (formatOf out)) out) (filter (\<lambda>out. formatOf out \<noteq> None) outs)))"
  by (induction outs) (auto split: option.split)

section \<open>The stages\<close>

definition externalsOK :: "'b externals \<Rightarrow> bool" where
  "externalsOK s \<longleftrightarrow>
     suffixLibrary (ex_net s) \<and> (\<forall>x \<in> set (ex_ICANNSuffixes s). CHR '','' \<notin> set x) \<and> plainHosts (ex_urls s)
   \<and> (\<forall>ip names. ex_LookupAddr s ip = Inr names \<longrightarrow> (\<forall>n \<in> set names. CHR '','' \<notin> set n))
   \<and> ptrLibrary (ex_ipResolver s) \<and> fairOrders (ex_ipOrders s) \<and> fairMapOrder (ex_mapOrder s)
   \<and> answersCandidates (ex_ownershipJudge s) \<and> answersHints (ex_webHintJudge s) \<and> plainSearch (ex_search s)"

lemma NewASNCIDR_plain:
  assumes "\<forall>ip names. lookup ip = Inr names \<longrightarrow> (\<forall>n \<in> set names. CHR '','' \<notin> set n)"
  shows "plainNames (NewASNCIDRCollector decode client lookup parse judge order)"
  using assms by (auto simp: plainNames_def NewASNCIDRCollector_def lookupPTR_def NormalizeDomainIdentifier_comma
      split: sum.splits)

lemma program_collectors_ok:
  assumes "externalsOK s" and "n \<in> set (programCollectors s sweep)"
  shows "thread_ok keeps (node_Process n)"
proof -
  let ?dns = "WithDNSCollectorVariantSweepConfig sweep
      (NewDNSCollector (ex_ownershipJudge s) (ex_resolver s) (ex_ICANNSuffixes s) (ex_ends s))"
  have net: "suffixLibrary (ex_net s)" and fair: "fairMapOrder (ex_mapOrder s)" and hosts: "plainHosts (ex_urls s)"
    and judge: "answersCandidates (ex_ownershipJudge s)" and hints: "answersHints (ex_webHintJudge s)"
    and names: "\<forall>ip names. ex_LookupAddr s ip = Inr names \<longrightarrow> (\<forall>n \<in> set names. CHR '','' \<notin> set n)"
    using assms(1) by (simp_all add: externalsOK_def)
  have "cleanSuffixes ?dns"
    using assms(1) by (auto simp: externalsOK_def cleanSuffixes_def WithDNSCollectorVariantSweepConfig_def NewDNSCollector_def Let_def)
  note dns = DNS_thread_ok [OF net this]
  have asn: "thread_ok keeps (node_Process (ASNCIDRCollector (ex_net s) (NewASNCIDRCollector (ex_decodePrefixes s) (ex_web s)
      (ex_LookupAddr s) (ex_ParsePrefix s) (ex_ownershipJudge s) (ex_mapOrder s)) (ex_handler s) (ex_env s)))"
    by (rule ASNCIDR_thread_ok [OF net NewASNCIDR_plain [OF names]]) (simp_all add: NewASNCIDRCollector_def fair judge)
  note archives = clean_queries [THEN passive_thread_ok]
  show ?thesis
    using assms(2)
    unfolding programCollectors_def Let_def
    by (auto simp: dns ReverseRegistration_thread_ok [OF net NewReverseRegistration_clean]
        asn fair judge
        Crawler_thread_ok NewCrawlerCollector_def net hosts Sitemap_thread_ok [OF net] NewSitemapCollector_def
        WebHint_thread_ok hints CrtShCollector_def RDAPCollector_def HackerTargetCollector_def AlienVaultCollector_def
        WaybackCollector_def archives)
qed

lemma exporter_ok: "thread_ok keeps (node_Process (exporterNode net zone writeFile env format path))"
proof -
  have "keeps st (onContext (MarkEnumerationsCompleted t) st)" for t and st :: "'a engineState"
    by (rule keeps_same) (simp_all add: onContext_def MarkEnumerationsCompleted_def same_frontier_def same_assets_def)
  then show ?thesis by (simp add: exporterNode_def keeps_ensure keeps.R_refl)
qed

lemma program_engine_ok:
  assumes "externalsOK s" and "NewPipeline s sweep outputs = Inr e"
  shows "engine_ok e None"
proof -
  have net: "suffixLibrary (ex_net s)" and ptr: "ptrLibrary (ex_ipResolver s)" "fairOrders (ex_ipOrders s)"
    and search: "plainSearch (ex_search s)" using assms(1) by (simp_all add: externalsOK_def)
  obtain exporters where ex: "BuildExporters (exporterNode (ex_net s) (ex_zone s) (ex_writeFile s) (ex_env s)) outputs = Inr exporters"
    and e: "e = programEngine s sweep exporters"
    using assms(2) by (auto simp: NewPipeline_def map_sum_def split: sum.splits)
  have "thread_ok keeps (node_Process n)" if "n \<in> set exporters" for n
    using that ex by (auto simp: BuildExporters_spec exporter_ok split: option.splits)
  moreover have "thread_ok keeps (node_Process (AISearchCollector (NewAISearchCollector (ex_net s) (ex_ownershipJudge s)
      (ex_MarshalIndent s) (ex_showFloat s) [WithAISearchProvider (ex_search s), WithAISearchJudge (ex_ownershipJudge s)])
      (ex_handler s) (ex_env s)))"
    by (rule AISearch_thread_ok) (simp_all add: NewAISearchCollector_def net search)
  ultimately show ?thesis
    using program_collectors_ok [OF assms(1)] DomainEnricher_thread_ok IPEnricher_thread_ok [OF net ptr]
      Reconsider_thread_ok [OF net] MergeFilter_keeps
    unfolding engine_ok_def e programEngine_def Let_def by auto
qed

end
