(* ===== verification/HTTP_API.thy ===== *)
theory HTTP_API
  imports Run_Service
begin

text \<open>
  The HTTP API (\<open>internal/runservice/http.go\<close>, \<open>auth.go\<close>, \<open>middleware.go\<close>) and the worker that processes a run
  under its lease (\<open>worker.go\<close>). Verifying a token and decoding a body are arguments. A request whose path
  is not clean never reaches a handler (\<open>net/http\<close> redirects it), so paths are clean here.
\<close>

section \<open>Requests and answers\<close>

record httpRequest =
  hr_Method :: string
  hr_Path :: string
  hr_Authorization :: string
  hr_Origin :: string
  hr_Body :: string

datatype payload =
    ErrorPayload string
  | HealthPayload
  | RunPayload runRecord
  | PivotPayload pivotRecord
  | NoPayload

text \<open>\<open>resp_AllowOrigin\<close> is the origin granted by the CORS headers.\<close>

record httpResponse =
  resp_Status :: nat
  resp_AllowOrigin :: "string option"
  resp_Payload :: payload

definition writeJSON :: "nat \<Rightarrow> payload \<Rightarrow> httpResponse" where
  "writeJSON status p = \<lparr>resp_Status = status, resp_AllowOrigin = None, resp_Payload = p\<rparr>"

definition writeError :: "nat \<Rightarrow> string \<Rightarrow> httpResponse" where
  "writeError status e = writeJSON status (ErrorPayload e)"

text \<open>A handler answers, or panics (\<open>None\<close>); either way it may have changed the world.\<close>

type_synonym 'w handler = "httpRequest \<Rightarrow> 'w \<Rightarrow> httpResponse option \<times> 'w"

definition answer :: "httpResponse \<Rightarrow> 'w \<Rightarrow> httpResponse option \<times> 'w" where
  "answer r w = (Some r, w)"

section \<open>Authentication\<close>

type_synonym authVerifier = "(string \<Rightarrow> string + authenticatedUser) option"

definition IsAllowedEmail :: "string \<Rightarrow> bool" where
  "IsAllowedEmail email0 =
     (let email = TrimSpace (ToLower email0)
      in if email = [] then False
         else if email = ''roaguirred@gmail.com'' then True
         else HasSuffix email ''@zerofox.com'')"

definition authenticateRequest :: "authVerifier \<Rightarrow> string \<Rightarrow> string + authenticatedUser" where
  "authenticateRequest verifier authorization =
     (case verifier of
        None \<Rightarrow> Inl ''auth verifier is not configured''
      | Some verify \<Rightarrow>
          (let token = TrimSpace authorization
           in if token = [] then Inl ''authorization header is required''
              else if \<not> HasPrefix (ToLower token) ''bearer '' then Inl ''authorization header must use bearer token''
              else verify (TrimSpace (drop (length ''Bearer '') token))))"

definition RequireAuth :: "authVerifier \<Rightarrow> (authenticatedUser \<Rightarrow> 'w handler) \<Rightarrow> 'w handler" where
  "RequireAuth verifier next r w =
     (case authenticateRequest verifier (hr_Authorization r) of
        Inl e \<Rightarrow> answer (writeError 401 e) w
      | Inr user \<Rightarrow>
          (if \<not> user_EmailVerified user then answer (writeError 403 ''verified email is required'') w
           else if \<not> IsAllowedEmail (user_Email user) then answer (writeError 403 ''email is not allowlisted'') w
           else next user r w))"

section \<open>Routes\<close>

text \<open>\<open>strings.Trim\<close>.\<close>

definition TrimChar :: "string \<Rightarrow> char \<Rightarrow> string" where
  "TrimChar s c = rev (dropWhile (\<lambda>x. x = c) (rev (dropWhile (\<lambda>x. x = c) s)))"

definition parseDecisionPath :: "string \<Rightarrow> (string \<times> string) option" where
  "parseDecisionPath path =
     (case Split (TrimChar path CHR ''/'') CHR ''/'' of
        [api, runs, runID, pivots, pivotID, decision] \<Rightarrow>
          (if api \<noteq> ''api'' \<or> runs \<noteq> ''runs'' \<or> pivots \<noteq> ''pivots'' \<or> decision \<noteq> ''decision'' then None
           else if runID = [] \<or> pivotID = [] then None
           else Some (runID, pivotID))
      | _ \<Rightarrow> None)"

text \<open>The service, each operation of which may panic, and the decoders of the bodies.\<close>

record 'w api =
  api_CreateRun :: "authenticatedUser \<Rightarrow> createRunRequest \<Rightarrow> 'w \<Rightarrow> (string + runRecord) option \<times> 'w"
  api_DecidePivot :: "authenticatedUser \<Rightarrow> string \<Rightarrow> string \<Rightarrow> pivotDecisionInput \<Rightarrow> 'w \<Rightarrow> (serviceError + pivotRecord) option \<times> 'w"
  api_decodeRun :: "string \<Rightarrow> createRunRequest option"
  api_decodeDecision :: "string \<Rightarrow> pivotDecisionInput option"

fun errorMessage :: "serviceError \<Rightarrow> string" where
  "errorMessage (ErrForbidden m) = m"
| "errorMessage (ErrNotFound m) = m"
| "errorMessage (ErrOther m) = m"

definition handleCreateRun :: "'w api \<Rightarrow> authenticatedUser \<Rightarrow> 'w handler" where
  "handleCreateRun a user r w =
     (if hr_Method r \<noteq> ''POST'' then answer (writeError 405 ''method not allowed'') w
      else case api_decodeRun a (hr_Body r) of
             None \<Rightarrow> answer (writeError 400 ''invalid request body'') w
           | Some request \<Rightarrow>
               (case api_CreateRun a user request w of
                  (None, w') \<Rightarrow> (None, w')
                | (Some (Inl e), w') \<Rightarrow> answer (writeError 400 e) w'
                | (Some (Inr run), w') \<Rightarrow> answer (writeJSON 202 (RunPayload run)) w'))"

definition handleDecision :: "'w api \<Rightarrow> authenticatedUser \<Rightarrow> 'w handler" where
  "handleDecision a user r w =
     (if hr_Method r \<noteq> ''POST'' then answer (writeError 405 ''method not allowed'') w
      else case parseDecisionPath (hr_Path r) of
             None \<Rightarrow> answer (writeError 404 ''route not found'') w
           | Some (runID, pivotID) \<Rightarrow>
               (case api_decodeDecision a (hr_Body r) of
                  None \<Rightarrow> answer (writeError 400 ''invalid request body'') w
                | Some decision \<Rightarrow>
                    (case api_DecidePivot a user runID pivotID decision w of
                       (None, w') \<Rightarrow> (None, w')
                     | (Some (Inl e), w') \<Rightarrow> answer (writeError (statusForError e) (errorMessage e)) w'
                     | (Some (Inr pivot), w') \<Rightarrow> answer (writeJSON 200 (PivotPayload pivot)) w')))"

text \<open>The mux: two paths, and everything below \<open>/api/runs/\<close>; anything else is not found.\<close>

definition apiMux :: "'w api \<Rightarrow> authVerifier \<Rightarrow> 'w handler" where
  "apiMux a verifier r w =
     (if hr_Path r = ''/healthz'' then answer (writeJSON 200 HealthPayload) w
      else if hr_Path r = ''/api/runs'' then RequireAuth verifier (handleCreateRun a) r w
      else if HasPrefix (hr_Path r) ''/api/runs/'' then RequireAuth verifier (handleDecision a) r w
      else answer (writeError 404 ''404 page not found'') w)"

definition withAPICORS :: "'w handler \<Rightarrow> string list \<Rightarrow> 'w handler" where
  "withAPICORS next allowedOrigins r w =
     (let originSet = set (filter (\<lambda>x. x \<noteq> []) (map TrimSpace allowedOrigins)); origin = TrimSpace (hr_Origin r)
      in if \<not> HasPrefix (hr_Path r) ''/api/'' \<or> origin = [] then next r w
         else if origin \<notin> originSet then answer (writeError 403 ''origin is not allowed'') w
         else if hr_Method r = ''OPTIONS''
         then answer \<lparr>resp_Status = 204, resp_AllowOrigin = Some origin, resp_Payload = NoPayload\<rparr> w
         else apfst (map_option (\<lambda>resp. resp\<lparr>resp_AllowOrigin := Some origin\<rparr>)) (next r w))"

text \<open>The headers set before a panic stay, so the answer to it keeps the origin.\<close>

definition recoverJSON :: "('w handler) \<Rightarrow> string list \<Rightarrow> httpRequest \<Rightarrow> 'w \<Rightarrow> httpResponse \<times> 'w" where
  "recoverJSON next allowedOrigins r w =
     (case next r w of
        (Some resp, w') \<Rightarrow> (resp, w')
      | (None, w') \<Rightarrow>
          (let origin = TrimSpace (hr_Origin r)
           in ((writeError 500 ''internal server error'')\<lparr>resp_AllowOrigin :=
                 (if HasPrefix (hr_Path r) ''/api/'' \<and> origin \<noteq> [] then Some origin else None)\<rparr>, w')))"

definition NewHandler :: "'w api \<Rightarrow> authVerifier \<Rightarrow> string list \<Rightarrow> httpRequest \<Rightarrow> 'w \<Rightarrow> httpResponse \<times> 'w" where
  "NewHandler a verifier allowedOrigins =
     recoverJSON (withAPICORS (apiMux a verifier) allowedOrigins) allowedOrigins"

section \<open>The worker\<close>

record 'w worker =
  wk_claim :: "string \<Rightarrow> string \<Rightarrow> gotime \<Rightarrow> int \<Rightarrow> 'w \<Rightarrow> (string + bool) \<times> 'w"
  wk_process :: "string \<Rightarrow> string \<Rightarrow> 'w \<Rightarrow> (string option \<times> string option) \<times> 'w"
    \<comment> \<open>\<open>ProcessRun\<close> beside the heartbeats of a lease: the error of each\<close>
  wk_release :: "string \<Rightarrow> string \<Rightarrow> 'w \<Rightarrow> string option \<times> 'w"
  wk_leaseTTL :: int
  wk_heartbeatInterval :: int

definition NewWorker ::
  "(string \<Rightarrow> string \<Rightarrow> gotime \<Rightarrow> int \<Rightarrow> 'w \<Rightarrow> (string + bool) \<times> 'w)
     \<Rightarrow> (string \<Rightarrow> string \<Rightarrow> 'w \<Rightarrow> (string option \<times> string option) \<times> 'w)
     \<Rightarrow> (string \<Rightarrow> string \<Rightarrow> 'w \<Rightarrow> string option \<times> 'w) \<Rightarrow> int \<Rightarrow> int \<Rightarrow> string + 'w worker" where
  "NewWorker claim process release ttl0 interval0 =
     (let second = 1000000000; ttl = (if ttl0 \<le> 0 then 15 * 60 * second else ttl0);
          interval = (if interval0 \<le> 0 then 60 * second else interval0)
      in if interval \<ge> ttl then Inl ''heartbeat interval must be shorter than the lease TTL''
         else Inr \<lparr>wk_claim = claim, wk_process = process, wk_release = release, wk_leaseTTL = ttl,
                   wk_heartbeatInterval = interval\<rparr>)"

text \<open>\<open>errors.Join\<close>: \<open>None\<close> when there is no error, else their texts on lines of their own.\<close>

definition joinErrors :: "string option list \<Rightarrow> string option" where
  "joinErrors es =
     (let texts = map the (filter (\<lambda>e. e \<noteq> None) es) in if texts = [] then None else Some (Join texts [CHR 0x0A]))"

definition runWorker :: "'w worker \<Rightarrow> string \<Rightarrow> gotime \<Rightarrow> string \<Rightarrow> 'w \<Rightarrow> string option \<times> 'w" where
  "runWorker k leaseID now runID0 w =
     (let runID = TrimSpace runID0
      in if runID = [] then (Some ''run ID is required'', w)
         else case wk_claim k runID leaseID now (wk_leaseTTL k) w of
                (Inl e, w1) \<Rightarrow> (Some (''claim run execution: '' @ e), w1)
              | (Inr False, w1) \<Rightarrow> (None, w1)
              | (Inr True, w1) \<Rightarrow>
                  (let ((processErr, heartbeatErr), w2) = wk_process k runID leaseID w1;
                       (releaseErr, w3) = wk_release k runID leaseID w2
                   in (joinErrors [processErr, heartbeatErr, releaseErr], w3)))"

section \<open>What a request can do\<close>

text \<open>Only a \<open>POST\<close> of a user whose token was verified, with a verified and allowed address, from no
  origin or an allowed one, reaches the service.\<close>

definition authorized :: "authVerifier \<Rightarrow> string list \<Rightarrow> httpRequest \<Rightarrow> bool" where
  "authorized verifier allowedOrigins r \<longleftrightarrow>
     hr_Method r = ''POST''
   \<and> (\<exists>user. authenticateRequest verifier (hr_Authorization r) = Inr user \<and> user_EmailVerified user \<and> IsAllowedEmail (user_Email user))
   \<and> (TrimSpace (hr_Origin r) = [] \<or> TrimSpace (hr_Origin r) \<in> TrimSpace ` set allowedOrigins)"

lemma apiMux_guarded:
  assumes "\<not> (hr_Method r = ''POST'' \<and> (\<exists>user. authenticateRequest verifier (hr_Authorization r) = Inr user
      \<and> user_EmailVerified user \<and> IsAllowedEmail (user_Email user)))"
  shows "snd (apiMux a verifier r w) = w"
  using assms
  by (auto simp: apiMux_def RequireAuth_def answer_def handleCreateRun_def handleDecision_def split: sum.split)

lemma withAPICORS_frame: "(\<And>w. snd (next r w) = w) \<Longrightarrow> snd (withAPICORS next origins r w) = w"
  by (simp add: withAPICORS_def answer_def Let_def)

lemma recoverJSON_frame: "snd (recoverJSON next origins r w) = snd (next r w)"
  by (auto simp: recoverJSON_def Let_def split: prod.split option.split)

lemma apiMux_api: "snd (apiMux a verifier r w) \<noteq> w \<Longrightarrow> HasPrefix (hr_Path r) ''/api/''"
proof (rule ccontr)
  assume "snd (apiMux a verifier r w) \<noteq> w" and no: "\<not> HasPrefix (hr_Path r) ''/api/''"
  have "hr_Path r \<noteq> ''/api/runs''" using no by (auto simp: HasPrefix_def)
  moreover have "\<not> HasPrefix (hr_Path r) ''/api/runs/''"
  proof
    assume "HasPrefix (hr_Path r) ''/api/runs/''"
    then have "take (length ''/api/runs/'') (hr_Path r) = ''/api/runs/''" by (simp only: HasPrefix_def)
    moreover have "take (length ''/api/'') (hr_Path r) = take (length ''/api/'') (take (length ''/api/runs/'') (hr_Path r))"
      by (simp only: take_take) simp
    ultimately have "take (length ''/api/'') (hr_Path r) = take (length ''/api/'') ''/api/runs/''" by (simp only:)
    then show False using no by (simp add: HasPrefix_def)
  qed
  ultimately have "snd (apiMux a verifier r w) = w" by (simp add: apiMux_def answer_def)
  with \<open>snd (apiMux a verifier r w) \<noteq> w\<close> show False by simp
qed

lemma NewHandler_guarded:
  assumes "\<not> authorized verifier allowedOrigins r"
  shows "snd (NewHandler a verifier allowedOrigins r w) = w"
proof (rule ccontr)
  assume changed: "snd (NewHandler a verifier allowedOrigins r w) \<noteq> w"
  then have inner: "snd (withAPICORS (apiMux a verifier) allowedOrigins r w) \<noteq> w"
    by (simp add: NewHandler_def recoverJSON_frame)
  then have mux: "snd (apiMux a verifier r w) \<noteq> w" by (auto simp: withAPICORS_def answer_def Let_def split: if_splits)
  from apiMux_guarded [of r verifier a w] mux
  have "hr_Method r = ''POST'' \<and> (\<exists>user. authenticateRequest verifier (hr_Authorization r) = Inr user
      \<and> user_EmailVerified user \<and> IsAllowedEmail (user_Email user))" by blast
  moreover have "TrimSpace (hr_Origin r) = [] \<or> TrimSpace (hr_Origin r) \<in> TrimSpace ` set allowedOrigins"
    using inner apiMux_api [OF mux] by (auto simp: withAPICORS_def answer_def Let_def split: if_splits)
  ultimately show False using assms by (simp add: authorized_def)
qed

text \<open>The path of a decision, and no other, gives back its parts.\<close>

lemma Split_segment: "c \<notin> set s \<Longrightarrow> Split (s @ c # t) c = s # Split t c"
  by (induction s) (auto split: list.split)

lemma Split_plain: "c \<notin> set s \<Longrightarrow> Split s c = [s]"
  by (induction s) auto

lemma parseDecisionPath_path:
  assumes "CHR ''/'' \<notin> set runID" and "CHR ''/'' \<notin> set pivotID" and "runID \<noteq> []" and "pivotID \<noteq> []"
  shows "parseDecisionPath (''/api/runs/'' @ runID @ ''/pivots/'' @ pivotID @ ''/decision'') = Some (runID, pivotID)"
proof -
  have "TrimChar (''/api/runs/'' @ runID @ ''/pivots/'' @ pivotID @ ''/decision'') CHR ''/''
      = ''api'' @ CHR ''/'' # ''runs'' @ CHR ''/'' # runID @ CHR ''/'' # ''pivots'' @ CHR ''/'' # pivotID @ CHR ''/'' # ''decision''"
    by (simp add: TrimChar_def)
  moreover have "Split (''api'' @ CHR ''/'' # ''runs'' @ CHR ''/'' # runID @ CHR ''/'' # ''pivots'' @ CHR ''/'' # pivotID
      @ CHR ''/'' # ''decision'') CHR ''/'' = [''api'', ''runs'', runID, ''pivots'', pivotID, ''decision'']"
    using assms(1,2) by (simp add: Split_segment Split_plain del: append.simps append_Cons)
  ultimately show ?thesis using assms(3,4) by (simp add: parseDecisionPath_def)
qed

text \<open>A worker that was granted the lease gives it back, whatever became of the run.\<close>

lemma worker_releases:
  assumes "wk_claim k (TrimSpace runID) leaseID now (wk_leaseTTL k) w = (Inr True, w1)" and "TrimSpace runID \<noteq> []"
  shows "snd (runWorker k leaseID now runID w)
    = snd (wk_release k (TrimSpace runID) leaseID (snd (wk_process k (TrimSpace runID) leaseID w1)))"
  using assms by (simp add: runWorker_def split_def Let_def)

lemma worker_interval:
  "NewWorker claim process release ttl interval = Inr k \<Longrightarrow> 0 < wk_heartbeatInterval k \<and> wk_heartbeatInterval k < wk_leaseTTL k"
  by (auto simp: NewWorker_def Let_def split: if_splits)

end
