(* ===== verification/Program_Examples.thy ===== *)
theory Program_Examples
  imports Run_Examples Program_Facts HTTP_API
begin

text \<open>
  The program with a network in which only \<open>acme.com\<close> and \<open>acme.io\<close> resolve, no page can be fetched, and a
  model that collects \<open>labs.io\<close>; and an API with one user.
\<close>

section \<open>The model\<close>

definition acmeExchange :: llmExchange where
  "acmeExchange = \<lparr>lx_Marshal = (\<lambda>_. Inr ''{}''), lx_Do = (\<lambda>_. Inr (200, Inr ''{}'')),
     lx_Completion = (\<lambda>_. Inr \<lparr>cp_Choices = [''Sure: {1}''], cp_Error = None\<rparr>),
     lx_Decisions = (\<lambda>_. Inr [zeroLLMDecision\<lparr>llm_Root := ''labs.io'', llm_Collect := True, llm_Confidence := 2\<rparr>])\<rparr>"

definition acmeModel :: llmConfig where
  "acmeModel = \<lparr>lj_endpoint = ''https://llm.acme.com/chat'', lj_model = ''m'', lj_apiKey = []\<rparr>"

definition acmeQuestion :: ownershipRequest where
  "acmeQuestion = \<lparr>or_Scenario = ''sitemap host pivot'', or_Seed = acmeSeed,
     or_Candidates = [\<lparr>oc_Root = ''cdn.net'', oc_Evidence = []\<rparr>, \<lparr>oc_Root = ''labs.io'', oc_Evidence = []\<rparr>]\<rparr>"

definition acmeJudge :: ownershipJudge where
  "acmeJudge = EvaluateCandidates acmeNet (\<lambda>_. ''{}'') acmeExchange acmeModel"

text \<open>It answers for \<open>labs.io\<close> only; the confidence is brought into range.\<close>

lemma acme_answer: "parseLLMDecisions (lx_Decisions acmeExchange) ''Sure: {1}'' = lx_Decisions acmeExchange ''{1}''"
  by code_simp

lemma acme_chat: "completeChat acmeExchange acmeModel system user = Inr ''Sure: {1}''"
  by (simp add: completeChat_def acmeExchange_def limitedBody_def)

lemma acme_judge_answers:
  "acmeJudge acmeQuestion = Inr (ownershipDecisions acmeNet acmeQuestion (projr (lx_Decisions acmeExchange [])))"
  by (simp add: acmeJudge_def EvaluateCandidates_def acme_chat acme_answer) (simp add: acmeQuestion_def acmeExchange_def)

lemma acme_judge_collects:
  "map (\<lambda>d. (jd_Root d, jd_Collect d, jd_Confidence d))
     (ownershipDecisions acmeNet acmeQuestion (projr (lx_Decisions acmeExchange [])))
   = [(''cdn.net'', False, 0), (''labs.io'', True, 1)]"
  by code_simp

section \<open>The externals\<close>

definition acmeURLs :: urlLibrary where
  "acmeURLs = \<lparr>ul_Parse = (\<lambda>raw. Some \<lparr>url_Scheme = ''https'', url_Host = ''acme.com'', url_Path = raw, url_RawQuery = [],
        url_Fragment = [], url_Rest = []\<rparr>),
     ul_ParseError = (\<lambda>_. []), ul_ResolveReference = (\<lambda>_ ref. ref), ul_String = url_Path, ul_Hostname = (\<lambda>_. ''acme.com''),
     ul_Port = (\<lambda>_. []), ul_Query = (\<lambda>_. []), ul_Encode = (\<lambda>_. [])\<rparr>"

definition acmeExternals :: "domainEnricherState externals" where
  "acmeExternals =
     \<lparr>ex_net = acmeNet, ex_env = (\<lambda>_. acmeEnvironment), ex_handler = None, ex_ownershipJudge = Some acmeJudge,
      ex_webHintJudge = Some (EvaluateAnchorRoots acmeNet (\<lambda>_. ''{}'') acmeExchange acmeModel),
      ex_search = Some (\<lambda>_. Inl ''no search''), ex_MarshalIndent = (\<lambda>_. ''{}''), ex_web = (\<lambda>_. Inl ''unreachable''),
      ex_lookupDomain = (\<lambda>_ _. LookupFailed ''timeout''), ex_resolver = acmeResolver,
      ex_ICANNSuffixes = [''com'', ''io'', ''org'', ''net''], ex_ends = rev, ex_decodeNames = (\<lambda>_. Inr []),
      ex_decodeOTX = (\<lambda>_. Inr []), ex_decodeCT = (\<lambda>_. Inr []), ex_decodePrefixes = (\<lambda>_. Inr []),
      ex_QueryEscape = (\<lambda>t. t), ex_LookupAddr = (\<lambda>_. Inr [''host.acme.com.'']),
      ex_ParsePrefix = (\<lambda>_. Some \<lparr>pre_addr = 3221225984, pre_bits = 24\<rparr>), ex_urls = acmeURLs,
      ex_parseHTML = (\<lambda>_. Inr (OtherNode [])), ex_fetch = (\<lambda>_. Inl ''unreachable''), ex_crawl = (\<lambda>_. Inl ''unreachable''),
      ex_decodeXML = (\<lambda>_. ([], None)), ex_mapOrder = rev, ex_showFloat = (\<lambda>_. ''1''), ex_showThreshold = (\<lambda>_. ''0.5''),
      ex_domainEnricher = acmeEnricher, ex_domainState = \<lparr>cell_get = (\<lambda>b. b), cell_put = (\<lambda>c _. c)\<rparr>, ex_contextID = 1,
      ex_ipResolver = acmePTR, ex_ipOrders = \<lparr>ipo_observations = rev, ipo_events = (\<lambda>es. es), ipo_map = rev\<rparr>,
      ex_zone = (\<lambda>_. 0), ex_writeFile = (\<lambda>_ _. None)\<rparr>"

lemma acme_externals_ok: "externalsOK acmeExternals"
  unfolding externalsOK_def
proof (intro conjI)
  show "suffixLibrary (ex_net acmeExternals)" by (simp add: acmeExternals_def acme_suffixLibrary)
  show "\<forall>x \<in> set (ex_ICANNSuffixes acmeExternals). CHR '','' \<notin> set x" by (simp add: acmeExternals_def)
  show "plainHosts (ex_urls acmeExternals)" by (simp add: acmeExternals_def acmeURLs_def plainHosts_def)
  show "\<forall>ip names. ex_LookupAddr acmeExternals ip = Inr names \<longrightarrow> (\<forall>n \<in> set names. CHR '','' \<notin> set n)"
    by (auto simp: acmeExternals_def)
  show "ptrLibrary (ex_ipResolver acmeExternals)" by (auto simp: acmeExternals_def ptrLibrary_def acmePTR_def)
  show "fairOrders (ex_ipOrders acmeExternals)" by (simp add: acmeExternals_def fairOrders_def)
  show "fairMapOrder (ex_mapOrder acmeExternals)" by (simp add: acmeExternals_def fairMapOrder_def)
  show "answersCandidates (ex_ownershipJudge acmeExternals)"
    using EvaluateCandidates_answers by (simp add: acmeExternals_def acmeJudge_def)
  show "answersHints (ex_webHintJudge acmeExternals)"
    using EvaluateAnchorRoots_answers by (simp add: acmeExternals_def)
  show "plainSearch (ex_search acmeExternals)" by (simp add: acmeExternals_def plainSearch_def)
qed

definition acmeSweep :: dnsVariantSweepConfig where
  "acmeSweep = \<lparr>vs_Mode = [], vs_BatchSize = 0, vs_Concurrency = 0, vs_PrioritizedCap = 2\<rparr>"

lemma acme_pipeline:
  "\<exists>e. NewPipeline acmeExternals acmeSweep [''out.json'', ''notes.txt'', ''out.XLSX''] = Inr e
     \<and> map node_Name (Exporters e) = [''JSONExporter'', ''XLSXExporter'']"
proof -
  have "(case NewPipeline acmeExternals acmeSweep [''out.json'', ''notes.txt'', ''out.XLSX''] of
       Inl _ \<Rightarrow> False | Inr e \<Rightarrow> map node_Name (Exporters e) = [''JSONExporter'', ''XLSXExporter''])"
    by code_simp
  then show ?thesis by (simp split: sum.splits)
qed

lemma acme_pipeline_refused:
  "NewPipeline acmeExternals acmeSweep [''out.json'', ''site.html'']
     = Inl ''visualizer HTML output \"site.html\" is no longer supported; specify JSON, CSV, or XLSX file paths only''"
proof -
  have "(case NewPipeline acmeExternals acmeSweep [''out.json'', ''site.html''] of
       Inl e \<Rightarrow> e = ''visualizer HTML output \"site.html\" is no longer supported; specify JSON, CSV, or XLSX file paths only''
     | Inr _ \<Rightarrow> False)"
    by code_simp
  then show ?thesis by (simp split: sum.splits)
qed

section \<open>The API\<close>

text \<open>The world is the list of what was asked for.\<close>

definition acmeAPI :: "string list api" where
  "acmeAPI = \<lparr>api_CreateRun = (\<lambda>u _ w. (Some (Inr acmeRun), w @ [''create''])),
     api_DecidePivot = (\<lambda>u runID pivotID _ w. (None, w @ [runID @ ''/'' @ pivotID])),
     api_decodeRun = (\<lambda>_. None), api_decodeDecision = (\<lambda>_. Some PivotDecisionInputAccepted)\<rparr>"

definition acmeVerifier :: authVerifier where
  "acmeVerifier = Some (\<lambda>token. if token = ''t1'' then Inr (acmeUser\<lparr>user_Email := ''A@ZeroFox.com''\<rparr>) else Inl ''bad token'')"

definition decisionRequest :: httpRequest where
  "decisionRequest = \<lparr>hr_Method = ''POST'', hr_Path = ''/api/runs/r1/pivots/p1/decision'', hr_Authorization = ''Bearer t1'',
     hr_Origin = '' https://app '', hr_Body = ''{}''\<rparr>"

text \<open>The handler of the service panics here; the answer still has the headers for the browser.\<close>

lemma decision_request_answer:
  "NewHandler acmeAPI acmeVerifier [''https://app''] decisionRequest [] =
     ((writeError 500 ''internal server error'')\<lparr>resp_AllowOrigin := Some ''https://app''\<rparr>, [''r1/p1''])"
  by code_simp

end
