(* ===== verification/Projection_Facts.thy ===== *)
theory Projection_Facts
  imports Asset_Projection
begin

text \<open>
  What the read model promises: the node tree of a trace is rooted and lists parents first, the
  seed groups partition the contributors, the rows are a sorted rearrangement of the assets with
  one trace each, and the related links are at most eight other assets that share the registrable
  domain or an enumeration.
\<close>

section \<open>The node tree\<close>

text \<open>Every node hangs below one listed before it; \<open>ids\<close> are the nodes before the list.\<close>

fun parented :: "string set \<Rightarrow> traceNode list \<Rightarrow> bool" where
  "parented ids [] \<longleftrightarrow> True"
| "parented ids (n # ns) \<longleftrightarrow> tn_ParentID n \<in> ids \<and> parented (insert (tn_ID n) ids) ns"

lemma parented_append:
  "parented ids (xs @ ys) \<longleftrightarrow> parented ids xs \<and> parented (ids \<union> tn_ID ` set xs) ys"
  by (induction xs arbitrary: ids) (auto simp: insert_commute)

lemma parented_mono: "parented ids ns \<Longrightarrow> ids \<subseteq> ids' \<Longrightarrow> parented ids' ns"
proof (induction ns arbitrary: ids ids')
  case (Cons n ns)
  from Cons.IH [of "insert (tn_ID n) ids" "insert (tn_ID n) ids'"] Cons.prems show ?case by auto
qed simp

lemma parented_below: "\<forall>n \<in> set ns. tn_ParentID n = r \<Longrightarrow> r \<in> ids \<Longrightarrow> parented ids ns"
  by (induction ns arbitrary: ids) auto

lemma parented_concat: "\<forall>ns \<in> set nss. parented ids ns \<Longrightarrow> parented ids (concat nss)"
proof (induction nss arbitrary: ids)
  case (Cons ns nss)
  then have "parented (ids \<union> tn_ID ` set ns) (concat nss)" by (auto intro: parented_mono)
  with Cons.prems show ?case by (simp add: parented_append)
qed simp

lemma seedGroupNodes_parented:
  assumes "''asset:'' @ asset_ID a @ '':seeds'' \<in> ids"
  shows "parented ids (seedGroupNodes zone a g)"
  using assms
  by (auto simp: seedGroupNodes_def Let_def seedNode_def contributorNode_def intro!: parented_below)

lemma block_parented:
  assumes "''asset:'' @ asset_ID a \<in> ids"
  shows "parented ids (observationNodes zone a obs em sm)"
    and "parented ids (seedNodes zone a cs sm)"
    and "parented ids (relationNodes zone a rels)"
    and "parented ids (enrichmentNodes zone a)"
proof -
  show "parented ids (observationNodes zone a obs em sm)"
    using assms by (auto simp: observationNodes_def groupNode_def observationNode_def intro!: parented_below)
  show "parented ids (relationNodes zone a rels)"
    using assms by (auto simp: relationNodes_def groupNode_def relationNode_def intro!: parented_below)
  show "parented ids (enrichmentNodes zone a)"
    using assms by (auto simp: enrichmentNodes_def groupNode_def enrichmentNode_def intro!: parented_below)
  have "parented (insert (''asset:'' @ asset_ID a @ '':seeds'') ids)
          (concat (map (seedGroupNodes zone a) (groupTraceContributorsBySeed cs sm)))"
    by (rule parented_concat) (auto intro: seedGroupNodes_parented)
  then show "parented ids (seedNodes zone a cs sm)"
    using assms by (simp add: seedNodes_def Let_def groupNode_def)
qed

lemma buildTraceNodes_tree:
  assumes "buildTraceNodes zone a src secs cs obs rels em sm = (rootID, nodes)"
  shows "\<exists>rest. nodes = rootNode a src secs # rest \<and> tn_ID (rootNode a src secs) = rootID \<and> parented {rootID} rest"
  using assms
  by (auto simp: buildTraceNodes_def parented_append rootNode_def intro!: block_parented)

section \<open>Seed groups\<close>

lemma joinSeedGroup_simps [simp]:
  "sg_Key (joinSeedGroup sm c g) = sg_Key g"
  "sg_Contributors (joinSeedGroup sm c g) = sg_Contributors g @ [c]"
  by (simp_all add: joinSeedGroup_def)

lemma newSeedGroup_simps [simp]:
  "sg_Key (newSeedGroup sm key c) = key"
  "sg_Contributors (newSeedGroup sm key c) = []"
  by (simp_all add: newSeedGroup_def Let_def)

lemma mset_join_at:
  assumes "distinct (map sg_Key gs)" and "key \<in> sg_Key ` set gs"
  shows "mset (concat (map sg_Contributors (map (\<lambda>g. if sg_Key g = key then joinSeedGroup sm c g else g) gs)))
     = add_mset c (mset (concat (map sg_Contributors gs)))"
  using assms
proof (induction gs)
  case (Cons g gs)
  show ?case
  proof (cases "sg_Key g = key")
    case True
    then have "map (\<lambda>g. if sg_Key g = key then joinSeedGroup sm c g else g) gs = gs"
      using Cons.prems(1) by (auto intro!: map_idI) (metis image_eqI)
    with True show ?thesis by simp
  next
    case False
    with Cons show ?thesis by simp
  qed
qed simp

definition seedGroupsOK :: "traceSeedGroup list \<Rightarrow> bool" where
  "seedGroupsOK gs \<longleftrightarrow> distinct (map sg_Key gs)
     \<and> (\<forall>g \<in> set gs. sg_Key g \<noteq> [] \<and> sg_Contributors g \<noteq> []
          \<and> (\<forall>c \<in> set (sg_Contributors g). TrimSpace (tc_SeedID c) \<noteq> [] \<longrightarrow> TrimSpace (tc_SeedID c) = sg_Key g))"

lemma seedGroupKey_nonempty: "seedGroupKey n c \<noteq> []"
  by (simp add: seedGroupKey_def)

lemma addToSeedGroups_keys:
  "map sg_Key (addToSeedGroups sm c gs) =
     (let key = seedGroupKey (length gs) c in map sg_Key gs @ (if key \<in> sg_Key ` set gs then [] else [key]))"
  by (auto simp: addToSeedGroups_def Let_def comp_def intro!: map_cong)

lemma addToSeedGroups_OK:
  assumes "seedGroupsOK gs"
  shows "seedGroupsOK (addToSeedGroups sm c gs)"
proof -
  let ?key = "seedGroupKey (length gs) c"
  have "distinct (map sg_Key (addToSeedGroups sm c gs))"
    using assms by (auto simp: addToSeedGroups_keys seedGroupsOK_def Let_def)
  moreover have "TrimSpace (tc_SeedID c) \<noteq> [] \<Longrightarrow> TrimSpace (tc_SeedID c) = ?key" by (simp add: seedGroupKey_def)
  ultimately show ?thesis
    using assms seedGroupKey_nonempty [of "length gs" c]
    by (auto simp: seedGroupsOK_def addToSeedGroups_def Let_def)
qed

lemma addToSeedGroups_mset:
  assumes "seedGroupsOK gs"
  shows "mset (concat (map sg_Contributors (addToSeedGroups sm c gs)))
     = add_mset c (mset (concat (map sg_Contributors gs)))"
proof -
  let ?key = "seedGroupKey (length gs) c"
  show ?thesis
  proof (cases "?key \<in> sg_Key ` set gs")
    case True
    with assms show ?thesis
      using mset_join_at [of gs ?key sm c] by (simp add: addToSeedGroups_def Let_def seedGroupsOK_def)
  next
    case False
    with assms have "distinct (map sg_Key (gs @ [newSeedGroup sm ?key c]))" by (simp add: seedGroupsOK_def)
    with False show ?thesis
      using mset_join_at [of "gs @ [newSeedGroup sm ?key c]" ?key sm c]
      by (simp add: addToSeedGroups_def Let_def)
  qed
qed

lemma groupTraceContributors_fold:
  assumes "seedGroupsOK gs"
  shows "seedGroupsOK (fold (addToSeedGroups sm) cs gs)
    \<and> mset (concat (map sg_Contributors (fold (addToSeedGroups sm) cs gs)))
      = mset cs + mset (concat (map sg_Contributors gs))"
  using assms
proof (induction cs arbitrary: gs)
  case (Cons c cs)
  from Cons.IH [OF addToSeedGroups_OK [OF Cons.prems]] addToSeedGroups_mset [OF Cons.prems] show ?case by simp
qed simp

lemma seed_groups_partition:
  "seedGroupsOK (groupTraceContributorsBySeed cs sm)"
  "mset (concat (map sg_Contributors (groupTraceContributorsBySeed cs sm))) = mset cs"
  using groupTraceContributors_fold [of "[]" sm cs]
  by (simp_all add: groupTraceContributorsBySeed_def seedGroupsOK_def)

section \<open>Time bounds\<close>

lemma timeBounds_acc:
  assumes "(f = 0) = (l = 0)"
  shows "timeBounds ts f l =
    (let s = set (filter (\<lambda>t. t \<noteq> 0) ts) \<union> (if f = 0 then {} else {f});
         u = set (filter (\<lambda>t. t \<noteq> 0) ts) \<union> (if l = 0 then {} else {l})
     in (if s = {} then 0 else Min s, if u = {} then 0 else Max u))"
  using assms
proof (induction ts f l rule: timeBounds.induct)
  case (2 t ts f l)
  show ?case
  proof (cases "t = 0")
    case True
    with 2 show ?thesis by simp
  next
    case False
    let ?f = "if f = 0 \<or> t < f then t else f" and ?l = "if l = 0 \<or> t > l then t else l"
    let ?S = "set (filter (\<lambda>t. t \<noteq> 0) ts)"
    have z: "(?f = 0) = (?l = 0)" "?f \<noteq> 0" "?l \<noteq> 0" using False "2.prems" by auto
    have lo: "Min (insert ?f ?S) = Min (insert t (?S \<union> (if f = 0 then {} else {f})))"
      by (cases "?S = {}") (auto simp: min_def insert_commute)
    have hi: "Max (insert ?l ?S) = Max (insert t (?S \<union> (if l = 0 then {} else {l})))"
      by (cases "?S = {}") (auto simp: max_def insert_commute)
    have "timeBounds (t # ts) f l = timeBounds ts ?f ?l" using False by simp
    also have "\<dots> = (Min (insert ?f ?S), Max (insert ?l ?S))"
      using "2.IH"(2) [OF False z(1)] z(2,3) by (simp add: Let_def del: set_filter)
    also have "\<dots> = (Min (insert t (?S \<union> (if f = 0 then {} else {f}))),
                      Max (insert t (?S \<union> (if l = 0 then {} else {l}))))"
      unfolding lo hi ..
    finally show ?thesis using False by (simp add: Let_def del: set_filter)
  qed
qed simp

lemma timeBounds_Min_Max:
  assumes "filter (\<lambda>t. t \<noteq> 0) ts \<noteq> []"
  shows "timeBounds ts 0 0 = (Min (set (filter (\<lambda>t. t \<noteq> 0) ts)), Max (set (filter (\<lambda>t. t \<noteq> 0) ts)))"
  using assms timeBounds_acc [of 0 0 ts] by (simp add: Let_def del: set_filter)

section \<open>Orders\<close>

definition exportKey :: "netLibrary \<Rightarrow> asset \<Rightarrow> nat \<times> string \<times> string \<times> gotime \<times> string" where
  "exportKey net a = (exportGroupForAsset a (ClassifyAsset net a), cls_RegistrableDomain (ClassifyAsset net a),
     NormalizeDomainIdentifier (asset_Identifier a), asset_DiscoveryDate a, asset_ID a)"

lemma exportBefore_key: "exportBefore net a b \<longleftrightarrow> exportKey net a < exportKey net b"
  by (auto simp: exportBefore_def exportKey_def Let_def less_prod_simp)

definition rowKey :: "assetRow \<Rightarrow> nat \<times> string \<times> gotime \<times> string" where
  "rowKey row = (assetRowGroup row, row_RegistrableDomain row, - row_DiscoveryDate row, row_Identifier row)"

lemma rowBefore_key: "rowBefore a b \<longleftrightarrow> rowKey a < rowKey b"
  by (auto simp: rowBefore_def rowKey_def less_prod_simp)

interpretation export_order: strict_weak_order "exportBefore net" for net
  by (rule strict_weak_order_key [OF exportBefore_key])

interpretation row_order: strict_weak_order rowBefore
  by (rule strict_weak_order_key [OF rowBefore_key])

lemma SortedAssetsForExport_key: "SortedAssetsForExport net as = sort_key (exportKey net) as"
  unfolding SortedAssetsForExport_def by (rule SliceStable_sort_key [OF exportBefore_key])

section \<open>The read model\<close>

definition projectedRow :: "netLibrary \<Rightarrow> (gotime \<Rightarrow> int) \<Rightarrow> string \<Rightarrow> pipelineContext \<Rightarrow> asset \<Rightarrow> assetRow" where
  "projectedRow net zone runID p a = fst (buildProjectedAssetData net zone runID a (buildAssetProjectionInputs p))"

lemma projectedData_ID:
  "row_AssetID (fst (buildProjectedAssetData net zone runID a inputs)) = asset_ID a"
  "tr_AssetID (snd (buildProjectedAssetData net zone runID a inputs)) = asset_ID a"
  by (simp_all add: buildProjectedAssetData_def BuildTrace_def split_def Let_def)

lemma read_model_rows:
  "fst (buildProjectedAssetReadModel net zone runID p)
     = sort_key rowKey (map (projectedRow net zone runID p) (sort_key (exportKey net) (Assets p)))"
  by (simp add: buildProjectedAssetReadModel_def Let_def projectedRow_def [abs_def] comp_def SortedAssetsForExport_key
      SliceStable_sort_key [OF rowBefore_key])

lemma fold_index_Some:
  "\<lbrakk>fold (\<lambda>(r, t) m. m(k r \<mapsto> t)) ps m x = y; \<forall>(r, t) \<in> set ps. k r = i t\<rbrakk>
   \<Longrightarrow> (x \<in> (k \<circ> fst) ` set ps \<longrightarrow> (\<exists>t. y = Some t \<and> i t = x)) \<and> (x \<notin> (k \<circ> fst) ` set ps \<longrightarrow> y = m x)"
proof (induction ps arbitrary: m)
  case (Cons q ps)
  obtain r t where q: "q = (r, t)" by (cases q)
  from Cons.IH [of "m(k r \<mapsto> t)"] Cons.prems
  have IH: "x \<in> (k \<circ> fst) ` set ps \<longrightarrow> (\<exists>t. y = Some t \<and> i t = x)"
    "x \<notin> (k \<circ> fst) ` set ps \<longrightarrow> y = (m(k r \<mapsto> t)) x"
    unfolding q by (simp_all del: fun_upd_apply)
  show ?case
    using IH Cons.prems(2) unfolding q by (cases "x \<in> (k \<circ> fst) ` set ps"; cases "x = k r") auto
qed simp

lemma concat_option_map:
  "\<forall>r \<in> set rs. \<exists>t. f r = Some t \<and> i (g r t) = k r
   \<Longrightarrow> map i (concat (map (\<lambda>r. case f r of None \<Rightarrow> [] | Some t \<Rightarrow> [g r t]) rs)) = map k rs"
  by (induction rs) auto

lemma read_model_traces:
  "map tr_AssetID (snd (buildProjectedAssetReadModel net zone runID p))
     = map row_AssetID (fst (buildProjectedAssetReadModel net zone runID p))"
proof -
  let ?data = "map (\<lambda>a. buildProjectedAssetData net zone runID a (buildAssetProjectionInputs p))
                 (SortedAssetsForExport net (Assets p))"
  let ?m = "fold (\<lambda>(row, t) m. m(row_AssetID row \<mapsto> t)) ?data Map.empty"
  let ?rows = "SliceStable rowBefore (map fst ?data)"
  have ids: "\<forall>(r, t) \<in> set ?data. row_AssetID r = tr_AssetID t"
    using projectedData_ID [of net zone runID _ "buildAssetProjectionInputs p"]
    by (auto simp: split_def)
  have "\<exists>t. ?m (row_AssetID r) = Some t \<and> tr_AssetID t = row_AssetID r" if "r \<in> set ?rows" for r
    using fold_index_Some [OF refl ids, where m = Map.empty and x = "row_AssetID r"] that by force
  then show ?thesis
    unfolding buildProjectedAssetReadModel_def Let_def fst_conv snd_conv
    by (intro concat_option_map) fastforce
qed

section \<open>Links\<close>

definition linkOK :: "assetRow list \<Rightarrow> (assetRow \<Rightarrow> bool) \<Rightarrow> string set \<times> traceLink list \<Rightarrow> string set \<times> traceLink list \<Rightarrow> bool" where
  "linkOK rows matches st st' \<longleftrightarrow>
     (\<exists>new. snd st' = snd st @ new
        \<and> fst st' = fst st \<union> tl_AssetID ` set new
        \<and> distinct (map tl_AssetID new) \<and> tl_AssetID ` set new \<inter> fst st = {}
        \<and> (\<forall>l \<in> set new. \<exists>c \<in> set rows. matches c \<and> row_AssetID c = tl_AssetID l)
        \<and> (length (snd st) \<le> 8 \<longrightarrow> length (snd st') \<le> 8)
        \<and> (length (snd st') < 8 \<longrightarrow> (\<forall>c \<in> set rows. matches c \<longrightarrow> row_AssetID c \<in> fst st')))"

lemma linkLoop_OK:
  assumes "self \<in> fst st" and "\<And>c. tl_AssetID (link c) = row_AssetID c"
  shows "linkOK rows matches st (linkLoop self matches link rows st)"
  using assms(1)
proof (induction rows arbitrary: st)
  case Nil
  show ?case by (simp add: linkOK_def)
next
  case (Cons c rows)
  obtain seen links where st: "st = (seen, links)" by (cases st)
  consider (full) "length links \<ge> 8" | (skip) "length links < 8" "\<not> (matches c \<and> row_AssetID c \<notin> seen)"
    | (add) "length links < 8" "matches c" "row_AssetID c \<notin> seen" by linarith
  then show ?case
  proof cases
    case full
    then show ?thesis by (auto simp: st linkOK_def)
  next
    case skip
    have eq: "linkLoop self matches link (c # rows) st = linkLoop self matches link rows st"
      using skip by (auto simp: st)
    from Cons.IH [OF Cons.prems] skip show ?thesis
      unfolding eq linkOK_def st by auto
  next
    case add
    have "row_AssetID c \<noteq> self" using add Cons.prems by (auto simp: st)
    with add have eq: "linkLoop self matches link (c # rows) st
        = linkLoop self matches link rows (insert (row_AssetID c) seen, links @ [link c])"
      by (auto simp: st)
    have "linkOK rows matches (insert (row_AssetID c) seen, links @ [link c])
       (linkLoop self matches link rows (insert (row_AssetID c) seen, links @ [link c]))"
      using Cons.IH [of "(insert (row_AssetID c) seen, links @ [link c])"] Cons.prems by (simp add: st)
    then obtain new where new: "snd (linkLoop self matches link (c # rows) st) = links @ link c # new"
      "fst (linkLoop self matches link (c # rows) st) = insert (row_AssetID c) seen \<union> tl_AssetID ` set new"
      "distinct (map tl_AssetID new)" "tl_AssetID ` set new \<inter> insert (row_AssetID c) seen = {}"
      "\<forall>l \<in> set new. \<exists>c \<in> set rows. matches c \<and> row_AssetID c = tl_AssetID l"
      "length (links @ link c # new) \<le> 8"
      "length (links @ link c # new) < 8 \<longrightarrow> (\<forall>x \<in> set rows. matches x \<longrightarrow>
         row_AssetID x \<in> insert (row_AssetID c) seen \<union> tl_AssetID ` set new)"
      unfolding eq linkOK_def using add(1) by auto
    show ?thesis
      unfolding linkOK_def
    proof (intro exI [of _ "link c # new"] conjI)
      show "snd (linkLoop self matches link (c # rows) st) = snd st @ link c # new" using new(1) by (simp add: st)
      show "fst (linkLoop self matches link (c # rows) st) = fst st \<union> tl_AssetID ` set (link c # new)"
        using new(2) assms(2) by (auto simp: st)
      show "distinct (map tl_AssetID (link c # new))" using new(3,4) assms(2) by auto
      show "tl_AssetID ` set (link c # new) \<inter> fst st = {}" using new(4) add(3) assms(2) by (auto simp: st)
      show "\<forall>l \<in> set (link c # new). \<exists>x \<in> set (c # rows). matches x \<and> row_AssetID x = tl_AssetID l"
        using new(5) add(2) assms(2) by auto
      show "length (snd st) \<le> 8 \<longrightarrow> length (snd (linkLoop self matches link (c # rows) st)) \<le> 8"
        using new(1,6) by simp
      show "length (snd (linkLoop self matches link (c # rows) st)) < 8 \<longrightarrow>
        (\<forall>x \<in> set (c # rows). matches x \<longrightarrow> row_AssetID x \<in> fst (linkLoop self matches link (c # rows) st))"
        using new(1,2,7) by auto
    qed
  qed
qed

lemma traceLinkTo_ID [simp]: "tl_AssetID (traceLinkTo runID l d c) = row_AssetID c"
  by (simp add: traceLinkTo_def)

definition related :: "assetRow \<Rightarrow> assetRow \<Rightarrow> bool" where
  "related row c \<longleftrightarrow> sameDomain row c \<or> hasSharedValue (row_EnumerationID row) (row_EnumerationID c)"

lemma buildTraceLinks_spec:
  "length (buildTraceLinks runID row rows) \<le> 8"
  "distinct (map tl_AssetID (buildTraceLinks runID row rows))"
  "row_AssetID row \<notin> tl_AssetID ` set (buildTraceLinks runID row rows)"
  "l \<in> set (buildTraceLinks runID row rows) \<Longrightarrow> \<exists>c \<in> set rows. related row c \<and> row_AssetID c = tl_AssetID l"
  "length (buildTraceLinks runID row rows) < 8 \<Longrightarrow> c \<in> set rows \<Longrightarrow> related row c
     \<Longrightarrow> row_AssetID c = row_AssetID row \<or> row_AssetID c \<in> tl_AssetID ` set (buildTraceLinks runID row rows)"
proof -
  let ?l1 = "\<lambda>c. traceLinkTo runID ''Same Registrable Domain'' (''Shares '' @ row_RegistrableDomain c) c"
  let ?l2 = "\<lambda>c. traceLinkTo runID ''Same Enumeration'' (''Collected in '' @ row_EnumerationID c) c"
  let ?m2 = "\<lambda>c. hasSharedValue (row_EnumerationID row) (row_EnumerationID c)"
  let ?st1 = "linkLoop (row_AssetID row) (sameDomain row) ?l1 rows ({row_AssetID row}, [])"
  let ?st2 = "linkLoop (row_AssetID row) ?m2 ?l2 rows ?st1"
  have L: "buildTraceLinks runID row rows = snd ?st2" by (simp add: buildTraceLinks_def)
  have "linkOK rows (sameDomain row) ({row_AssetID row}, []) ?st1" by (rule linkLoop_OK) simp_all
  then obtain n1 where n1: "snd ?st1 = n1" "fst ?st1 = insert (row_AssetID row) (tl_AssetID ` set n1)"
    "distinct (map tl_AssetID n1)" "row_AssetID row \<notin> tl_AssetID ` set n1"
    "\<forall>l \<in> set n1. \<exists>c \<in> set rows. sameDomain row c \<and> row_AssetID c = tl_AssetID l" "length n1 \<le> 8"
    "length n1 < 8 \<longrightarrow> (\<forall>c \<in> set rows. sameDomain row c \<longrightarrow> row_AssetID c \<in> fst ?st1)"
    unfolding linkOK_def by auto
  have "row_AssetID row \<in> fst ?st1" unfolding n1(2) by simp
  then have "linkOK rows ?m2 ?st1 ?st2" by (rule linkLoop_OK) simp
  then obtain n2 where n2: "snd ?st2 = n1 @ n2" "fst ?st2 = fst ?st1 \<union> tl_AssetID ` set n2"
    "distinct (map tl_AssetID n2)" "tl_AssetID ` set n2 \<inter> fst ?st1 = {}"
    "\<forall>l \<in> set n2. \<exists>c \<in> set rows. ?m2 c \<and> row_AssetID c = tl_AssetID l" "length (n1 @ n2) \<le> 8"
    "length (n1 @ n2) < 8 \<longrightarrow> (\<forall>c \<in> set rows. ?m2 c \<longrightarrow> row_AssetID c \<in> fst ?st2)"
    unfolding linkOK_def n1(1) using n1(6) by auto
  show "length (buildTraceLinks runID row rows) \<le> 8" unfolding L n2(1) by (rule n2(6))
  show "distinct (map tl_AssetID (buildTraceLinks runID row rows))"
    unfolding L n2(1) using n1 n2(3,4) by auto
  show "row_AssetID row \<notin> tl_AssetID ` set (buildTraceLinks runID row rows)"
    unfolding L n2(1) using n1(2,4) n2(4) by auto
  show "\<exists>c \<in> set rows. related row c \<and> row_AssetID c = tl_AssetID l"
    if "l \<in> set (buildTraceLinks runID row rows)"
    using that n1(5) n2(5) unfolding L n2(1) related_def by auto
  show "row_AssetID c = row_AssetID row \<or> row_AssetID c \<in> tl_AssetID ` set (buildTraceLinks runID row rows)"
    if "length (buildTraceLinks runID row rows) < 8" "c \<in> set rows" "related row c"
    using that n1(2,7) n2(2,7) unfolding L n2(1) related_def by auto
qed

text \<open>Enumeration IDs without commas and outer blanks survive being joined and split again.\<close>

definition plainValue :: "string \<Rightarrow> bool" where
  "plainValue s \<longleftrightarrow> s \<noteq> [] \<and> CHR '','' \<notin> set s \<and> TrimSpace s = s"

lemma TrimSpace_blank: "TrimSpace (CHR '' '' # s) = TrimSpace s"
  by (simp add: TrimSpace_def TrimLeft_def is_space_def)

lemma Split_Join_comma:
  "\<forall>s \<in> set ss. plainValue s \<Longrightarrow> ss \<noteq> [] \<Longrightarrow> map TrimSpace (Split (Join ss '', '') CHR '','') = ss"
proof (induction ss)
  case (Cons s ss)
  show ?case
  proof (cases ss)
    case Nil
    with Cons.prems show ?thesis by (simp add: plainValue_def Split_fresh)
  next
    case (Cons t ts)
    have J: "Join (s # ss) '', '' = s @ CHR '','' # CHR '' '' # Join ss '', ''" by (simp add: Cons)
    have "Split (CHR '' '' # Join ss '', '') CHR '','' =
        (CHR '' '' # hd (Split (Join ss '', '') CHR '','')) # tl (Split (Join ss '', '') CHR '','')"
      by (cases "Split (Join ss '', '') CHR '',''") simp_all
    then have "map TrimSpace (Split (CHR '' '' # Join ss '', '') CHR '','') = map TrimSpace (Split (Join ss '', '') CHR '','')"
      by (cases "Split (Join ss '', '') CHR '',''") (simp_all add: TrimSpace_blank)
    with Cons.prems Cons.IH Cons show ?thesis
      unfolding J by (simp add: Split_append_sep plainValue_def)
  qed
qed simp

lemma splitValues_Join:
  assumes "\<forall>s \<in> set ss. plainValue s" and "distinct ss"
  shows "splitValues (Join ss '', '') = ss"
proof (cases "ss = []")
  case True
  then show ?thesis by (simp add: splitValues_def)
next
  case False
  have "filter (\<lambda>s. s \<noteq> []) ss = ss" using assms(1) by (auto simp: plainValue_def intro: filter_True)
  with False assms show ?thesis
    by (simp add: splitValues_def Split_Join_comma uniqueBy_fixed)
qed

lemma hasSharedValue_iff: "hasSharedValue l r \<longleftrightarrow> set (splitValues l) \<inter> set (splitValues r) \<noteq> {}"
  by (auto simp: hasSharedValue_def Let_def list_ex_iff)

lemma uniqueTraceContributorValues_set:
  "set (uniqueTraceContributorValues cs f) = {TrimSpace (f c) | c. c \<in> set cs} - {[]}"
  using keys_uniqueBy [of "\<lambda>s. s" "{}" "filter (\<lambda>s. s \<noteq> []) (map (\<lambda>c. TrimSpace (f c)) cs)"]
  by (auto simp: uniqueTraceContributorValues_def)

lemma uniqueTraceContributorValues_distinct: "distinct (uniqueTraceContributorValues cs f)"
  using distinct_uniqueBy [of "\<lambda>s. s"] by (simp add: uniqueTraceContributorValues_def)

lemma shared_enumeration:
  assumes "\<forall>c \<in> set cs \<union> set ds. plainValue (f c)"
  shows "hasSharedValue (SummarizeContributorValues cs f) (SummarizeContributorValues ds f)
     \<longleftrightarrow> f ` set cs \<inter> f ` set ds \<noteq> {}"
proof -
  have split: "set (splitValues (SummarizeContributorValues xs f)) = f ` set xs"
    if "\<forall>c \<in> set xs. plainValue (f c)" for xs
  proof -
    have eq: "set (uniqueTraceContributorValues xs f) = f ` set xs"
      using that by (auto simp: uniqueTraceContributorValues_set plainValue_def) (metis image_eqI)
    then have "\<forall>s \<in> set (uniqueTraceContributorValues xs f). plainValue s" using that by auto
    from splitValues_Join [OF this uniqueTraceContributorValues_distinct] eq show ?thesis
      by (simp add: SummarizeContributorValues_def)
  qed
  have "set (splitValues (SummarizeContributorValues cs f)) = f ` set cs"
    "set (splitValues (SummarizeContributorValues ds f)) = f ` set ds"
    using assms by (auto intro!: split)
  then show ?thesis by (simp add: hasSharedValue_iff)
qed

end
