(* ===== verification/Judges_Facts.thy ===== *)
theory Judges_Facts
  imports Judges
begin

text \<open>
  What the judge summary says: one group for each question that was asked, and in it the roots
  some evaluation collected as accepted, the other evaluated roots as discarded.
\<close>

section \<open>Decisions\<close>

lemma clampUnitFloat_bounds: "0 \<le> clampUnitFloat v \<and> clampUnitFloat v \<le> 1"
  by (simp add: clampUnitFloat_def)

lemma decideCandidate_bounds:
  "0 \<le> jd_Confidence (decideCandidate kind m r) \<and> jd_Confidence (decideCandidate kind m r) \<le> 1"
  by (simp add: decideCandidate_def Let_def clampUnitFloat_bounds)

lemma decideCandidate_explicit:
  "jd_Collect (decideCandidate kind m r) \<Longrightarrow> jd_Explicit (decideCandidate kind m r)"
  by (simp add: decideCandidate_def Let_def)

text \<open>The decoded answer for a root is the last one the model gave.\<close>

lemma find_append:
  "find P (xs @ ys) = (case find P xs of Some x \<Rightarrow> Some x | None \<Rightarrow> find P ys)"
  by (induction xs) auto

lemma decisionsByRoot_lookup:
  assumes "r \<noteq> []"
  shows "decisionsByRoot net raw m r =
    (case find (\<lambda>d. RegistrableDomain net (llm_Root d) = r) (rev raw) of
       Some d \<Rightarrow> Some (d\<lparr>llm_Root := r, llm_Confidence := clampUnitFloat (llm_Confidence d)\<rparr>)
     | None \<Rightarrow> m r)"
proof (induction raw arbitrary: m)
  case (Cons d raw)
  show ?case using assms by (simp add: Cons.IH find_append Let_def split: option.split)
qed simp

section \<open>One group\<close>

fun absorbOutcome :: "judgeCandidateOutcome option \<Rightarrow> judgeCandidateOutcome \<Rightarrow> judgeCandidateOutcome option" where
  "absorbOutcome None x = Some x"
| "absorbOutcome (Some y) x = Some (mergeJudgeOutcome y x)"

lemma map_of_addOutcome:
  "map_of (addOutcome x os) r =
     (if out_Root x = r \<and> r \<noteq> [] then absorbOutcome (map_of os r) x else map_of os r)"
  by (auto simp: addOutcome_def update_conv' split: option.split)

lemma map_of_fold_addOutcome:
  "r \<noteq> [] \<Longrightarrow> map_of (fold addOutcome xs os) r =
     foldl absorbOutcome (map_of os r) (filter (\<lambda>x. out_Root x = r) xs)"
  by (induction xs arbitrary: os) (auto simp: map_of_addOutcome)

lemma mergeJudgeOutcome_fields [simp]:
  "out_Root (mergeJudgeOutcome y x) = out_Root y"
  "out_Collect (mergeJudgeOutcome y x) \<longleftrightarrow> out_Collect y \<or> out_Collect x"
  "out_Confidence (mergeJudgeOutcome y x) = max (out_Confidence y) (out_Confidence x)"
  "out_Explicit (mergeJudgeOutcome y x) \<longleftrightarrow> out_Explicit y \<or> out_Explicit x"
  by (auto simp: mergeJudgeOutcome_def)

lemma foldl_absorb_Some:
  "foldl absorbOutcome (Some y) xs = Some z \<Longrightarrow>
     out_Root z = out_Root y \<and> (out_Collect z \<longleftrightarrow> out_Collect y \<or> (\<exists>x \<in> set xs. out_Collect x))
   \<and> out_Confidence z = fold max (map out_Confidence xs) (out_Confidence y)"
  by (induction xs arbitrary: y) (auto simp: max.commute)

lemma foldl_absorb_None_iff: "foldl absorbOutcome y xs = None \<longleftrightarrow> y = None \<and> xs = []"
proof (induction xs arbitrary: y)
  case (Cons x xs)
  show ?case by (cases y) (simp_all add: Cons.IH)
qed simp

lemma foldl_absorb:
  assumes "foldl absorbOutcome None xs = Some z" and "\<forall>x \<in> set xs. out_Root x = r"
  shows "out_Root z = r" and "out_Collect z \<longleftrightarrow> (\<exists>x \<in> set xs. out_Collect x)"
    and "out_Confidence z = Max (out_Confidence ` set xs)"
proof -
  from assms(1) obtain y ys where xs: "xs = y # ys" by (cases xs) auto
  with assms(1) have z: "foldl absorbOutcome (Some y) ys = Some z" by simp
  from foldl_absorb_Some [OF z] assms(2) xs
  show "out_Root z = r" and "out_Collect z \<longleftrightarrow> (\<exists>x \<in> set xs. out_Collect x)" by auto
  from foldl_absorb_Some [OF z] show "out_Confidence z = Max (out_Confidence ` set xs)"
    using Max.set_eq_fold [of "out_Confidence y" "map out_Confidence ys"] by (simp add: xs)
qed

lemma absorbed_iff:
  assumes "\<forall>x \<in> set xs. out_Root x = r"
  shows "(\<exists>z. foldl absorbOutcome None xs = Some z \<and> out_Collect z) \<longleftrightarrow> (\<exists>x \<in> set xs. out_Collect x)"
    and "(\<exists>z. foldl absorbOutcome None xs = Some z \<and> \<not> out_Collect z)
       \<longleftrightarrow> xs \<noteq> [] \<and> (\<forall>x \<in> set xs. \<not> out_Collect x)"
proof (atomize (full), cases "foldl absorbOutcome None xs")
  case None
  then have "xs = []" by (simp add: foldl_absorb_None_iff)
  then show "((\<exists>z. foldl absorbOutcome None xs = Some z \<and> out_Collect z) \<longleftrightarrow> (\<exists>x \<in> set xs. out_Collect x))
    \<and> ((\<exists>z. foldl absorbOutcome None xs = Some z \<and> \<not> out_Collect z)
       \<longleftrightarrow> xs \<noteq> [] \<and> (\<forall>x \<in> set xs. \<not> out_Collect x))" by simp
next
  case (Some z)
  then have "xs \<noteq> []" by auto
  with Some foldl_absorb(2) [OF Some assms]
  show "((\<exists>z. foldl absorbOutcome None xs = Some z \<and> out_Collect z) \<longleftrightarrow> (\<exists>x \<in> set xs. out_Collect x))
    \<and> ((\<exists>z. foldl absorbOutcome None xs = Some z \<and> \<not> out_Collect z)
       \<longleftrightarrow> xs \<noteq> [] \<and> (\<forall>x \<in> set xs. \<not> out_Collect x))" by simp
qed

section \<open>All groups\<close>

definition groupOutcome :: "(string \<times> judgeGroupAggregate) list \<Rightarrow> string \<Rightarrow> string \<Rightarrow> judgeCandidateOutcome option" where
  "groupOutcome groups key r = (case map_of groups key of None \<Rightarrow> None | Some g \<Rightarrow> map_of (ga_outcomes g) r)"

definition outcomesFor :: "string \<Rightarrow> string \<Rightarrow> judgeEvaluation list \<Rightarrow> judgeCandidateOutcome list" where
  "outcomesFor key r es =
     filter (\<lambda>x. out_Root x = r) (concat (map eval_Outcomes (filter (\<lambda>e. evaluationKey e = key) es)))"

lemma groupOutcome_addEvaluation:
  "r \<noteq> [] \<Longrightarrow> groupOutcome (addEvaluation e groups) key r =
     foldl absorbOutcome (groupOutcome groups key r) (outcomesFor key r [e])"
  by (auto simp: groupOutcome_def addEvaluation_def outcomesFor_def Let_def update_conv'
      map_of_fold_addOutcome newGroup_def split: option.split)

lemma groupOutcome_fold:
  "r \<noteq> [] \<Longrightarrow> groupOutcome (fold addEvaluation es groups) key r =
     foldl absorbOutcome (groupOutcome groups key r) (outcomesFor key r es)"
proof (induction es arbitrary: groups)
  case (Cons e es)
  have "outcomesFor key r (e # es) = outcomesFor key r [e] @ outcomesFor key r es"
    by (simp add: outcomesFor_def)
  with Cons show ?case by (simp add: groupOutcome_addEvaluation)
qed (simp add: outcomesFor_def)

definition aggregateKey :: "judgeGroupAggregate \<Rightarrow> string" where
  "aggregateKey g = groupKey (ga_collector g) (ga_seedID g) (ga_seedLabel g) (ga_seedDomains g) (ga_scenario g)"

definition outcomes_ok :: "(string \<times> judgeCandidateOutcome) list \<Rightarrow> bool" where
  "outcomes_ok os \<longleftrightarrow> distinct (map fst os) \<and> (\<forall>(r, x) \<in> set os. out_Root x = r \<and> r \<noteq> [])"

definition groups_ok :: "(string \<times> judgeGroupAggregate) list \<Rightarrow> bool" where
  "groups_ok groups \<longleftrightarrow> distinct (map fst groups)
     \<and> (\<forall>(key, g) \<in> set groups. aggregateKey g = key \<and> outcomes_ok (ga_outcomes g))"

lemma set_update_sub: "(k, v) \<in> set (AList.update k' v' xs) \<Longrightarrow> (k, v) = (k', v') \<or> (k, v) \<in> set xs"
  by (induction xs) (auto split: if_splits)

lemma addOutcome_ok: "outcomes_ok os \<Longrightarrow> outcomes_ok (addOutcome x os)"
proof -
  assume ok: "outcomes_ok os"
  have "out_Root y = out_Root x" if "map_of os (out_Root x) = Some y" for y
    using ok map_of_SomeD [OF that] by (auto simp: outcomes_ok_def)
  with ok show ?thesis
    by (auto simp: addOutcome_def outcomes_ok_def distinct_update split: option.split dest!: set_update_sub)
qed

lemma addEvaluation_ok:
  assumes "groups_ok groups"
  shows "groups_ok (addEvaluation e groups)"
proof -
  define g where "g = (case map_of groups (evaluationKey e) of Some g \<Rightarrow> g | None \<Rightarrow> newGroup e)"
  have "aggregateKey g = evaluationKey e \<and> outcomes_ok (ga_outcomes g)"
  proof (cases "map_of groups (evaluationKey e)")
    case None
    then show ?thesis by (simp add: g_def newGroup_def aggregateKey_def evaluationKey_def outcomes_ok_def)
  next
    case (Some g')
    from map_of_SomeD [OF this] assms Some show ?thesis by (auto simp: g_def groups_ok_def)
  qed
  moreover have "outcomes_ok os \<Longrightarrow> outcomes_ok (fold addOutcome xs os)" for xs os
    by (induction xs arbitrary: os) (simp_all add: addOutcome_ok)
  ultimately show ?thesis
    using assms by (auto simp: addEvaluation_def groups_ok_def g_def [symmetric] Let_def distinct_update
        aggregateKey_def dest!: set_update_sub)
qed

lemma fold_addEvaluation_ok: "groups_ok groups \<Longrightarrow> groups_ok (fold addEvaluation es groups)"
  by (induction es arbitrary: groups) (simp_all add: addEvaluation_ok)

lemma keys_fold_addEvaluation:
  "fst ` set (fold addEvaluation es groups) =
     fst ` set groups \<union> evaluationKey ` {e \<in> set es. eval_Outcomes e \<noteq> []}"
proof (induction es arbitrary: groups)
  case (Cons e es)
  have "fst ` set (addEvaluation e groups) = fst ` set groups \<union> (if eval_Outcomes e \<noteq> [] then {evaluationKey e} else {})"
    by (simp add: addEvaluation_def Let_def dom_update)
  then show ?case unfolding fold_simps comp_apply Cons.IH by auto
qed simp

section \<open>The summary\<close>

definition jgKey :: "judgeGroup \<Rightarrow> string" where
  "jgKey g = groupKey (jg_Collector g) (jg_SeedID g) (jg_SeedLabel g) (jg_SeedDomains g) (jg_Scenario g)"

lemma jgKey_toGroup: "jgKey (toGroup g) = aggregateKey g"
  by (simp add: jgKey_def toGroup_def aggregateKey_def Let_def)

lemma toGroup_roots:
  assumes "outcomes_ok (ga_outcomes g)"
  shows "jc_Root ` set (jg_Accepted (toGroup g)) = {r. \<exists>x. map_of (ga_outcomes g) r = Some x \<and> out_Collect x}"
    and "jc_Root ` set (jg_Discarded (toGroup g)) = {r. \<exists>x. map_of (ga_outcomes g) r = Some x \<and> \<not> out_Collect x}"
proof -
  let ?m = "map_of (ga_outcomes g)"
  have in_dom: "r \<in> fst ` set (ga_outcomes g) \<longleftrightarrow> (\<exists>x. ?m r = Some x)" for r
    by (metis domIff dom_map_of_conv_image_fst not_None_eq)
  have root: "out_Root x = r" if "?m r = Some x" for r x
    using map_of_SomeD [OF that] assms unfolding outcomes_ok_def by fast
  have part: "jc_Root ` toCandidate ` {x \<in> (\<lambda>r. the (?m r)) ` fst ` set (ga_outcomes g). P x} = {r. \<exists>x. ?m r = Some x \<and> P x}" for P
  proof (rule set_eqI, rule iffI)
    fix r assume "r \<in> jc_Root ` toCandidate ` {x \<in> (\<lambda>r. the (?m r)) ` fst ` set (ga_outcomes g). P x}"
    then obtain q where q: "q \<in> fst ` set (ga_outcomes g)" "P (the (?m q))" "r = out_Root (the (?m q))"
      unfolding toCandidate_def image_image by (auto simp del: image_eqI)
    from q(1) obtain x where "?m q = Some x" unfolding in_dom by blast
    with q root show "r \<in> {r. \<exists>x. ?m r = Some x \<and> P x}" by auto
  next
    fix r assume "r \<in> {r. \<exists>x. ?m r = Some x \<and> P x}"
    then obtain x where x: "?m r = Some x" "P x" by blast
    then have "r \<in> fst ` set (ga_outcomes g)" unfolding in_dom by blast
    then have "x \<in> (\<lambda>r. the (?m r)) ` fst ` set (ga_outcomes g)" using x(1) by (intro image_eqI [of _ _ r]) simp
    with x(2) have "x \<in> {x \<in> (\<lambda>r. the (?m r)) ` fst ` set (ga_outcomes g). P x}" by blast
    moreover have "r = jc_Root (toCandidate x)" using root [OF x(1)] by (simp add: toCandidate_def)
    ultimately show "r \<in> jc_Root ` toCandidate ` {x \<in> (\<lambda>r. the (?m r)) ` fst ` set (ga_outcomes g). P x}" by blast
  qed
  from part [of out_Collect] part [of "\<lambda>x. \<not> out_Collect x"]
  show "jc_Root ` set (jg_Accepted (toGroup g)) = {r. \<exists>x. ?m r = Some x \<and> out_Collect x}"
    and "jc_Root ` set (jg_Discarded (toGroup g)) = {r. \<exists>x. ?m r = Some x \<and> \<not> out_Collect x}"
    by (simp_all add: toGroup_def Let_def)
qed

lemma BuildJudgeSummary_groups:
  assumes order: "\<And>ks. mset (mapOrder ks) = mset ks" and sum: "BuildJudgeSummary mapOrder es = Some s"
  shows "jgKey ` set (js_Groups s) = evaluationKey ` {e \<in> set es. eval_Outcomes e \<noteq> []}"
    and "distinct (map jgKey (js_Groups s))"
    and "g \<in> set (js_Groups s) \<Longrightarrow> r \<noteq> [] \<Longrightarrow>
           r \<in> jc_Root ` set (jg_Accepted g) \<longleftrightarrow> (\<exists>x \<in> set (outcomesFor (jgKey g) r es). out_Collect x)"
    and "g \<in> set (js_Groups s) \<Longrightarrow> r \<noteq> [] \<Longrightarrow>
           r \<in> jc_Root ` set (jg_Discarded g) \<longleftrightarrow>
             outcomesFor (jgKey g) r es \<noteq> [] \<and> (\<forall>x \<in> set (outcomesFor (jgKey g) r es). \<not> out_Collect x)"
proof -
  let ?groups = "fold addEvaluation es []"
  have "groups_ok ?groups" by (rule fold_addEvaluation_ok) (simp add: groups_ok_def)
  note ok = this [unfolded groups_ok_def]
  define keys where "keys = SliceStable (\<lambda>a b. groupLess (the (map_of ?groups a)) (the (map_of ?groups b)))
                                  (mapOrder (map fst ?groups))"
  have groups: "js_Groups s = map (\<lambda>key. toGroup (the (map_of ?groups key))) keys"
    using sum unfolding BuildJudgeSummary_def keys_def Let_def by (auto split: if_splits)
  have "mset keys = mset (map fst ?groups)" by (simp add: keys_def order)
  then have keys: "set keys = fst ` set ?groups" "distinct keys"
    using ok mset_eq_setD [of keys "map fst ?groups"] mset_eq_imp_distinct_iff [of keys "map fst ?groups"] by simp_all
  have get: "\<exists>g. map_of ?groups key = Some g \<and> aggregateKey g = key \<and> outcomes_ok (ga_outcomes g)"
    if "key \<in> set keys" for key
  proof -
    from that keys(1) obtain g where "(key, g) \<in> set ?groups" by auto
    with ok show ?thesis by (metis (mono_tags, lifting) case_prodD map_of_is_SomeI)
  qed
  have jk: "map jgKey (js_Groups s) = keys"
    unfolding groups map_map comp_def jgKey_toGroup by (rule map_idI) (use get in force)
  with keys(2) show "distinct (map jgKey (js_Groups s))" by simp
  have "jgKey ` set (js_Groups s) = set keys" by (metis jk list.set_map)
  then show "jgKey ` set (js_Groups s) = evaluationKey ` {e \<in> set es. eval_Outcomes e \<noteq> []}"
    by (simp add: keys(1) keys_fold_addEvaluation)
  fix g and r :: string assume g: "g \<in> set (js_Groups s)" and r: "r \<noteq> []"
  from g obtain key where key: "key \<in> set keys" "g = toGroup (the (map_of ?groups key))" unfolding groups by auto
  from get [OF key(1)] obtain a where a: "map_of ?groups key = Some a" "aggregateKey a = key" "outcomes_ok (ga_outcomes a)"
    by blast
  with key have ga: "g = toGroup a" "jgKey g = key" by (simp_all add: jgKey_toGroup)
  have out: "map_of (ga_outcomes a) r = foldl absorbOutcome None (outcomesFor key r es)"
    using groupOutcome_fold [OF r, of es "[]" key] a(1) by (simp add: groupOutcome_def)
  have roots: "\<forall>x \<in> set (outcomesFor key r es). out_Root x = r" by (simp add: outcomesFor_def)
  show "r \<in> jc_Root ` set (jg_Accepted g) \<longleftrightarrow> (\<exists>x \<in> set (outcomesFor (jgKey g) r es). out_Collect x)"
    unfolding ga(2) unfolding ga(1) toGroup_roots [OF a(3)] out mem_Collect_eq by (rule absorbed_iff(1) [OF roots])
  show "r \<in> jc_Root ` set (jg_Discarded g) \<longleftrightarrow>
             outcomesFor (jgKey g) r es \<noteq> [] \<and> (\<forall>x \<in> set (outcomesFor (jgKey g) r es). \<not> out_Collect x)"
    unfolding ga(2) unfolding ga(1) toGroup_roots [OF a(3)] out mem_Collect_eq by (rule absorbed_iff(2) [OF roots])
qed

end
