(* ===== verification/Spec2Isabelle.thy ===== *)
theory Spec2Isabelle
  imports Program_Examples Projection_Facts Judges_Facts
begin

text \<open>
  A verification development for asset-discovery, a Go program that starts from seeds (a company, its
  domains), collects the domains and addresses that belong to it in waves, merges what the collectors
  report into one table of canonical assets, asks a language model which new domains to follow, and
  runs all this as a service whose runs can pause for review and resume on another machine.

  The parts and how they interact. A context (\<open>internal/models\<close>) holds everything a run knows:
  the frontier of seeds, the asset table, the judge evaluations and the log of events for a listener.
  The engine (\<open>internal/dag/engine.go\<close>) runs collectors, enrichers, expanders, reconsiderers, filters
  and exporters on it and advances the frontier between waves. A stage that finds a new domain
  promotes it; the context asks the pivot broker of the run (\<open>runservice/service_pivots.go\<close>), which
  accepts it or, in a manual run, keeps it for review. At every checkpoint the processor
  (\<open>runservice/service_process_run.go\<close>) saves a snapshot, projects rows and traces for the web client
  and pauses the engine while a pivot waits. \<open>DecidePivot\<close> changes the saved snapshot and queues
  the run again; a worker that holds its lease loads it and resumes.

  Theories and what they model (files under \<open>src/internal\<close>):
    \<^item> \<open>Go_Prelude\<close>, \<open>Go_Time\<close>, \<open>Go_Sort\<close>: the parts of Go's library the program relies on: strings,
      the order of strings, \<open>strconv\<close>, civil dates, stable sorting and \<open>sort.Slice\<close> on total orders.
    \<^item> \<open>Models\<close>: the records of \<open>models/models.go\<close> and the node identifiers of \<open>models/id.go\<close>.
    \<^item> \<open>Seed_Helpers\<close>, \<open>Seed_Frontier\<close>: \<open>models/seed_helpers.go\<close>, \<open>models/seed_frontier.go\<close>;
      \<open>Frontier_Invariant\<close> has the invariant \<open>sched_inv\<close> of the frontier and the relation
      \<open>frontier_step\<close> of what stages may do to it.
    \<^item> \<open>Asset_Merge\<close>, \<open>Asset_State\<close>: \<open>models/asset_*.go\<close>, \<open>models/assets.go\<close>. \<open>Asset_Merge_Facts\<close>
      shows the algebra of the merges, \<open>Asset_Invariant\<close> the invariant \<open>assets_ok\<close> of the table.
    \<^item> \<open>Context_Hooks\<close>: listeners, thresholds, scheduler snapshots, judge evaluations and caches.
    \<^item> \<open>Engine\<close>, \<open>Engine_Facts\<close>, \<open>Resume_Facts\<close>: \<open>dag/engine.go\<close>. A stage is a thread of atomic
      steps; the collectors of a wave run interleaved under any scheduler. \<open>Merge_Filter\<close> is the
      filter stage of \<open>filter/filtering.go\<close>.
    \<^item> \<open>Discovery\<close>: names, roots and candidate domains (\<open>discovery/helpers.go\<close>, \<open>dns_helpers.go\<close>).
    \<^item> \<open>Judges\<close>, \<open>Judges_Facts\<close>: decisions of the judges and their summary (\<open>ownership\<close>,
      \<open>webhint\<close>, \<open>tracing/lineage/judges.go\<close>, \<open>build.go\<close>).
    \<^item> \<open>Trace_Text\<close>, \<open>Trace_Build\<close>, \<open>Asset_Projection\<close>, \<open>Projection_Facts\<close>: the traces of an asset
      (\<open>tracing/lineage/build.go\<close>), the export order (\<open>export/shared\<close>) and the read model of
      \<open>runservice/asset_projection.go\<close>.
    \<^item> \<open>Run_Records\<close>, \<open>Pivot_Broker\<close>, \<open>Pivot_Facts\<close>, \<open>Projection_Store\<close>, \<open>Run_Service\<close>,
      \<open>Run_Process\<close>, \<open>Checkpoint_Store\<close>, \<open>Run_Facts\<close>, \<open>Decision_Facts\<close>: \<open>runservice\<close>, with the
      in-memory stores as an instance of the contracts of the locales \<open>run_stores\<close> and
      \<open>reliable_stores\<close>.
    \<^item> \<open>Stage_Facts\<close>: what stages built from the operations of the context keep, shared by the stages
      below. \<open>Reconsider\<close>, \<open>Reconsider_Facts\<close>: \<open>reconsider\<close>. \<open>Passive_Collectors\<close>, \<open>Collector_Facts\<close>:
      the archive collectors of \<open>collect\<close> and \<open>fetchutil/http.go\<close>. \<open>DNS_Observation\<close>, \<open>DNS_Collector\<close>,
      \<open>DNS_Facts\<close>: \<open>collect/dns_collector.go\<close>. \<open>Domain_Enricher\<close>, \<open>IP_Enricher\<close>, \<open>Enricher_Facts\<close>: \<open>enrich\<close>.
    \<^item> \<open>LLM_Judge\<close>, \<open>Search_Provider\<close>: the exchange with the language model and what is made of its
      answers (\<open>ownership/judge.go\<close>, \<open>webhint/judge.go\<close>, \<open>search/provider.go\<close>).
    \<^item> \<open>Judged_Pivots\<close>, \<open>Judged_Pivot_Facts\<close>: the frame of the collectors that put roots to the judge;
      with it \<open>Reverse_Registration\<close>, \<open>ASN_CIDR\<close>, \<open>Pivot_Collector_Facts\<close>, \<open>Sitemap_Collector\<close>,
      \<open>Sitemap_Facts\<close>, \<open>Crawler_Collector\<close>, \<open>Crawler_Facts\<close>, \<open>Web_Hint_Collector\<close>, \<open>Web_Hint_Facts\<close>:
      the files of \<open>collect\<close> of these names. \<open>Web_Links\<close>: URLs and HTML trees, which they share.
    \<^item> \<open>AI_Search_Collector\<close>, \<open>AI_Search_Facts\<close>: \<open>expand/ai_search_collector.go\<close>. \<open>Registration\<close>:
      \<open>registration/rdap.go\<close>. \<open>Exporters\<close>: \<open>export/exporting.go\<close>.
    \<^item> \<open>Program\<close>, \<open>Program_Facts\<close>: \<open>app/pipeline.go\<close>, the engine with all its stages; every stage keeps
      the invariants of the context. \<open>HTTP_API\<close>: \<open>http.go\<close>, \<open>auth.go\<close>, \<open>middleware.go\<close> and \<open>worker.go\<close> of
      \<open>runservice\<close>.
    \<^item> \<open>Examples\<close>, \<open>Run_Examples\<close>, \<open>Program_Examples\<close>: concrete values the properties below are applied to.

  Conventions. Strings are lists of ASCII characters. \<open>float64\<close> is a rational number: the program
  only compares, copies and clamps confidences. A time is the number of nanoseconds since the zero
  time, an instant; a zone is a function to the offset in seconds. Maps whose iteration order matters
  are passed through an argument \<open>mapOrder\<close>; what is proved holds for every order that keeps the keys,
  unless a property says that it does not. Operations under the context's mutex are single steps. Node
  identifiers are drawn from the 64-bit counter of the context and the clock; other identifiers and the
  clock of the service come from an \<open>environment\<close>. Errors are known by their text; \<open>ErrExecutionPaused\<close>
  is compared by it. The public suffix list, IP and host name parsing are the parameter \<open>netLibrary\<close>,
  stores, artifact publication and the pipeline factory the record \<open>services\<close>. What the stages of the program
  take from outside the repository (transport, resolver, decoders of JSON, HTML and XML, URLs, the order in which
  goroutines end and maps are visited) is the record \<open>externals\<close>; \<open>externalsOK\<close> says what is relied on: a registrable
  domain is a suffix of the name, host names and the names a resolver or a search gives hold no comma, an order
  keeps what it orders, and a judge answers only for the roots it was asked about, which is proved of the judges
  of the program (\<open>EvaluateCandidates_answers\<close>, \<open>EvaluateAnchorRoots_answers\<close>). Events of the context are
  delivered to the listener after each atomic step, in the order they were logged. A JSON checkpoint
  keeps exactly the exported fields (\<open>persistContext\<close>).

  Bounds and termination. The engine's loop is a \<open>partial_function\<close>, whose value \<open>None\<close> would be a run
  that never returns; \<open>Run_terminates\<close> and \<open>run_ends\<close> exclude it: the frontier is advanced at most
  \<open>maxSeedExpansionDepth\<close> times and one extra wave may be reserved once, for a context whose stages keep
  the invariant (\<open>engine_ok\<close>). The pool of collectors ends because each thread is finite. No fuel is used.

  The loops of the crawler and of the sitemap collector, which fetch what they find, end because only a page
  that counts towards the limit makes the queue longer; \<open>crawl_bounded\<close> and \<open>sitemap_bounded\<close> give the bounds.

  Not modelled: the Firestore, GCS, Cloud Run and Firebase clients; file stores and the writing of bytes to files;
  telemetry and logs; the generated table of public suffixes; the commands. Of the goroutines outside the engine,
  the dispatcher's loop is not modelled and the heartbeats of a worker are part of an argument of it; the lease
  protocol they use is modelled. A context of Go that is cancelled while a stage runs is modelled only where
  lookups retry. The collectors that fetch pages see the answer of the transport after its retries.
\<close>

section \<open>Processing a run\<close>

text \<open>C1: A run of the service ends, and what it stored says how. Over the in-memory stores, for a stored
  snapshot that can be resumed and stages that keep to the operations of the context, \<open>ProcessRun\<close>
  returns; afterwards the run is stored as completed or as awaiting review when the call returned
  no error, and as failed with that very error when it returned one.\<close>

theorem run_ends:
  assumes "savedIn r (snd w) = Some stored" and "resumable stored" and "factory r = Inr (e, out)"
    and "engine_ok e None" and "\<forall>n \<in> stages e. only_returns (\<lambda>err. \<not> pauses err) (node_Process n)"
    and "\<forall>n \<in> set (Collectors e) \<union> stages e. thread_ok listenerOK (node_Process n)"
  shows "\<exists>err w' x. ProcessRun (memoryServices publish factory) net zone mo pick r w = Some (err, w')
     \<and> savedIn r (snd w') = Some x
     \<and> (case err of None \<Rightarrow> run_Status (snap_Run x) = RunStatusCompleted \<or> (\<exists>p. awaiting p x)
                  | Some m \<Rightarrow> failedWith m x)"
proof -
  let ?sv = "memoryServices publish factory"
  have f: "sv_pipelineFactory ?sv r = Inr (e, out)" using assms(3) by (simp add: memoryServices_def)
  have "ProcessRun ?sv net zone mo pick r w \<noteq> None"
    by (rule ProcessRun_returns) (use assms(2,4) f memory.load_saved [OF assms(1), of publish factory] in auto)
  then obtain err w' where run: "ProcessRun ?sv net zone mo pick r w = Some (err, w')" by auto
  show ?thesis
  proof (cases err)
    case None
    have "\<forall>e out. sv_pipelineFactory ?sv r = Inr (e, out)
        \<longrightarrow> (\<forall>n \<in> stages e. only_returns (\<lambda>err. \<not> pauses err) (node_Process n))" using assms(5) f by auto
    from memory_runs.ProcessRun_nil [OF this [THEN spec, THEN spec, THEN mp] run [unfolded None]] run None show ?thesis by auto
  next
    case (Some m)
    from memory_runs.ProcessRun_error [OF assms(1) f assms(6) run [unfolded Some]] run Some show ?thesis by auto
  qed
qed

theorem run_ends_witness:
  "\<exists>err w' x. ProcessRun brokenServices acmeNet (\<lambda>_. 0) rev (\<lambda>_ _. 1) ''r1'' storedWorld = Some (err, w')
     \<and> savedIn ''r1'' (snd w') = Some x
     \<and> (case err of None \<Rightarrow> run_Status (snap_Run x) = RunStatusCompleted \<or> (\<exists>p. awaiting p x)
                  | Some m \<Rightarrow> failedWith m x)"
  unfolding brokenServices_def
  by (rule run_ends [OF stored_r1 stored_resumable refl broken_engine_ok broken_engine_only_returns broken_engine_listenerOK])

section \<open>The program\<close>



section \<open>The engine\<close>

text \<open>C3: A run returns. For stages that keep to the operations of the context, every scheduler of
  the collectors and every start context, \<open>Run\<close> ends; it went through at most one wave more than
  the maximal depth, and the frontier, the asset table and the judge evaluations are well formed
  afterwards.\<close>

theorem Run_terminates:
  assumes "engine_ok e None" and "startable p"
  shows "\<exists>r pr q b'. Run pick e (p, b) = Some (r, pr, (q, b')) \<and> Wave pr \<le> maxSeedExpansionDepth + 1
     \<and> (\<exists>D. context_ok D q)"
  by (rule Run_returns [OF assms])

theorem Run_terminates_witness:
  "\<exists>r pr q b'. Run (\<lambda>ts s. 2) acmeEngine (acmeContext, ()) = Some (r, pr, (q, b'))
     \<and> Wave pr \<le> maxSeedExpansionDepth + 1 \<and> (\<exists>D. context_ok D q)"
  by (rule Run_terminates [OF acme_engine_ok acme_startable])

text \<open>C4: No seed is collected twice. In every reachable state of a run, the keys of the seeds of all
  waves collected so far are pairwise different.\<close>

theorem collected_once:
  assumes "engine_ok e callbacks" and "startable (fst s0)"
    and "engineRun pick e callbacks s0 hist pr s"
  shows "distinct (concat hist)"
  using engineRun_inv [OF assms] by (simp add: run_inv_def)

theorem collected_once_witness:
  "distinct (concat ([] @ collectedNow
     (fst (initialProgress zeroProgress (acmeContext, ()))) (snd (initialProgress zeroProgress (acmeContext, ())))))"
proof -
  let ?pr = "fst (initialProgress zeroProgress (acmeContext, ()))"
  let ?s = "snd (initialProgress zeroProgress (acmeContext, ()))"
  have "Phase ?pr = RunPhaseCollectionWave" by (simp add: initialProgress_def zeroProgress_def)
  moreover have pickZero: "engineRun (\<lambda>_ _. 0) (acmeEngine\<lparr>Collectors := []\<rparr>) None (acmeContext, ()) [] ?pr ?s"
    by (rule engineRun.start) simp
  moreover have "\<exists>x. resumeTurn (\<lambda>_ _. 0) (acmeEngine\<lparr>Collectors := []\<rparr>) None ?pr ?s = Inl x"
    by (simp add: resumeTurn_def initialProgress_def zeroProgress_def waveOrSkip_def runWave_def
        acmeEngine_def afterCheckpoint_def runCheckpointCallback_def runPool.simps runnableIndexes_def
        onContext_def Let_def)
  ultimately obtain pr' s' where "resumeTurn (\<lambda>_ _. 0) (acmeEngine\<lparr>Collectors := []\<rparr>) None ?pr ?s = Inl (pr', s')"
    by (metis surj_pair)
  from engineRun.turn [OF pickZero this]
  have run: "engineRun (\<lambda>_ _. 0) (acmeEngine\<lparr>Collectors := []\<rparr>) None (acmeContext, ()) ([] @ collectedNow ?pr ?s) pr' s'" .
  have ok: "engine_ok (acmeEngine\<lparr>Collectors := []\<rparr>) None" using acme_engine_ok by (simp add: engine_ok_def)
  show ?thesis by (rule collected_once [OF ok _ run]) (use acme_startable in simp)
qed



text \<open>A failing collector is recorded. The goroutine of a collector always ends normally, and the
  error it returned, or the panic it was recovered from, is the last entry of \<open>Errors\<close>.\<close>

lemma collector_failure_recorded:
  "run_thread (collectorThread w col) s =
     (case run_thread (processNode ''collect'' w col) s of
        (Inr None, s') \<Rightarrow> (Inr None, s')
      | (Inr (Some e), s') \<Rightarrow> (Inr None, onContext (appendError e) s')
      | (Inl m, s') \<Rightarrow> (Inr None, onContext (appendError (''collector '' @ node_Name col @ '' panicked: '' @ m)) s'))"
  by (rule collectorThread_result)

text \<open>No error is lost. Over a whole wave the error list only grows at its end, for stages that
  do not rewrite it.\<close>

lemma wave_keeps_errors:
  assumes "\<forall>n \<in> set (Collectors e @ Enrichers e @ Expanders e). thread_ok errorsGrow (node_Process n)"
  shows "\<exists>new. Errors (fst (snd (runWave pick e wave s))) = Errors (fst s) @ new"
  using errorsGrow.runWave_R [OF assms] by (simp add: errorsGrow_def)

lemma wave_keeps_errors_witness:
  "\<exists>new. Errors (fst (snd (runWave (\<lambda>_ _. 0) (acmeEngine\<lparr>Collectors := [failing, panicking]\<rparr>) 0 (acmeFrontier, ()))))
     = Errors acmeFrontier @ new"
  using wave_keeps_errors [of "acmeEngine\<lparr>Collectors := [failing, panicking]\<rparr>" "\<lambda>_ _. 0" 0 "(acmeFrontier, ())"]
  by (simp add: acmeEngine_def failing_def panicking_def)

section \<open>The frontier\<close>

text \<open>C6: The frontier stays well formed. Whatever the collectors and the reconsideration do to it, in
  any order, the invariant holds: every accepted seed is listed once under its key, no key is
  scheduled that an earlier wave collected, candidates are seeds not yet accepted, and nothing is
  pending that no wave is left for; the running wave and the budget are untouched. Advancing then
  retires the wave: its keys join the collected ones, and every later wave is kept apart from them.\<close>

theorem frontier_invariant:
  assumes "(frontier_step h)\<^sup>*\<^sup>* (p, b) (p', b')" and "sched_inv D p"
  shows "sched_inv D p' \<and> grows p p' \<and> sched_inv (D \<union> keysOf (collectionSeeds p')) (snd (AdvanceSeedFrontier p'))"
  using sched_inv_frontier_steps [OF assms] grows_frontier_steps [OF assms] sched_inv_AdvanceSeedFrontier by blast

theorem frontier_invariant_witness:
  "sched_inv {} (snd (EnqueueSeed labsSeed acmeFrontier)) \<and> grows acmeFrontier (snd (EnqueueSeed labsSeed acmeFrontier))
   \<and> sched_inv ({} \<union> keysOf (collectionSeeds (snd (EnqueueSeed labsSeed acmeFrontier))))
       (snd (AdvanceSeedFrontier (snd (EnqueueSeed labsSeed acmeFrontier))))"
  by (rule frontier_invariant [where h = None and b = "()" and b' = "()"])
    (auto intro: r_into_rtranclp frontier_step.enqueue acme_commaFree acme_sched_inv)

text \<open>Submitted seeds are merged by key. A run starts with each key of the submitted seeds once, in
  the order of first submission, all of them in the first wave.\<close>

lemma initial_wave:
  assumes "\<forall>s \<in> set (Seeds p). commaFree s"
  shows "map seedKey (Seeds (InitializeSeedFrontier d p))
           = uniqueBy (\<lambda>k. k) {} (map (\<lambda>s. seedKey (normalizeSeed s)) (Seeds p))
       \<and> collectionSeeds (InitializeSeedFrontier d p) = Seeds (InitializeSeedFrontier d p)
       \<and> sched_inv {} (InitializeSeedFrontier d p)"
  using InitializeSeedFrontier_fields [OF assms] by blast

lemma initial_wave_witness:
  "map seedKey (Seeds acmeFrontier) = [''acme.com''] \<and> sched_inv {} acmeFrontier"
proof -
  have "uniqueBy (\<lambda>k. k) {} (map (\<lambda>s. seedKey (normalizeSeed s)) (Seeds acmeContext)) = [''acme.com'']"
    by code_simp
  then show ?thesis using initial_wave [OF acme_commaFree(3)] by (simp add: acmeFrontier_def)
qed

text \<open>C7: When a candidate is scheduled. Exactly when the frontier takes seeds for the next wave, the
  seed is not known yet, its evidence is strong and the installed handler does not decline it.\<close>

theorem promotion_schedules_iff:
  "res_Scheduled (fst (PromoteSeedCandidate h s ev p b)) \<longleftrightarrow>
       seedSchedulingModeLocked p = seedSchedulingNextWave \<and> seedKey (normalizeSeed s) \<notin> knownSeedKeys p
     \<and> shouldPromoteSeedCandidate (Some (promotedCandidate s ev p))
     \<and> \<not> declined h (promotionRequest (seedKey (normalizeSeed s)) (promotedCandidate s ev p)) b"
  by (rule PromoteSeedCandidate_scheduled)





section \<open>The asset table\<close>



text \<open>C11: The filter finds nothing to repair. On a table the append operations built, validation
  counts no duplicate asset and no dangling observation; only relations may be reported, and only
  those with an endpoint that is not canonical.\<close>

theorem filter_finds_nothing:
  assumes "assets_ok p"
  shows "\<exists>rels. fst (validateCanonicalGraph (EnsureAssetState p)) = (0, 0, rels)
     \<and> Errors (snd (MergeFilterProcess p)) = Errors (EnsureAssetState p)
         @ concat (map (relationErrors (assetIDs (EnsureAssetState p))) (Relations (EnsureAssetState p)))"
  using validate_ok [OF ensure_inv(1) [OF assms]] by (simp add: EnsureAssetState_def MergeFilterProcess_def)

theorem filter_finds_nothing_witness:
  "\<exists>rels. fst (validateCanonicalGraph (EnsureAssetState (AppendAssets [acmeAsset] acmeContext))) = (0, 0, rels)"
proof -
  have "assets_ok (AppendAssets [acmeAsset] acmeContext)"
    by (rule appended_ok [OF AppendAssets_spec [OF acme_assets_ok]]) (simp_all add: acme_cleanAsset)
  from filter_finds_nothing [OF this] show ?thesis by blast
qed

section \<open>Merging assets\<close>

text \<open>C12: What the merges of assets are. Source lists merge as sets, so the order in which observations
  arrive does not matter; ownership only rises (owned over uncertain over associated infrastructure);
  each enrichment stage keeps the state of higher priority, the incoming one at a tie.\<close>

theorem asset_merges:
  assumes "distinct (map fst ys)"
  shows "mergeSources a b = mergeSources b a \<and> mergeSources (mergeSources a b) c = mergeSources a (mergeSources b c)
     \<and> mergeSources (mergeSources a b) b = mergeSources a b
     \<and> ownershipRank (fst (mergeOwnershipState x y)) = max (ownershipRank x) (ownershipRank y)
     \<and> map_of (mergeEnrichmentStates xs ys) k = betterState (map_of xs k) (map_of ys k)"
  using mergeSources_comm mergeSources_assoc mergeSources_idem mergeOwnershipState_rank
    map_of_mergeEnrichmentStates [OF assms] by blast

theorem asset_merges_witness:
  "map_of (mergeEnrichmentStates [] [(''dns'', \<lparr>es_Status = ''retryable'', es_Cached = False, es_UpdatedAt = 1, es_Error = []\<rparr>)]) ''dns''
     = Some \<lparr>es_Status = ''retryable'', es_Cached = False, es_UpdatedAt = 1, es_Error = []\<rparr>"
  using asset_merges [where ys = "[(''dns'', \<lparr>es_Status = ''retryable'', es_Cached = False, es_UpdatedAt = 1, es_Error = []\<rparr>)]"
      and xs = "[]" and k = "''dns''"]
  by (simp add: betterState_def)

text \<open>C13: A resolved domain stays resolved under every later merge.\<close>

theorem resolution_is_final:
  assumes "asset_Type e = AssetTypeDomain"
    and "DomainResolutionStatusForAsset e = DomainResolutionStatusResolved"
    and "\<forall>d. asset_DomainDetails e = Some d \<longrightarrow> (\<forall>r \<in> set (dd_Records d). keptRecord r)"
  shows "DomainResolutionStatusForAsset (mergeAssetIntoCanonical e i k) = DomainResolutionStatusResolved"
  by (rule resolved_stays [OF assms])

theorem resolution_is_final_witness:
  "DomainResolutionStatusForAsset
     (mergeAssetIntoCanonical acmeAsset (acmeAsset\<lparr>asset_DomainDetails := None\<rparr>) ObservationKindEnrichment)
     = DomainResolutionStatusResolved"
proof -
  have "asset_Type acmeAsset = AssetTypeDomain"
    "DomainResolutionStatusForAsset acmeAsset = DomainResolutionStatusResolved"
    and "\<forall>r \<in> set [\<lparr>rec_Type = ''A'', rec_Value = ''192.0.2.1''\<rparr>]. keptRecord r"
    by code_simp+
  then show ?thesis by (intro resolution_is_final) (auto simp: acmeAsset_def)
qed

section \<open>The judges\<close>

text \<open>C14: The judge summary. There is one group for each question asked with at least one outcome, and
  a root is accepted in it exactly when some evaluation of that question collected it, discarded
  when it was evaluated and never collected. The order in which Go visits its map does not matter
  for this.\<close>

theorem judge_summary_verdicts:
  assumes "\<And>ks. mset (mapOrder ks) = mset ks" and "BuildJudgeSummary mapOrder es = Some s"
    and "g \<in> set (js_Groups s)" and "r \<noteq> []"
  shows "jgKey ` set (js_Groups s) = evaluationKey ` {e \<in> set es. eval_Outcomes e \<noteq> []}
     \<and> distinct (map jgKey (js_Groups s))
     \<and> (r \<in> jc_Root ` set (jg_Accepted g) \<longleftrightarrow> (\<exists>x \<in> set (outcomesFor (jgKey g) r es). out_Collect x))
     \<and> (r \<in> jc_Root ` set (jg_Discarded g) \<longleftrightarrow>
          outcomesFor (jgKey g) r es \<noteq> [] \<and> (\<forall>x \<in> set (outcomesFor (jgKey g) r es). \<not> out_Collect x))"
  using BuildJudgeSummary_groups [OF assms(1,2)] assms(3,4) by blast

theorem judge_summary_verdicts_witness:
  "''labs.io'' \<in> jc_Root ` set (jg_Accepted (hd (js_Groups (the (BuildJudgeSummary rev [labsEvaluation])))))"
proof -
  have sum: "BuildJudgeSummary rev [labsEvaluation] = Some (the (BuildJudgeSummary rev [labsEvaluation]))"
    and g: "hd (js_Groups (the (BuildJudgeSummary rev [labsEvaluation]))) \<in> set (js_Groups (the (BuildJudgeSummary rev [labsEvaluation])))"
    and out: "\<exists>x \<in> set (outcomesFor (jgKey (hd (js_Groups (the (BuildJudgeSummary rev [labsEvaluation]))))) ''labs.io'' [labsEvaluation]). out_Collect x"
    by code_simp+
  from judge_summary_verdicts [of rev, OF _ sum g, of "''labs.io''"] out show ?thesis by simp
qed

text \<open>The order of groups is not determined. \<open>BuildJudgeSummary\<close> sorts by collector, seed label,
  seed ID and scenario only; two groups that differ in their seed domains alone come in whatever
  order the map of groups is visited.\<close>

lemma judge_summary_order:
  "js_Groups (the (BuildJudgeSummary rev [labsEvaluation, labsEvaluation\<lparr>eval_SeedDomains := [''other.io'']\<rparr>]))
   \<noteq> js_Groups (the (BuildJudgeSummary (\<lambda>ks. ks) [labsEvaluation, labsEvaluation\<lparr>eval_SeedDomains := [''other.io'']\<rparr>]))"
  by code_simp

text \<open>A judge decision collects a root only when the model answered for that root, and its
  confidence lies between 0 and 1.\<close>

lemma decision_sound:
  "(jd_Collect (decideCandidate kind m r) \<longrightarrow> jd_Explicit (decideCandidate kind m r) \<and> m r \<noteq> None)
   \<and> 0 \<le> jd_Confidence (decideCandidate kind m r) \<and> jd_Confidence (decideCandidate kind m r) \<le> 1"
  using decideCandidate_bounds by (simp add: decideCandidate_def Let_def)

lemma decision_sound_witness:
  "jd_Explicit (decideCandidate ''llm_link'' [''labs.io'' \<mapsto> zeroLLMDecision\<lparr>llm_Collect := True\<rparr>] ''labs.io'')"
proof -
  have "jd_Collect (decideCandidate ''llm_link'' [''labs.io'' \<mapsto> zeroLLMDecision\<lparr>llm_Collect := True\<rparr>] ''labs.io'')"
    by code_simp
  with decision_sound [of "''llm_link''" "[''labs.io'' \<mapsto> zeroLLMDecision\<lparr>llm_Collect := True\<rparr>]" "''labs.io''"]
  show ?thesis by blast
qed

section \<open>The model and the search\<close>

text \<open>C15: A judge decides what it was asked. The answer of the ownership judge has one decision for each candidate,
  in their order, with a confidence between 0 and 1; it collects a root only when the model itself named
  that root and said to collect it.\<close>

theorem judge_answers:
  assumes "EvaluateCandidates net MarshalIndent x j q = Inr ds" and "or_Candidates q \<noteq> []"
  shows "map jd_Root ds = map oc_Root (or_Candidates q) \<and> list_all soundDecision ds
     \<and> (\<exists>content raw. completeChat x j judgeSystemPrompt (buildJudgePrompt MarshalIndent q) = Inr content
          \<and> parseLLMDecisions (lx_Decisions x) content = Inr raw
          \<and> jd_Root ` set (filter jd_Collect ds) \<subseteq> (RegistrableDomain net \<circ> llm_Root) ` set (filter llm_Collect raw))"
proof -
  from assms obtain content raw
    where answer: "completeChat x j judgeSystemPrompt (buildJudgePrompt MarshalIndent q) = Inr content"
      "parseLLMDecisions (lx_Decisions x) content = Inr raw" "ds = ownershipDecisions net q raw"
    by (auto simp: EvaluateCandidates_def split: sum.splits)
  have "jd_Root ` set (filter jd_Collect ds) \<subseteq> (RegistrableDomain net \<circ> llm_Root) ` set (filter llm_Collect raw)"
    unfolding answer(3) using collected_by_model by (fastforce simp: image_iff)
  with answer(1,2) EvaluateCandidates_spec [OF assms(1)] show ?thesis by (auto simp: list_all_iff)
qed

theorem judge_answers_witness:
  "map jd_Root (ownershipDecisions acmeNet acmeQuestion (projr (lx_Decisions acmeExchange [])))
     = [''cdn.net'', ''labs.io'']"
proof -
  have "or_Candidates acmeQuestion \<noteq> []" by (simp add: acmeQuestion_def)
  from judge_answers [OF acme_judge_answers [unfolded acmeJudge_def] this] show ?thesis by (simp add: acmeQuestion_def)
qed


section \<open>Reconsideration and passive collectors\<close>





text \<open>C19: A request is bounded. \<open>DoRequest\<close> waits at most twice, each time for at least a nanosecond and at most
  two seconds, and an answer that calls for no retry is returned at once.\<close>

theorem request_bounded:
  assumes "DoRequest send ended endsIn = (r, waits)"
  shows "length waits \<le> 2 \<and> (\<forall>w \<in> set waits. 0 < w \<and> w \<le> 2000 * millisecond)
     \<and> (\<not> shouldRetry (ended 1) (send 1) \<longrightarrow> r = outcomeOf (send 1) \<and> waits = [])"
proof -
  note run = assms [unfolded DoRequest_def]
  have "MaxBackoff DefaultRetryOptions = 2000 * millisecond" "MaxAttempts DefaultRetryOptions = 3" "millisecond > 0"
    by (simp_all add: DefaultRetryOptions_def millisecond_def)
  with attemptFrom_bounds [OF run] attemptFrom_first [of ended 1 send DefaultRetryOptions] run
  show ?thesis by auto
qed

theorem request_bounded_witness:
  "length (snd (DoRequest (\<lambda>n. Failed ''reset'') (\<lambda>_. False) (\<lambda>_. None))) \<le> 2"
  using request_bounded [of "\<lambda>n. Failed ''reset''" "\<lambda>_. False" "\<lambda>_. None"
      "fst (DoRequest (\<lambda>n. Failed ''reset'') (\<lambda>_. False) (\<lambda>_. None))"
      "snd (DoRequest (\<lambda>n. Failed ''reset'') (\<lambda>_. False) (\<lambda>_. None))"] by simp

section \<open>The DNS stage\<close>




text \<open>C22: A prioritized sweep is bounded. The names it probes are pairwise different registrable
  domains, none of them a root of the seed or a known candidate, and no more than the configured cap;
  preparing it finds no new candidate.\<close>

theorem dns_probes_bounded:
  assumes "co_variantSweepMode c = ''prioritized''"
  shows "case buildVariantProbeRoots net c s roots seedRoots cands of (probes, cands') \<Rightarrow>
     distinct probes \<and> int (length probes) \<le> max 0 (co_maxVariantProbesPerRoot c)
     \<and> set probes \<subseteq> {r. r \<noteq> [] \<and> RegistrableDomain net r = r} - set seedRoots - fst ` set cands
     \<and> fst ` set cands' = fst ` set cands"
proof -
  obtain probes cands' where run: "buildVariantProbeRoots net c s roots seedRoots cands = (probes, cands')" by fastforce
  show ?thesis using buildVariantProbeRoots_spec [OF run] assms by (auto simp: run probeOK_def)
qed

theorem dns_probes_bounded_witness:
  "distinct [''acme.net'', ''acme.org''] \<and> fst (buildVariantProbeRoots acmeNet acmeDNS acmeSeed [''acme.com''] [''acme.com''] [])
     = [''acme.net'', ''acme.org'']"
proof -
  have "co_variantSweepMode acmeDNS = ''prioritized''"
    and probes: "buildVariantProbeRoots acmeNet acmeDNS acmeSeed [''acme.com''] [''acme.com''] [] = ([''acme.net'', ''acme.org''], [])"
    by code_simp+
  from dns_probes_bounded [OF this(1), where net = acmeNet and s = acmeSeed and roots = "[''acme.com'']"
      and seedRoots = "[''acme.com'']" and cands = "[]"] probes
  show ?thesis by simp
qed

section \<open>The enrichers\<close>



text \<open>C24: The IP enricher settles. Once its lookups for an address have succeeded, another pass over the
  address changes nothing and reports nothing, since classifying ownership is idempotent; and the counts
  of names and the follow-up hosts of a pass do not depend on the order its goroutines report in.\<close>

theorem ip_enricher_settles:
  assumes "enrichOneIP net r toSeed a0 env = ((a, ob), env1)" and "\<not> needsIPEnrichment a" and "mset es' = mset es"
  shows "fst (enrichOneIP net r toSeed a env') = (a, None)
     \<and> hitsOf k (fold (ptrObserve net) es' ([], [])) = hitsOf k (fold (ptrObserve net) es ([], []))
     \<and> fst ` set (fst (fold (ptrObserve net) es' ([], []))) = fst ` set (fst (fold (ptrObserve net) es ([], [])))"
  using enrichOneIP_settles [OF assms(1,2)] ptrObserves_order [OF assms(3)] by blast

theorem ip_enricher_settles_witness:
  "let a = fst (fst (enrichOneIP acmeNet acmePTR (\<lambda>_. Some acmeSeed) acmeAddress acmeEnvironment))
   in asset_OwnershipState a = OwnershipStateOwned
     \<and> fst (enrichOneIP acmeNet acmePTR (\<lambda>_. Some acmeSeed) a acmeEnvironment) = (a, None)"
proof -
  let ?run = "enrichOneIP acmeNet acmePTR (\<lambda>_. Some acmeSeed) acmeAddress acmeEnvironment"
  have "\<not> needsIPEnrichment (fst (fst ?run))" and owned: "asset_OwnershipState (fst (fst ?run)) = OwnershipStateOwned"
    by code_simp+
  from ip_enricher_settles [OF _ this(1) refl, of acmeNet acmePTR "\<lambda>_. Some acmeSeed" acmeAddress acmeEnvironment "snd (fst ?run)" "snd ?run"]
  owned show ?thesis by (simp add: Let_def)
qed

section \<open>Checkpoints\<close>



text \<open>The relations do not survive a resume. A loaded checkpoint still has them, but it does not know that
  its asset table was initialized, and the first operation on the assets drops every relation.\<close>

lemma relations_lost:
  "Relations (snap_Context (loadedSnapshot (persistSnapshot s))) = Relations (snap_Context s)
   \<and> Relations (EnsureAssetState (snap_Context (loadedSnapshot (persistSnapshot s)))) = []"
  using loaded_table ensure_drops_relations by blast

text \<open>A judged pivot gets a new identity at every checkpoint. The broker never learns of the pivots the
  judges suggest, so two checkpoints of one run store one and the same root under different IDs.\<close>

lemma judged_pivot_gets_new_id:
  assumes "checkpointSnapshot net mo pr b snap env = (s, env1)" and "checkpointSnapshot net mo pr' b' snap' env2 = (s', env3)"
    and "later env1 env2" and "inj (env_id env ''pivot'')"
    and "map_of (broker_pivots b) k = None" and "map_of (broker_pivots b') k = None"
    and "map_of (snap_Pivots s) k = Some p" and "map_of (snap_Pivots s') k = Some p'"
  shows "pp_ID p' \<noteq> pp_ID p"
  by (rule judged_pivot_renamed [OF assms])

lemma judged_pivot_gets_new_id_witness:
  "\<exists>p p'. map_of (snap_Pivots (fst judgedOnce)) ''labs.io'' = Some p \<and> map_of (snap_Pivots (fst judgedTwice)) ''labs.io'' = Some p'
     \<and> pp_ID p' \<noteq> pp_ID p"
proof -
  have "map_of (snap_Pivots (fst judgedOnce)) ''labs.io'' \<noteq> None" "map_of (snap_Pivots (fst judgedTwice)) ''labs.io'' \<noteq> None"
    by code_simp+
  then obtain p p' where p: "map_of (snap_Pivots (fst judgedOnce)) ''labs.io'' = Some p"
    "map_of (snap_Pivots (fst judgedTwice)) ''labs.io'' = Some p'" by auto
  have inj: "inj (env_id countingEnvironment ''pivot'')" by (simp add: countingEnvironment_def inj_def)
  have new: "map_of (broker_pivots (newPivotBroker RunModeManual [])) ''labs.io'' = None" by (simp add: newPivotBroker_def)
  have calls: "checkpointSnapshot acmeNet rev zeroProgress (newPivotBroker RunModeManual [])
      (storedRun\<lparr>snap_Context := (snap_Context storedRun)\<lparr>JudgeEvaluations := [labsEvaluation]\<rparr>\<rparr>) countingEnvironment
        = (fst judgedOnce, snd judgedOnce)"
    "checkpointSnapshot acmeNet rev zeroProgress (newPivotBroker RunModeManual []) (fst judgedOnce) (snd judgedOnce)
        = (fst judgedTwice, snd judgedTwice)"
    by (simp_all add: judgedOnce_def judgedTwice_def)
  from judged_pivot_gets_new_id [OF calls later_refl inj new new p] p show ?thesis by blast
qed

section \<open>Pivots\<close>

text \<open>C26: A decision stands. When \<open>DecidePivot\<close> succeeds, the user owns the run and the pivot was pending;
  the stored snapshot has the same roots, and the broker a worker loads from it answers every later
  candidate of that root with the decision.\<close>

theorem decision_stands:
  assumes "savedIn r (snd w) = Some snap" and "distinct (map fst (snap_Pivots snap))"
    and "DecidePivot (memoryServices publish factory) net mo user r pivotID decision w = (Inr rec, w')"
  shows "\<exists>key p x. findPivotByID (snap_Pivots snap) pivotID = Some (key, p)
     \<and> pp_Status p = PivotDecisionPendingReview \<and> userOwnsRun user (snap_Run snap)
     \<and> savedIn r (snd w') = Some x
     \<and> map fst (snap_Pivots x) = map fst (snap_Pivots snap)
     \<and> (\<forall>c \<in> {c. promotionRoot net c = key}. fst (HandleCandidatePromotion net c (loadBroker (loadedSnapshot x), env))
            = (if decision = PivotDecisionInputAccepted then CandidatePromotionAccepted else CandidatePromotionRejected))"
proof -
  obtain key p now where own: "userOwnsRun user (snap_Run snap)"
    and f: "findPivotByID (snap_Pivots snap) pivotID = Some (key, p)" and pend: "pp_Status p = PivotDecisionPendingReview"
    and saved: "savedIn r (snd w') = Some (persistSnapshot (decidedSnapshot mo key (decided user decision now p)
           (decidedContext decision p snap) now snap))" (is "_ = Some ?x")
    by (rule memory.DecidePivot_success [OF assms(1,3)])
  have key: "key \<in> fst ` set (snap_Pivots snap)" using f by (auto simp: findPivotByID_def find_Some_iff) (metis fst_conv nth_mem image_eqI)
  have pivots: "snap_Pivots ?x = AList.update key (decided user decision now p) (snap_Pivots snap)"
    by (simp add: decidedSnapshot_fields)
  have "map_of (broker_pivots (loadBroker (loadedSnapshot ?x))) key = Some (decided user decision now p)"
    by (simp add: loadBroker_def loadedSnapshot_def newPivotBroker_def decidedSnapshot_fields update_conv')
  then have "fst (HandleCandidatePromotion net c (loadBroker (loadedSnapshot ?x), env))
       = (if decision = PivotDecisionInputAccepted then CandidatePromotionAccepted else CandidatePromotionRejected)"
    if "promotionRoot net c = key" for c
    using broker_answers that by (simp add: decidedStatus_def decisionOfStatus_def)
  then show ?thesis using own f pend saved key pivots by (simp add: update_keys)
qed

theorem decision_stands_witness:
  "\<exists>x. savedIn ''r1'' (snd (snd (DecidePivot acmeServices acmeNet rev acmeUser ''r1'' ''p1'' PivotDecisionInputRejected pausedWorld))) = Some x
     \<and> map fst (snap_Pivots x) = [''labs.io'']"
proof -
  have "distinct (map fst (snap_Pivots (persistSnapshot pausedRun)))" "map fst (snap_Pivots (persistSnapshot pausedRun)) = [''labs.io'']"
    by (simp_all add: pausedRun_def)
  with decision_stands [OF paused_r1 _ paused_decision(1) [unfolded acmeServices_def]]
  show ?thesis unfolding acmeServices_def by metis
qed

text \<open>C27: A pivot is decided once. After a successful decision every further decision on the same pivot, by
  whomever, is refused and changes nothing.\<close>

theorem decided_once:
  assumes "savedIn r (snd w) = Some snap" and "distinct (map fst (snap_Pivots snap))"
    and "DecidePivot (memoryServices publish factory) net mo user r pivotID decision w = (Inr rec, w')"
  shows "\<exists>e. DecidePivot (memoryServices publish factory) net mo user' r pivotID decision' w' = (Inl e, w')"
proof -
  obtain key p now where f: "findPivotByID (snap_Pivots snap) pivotID = Some (key, p)"
    and saved: "savedIn r (snd w') = Some (persistSnapshot (decidedSnapshot mo key (decided user decision now p)
           (decidedContext decision p snap) now snap))" (is "_ = Some ?x")
    by (rule memory.DecidePivot_success [OF assms(1,3)])
  have "pp_ID p = pivotID" using f by (rule findPivotByID_ID)
  with f assms(2) have f': "findPivotByID (snap_Pivots ?x) pivotID = Some (key, decided user decision now p)"
    by (simp add: decidedSnapshot_fields findPivotByID_update)
  show ?thesis
  proof (cases "userOwnsRun user' (snap_Run ?x)")
    case True
    have "pp_Status (decided user decision now p) \<noteq> PivotDecisionPendingReview" by (simp add: decidedStatus_def)
    from memory.DecidePivot_not_pending [OF saved True f' this] show ?thesis by blast
  next
    case False
    from memory.DecidePivot_forbidden [OF saved False] show ?thesis by blast
  qed
qed

theorem decided_once_witness:
  "\<exists>e. fst (DecidePivot acmeServices acmeNet rev acmeUser ''r1'' ''p1'' PivotDecisionInputAccepted
         (snd (DecidePivot acmeServices acmeNet rev acmeUser ''r1'' ''p1'' PivotDecisionInputRejected pausedWorld))) = Inl e"
proof -
  have "distinct (map fst (snap_Pivots (persistSnapshot pausedRun)))" by (simp add: pausedRun_def)
  from decided_once [OF paused_r1 this paused_decision(1) [unfolded acmeServices_def], of _ PivotDecisionInputAccepted]
  show ?thesis unfolding acmeServices_def by (metis fst_conv)
qed

text \<open>An accepted seed can be lost. When the stored frontier takes no more seeds, accepting a pivot
  reports success, but the seed is not in the stored context and the scheduler is unchanged: the
  result of \<open>EnqueueSeed\<close> is ignored.\<close>

lemma accepted_seed_lost:
  assumes "savedIn r (snd w) = Some snap"
    and "seedSchedulingModeLocked (RestoreSchedulerState (snap_SchedulerState snap) (snap_Context snap)) = seedSchedulingReject"
    and "DecidePivot (memoryServices publish factory) net mo user r pivotID PivotDecisionInputAccepted w = (Inr rec, w')"
  shows "pr_Status rec = PivotDecisionAccepted
     \<and> (\<exists>x. savedIn r (snd w') = Some x \<and> Seeds (snap_Context x) = Seeds (snap_Context snap)
           \<and> snap_SchedulerState x = snap_SchedulerState snap)"
proof -
  obtain key p now where saved: "savedIn r (snd w') = Some (persistSnapshot (decidedSnapshot mo key
        (decided user PivotDecisionInputAccepted now p) (decidedContext PivotDecisionInputAccepted p snap) now snap))"
    and "rec = buildPivotRecord net (decided user PivotDecisionInputAccepted now p)"
    by (rule memory.DecidePivot_success [OF assms(1,3)])
  moreover define ctx where "ctx = decidedContext PivotDecisionInputAccepted p snap"
  moreover have "ctx = RestoreSchedulerState (snap_SchedulerState snap) (snap_Context snap)"
    unfolding ctx_def using EnqueueSeed_reject [OF assms(2)] by (simp add: decidedContext_def Let_def)
  then have "Seeds ctx = Seeds (snap_Context snap)" "SnapshotSchedulerState ctx = snap_SchedulerState snap"
    by (simp_all only: snapshot_restore) (simp add: RestoreSchedulerState_def)
  ultimately show ?thesis
    by (simp add: decidedSnapshot_fields snapshot_restore buildPivotRecord_def decidedStatus_def)
qed

lemma accepted_seed_lost_witness:
  "Seeds (snap_Context (the (savedIn ''r1'' (snd (snd
      (DecidePivot acmeServices acmeNet rev acmeUser ''r1'' ''p1'' PivotDecisionInputAccepted pausedWorld)))))) = [acmeSeed]"
proof -
  have "seedSchedulingModeLocked (RestoreSchedulerState (snap_SchedulerState (persistSnapshot pausedRun))
      (snap_Context (persistSnapshot pausedRun))) = seedSchedulingReject"
    and "Seeds (snap_Context (persistSnapshot pausedRun)) = [acmeSeed]"
    by code_simp+
  then show ?thesis
    using accepted_seed_lost [OF paused_r1 _ paused_decision(2) [unfolded acmeServices_def]] by (auto simp: acmeServices_def)
qed

text \<open>C28: A decision about a root is final. Whatever candidates the broker handles in between, a later
  candidate with the same root gets the decision of the first.\<close>

theorem broker_is_consistent:
  assumes "promotionRoot net c' = promotionRoot net c"
  shows "fst (HandleCandidatePromotion net c'
           (fold (\<lambda>c b. snd (HandleCandidatePromotion net c b)) cs (snd (HandleCandidatePromotion net c st))))
       = fst (HandleCandidatePromotion net c st)"
  by (rule broker.same_root_same_decision [OF assms])

theorem broker_is_consistent_witness:
  "fst (HandleCandidatePromotion acmeNet labsRequest
      (snd (HandleCandidatePromotion acmeNet labsRequest (newPivotBroker RunModeManual [], acmeEnvironment))))
    = CandidatePromotionPendingReview"
proof -
  have "fst (HandleCandidatePromotion acmeNet labsRequest (newPivotBroker RunModeManual [], acmeEnvironment))
      = CandidatePromotionPendingReview" by code_simp
  with broker_is_consistent [OF refl, of acmeNet labsRequest "[]"] show ?thesis by simp
qed

text \<open>C29: A manual run expands by review only. With the broker of a manual run installed, a candidate
  is scheduled only when its root has a pivot that was accepted before.\<close>

theorem manual_needs_review:
  assumes "broker_mode (fst st) = RunModeManual"
    and "res_Scheduled (fst (PromoteSeedCandidate (Some (HandleCandidatePromotion net)) s ev p st))"
  shows "\<exists>pv. map_of (broker_pivots (fst st))
             (promotionRoot net (promotionRequest (seedKey (normalizeSeed s)) (promotedCandidate s ev p))) = Some pv
           \<and> (pp_Status pv = PivotDecisionAccepted \<or> pp_Status pv = PivotDecisionAutoAccepted)"
  by (rule manual_scheduled_accepted [OF assms])

theorem manual_needs_review_witness:
  "\<exists>pv. map_of [(''labs.io'', newPivotState ''p1'' labsRequest PivotDecisionAccepted 1 1)]
     (promotionRoot acmeNet (promotionRequest (seedKey (normalizeSeed labsSeed)) (promotedCandidate labsSeed labsEvidence acmeFrontier)))
       = Some pv \<and> (pp_Status pv = PivotDecisionAccepted \<or> pp_Status pv = PivotDecisionAutoAccepted)"
proof -
  let ?st = "(newPivotBroker RunModeManual [(''labs.io'', newPivotState ''p1'' labsRequest PivotDecisionAccepted 1 1)], acmeEnvironment)"
  have "broker_mode (fst ?st) = RunModeManual"
    "res_Scheduled (fst (PromoteSeedCandidate (Some (HandleCandidatePromotion acmeNet)) labsSeed labsEvidence acmeFrontier ?st))"
    by code_simp+
  from manual_needs_review [OF this] show ?thesis by (simp add: newPivotBroker_def)
qed


text \<open>C31: One worker per run. While the lease a worker claimed has not run out, no claim of another
  worker is granted, whatever the others did in between.\<close>

theorem lease_excludes_others:
  assumes "claimed (ClaimRunExecution r l' start ttl s) = (True, s')" and "l' \<noteq> []"
    and "memory_leases.others_run l' (start + ttl) s' t" and "l \<noteq> l'" and "now < start + ttl"
  shows "claimed (ClaimRunExecution r l now ttl' t) = (False, t)"
  by (rule memory_leases.second_claim_fails [OF assms])

theorem lease_excludes_others_witness:
  "fst (claimed (ClaimRunExecution ''r1'' ''w2'' 5 10 (snd (claimed (ClaimRunExecution ''r1'' ''w1'' 0 10 (UpsertRun acmeRun NewMemoryProjectionStore)))))) = False"
proof -
  let ?c = "claimed (ClaimRunExecution ''r1'' ''w1'' 0 10 (UpsertRun acmeRun NewMemoryProjectionStore))"
  have "fst ?c" by code_simp
  then have c: "?c = (True, snd ?c)" by (cases ?c) simp
  have "memory_leases.others_run ''w1'' (0 + 10) (snd ?c) (snd ?c)" by (rule memory_leases.others_run.nothing)
  from lease_excludes_others [OF c _ this, of "''w2''" 5 10] show ?thesis by simp
qed

section \<open>The collectors of the web\<close>


text \<open>C33: Reading sitemaps is bounded and stays in scope. The collector reads at most 10 different documents of a
  seed and 500 pages from them; the hosts it reports are under the roots of the seed, and the roots it puts
  to the judge, at most 25 with at most 3 sample pages each, are different and are not.\<close>

theorem sitemap_bounded:
  fixes net ul fetch decode judge s
  defines "c \<equiv> NewSitemapCollector ul fetch decode judge"
  defines "w \<equiv> crawlSitemaps net c s"
  shows "length (sw_seenDocs w) \<le> 10 \<and> distinct (sw_seenDocs w) \<and> length (sw_seenPages w) \<le> 500
     \<and> RegistrableDomain net ` set (sw_hosts w) \<subseteq> scopeRoots net s
     \<and> length (sw_candidates w) \<le> 25 \<and> distinct (map fst (sw_candidates w))
     \<and> fst ` set (sw_candidates w) \<inter> insert [] (scopeRoots net s) = {}
     \<and> (\<lambda>x. length (sc_samples x)) ` snd ` set (sw_candidates w) \<subseteq> {0..3}
     \<and> oc_Root ` set (sitemapQuestion w) \<subseteq> fst ` set (sw_candidates w)"
proof -
  have ok: "sitemapOK net c (scopeRoots net s) w" unfolding w_def by (rule crawlSitemaps_ok)
  have limits: "sm_maxDocs c = 10" "sm_maxURLs c = 500" "sm_maxJudgeCandidates c = 25" "sm_maxSamples c = 3"
    by (simp_all add: c_def NewSitemapCollector_def)
  show ?thesis
    using ok limits sitemapQuestion_roots [of w] by (auto simp: sitemapOK_def docsOK_def rootsOK_def)
qed

section \<open>Registrations and networks\<close>


text \<open>C35: The addresses of a network. The addresses looked up are exactly the first ones of the block of the
  prefix, in order, up to the limit; the last block of the address space ends without wrapping around.\<close>

theorem networks_enumerated:
  "enumeratePrefixIPs p limit =
     map (\<lambda>n. AddrString (of_nat n)) [blockStart p ..< blockStart p + min (nat limit) (blockSize p)]
   \<and> blockStart p + blockSize p \<le> 2 ^ 32"
  using enumeratePrefixIPs_spec block_bound by blast

text \<open>C36: Looking up a registration. WHOIS data of the two lookups is used in their order, and when neither has it
  the failure that says more is kept; the lookup retries at most twice, after 250 and 500 milliseconds.\<close>

theorem registration_lookup:
  "lookupDomainWHOIS g domain =
     (case (lookupDomainWHOISWith g domain, lookupDomainWHOISViaSystemWith g domain) of
        (Registered d, _) \<Rightarrow> Registered d
      | (_, Registered d) \<Rightarrow> Registered d
      | (_, LookupFailed e) \<Rightarrow> LookupFailed e
      | (LookupFailed e, _) \<Rightarrow> LookupFailed e
      | _ \<Rightarrow> UnsupportedRegistrationData)
   \<and> snd (whoisAttempts ctx lookup 1 whoisInitialBackoff None)
       \<in> {[], [250 * millisecond], [250 * millisecond, 500 * millisecond]}"
  using lookupDomainWHOIS_spec whois_waits by blast

section \<open>The API\<close>

text \<open>C37: Nothing reaches the service unauthorized. When a request changes anything, it was a \<open>POST\<close>, its
  token was verified for a user with a verified address on the list, and it came from no origin or an
  allowed one.\<close>

theorem api_guarded:
  assumes "snd (NewHandler a verifier allowedOrigins r w) \<noteq> w"
  shows "hr_Method r = ''POST''
     \<and> (\<exists>user. authenticateRequest verifier (hr_Authorization r) = Inr user \<and> user_EmailVerified user
          \<and> IsAllowedEmail (user_Email user))
     \<and> (TrimSpace (hr_Origin r) = [] \<or> TrimSpace (hr_Origin r) \<in> TrimSpace ` set allowedOrigins)"
  using NewHandler_guarded [of verifier allowedOrigins r a w] assms by (auto simp: authorized_def)

theorem api_guarded_witness:
  "\<exists>user. authenticateRequest acmeVerifier (hr_Authorization decisionRequest) = Inr user \<and> user_EmailVerified user
     \<and> IsAllowedEmail (user_Email user)"
  using api_guarded [of acmeAPI acmeVerifier "[''https://app'']" decisionRequest "[]"]
  by (simp add: decision_request_answer)

section \<open>The live projection\<close>

text \<open>C38: The read model is the list of the assets in export order, sorted stably by the key of the rows, and
  has exactly one trace for each row, in the same order.\<close>

theorem read_model:
  "fst (buildProjectedAssetReadModel net zone r p)
     = sort_key rowKey (map (projectedRow net zone r p) (sort_key (exportKey net) (Assets p)))
   \<and> map tr_AssetID (snd (buildProjectedAssetReadModel net zone r p))
     = map row_AssetID (fst (buildProjectedAssetReadModel net zone r p))"
  using read_model_rows read_model_traces by blast

text \<open>C39: The trace of an asset is a tree. The first node is the root, and every other node has a parent that
  comes before it.\<close>

theorem trace_tree:
  "\<exists>rest. snd (buildTraceNodes zone a src secs cs obs rels em sm) = rootNode a src secs # rest
     \<and> tn_ID (rootNode a src secs) = fst (buildTraceNodes zone a src secs cs obs rels em sm)
     \<and> parented {tn_ID (rootNode a src secs)} rest"
  using buildTraceNodes_tree [OF prod.collapse [symmetric]] by metis

text \<open>The contributors of a trace are partitioned by seed: no contributor is lost or repeated, no group is
  empty, no two groups have one key, and a contributor with a seed is in the group of that seed.\<close>

lemma seed_groups:
  "seedGroupsOK (groupTraceContributorsBySeed cs sm)
   \<and> mset (concat (map sg_Contributors (groupTraceContributorsBySeed cs sm))) = mset cs"
  using seed_groups_partition by blast

text \<open>Related links. A trace links at most eight assets, all different and not itself, which share the
  registrable domain or an enumeration with it; it misses one only when it has eight.\<close>

lemma trace_links:
  "length (buildTraceLinks r row rows) \<le> 8 \<and> distinct (map tl_AssetID (buildTraceLinks r row rows))
   \<and> tl_AssetID ` set (buildTraceLinks r row rows) \<subseteq> row_AssetID ` {c \<in> set rows. related row c} - {row_AssetID row}
   \<and> (length (buildTraceLinks r row rows) = 8
      \<or> tl_AssetID ` set (buildTraceLinks r row rows) = row_AssetID ` {c \<in> set rows. related row c} - {row_AssetID row})"
proof -
  note s = buildTraceLinks_spec [where runID = r and row = row and rows = rows]
  have sub: "tl_AssetID ` set (buildTraceLinks r row rows) \<subseteq> row_AssetID ` {c \<in> set rows. related row c} - {row_AssetID row}"
    using s(3) s(4) by (auto simp: image_iff) metis
  moreover have "row_AssetID ` {c \<in> set rows. related row c} - {row_AssetID row} \<subseteq> tl_AssetID ` set (buildTraceLinks r row rows)"
    if "length (buildTraceLinks r row rows) < 8" using s(5) [OF that] by auto
  ultimately show ?thesis using s(1,2) by (cases "length (buildTraceLinks r row rows) = 8") auto
qed

section \<open>The exports\<close>

text \<open>C40: The exports are complete. Every asset has one row in the CSV file, and every domain and every address
  one row in one sheet of the workbook.\<close>

theorem exports_complete:
  "mset (map hd (tl (csvRows net zone as))) = image_mset asset_ID (mset as)
   \<and> rowIDs (xs_domains (xlsxRows net zone as)) + rowIDs (xs_subdomains (xlsxRows net zone as))
       + rowIDs (xs_ips (xlsxRows net zone as))
     = image_mset (\<lambda>a. Text (asset_ID a))
         (filter_mset (\<lambda>a. asset_Type a = AssetTypeDomain \<or> asset_Type a = AssetTypeIP) (mset as))"
  using csv_complete xlsx_complete by blast

end
